(* ===== verification/Llmxy_Prelude.thy ===== *)
theory Llmxy_Prelude
  imports Complex_Main "HOL-Library.Sublist" "HOL-Library.Multiset"
begin

text \<open>
  Shared vocabulary of the development: the named collections the component proofs draw on,
  the result type of code that raises, keyed tables (a database table is the list of its rows,
  each with an integer primary key), the interface of such a table as a locale, and generic
  lemmas on lists that several components need.
\<close>

named_theorems row_simps \<open>lookups and updates of keyed tables\<close>
named_theorems text_simps \<open>evaluation of the string functions of the standard library\<close>

section \<open>Results of code that raises\<close>

definition bind_result :: "'e + 'a \<Rightarrow> ('a \<Rightarrow> 'e + 'b) \<Rightarrow> 'e + 'b" where
  "bind_result r f = (case r of Inl e \<Rightarrow> Inl e | Inr a \<Rightarrow> f a)"

lemma bind_result_simps [simp]:
  "bind_result (Inl e) f = Inl e"
  "bind_result (Inr a) f = f a"
  by (simp_all add: bind_result_def)

lemma bind_result_eq_Inr:
  "bind_result r f = Inr b \<longleftrightarrow> (\<exists>a. r = Inr a \<and> f a = Inr b)"
  by (cases r) auto

lemma bind_result_eq_Inl:
  "bind_result r f = Inl e \<longleftrightarrow> r = Inl e \<or> (\<exists>a. r = Inr a \<and> f a = Inl e)"
  by (cases r) auto

section \<open>Keyed tables\<close>

text \<open>
  \<open>db.get(Model, id)\<close> and \<open>UPDATE ... WHERE id = ...\<close> on a table given by the list of its
  rows; \<open>rid\<close> reads the primary key. The order of the list is the order in which the database
  returns rows that an \<open>ORDER BY\<close> does not distinguish: it is arbitrary, and every theorem is
  stated for an arbitrary table.
\<close>

definition row_get :: "('r \<Rightarrow> int) \<Rightarrow> int \<Rightarrow> 'r list \<Rightarrow> 'r option" where
  "row_get rid i t = find (\<lambda>r. rid r = i) t"

definition row_upd :: "('r \<Rightarrow> int) \<Rightarrow> int \<Rightarrow> ('r \<Rightarrow> 'r) \<Rightarrow> 'r list \<Rightarrow> 'r list" where
  "row_upd rid i f t = map (\<lambda>r. if rid r = i then f r else r) t"

definition row_del :: "('r \<Rightarrow> int) \<Rightarrow> int \<Rightarrow> 'r list \<Rightarrow> 'r list" where
  "row_del rid i t = filter (\<lambda>r. rid r \<noteq> i) t"

text \<open>
  The contract the operations rely on: a lookup finds a row with the key exactly when there is
  one, an update changes the rows with the key and no other, a deletion removes them.
\<close>

locale row_table =
  fixes rid :: "'r \<Rightarrow> int"
    and get :: "int \<Rightarrow> 'r list \<Rightarrow> 'r option"
    and upd :: "int \<Rightarrow> ('r \<Rightarrow> 'r) \<Rightarrow> 'r list \<Rightarrow> 'r list"
    and del :: "int \<Rightarrow> 'r list \<Rightarrow> 'r list"
  assumes get_Some: "get i t = Some r \<Longrightarrow> r \<in> set t \<and> rid r = i"
    and get_None: "get i t = None \<longleftrightarrow> i \<notin> rid ` set t"
    and upd_Nil: "upd i f [] = []"
    and upd_Cons: "upd i f (r # t) = (if rid r = i then f r else r) # upd i f t"
    and get_Cons: "get i (r # t) = (if rid r = i then Some r else get i t)"
    and del_set: "set (del i t) = {r \<in> set t. rid r \<noteq> i}"
begin

lemma upd_ids:
  assumes "\<And>r. rid (f r) = rid r"
  shows "map rid (upd i f t) = map rid t"
  using assms by (induction t) (auto simp: upd_Nil upd_Cons)

lemma length_upd: "length (upd i f t) = length t"
  by (induction t) (auto simp: upd_Nil upd_Cons)

lemma get_Nil: "get i [] = None"
  by (simp add: get_None)

lemma get_upd:
  assumes "\<And>r. rid (f r) = rid r"
  shows "get j (upd i f t) = (if j = i then map_option f (get j t) else get j t)"
  using assms by (induction t) (auto simp: upd_Nil upd_Cons get_Nil get_Cons)

lemma get_upd_same:
  assumes "\<And>r. rid (f r) = rid r"
  shows "get i (upd i f t) = map_option f (get i t)"
  using assms by (simp add: get_upd)

lemma get_upd_other: "j \<noteq> i \<Longrightarrow> (\<And>r. rid (f r) = rid r) \<Longrightarrow> get j (upd i f t) = get j t"
  by (simp add: get_upd)

lemma get_unique: "distinct (map rid t) \<Longrightarrow> r \<in> set t \<Longrightarrow> get (rid r) t = Some r"
  by (induction t) (auto simp: get_Cons)

lemma upd_absent: "i \<notin> rid ` set t \<Longrightarrow> upd i f t = t"
  by (induction t) (auto simp: upd_Nil upd_Cons)

lemma upd_cong: "(\<And>r. r \<in> set t \<Longrightarrow> rid r = i \<Longrightarrow> f r = g r) \<Longrightarrow> upd i f t = upd i g t"
  by (induction t) (auto simp: upd_Nil upd_Cons)

lemma upd_upd:
  assumes "\<And>r. rid (g r) = rid r"
  shows "upd i f (upd i g t) = upd i (\<lambda>r. f (g r)) t"
  using assms by (induction t) (auto simp: upd_Nil upd_Cons)

lemma map_upd:
  assumes "\<And>r. h (f r) = h r"
  shows "map h (upd i f t) = map h t"
  using assms by (induction t) (auto simp: upd_Nil upd_Cons)

lemma sum_upd:
  fixes g :: "'r \<Rightarrow> int"
  assumes "distinct (map rid t)" and "get i t = Some r"
  shows "sum_list (map g (upd i f t)) = sum_list (map g t) - g r + g (f r)"
  using assms
proof (induction t)
  case Nil
  then show ?case by (simp add: get_Nil)
next
  case (Cons a t)
  show ?case
  proof (cases "rid a = i")
    case True
    with Cons.prems have "i \<notin> rid ` set t" by auto
    with True Cons.prems show ?thesis by (simp add: upd_Cons get_Cons upd_absent)
  next
    case False
    with Cons show ?thesis by (simp add: upd_Cons get_Cons)
  qed
qed

lemma set_upd_frame: "r \<in> set t \<Longrightarrow> rid r \<noteq> i \<Longrightarrow> r \<in> set (upd i f t)"
  by (induction t) (auto simp: upd_Nil upd_Cons)

lemma get_del_same: "get i (del i t) = None"
  by (auto simp: get_None del_set)

end

interpretation row: row_table rid "row_get rid" "row_upd rid" "row_del rid"
  for rid :: "'r \<Rightarrow> int"
proof unfold_locales
  show "row_get rid i t = Some r \<Longrightarrow> r \<in> set t \<and> rid r = i" for i t r
    by (induction t) (auto simp: row_get_def split: if_splits)
  show "row_get rid i t = None \<longleftrightarrow> i \<notin> rid ` set t" for i t
    by (auto simp: row_get_def find_None_iff)
qed (auto simp: row_upd_def row_get_def row_del_def)

lemmas row_get_upd [row_simps] = row.get_upd
lemmas row_upd_ids [row_simps] = row.upd_ids
lemmas row_get_del [row_simps] = row.get_del_same

lemma row_get_append:
  "row_get rid i (t @ u) = (case row_get rid i t of None \<Rightarrow> row_get rid i u | Some r \<Rightarrow> Some r)"
  by (induction t) (auto simp: row_get_def)

lemma row_get_del_other: "i \<noteq> j \<Longrightarrow> row_get rid i (row_del rid j t) = row_get rid i t"
  by (induction t) (auto simp: row_get_def row_del_def)

section \<open>Lists\<close>

lemma sum_list_nonneg_int:
  "(\<And>x. x \<in> set xs \<Longrightarrow> (0::int) \<le> f x) \<Longrightarrow> 0 \<le> sum_list (map f xs)"
  by (induction xs) auto

lemma sum_list_filter_sort_key:
  fixes f :: "'r \<Rightarrow> int"
  shows "sum_list (map f (sort_key k xs)) = sum_list (map f xs)"
  by (metis mset_map mset_sort sum_mset_sum_list)

lemma distinct_map_sort_key: "distinct (map f (sort_key k xs)) = distinct (map f xs)"
  by (metis mset_eq_imp_distinct_iff mset_map mset_sort)

definition py_dedup :: "'a list \<Rightarrow> 'a list" where
  \<comment> \<open>\<open>list(dict.fromkeys(xs))\<close>: the first occurrence of each element, in order\<close>
  "py_dedup xs = rev (foldl (\<lambda>acc x. if x \<in> set acc then acc else x # acc) [] xs)"

section \<open>Invariants of step relations\<close>

text \<open>
  A property that every step keeps holds in every state reachable from one that has it.
\<close>

locale step_invariant =
  fixes step :: "'s \<Rightarrow> 's \<Rightarrow> bool"
    and inv :: "'s \<Rightarrow> bool"
  assumes step_inv: "step s s' \<Longrightarrow> inv s \<Longrightarrow> inv s'"
begin

lemma reach_inv: "step\<^sup>*\<^sup>* s s' \<Longrightarrow> inv s \<Longrightarrow> inv s'"
  by (induction rule: rtranclp_induct) (auto dest: step_inv)

end

end
