(* ===== verification/Py_Calendar.thy ===== *)
theory Py_Calendar
  imports Llmxy_Prelude
begin

text \<open>
  Aware UTC datetimes and the part of Python's proleptic Gregorian calendar that the period
  arithmetic needs. A datetime is the number of microseconds since 1970-01-01T00:00Z; converting
  an aware datetime to UTC does not change the instant. The conversions between ordinals and
  (year, month, day) follow the algorithms of the standard library. Years are unbounded here
  (the library stops at 9999).
\<close>

type_synonym datetime = int

abbreviation us_per_second :: int where "us_per_second \<equiv> 1000000"
abbreviation us_per_day :: int where "us_per_day \<equiv> 86400000000"

definition epoch_ordinal :: int where "epoch_ordinal = 719163"

section \<open>Ordinals\<close>

definition is_leap :: "int \<Rightarrow> bool" where
  "is_leap y \<longleftrightarrow> y mod 4 = 0 \<and> (y mod 100 \<noteq> 0 \<or> y mod 400 = 0)"

definition days_before_year :: "int \<Rightarrow> int" where
  "days_before_year year = (let y = year - 1 in y * 365 + y div 4 - y div 100 + y div 400)"

definition cumulative_days :: "nat \<Rightarrow> int" where
  "cumulative_days m =
     (if m \<le> 1 then 0 else if m = 2 then 31 else if m = 3 then 59 else if m = 4 then 90
      else if m = 5 then 120 else if m = 6 then 151 else if m = 7 then 181
      else if m = 8 then 212 else if m = 9 then 243 else if m = 10 then 273
      else if m = 11 then 304 else 334)"

definition days_in_month_leap :: "bool \<Rightarrow> nat \<Rightarrow> int" where
  "days_in_month_leap lp m =
     (if m = 2 then (if lp then 29 else 28)
      else if m = 4 \<or> m = 6 \<or> m = 9 \<or> m = 11 then 30 else 31)"

definition preceding_days :: "bool \<Rightarrow> nat \<Rightarrow> int" where
  "preceding_days lp m = cumulative_days m + (if m > 2 \<and> lp then 1 else 0)"

definition ymd2ord :: "int \<Rightarrow> nat \<Rightarrow> int \<Rightarrow> int" where
  "ymd2ord y m d = days_before_year y + preceding_days (is_leap y) m + d"

definition month_of_day :: "bool \<Rightarrow> nat \<Rightarrow> nat" where
  \<comment> \<open>the month from the day number within the year: an estimate, corrected by one\<close>
  "month_of_day lp n =
     (let m = (n + 50) div 32 in if preceding_days lp m > int n then m - 1 else m)"

definition ord2ymd :: "int \<Rightarrow> int \<times> nat \<times> int" where
  "ord2ymd ordinal =
     (let n = ordinal - 1;
          n400 = n div 146097; n = n mod 146097;
          n100 = n div 36524;  n = n mod 36524;
          n4 = n div 1461;     n = n mod 1461;
          n1 = n div 365;      n = n mod 365;
          year = n400 * 400 + 1 + n100 * 100 + n4 * 4 + n1
      in if n1 = 4 \<or> n100 = 4 then (year - 1, 12, 31)
         else let lp = (n1 = 3 \<and> (n4 \<noteq> 24 \<or> n100 = 3));
                  m = month_of_day lp (nat n)
              in (year, m, n - preceding_days lp m + 1))"

definition dt_ordinal :: "datetime \<Rightarrow> int" where
  "dt_ordinal t = t div us_per_day + epoch_ordinal"

definition dt_year_month :: "datetime \<Rightarrow> int \<times> nat" where
  "dt_year_month t = (case ord2ymd (dt_ordinal t) of (y, m, d) \<Rightarrow> (y, m))"

definition mk_datetime :: "int \<Rightarrow> nat \<Rightarrow> int \<Rightarrow> datetime" where
  \<comment> \<open>\<open>datetime(y, m, d, 0, 0, 0, tzinfo=utc)\<close>\<close>
  "mk_datetime y m d = (ymd2ord y m d - epoch_ordinal) * us_per_day"

definition timedelta_days :: "int \<Rightarrow> int" where
  "timedelta_days n = n * us_per_day"

definition timestamp_int :: "datetime \<Rightarrow> int" where
  \<comment> \<open>\<open>int(dt.timestamp())\<close> truncates towards zero\<close>
  "timestamp_int t = (if 0 \<le> t then t div us_per_second else - ((- t) div us_per_second))"

section \<open>The conversions are inverse\<close>

lemma month_range:
  fixes k :: nat
  assumes "1 \<le> k" and "k \<le> 12"
  shows "k \<in> {1,2,3,4,5,6,7,8,9,10,11,12}"
proof -
  have "k = 1 \<or> k = 2 \<or> k = 3 \<or> k = 4 \<or> k = 5 \<or> k = 6 \<or> k = 7 \<or> k = 8 \<or> k = 9 \<or> k = 10
    \<or> k = 11 \<or> k = 12"
    using assms by presburger
  then show ?thesis by simp
qed

lemma month_cases:
  fixes n :: nat
  assumes "n < 366"
  obtains m where "m \<in> {1,2,3,4,5,6,7,8,9,10,11,12}" and "m = (n + 50) div 32"
    and "32 * m \<le> n + 50" and "n + 50 < 32 * m + 32"
proof -
  have "1 \<le> (n + 50) div 32" and "(n + 50) div 32 \<le> 12" using assms by linarith+
  then have "(n + 50) div 32 \<in> {1,2,3,4,5,6,7,8,9,10,11,12}" by (rule month_range)
  then show ?thesis by (rule that) auto
qed

lemma month_of_day_bounds:
  assumes "n < 366" and "lp \<or> n < 365"
  shows "1 \<le> month_of_day lp n \<and> month_of_day lp n \<le> 12
    \<and> preceding_days lp (month_of_day lp n) \<le> int n
    \<and> int n < preceding_days lp (month_of_day lp n) + days_in_month_leap lp (month_of_day lp n)"
proof -
  obtain m where m: "m \<in> {1,2,3,4,5,6,7,8,9,10,11,12}" and e: "m = (n + 50) div 32"
    and lo: "32 * m \<le> n + 50" and hi: "n + 50 < 32 * m + 32"
    using month_cases [OF assms(1)] .
  have d: "month_of_day lp n = (if preceding_days lp m > int n then m - 1 else m)"
    by (simp add: month_of_day_def e)
  show ?thesis
    using m lo hi assms unfolding d preceding_days_def cumulative_days_def days_in_month_leap_def
    by (elim insertE emptyE; cases lp) auto
qed

text \<open>The year-internal facts, from the four-level decomposition of the day count.\<close>

lemma days_before_year_decomp:
  fixes a b c d :: int
  assumes "0 \<le> b" "b \<le> 3" "0 \<le> c" "c \<le> 24" "0 \<le> d" "d \<le> 3"
  shows "days_before_year (a * 400 + 1 + b * 100 + c * 4 + d)
           = 146097 * a + 36524 * b + 1461 * c + 365 * d"
proof -
  define y where "y = a * 400 + b * 100 + c * 4 + d"
  have "y div 4 = 100 * a + 25 * b + c"
    using assms by (intro int_div_pos_eq [where r = d]) (auto simp: y_def)
  moreover have "y div 100 = 4 * a + b"
    using assms by (intro int_div_pos_eq [where r = "4 * c + d"]) (auto simp: y_def)
  moreover have "y div 400 = a"
    using assms by (intro int_div_pos_eq [where r = "100 * b + 4 * c + d"]) (auto simp: y_def)
  moreover have "a * 400 + 1 + b * 100 + c * 4 + d = y + 1" by (simp add: y_def)
  ultimately have "days_before_year (a * 400 + 1 + b * 100 + c * 4 + d)
      = y * 365 + (100 * a + 25 * b + c) - (4 * a + b) + a"
    by (simp add: days_before_year_def Let_def)
  then show ?thesis by (simp add: y_def)
qed

lemma is_leap_decomp:
  fixes a b c d :: int
  assumes "0 \<le> b" "b \<le> 3" "0 \<le> c" "c \<le> 24" "0 \<le> d" "d \<le> 3"
  shows "is_leap (a * 400 + 1 + b * 100 + c * 4 + d) \<longleftrightarrow> d = 3 \<and> (c \<noteq> 24 \<or> b = 3)"
proof -
  let ?y = "a * 400 + 1 + b * 100 + c * 4 + d"
  have m4: "?y mod 4 = (if d = 3 then 0 else d + 1)"
    using assms
    by (intro int_mod_pos_eq [where q = "100 * a + 25 * b + c + (if d = 3 then 1 else 0)"]) auto
  have m100: "?y mod 100 = (if c = 24 then 0 else 4 * c + 4)" if "d = 3"
    using assms that
    by (intro int_mod_pos_eq [where q = "4 * a + b + (if c = 24 then 1 else 0)"]) auto
  have m400: "?y mod 400 = (if b = 3 then 0 else 100 * b + 100)" if "d = 3" "c = 24"
    using assms that
    by (intro int_mod_pos_eq [where q = "a + (if b = 3 then 1 else 0)"]) auto
  show ?thesis
  proof (cases "d = 3")
    case True
    then show ?thesis
      using m4 m100 m400 assms(1,3) by (cases "c = 24"; cases "b = 3") (simp_all add: is_leap_def)
  next
    case False
    then show ?thesis using m4 assms(5) by (simp add: is_leap_def)
  qed
qed

lemma ord2ymd_ordinary:
  fixes a b c d r :: int
  assumes n: "n - 1 = 146097 * a + 36524 * b + 1461 * c + 365 * d + r"
    and b: "0 \<le> b" "b \<le> 3" and c: "0 \<le> c" "c \<le> 24" and d: "0 \<le> d" "d \<le> 3"
    and r: "0 \<le> r" "r < 365 \<or> (r = 365 \<and> d = 3 \<and> (c \<noteq> 24 \<or> b = 3))"
    and eq: "ord2ymd n = (y, m, k)"
    and ymd: "y = a * 400 + 1 + b * 100 + c * 4 + d"
             "m = month_of_day (d = 3 \<and> (c \<noteq> 24 \<or> b = 3)) (nat r)"
             "k = r - preceding_days (d = 3 \<and> (c \<noteq> 24 \<or> b = 3)) m + 1"
  shows "ymd2ord y m k = n \<and> 1 \<le> m \<and> m \<le> 12 \<and> 1 \<le> k \<and> k \<le> days_in_month_leap (is_leap y) m"
proof -
  let ?lp = "d = 3 \<and> (c \<noteq> 24 \<or> b = 3)"
  have lp: "is_leap y = ?lp" unfolding ymd(1) using b c d by (rule is_leap_decomp)
  have dby: "days_before_year y = 146097 * a + 36524 * b + 1461 * c + 365 * d"
    unfolding ymd(1) using b c d by (rule days_before_year_decomp)
  have "nat r < 366" and "?lp \<or> nat r < 365" using r by auto
  note mb = month_of_day_bounds [OF this, folded ymd(2)]
  have "ymd2ord y m k = n" using n dby by (simp add: ymd2ord_def lp ymd(3))
  with mb r(1) show ?thesis by (simp add: lp ymd(3))
qed

lemma dec_31:
  fixes a b c :: int
  assumes "n - 1 = 146097 * a + 36524 * b + 1461 * c + 1460" "0 \<le> b" "b \<le> 3" "0 \<le> c" "c \<le> 24"
    and lp: "c \<noteq> 24 \<or> b = 3"
  shows "ymd2ord (a * 400 + 1 + b * 100 + c * 4 + 3) 12 31 = n
     \<and> is_leap (a * 400 + 1 + b * 100 + c * 4 + 3)"
  using assms is_leap_decomp [of b c 3 a] days_before_year_decomp [of b c 3 a]
  by (simp add: ymd2ord_def preceding_days_def cumulative_days_def)

theorem ord2ymd_correct:
  assumes "ord2ymd n = (y, m, k)"
  shows "ymd2ord y m k = n \<and> 1 \<le> m \<and> m \<le> 12 \<and> 1 \<le> k \<and> k \<le> days_in_month_leap (is_leap y) m"
proof -
  define a where "a = (n - 1) div 146097"
  define r1 where "r1 = (n - 1) mod 146097"
  define b where "b = r1 div 36524"
  define r2 where "r2 = r1 mod 36524"
  define c where "c = r2 div 1461"
  define r3 where "r3 = r2 mod 1461"
  define d where "d = r3 div 365"
  define r where "r = r3 mod 365"
  have e1: "n - 1 = 146097 * a + r1" and r1: "0 \<le> r1" "r1 < 146097"
    by (simp_all add: a_def r1_def)
  have e2: "r1 = 36524 * b + r2" and r2: "0 \<le> r2" "r2 < 36524" by (simp_all add: b_def r2_def)
  have e3: "r2 = 1461 * c + r3" and r3: "0 \<le> r3" "r3 < 1461" by (simp_all add: c_def r3_def)
  have e4: "r3 = 365 * d + r" and r: "0 \<le> r" "r < 365" by (simp_all add: d_def r_def)
  have b: "0 \<le> b" "b \<le> 4" using e2 r1 r2 by linarith+
  have c: "0 \<le> c" "c \<le> 24" using e3 r2 r3 by linarith+
  have d: "0 \<le> d" "d \<le> 4" using e4 r3 r by linarith+
  have n: "n - 1 = 146097 * a + 36524 * b + 1461 * c + 365 * d + r" using e1 e2 e3 e4 by linarith
  have def: "ord2ymd n =
     (let year = a * 400 + 1 + b * 100 + c * 4 + d
      in if d = 4 \<or> b = 4 then (year - 1, 12, 31)
         else let lp = (d = 3 \<and> (c \<noteq> 24 \<or> b = 3)); m = month_of_day lp (nat r)
              in (year, m, r - preceding_days lp m + 1))"
    by (simp add: ord2ymd_def Let_def a_def r1_def b_def r2_def c_def r3_def d_def r_def)
  consider (b4) "b = 4" | (d4) "b \<noteq> 4" "d = 4" | (std) "b \<noteq> 4" "d \<noteq> 4" by blast
  then show ?thesis
  proof cases
    case b4
    then have z: "r2 = 0" using e2 r1 r2 by linarith
    then have "c = 0" "r3 = 0" by (simp_all add: c_def r3_def)
    then have "d = 0" "r = 0" by (simp_all add: d_def r_def)
    with b4 \<open>c = 0\<close> n dec_31 [of n a 3 24] def assms show ?thesis
      by (auto simp: Let_def days_in_month_leap_def)
  next
    case d4
    then have z: "r = 0" using e4 r3 r by linarith
    have "c \<noteq> 24 \<or> b = 3" using d4 e3 e4 r2 b e2 r1 z by linarith
    with d4 z b c n dec_31 [of n a b c] def assms show ?thesis
      by (auto simp: Let_def days_in_month_leap_def)
  next
    case std
    then have "b \<le> 3" and "d \<le> 3" using b d by auto
    with std def assms show ?thesis
      by (intro ord2ymd_ordinary [OF n b(1) _ c d(1) _ r(1) _ assms]) (auto simp: Let_def r)
  qed
qed

section \<open>Months follow each other\<close>

lemma div_step:
  fixes y k :: int
  assumes "0 < k"
  shows "y div k = (y - 1) div k + (if y mod k = 0 then 1 else 0)"
proof (cases "y mod k = 0")
  case True
  then have y: "y = k * (y div k)" by (simp add: minus_mod_eq_mult_div [symmetric])
  have "(y - 1) div k = y div k - 1"
    using assms y by (intro int_div_pos_eq [where r = "k - 1"]) (auto simp: algebra_simps)
  with True show ?thesis by simp
next
  case False
  have "0 \<le> y mod k" "y mod k < k" using assms by auto
  with False have "(y - 1) div k = y div k"
    by (intro int_div_pos_eq [where r = "y mod k - 1"]) auto
  with False show ?thesis by simp
qed

lemma next_year_start: "days_before_year (y + 1) = days_before_year y + (if is_leap y then 366 else 365)"
proof -
  have h100: "y mod 100 = 0" if "y mod 400 = 0"
    using that mod_mod_cancel [of 100 400 y] by simp
  have h4: "y mod 4 = 0" if "y mod 100 = 0"
    using that mod_mod_cancel [of 4 100 y] by simp
  define a where "a = (y - 1) div 4"
  define b where "b = (y - 1) div 100"
  define c where "c = (y - 1) div 400"
  have "y div 4 = a + (if y mod 4 = 0 then 1 else 0)"
    unfolding a_def by (rule div_step) simp
  moreover have "y div 100 = b + (if y mod 100 = 0 then 1 else 0)"
    unfolding b_def by (rule div_step) simp
  moreover have "y div 400 = c + (if y mod 400 = 0 then 1 else 0)"
    unfolding c_def by (rule div_step) simp
  ultimately have "days_before_year (y + 1) = y * 365 + a + (if y mod 4 = 0 then 1 else 0)
      - (b + (if y mod 100 = 0 then 1 else 0)) + (c + (if y mod 400 = 0 then 1 else 0))"
    by (simp add: days_before_year_def Let_def)
  moreover have "days_before_year y = (y - 1) * 365 + a - b + c"
    by (simp add: days_before_year_def Let_def a_def b_def c_def)
  moreover define p4 p100 p400 where "p4 = (y mod 4 = 0)" and "p100 = (y mod 100 = 0)"
    and "p400 = (y mod 400 = 0)"
  moreover have "is_leap y = (p4 \<and> (\<not> p100 \<or> p400))"
    by (simp add: is_leap_def p4_def p100_def p400_def)
  ultimately show ?thesis
    using h4 h100 unfolding p4_def [symmetric] p100_def [symmetric] p400_def [symmetric]
    by (cases p4; cases p100; cases p400) simp_all
qed

definition next_month :: "int \<Rightarrow> nat \<Rightarrow> int \<times> nat" where
  "next_month y m = (if m + 1 > 12 then (y + 1, 1) else (y, m + 1))"

lemma preceding_Suc:
  "1 \<le> m \<Longrightarrow> m < 12 \<Longrightarrow> preceding_days lp (Suc m) = preceding_days lp m + days_in_month_leap lp m"
proof -
  assume "1 \<le> m" and "m < 12"
  then have "m \<in> {1,2,3,4,5,6,7,8,9,10,11,12}" and "m \<noteq> 12"
    using month_range [of m] by linarith+
  then show ?thesis
    unfolding preceding_days_def cumulative_days_def days_in_month_leap_def
    by (elim insertE emptyE) simp_all
qed

lemma next_month_ord:
  assumes "1 \<le> m" "m \<le> 12" and "next_month y m = (y', m')"
  shows "ymd2ord y' m' 1 = ymd2ord y m 1 + days_in_month_leap (is_leap y) m"
proof (cases "m = 12")
  case True
  with assms show ?thesis
    by (auto simp: next_month_def ymd2ord_def next_year_start preceding_days_def
        cumulative_days_def days_in_month_leap_def)
next
  case False
  with assms show ?thesis
    by (auto simp: next_month_def ymd2ord_def preceding_Suc)
qed

lemma days_in_month_bounds: "28 \<le> days_in_month_leap lp m" "days_in_month_leap lp m \<le> 31"
  by (simp_all add: days_in_month_leap_def)

end
