(* ===== verification/Py_Text.thy ===== *)
theory Py_Text
  imports Llmxy_Prelude
begin

text \<open>
  Python strings and the string methods the code calls. A string is given by its UTF-8 encoding,
  one \<^typ>\<open>char\<close> per byte; \<open>py_len\<close> counts code points. Case conversion, digits and white
  space are those of ASCII, which is what protocol identifiers, headers and key names consist of;
  searching, splitting and prefix tests agree with the operations on code points because UTF-8 is
  self-synchronising.
\<close>

abbreviation chr :: "nat \<Rightarrow> char" where "chr n \<equiv> char_of n"
abbreviation ord :: "char \<Rightarrow> nat" where "ord c \<equiv> of_char c"

section \<open>Code points\<close>

definition is_cont :: "char \<Rightarrow> bool" where
  "is_cont c \<longleftrightarrow> 128 \<le> ord c \<and> ord c < 192"

definition py_len :: "string \<Rightarrow> nat" where
  "py_len s = length (filter (\<lambda>c. \<not> is_cont c) s)"

fun py_take :: "nat \<Rightarrow> string \<Rightarrow> string" where
  "py_take n [] = []"
| "py_take n (c # cs) =
     (if is_cont c then c # py_take n cs
      else case n of 0 \<Rightarrow> [] | Suc k \<Rightarrow> c # py_take k cs)"

section \<open>Case, white space, digits\<close>

definition chr_lower :: "char \<Rightarrow> char" where
  "chr_lower c = (if 65 \<le> ord c \<and> ord c \<le> 90 then chr (ord c + 32) else c)"

definition chr_upper :: "char \<Rightarrow> char" where
  "chr_upper c = (if 97 \<le> ord c \<and> ord c \<le> 122 then chr (ord c - 32) else c)"

definition py_lower :: "string \<Rightarrow> string" where "py_lower s = map chr_lower s"
definition py_upper :: "string \<Rightarrow> string" where "py_upper s = map chr_upper s"

definition is_space :: "char \<Rightarrow> bool" where
  "is_space c \<longleftrightarrow> ord c = 32 \<or> (9 \<le> ord c \<and> ord c \<le> 13) \<or> (28 \<le> ord c \<and> ord c \<le> 31)"

definition py_lstrip :: "string \<Rightarrow> string" where "py_lstrip s = dropWhile is_space s"
definition py_rstrip :: "string \<Rightarrow> string" where "py_rstrip s = rev (dropWhile is_space (rev s))"
definition py_strip :: "string \<Rightarrow> string" where "py_strip s = py_rstrip (py_lstrip s)"

definition py_rstrip_chr :: "char \<Rightarrow> string \<Rightarrow> string" where
  "py_rstrip_chr c s = rev (dropWhile (\<lambda>x. x = c) (rev s))"

definition is_digit :: "char \<Rightarrow> bool" where "is_digit c \<longleftrightarrow> 48 \<le> ord c \<and> ord c \<le> 57"

definition py_isdigit :: "string \<Rightarrow> bool" where
  "py_isdigit s \<longleftrightarrow> s \<noteq> [] \<and> list_all is_digit s"

definition digits_val :: "string \<Rightarrow> int" where
  \<comment> \<open>\<open>int(s)\<close> for a string of digits\<close>
  "digits_val s = foldl (\<lambda>a c. a * 10 + (int (ord c) - 48)) 0 s"

section \<open>Searching and splitting\<close>

definition py_startswith :: "string \<Rightarrow> string \<Rightarrow> bool" where
  "py_startswith s p \<longleftrightarrow> take (length p) s = p"

lemma startswith_append: "py_startswith (p @ s) p"
  by (simp add: py_startswith_def)

definition py_endswith :: "string \<Rightarrow> string \<Rightarrow> bool" where
  "py_endswith s p \<longleftrightarrow> py_startswith (rev s) (rev p)"

fun py_contains :: "string \<Rightarrow> string \<Rightarrow> bool" where
  "py_contains [] p = (p = [])"
| "py_contains (c # cs) p = (py_startswith (c # cs) p \<or> py_contains cs p)"

definition py_replace_chr :: "char \<Rightarrow> char \<Rightarrow> string \<Rightarrow> string" where
  "py_replace_chr a b s = map (\<lambda>c. if c = a then b else c) s"

fun py_split_chr :: "char \<Rightarrow> string \<Rightarrow> string list" where
  \<comment> \<open>\<open>s.split(sep)\<close> for a one-character separator: never the empty list\<close>
  "py_split_chr sep [] = [[]]"
| "py_split_chr sep (c # cs) =
     (if c = sep then [] # py_split_chr sep cs
      else case py_split_chr sep cs of [] \<Rightarrow> [[c]] | p # ps \<Rightarrow> (c # p) # ps)"

definition py_partition_chr :: "char \<Rightarrow> string \<Rightarrow> string \<times> bool \<times> string" where
  \<comment> \<open>\<open>s.partition(sep)\<close>; the flag is \<open>sep != ""\<close>\<close>
  "py_partition_chr sep s =
     (let a = takeWhile (\<lambda>c. c \<noteq> sep) s; r = dropWhile (\<lambda>c. c \<noteq> sep) s
      in case r of [] \<Rightarrow> (s, False, []) | _ # b \<Rightarrow> (a, True, b))"

definition py_before :: "char \<Rightarrow> string \<Rightarrow> string" where
  \<comment> \<open>\<open>s.split(sep, 1)[0]\<close>\<close>
  "py_before sep s = takeWhile (\<lambda>c. c \<noteq> sep) s"

definition py_after :: "char \<Rightarrow> string \<Rightarrow> string" where
  \<comment> \<open>\<open>s.split(sep, 1)[1]\<close> for a string that holds the separator\<close>
  "py_after sep s = tl (dropWhile (\<lambda>c. c \<noteq> sep) s)"

fun py_join :: "string \<Rightarrow> string list \<Rightarrow> string" where
  "py_join sep [] = []"
| "py_join sep [x] = x"
| "py_join sep (x # y # zs) = x @ sep @ py_join sep (y # zs)"

section \<open>Printing integers\<close>

fun str_nat :: "nat \<Rightarrow> string" where
  "str_nat n = (if n < 10 then [chr (48 + n)] else str_nat (n div 10) @ [chr (48 + n mod 10)])"

declare str_nat.simps [simp del]

definition str_int :: "int \<Rightarrow> string" where
  "str_int i = (if i < 0 then CHR ''-'' # str_nat (nat (- i)) else str_nat (nat i))"

section \<open>Lemmas\<close>

lemma ord_chr [simp]: "n < 256 \<Longrightarrow> ord (chr n) = n"
  by (simp add: of_char_of)

lemma ord_bound: "ord c < (256::nat)"
  by (metis nat_of_char_less_256)

lemma ord_inj: "ord c = (ord d :: nat) \<longleftrightarrow> c = d"
  by simp

lemma str_nat_digits: "list_all is_digit (str_nat n)"
proof (induction n rule: str_nat.induct)
  case (1 n)
  show ?case
  proof (cases "n < 10")
    case True
    then show ?thesis by (simp add: str_nat.simps [of n] is_digit_def)
  next
    case False
    with "1" have "list_all is_digit (str_nat (n div 10))" by simp
    moreover have "is_digit (chr (48 + n mod 10))" by (simp add: is_digit_def)
    ultimately show ?thesis using False by (simp add: str_nat.simps [of n])
  qed
qed

lemma str_nat_nonempty: "str_nat n \<noteq> []"
  by (subst str_nat.simps) simp

lemma py_isdigit_str_nat: "py_isdigit (str_nat n)"
  by (simp add: py_isdigit_def str_nat_nonempty str_nat_digits)

lemma digits_val_str_nat: "digits_val (str_nat n) = int n"
proof (induction n rule: str_nat.induct)
  case (1 n)
  show ?case
  proof (cases "n < 10")
    case True
    then show ?thesis by (simp add: str_nat.simps [of n] digits_val_def)
  next
    case False
    with "1" have "digits_val (str_nat (n div 10)) = int (n div 10)" by simp
    moreover have "int (n div 10) * 10 + int (n mod 10) = int n"
      by (metis div_mult_mod_eq of_nat_add of_nat_mult of_nat_numeral)
    ultimately show ?thesis using False by (simp add: str_nat.simps [of n] digits_val_def)
  qed
qed

lemma str_nat_inject: "str_nat m = str_nat n \<longleftrightarrow> m = n"
  by (metis digits_val_str_nat of_nat_eq_iff)

lemma str_nat_no_minus: "str_nat n \<noteq> CHR ''-'' # s"
  using str_nat_digits [of n] by (auto simp: is_digit_def)

lemma str_int_inject [simp]: "str_int i = str_int j \<longleftrightarrow> i = j"
  by (auto simp: str_int_def str_nat_inject str_nat_no_minus str_nat_no_minus [symmetric])

lemma str_int_chars: "c \<in> set (str_int i) \<Longrightarrow> c = CHR ''-'' \<or> is_digit c"
  using str_nat_digits by (auto simp: str_int_def list_all_iff split: if_splits)

lemma str_int_no_colon: "CHR '':'' \<notin> set (str_int i)"
  using str_int_chars [of "CHR '':''" i] by (auto simp: is_digit_def)

lemma py_isdigit_str_int: "0 \<le> i \<Longrightarrow> py_isdigit (str_int i)"
  by (simp add: str_int_def py_isdigit_str_nat)

lemma digits_val_str_int: "0 \<le> i \<Longrightarrow> digits_val (str_int i) = i"
  by (simp add: str_int_def digits_val_str_nat)

lemma chr_lower_idem [simp]: "chr_lower (chr_lower c) = chr_lower c"
  using ord_bound [of c] by (auto simp: chr_lower_def)

lemma py_lower_idem [simp]: "py_lower (py_lower s) = py_lower s"
  by (simp add: py_lower_def)

lemma is_space_lower [simp]: "is_space (chr_lower c) = is_space c"
  using ord_bound [of c] by (auto simp: chr_lower_def is_space_def)

lemma dropWhile_idem: "dropWhile P (dropWhile P s) = dropWhile P s"
  by (induction s) auto

lemma py_strip_ends:
  assumes "py_strip s \<noteq> []"
  shows "\<not> is_space (hd (py_strip s))" and "\<not> is_space (last (py_strip s))"
proof -
  let ?l = "py_lstrip s"
  have ne: "dropWhile is_space (rev ?l) \<noteq> []"
    using assms by (simp add: py_strip_def py_rstrip_def)
  have "last (py_strip s) = hd (dropWhile is_space (rev ?l))"
    by (simp add: py_strip_def py_rstrip_def last_rev)
  with ne show "\<not> is_space (last (py_strip s))" by (metis hd_dropWhile)
  have l: "?l \<noteq> []" using ne by auto
  have "prefix (py_strip s) ?l"
    by (metis py_rstrip_def py_strip_def rev_rev_ident suffix_dropWhile suffix_to_prefix)
  then have "hd (py_strip s) = hd ?l" using assms by (auto simp: prefix_def hd_append)
  with l show "\<not> is_space (hd (py_strip s))" by (simp add: py_lstrip_def hd_dropWhile)
qed

lemma strip_fixed:
  assumes "s \<noteq> []" and "\<not> is_space (hd s)" and "\<not> is_space (last s)"
  shows "py_strip s = s"
proof -
  have "py_lstrip s = s" using assms by (cases s) (auto simp: py_lstrip_def)
  moreover have "py_rstrip s = s"
    using assms by (cases s rule: rev_cases) (auto simp: py_rstrip_def)
  ultimately show ?thesis by (simp add: py_strip_def)
qed

lemma py_strip_idem [simp]: "py_strip (py_strip s) = py_strip s"
proof (cases "py_strip s = []")
  case True
  have "py_strip [] = []" by (simp add: py_strip_def py_lstrip_def py_rstrip_def)
  with True show ?thesis by simp
next
  case False
  then show ?thesis by (intro strip_fixed py_strip_ends)
qed

lemma py_split_chr_nonempty: "py_split_chr sep s \<noteq> []"
  by (induction s) (auto split: list.splits)

lemma py_split_join:
  "sep \<notin> set p \<Longrightarrow> py_split_chr sep (p @ sep # r) = p # py_split_chr sep r"
  by (induction p) auto

lemma py_split_none: "sep \<notin> set p \<Longrightarrow> py_split_chr sep p = [p]"
  by (induction p) auto

lemma py_split_of_join:
  "xs \<noteq> [] \<Longrightarrow> (\<And>x. x \<in> set xs \<Longrightarrow> sep \<notin> set x) \<Longrightarrow> py_split_chr sep (py_join [sep] xs) = xs"
  by (induction "[sep]" xs rule: py_join.induct) (auto simp: py_split_join py_split_none)

lemma py_partition_found:
  "sep \<notin> set a \<Longrightarrow> py_partition_chr sep (a @ sep # b) = (a, True, b)"
  by (auto simp: py_partition_chr_def Let_def takeWhile_append dropWhile_append
      takeWhile_eq_all_conv dropWhile_eq_Nil_conv split: list.splits)

end
