(* ===== verification/Py_Json.thy ===== *)
theory Py_Json
  imports Py_Text
begin

text \<open>
  JSON values as \<open>json.loads\<close> produces them, and the dynamic operations the code applies to
  them: dictionary access, truth value, \<open>isinstance\<close>, \<open>int(...)\<close> and \<open>str(...)\<close>. A
  dictionary keeps insertion order; a float is given by the rational number it denotes.
\<close>

datatype json =
    JNull
  | JBool bool
  | JInt int
  | JFloat rat
  | JStr string
  | JList "json list"
  | JObj "(string \<times> json) list"

type_synonym dict = "(string \<times> json) list"

section \<open>Dictionaries\<close>

fun dict_get :: "dict \<Rightarrow> string \<Rightarrow> json option" where
  "dict_get [] k = None"
| "dict_get ((k', v) # d) k = (if k' = k then Some v else dict_get d k)"

definition dict_get_none :: "dict \<Rightarrow> string \<Rightarrow> json" where
  \<comment> \<open>\<open>d.get(k)\<close>\<close>
  "dict_get_none d k = (case dict_get d k of None \<Rightarrow> JNull | Some v \<Rightarrow> v)"

definition dict_get_default :: "dict \<Rightarrow> string \<Rightarrow> json \<Rightarrow> json" where
  \<comment> \<open>\<open>d.get(k, default)\<close>\<close>
  "dict_get_default d k v = (case dict_get d k of None \<Rightarrow> v | Some w \<Rightarrow> w)"

definition dict_has :: "dict \<Rightarrow> string \<Rightarrow> bool" where
  "dict_has d k \<longleftrightarrow> dict_get d k \<noteq> None"

fun dict_set :: "dict \<Rightarrow> string \<Rightarrow> json \<Rightarrow> dict" where
  "dict_set [] k v = [(k, v)]"
| "dict_set ((k', w) # d) k v = (if k' = k then (k, v) # d else (k', w) # dict_set d k v)"

definition dict_pop :: "dict \<Rightarrow> string \<Rightarrow> dict" where
  "dict_pop d k = filter (\<lambda>(k', v). k' \<noteq> k) d"

section \<open>Truth values, types, conversions\<close>

fun truthy :: "json \<Rightarrow> bool" where
  "truthy JNull = False"
| "truthy (JBool b) = b"
| "truthy (JInt i) = (i \<noteq> 0)"
| "truthy (JFloat r) = (r \<noteq> 0)"
| "truthy (JStr s) = (s \<noteq> [])"
| "truthy (JList xs) = (xs \<noteq> [])"
| "truthy (JObj d) = (d \<noteq> [])"

definition py_or :: "json \<Rightarrow> json \<Rightarrow> json" where
  \<comment> \<open>\<open>a or b\<close>\<close>
  "py_or a b = (if truthy a then a else b)"

datatype py_error = TypeError | ValueError | KeyError | IndexError | AttributeError | ZeroDivisionError

text \<open>
  An \<open>HTTPException\<close> carries a status code and a detail, a text or a dictionary. A handler that
  raises returns \<open>Inl\<close>, one that returns a value \<open>Inr\<close>. An exception of another kind that a
  handler does not catch reaches the client as a 500 response.
\<close>

record http_error =
  status_code :: nat
  detail :: json

type_synonym 'a result = "http_error + 'a"

abbreviation http :: "nat \<Rightarrow> string \<Rightarrow> http_error" where
  "http c d \<equiv> \<lparr>status_code = c, detail = JStr d\<rparr>"

definition internal_error :: http_error where
  "internal_error = http 500 ''Internal Server Error''"

definition or_500 :: "py_error + 'a \<Rightarrow> 'a result" where
  "or_500 r = (case r of Inl e \<Rightarrow> Inl internal_error | Inr a \<Rightarrow> Inr a)"

fun is_int :: "json \<Rightarrow> bool" where
  \<comment> \<open>\<open>isinstance(v, int)\<close>: a bool is an int\<close>
  "is_int (JInt i) = True"
| "is_int (JBool b) = True"
| "is_int _ = False"

definition trunc_rat :: "rat \<Rightarrow> int" where
  "trunc_rat r = (if 0 \<le> r then \<lfloor>r\<rfloor> else \<lceil>r\<rceil>)"

definition int_of_text :: "string \<Rightarrow> py_error + int" where
  \<comment> \<open>\<open>int(s)\<close> for optionally signed decimal digits between white space\<close>
  "int_of_text s =
     (let t = py_strip s in
      case t of [] \<Rightarrow> Inl ValueError
      | c # r \<Rightarrow>
          if c = CHR ''-'' \<and> py_isdigit r then Inr (- digits_val r)
          else if c = CHR ''+'' \<and> py_isdigit r then Inr (digits_val r)
          else if py_isdigit t then Inr (digits_val t)
          else Inl ValueError)"

fun py_int :: "json \<Rightarrow> py_error + int" where
  \<comment> \<open>\<open>int(v)\<close>\<close>
  "py_int (JInt i) = Inr i"
| "py_int (JBool b) = Inr (if b then 1 else 0)"
| "py_int (JFloat r) = Inr (trunc_rat r)"
| "py_int (JStr s) = int_of_text s"
| "py_int _ = Inl TypeError"

fun as_int :: "json \<Rightarrow> int" where
  \<comment> \<open>the number an \<open>int\<close> instance denotes\<close>
  "as_int (JInt i) = i"
| "as_int (JBool b) = (if b then 1 else 0)"
| "as_int _ = 0"

fun as_str :: "json \<Rightarrow> string option" where
  "as_str (JStr s) = Some s"
| "as_str _ = None"

fun as_list :: "json \<Rightarrow> json list option" where
  "as_list (JList xs) = Some xs"
| "as_list _ = None"

fun as_obj :: "json \<Rightarrow> dict option" where
  "as_obj (JObj d) = Some d"
| "as_obj _ = None"

section \<open>Lemmas\<close>

lemma or_500_simps [simp]: "or_500 (Inl e) = Inl internal_error" "or_500 (Inr a) = Inr a"
  by (simp_all add: or_500_def)

lemma dict_get_set: "dict_get (dict_set d k v) k' = (if k' = k then Some v else dict_get d k')"
  by (induction d) auto

lemma dict_get_pop: "dict_get (dict_pop d k) k' = (if k' = k then None else dict_get d k')"
  by (induction d) (auto simp: dict_pop_def)

lemma dict_has_simps [simp]:
  "dict_has (dict_set d k v) k' \<longleftrightarrow> k' = k \<or> dict_has d k'"
  "dict_has (dict_pop d k) k' \<longleftrightarrow> k' \<noteq> k \<and> dict_has d k'"
  by (auto simp: dict_has_def dict_get_set dict_get_pop)

lemma dict_get_none_set [simp]:
  "dict_get_none (dict_set d k v) k' = (if k' = k then v else dict_get_none d k')"
  by (simp add: dict_get_none_def dict_get_set)

end
