(* ===== verification/Data_Model.thy ===== *)
theory Data_Model
  imports Py_Calendar Py_Json
begin

text \<open>
  The tables of \<^verbatim>\<open>api/app/models/__init__.py\<close>: enumerations as datatypes, one record per table
  with the columns of the class (prefixed, since record fields share one name space), the
  database as the record of its tables, and an ORM session. Integer columns are unbounded.
  Columns with a server-side default of \<open>now()\<close> are filled by the database clock.
\<close>

section \<open>Enumerations\<close>

datatype user_role = role_user | role_admin
datatype user_status = user_active | user_disabled
datatype key_status = key_active | key_disabled | key_expired
datatype quota_mode = until_depleted | periodic
datatype quota_period = day | week | month
datatype order_status = order_pending | order_paid | order_canceled | order_refunded
datatype payment_channel = alipay | wechat | stripe | manual
datatype route_strategy = weighted | round_robin | smart
datatype route_scope = scope_public | scope_private
datatype balance_tx_type = tx_topup | tx_consume | tx_refund | tx_grant

text \<open>\<open>Plan.plan_type\<close> is a string column that the administrator sets freely; \<open>PlanType\<close> names the two values
  the code knows, and the code compares with the second only.\<close>

definition recurring :: string where "recurring = ''recurring''"
definition one_time :: string where "one_time = ''one_time''"

text \<open>\<open>Subscription.status\<close> is a string column; the code writes only these four values.\<close>

datatype sub_status = sub_active | sub_past_due | sub_canceled | sub_expired

section \<open>Rows\<close>

record user =
  us_id :: int
  us_email :: string
  us_password_hash :: string
  us_role :: user_role
  us_balance_cents :: int
  us_status :: user_status
  us_oauth_provider :: "string option"
  us_oauth_uid :: "string option"

record api_key =
  ak_id :: int
  ak_user_id :: int
  ak_name :: string
  ak_key_hash :: string
  ak_key_prefix :: string
  ak_status :: key_status
  ak_quota_cents :: int
  ak_used_cents :: int
  ak_expires_at :: "datetime option"
  ak_quota_mode :: quota_mode
  ak_quota_period :: "quota_period option"
  ak_quota_period_start :: "datetime option"
  ak_quota_period_end :: "datetime option"

record plan =
  pl_id :: int
  pl_code :: string
  pl_name :: string
  pl_description :: "string option"
  pl_plan_type :: string
  pl_price_cents :: int
  pl_quota_cents :: int
  pl_duration_days :: int
  pl_models_jsonb :: json
  pl_rate_limit_jsonb :: json
  pl_max_purchases_per_user :: "int option"
  pl_active :: bool

record subscription =
  sb_id :: int
  sb_user_id :: int
  sb_plan_id :: int
  sb_start_at :: datetime
  sb_current_period_start :: datetime
  sb_current_period_end :: datetime
  sb_status :: sub_status
  sb_remaining_cents :: int
  sb_cancel_at_period_end :: bool
  sb_canceled_at :: "datetime option"
  sb_last_renewal_at :: "datetime option"
  sb_last_renewal_error :: "string option"

record order =
  od_id :: int
  od_user_id :: int
  od_plan_id :: "int option"
  od_amount_cents :: int
  od_channel :: payment_channel
  od_status :: order_status
  od_provider_order_id :: "string option"
  od_paid_at :: "datetime option"

record channel =
  ch_id :: int
  ch_name :: string
  ch_provider_type :: string
  ch_connector_type :: string
  ch_base_url :: string
  ch_api_key_enc :: "string option"
  ch_enabled :: bool

record model =
  md_id :: int
  md_code :: string
  md_display_name :: string
  md_channel_id :: int
  md_upstream_model :: string
  md_kind :: string
  md_upstream_protocol :: "string option"
  md_prompt_rate :: int
  md_completion_rate :: int
  md_pricing_jsonb :: dict
  md_enabled :: bool

record route_policy =
  rp_id :: int
  rp_user_facing_model :: string
  rp_modality :: string
  rp_exposed_protocols :: "string list"
  rp_strategy :: route_strategy
  rp_targets_jsonb :: "dict list"
  rp_fallback_model_id :: "int option"
  rp_smart_rules_jsonb :: "json list"
  rp_smart_embedding_model_id :: "int option"
  rp_smart_exemplars_jsonb :: "json list"
  rp_smart_score_threshold :: int
  rp_smart_embedding_version :: int
  rp_scope :: route_scope
  rp_enabled :: bool

record usage_log =
  ul_user_id :: int
  ul_api_key_id :: "int option"
  ul_model_id :: "int option"
  ul_user_facing_model :: "string option"
  ul_upstream_model :: "string option"
  ul_prompt_tokens :: int
  ul_completion_tokens :: int
  ul_cost_cents :: int
  ul_image_count :: int
  ul_meta_jsonb :: json
  ul_latency_ms :: int
  ul_status :: string
  ul_request_id :: "string option"
  ul_kind :: string
  ul_resolved_label :: "string option"

record balance_tx =
  tx_user_id :: int
  tx_type :: balance_tx_type
  tx_amount_cents :: int
  tx_balance_after :: int
  tx_ref_id :: "string option"
  tx_note :: "string option"

section \<open>Database and session\<close>

text \<open>
  The logs (\<open>usage_logs\<close>, \<open>balance_tx\<close>) are append-only and in insertion order; only the reports
  read their ids and times (\<open>Reports\<close>). The \<open>seq\<close> fields are the sequences that number new rows.
\<close>

record database =
  users :: "user list"
  api_keys :: "api_key list"
  plans :: "plan list"
  subscriptions :: "subscription list"
  orders :: "order list"
  channels :: "channel list"
  models :: "model list"
  route_policies :: "route_policy list"
  usage_logs :: "usage_log list"
  balance_txs :: "balance_tx list"
  seq_api_keys :: int
  seq_subscriptions :: int
  seq_orders :: int

text \<open>
  A session is a transaction in progress over the database together with
  \<open>db.info["_quota_invalidate_uids"]\<close>, the users whose cached quota is dropped after commit.
\<close>

record session = database +
  info_uids :: "int list"

definition mark_quota_invalidate :: "int \<Rightarrow> session \<Rightarrow> session" where
  \<comment> \<open>\<open>db.info.setdefault("_quota_invalidate_uids", set()).add(uid)\<close>\<close>
  "mark_quota_invalidate uid db = db\<lparr>info_uids := List.insert uid (info_uids db)\<rparr>"

abbreviation get_user :: "session \<Rightarrow> int \<Rightarrow> user option" where
  "get_user db i \<equiv> row_get us_id i (users db)"

abbreviation get_api_key_row :: "session \<Rightarrow> int \<Rightarrow> api_key option" where
  "get_api_key_row db i \<equiv> row_get ak_id i (api_keys db)"

abbreviation get_plan :: "session \<Rightarrow> int \<Rightarrow> plan option" where
  "get_plan db i \<equiv> row_get pl_id i (plans db)"

abbreviation get_sub :: "session \<Rightarrow> int \<Rightarrow> subscription option" where
  "get_sub db i \<equiv> row_get sb_id i (subscriptions db)"

abbreviation get_order :: "session \<Rightarrow> int \<Rightarrow> order option" where
  "get_order db i \<equiv> row_get od_id i (orders db)"

abbreviation get_model :: "session \<Rightarrow> int \<Rightarrow> model option" where
  "get_model db i \<equiv> row_get md_id i (models db)"

abbreviation get_channel :: "session \<Rightarrow> int \<Rightarrow> channel option" where
  "get_channel db i \<equiv> row_get ch_id i (channels db)"

text \<open>\<open>UPDATE ... WHERE id = i\<close> on each table that the code updates in place.\<close>

definition upd_user :: "int \<Rightarrow> (user \<Rightarrow> user) \<Rightarrow> session \<Rightarrow> session" where
  "upd_user i f db = db\<lparr>users := row_upd us_id i f (users db)\<rparr>"

definition upd_api_key :: "int \<Rightarrow> (api_key \<Rightarrow> api_key) \<Rightarrow> session \<Rightarrow> session" where
  "upd_api_key i f db = db\<lparr>api_keys := row_upd ak_id i f (api_keys db)\<rparr>"

definition upd_sub :: "int \<Rightarrow> (subscription \<Rightarrow> subscription) \<Rightarrow> session \<Rightarrow> session" where
  "upd_sub i f db = db\<lparr>subscriptions := row_upd sb_id i f (subscriptions db)\<rparr>"

definition upd_order :: "int \<Rightarrow> (order \<Rightarrow> order) \<Rightarrow> session \<Rightarrow> session" where
  "upd_order i f db = db\<lparr>orders := row_upd od_id i f (orders db)\<rparr>"

definition add_tx :: "balance_tx \<Rightarrow> session \<Rightarrow> session" where
  "add_tx t db = db\<lparr>balance_txs := balance_txs db @ [t]\<rparr>"

definition add_usage_log :: "usage_log \<Rightarrow> session \<Rightarrow> session" where
  "add_usage_log l db = db\<lparr>usage_logs := usage_logs db @ [l]\<rparr>"

text \<open>What the session's record operations change and what they leave alone.\<close>

lemma upd_user_simps [simp]:
  "users (upd_user i f db) = row_upd us_id i f (users db)"
  "api_keys (upd_user i f db) = api_keys db"
  "plans (upd_user i f db) = plans db"
  "subscriptions (upd_user i f db) = subscriptions db"
  "orders (upd_user i f db) = orders db"
  "channels (upd_user i f db) = channels db"
  "models (upd_user i f db) = models db"
  "route_policies (upd_user i f db) = route_policies db"
  "usage_logs (upd_user i f db) = usage_logs db"
  "balance_txs (upd_user i f db) = balance_txs db"
  "seq_subscriptions (upd_user i f db) = seq_subscriptions db"
  "seq_orders (upd_user i f db) = seq_orders db"
  "info_uids (upd_user i f db) = info_uids db"
  by (simp_all add: upd_user_def)

lemma upd_api_key_simps [simp]:
  "users (upd_api_key i g db) = users db"
  "api_keys (upd_api_key i g db) = row_upd ak_id i g (api_keys db)"
  "plans (upd_api_key i g db) = plans db"
  "subscriptions (upd_api_key i g db) = subscriptions db"
  "orders (upd_api_key i g db) = orders db"
  "channels (upd_api_key i g db) = channels db"
  "models (upd_api_key i g db) = models db"
  "route_policies (upd_api_key i g db) = route_policies db"
  "usage_logs (upd_api_key i g db) = usage_logs db"
  "balance_txs (upd_api_key i g db) = balance_txs db"
  "seq_subscriptions (upd_api_key i g db) = seq_subscriptions db"
  "seq_orders (upd_api_key i g db) = seq_orders db"
  "info_uids (upd_api_key i g db) = info_uids db"
  by (simp_all add: upd_api_key_def)

lemma upd_sub_simps [simp]:
  "users (upd_sub i h db) = users db"
  "api_keys (upd_sub i h db) = api_keys db"
  "plans (upd_sub i h db) = plans db"
  "subscriptions (upd_sub i h db) = row_upd sb_id i h (subscriptions db)"
  "orders (upd_sub i h db) = orders db"
  "channels (upd_sub i h db) = channels db"
  "models (upd_sub i h db) = models db"
  "route_policies (upd_sub i h db) = route_policies db"
  "usage_logs (upd_sub i h db) = usage_logs db"
  "balance_txs (upd_sub i h db) = balance_txs db"
  "seq_subscriptions (upd_sub i h db) = seq_subscriptions db"
  "seq_orders (upd_sub i h db) = seq_orders db"
  "info_uids (upd_sub i h db) = info_uids db"
  by (simp_all add: upd_sub_def)

lemma upd_order_simps [simp]:
  "users (upd_order i k db) = users db"
  "api_keys (upd_order i k db) = api_keys db"
  "plans (upd_order i k db) = plans db"
  "subscriptions (upd_order i k db) = subscriptions db"
  "orders (upd_order i k db) = row_upd od_id i k (orders db)"
  "usage_logs (upd_order i k db) = usage_logs db"
  "balance_txs (upd_order i k db) = balance_txs db"
  "seq_subscriptions (upd_order i k db) = seq_subscriptions db"
  "seq_orders (upd_order i k db) = seq_orders db"
  "info_uids (upd_order i k db) = info_uids db"
  by (simp_all add: upd_order_def)

lemma add_tx_simps [simp]:
  "users (add_tx t db) = users db"
  "api_keys (add_tx t db) = api_keys db"
  "plans (add_tx t db) = plans db"
  "subscriptions (add_tx t db) = subscriptions db"
  "orders (add_tx t db) = orders db"
  "channels (add_tx t db) = channels db"
  "models (add_tx t db) = models db"
  "route_policies (add_tx t db) = route_policies db"
  "usage_logs (add_tx t db) = usage_logs db"
  "balance_txs (add_tx t db) = balance_txs db @ [t]"
  "seq_subscriptions (add_tx t db) = seq_subscriptions db"
  "seq_orders (add_tx t db) = seq_orders db"
  "info_uids (add_tx t db) = info_uids db"
  by (simp_all add: add_tx_def)

lemma add_usage_log_simps [simp]:
  "users (add_usage_log l db) = users db"
  "api_keys (add_usage_log l db) = api_keys db"
  "plans (add_usage_log l db) = plans db"
  "subscriptions (add_usage_log l db) = subscriptions db"
  "orders (add_usage_log l db) = orders db"
  "channels (add_usage_log l db) = channels db"
  "models (add_usage_log l db) = models db"
  "route_policies (add_usage_log l db) = route_policies db"
  "usage_logs (add_usage_log l db) = usage_logs db @ [l]"
  "balance_txs (add_usage_log l db) = balance_txs db"
  "info_uids (add_usage_log l db) = info_uids db"
  by (simp_all add: add_usage_log_def)

lemma mark_quota_invalidate_simps [simp]:
  "users (mark_quota_invalidate u db) = users db"
  "api_keys (mark_quota_invalidate u db) = api_keys db"
  "plans (mark_quota_invalidate u db) = plans db"
  "subscriptions (mark_quota_invalidate u db) = subscriptions db"
  "orders (mark_quota_invalidate u db) = orders db"
  "channels (mark_quota_invalidate u db) = channels db"
  "models (mark_quota_invalidate u db) = models db"
  "route_policies (mark_quota_invalidate u db) = route_policies db"
  "usage_logs (mark_quota_invalidate u db) = usage_logs db"
  "balance_txs (mark_quota_invalidate u db) = balance_txs db"
  "seq_subscriptions (mark_quota_invalidate u db) = seq_subscriptions db"
  "seq_orders (mark_quota_invalidate u db) = seq_orders db"
  "set (info_uids (mark_quota_invalidate u db)) = insert u (set (info_uids db))"
  by (simp_all add: mark_quota_invalidate_def)

section \<open>Rows with the column defaults\<close>

definition default_user :: "int \<Rightarrow> int \<Rightarrow> user" where
  "default_user i bal = \<lparr>us_id = i, us_email = [], us_password_hash = [], us_role = role_user,
     us_balance_cents = bal, us_status = user_active, us_oauth_provider = None,
     us_oauth_uid = None\<rparr>"

definition default_api_key :: "int \<Rightarrow> int \<Rightarrow> api_key" where
  "default_api_key i uid = \<lparr>ak_id = i, ak_user_id = uid, ak_name = [], ak_key_hash = [],
     ak_key_prefix = [], ak_status = key_active, ak_quota_cents = 0, ak_used_cents = 0,
     ak_expires_at = None, ak_quota_mode = until_depleted, ak_quota_period = None,
     ak_quota_period_start = None, ak_quota_period_end = None\<rparr>"

definition default_plan :: "int \<Rightarrow> plan" where
  "default_plan i = \<lparr>pl_id = i, pl_code = [], pl_name = [], pl_description = None,
     pl_plan_type = recurring, pl_price_cents = 0, pl_quota_cents = 0, pl_duration_days = 30,
     pl_models_jsonb = JNull, pl_rate_limit_jsonb = JNull, pl_max_purchases_per_user = None,
     pl_active = True\<rparr>"

definition default_sub :: "int \<Rightarrow> int \<Rightarrow> int \<Rightarrow> datetime \<Rightarrow> int \<Rightarrow> subscription" where
  "default_sub i uid pid end rem = \<lparr>sb_id = i, sb_user_id = uid, sb_plan_id = pid, sb_start_at = 0,
     sb_current_period_start = 0, sb_current_period_end = end, sb_status = sub_active,
     sb_remaining_cents = rem, sb_cancel_at_period_end = False, sb_canceled_at = None,
     sb_last_renewal_at = None, sb_last_renewal_error = None\<rparr>"

definition default_channel :: "int \<Rightarrow> channel" where
  "default_channel i = \<lparr>ch_id = i, ch_name = [], ch_provider_type = ''openai.chat'',
     ch_connector_type = ''openai'', ch_base_url = [], ch_api_key_enc = None, ch_enabled = True\<rparr>"

definition default_model :: "int \<Rightarrow> int \<Rightarrow> model" where
  "default_model i cid = \<lparr>md_id = i, md_code = [], md_display_name = [], md_channel_id = cid,
     md_upstream_model = [], md_kind = ''chat'', md_upstream_protocol = None, md_prompt_rate = 0,
     md_completion_rate = 0, md_pricing_jsonb = [], md_enabled = True\<rparr>"

definition default_route :: "int \<Rightarrow> string \<Rightarrow> route_policy" where
  "default_route i name = \<lparr>rp_id = i, rp_user_facing_model = name, rp_modality = ''chat'',
     rp_exposed_protocols = [''openai.chat''], rp_strategy = weighted, rp_targets_jsonb = [],
     rp_fallback_model_id = None, rp_smart_rules_jsonb = [], rp_smart_embedding_model_id = None,
     rp_smart_exemplars_jsonb = [], rp_smart_score_threshold = 55,
     rp_smart_embedding_version = 0, rp_scope = scope_public, rp_enabled = True\<rparr>"

definition default_usage_log :: "int \<Rightarrow> usage_log" where
  "default_usage_log uid = \<lparr>ul_user_id = uid, ul_api_key_id = None, ul_model_id = None,
     ul_user_facing_model = None, ul_upstream_model = None, ul_prompt_tokens = 0,
     ul_completion_tokens = 0, ul_cost_cents = 0, ul_image_count = 0, ul_meta_jsonb = JNull,
     ul_latency_ms = 0, ul_status = ''ok'', ul_request_id = None, ul_kind = ''relay'',
     ul_resolved_label = None\<rparr>"

definition empty_session :: session where
  "empty_session = \<lparr>users = [], api_keys = [], plans = [], subscriptions = [], orders = [],
     channels = [], models = [], route_policies = [], usage_logs = [], balance_txs = [],
     seq_api_keys = 1, seq_subscriptions = 1, seq_orders = 1, info_uids = []\<rparr>"

lemmas default_row_defs = default_user_def default_api_key_def default_plan_def default_sub_def
  default_channel_def default_model_def default_route_def default_usage_log_def empty_session_def

end
