(* ===== verification/Py_Numbers.thy ===== *)
theory Py_Numbers
  imports Llmxy_Prelude
begin

text \<open>
  Python's arithmetic as the billing code uses it. \<open>a / b\<close> on two integers is the double
  nearest to the exact quotient (round half to even, 53 significant bits), so
  \<open>math.ceil(micro / 10_000_000)\<close> is not the ceiling of the exact quotient for every input.
  The model computes the rounding exactly, in integers: a positive double is \<open>q * 2 ^ (- s)\<close>
  with \<open>2 ^ 52 \<le> q \<le> 2 ^ 53\<close>. Overflow and subnormal results are outside the model: no
  quotient the code forms comes near \<open>2 ^ 1024\<close> or \<open>2 ^ (-1022)\<close>.
\<close>

section \<open>Correctly rounded true division\<close>

fun ilog2 :: "nat \<Rightarrow> nat" where
  "ilog2 n = (if n < 2 then 0 else Suc (ilog2 (n div 2)))"

declare ilog2.simps [simp del]

definition ceil_div :: "int \<Rightarrow> int \<Rightarrow> int" where
  "ceil_div a b = - ((- a) div b)"

definition round_half_even :: "nat \<Rightarrow> nat \<Rightarrow> nat" where
  "round_half_even n d =
     (let k = n div d; r = n mod d
      in if 2 * r < d \<or> (2 * r = d \<and> even k) then k else Suc k)"

definition quot_exp :: "nat \<Rightarrow> nat \<Rightarrow> int" where
  \<comment> \<open>the exponent of the leading bit of the quotient\<close>
  "quot_exp a b =
     (let e = int (ilog2 a) - int (ilog2 b)
      in if b * 2 ^ nat e \<le> a * 2 ^ nat (- e) then e else e - 1)"

definition float_shift :: "nat \<Rightarrow> nat \<Rightarrow> int" where
  "float_shift a b = 52 - quot_exp a b"

definition float_mant :: "nat \<Rightarrow> nat \<Rightarrow> nat" where
  "float_mant a b =
     round_half_even (a * 2 ^ nat (float_shift a b)) (b * 2 ^ nat (- float_shift a b))"

definition ceil_truediv_nat :: "nat \<Rightarrow> nat \<Rightarrow> int" where
  "ceil_truediv_nat a b =
     (if a = 0 then 0
      else let s = float_shift a b; q = int (float_mant a b)
           in if 0 \<le> s then ceil_div q (2 ^ nat s) else q * 2 ^ nat (- s))"

definition floor_truediv_nat :: "nat \<Rightarrow> nat \<Rightarrow> int" where
  "floor_truediv_nat a b =
     (if a = 0 then 0
      else let s = float_shift a b; q = int (float_mant a b)
           in if 0 \<le> s then q div 2 ^ nat s else q * 2 ^ nat (- s))"

text \<open>\<open>math.ceil(a / b)\<close> for integers \<open>a\<close> and a positive \<open>b\<close>.\<close>

definition ceil_truediv :: "int \<Rightarrow> nat \<Rightarrow> int" where
  "ceil_truediv a b =
     (if 0 \<le> a then ceil_truediv_nat (nat a) b else - floor_truediv_nat (nat (- a)) b)"

section \<open>Correctness of the rounding\<close>

lemma ilog2_bounds: "0 < n \<Longrightarrow> 2 ^ ilog2 n \<le> n \<and> n < 2 * 2 ^ ilog2 n"
proof (induction n rule: ilog2.induct)
  case (1 n)
  show ?case
  proof (cases "n < 2")
    case True
    with "1.prems" show ?thesis by (simp add: ilog2.simps [of n])
  next
    case False
    then have "2 ^ ilog2 (n div 2) \<le> n div 2 \<and> n div 2 < 2 * 2 ^ ilog2 (n div 2)"
      using "1.IH" by simp
    then have "2 * 2 ^ ilog2 (n div 2) \<le> n \<and> n < 2 * (2 * 2 ^ ilog2 (n div 2))"
      by arith
    with False show ?thesis by (simp add: ilog2.simps [of n])
  qed
qed

lemma ceil_div_unique:
  assumes "0 < b" and "(k - 1) * b < a" and "a \<le> k * b"
  shows "ceil_div a b = k"
proof -
  have "(- a) div b = - k"
    using assms by (intro int_div_pos_eq [where r = "k * b - a"]) (auto simp: algebra_simps)
  then show ?thesis by (simp add: ceil_div_def)
qed

lemma ceil_div_bounds:
  assumes "0 < b"
  shows "(ceil_div a b - 1) * b < a" and "a \<le> ceil_div a b * b"
proof -
  define x where "x = (- a) div b"
  define r where "r = (- a) mod b"
  have e: "x * b + r = - a" unfolding x_def r_def by (rule div_mult_mod_eq)
  have r: "0 \<le> r" "r < b" using assms by (simp_all add: r_def)
  have c: "ceil_div a b * b = - (x * b)" by (simp add: ceil_div_def x_def)
  show "a \<le> ceil_div a b * b" using c e r by linarith
  have "(ceil_div a b - 1) * b = ceil_div a b * b - b" by (simp add: left_diff_distrib)
  then show "(ceil_div a b - 1) * b < a" using c e r by linarith
qed

lemma round_half_even_error:
  assumes "0 < d"
  shows "2 * n \<le> 2 * (round_half_even n d * d) + d"
    and "2 * (round_half_even n d * d) \<le> 2 * n + d"
proof -
  let ?k = "n div d" and ?r = "n mod d"
  have n: "n = ?k * d + ?r" and r: "?r < d" using assms by simp_all
  have "2 * n \<le> 2 * (round_half_even n d * d) + d \<and> 2 * (round_half_even n d * d) \<le> 2 * n + d"
  proof (cases "2 * ?r < d \<or> (2 * ?r = d \<and> even ?k)")
    case True
    then have "round_half_even n d = ?k" by (simp add: round_half_even_def Let_def)
    then have m: "round_half_even n d * d = ?k * d" by simp
    from True have "2 * ?r \<le> d" by auto
    with n m show ?thesis by linarith
  next
    case False
    then have e: "round_half_even n d = Suc ?k" by (simp add: round_half_even_def Let_def)
    have m: "round_half_even n d * d = ?k * d + d" unfolding e by simp
    from False have "d \<le> 2 * ?r" by auto
    with n r m show ?thesis by linarith
  qed
  then show "2 * n \<le> 2 * (round_half_even n d * d) + d"
    and "2 * (round_half_even n d * d) \<le> 2 * n + d" by auto
qed

lemma quot_exp_le:
  assumes "0 < a" and "0 < b" and "a < 2 ^ m * b"
  shows "quot_exp a b < int m"
proof (rule ccontr)
  let ?e = "int (ilog2 a) - int (ilog2 b)"
  assume ge: "\<not> quot_exp a b < int m"
  define q where "q = nat (quot_exp a b)"
  have qe: "quot_exp a b = int q" using ge by (simp add: q_def)
  have "b * 2 ^ q \<le> a"
  proof (cases "b * 2 ^ nat ?e \<le> a * 2 ^ nat (- ?e)")
    case True
    then have "?e = int q" using qe by (simp add: quot_exp_def Let_def)
    with True show ?thesis by simp
  next
    case False
    then have e: "?e = int q + 1" using qe by (simp add: quot_exp_def Let_def)
    then have "ilog2 a = Suc (q + ilog2 b)" by simp
    then have "2 ^ Suc (q + ilog2 b) \<le> a" using ilog2_bounds [OF assms(1)] by metis
    then have "2 * 2 ^ ilog2 b * 2 ^ q \<le> a" by (simp add: power_add mult.commute mult.left_commute)
    moreover have "b * 2 ^ q \<le> 2 * 2 ^ ilog2 b * 2 ^ q"
      using ilog2_bounds [OF assms(2)] by (intro mult_right_mono) auto
    ultimately show ?thesis by linarith
  qed
  moreover have "m \<le> q" using ge qe by simp
  then have "b * 2 ^ m \<le> b * 2 ^ q" by (intro mult_left_mono power_increasing) auto
  moreover have "a < b * 2 ^ m" using assms(3) by (simp only: mult.commute)
  ultimately show False by linarith
qed

text \<open>
  The ceiling of the rounded quotient is the ceiling of the exact one as long as the quotient
  has fewer than \<open>m\<close> bits and the divisor fewer than \<open>54 - m\<close>.
\<close>

lemma ceil_truediv_nat_exact:
  assumes b: "0 < b" and a: "a < 2 ^ m * b" and m: "m \<le> 53" and d: "b < 2 ^ (54 - m)"
  shows "ceil_truediv_nat a b = ceil_div (int a) (int b)"
proof (cases "a = 0")
  case True
  then show ?thesis by (simp add: ceil_truediv_nat_def ceil_div_def)
next
  case False
  define s where "s = nat (float_shift a b)"
  define q where "q = float_mant a b"
  define k where "k = ceil_div (int a) (int b)"
  have "quot_exp a b < int m" using False a b by (intro quot_exp_le) auto
  then have sh: "float_shift a b = int s" and s: "53 - m \<le> s"
    using m by (auto simp: s_def float_shift_def)
  have q_def': "q = round_half_even (a * 2 ^ s) b"
    by (simp add: q_def float_mant_def sh)
  have lo: "int (2 * (a * 2 ^ s)) \<le> int (2 * (q * b) + b)"
    unfolding q_def' using round_half_even_error(1) [OF b] by (intro of_nat_mono)
  have hi: "int (2 * (q * b)) \<le> int (2 * (a * 2 ^ s) + b)"
    unfolding q_def' using round_half_even_error(2) [OF b] by (intro of_nat_mono)
  have k1: "(k - 1) * int b < int a" and k2: "int a \<le> k * int b"
    using ceil_div_bounds [of "int b" "int a"] b by (auto simp: k_def)
  have b2: "b < 2 * 2 ^ s"
  proof -
    have "(2::nat) ^ (54 - m) \<le> 2 ^ Suc s" using s by (intro power_increasing) auto
    with d show ?thesis by simp
  qed
  have "int q \<le> k * 2 ^ s"
  proof -
    have "int a * 2 ^ s \<le> k * int b * 2 ^ s" using k2 by (intro mult_right_mono) auto
    then have "2 * (int a * 2 ^ s) + int b \<le> 2 * (k * 2 ^ s * int b) + int b"
      by (simp only: mult_ac)
    moreover have "2 * (int q * int b) \<le> 2 * (int a * 2 ^ s) + int b" using hi by simp
    ultimately have "2 * (int q * int b) \<le> 2 * (k * 2 ^ s * int b) + int b" by linarith
    then have "(2 * int q) * int b \<le> (2 * (k * 2 ^ s) + 1) * int b"
      by (simp add: algebra_simps)
    then have "2 * int q \<le> 2 * (k * 2 ^ s) + 1"
      using b by (simp add: mult_le_cancel_right)
    then show ?thesis by arith
  qed
  moreover have "(k - 1) * 2 ^ s < int q"
  proof -
    have "((k - 1) * int b + 1) * 2 ^ s \<le> int a * 2 ^ s" using k1 by (intro mult_right_mono) auto
    moreover have "((k - 1) * int b + 1) * 2 ^ s = (k - 1) * 2 ^ s * int b + 2 ^ s"
      by (simp add: algebra_simps)
    ultimately have "(k - 1) * 2 ^ s * int b + 2 ^ s \<le> int a * 2 ^ s" by simp
    moreover have "2 * (int a * 2 ^ s) \<le> 2 * (int q * int b) + int b" using lo by simp
    ultimately have "2 * ((k - 1) * 2 ^ s * int b) + 2 * 2 ^ s \<le> 2 * (int q * int b) + int b"
      by linarith
    moreover have "int b < 2 * 2 ^ s"
      using b2 by (metis of_nat_less_iff of_nat_mult of_nat_numeral of_nat_power)
    ultimately have "(k - 1) * 2 ^ s * int b < int q * int b" by linarith
    then show ?thesis using b by (simp add: mult_less_cancel_right)
  qed
  ultimately have "ceil_div (int q) (2 ^ s) = k" by (intro ceil_div_unique) auto
  then show ?thesis
    using False by (simp add: ceil_truediv_nat_def sh q_def k_def)
qed

lemma ceil_div_nonneg: "0 \<le> a \<Longrightarrow> 0 < b \<Longrightarrow> 0 \<le> ceil_div a b"
  by (simp add: ceil_div_def div_nonpos_pos_le0)

lemma ceil_truediv_nonneg: "0 \<le> a \<Longrightarrow> 0 \<le> ceil_truediv a b"
  by (auto simp: ceil_truediv_def ceil_truediv_nat_def Let_def intro!: ceil_div_nonneg)

lemma quot_exp_ge:
  assumes "0 < a" and "0 < b"
  shows "b * 2 ^ nat (quot_exp a b) \<le> a * 2 ^ nat (- quot_exp a b)"
proof -
  define e where "e = int (ilog2 a) - int (ilog2 b)"
  show ?thesis
  proof (cases "b * 2 ^ nat e \<le> a * 2 ^ nat (- e)")
    case True
    then show ?thesis by (simp add: quot_exp_def Let_def e_def)
  next
    case False
    then have q: "quot_exp a b = e - 1" by (simp add: quot_exp_def Let_def e_def)
    have a: "2 ^ ilog2 a \<le> a" and b: "b \<le> 2 * 2 ^ ilog2 b"
      using ilog2_bounds [OF assms(1)] ilog2_bounds [OF assms(2)] by auto
    have "b * 2 ^ nat (e - 1) \<le> 2 * 2 ^ ilog2 b * 2 ^ nat (e - 1)" using b by (rule mult_right_mono) simp
    also have "\<dots> = 2 ^ (1 + ilog2 b + nat (e - 1))" by (simp add: power_add)
    also have "\<dots> = 2 ^ (ilog2 a + nat (- (e - 1)))" by (rule arg_cong [where f = "\<lambda>n. 2 ^ n"]) (simp add: e_def)
    also have "\<dots> \<le> a * 2 ^ nat (- (e - 1))" using a by (simp add: power_add)
    finally show ?thesis by (simp only: q)
  qed
qed

lemma float_mant_pos:
  assumes "0 < a" and "0 < b"
  shows "0 < float_mant a b"
proof -
  let ?q = "quot_exp a b" and ?s = "float_shift a b"
  have "b * 2 ^ nat (- ?s) \<le> a * 2 ^ nat ?s"
  proof -
    have "b * 2 ^ nat (- ?s) * 2 ^ nat ?q \<le> a * 2 ^ nat (- ?q) * 2 ^ nat (- ?s)"
      using quot_exp_ge [OF assms] by (simp add: mult.commute mult.left_commute)
    also have "\<dots> \<le> a * 2 ^ nat ?s * 2 ^ nat ?q"
    proof -
      have "nat (- ?q) + nat (- ?s) \<le> nat ?s + nat ?q" by (simp add: float_shift_def)
      then have "(2::nat) ^ (nat (- ?q) + nat (- ?s)) \<le> 2 ^ (nat ?s + nat ?q)"
        by (rule power_increasing) simp
      then show ?thesis by (simp add: power_add mult.assoc)
    qed
    finally show ?thesis by simp
  qed
  then have "1 \<le> a * 2 ^ nat ?s div (b * 2 ^ nat (- ?s))"
    using assms by (simp add: Suc_le_eq div_greater_zero_iff)
  then show ?thesis by (auto simp: float_mant_def round_half_even_def Let_def)
qed

lemma ceil_truediv_pos:
  assumes "0 < a" and "0 < b"
  shows "0 < ceil_truediv a b"
proof -
  have q: "0 < int (float_mant (nat a) b)" using assms float_mant_pos by simp
  have "0 < ceil_div (int (float_mant (nat a) b)) (2 ^ n)" for n
  proof (rule ccontr)
    assume "\<not> 0 < ceil_div (int (float_mant (nat a) b)) (2 ^ n)"
    then have "ceil_div (int (float_mant (nat a) b)) (2 ^ n) * 2 ^ n \<le> 0"
      by (intro mult_nonpos_nonneg) auto
    with q ceil_div_bounds(2) [of "2 ^ n" "int (float_mant (nat a) b)"] show False by simp
  qed
  with q assms show ?thesis
    by (simp add: ceil_truediv_def ceil_truediv_nat_def Let_def)
qed

lemma ceil_truediv_exact:
  assumes "0 \<le> a" and "0 < b" and "nat a < 2 ^ m * b" and "m \<le> 53" and "b < 2 ^ (54 - m)"
  shows "ceil_truediv a b = ceil_div a (int b)"
  using assms ceil_truediv_nat_exact [of b "nat a" m] by (simp add: ceil_truediv_def)

lemma ceil_truediv_0 [simp]: "ceil_truediv 0 b = 0"
  by (simp add: ceil_truediv_def ceil_truediv_nat_def)

end
