(* ===== verification/Billing.thy ===== *)
theory Billing
  imports Data_Model Py_Numbers
begin

text \<open>
  \<^verbatim>\<open>api/app/services/billing.py\<close>: prices, the charge and refund of a request, wallet top-ups,
  subscription grants and renewals. Each coroutine is a function from the session (the open
  transaction) and the objects it is handed to the new session, the changed objects and its
  result. \<open>now\<close> is the value of \<open>datetime.now(timezone.utc)\<close> inside the call.

  The parameter \<open>sync\<close> stands for SQLAlchemy's \<open>synchronize_session\<close>: whether a bulk
  \<open>UPDATE\<close> also applies its \<open>SET\<close> expression to the matching object already loaded in the
  session. It is on by default, and the comment in \<open>charge_user\<close> relies on it.
\<close>

section \<open>Prices\<close>

definition calc_cost_cents :: "model option \<Rightarrow> int \<Rightarrow> int \<Rightarrow> int" where
  "calc_cost_cents m prompt_tokens completion_tokens =
     (case m of None \<Rightarrow> 0
      | Some md \<Rightarrow>
          ceil_truediv (prompt_tokens * md_prompt_rate md
                        + completion_tokens * md_completion_rate md) 10000000)"

text \<open>
  \<open>str(v)\<close> of a JSON value. The text of floats and containers is not modelled (\<open>None\<close>): the
  code only compares it with a size or quality word.
\<close>

fun py_str :: "json \<Rightarrow> string option" where
  "py_str (JStr s) = Some s"
| "py_str (JInt i) = Some (str_int i)"
| "py_str (JBool b) = Some (if b then ''True'' else ''False'')"
| "py_str JNull = Some ''None''"
| "py_str _ = None"

fun match_tier :: "json list \<Rightarrow> string \<Rightarrow> string \<Rightarrow> py_error + int option" where
  \<comment> \<open>the \<open>for t in tiers\<close> loop: the price of the first tier with the size and quality\<close>
  "match_tier [] sz quality = Inr None"
| "match_tier (JObj t # ts) sz quality =
     (let tq = dict_get_none t ''quality'' in
      if py_str (dict_get_none t ''size'') = Some sz \<and> (tq = JNull \<or> py_str tq = Some quality)
      then bind_result (py_int (dict_get_default t ''price_micro'' (JInt 0))) (\<lambda>p. Inr (Some p))
      else match_tier ts sz quality)"
| "match_tier (_ # ts) sz quality = Inl AttributeError"

fun tier_prices :: "json list \<Rightarrow> py_error + int list" where
  "tier_prices [] = Inr []"
| "tier_prices (JObj t # ts) =
     bind_result (py_int (dict_get_default t ''price_micro'' (JInt 0)))
       (\<lambda>p. bind_result (tier_prices ts) (\<lambda>ps. Inr (p # ps)))"
| "tier_prices (_ # ts) = Inl AttributeError"

fun iter_json :: "json \<Rightarrow> py_error + json list" where
  \<comment> \<open>the elements a \<open>for\<close> loop visits; iterating a dict or a string yields strings\<close>
  "iter_json (JList xs) = Inr xs"
| "iter_json (JObj d) = Inr (map (\<lambda>(k, v). JStr k) d)"
| "iter_json (JStr s) = Inr (map (\<lambda>c. JStr [c]) s)"
| "iter_json _ = Inl TypeError"

definition match_image_tier_micro :: "dict \<Rightarrow> string \<Rightarrow> string \<Rightarrow> py_error + int" where
  "match_image_tier_micro cfg sz quality =
     bind_result (iter_json (py_or (dict_get_none cfg ''tiers'') (JList [])))
       (\<lambda>tiers. bind_result (match_tier tiers sz quality)
         (\<lambda>hit. case hit of
             Some p \<Rightarrow> Inr p
           | None \<Rightarrow>
               if tiers \<noteq> [] then bind_result (tier_prices tiers) (\<lambda>ps. Inr (Max (set ps)))
               else py_int (dict_get_default cfg ''default_price_micro'' (JInt 0))))"

definition quote_image_cost_cents ::
    "model option \<Rightarrow> string \<Rightarrow> string \<Rightarrow> int \<Rightarrow> string \<Rightarrow> py_error + int \<times> dict" where
  "quote_image_cost_cents m sz quality n0 prompt_text =
     (let cfg = (case m of None \<Rightarrow> [] | Some md \<Rightarrow> md_pricing_jsonb md);
          n = max 0 n0
      in case (m, py_or (dict_get_none cfg ''mode'') (JStr ''per_image'') = JStr ''token'') of
           (Some md, True) \<Rightarrow>
             (case py_or (dict_get_none cfg ''output_tokens'') (JObj []) of
                JObj out_map \<Rightarrow>
                  bind_result
                    (py_int (dict_get_default out_map (sz @ ''|'' @ quality)
                               (dict_get_default cfg ''default_out_tokens'' (JInt 0))))
                    (\<lambda>out_per.
                       let prompt_tokens =
                             (if prompt_text = [] then 0 else max 1 (int (py_len prompt_text) div 4));
                           micro = prompt_tokens * md_prompt_rate md
                                   + out_per * n * md_completion_rate md
                       in Inr (ceil_truediv micro 10000000,
                               [(''mode'', JStr ''token''), (''size'', JStr sz),
                                (''quality'', JStr quality), (''out_tokens_each'', JInt out_per),
                                (''prompt_tokens_est'', JInt prompt_tokens)]))
              | _ \<Rightarrow> Inl AttributeError)
         | _ \<Rightarrow>
             bind_result (match_image_tier_micro cfg sz quality)
               (\<lambda>unit. Inr (ceil_truediv (unit * n) 10000,
                            [(''mode'', JStr ''per_image''), (''size'', JStr sz),
                             (''quality'', JStr quality), (''unit_micro'', JInt unit)])))"

section \<open>Active subscriptions and quota\<close>

definition in_period :: "datetime \<Rightarrow> int \<Rightarrow> subscription \<Rightarrow> bool" where
  "in_period now uid s \<longleftrightarrow>
     sb_user_id s = uid \<and> sb_status s = sub_active \<and> sb_current_period_end s > now"

definition active_subscriptions :: "datetime \<Rightarrow> session \<Rightarrow> int \<Rightarrow> subscription list" where
  "active_subscriptions now db uid =
     sort_key sb_current_period_end
       (filter (\<lambda>s. in_period now uid s \<and> sb_remaining_cents s > 0) (subscriptions db))"

definition available_cents :: "datetime \<Rightarrow> session \<Rightarrow> user \<Rightarrow> int" where
  "available_cents now db u =
     sum_list (map sb_remaining_cents (active_subscriptions now db (us_id u)))
     + max 0 (us_balance_cents u)"

definition key_capped :: "api_key option \<Rightarrow> bool" where
  "key_capped k = (case k of None \<Rightarrow> False
     | Some ak \<Rightarrow> ak_quota_cents ak > 0 \<and> ak_used_cents ak \<ge> ak_quota_cents ak)"

definition has_quota :: "datetime \<Rightarrow> session \<Rightarrow> user \<Rightarrow> api_key option \<Rightarrow> bool \<times> string" where
  "has_quota now db u k =
     (if key_capped k then (False, ''api key quota exceeded'')
      else if active_subscriptions now db (us_id u) \<noteq> [] then (True, [])
      else if us_balance_cents u > 0 then (True, [])
      else (False, ''no active subscription and insufficient balance''))"

definition check_balance :: "user \<Rightarrow> api_key option \<Rightarrow> bool \<times> string" where
  "check_balance u k =
     (if key_capped k then (False, ''api key quota exceeded'')
      else if us_balance_cents u \<le> 0 then (False, ''insufficient balance'')
      else (True, []))"

section \<open>Charging\<close>

datatype source = src_sub | src_wallet

type_synonym breakdown = "(source \<times> int \<times> int) list"

fun drain_subs :: "subscription list \<Rightarrow> int \<Rightarrow> session \<Rightarrow> session \<times> int \<times> breakdown" where
  \<comment> \<open>the \<open>for sub in subs\<close> loop of \<open>charge_user\<close>\<close>
  "drain_subs [] remaining db = (db, remaining, [])"
| "drain_subs (s # ss) remaining db =
     (if remaining \<le> 0 then (db, remaining, [])
      else let take_amt = min (sb_remaining_cents s) remaining in
           if take_amt \<le> 0 then drain_subs ss remaining db
           else case drain_subs ss (remaining - take_amt)
                       (upd_sub (sb_id s)
                          (\<lambda>r. r\<lparr>sb_remaining_cents := sb_remaining_cents r - take_amt\<rparr>) db) of
                  (db', rest, bs) \<Rightarrow> (db', rest, (src_sub, sb_id s, take_amt) # bs))"

definition returning_balance :: "session \<Rightarrow> int \<Rightarrow> int" where
  \<comment> \<open>the \<open>RETURNING\<close> value; the row of a user loaded in this session exists\<close>
  "returning_balance db uid =
     (case row_get us_id uid (users db) of Some r \<Rightarrow> us_balance_cents r | None \<Rightarrow> 0)"

definition add_balance :: "int \<Rightarrow> int \<Rightarrow> session \<Rightarrow> session" where
  "add_balance uid amt db = upd_user uid (\<lambda>r. r\<lparr>us_balance_cents := us_balance_cents r + amt\<rparr>) db"

definition charge_key :: "bool \<Rightarrow> int \<Rightarrow> api_key \<Rightarrow> session \<Rightarrow> session \<times> api_key" where
  \<comment> \<open>the bulk \<open>UPDATE\<close>, then the assignment to the loaded object, written out by the flush\<close>
  "charge_key sync cost k db =
     (let db1 = upd_api_key (ak_id k) (\<lambda>r. r\<lparr>ak_used_cents := ak_used_cents r + cost\<rparr>) db;
          loaded = (if sync then ak_used_cents k + cost else ak_used_cents k);
          assigned = loaded + cost;
          db2 = (if assigned \<noteq> loaded
                 then upd_api_key (ak_id k) (\<lambda>r. r\<lparr>ak_used_cents := assigned\<rparr>) db1 else db1)
      in (db2, k\<lparr>ak_used_cents := assigned\<rparr>))"

fun breakdown_note :: "source \<times> int \<times> int \<Rightarrow> string" where
  "breakdown_note (src_sub, i, a) = ''sub#'' @ str_int i @ '':-'' @ str_int a"
| "breakdown_note (src_wallet, i, a) = ''wallet:-'' @ str_int a"

definition full_note :: "string option \<Rightarrow> string list \<Rightarrow> string option" where
  "full_note note notes =
     (let base = (case note of None \<Rightarrow> [] | Some s \<Rightarrow> s);
          full = (if notes \<noteq> [] then py_strip (base @ '' ['' @ py_join '';'' notes @ '']'') else base)
      in if full = [] then None else Some full)"

definition charge_user ::
    "bool \<Rightarrow> datetime \<Rightarrow> session \<Rightarrow> user \<Rightarrow> api_key option \<Rightarrow> int \<Rightarrow> string option \<Rightarrow> string option
       \<Rightarrow> session \<times> user \<times> api_key option \<times> breakdown" where
  "charge_user sync now db u k cost ref_id note =
     (if cost \<le> 0 then (db, u, k, [])
      else case drain_subs (active_subscriptions now db (us_id u)) cost db of
        (db1, remaining, subs_bd) \<Rightarrow>
          let db2 = (if remaining > 0 then add_balance (us_id u) (- remaining) db1 else db1);
              wallet_after = (if remaining > 0 then returning_balance db2 (us_id u)
                              else us_balance_cents u);
              u' = u\<lparr>us_balance_cents := wallet_after\<rparr>;
              bd = subs_bd @ (if remaining > 0 then [(src_wallet, 0, remaining)] else []);
              db3 = (case k of None \<Rightarrow> db2 | Some ak \<Rightarrow> fst (charge_key sync cost ak db2));
              k' = (case k of None \<Rightarrow> None | Some ak \<Rightarrow> Some (snd (charge_key sync cost ak db2)));
              db4 = add_tx \<lparr>tx_user_id = us_id u, tx_type = tx_consume, tx_amount_cents = - cost,
                       tx_balance_after = wallet_after, tx_ref_id = ref_id,
                       tx_note = full_note note (map breakdown_note bd)\<rparr> db3
          in (db4, u', k', bd))"

section \<open>Refunding\<close>

fun split_refund :: "int list \<Rightarrow> breakdown \<Rightarrow> int \<Rightarrow> (int \<times> int) list \<times> int" where
  \<comment> \<open>the \<open>for kind, sid, amt in breakdown\<close> loop: what goes to subscriptions, and what an
      inactive subscription's share adds to the wallet\<close>
  "split_refund active [] rem2 = ([], 0)"
| "split_refund active ((kind, sid, amt) # bd) rem2 =
     (if kind \<noteq> src_sub \<or> rem2 \<le> 0 then split_refund active bd rem2
      else let give = min amt rem2 in
           case split_refund active bd (rem2 - give) of
             (subs, w) \<Rightarrow> if sid \<in> set active then ((sid, give) # subs, w) else (subs, w + give))"

fun refund_subs :: "(int \<times> int) list \<Rightarrow> session \<Rightarrow> session" where
  "refund_subs [] db = db"
| "refund_subs ((sid, give) # rs) db =
     refund_subs rs
       (upd_sub sid (\<lambda>r. r\<lparr>sb_remaining_cents := sb_remaining_cents r + give\<rparr>) db)"

definition wallet_amount :: "breakdown \<Rightarrow> int" where
  "wallet_amount bd = sum_list (map (\<lambda>(kind, i, a). if kind = src_wallet then a else 0) bd)"

definition refund_key :: "bool \<Rightarrow> int \<Rightarrow> api_key \<Rightarrow> session \<Rightarrow> session \<times> api_key" where
  "refund_key sync total_refunded k db =
     (let db1 = upd_api_key (ak_id k) (\<lambda>r. r\<lparr>ak_used_cents := ak_used_cents r - total_refunded\<rparr>) db;
          loaded = (if sync then ak_used_cents k - total_refunded else ak_used_cents k);
          assigned = max 0 (loaded - total_refunded);
          db2 = (if assigned \<noteq> loaded
                 then upd_api_key (ak_id k) (\<lambda>r. r\<lparr>ak_used_cents := assigned\<rparr>) db1 else db1)
      in (db2, k\<lparr>ak_used_cents := assigned\<rparr>))"

definition refund_to_sources ::
    "bool \<Rightarrow> datetime \<Rightarrow> session \<Rightarrow> user \<Rightarrow> api_key option \<Rightarrow> breakdown \<Rightarrow> int \<Rightarrow> string option
       \<Rightarrow> string option \<Rightarrow> session \<times> user \<times> api_key option \<times> int" where
  "refund_to_sources sync now db u k bd refund_cents ref_id note =
     (if refund_cents \<le> 0 \<or> bd = [] then (db, u, k, 0)
      else
        let w0 = min (wallet_amount bd) refund_cents;
            rem2 = refund_cents - w0;
            (sub_refunds, w1) =
              (if rem2 > 0
               then split_refund (map sb_id (active_subscriptions now db (us_id u))) bd rem2
               else ([], 0));
            wallet_refund = w0 + w1;
            db1 = (if wallet_refund > 0 then add_balance (us_id u) wallet_refund db else db);
            wallet_after = (if wallet_refund > 0 then returning_balance db1 (us_id u)
                            else us_balance_cents u);
            u' = u\<lparr>us_balance_cents := wallet_after\<rparr>;
            db2 = refund_subs sub_refunds db1;
            total_refunded = wallet_refund + sum_list (map snd sub_refunds);
            db3 = (case k of None \<Rightarrow> db2
                   | Some ak \<Rightarrow> if total_refunded > 0 then fst (refund_key sync total_refunded ak db2) else db2);
            k' = (case k of None \<Rightarrow> None
                  | Some ak \<Rightarrow> Some (if total_refunded > 0 then snd (refund_key sync total_refunded ak db2) else ak));
            notes = (if wallet_refund > 0 then [''wallet:+'' @ str_int wallet_refund] else [])
                    @ map (\<lambda>(sid, g). ''sub#'' @ str_int sid @ '':+'' @ str_int g) sub_refunds;
            db4 = add_tx \<lparr>tx_user_id = us_id u, tx_type = tx_refund, tx_amount_cents = total_refunded,
                     tx_balance_after = wallet_after, tx_ref_id = ref_id,
                     tx_note = full_note note notes\<rparr> db3
        in (mark_quota_invalidate (us_id u) db4, u', k', total_refunded))"

section \<open>Periods, top-ups, grants, renewals\<close>

definition next_period_end :: "datetime \<Rightarrow> datetime" where
  "next_period_end now =
     (case dt_year_month now of (year, mon) \<Rightarrow>
        if mon + 1 > 12 then mk_datetime (year + 1) 1 1 else mk_datetime year (mon + 1) 1)"

definition initial_period_end :: "plan \<Rightarrow> datetime \<Rightarrow> datetime" where
  "initial_period_end p now =
     (if pl_plan_type p = one_time
      then now + timedelta_days (max 1 (if pl_duration_days p = 0 then 30 else pl_duration_days p))
      else next_period_end now)"

definition topup_wallet ::
    "session \<Rightarrow> user \<Rightarrow> int \<Rightarrow> string option \<Rightarrow> string option \<Rightarrow> session \<times> user" where
  "topup_wallet db u amount ref_id note =
     (let db1 = add_balance (us_id u) amount db;
          new_balance = returning_balance db1 (us_id u);
          db2 = add_tx \<lparr>tx_user_id = us_id u, tx_type = tx_topup, tx_amount_cents = amount,
                   tx_balance_after = new_balance, tx_ref_id = ref_id, tx_note = note\<rparr> db1
      in (mark_quota_invalidate (us_id u) db2, u\<lparr>us_balance_cents := new_balance\<rparr>))"

definition new_subscription :: "datetime \<Rightarrow> session \<Rightarrow> user \<Rightarrow> plan \<Rightarrow> subscription" where
  "new_subscription now db u p =
     \<lparr>sb_id = seq_subscriptions db, sb_user_id = us_id u, sb_plan_id = pl_id p, sb_start_at = now,
      sb_current_period_start = now, sb_current_period_end = initial_period_end p now,
      sb_status = sub_active, sb_remaining_cents = pl_quota_cents p,
      sb_cancel_at_period_end = False, sb_canceled_at = None, sb_last_renewal_at = None,
      sb_last_renewal_error = None\<rparr>"

definition grant_subscription ::
    "datetime \<Rightarrow> session \<Rightarrow> user \<Rightarrow> plan \<Rightarrow> string option \<Rightarrow> session \<times> subscription" where
  "grant_subscription now db u p ref_id =
     (let sub = new_subscription now db u p;
          db1 = db\<lparr>subscriptions := subscriptions db @ [sub],
                   seq_subscriptions := seq_subscriptions db + 1\<rparr>;
          db2 = add_tx \<lparr>tx_user_id = us_id u, tx_type = tx_grant, tx_amount_cents = pl_quota_cents p,
                   tx_balance_after = us_balance_cents u, tx_ref_id = ref_id,
                   tx_note = Some (''plan '' @ pl_code p @ '' sub#'' @ str_int (sb_id sub))\<rparr> db1
      in (mark_quota_invalidate (us_id u) db2, sub))"

definition renew_subscription ::
    "datetime \<Rightarrow> session \<Rightarrow> subscription \<Rightarrow> session \<times> bool \<times> string" where
  "renew_subscription now db sub =
     (case row_get pl_id (sb_plan_id sub) (plans db) of
        None \<Rightarrow>
          (upd_sub (sb_id sub) (\<lambda>r. r\<lparr>sb_status := sub_expired,
             sb_last_renewal_error := Some ''plan deleted''\<rparr>) db, False, ''plan deleted'')
      | Some p \<Rightarrow>
          if sb_cancel_at_period_end sub then
            (upd_sub (sb_id sub) (\<lambda>r. r\<lparr>sb_status := sub_expired,
               sb_canceled_at := Some (case sb_canceled_at sub of None \<Rightarrow> now | Some t \<Rightarrow> t),
               sb_remaining_cents := 0\<rparr>) db, True, ''canceled at period end'')
          else if pl_plan_type p = one_time then
            (upd_sub (sb_id sub) (\<lambda>r. r\<lparr>sb_status := sub_expired, sb_remaining_cents := 0,
               sb_last_renewal_error := None\<rparr>) db, True, ''one-time plan expired'')
          else case row_get us_id (sb_user_id sub) (users db) of
            None \<Rightarrow>
              (upd_sub (sb_id sub) (\<lambda>r. r\<lparr>sb_status := sub_expired,
                 sb_last_renewal_error := Some ''user inactive''\<rparr>) db, False, ''user inactive'')
          | Some u \<Rightarrow>
              if us_status u \<noteq> user_active then
                (upd_sub (sb_id sub) (\<lambda>r. r\<lparr>sb_status := sub_expired,
                   sb_last_renewal_error := Some ''user inactive''\<rparr>) db, False, ''user inactive'')
              else
                let price = pl_price_cents p; balance = us_balance_cents u in
                if price > balance then
                  let err = ''insufficient balance ('' @ str_int balance @ '' < '' @ str_int price
                            @ '')'' in
                  (upd_sub (sb_id sub) (\<lambda>r. r\<lparr>sb_status := sub_past_due,
                     sb_remaining_cents := 0, sb_last_renewal_error := Some err\<rparr>) db, False, err)
                else
                  let db1 = (if price > 0 then add_balance (us_id u) (- price) db else db);
                      db2 = (if price > 0 then
                               add_tx \<lparr>tx_user_id = us_id u, tx_type = tx_consume,
                                 tx_amount_cents = - price,
                                 tx_balance_after = returning_balance db1 (us_id u),
                                 tx_ref_id = Some (''sub#'' @ str_int (sb_id sub)),
                                 tx_note = Some (''plan '' @ pl_code p @ '' renewal'')\<rparr> db1
                             else db1);
                      db3 = upd_sub (sb_id sub) (\<lambda>r. r\<lparr>
                              sb_current_period_start := sb_current_period_end sub,
                              sb_current_period_end := next_period_end (sb_current_period_end sub),
                              sb_remaining_cents := pl_quota_cents p, sb_status := sub_active,
                              sb_last_renewal_at := Some now, sb_last_renewal_error := None\<rparr>) db2
                  in (mark_quota_invalidate (sb_user_id sub) db3, True, ''renewed''))"

end
