(* ===== verification/Billing_Laws.thy ===== *)
theory Billing_Laws
  imports Billing
begin

text \<open>
  What \<^verbatim>\<open>billing.py\<close> guarantees: exact prices, charges that take precisely the cost, soonest
  expiring subscription first, refunds that give back precisely what was asked, and calendar
  periods that move forward.
\<close>

section \<open>Keys of the tables\<close>

definition keys_ok :: "session \<Rightarrow> bool" where
  "keys_ok db \<longleftrightarrow>
     distinct (map us_id (users db)) \<and> distinct (map ak_id (api_keys db))
     \<and> distinct (map sb_id (subscriptions db)) \<and> distinct (map od_id (orders db))
     \<and> (\<forall>s \<in> set (subscriptions db). sb_id s < seq_subscriptions db)
     \<and> (\<forall>ord \<in> set (orders db). od_id ord < seq_orders db)"

section \<open>Funds\<close>

definition sub_funds :: "datetime \<Rightarrow> int \<Rightarrow> subscription \<Rightarrow> int" where
  "sub_funds now uid s = (if in_period now uid s then max 0 (sb_remaining_cents s) else 0)"

definition sub_total :: "datetime \<Rightarrow> session \<Rightarrow> int \<Rightarrow> int" where
  "sub_total now db uid = sum_list (map (sub_funds now uid) (subscriptions db))"

definition wallet_of :: "session \<Rightarrow> int \<Rightarrow> int" where
  "wallet_of db uid = returning_balance db uid"

definition amounts :: "breakdown \<Rightarrow> int" where
  "amounts bd = sum_list (map (\<lambda>(kind, i, a). a) bd)"

definition sub_amount :: "breakdown \<Rightarrow> int \<Rightarrow> int" where
  "sub_amount bd i = sum_list (map (\<lambda>(kind, j, a). if kind = src_sub \<and> j = i then a else 0) bd)"

lemma amounts_simps [simp]:
  "amounts [] = 0"
  "amounts ((x, i, a) # bd) = a + amounts bd"
  "amounts (b1 @ b2) = amounts b1 + amounts b2"
  by (simp_all add: amounts_def)

lemma sub_amount_simps [simp]:
  "sub_amount [] i = 0"
  "sub_amount ((x, j, a) # bd) i = (if x = src_sub \<and> j = i then a else 0) + sub_amount bd i"
  "sub_amount (b1 @ b2) i = sub_amount b1 i + sub_amount b2 i"
  by (simp_all add: sub_amount_def)

lemma wallet_amount_simps [simp]:
  "wallet_amount [] = 0"
  "wallet_amount ((x, i, a) # bd) = (if x = src_wallet then a else 0) + wallet_amount bd"
  "wallet_amount (b1 @ b2) = wallet_amount b1 + wallet_amount b2"
  by (simp_all add: wallet_amount_def)

lemma active_sum:
  "sum_list (map sb_remaining_cents (active_subscriptions now db uid)) = sub_total now db uid"
proof -
  have "sum_list (map sb_remaining_cents
          (filter (\<lambda>s. in_period now uid s \<and> sb_remaining_cents s > 0) t))
        = sum_list (map (sub_funds now uid) t)" for t
    by (induction t) (auto simp: sub_funds_def)
  then show ?thesis
    by (simp add: active_subscriptions_def sum_list_filter_sort_key sub_total_def)
qed

lemma active_set:
  "s \<in> set (active_subscriptions now db uid) \<longleftrightarrow>
     s \<in> set (subscriptions db) \<and> in_period now uid s \<and> 0 < sb_remaining_cents s"
  by (auto simp: active_subscriptions_def)

lemma active_distinct:
  assumes "distinct (map sb_id (subscriptions db))"
  shows "distinct (map sb_id (active_subscriptions now db uid))"
  using assms by (simp add: active_subscriptions_def distinct_map_sort_key distinct_map_filter)

lemma active_sorted: "sorted (map sb_current_period_end (active_subscriptions now db uid))"
  by (simp add: active_subscriptions_def)

lemma returning_balance_add [simp]:
  "row_get us_id uid (users db) = Some r \<Longrightarrow>
     returning_balance (add_balance uid amt db) uid = us_balance_cents r + amt"
  by (simp add: returning_balance_def add_balance_def row_simps)

lemma returning_balance_add_other:
  "i \<noteq> uid \<Longrightarrow> returning_balance (add_balance uid amt db) i = returning_balance db i"
  by (simp add: returning_balance_def add_balance_def row_simps)

lemma add_balance_simps [simp]:
  "api_keys (add_balance uid amt db) = api_keys db"
  "plans (add_balance uid amt db) = plans db"
  "subscriptions (add_balance uid amt db) = subscriptions db"
  "orders (add_balance uid amt db) = orders db"
  "usage_logs (add_balance uid amt db) = usage_logs db"
  "balance_txs (add_balance uid amt db) = balance_txs db"
  "models (add_balance uid amt db) = models db"
  "channels (add_balance uid amt db) = channels db"
  "seq_subscriptions (add_balance uid amt db) = seq_subscriptions db"
  "seq_orders (add_balance uid amt db) = seq_orders db"
  "info_uids (add_balance uid amt db) = info_uids db"
  by (simp_all add: add_balance_def)

lemma returning_balance_cong: "users db = users db' \<Longrightarrow> returning_balance db = returning_balance db'"
  by (simp add: returning_balance_def fun_eq_iff)

lemma sub_total_cong: "subscriptions db = subscriptions db' \<Longrightarrow> sub_total now db = sub_total now db'"
  by (simp add: sub_total_def fun_eq_iff)

lemma sub_total_nonneg: "0 \<le> sub_total now db uid"
  by (auto simp: sub_total_def sub_funds_def intro!: sum_list_nonneg_int)

section \<open>Draining subscriptions\<close>

fun takes :: "subscription list \<Rightarrow> int \<Rightarrow> breakdown" where
  "takes [] c = []"
| "takes (s # ss) c =
     (if c \<le> 0 then []
      else (src_sub, sb_id s, min (sb_remaining_cents s) c)
           # takes ss (c - min (sb_remaining_cents s) c))"

lemma drain_Cons:
  assumes "drain_subs (s # ss) c db = (db', rest, bd)"
  obtains (stop) "c \<le> 0" "db' = db" "rest = c" "bd = []"
  | (skip) "0 < c" "sb_remaining_cents s \<le> 0" "drain_subs ss c db = (db', rest, bd)"
  | (take) t b where "0 < c" "0 < sb_remaining_cents s" "t = min (sb_remaining_cents s) c"
      "drain_subs ss (c - t)
         (upd_sub (sb_id s) (\<lambda>r. r\<lparr>sb_remaining_cents := sb_remaining_cents r - t\<rparr>) db)
           = (db', rest, b)"
      "bd = (src_sub, sb_id s, t) # b"
proof -
  consider "c \<le> 0" | "0 < c" "sb_remaining_cents s \<le> 0" | "0 < c" "0 < sb_remaining_cents s"
    by linarith
  then show thesis
  proof cases
    case 1
    with assms show thesis by (intro stop) auto
  next
    case 2
    with assms show thesis by (intro skip) auto
  next
    case 3
    then have "\<not> c \<le> 0" and "\<not> min (sb_remaining_cents s) c \<le> 0" by auto
    with assms 3 take show thesis by (auto simp: Let_def split: prod.splits)
  qed
qed

lemma drain_frame:
  assumes "drain_subs ss c db = (db', rest, bd)"
  shows "users db' = users db \<and> api_keys db' = api_keys db \<and> plans db' = plans db
    \<and> orders db' = orders db \<and> usage_logs db' = usage_logs db \<and> balance_txs db' = balance_txs db
    \<and> models db' = models db \<and> channels db' = channels db \<and> route_policies db' = route_policies db
    \<and> seq_subscriptions db' = seq_subscriptions db \<and> seq_orders db' = seq_orders db
    \<and> info_uids db' = info_uids db
    \<and> map sb_id (subscriptions db') = map sb_id (subscriptions db)"
  using assms
proof (induction ss arbitrary: c db bd)
  case Nil
  then show ?case by simp
next
  case (Cons s ss)
  from Cons.prems show ?case
  proof (cases rule: drain_Cons)
    case (take t b)
    from Cons.IH [OF take(4)] show ?thesis by (simp add: row_simps)
  qed (use Cons.IH in auto)
qed

lemma drain_bd:
  assumes "\<forall>s \<in> set ss. 0 < sb_remaining_cents s" and "drain_subs ss c db = (db', rest, bd)"
  shows "bd = takes ss c"
  using assms
proof (induction ss arbitrary: c db bd)
  case Nil
  then show ?case by simp
next
  case (Cons s ss)
  from Cons.prems(2) show ?case
  proof (cases rule: drain_Cons)
    case (take t b)
    with Cons.IH [OF _ take(4)] Cons.prems(1) show ?thesis by simp
  qed (use Cons.prems in auto)
qed

lemma drain_rows:
  assumes "drain_subs ss c db = (db', rest, bd)"
  shows "row_get sb_id i (subscriptions db')
           = map_option (\<lambda>r. r\<lparr>sb_remaining_cents := sb_remaining_cents r - sub_amount bd i\<rparr>)
               (row_get sb_id i (subscriptions db))"
  using assms
proof (induction ss arbitrary: c db bd)
  case Nil
  then show ?case by (cases "row_get sb_id i (subscriptions db)") auto
next
  case (Cons s ss)
  from Cons.prems show ?case
  proof (cases rule: drain_Cons)
    case stop
    then show ?thesis by (cases "row_get sb_id i (subscriptions db)") auto
  next
    case skip
    then show ?thesis by (intro Cons.IH)
  next
    case (take t b)
    from Cons.IH [OF take(4)] take(5) show ?thesis
      by (cases "row_get sb_id i (subscriptions db)") (auto simp: row_simps algebra_simps)
  qed
qed

lemma drain_rest:
  assumes "\<forall>s \<in> set ss. 0 < sb_remaining_cents s" and "0 \<le> c"
    and "drain_subs ss c db = (db', rest, bd)"
  shows "rest = max 0 (c - sum_list (map sb_remaining_cents ss)) \<and> amounts bd = c - rest"
  using assms
proof (induction ss arbitrary: c db bd)
  case Nil
  then show ?case by auto
next
  case (Cons s ss)
  have sum: "0 \<le> sum_list (map sb_remaining_cents ss)"
    using Cons.prems(1) by (intro sum_list_nonneg_int) auto
  from Cons.prems(3) show ?case
  proof (cases rule: drain_Cons)
    case stop
    with Cons.prems sum show ?thesis by auto
  next
    case skip
    with Cons.prems(1) show ?thesis by auto
  next
    case (take t b)
    have "rest = max 0 (c - t - sum_list (map sb_remaining_cents ss)) \<and> amounts b = c - t - rest"
      using Cons.IH [OF _ _ take(4)] Cons.prems(1) take(3) by simp
    with take sum show ?thesis by auto
  qed
qed

lemma drain_total:
  assumes "distinct (map sb_id (subscriptions db))" and "distinct (map sb_id ss)"
    and "\<forall>s \<in> set ss. row_get sb_id (sb_id s) (subscriptions db) = Some s
           \<and> in_period now uid s \<and> 0 < sb_remaining_cents s"
    and "drain_subs ss c db = (db', rest, bd)"
  shows "sub_total now db' uid = sub_total now db uid - amounts bd"
  using assms
proof (induction ss arbitrary: c db bd)
  case Nil
  then show ?case by simp
next
  case (Cons s ss)
  from Cons.prems(4) show ?case
  proof (cases rule: drain_Cons)
    case stop
    then show ?thesis by simp
  next
    case skip
    with Cons.prems(3) show ?thesis by auto
  next
    case (take t b)
    let ?f = "\<lambda>r. r\<lparr>sb_remaining_cents := sb_remaining_cents r - t\<rparr>"
    let ?db = "upd_sub (sb_id s) ?f db"
    have ne: "sb_id x \<noteq> sb_id s" if "x \<in> set ss" for x
      using Cons.prems(2) that by (metis distinct.simps(2) image_eqI list.set_map list.simps(9))
    have gets: "\<forall>x \<in> set ss. row_get sb_id (sb_id x) (subscriptions ?db) = Some x
           \<and> in_period now uid x \<and> 0 < sb_remaining_cents x"
      using Cons.prems(3) ne by (simp add: row_simps)
    have dist: "distinct (map sb_id (subscriptions ?db))"
      using Cons.prems(1) by (simp add: row_simps)
    have "sub_total now db' uid = sub_total now ?db uid - amounts b"
      using Cons.IH [OF dist _ gets take(4)] Cons.prems(2) by simp
    moreover have "sub_total now ?db uid
        = sub_total now db uid - sub_funds now uid s + sub_funds now uid (?f s)"
      unfolding sub_total_def using Cons.prems(1,3) by (simp add: row.sum_upd)
    moreover have "sub_funds now uid (?f s) = sub_funds now uid s - t"
      using Cons.prems(3) take(3) by (simp add: sub_funds_def in_period_def)
    ultimately show ?thesis by (simp add: take(5))
  qed
qed

lemma takes_sub: "(x, i, a) \<in> set (takes ss c) \<Longrightarrow> x = src_sub \<and> i \<in> sb_id ` set ss"
  by (induction ss c rule: takes.induct) (auto split: if_splits)

lemma takes_pos:
  "\<forall>s \<in> set ss. 0 < sb_remaining_cents s \<Longrightarrow> (x, i, a) \<in> set (takes ss c) \<Longrightarrow> 0 < a"
  by (induction ss c rule: takes.induct) (auto split: if_splits)

lemma takes_wallet: "wallet_amount (takes ss c) = 0"
  by (induction ss c rule: takes.induct) auto

lemma takes_absent: "i \<notin> sb_id ` set ss \<Longrightarrow> sub_amount (takes ss c) i = 0"
  by (induction ss c rule: takes.induct) auto

lemma takes_amount:
  "distinct (map sb_id ss) \<Longrightarrow> s \<in> set ss \<Longrightarrow> 0 < sb_remaining_cents s \<Longrightarrow>
     0 \<le> sub_amount (takes ss c) (sb_id s) \<and> sub_amount (takes ss c) (sb_id s) \<le> sb_remaining_cents s"
proof (induction ss c rule: takes.induct)
  case (1 c)
  then show ?case by simp
next
  case (2 r ss c)
  show ?case
  proof (cases "s = r")
    case True
    with "2.prems" have "sub_amount (takes ss d) (sb_id s) = 0" for d by (intro takes_absent) auto
    with True "2.prems" show ?thesis by auto
  next
    case False
    with "2.prems" have "sb_id s \<noteq> sb_id r" by (metis distinct.simps(2) image_eqI list.set_map list.simps(9) set_ConsD)
    with False "2" show ?thesis by auto
  qed
qed

text \<open>A subscription is charged only once every earlier one in the list is used up.\<close>

lemma takes_order:
  assumes "sorted (map sb_current_period_end ss)" and "distinct (map sb_id ss)"
    and "\<forall>s \<in> set ss. 0 < sb_remaining_cents s"
    and "s \<in> set ss" and "t \<in> set ss" and "sb_current_period_end t < sb_current_period_end s"
    and "sub_amount (takes ss c) (sb_id s) > 0"
  shows "sub_amount (takes ss c) (sb_id t) = sb_remaining_cents t"
  using assms
proof (induction ss c rule: takes.induct)
  case (1 c)
  then show ?case by simp
next
  case (2 r ss c)
  have c: "0 < c" using "2.prems"(7) by (auto split: if_splits)
  have "s \<noteq> r" using "2.prems"(1,4,5,6) by (auto simp: not_less [symmetric])
  have ids: "sb_id x \<noteq> sb_id r" if "x \<in> set ss" for x
    using "2.prems"(2) that by (metis distinct.simps(2) image_eqI list.set_map list.simps(9))
  from \<open>s \<noteq> r\<close> have s: "s \<in> set ss" "sb_id s \<noteq> sb_id r" using "2.prems"(4) ids by auto
  let ?rest = "c - min (sb_remaining_cents r) c"
  have amt: "sub_amount (takes ss ?rest) (sb_id s) > 0" using "2.prems"(7) c s by simp
  show ?case
  proof (cases "t = r")
    case True
    have "0 < ?rest" using amt by (cases ss) (auto split: if_splits)
    moreover have "sub_amount (takes ss ?rest) (sb_id r) = 0"
      using "2.prems"(2) by (intro takes_absent) auto
    ultimately show ?thesis using True c by auto
  next
    case False
    then have "t \<in> set ss" "sb_id t \<noteq> sb_id r" using "2.prems"(5) ids by auto
    with "2.IH" c "2.prems" s amt show ?thesis by auto
  qed
qed

lemma drain_total_other:
  assumes "distinct (map sb_id (subscriptions db))" and "distinct (map sb_id ss)"
    and "\<forall>s \<in> set ss. row_get sb_id (sb_id s) (subscriptions db) = Some s \<and> sb_user_id s = uid"
    and "drain_subs ss c db = (db', rest, bd)" and "j \<noteq> uid"
  shows "sub_total now db' j = sub_total now db j"
  using assms
proof (induction ss arbitrary: c db bd)
  case Nil
  then show ?case by simp
next
  case (Cons s ss)
  from Cons.prems(4) show ?case
  proof (cases rule: drain_Cons)
    case stop
    then show ?thesis by simp
  next
    case skip
    with Cons.prems Cons.IH show ?thesis by simp
  next
    case (take t b)
    let ?f = "\<lambda>r. r\<lparr>sb_remaining_cents := sb_remaining_cents r - t\<rparr>"
    let ?db = "upd_sub (sb_id s) ?f db"
    have ne: "sb_id x \<noteq> sb_id s" if "x \<in> set ss" for x
      using Cons.prems(2) that by (metis distinct.simps(2) image_eqI list.set_map list.simps(9))
    have "sub_total now db' j = sub_total now ?db j"
      using Cons.prems ne by (intro Cons.IH [OF _ _ _ take(4)]) (simp_all add: row_simps)
    moreover have "sub_total now ?db j = sub_total now db j - sub_funds now j s + sub_funds now j (?f s)"
      unfolding sub_total_def using Cons.prems(1,3) by (simp add: row.sum_upd)
    ultimately show ?thesis using Cons.prems(3,5) by (simp add: sub_funds_def in_period_def)
  qed
qed

section \<open>The effect of a charge\<close>

definition shortfall :: "datetime \<Rightarrow> session \<Rightarrow> int \<Rightarrow> int \<Rightarrow> int" where
  \<comment> \<open>what the subscriptions cannot cover\<close>
  "shortfall now db uid cost = max 0 (cost - sub_total now db uid)"

lemma drain_active:
  assumes "distinct (map sb_id (subscriptions db))" and "0 \<le> cost"
    and "drain_subs (active_subscriptions now db uid) cost db = (db1, rest, bd)"
  shows "rest = shortfall now db uid cost" and "bd = takes (active_subscriptions now db uid) cost"
    and "amounts bd = cost - rest" and "sub_total now db1 uid = sub_total now db uid - amounts bd"
    and "j \<noteq> uid \<Longrightarrow> sub_total now db1 j = sub_total now db j"
proof -
  let ?ss = "active_subscriptions now db uid"
  have pos: "\<forall>s \<in> set ?ss. 0 < sb_remaining_cents s" by (simp add: active_set)
  have gets: "\<forall>s \<in> set ?ss. row_get sb_id (sb_id s) (subscriptions db) = Some s
       \<and> in_period now uid s \<and> 0 < sb_remaining_cents s"
    using assms(1) by (auto simp: active_set row.get_unique)
  have dist: "distinct (map sb_id ?ss)" using assms(1) by (rule active_distinct)
  show "rest = shortfall now db uid cost" and "amounts bd = cost - rest"
    using drain_rest [OF pos assms(2,3)] by (simp_all add: shortfall_def active_sum)
  show "bd = takes ?ss cost" using pos assms(3) by (rule drain_bd)
  show "sub_total now db1 uid = sub_total now db uid - amounts bd"
    using assms(1) dist gets assms(3) by (rule drain_total)
  show "j \<noteq> uid \<Longrightarrow> sub_total now db1 j = sub_total now db j"
    using gets by (intro drain_total_other [OF assms(1) dist _ assms(3)]) (auto simp: in_period_def)
qed

lemma charge_key_frame [simp]:
  "users (fst (charge_key sync cost k db)) = users db"
  "plans (fst (charge_key sync cost k db)) = plans db"
  "subscriptions (fst (charge_key sync cost k db)) = subscriptions db"
  "orders (fst (charge_key sync cost k db)) = orders db"
  "usage_logs (fst (charge_key sync cost k db)) = usage_logs db"
  "balance_txs (fst (charge_key sync cost k db)) = balance_txs db"
  "models (fst (charge_key sync cost k db)) = models db"
  "channels (fst (charge_key sync cost k db)) = channels db"
  "route_policies (fst (charge_key sync cost k db)) = route_policies db"
  "seq_subscriptions (fst (charge_key sync cost k db)) = seq_subscriptions db"
  "seq_orders (fst (charge_key sync cost k db)) = seq_orders db"
  "info_uids (fst (charge_key sync cost k db)) = info_uids db"
  "map ak_id (api_keys (fst (charge_key sync cost k db))) = map ak_id (api_keys db)"
  by (auto simp: charge_key_def Let_def row_simps)

lemma charge_key_row:
  assumes "0 < cost"
  shows "row_get ak_id i (api_keys (fst (charge_key sync cost k db))) =
           (if i = ak_id k
            then map_option (\<lambda>r. r\<lparr>ak_used_cents := ak_used_cents k + (if sync then 2 else 1) * cost\<rparr>)
                   (row_get ak_id i (api_keys db))
            else row_get ak_id i (api_keys db))"
  using assms by (auto simp: charge_key_def Let_def row_simps option.map_comp comp_def add.commute)

text \<open>Everything a charge does to the session, for a positive cost.\<close>

lemma charge_user_effect:
  assumes "distinct (map sb_id (subscriptions db))"
    and "row_get us_id (us_id u) (users db) = Some row" and "0 < cost"
    and "charge_user sync now db u k cost ref_id note = (db', u', k', bd)"
  defines "rest \<equiv> shortfall now db (us_id u) cost"
  shows "bd = takes (active_subscriptions now db (us_id u)) cost
              @ (if 0 < rest then [(src_wallet, 0, rest)] else [])"
    and "amounts bd = cost" and "wallet_amount bd = rest"
    and "users db' = (if 0 < rest
           then row_upd us_id (us_id u) (\<lambda>r. r\<lparr>us_balance_cents := us_balance_cents r - rest\<rparr>) (users db)
           else users db)"
    and "us_balance_cents u' = (if 0 < rest then us_balance_cents row - rest else us_balance_cents u)"
    and "us_id u' = us_id u"
    and "sub_total now db' (us_id u) = sub_total now db (us_id u) - (cost - rest)"
    and "j \<noteq> us_id u \<Longrightarrow> sub_total now db' j = sub_total now db j"
    and "row_get sb_id i (subscriptions db')
           = map_option (\<lambda>r. r\<lparr>sb_remaining_cents := sb_remaining_cents r - sub_amount bd i\<rparr>)
               (row_get sb_id i (subscriptions db))"
    and "row_get ak_id i (api_keys db') =
           (if \<exists>ak. k = Some ak \<and> ak_id ak = i
            then map_option (\<lambda>r. r\<lparr>ak_used_cents := ak_used_cents (the k) + (if sync then 2 else 1) * cost\<rparr>)
                   (row_get ak_id i (api_keys db))
            else row_get ak_id i (api_keys db))"
    and "\<exists>nt. balance_txs db' = balance_txs db @
           [\<lparr>tx_user_id = us_id u, tx_type = tx_consume, tx_amount_cents = - cost,
             tx_balance_after = us_balance_cents u', tx_ref_id = ref_id, tx_note = nt\<rparr>]"
    and "map sb_id (subscriptions db') = map sb_id (subscriptions db)"
    and "map ak_id (api_keys db') = map ak_id (api_keys db)"
    and "orders db' = orders db \<and> plans db' = plans db \<and> models db' = models db
         \<and> channels db' = channels db \<and> usage_logs db' = usage_logs db
         \<and> seq_subscriptions db' = seq_subscriptions db \<and> seq_orders db' = seq_orders db
         \<and> info_uids db' = info_uids db"
proof -
  obtain db1 rst sbd where
    dr: "drain_subs (active_subscriptions now db (us_id u)) cost db = (db1, rst, sbd)"
    by (metis prod_cases3)
  note d = drain_active [OF assms(1) less_imp_le [OF assms(3)] dr]
  note fr = drain_frame [OF dr]
  have rst: "rst = rest" using d(1) by (simp add: rest_def)
  define db2 where "db2 = (if rest > 0 then add_balance (us_id u) (- rest) db1 else db1)"
  define db3 where
    "db3 = (case k of None \<Rightarrow> db2 | Some ak \<Rightarrow> fst (charge_key sync cost ak db2))"
  have bd: "bd = sbd @ (if 0 < rest then [(src_wallet, 0, rest)] else [])"
    and u': "us_balance_cents u' = (if rest > 0 then returning_balance db2 (us_id u) else us_balance_cents u)"
    and uid: "us_id u' = us_id u"
    and db': "\<exists>nt. db' = add_tx \<lparr>tx_user_id = us_id u, tx_type = tx_consume,
        tx_amount_cents = - cost, tx_balance_after = us_balance_cents u', tx_ref_id = ref_id,
        tx_note = nt\<rparr> db3"
    using assms(3,4) dr unfolding rst db2_def db3_def
    by (auto simp: charge_user_def Let_def)
  have row1: "row_get us_id (us_id u) (users db1) = Some row" using fr assms(2) by simp
  have s3: "subscriptions db3 = subscriptions db1"
    by (auto simp: db3_def db2_def split: option.splits)
  from db' have s': "subscriptions db' = subscriptions db1" by (auto simp: s3)
  show "bd = takes (active_subscriptions now db (us_id u)) cost
              @ (if 0 < rest then [(src_wallet, 0, rest)] else [])" using bd d(2) by simp
  show "amounts bd = cost" using bd d(3) rst by (auto simp: rest_def shortfall_def)
  show "wallet_amount bd = rest"
    using bd d(2) takes_wallet by (auto simp: rest_def shortfall_def)
  have u3: "users db3 = users db2" by (auto simp: db3_def split: option.splits)
  show "users db' = (if 0 < rest
           then row_upd us_id (us_id u) (\<lambda>r. r\<lparr>us_balance_cents := us_balance_cents r - rest\<rparr>) (users db)
           else users db)"
    using db' fr by (auto simp: u3 db2_def add_balance_def)
  show "us_balance_cents u' = (if 0 < rest then us_balance_cents row - rest else us_balance_cents u)"
    using u' row1 by (auto simp: db2_def)
  show "us_id u' = us_id u" by (rule uid)
  show "sub_total now db' (us_id u) = sub_total now db (us_id u) - (cost - rest)"
    using d(3,4) rst sub_total_cong [OF s'] by simp
  show "j \<noteq> us_id u \<Longrightarrow> sub_total now db' j = sub_total now db j"
    using d(5) sub_total_cong [OF s'] by simp
  show "row_get sb_id i (subscriptions db')
           = map_option (\<lambda>r. r\<lparr>sb_remaining_cents := sb_remaining_cents r - sub_amount bd i\<rparr>)
               (row_get sb_id i (subscriptions db))"
    using drain_rows [OF dr] bd by (simp add: s')
  show "row_get ak_id i (api_keys db') =
           (if \<exists>ak. k = Some ak \<and> ak_id ak = i
            then map_option (\<lambda>r. r\<lparr>ak_used_cents := ak_used_cents (the k) + (if sync then 2 else 1) * cost\<rparr>)
                   (row_get ak_id i (api_keys db))
            else row_get ak_id i (api_keys db))"
    using db' fr assms(3) by (auto simp: db3_def db2_def charge_key_row split: option.splits)
  show "\<exists>nt. balance_txs db' = balance_txs db @
           [\<lparr>tx_user_id = us_id u, tx_type = tx_consume, tx_amount_cents = - cost,
             tx_balance_after = us_balance_cents u', tx_ref_id = ref_id, tx_note = nt\<rparr>]"
    using db' fr by (auto simp: db3_def db2_def split: option.splits)
  show "map sb_id (subscriptions db') = map sb_id (subscriptions db)" using fr by (simp add: s')
  show "map ak_id (api_keys db') = map ak_id (api_keys db)"
    using db' fr by (auto simp: db3_def db2_def split: option.splits)
  show "orders db' = orders db \<and> plans db' = plans db \<and> models db' = models db
         \<and> channels db' = channels db \<and> usage_logs db' = usage_logs db
         \<and> seq_subscriptions db' = seq_subscriptions db \<and> seq_orders db' = seq_orders db
         \<and> info_uids db' = info_uids db"
    using db' fr by (auto simp: db3_def db2_def split: option.splits)
qed

section \<open>A small database for concrete instances\<close>

definition demo_user :: user where "demo_user = default_user 7 100"

definition demo_db :: session where
  "demo_db = empty_session\<lparr>
     users := [default_user 3 10, demo_user],
     api_keys := [(default_api_key 5 7)\<lparr>ak_used_cents := 40\<rparr>],
     subscriptions := [default_sub 1 7 1 1000 50, default_sub 2 7 1 500 30, default_sub 3 3 1 500 90],
     seq_subscriptions := 4\<rparr>"

lemmas demo_defs = demo_db_def demo_user_def default_row_defs

lemma demo_keys_ok: "keys_ok demo_db"
  by (simp add: keys_ok_def demo_defs)

lemma demo_row: "row_get us_id (us_id demo_user) (users demo_db) = Some demo_user"
  by (simp add: demo_defs row_get_def)

lemma demo_charge:
  obtains db' u' k' bd where "charge_user sync now db u k cost ref_id note = (db', u', k', bd)"
  by (metis prod_cases4)

section \<open>Properties of prices\<close>

text \<open>
  Claim C10. A request is never free when its micro-cent price is positive, and as long as the
  price is below \<open>2^30\<close> cents the floating point division in \<open>calc_cost_cents\<close> gives exactly
  the ceiling of the price in cents, where a rate is, as the docstring of the function has it, in
  units of 1/10000 cent per 1000 tokens. This contradicts \<^verbatim>\<open>tests/test_billing.py\<close>, whose
  \<open>test_calc_cost_cents_basic\<close> expects 1 for the rates 10000 and 20000 and 1000 tokens of each kind (its
  comment reads the same price as 0.003 cents): the code returns 3 there, as the witness shows, so that
  test fails.
\<close>

theorem calc_cost_cents_exact:
  fixes m :: model and pt ct :: int
  defines "micro \<equiv> pt * md_prompt_rate m + ct * md_completion_rate m"
  assumes "0 \<le> micro"
  shows "(0 < micro \<longrightarrow> 1 \<le> calc_cost_cents (Some m) pt ct)
    \<and> (micro < 2 ^ 30 * 10000000 \<longrightarrow> calc_cost_cents (Some m) pt ct = ceil_div micro 10000000)
    \<and> 0 \<le> calc_cost_cents (Some m) pt ct"
proof -
  have c: "calc_cost_cents (Some m) pt ct = ceil_truediv micro 10000000"
    by (simp add: calc_cost_cents_def micro_def)
  have "nat micro < 2 ^ 30 * 10000000" if "micro < 2 ^ 30 * 10000000" using that by simp
  then have "micro < 2 ^ 30 * 10000000 \<longrightarrow> ceil_truediv micro 10000000 = ceil_div micro 10000000"
    using ceil_truediv_exact [OF assms(2), of 10000000 30] by simp
  moreover have "0 < micro \<longrightarrow> 1 \<le> ceil_truediv micro 10000000"
    by (metis ceil_truediv_pos int_one_le_iff_zero_less zero_less_numeral)
  ultimately show ?thesis using ceil_truediv_nonneg [OF assms(2)] by (simp only: c)
qed

theorem calc_cost_cents_exact_witness:
  "calc_cost_cents (Some ((default_model 1 1)\<lparr>md_prompt_rate := 10000, md_completion_rate := 20000\<rparr>))
     1000 1000 = 3
   \<and> calc_cost_cents (Some ((default_model 1 1)\<lparr>md_prompt_rate := 10000, md_completion_rate := 20000\<rparr>))
     10 0 = 1"
proof -
  let ?m = "(default_model 1 1)\<lparr>md_prompt_rate := 10000, md_completion_rate := 20000\<rparr>"
  have "calc_cost_cents (Some ?m) 1000 1000 = ceil_div 30000000 10000000"
    using calc_cost_cents_exact [where m = ?m and pt = 1000 and ct = 1000] by simp
  moreover have "calc_cost_cents (Some ?m) 10 0 = ceil_div 100000 10000000"
    using calc_cost_cents_exact [where m = ?m and pt = 10 and ct = 0] by simp
  ultimately show ?thesis by (simp add: ceil_div_def)
qed

section \<open>Properties of charges\<close>

text \<open>
  Claim C1. A charge takes exactly its cost: the user's subscription quota and wallet together
  fall by the cost, the returned breakdown adds up to it, and nobody else's funds change.
\<close>

theorem charge_user_conserves:
  assumes "keys_ok db" and "row_get us_id (us_id u) (users db) = Some row" and "0 < cost"
    and "charge_user sync now db u k cost ref_id note = (db', u', k', bd)"
  shows "sub_total now db' (us_id u) + wallet_of db' (us_id u)
           = sub_total now db (us_id u) + wallet_of db (us_id u) - cost
    \<and> amounts bd = cost
    \<and> (\<forall>j. j \<noteq> us_id u \<longrightarrow>
          sub_total now db' j = sub_total now db j \<and> wallet_of db' j = wallet_of db j)"
proof -
  have ds: "distinct (map sb_id (subscriptions db))" using assms(1) by (simp add: keys_ok_def)
  note e = charge_user_effect [OF ds assms(2-4)]
  have w: "wallet_of db' (us_id u) = wallet_of db (us_id u) - shortfall now db (us_id u) cost"
    using e(4) assms(2) by (auto simp: wallet_of_def returning_balance_def row_simps shortfall_def)
  have o: "wallet_of db' j = wallet_of db j" if "j \<noteq> us_id u" for j
    using e(4) that by (auto simp: wallet_of_def returning_balance_def row_simps)
  show ?thesis using e(2,7,8) w o by auto
qed

theorem charge_user_conserves_witness:
  "case charge_user True 0 demo_db demo_user None 120 None None of (db', u', k', bd) \<Rightarrow>
     sub_total 0 db' 7 + wallet_of db' 7 = 60 \<and> amounts bd = 120 \<and> wallet_of db' 3 = 10"
proof -
  obtain db' u' k' bd where c:
    "charge_user True 0 demo_db demo_user None 120 None None = (db', u', k', bd)"
    by (rule demo_charge)
  have "sub_total 0 demo_db 7 = 80" and "wallet_of demo_db 7 = 100" and "wallet_of demo_db 3 = 10"
    by (simp_all add: sub_total_def sub_funds_def in_period_def wallet_of_def returning_balance_def
        demo_defs row_get_def)
  with charge_user_conserves [OF demo_keys_ok demo_row _ c] c show ?thesis
    by (simp add: demo_user_def default_user_def)
qed

text \<open>
  The wallet pays only what the active subscriptions cannot cover, and subscriptions
  are used up in the order they expire: if one is charged, every one that ends earlier is down
  to zero afterwards.
\<close>

theorem charge_user_soonest_first:
  assumes "keys_ok db" and "row_get us_id (us_id u) (users db) = Some row" and "0 < cost"
    and "charge_user sync now db u k cost ref_id note = (db', u', k', bd)"
  shows "wallet_of db' (us_id u)
           = wallet_of db (us_id u) - max 0 (cost - sub_total now db (us_id u))
    \<and> (\<forall>s \<in> set (active_subscriptions now db (us_id u)).
         \<forall>t \<in> set (active_subscriptions now db (us_id u)).
           sb_current_period_end t < sb_current_period_end s \<longrightarrow> 0 < sub_amount bd (sb_id s) \<longrightarrow>
           map_option sb_remaining_cents (row_get sb_id (sb_id t) (subscriptions db')) = Some 0)"
proof -
  have ds: "distinct (map sb_id (subscriptions db))" using assms(1) by (simp add: keys_ok_def)
  note e = charge_user_effect [OF ds assms(2-4)]
  let ?ss = "active_subscriptions now db (us_id u)"
  have w: "wallet_of db' (us_id u)
           = wallet_of db (us_id u) - max 0 (cost - sub_total now db (us_id u))"
    using e(4) assms(2) by (auto simp: wallet_of_def returning_balance_def row_simps shortfall_def)
  have amt: "sub_amount bd i = sub_amount (takes ?ss cost) i" for i
    using e(1) by simp
  have "map_option sb_remaining_cents (row_get sb_id (sb_id t) (subscriptions db')) = Some 0"
    if "s \<in> set ?ss" "t \<in> set ?ss" "sb_current_period_end t < sb_current_period_end s"
      "0 < sub_amount bd (sb_id s)" for s t
  proof -
    have "sub_amount (takes ?ss cost) (sb_id t) = sb_remaining_cents t"
      using that by (intro takes_order [of ?ss s]) (auto simp: active_sorted active_distinct ds active_set amt)
    moreover have "row_get sb_id (sb_id t) (subscriptions db) = Some t"
      using that(2) ds by (auto simp: active_set row.get_unique)
    ultimately show ?thesis using e(9) [of "sb_id t"] by (simp add: amt)
  qed
  with w show ?thesis by blast
qed

theorem charge_user_soonest_first_witness:
  "case charge_user True 0 demo_db demo_user None 40 None None of (db', u', k', bd) \<Rightarrow>
     wallet_of db' 7 = 100 \<and> bd = [(src_sub, 2, 30), (src_sub, 1, 10)]
     \<and> map_option sb_remaining_cents (row_get sb_id 2 (subscriptions db')) = Some 0"
proof -
  obtain db' u' k' bd where c:
    "charge_user True 0 demo_db demo_user None 40 None None = (db', u', k', bd)"
    by (rule demo_charge)
  have uid: "us_id demo_user = 7" by (simp add: demo_defs)
  have act: "active_subscriptions 0 demo_db 7 = [default_sub 2 7 1 500 30, default_sub 1 7 1 1000 50]"
    by (simp add: active_subscriptions_def in_period_def demo_defs)
  have "sub_total 0 demo_db 7 = 80" and "wallet_of demo_db 7 = 100"
    by (simp_all add: sub_total_def sub_funds_def in_period_def wallet_of_def returning_balance_def
        demo_defs row_get_def)
  moreover have "bd = [(src_sub, 2, 30), (src_sub, 1, 10)]"
    using c by (simp add: charge_user_def uid act default_sub_def Let_def split: prod.splits)
  ultimately show ?thesis
    using charge_user_soonest_first [OF demo_keys_ok demo_row _ c] c
    by (simp add: uid act default_sub_def)
qed

text \<open>
  A charge that was gated by \<open>available_cents\<close> never drives a non-negative wallet
  below zero, and never takes more from a subscription than it holds.
\<close>

theorem charge_user_never_overdraws:
  assumes "keys_ok db" and "row_get us_id (us_id u) (users db) = Some u"
    and "0 \<le> us_balance_cents u" and "cost \<le> available_cents now db u"
    and "charge_user sync now db u k cost ref_id note = (db', u', k', bd)"
  shows "0 \<le> wallet_of db' (us_id u)
    \<and> (\<forall>s \<in> set (active_subscriptions now db (us_id u)).
         \<exists>r. row_get sb_id (sb_id s) (subscriptions db') = Some r \<and> 0 \<le> sb_remaining_cents r)"
proof (cases "0 < cost")
  case False
  then have "db' = db" using assms(5) by (simp add: charge_user_def)
  moreover have "distinct (map sb_id (subscriptions db))" using assms(1) by (simp add: keys_ok_def)
  ultimately show ?thesis
    using assms(2,3) by (auto simp: wallet_of_def returning_balance_def active_set row.get_unique)
next
  case True
  have ds: "distinct (map sb_id (subscriptions db))" using assms(1) by (simp add: keys_ok_def)
  note e = charge_user_effect [OF ds assms(2) True assms(5)]
  have "0 \<le> wallet_of db' (us_id u)"
    using e(4) assms(2,3,4)
    by (auto simp: wallet_of_def returning_balance_def row_simps shortfall_def available_cents_def active_sum)
  moreover have "\<exists>r. row_get sb_id (sb_id s) (subscriptions db') = Some r \<and> 0 \<le> sb_remaining_cents r"
    if "s \<in> set (active_subscriptions now db (us_id u))" for s
    using that ds e(1) e(9) [of "sb_id s"] takes_amount [OF active_distinct [OF ds] that, of cost]
    by (auto simp: active_set row.get_unique)
  ultimately show ?thesis by blast
qed

theorem charge_user_never_overdraws_witness:
  "180 \<le> available_cents 0 demo_db demo_user
   \<and> (case charge_user True 0 demo_db demo_user None 180 None None of (db', u', k', bd) \<Rightarrow>
        0 \<le> wallet_of db' 7)"
proof -
  obtain db' u' k' bd where c:
    "charge_user True 0 demo_db demo_user None 180 None None = (db', u', k', bd)"
    by (rule demo_charge)
  have "180 \<le> available_cents 0 demo_db demo_user"
    by (simp add: available_cents_def active_sum sub_total_def sub_funds_def in_period_def demo_defs)
  with charge_user_never_overdraws [OF demo_keys_ok demo_row _ _ c] c show ?thesis
    by (simp add: demo_user_def default_user_def)
qed

text \<open>
  With session synchronisation on, a charge raises the stored \<open>used_cents\<close> of the API
  key by twice the cost: the bulk update is mirrored onto the loaded key, the code adds the cost
  to the loaded key once more, and the flush writes that value back. Without synchronisation the
  flush writes the loaded value plus the cost, whatever other transactions added meanwhile.
\<close>

theorem charge_user_key_usage:
  assumes "keys_ok db" and "row_get us_id (us_id u) (users db) = Some row" and "0 < cost"
    and "row_get ak_id (ak_id ak) (api_keys db) = Some stored"
    and "charge_user sync now db u (Some ak) cost ref_id note = (db', u', k', bd)"
  shows "map_option ak_used_cents (row_get ak_id (ak_id ak) (api_keys db'))
           = Some (ak_used_cents ak + (if sync then 2 * cost else cost))"
proof -
  have ds: "distinct (map sb_id (subscriptions db))" using assms(1) by (simp add: keys_ok_def)
  show ?thesis
    using charge_user_effect(10) [OF ds assms(2,3,5), of "ak_id ak"] assms(4) by (auto simp: comp_def)
qed

theorem charge_user_key_usage_witness:
  "case charge_user True 0 demo_db demo_user (Some ((default_api_key 5 7)\<lparr>ak_used_cents := 40\<rparr>))
          10 None None of (db', u', k', bd) \<Rightarrow>
     map_option ak_used_cents (row_get ak_id 5 (api_keys db')) = Some 60"
proof -
  let ?k = "(default_api_key 5 7)\<lparr>ak_used_cents := 40\<rparr>"
  obtain db' u' k' bd where c:
    "charge_user True 0 demo_db demo_user (Some ?k) 10 None None = (db', u', k', bd)"
    by (rule demo_charge)
  have "row_get ak_id (ak_id ?k) (api_keys demo_db) = Some ?k"
    by (simp add: demo_defs row_get_def)
  from charge_user_key_usage [OF demo_keys_ok demo_row _ this c] c show ?thesis
    by (simp add: default_api_key_def)
qed

end
