(* ===== verification/Refund_Laws.thy ===== *)
theory Refund_Laws
  imports Billing_Laws
begin

text \<open>
  What \<open>refund_to_sources\<close> guarantees, and how a charge followed by its refund behaves: the money
  is all returned, to the drained sources where they are still active.
\<close>

section \<open>The split of a refund\<close>

definition sub_part :: "breakdown \<Rightarrow> int" where
  "sub_part bd = sum_list (map (\<lambda>(kind, i, a). if kind = src_sub then a else 0) bd)"

lemma sub_part_simps [simp]:
  "sub_part [] = 0"
  "sub_part ((x, i, a) # bd) = (if x = src_sub then a else 0) + sub_part bd"
  "sub_part (b1 @ b2) = sub_part b1 + sub_part b2"
  by (simp_all add: sub_part_def)

lemma amounts_parts: "amounts bd = wallet_amount bd + sub_part bd"
proof (induction bd)
  case (Cons e bd)
  obtain x i a where "e = (x, i, a)" by (cases e)
  with Cons show ?case by (cases x) auto
qed simp

definition nonneg_bd :: "breakdown \<Rightarrow> bool" where
  "nonneg_bd bd \<longleftrightarrow> (\<forall>(x, i, a) \<in> set bd. 0 \<le> a)"

lemma sub_part_nonneg: "nonneg_bd bd \<Longrightarrow> 0 \<le> sub_part bd"
  by (induction bd) (auto simp: nonneg_bd_def)

lemma wallet_amount_nonneg: "nonneg_bd bd \<Longrightarrow> 0 \<le> wallet_amount bd"
  by (induction bd) (auto simp: nonneg_bd_def)

lemma split_refund_total:
  assumes "nonneg_bd bd" and "0 \<le> rem2" and "split_refund act bd rem2 = (subs, w)"
  shows "w + sum_list (map snd subs) = min rem2 (sub_part bd) \<and> 0 \<le> w
    \<and> (\<forall>(i, g) \<in> set subs. 0 \<le> g \<and> i \<in> set act)"
  using assms
proof (induction act bd rem2 arbitrary: subs w rule: split_refund.induct)
  case (1 act rem2)
  then show ?case by auto
next
  case (2 act kind sid amt bd rem2)
  have nn: "nonneg_bd bd" and amt: "0 \<le> amt" using "2.prems"(1) by (auto simp: nonneg_bd_def)
  have sp: "0 \<le> sub_part bd" using nn by (rule sub_part_nonneg)
  show ?case
  proof (cases "kind \<noteq> src_sub \<or> rem2 \<le> 0")
    case True
    then have "split_refund act bd rem2 = (subs, w)" using "2.prems"(3) by simp
    from "2.IH"(1) [OF True nn "2.prems"(2) this] True "2.prems"(2) amt sp show ?thesis by auto
  next
    case False
    obtain s1 w1 where r: "split_refund act bd (rem2 - min amt rem2) = (s1, w1)" by force
    have "w1 + sum_list (map snd s1) = min (rem2 - min amt rem2) (sub_part bd) \<and> 0 \<le> w1
      \<and> (\<forall>(i, g) \<in> set s1. 0 \<le> g \<and> i \<in> set act)"
      using "2.IH"(2) [OF False refl nn _ r] by simp
    with False r "2.prems" amt sp show ?thesis by (auto simp: Let_def split: if_splits)
  qed
qed

text \<open>A subscription's entry in the split never exceeds what was taken from it.\<close>

section \<open>Refunding subscriptions\<close>

lemma refund_subs_frame:
  "users (refund_subs rs db) = users db" "api_keys (refund_subs rs db) = api_keys db"
  "plans (refund_subs rs db) = plans db" "orders (refund_subs rs db) = orders db"
  "usage_logs (refund_subs rs db) = usage_logs db" "balance_txs (refund_subs rs db) = balance_txs db"
  "models (refund_subs rs db) = models db" "channels (refund_subs rs db) = channels db"
  "seq_subscriptions (refund_subs rs db) = seq_subscriptions db"
  "seq_orders (refund_subs rs db) = seq_orders db"
  "info_uids (refund_subs rs db) = info_uids db"
  "map sb_id (subscriptions (refund_subs rs db)) = map sb_id (subscriptions db)"
  by (induction rs db rule: refund_subs.induct) (simp_all add: row_simps)

lemma refund_subs_rows:
  "row_get sb_id i (subscriptions (refund_subs rs db))
     = map_option (\<lambda>r. r\<lparr>sb_remaining_cents := sb_remaining_cents r
           + sum_list (map (\<lambda>(j, g). if j = i then g else 0) rs)\<rparr>)
         (row_get sb_id i (subscriptions db))"
proof (induction rs db rule: refund_subs.induct)
  case (1 db)
  then show ?case by (cases "row_get sb_id i (subscriptions db)") auto
next
  case (2 sid give rs db)
  then show ?case
    by (cases "row_get sb_id i (subscriptions db)") (auto simp: row_simps algebra_simps)
qed

text \<open>
  A row of the table whose key is in the refund list belongs to the user and is in its period,
  so what the list adds to it counts fully towards the user's quota.
\<close>

lemma refund_subs_total:
  assumes "distinct (map sb_id (subscriptions db))"
    and "\<forall>(i, g) \<in> set rs. 0 \<le> g \<and> (\<exists>r. row_get sb_id i (subscriptions db) = Some r
           \<and> in_period now uid r \<and> 0 \<le> sb_remaining_cents r)"
  shows "sub_total now (refund_subs rs db) uid = sub_total now db uid + sum_list (map snd rs)"
  using assms
proof (induction rs db rule: refund_subs.induct)
  case (1 db)
  then show ?case by simp
next
  case (2 sid give rs db)
  let ?f = "\<lambda>r. r\<lparr>sb_remaining_cents := sb_remaining_cents r + give\<rparr>"
  let ?db = "upd_sub sid ?f db"
  obtain r where r: "row_get sb_id sid (subscriptions db) = Some r" "in_period now uid r"
    "0 \<le> sb_remaining_cents r" and g: "0 \<le> give"
    using "2.prems"(2) by auto
  have "sub_total now (refund_subs rs ?db) uid = sub_total now ?db uid + sum_list (map snd rs)"
  proof (rule "2.IH")
    show "distinct (map sb_id (subscriptions ?db))" using "2.prems"(1) by (simp add: row_simps)
    show "\<forall>(i, g) \<in> set rs. 0 \<le> g \<and> (\<exists>r. row_get sb_id i (subscriptions ?db) = Some r
           \<and> in_period now uid r \<and> 0 \<le> sb_remaining_cents r)"
      using "2.prems"(2) g by (fastforce simp: row_simps in_period_def)
  qed
  moreover have "sub_total now ?db uid = sub_total now db uid - sub_funds now uid r + sub_funds now uid (?f r)"
    unfolding sub_total_def using "2.prems"(1) r(1) by (simp add: row.sum_upd)
  moreover have "sub_funds now uid (?f r) = sub_funds now uid r + give"
    using r g by (simp add: sub_funds_def in_period_def)
  ultimately show ?case by simp
qed

lemma refund_key_frame [simp]:
  "users (fst (refund_key sync t k db)) = users db"
  "subscriptions (fst (refund_key sync t k db)) = subscriptions db"
  "orders (fst (refund_key sync t k db)) = orders db"
  "plans (fst (refund_key sync t k db)) = plans db"
  "usage_logs (fst (refund_key sync t k db)) = usage_logs db"
  "balance_txs (fst (refund_key sync t k db)) = balance_txs db"
  "seq_subscriptions (fst (refund_key sync t k db)) = seq_subscriptions db"
  "seq_orders (fst (refund_key sync t k db)) = seq_orders db"
  "map ak_id (api_keys (fst (refund_key sync t k db))) = map ak_id (api_keys db)"
  by (auto simp: refund_key_def Let_def row_simps)

section \<open>The effect of a refund\<close>

definition refund_split :: "datetime \<Rightarrow> session \<Rightarrow> int \<Rightarrow> breakdown \<Rightarrow> int \<Rightarrow> (int \<times> int) list \<times> int" where
  \<comment> \<open>what a refund gives to subscriptions and what it adds to the wallet\<close>
  "refund_split now db uid bd amt =
     (let w0 = min (wallet_amount bd) amt in
      if amt - w0 > 0
      then (case split_refund (map sb_id (active_subscriptions now db uid)) bd (amt - w0) of
              (subs, w1) \<Rightarrow> (subs, w0 + w1))
      else ([], w0))"

lemma refund_shape:
  assumes "0 < amt" and "bd \<noteq> []"
    and "refund_to_sources sync now db u k bd amt ref_id note = (db', u', k', refunded)"
    and "refund_split now db (us_id u) bd amt = (subs, w)"
  shows "refunded = w + sum_list (map snd subs)"
    and "subscriptions db' = subscriptions (refund_subs subs db)"
    and "users db' = (if 0 < w then users (add_balance (us_id u) w db) else users db)"
    and "us_balance_cents u' = (if 0 < w then returning_balance (add_balance (us_id u) w db) (us_id u)
           else us_balance_cents u)"
    and "us_id u' = us_id u"
    and "orders db' = orders db \<and> plans db' = plans db \<and> usage_logs db' = usage_logs db
         \<and> seq_subscriptions db' = seq_subscriptions db \<and> seq_orders db' = seq_orders db
         \<and> map ak_id (api_keys db') = map ak_id (api_keys db)"
    and "\<exists>nt. balance_txs db' = balance_txs db @ [\<lparr>tx_user_id = us_id u, tx_type = tx_refund,
           tx_amount_cents = refunded, tx_balance_after = us_balance_cents u',
           tx_ref_id = ref_id, tx_note = nt\<rparr>]"
    and "us_id u \<in> set (info_uids db')"
proof -
  have sub_eq: "subscriptions (refund_subs s (add_balance i a x)) = subscriptions (refund_subs s x)" for s i a x
  proof (induction s arbitrary: x)
    case (Cons p s)
    obtain sid g where "p = (sid, g)" by (cases p)
    moreover have "upd_sub sid f (add_balance i a x) = add_balance i a (upd_sub sid f x)" for f
      by (simp add: upd_sub_def add_balance_def upd_user_def)
    ultimately show ?case using Cons by simp
  qed simp
  obtain subs0 w1 where sp: "(if amt - min (wallet_amount bd) amt > 0
      then split_refund (map sb_id (active_subscriptions now db (us_id u))) bd
             (amt - min (wallet_amount bd) amt) else ([], 0)) = (subs0, w1)" by force
  then have sw: "subs0 = subs" "w = min (wallet_amount bd) amt + w1"
    using assms(4) by (auto simp: refund_split_def Let_def split: prod.splits if_splits)
  note unf = assms(3) [unfolded refund_to_sources_def Let_def sp sw(1), simplified assms(1,2), simplified]
  show "refunded = w + sum_list (map snd subs)" using unf assms(1,2) sw by auto
  show "subscriptions db' = subscriptions (refund_subs subs db)"
    using unf assms(1,2) sw sub_eq by (auto split: option.splits if_splits)
  show "users db' = (if 0 < w then users (add_balance (us_id u) w db) else users db)"
    using unf assms(1,2) sw by (auto simp: refund_subs_frame split: option.splits if_splits)
  show "us_balance_cents u' = (if 0 < w then returning_balance (add_balance (us_id u) w db) (us_id u)
           else us_balance_cents u)"
    using unf assms(1,2) sw by (auto split: if_splits)
  show "us_id u' = us_id u" using unf assms(1,2) by auto
  show "orders db' = orders db \<and> plans db' = plans db \<and> usage_logs db' = usage_logs db
         \<and> seq_subscriptions db' = seq_subscriptions db \<and> seq_orders db' = seq_orders db
         \<and> map ak_id (api_keys db') = map ak_id (api_keys db)"
    using unf assms(1,2) by (auto simp: refund_subs_frame split: option.splits if_splits)
  show "\<exists>nt. balance_txs db' = balance_txs db @ [\<lparr>tx_user_id = us_id u, tx_type = tx_refund,
           tx_amount_cents = refunded, tx_balance_after = us_balance_cents u',
           tx_ref_id = ref_id, tx_note = nt\<rparr>]"
    using unf assms(1,2) by (auto simp: refund_subs_frame split: option.splits if_splits)
  show "us_id u \<in> set (info_uids db')" using unf assms(1,2) by auto
qed

lemma refund_split_total:
  assumes "nonneg_bd bd" and "0 < amt" and "refund_split now db uid bd amt = (subs, w)"
  shows "w + sum_list (map snd subs) = min amt (amounts bd) \<and> 0 \<le> w
    \<and> (\<forall>(i, g) \<in> set subs. 0 \<le> g \<and> i \<in> sb_id ` set (active_subscriptions now db uid))"
proof (cases "wallet_amount bd < amt")
  case True
  then have m: "min (wallet_amount bd) amt = wallet_amount bd" by simp
  obtain s1 w1 where sp: "split_refund (map sb_id (active_subscriptions now db uid)) bd
      (amt - wallet_amount bd) = (s1, w1)" by force
  have "w1 + sum_list (map snd s1) = min (amt - wallet_amount bd) (sub_part bd) \<and> 0 \<le> w1
    \<and> (\<forall>(i, g) \<in> set s1. 0 \<le> g \<and> i \<in> sb_id ` set (active_subscriptions now db uid))"
    using split_refund_total [OF assms(1) _ sp] True by simp
  moreover have "subs = s1" and "w = wallet_amount bd + w1"
    using assms(3) sp True by (simp_all add: refund_split_def m)
  ultimately show ?thesis
    using wallet_amount_nonneg [OF assms(1)] by (auto simp: amounts_parts)
next
  case False
  then have m: "min (wallet_amount bd) amt = amt" by simp
  have "subs = []" and "w = amt" using assms(3) by (simp_all add: refund_split_def m)
  with False assms(2) sub_part_nonneg [OF assms(1)] show ?thesis by (auto simp: amounts_parts)
qed

lemma refund_funds:
  assumes "distinct (map sb_id (subscriptions db))"
    and "row_get us_id (us_id u) (users db) = Some row" and "nonneg_bd bd" and "0 < amt"
    and "bd \<noteq> []" and "refund_to_sources sync now db u k bd amt ref_id note = (db', u', k', refunded)"
  shows "refunded = min amt (amounts bd)"
    and "sub_total now db' (us_id u) + wallet_of db' (us_id u)
           = sub_total now db (us_id u) + wallet_of db (us_id u) + refunded"
proof -
  obtain subs w where sp: "refund_split now db (us_id u) bd amt = (subs, w)" by force
  note t = refund_split_total [OF assms(3,4) sp]
  note s = refund_shape [OF assms(4,5,6) sp]
  show r: "refunded = min amt (amounts bd)" using t s(1) by simp
  have "\<forall>(i, g) \<in> set subs. 0 \<le> g \<and> (\<exists>r. row_get sb_id i (subscriptions db) = Some r
           \<and> in_period now (us_id u) r \<and> 0 \<le> sb_remaining_cents r)"
    using t row.get_unique [OF assms(1)] by (fastforce simp: active_set)
  then have "sub_total now (refund_subs subs db) (us_id u) = sub_total now db (us_id u) + sum_list (map snd subs)"
    using assms(1) by (intro refund_subs_total)
  moreover have "sub_total now db' (us_id u) = sub_total now (refund_subs subs db) (us_id u)"
    using sub_total_cong [OF s(2)] by simp
  moreover have "wallet_of db' (us_id u) = wallet_of db (us_id u) + w"
    using s(3) assms(2) t by (auto simp: wallet_of_def returning_balance_def add_balance_def row_simps)
  ultimately show "sub_total now db' (us_id u) + wallet_of db' (us_id u)
           = sub_total now db (us_id u) + wallet_of db (us_id u) + refunded"
    using s(1) by simp
qed

section \<open>Refunding a whole charge\<close>

definition pos_bd :: "breakdown \<Rightarrow> bool" where
  "pos_bd bd \<longleftrightarrow> (\<forall>(x, i, a) \<in> set bd. 0 < a)"

lemma pos_nonneg: "pos_bd bd \<Longrightarrow> nonneg_bd bd"
  by (auto simp: pos_bd_def nonneg_bd_def)

lemma split_refund_full:
  assumes "pos_bd bd"
  shows "snd (split_refund act bd (sub_part bd))
     = sum_list (map (\<lambda>(x, i, a). if x = src_sub \<and> i \<notin> set act then a else 0) bd)"
  using assms
proof (induction bd)
  case Nil
  then show ?case by simp
next
  case (Cons e bd)
  obtain x i a where e: "e = (x, i, a)" by (cases e)
  have a: "0 < a" and p: "pos_bd bd" using Cons.prems by (auto simp: e pos_bd_def)
  have sp: "0 \<le> sub_part bd" using pos_nonneg [OF p] by (rule sub_part_nonneg)
  show ?case
  proof (cases "x = src_sub")
    case True
    then have "sub_part (e # bd) = a + sub_part bd" and "min a (a + sub_part bd) = a"
      using sp by (auto simp: e)
    with True Cons.IH [OF p] a sp show ?thesis
      by (cases "split_refund act bd (sub_part bd)") (simp add: e)
  next
    case False
    with Cons.IH [OF p] show ?thesis by (simp add: e)
  qed
qed

lemma refund_split_whole:
  assumes "nonneg_bd bd" and "wallet_amount bd + sub_part bd = cost" and "0 < cost"
  shows "snd (refund_split now db uid bd cost) = wallet_amount bd
     + snd (split_refund (map sb_id (active_subscriptions now db uid)) bd (sub_part bd))"
proof -
  have p: "0 \<le> sub_part bd" using assms(1) by (rule sub_part_nonneg)
  then have m: "min (wallet_amount bd) cost = wallet_amount bd" and
    d: "cost - wallet_amount bd = sub_part bd" using assms(2) by auto
  have z: "snd (split_refund a b 0) = 0" for a b by (induction b) auto
  show ?thesis
  proof (cases "0 < sub_part bd")
    case True
    then have "wallet_amount bd < cost" using assms(2) by simp
    then show ?thesis by (simp add: refund_split_def Let_def m d split: prod.splits)
  next
    case False
    with p have "sub_part bd = 0" by simp
    with assms(2) show ?thesis by (simp add: refund_split_def m d z)
  qed
qed

lemma takes_sum:
  assumes "distinct (map sb_id ss)"
  shows "sum_list (map (\<lambda>(x, i, a). if x = src_sub \<and> P i then a else 0) (takes ss c))
     = sum_list (map (\<lambda>s. if P (sb_id s) then sub_amount (takes ss c) (sb_id s) else 0) ss)"
  using assms
proof (induction ss c rule: takes.induct)
  case (1 c)
  then show ?case by simp
next
  case (2 r ss c)
  show ?case
  proof (cases "c \<le> 0")
    case True
    then have "takes (r # ss) c = []" by simp
    then show ?thesis by (simp only: sub_amount_simps if_cancel map_replicate_const) (simp add: sum_list_replicate)
  next
    case False
    let ?d = "c - min (sb_remaining_cents r) c"
    have absent: "sub_amount (takes ss ?d) (sb_id r) = 0"
      using "2.prems" by (intro takes_absent) auto
    have tk: "takes (r # ss) c = (src_sub, sb_id r, min (sb_remaining_cents r) c) # takes ss ?d"
      using False by simp
    have rest: "sum_list (map (\<lambda>s. if P (sb_id s) then sub_amount (takes (r # ss) c) (sb_id s) else 0) ss)
        = sum_list (map (\<lambda>s. if P (sb_id s) then sub_amount (takes ss ?d) (sb_id s) else 0) ss)"
      using "2.prems" unfolding tk by (intro arg_cong [where f = sum_list] map_cong) auto
    have IH: "sum_list (map (\<lambda>(x, i, a). if x = src_sub \<and> P i then a else 0) (takes ss ?d))
        = sum_list (map (\<lambda>s. if P (sb_id s) then sub_amount (takes ss ?d) (sb_id s) else 0) ss)"
      using "2" False by simp
    show ?thesis
      unfolding list.map sum_list.Cons rest unfolding tk list.map sum_list.Cons IH
      by (simp add: absent)
  qed
qed

text \<open>The subscriptions a charge emptied.\<close>

definition emptied :: "datetime \<Rightarrow> session \<Rightarrow> int \<Rightarrow> breakdown \<Rightarrow> subscription list" where
  "emptied now db uid bd =
     filter (\<lambda>s. sub_amount bd (sb_id s) = sb_remaining_cents s) (active_subscriptions now db uid)"

lemma charge_row_after:
  assumes "distinct (map sb_id (subscriptions db))"
    and "row_get us_id (us_id u) (users db) = Some row" and "0 < cost"
    and "charge_user sync now db u k cost ref_id note = (db1, u1, k1, bd)"
  shows "\<exists>row1. row_get us_id (us_id u1) (users db1) = Some row1
    \<and> us_balance_cents row1 = us_balance_cents row - shortfall now db (us_id u) cost"
proof (cases "0 < shortfall now db (us_id u) cost")
  case True
  with charge_user_effect(4,6) [OF assms] assms(2) show ?thesis by (simp add: row_simps)
next
  case False
  then have "shortfall now db (us_id u) cost = 0" by (simp add: shortfall_def)
  with charge_user_effect(4,6) [OF assms] assms(2) show ?thesis by simp
qed

lemma charge_breakdown_pos:
  assumes "distinct (map sb_id (subscriptions db))"
    and "row_get us_id (us_id u) (users db) = Some row" and "0 < cost"
    and "charge_user sync now db u k cost ref_id note = (db1, u1, k1, bd)"
  shows "pos_bd bd \<and> bd \<noteq> []"
proof -
  note e = charge_user_effect [OF assms]
  have "pos_bd bd"
    unfolding e(1) using takes_pos [of "active_subscriptions now db (us_id u)"]
    by (fastforce simp: pos_bd_def active_set split: if_splits)
  moreover have "bd \<noteq> []" using e(2) assms(3) by auto
  ultimately show ?thesis by blast
qed

lemma active_id_iff:
  assumes "distinct (map sb_id (subscriptions db))"
    and "row_get sb_id i (subscriptions db) = Some r"
  shows "i \<in> sb_id ` set (active_subscriptions now db uid)
           \<longleftrightarrow> in_period now uid r \<and> 0 < sb_remaining_cents r"
proof
  assume "i \<in> sb_id ` set (active_subscriptions now db uid)"
  then obtain s where s: "s \<in> set (subscriptions db)" "sb_id s = i" "in_period now uid s"
    "0 < sb_remaining_cents s" by (auto simp: active_set)
  then have "s = r" using row.get_unique [OF assms(1) s(1)] assms(2) by simp
  with s show "in_period now uid r \<and> 0 < sb_remaining_cents r" by simp
next
  assume "in_period now uid r \<and> 0 < sb_remaining_cents r"
  with row.get_Some [OF assms(2)] show "i \<in> sb_id ` set (active_subscriptions now db uid)"
    by (auto simp: active_set image_iff)
qed

lemma charge_active_after:
  assumes "distinct (map sb_id (subscriptions db))"
    and "row_get us_id (us_id u) (users db) = Some row" and "0 < cost"
    and "charge_user sync now db u k cost ref_id note = (db1, u1, k1, bd)"
    and "s \<in> set (active_subscriptions now db (us_id u))"
  shows "sb_id s \<in> sb_id ` set (active_subscriptions now db1 (us_id u))
           \<longleftrightarrow> sub_amount bd (sb_id s) \<noteq> sb_remaining_cents s"
proof -
  note e = charge_user_effect [OF assms(1-4)]
  let ?ss = "active_subscriptions now db (us_id u)"
  have s: "row_get sb_id (sb_id s) (subscriptions db) = Some s" "in_period now (us_id u) s"
    using assms(5) row.get_unique [OF assms(1)] by (auto simp: active_set)
  have r: "row_get sb_id (sb_id s) (subscriptions db1)
      = Some (s\<lparr>sb_remaining_cents := sb_remaining_cents s - sub_amount bd (sb_id s)\<rparr>)"
    using e(9) s(1) by simp
  have "sub_amount bd (sb_id s) \<le> sb_remaining_cents s"
    using e(1) takes_amount [OF active_distinct [OF assms(1)] assms(5), of cost] assms(5)
    by (auto simp: active_set)
  moreover have "sb_id s \<in> sb_id ` set (active_subscriptions now db1 (us_id u))
      \<longleftrightarrow> 0 < sb_remaining_cents s - sub_amount bd (sb_id s)"
    using active_id_iff [OF _ r] e(12) assms(1) s(2) by (simp add: in_period_def)
  ultimately show ?thesis by auto
qed

section \<open>Properties of refunds\<close>

text \<open>
  A refund returns exactly the requested amount, capped by what the breakdown records:
  the user's quota and wallet together grow by the value the function reports.
\<close>

theorem refund_to_sources_exact:
  assumes "keys_ok db" and "row_get us_id (us_id u) (users db) = Some row" and "nonneg_bd bd"
    and "bd \<noteq> []" and "0 < amt"
    and "refund_to_sources sync now db u k bd amt ref_id note = (db', u', k', refunded)"
  shows "refunded = min amt (amounts bd)
    \<and> sub_total now db' (us_id u) + wallet_of db' (us_id u)
        = sub_total now db (us_id u) + wallet_of db (us_id u) + refunded
    \<and> us_id u \<in> set (info_uids db')"
proof -
  have ds: "distinct (map sb_id (subscriptions db))" using assms(1) by (simp add: keys_ok_def)
  obtain subs w where "refund_split now db (us_id u) bd amt = (subs, w)" by force
  with refund_shape(8) [OF assms(5,4,6)] refund_funds [OF ds assms(2,3,5,4,6)]
  show ?thesis by blast
qed

theorem refund_to_sources_exact_witness:
  "case refund_to_sources True 0 demo_db demo_user None [(src_sub, 1, 20), (src_wallet, 0, 5)] 15
          None None of (db', u', k', refunded) \<Rightarrow>
     refunded = 15 \<and> sub_total 0 db' 7 + wallet_of db' 7 = 195"
proof -
  obtain db' u' k' r where c: "refund_to_sources True 0 demo_db demo_user None
      [(src_sub, 1, 20), (src_wallet, 0, 5)] 15 None None = (db', u', k', r)"
    by (metis prod_cases4)
  have "sub_total 0 demo_db 7 = 80" and "wallet_of demo_db 7 = 100"
    by (simp_all add: sub_total_def sub_funds_def in_period_def wallet_of_def returning_balance_def
        demo_defs row_get_def)
  with refund_to_sources_exact [OF demo_keys_ok demo_row _ _ _ c] c show ?thesis
    by (simp add: demo_user_def default_user_def nonneg_bd_def)
qed

text \<open>
  Claim C6. Charging and then refunding the whole charge returns all the money, but not always to
  where it came from: a subscription that the charge emptied no longer counts as active, so its
  share is paid into the wallet, as if it had expired.
\<close>

theorem charge_refund_roundtrip:
  assumes "keys_ok db" and "row_get us_id (us_id u) (users db) = Some row" and "0 < cost"
    and "charge_user sync now db u k cost ref_id note = (db1, u1, k1, bd)"
    and "refund_to_sources sync now db1 u1 k1 bd cost ref_id note' = (db2, u2, k2, refunded)"
  shows "refunded = cost
    \<and> sub_total now db2 (us_id u) + wallet_of db2 (us_id u)
        = sub_total now db (us_id u) + wallet_of db (us_id u)
    \<and> wallet_of db2 (us_id u) = wallet_of db (us_id u)
        + sum_list (map sb_remaining_cents (emptied now db (us_id u) bd))"
proof -
  have ds: "distinct (map sb_id (subscriptions db))" using assms(1) by (simp add: keys_ok_def)
  note e = charge_user_effect [OF ds assms(2-4)]
  note pos = charge_breakdown_pos [OF ds assms(2-4)]
  let ?uid = "us_id u" and ?ss = "active_subscriptions now db (us_id u)"
  let ?act = "map sb_id (active_subscriptions now db1 ?uid)"
  let ?rest = "shortfall now db ?uid cost"
  have ds1: "distinct (map sb_id (subscriptions db1))" using e(12) ds by simp
  obtain row1 where row1: "row_get us_id (us_id u1) (users db1) = Some row1"
    and bal1: "us_balance_cents row1 = us_balance_cents row - ?rest"
    using charge_row_after [OF ds assms(2-4)] by blast
  note nn = pos_nonneg [OF conjunct1 [OF pos]]
  note f = refund_funds [OF ds1 row1 nn assms(3) conjunct2 [OF pos] assms(5)]
  have rc: "refunded = cost" using f(1) e(2) by simp
  have w1: "wallet_of db1 ?uid = wallet_of db ?uid - ?rest"
    using e(6) row1 bal1 assms(2) by (simp add: wallet_of_def returning_balance_def)
  have tot: "sub_total now db2 ?uid + wallet_of db2 ?uid = sub_total now db ?uid + wallet_of db ?uid"
    using f(2) e(6,7) rc w1 by simp
  obtain subs w where sp: "refund_split now db1 (us_id u1) bd cost = (subs, w)" by force
  have "wallet_amount bd + sub_part bd = cost" using e(2) amounts_parts [of bd] by simp
  then have w: "w = ?rest + snd (split_refund ?act bd (sub_part bd))"
    using refund_split_whole [OF nn, of cost now db1 "us_id u1"] assms(3) sp e(3,6) by simp
  have amt: "sub_amount bd i = sub_amount (takes ?ss cost) i" for i using e(1) by simp
  have "snd (split_refund ?act bd (sub_part bd))
      = sum_list (map (\<lambda>(x, i, a). if x = src_sub \<and> i \<notin> set ?act then a else 0) (takes ?ss cost))"
    using split_refund_full [OF conjunct1 [OF pos], of ?act] e(1) by (auto split: if_splits)
  also have "\<dots> = sum_list (map (\<lambda>s. if sb_id s \<notin> set ?act then sub_amount bd (sb_id s) else 0) ?ss)"
    unfolding amt using takes_sum [OF active_distinct [OF ds], where P = "\<lambda>i. i \<notin> set ?act"] .
  also have "\<dots> = sum_list (map (\<lambda>s. if sub_amount bd (sb_id s) = sb_remaining_cents s
      then sb_remaining_cents s else 0) ?ss)"
    using charge_active_after [OF ds assms(2-4)]
    by (intro arg_cong [where f = sum_list] map_cong) auto
  also have "\<dots> = sum_list (map sb_remaining_cents (emptied now db ?uid bd))"
    by (simp add: emptied_def sum_list_map_filter' [symmetric])
  finally have "w = ?rest + sum_list (map sb_remaining_cents (emptied now db ?uid bd))" using w by simp
  moreover have "wallet_of db2 ?uid = wallet_of db1 ?uid + w"
    using refund_shape(3) [OF assms(3) conjunct2 [OF pos] assms(5) sp] row1 e(6)
      refund_split_total [OF nn assms(3) sp]
    by (auto simp: wallet_of_def returning_balance_def add_balance_def row_simps)
  ultimately show ?thesis using rc tot w1 by simp
qed

theorem charge_refund_roundtrip_witness:
  "case charge_user True 0 demo_db demo_user None 120 None None of (db1, u1, k1, bd) \<Rightarrow>
     (case refund_to_sources True 0 db1 u1 k1 bd 120 None None of (db2, u2, k2, refunded) \<Rightarrow>
        refunded = 120 \<and> wallet_of demo_db 7 = 100 \<and> wallet_of db2 7 = 180
        \<and> sub_total 0 demo_db 7 = 80 \<and> sub_total 0 db2 7 = 0)"
proof -
  obtain db1 u1 k1 bd where c:
    "charge_user True 0 demo_db demo_user None 120 None None = (db1, u1, k1, bd)"
    by (rule demo_charge)
  obtain db2 u2 k2 r where d: "refund_to_sources True 0 db1 u1 k1 bd 120 None None = (db2, u2, k2, r)"
    by (metis prod_cases4)
  have uid: "us_id demo_user = 7" by (simp add: demo_defs)
  have act: "active_subscriptions 0 demo_db 7 = [default_sub 2 7 1 500 30, default_sub 1 7 1 1000 50]"
    by (simp add: active_subscriptions_def in_period_def demo_defs)
  have bd: "bd = [(src_sub, 2, 30), (src_sub, 1, 50), (src_wallet, 0, 40)]"
    using c by (simp add: charge_user_def uid act default_sub_def Let_def split: prod.splits)
  have "emptied 0 demo_db 7 bd = [default_sub 2 7 1 500 30, default_sub 1 7 1 1000 50]"
    by (simp add: emptied_def act bd default_sub_def)
  moreover have "sub_total 0 demo_db 7 = 80" and "wallet_of demo_db 7 = 100"
    by (simp_all add: sub_total_def sub_funds_def in_period_def wallet_of_def returning_balance_def
        demo_defs row_get_def)
  ultimately show ?thesis
    using charge_refund_roundtrip [OF demo_keys_ok demo_row _ c d] c d
    by (simp add: uid default_sub_def)
qed

end
