(* ===== verification/Subscriptions.thy ===== *)
theory Subscriptions
  imports Refund_Laws
begin

text \<open>
  The endpoints that sell and manage subscriptions and take payments:
  \<^verbatim>\<open>api/v1/plans.py\<close>, \<^verbatim>\<open>api/v1/subscriptions.py\<close>, \<^verbatim>\<open>api/v1/orders.py\<close>, the payment providers
  under \<^verbatim>\<open>services/payment\<close>, the renewal worker \<^verbatim>\<open>services/subscriptions_renewal.py\<close> and the
  account operations of \<^verbatim>\<open>api/v1/admin/users.py\<close>. A handler maps the database it runs on to an
  error, which leaves the database as it was (the session is rolled back), or to the committed
  database with the response body.
\<close>

section \<open>Text of dates\<close>

definition pad_nat :: "nat \<Rightarrow> nat \<Rightarrow> string" where
  "pad_nat w n = (let s = str_nat n in replicate (w - length s) (CHR ''0'') @ s)"

definition isoformat :: "datetime \<Rightarrow> string" where
  \<comment> \<open>\<open>datetime.isoformat()\<close> of an aware UTC time\<close>
  "isoformat t =
     (case ord2ymd (dt_ordinal t) of (y, m, d) \<Rightarrow>
        let us = nat (t mod 86400000000); sec = us div 1000000; frac = us mod 1000000 in
        pad_nat 4 (nat y) @ ''-'' @ pad_nat 2 m @ ''-'' @ pad_nat 2 (nat d) @ ''T''
        @ pad_nat 2 (sec div 3600) @ '':'' @ pad_nat 2 (sec div 60 mod 60) @ '':''
        @ pad_nat 2 (sec mod 60)
        @ (if frac = 0 then [] else ''.'' @ pad_nat 6 frac) @ ''+00:00'')"

fun sub_status_value :: "sub_status \<Rightarrow> string" where
  "sub_status_value sub_active = ''active''"
| "sub_status_value sub_past_due = ''past_due''"
| "sub_status_value sub_canceled = ''canceled''"
| "sub_status_value sub_expired = ''expired''"

fun order_status_value :: "order_status \<Rightarrow> string" where
  "order_status_value order_pending = ''pending''"
| "order_status_value order_paid = ''paid''"
| "order_status_value order_canceled = ''canceled''"
| "order_status_value order_refunded = ''refunded''"

section \<open>Plans\<close>

definition list_plans :: "session \<Rightarrow> plan list" where
  "list_plans db = sort_key pl_price_cents (filter pl_active (plans db))"

definition existing_subs :: "datetime \<Rightarrow> session \<Rightarrow> user \<Rightarrow> plan \<Rightarrow> subscription list" where
  "existing_subs now db u p =
     filter (\<lambda>s. sb_user_id s = us_id u \<and> sb_plan_id s = pl_id p \<and> sb_status s = sub_active
                 \<and> sb_current_period_end s > now) (subscriptions db)"

definition purchases :: "session \<Rightarrow> user \<Rightarrow> plan \<Rightarrow> int" where
  "purchases db u p =
     int (length (filter (\<lambda>s. sb_user_id s = us_id u \<and> sb_plan_id s = pl_id p) (subscriptions db)))"

definition add_order :: "order \<Rightarrow> session \<Rightarrow> session" where
  "add_order odr db = db\<lparr>orders := orders db @ [odr], seq_orders := seq_orders db + 1\<rparr>"

definition wallet_order :: "datetime \<Rightarrow> session \<Rightarrow> user \<Rightarrow> plan \<Rightarrow> order" where
  "wallet_order now db u p =
     \<lparr>od_id = seq_orders db, od_user_id = us_id u, od_plan_id = Some (pl_id p),
      od_amount_cents = pl_price_cents p, od_channel = manual, od_status = order_paid,
      od_provider_order_id = Some (''wallet-'' @ str_int (us_id u)), od_paid_at = Some now\<rparr>"

definition pay_plan :: "session \<Rightarrow> user \<Rightarrow> plan \<Rightarrow> int \<Rightarrow> session \<times> user" where
  \<comment> \<open>the \<open>if price > 0\<close> block of \<open>subscribe_with_balance\<close>\<close>
  "pay_plan db u p oid =
     (let price = pl_price_cents p in
      if price > 0 then
        let db1 = add_balance (us_id u) (- price) db;
            new_balance = returning_balance db1 (us_id u)
        in (add_tx \<lparr>tx_user_id = us_id u, tx_type = tx_consume, tx_amount_cents = - price,
              tx_balance_after = new_balance, tx_ref_id = Some (str_int oid),
              tx_note = Some (''plan '' @ pl_code p @ '' sub (wallet)'')\<rparr> db1,
            u\<lparr>us_balance_cents := new_balance\<rparr>)
      else (db, u))"

definition subscribe_paid :: "datetime \<Rightarrow> session \<Rightarrow> user \<Rightarrow> plan \<Rightarrow> (session \<times> dict) result" where
  \<comment> \<open>from the balance check of \<open>subscribe_with_balance\<close> to its end\<close>
  "subscribe_paid now db u p =
     (let price = pl_price_cents p; balance = us_balance_cents u in
      if price > 0 \<and> balance < price then
        Inl \<lparr>status_code = 402, detail = JObj [
            (''code'', JStr ''insufficient_balance''), (''message'', JStr ''insufficient balance''),
            (''balance_cents'', JInt balance), (''price_cents'', JInt price),
            (''shortfall_cents'', JInt (price - balance)), (''plan_id'', JInt (pl_id p))]\<rparr>
      else
        let odr = wallet_order now db u p;
            db1 = add_order odr db;
            (db2, u') = pay_plan db1 u p (od_id odr);
            (db3, sub) = grant_subscription now db2 u' p (Some (str_int (od_id odr)))
        in Inr (db3, [(''ok'', JBool True), (''order_id'', JInt (od_id odr)),
                      (''subscription_id'', JInt (sb_id sub)),
                      (''balance_cents'', JInt (us_balance_cents u'))]))"

definition subscribe_with_balance ::
    "datetime \<Rightarrow> session \<Rightarrow> user \<Rightarrow> int \<Rightarrow> (session \<times> dict) result" where
  "subscribe_with_balance now db u plan_id =
     (case row_get pl_id plan_id (plans db) of
        None \<Rightarrow> Inl (http 404 ''plan not found'')
      | Some p \<Rightarrow>
          if \<not> pl_active p then Inl (http 404 ''plan not found'')
          else case existing_subs now db u p of
            s # ss \<Rightarrow> Inl \<lparr>status_code = 409, detail = JObj [
                (''code'', JStr ''already_subscribed''),
                (''message'', JStr ''you already have an active subscription to this plan''),
                (''subscription_id'', JInt (sb_id s)),
                (''current_period_end'', JStr (isoformat (sb_current_period_end s)))]\<rparr>
          | [] \<Rightarrow>
              let used = purchases db u p in
              case (if pl_plan_type p = one_time then pl_max_purchases_per_user p else None) of
                Some limit \<Rightarrow>
                  if used \<ge> limit then Inl \<lparr>status_code = 409, detail = JObj [
                      (''code'', JStr ''purchase_limit_reached''),
                      (''message'', JStr (''this plan is limited to '' @ str_int limit
                                          @ '' purchase(s) per user'')),
                      (''used'', JInt used), (''limit'', JInt limit)]\<rparr>
                  else subscribe_paid now db u p
              | None \<Rightarrow> subscribe_paid now db u p)"

section \<open>Canceling, resuming, renewing\<close>

definition sub_of_user :: "session \<Rightarrow> user \<Rightarrow> int \<Rightarrow> subscription result" where
  \<comment> \<open>the lookup the three subscription endpoints start with\<close>
  "sub_of_user db u sub_id =
     (case row_get sb_id sub_id (subscriptions db) of
        None \<Rightarrow> Inl (http 404 ''subscription not found'')
      | Some s \<Rightarrow> if sb_user_id s \<noteq> us_id u then Inl (http 404 ''subscription not found'') else Inr s)"

definition open_sub_of_user :: "session \<Rightarrow> user \<Rightarrow> int \<Rightarrow> subscription result" where
  "open_sub_of_user db u sub_id =
     bind_result (sub_of_user db u sub_id)
       (\<lambda>s. if sb_status s \<in> {sub_active, sub_past_due} then Inr s
            else Inl (http 409 (''subscription is '' @ sub_status_value (sb_status s))))"

definition cancel_refund :: "plan option \<Rightarrow> subscription \<Rightarrow> int" where
  "cancel_refund pl sub =
     (case pl of
        None \<Rightarrow> 0
      | Some p \<Rightarrow>
          if pl_price_cents p > 0 \<and> pl_quota_cents p > 0
          then max 0 (min ((pl_price_cents p * sb_remaining_cents sub) div pl_quota_cents p)
                          (pl_price_cents p))
          else 0)"

definition cancel_subscription ::
    "datetime \<Rightarrow> session \<Rightarrow> user \<Rightarrow> int \<Rightarrow> bool \<Rightarrow> (session \<times> dict) result" where
  "cancel_subscription now db u sub_id at_period_end =
     bind_result (open_sub_of_user db u sub_id) (\<lambda>sub.
       if at_period_end then
         let body = [(''ok'', JBool True), (''mode'', JStr ''at_period_end''),
                     (''subscription_id'', JInt (sb_id sub)),
                     (''current_period_end'', JStr (isoformat (sb_current_period_end sub)))] in
         if sb_cancel_at_period_end sub then
           Inr (db, body @ [(''note'', JStr ''already scheduled to cancel at period end'')])
         else
           Inr (upd_sub (sb_id sub) (\<lambda>r. r\<lparr>sb_cancel_at_period_end := True,
                  sb_canceled_at := Some now\<rparr>) db, body)
       else
         let pl = row_get pl_id (sb_plan_id sub) (plans db);
             refund = cancel_refund pl sub;
             db1 = upd_sub (sb_id sub) (\<lambda>r. r\<lparr>sb_status := sub_canceled,
                     sb_cancel_at_period_end := True, sb_canceled_at := Some now,
                     sb_remaining_cents := 0, sb_current_period_end := now\<rparr>) db;
             db2 = (if refund > 0 then add_balance (us_id u) refund db1 else db1);
             new_balance = (if refund > 0 then returning_balance db2 (us_id u)
                            else us_balance_cents u);
             db3 = (if refund > 0 then
                      add_tx \<lparr>tx_user_id = us_id u, tx_type = tx_refund, tx_amount_cents = refund,
                        tx_balance_after = new_balance, tx_ref_id = Some (str_int (sb_id sub)),
                        tx_note = Some (''refund sub#'' @ str_int (sb_id sub) @ '' plan ''
                                        @ (case pl of None \<Rightarrow> [] | Some p \<Rightarrow> pl_code p))\<rparr> db2
                    else db2)
         in Inr (db3, [(''ok'', JBool True), (''mode'', JStr ''immediate''),
                       (''subscription_id'', JInt (sb_id sub)), (''refund_cents'', JInt refund),
                       (''balance_cents'', JInt new_balance)]))"

definition resume_subscription :: "session \<Rightarrow> user \<Rightarrow> int \<Rightarrow> (session \<times> dict) result" where
  "resume_subscription db u sub_id =
     bind_result (open_sub_of_user db u sub_id) (\<lambda>sub.
       if \<not> sb_cancel_at_period_end sub then
         Inr (db, [(''ok'', JBool True), (''note'', JStr ''subscription is not scheduled to cancel'')])
       else
         Inr (upd_sub (sb_id sub) (\<lambda>r. r\<lparr>sb_cancel_at_period_end := False,
                sb_canceled_at := None\<rparr>) db,
              [(''ok'', JBool True), (''subscription_id'', JInt (sb_id sub))]))"

definition renew_now :: "datetime \<Rightarrow> session \<Rightarrow> user \<Rightarrow> int \<Rightarrow> (session \<times> dict) result" where
  "renew_now now db u sub_id =
     bind_result (sub_of_user db u sub_id) (\<lambda>sub.
       if sb_status sub = sub_active \<and> sb_current_period_end sub > now then
         Inr (db, [(''ok'', JBool True),
                   (''note'', JStr ''current period still active, nothing to do'')])
       else if sb_status sub \<in> {sub_canceled, sub_expired} then
         Inl (http 409 (''subscription is '' @ sub_status_value (sb_status sub)
                        @ ''; subscribe again instead''))
       else case renew_subscription now db sub of
         (db', ok, reason) \<Rightarrow>
           Inr (db', [(''ok'', JBool ok), (''subscription_id'', JInt (sb_id sub)),
                      (''status'', (case row_get sb_id (sb_id sub) (subscriptions db') of
                          None \<Rightarrow> JNull | Some r \<Rightarrow> JStr (sub_status_value (sb_status r)))),
                      (''reason'', JStr reason)]))"

section \<open>The renewal worker\<close>

definition due_subs :: "datetime \<Rightarrow> (int \<Rightarrow> bool) \<Rightarrow> session \<Rightarrow> subscription list" where
  \<comment> \<open>the \<open>SELECT ... FOR UPDATE SKIP LOCKED\<close>; \<open>locked\<close> tells the rows other transactions hold\<close>
  "due_subs now locked db =
     sort_key sb_id
       (filter (\<lambda>s. sb_current_period_end s \<le> now \<and> sb_status s \<in> {sub_active, sub_past_due}
                   \<and> \<not> locked (sb_id s)) (subscriptions db))"

definition renewal_scan_once ::
    "datetime \<Rightarrow> (int \<Rightarrow> datetime) \<Rightarrow> (int \<Rightarrow> bool) \<Rightarrow> session \<Rightarrow> session" where
  \<comment> \<open>\<open>clock i\<close> is the time read inside the renewal of subscription \<open>i\<close>\<close>
  "renewal_scan_once now clock locked db =
     foldl (\<lambda>d sub. fst (renew_subscription (clock (sb_id sub)) d sub)) db (due_subs now locked db)"

section \<open>Orders and payments\<close>

datatype provider = AlipayProvider | WechatProvider | StripeProvider

definition get_provider :: "string \<Rightarrow> provider option" where
  "get_provider ch =
     (if ch = ''alipay'' then Some AlipayProvider
      else if ch = ''wechat'' then Some WechatProvider
      else if ch = ''stripe'' then Some StripeProvider else None)"

fun provider_channel :: "provider \<Rightarrow> payment_channel" where
  \<comment> \<open>\<open>PaymentChannel(req.channel)\<close> for the name a provider is registered under\<close>
  "provider_channel AlipayProvider = alipay"
| "provider_channel WechatProvider = wechat"
| "provider_channel StripeProvider = stripe"

fun create_payment :: "string \<Rightarrow> provider \<Rightarrow> order \<Rightarrow> dict" where
  \<comment> \<open>\<open>url\<close> is \<open>settings.API_PUBLIC_URL\<close>\<close>
  "create_payment url AlipayProvider odr =
     [(''channel'', JStr ''alipay''),
      (''pay_url'', JStr (url @ ''/api/v1/payments/alipay/mock-pay?order_id='' @ str_int (od_id odr))),
      (''qr_code'', JNull),
      (''raw'', JObj [(''note'', JStr ''stub; configure ALIPAY_* env to enable'')])]"
| "create_payment url StripeProvider odr =
     [(''channel'', JStr ''stripe''),
      (''pay_url'', JStr (''https://checkout.stripe.com/c/pay/STUB_'' @ str_int (od_id odr))),
      (''qr_code'', JNull),
      (''raw'', JObj [(''note'', JStr ''stub; configure STRIPE_SECRET_KEY to enable'')])]"
| "create_payment url WechatProvider odr =
     [(''channel'', JStr ''wechat''), (''pay_url'', JNull),
      (''qr_code'', JStr (''weixin://wxpay/bizpayurl?pr=STUB_'' @ str_int (od_id odr))),
      (''raw'', JObj [(''note'', JStr ''stub; configure WECHAT_* env to enable'')])]"

text \<open>
  The transaction id a provider reads from a payload: a text under \<open>field\<close>, or the order id
  behind a prefix. The text of floats and containers is not modelled (\<open>None\<close>).
\<close>

definition provider_ref :: "string \<Rightarrow> string \<Rightarrow> dict \<Rightarrow> string option" where
  "provider_ref field pre payload =
     (let v = dict_get_none payload field in
      if truthy v then as_str v
      else map_option ((@) pre) (py_str (dict_get_none payload ''order_id'')))"

fun verify_callback :: "provider \<Rightarrow> dict \<Rightarrow> bool \<times> string option" where
  "verify_callback AlipayProvider payload = (True, provider_ref ''trade_no'' ''alipay-'' payload)"
| "verify_callback StripeProvider payload = (True, provider_ref ''id'' ''stripe-'' payload)"
| "verify_callback WechatProvider payload = (True, provider_ref ''transaction_id'' ''wechat-'' payload)"

definition create_order ::
    "string \<Rightarrow> session \<Rightarrow> user \<Rightarrow> string \<Rightarrow> int option \<Rightarrow> int \<Rightarrow> (session \<times> dict) result" where
  "create_order url db u channel plan_id amount_cents =
     (case get_provider channel of
        None \<Rightarrow> Inl (http 400 (''unsupported channel '' @ channel))
      | Some prov \<Rightarrow>
          bind_result
            (case plan_id of
               None \<Rightarrow> Inr amount_cents
             | Some pid \<Rightarrow>
                 if pid = 0 then Inr amount_cents
                 else case row_get pl_id pid (plans db) of
                   None \<Rightarrow> Inl (http 404 ''plan not found'')
                 | Some p \<Rightarrow> if pl_active p then Inr (pl_price_cents p)
                             else Inl (http 404 ''plan not found''))
            (\<lambda>amount.
               if amount \<le> 0 then Inl (http 400 ''amount must be > 0'')
               else
                 let odr = \<lparr>od_id = seq_orders db, od_user_id = us_id u, od_plan_id = plan_id,
                       od_amount_cents = amount, od_channel = provider_channel prov,
                       od_status = order_pending, od_provider_order_id = None, od_paid_at = None\<rparr>;
                     init = create_payment url prov odr
                 in Inr (add_order odr db,
                         [(''order_id'', JInt (od_id odr)), (''channel'', JStr channel),
                          (''pay_url'', dict_get_none init ''pay_url''),
                          (''qr_code'', dict_get_none init ''qr_code''),
                          (''raw'', dict_get_none init ''raw'')])))"

definition settle_order :: "datetime \<Rightarrow> session \<Rightarrow> order \<Rightarrow> string option \<Rightarrow> string \<Rightarrow> session result" where
  \<comment> \<open>what \<open>payment_callback\<close> and \<open>mock_pay\<close> do with an order that is not yet paid\<close>
  "settle_order now db odr provider_order_id note =
     (let db1 = upd_order (od_id odr) (\<lambda>r. r\<lparr>od_status := order_paid, od_paid_at := Some now,
                  od_provider_order_id := provider_order_id\<rparr>) db
      in case row_get us_id (od_user_id odr) (users db1) of
           None \<Rightarrow> Inl internal_error
         | Some u \<Rightarrow>
             (case (case od_plan_id odr of None \<Rightarrow> None
                    | Some pid \<Rightarrow> if pid = 0 then None else row_get pl_id pid (plans db1)) of
                Some p \<Rightarrow> Inr (fst (grant_subscription now db1 u p (Some (str_int (od_id odr)))))
              | None \<Rightarrow> Inr (fst (topup_wallet db1 u (od_amount_cents odr)
                                   (Some (str_int (od_id odr))) (Some note)))))"

definition payment_callback ::
    "datetime \<Rightarrow> session \<Rightarrow> string \<Rightarrow> dict \<Rightarrow> (session \<times> dict) result" where
  \<comment> \<open>\<open>payload\<close> is the JSON body, or the form fields when the body is not JSON\<close>
  "payment_callback now db channel payload =
     (case get_provider channel of
        None \<Rightarrow> Inl (http 400 ''unknown channel'')
      | Some prov \<Rightarrow>
          (case verify_callback prov payload of (ok, provider_order_id) \<Rightarrow>
             if \<not> ok then Inl (http 400 ''invalid signature'')
             else bind_result (or_500 (py_int (dict_get_none payload ''order_id''))) (\<lambda>order_id.
               case row_get od_id order_id (orders db) of
                 None \<Rightarrow> Inl (http 404 ''order not found'')
               | Some odr \<Rightarrow>
                   if od_status odr = order_paid then
                     Inr (db, [(''ok'', JBool True), (''msg'', JStr ''already paid'')])
                   else
                     bind_result
                       (settle_order now db odr provider_order_id
                          (''order#'' @ str_int (od_id odr) @ '' '' @ channel))
                       (\<lambda>db'. Inr (db', [(''ok'', JBool True)])))))"

definition mock_pay :: "datetime \<Rightarrow> session \<Rightarrow> string \<Rightarrow> int \<Rightarrow> (session \<times> dict) result" where
  "mock_pay now db channel order_id =
     (case get_provider channel of
        None \<Rightarrow> Inl (http 400 ''unknown channel'')
      | Some prov \<Rightarrow>
          (case row_get od_id order_id (orders db) of
             None \<Rightarrow> Inl (http 404 ''order not found'')
           | Some odr \<Rightarrow>
               bind_result
                 (if od_status odr \<noteq> order_paid
                  then settle_order now db odr
                         (Some (''mock-'' @ channel @ ''-'' @ str_int (od_id odr))) (''mock '' @ channel)
                  else Inr db)
                 (\<lambda>db'. Inr (db', [(''ok'', JBool True), (''order_id'', JInt (od_id odr)),
                                  (''status'', JStr (order_status_value order_paid))]))))"

section \<open>Administration of users\<close>

definition set_user_status :: "session \<Rightarrow> int \<Rightarrow> user_status \<Rightarrow> session result" where
  "set_user_status db uid st =
     (case row_get us_id uid (users db) of
        None \<Rightarrow> Inl (http 404 ''Not Found'')
      | Some u \<Rightarrow> Inr (upd_user uid (\<lambda>r. r\<lparr>us_status := st\<rparr>) db))"

definition disable_user :: "session \<Rightarrow> int \<Rightarrow> session result" where
  "disable_user db uid = set_user_status db uid user_disabled"

definition enable_user :: "session \<Rightarrow> int \<Rightarrow> session result" where
  "enable_user db uid = set_user_status db uid user_active"

definition adjust_balance :: "session \<Rightarrow> int \<Rightarrow> int \<Rightarrow> string option \<Rightarrow> session result" where
  "adjust_balance db uid amount_cents note =
     (case row_get us_id uid (users db) of
        None \<Rightarrow> Inl (http 404 ''Not Found'')
      | Some u \<Rightarrow>
          let new_balance = max (us_balance_cents u + amount_cents) 0;
              db1 = upd_user uid (\<lambda>r. r\<lparr>us_balance_cents := new_balance\<rparr>) db
          in Inr (add_tx \<lparr>tx_user_id = us_id u,
                tx_type = (if amount_cents \<ge> 0 then tx_grant else tx_refund),
                tx_amount_cents = amount_cents, tx_balance_after = new_balance, tx_ref_id = None,
                tx_note = Some (case note of None \<Rightarrow> ''admin adjust''
                   | Some s \<Rightarrow> if s = [] then ''admin adjust'' else s)\<rparr> db1))"

definition reset_password :: "(string \<Rightarrow> string) \<Rightarrow> session \<Rightarrow> int \<Rightarrow> string \<Rightarrow> session result" where
  \<comment> \<open>\<open>hash_password\<close> is bcrypt with a fresh salt\<close>
  "reset_password hash_password db uid new_password =
     (case row_get us_id uid (users db) of
        None \<Rightarrow> Inl (http 404 ''Not Found'')
      | Some u \<Rightarrow> Inr (upd_user uid (\<lambda>r. r\<lparr>us_password_hash := hash_password new_password\<rparr>) db))"

end
