(* ===== verification/Renewal_Laws.thy ===== *)
theory Renewal_Laws
  imports Subscriptions
begin

text \<open>
  What the sale, cancellation and renewal of subscriptions guarantee: billing periods are
  calendar months, a purchase takes its price and respects the purchase cap, a cancellation
  refunds at most the price, and a pass of the renewal worker settles every subscription whose
  period is over.
\<close>

section \<open>Periods\<close>

lemma midnight_bounds:
  fixes t n :: int
  assumes "t div us_per_day < n" and "n \<le> t div us_per_day + k"
  shows "t < n * us_per_day \<and> n * us_per_day \<le> t + k * us_per_day"
proof -
  define q where "q = t div us_per_day"
  have "t = q * us_per_day + t mod us_per_day" and "0 \<le> t mod us_per_day" and "t mod us_per_day < us_per_day"
    by (simp_all add: q_def)
  moreover have "q + 1 \<le> n" and "n \<le> q + k" using assms by (simp_all add: q_def)
  ultimately show ?thesis by linarith
qed

lemma next_period_end_later: "now < next_period_end now"
  and next_period_end_31: "next_period_end now \<le> now + 31 * us_per_day"
  and next_period_end_month:
    "ord2ymd (dt_ordinal now) = (y, m, d) \<Longrightarrow> next_month y m = (y', m') \<Longrightarrow>
       next_period_end now = mk_datetime y' m' 1"
proof -
  obtain y m d where e: "ord2ymd (dt_ordinal now) = (y, m, d)" by (metis prod_cases3)
  obtain y' m' where nm: "next_month y m = (y', m')" by force
  have n: "next_period_end now = mk_datetime y' m' 1"
    using nm by (auto simp: next_period_end_def dt_year_month_def e next_month_def split: if_splits)
  note c = ord2ymd_correct [OF e]
  have "ymd2ord y' m' 1 = ymd2ord y m 1 + days_in_month_leap (is_leap y) m"
    using c nm by (intro next_month_ord) auto
  then have o: "ymd2ord y' m' 1 = dt_ordinal now + 1 - d + days_in_month_leap (is_leap y) m"
    using c by (simp add: ymd2ord_def)
  have "now div us_per_day < ymd2ord y' m' 1 - epoch_ordinal"
    and "ymd2ord y' m' 1 - epoch_ordinal \<le> now div us_per_day + 31"
    using o c days_in_month_bounds [of "is_leap y" m] by (simp_all add: dt_ordinal_def)
  from midnight_bounds [OF this] show "now < next_period_end now"
    and "next_period_end now \<le> now + 31 * us_per_day"
    by (simp_all add: n mk_datetime_def)
  show "ord2ymd (dt_ordinal now) = (y, m, d) \<Longrightarrow> next_month y m = (y', m') \<Longrightarrow>
       next_period_end now = mk_datetime y' m' 1" for y m d y' m'
    by (auto simp: next_period_end_def dt_year_month_def next_month_def split: if_splits)
qed

lemma initial_period_end_later: "now < initial_period_end p now"
  using next_period_end_later [of now]
  by (auto simp: initial_period_end_def timedelta_days_def)

section \<open>Granting and topping up\<close>

lemma grant_frame:
  assumes "grant_subscription now db u p ref_id = (db', sub)"
  shows "users db' = users db" "api_keys db' = api_keys db" "plans db' = plans db"
    "orders db' = orders db" "seq_orders db' = seq_orders db"
    "seq_subscriptions db' = seq_subscriptions db + 1"
    "subscriptions db' = subscriptions db @ [sub]" "sub = new_subscription now db u p"
    "\<exists>nt. balance_txs db' = balance_txs db @ [\<lparr>tx_user_id = us_id u, tx_type = tx_grant,
       tx_amount_cents = pl_quota_cents p, tx_balance_after = us_balance_cents u,
       tx_ref_id = ref_id, tx_note = nt\<rparr>]"
    "us_id u \<in> set (info_uids db')"
  using assms by (auto simp: grant_subscription_def Let_def)

lemma topup_frame:
  assumes "topup_wallet db u amount ref_id note = (db', u')"
  shows "users db' = users (add_balance (us_id u) amount db)" "api_keys db' = api_keys db"
    "plans db' = plans db" "orders db' = orders db" "subscriptions db' = subscriptions db"
    "seq_orders db' = seq_orders db" "seq_subscriptions db' = seq_subscriptions db"
    "balance_txs db' = balance_txs db @ [\<lparr>tx_user_id = us_id u, tx_type = tx_topup,
       tx_amount_cents = amount, tx_balance_after = returning_balance db' (us_id u),
       tx_ref_id = ref_id, tx_note = note\<rparr>]"
    "us_id u \<in> set (info_uids db')" "us_id u' = us_id u"
    "us_balance_cents u' = returning_balance db' (us_id u)"
  using assms by (auto simp: topup_wallet_def Let_def returning_balance_def)

lemma pay_frame:
  assumes "pay_plan db u p oid = (db', u')"
  shows "users db' = (if 0 < pl_price_cents p then users (add_balance (us_id u) (- pl_price_cents p) db)
           else users db)" "api_keys db' = api_keys db" "plans db' = plans db"
    "orders db' = orders db" "subscriptions db' = subscriptions db"
    "seq_orders db' = seq_orders db" "seq_subscriptions db' = seq_subscriptions db"
    "us_id u' = us_id u"
    "us_balance_cents u' = (if 0 < pl_price_cents p then returning_balance db' (us_id u)
       else us_balance_cents u)"
    "\<exists>ts. balance_txs db' = balance_txs db @ ts \<and>
       (\<forall>t \<in> set ts. tx_user_id t = us_id u \<and> tx_balance_after t = returning_balance db' (us_id u))"
  using assms by (auto simp: pay_plan_def Let_def returning_balance_def split: if_splits)

section \<open>Properties of a purchase\<close>

lemma subscribe_paid_effect:
  assumes "row_get us_id (us_id u) (users db) = Some u"
    and "subscribe_paid now db u p = Inr (db', body)"
  shows "wallet_of db' (us_id u) = us_balance_cents u - max 0 (pl_price_cents p)"
    and "0 < pl_price_cents p \<Longrightarrow> pl_price_cents p \<le> us_balance_cents u"
    and "\<exists>sub. subscriptions db' = subscriptions db @ [sub] \<and> sb_user_id sub = us_id u
           \<and> sb_plan_id sub = pl_id p \<and> sb_remaining_cents sub = pl_quota_cents p
           \<and> sb_status sub = sub_active \<and> now < sb_current_period_end sub"
proof -
  let ?odr = "wallet_order now db u p"
  obtain db2 u2 where pay: "pay_plan (add_order ?odr db) u p (od_id ?odr) = (db2, u2)" by force
  obtain db3 sub where gr: "grant_subscription now db2 u2 p (Some (str_int (od_id ?odr))) = (db3, sub)"
    by force
  have db': "db' = db3" and funds: "0 < pl_price_cents p \<Longrightarrow> pl_price_cents p \<le> us_balance_cents u"
    using assms(2) pay gr by (auto simp: subscribe_paid_def Let_def split: if_splits)
  note g = grant_frame [OF gr] and q = pay_frame [OF pay]
  show "0 < pl_price_cents p \<Longrightarrow> pl_price_cents p \<le> us_balance_cents u" by (fact funds)
  show "wallet_of db' (us_id u) = us_balance_cents u - max 0 (pl_price_cents p)"
    using g(1) q(1) assms(1)
    by (auto simp: db' wallet_of_def returning_balance_def add_order_def add_balance_def row_simps)
  show "\<exists>sub. subscriptions db' = subscriptions db @ [sub] \<and> sb_user_id sub = us_id u
           \<and> sb_plan_id sub = pl_id p \<and> sb_remaining_cents sub = pl_quota_cents p
           \<and> sb_status sub = sub_active \<and> now < sb_current_period_end sub"
    using g(7,8) q(5,8) initial_period_end_later [of now p]
    by (auto simp: db' new_subscription_def add_order_def)
qed

lemma subscribe_cases:
  assumes "subscribe_with_balance now db u plan_id = Inr (db', body)"
  obtains p where "row_get pl_id plan_id (plans db) = Some p" "pl_active p"
    "existing_subs now db u p = []" "subscribe_paid now db u p = Inr (db', body)"
    "\<forall>limit. pl_plan_type p = one_time \<longrightarrow> pl_max_purchases_per_user p = Some limit \<longrightarrow>
       purchases db u p < limit"
  using assms that
  by (auto simp: subscribe_with_balance_def Let_def split: option.splits if_splits list.splits)

text \<open>
  A purchase from the wallet succeeds only if the plan is on sale, the user has no
  running subscription to it and can pay; it takes exactly the price, never drives a wallet
  negative, adds one active subscription with the plan's quota, and a one-time plan is never
  bought more often than its cap allows.
\<close>

theorem subscribe_with_balance_exact:
  assumes "row_get us_id (us_id u) (users db) = Some u" and "0 \<le> us_balance_cents u"
    and "subscribe_with_balance now db u plan_id = Inr (db', body)"
  shows "\<exists>p. row_get pl_id plan_id (plans db) = Some p \<and> pl_active p
    \<and> existing_subs now db u p = []
    \<and> wallet_of db' (us_id u) = us_balance_cents u - max 0 (pl_price_cents p)
    \<and> 0 \<le> wallet_of db' (us_id u)
    \<and> (\<exists>sub. subscriptions db' = subscriptions db @ [sub] \<and> existing_subs now db' u p = [sub]
         \<and> sb_remaining_cents sub = pl_quota_cents p)
    \<and> (\<forall>limit. pl_plan_type p = one_time \<longrightarrow> pl_max_purchases_per_user p = Some limit \<longrightarrow>
         purchases db' u p \<le> limit)"
proof -
  from assms(3) obtain p where p: "row_get pl_id plan_id (plans db) = Some p" "pl_active p"
    "existing_subs now db u p = []" "subscribe_paid now db u p = Inr (db', body)"
    and cap: "\<forall>limit. pl_plan_type p = one_time \<longrightarrow> pl_max_purchases_per_user p = Some limit \<longrightarrow>
       purchases db u p < limit"
    by (rule subscribe_cases)
  note e = subscribe_paid_effect [OF assms(1) p(4)]
  obtain sub where sub: "subscriptions db' = subscriptions db @ [sub]" "sb_user_id sub = us_id u"
    "sb_plan_id sub = pl_id p" "sb_remaining_cents sub = pl_quota_cents p" "sb_status sub = sub_active"
    "now < sb_current_period_end sub" using e(3) by blast
  have "existing_subs now db' u p = [sub]" using p(3) sub by (simp add: existing_subs_def)
  moreover have "purchases db' u p = purchases db u p + 1" using sub by (simp add: purchases_def)
  moreover have "0 \<le> wallet_of db' (us_id u)" using e(1,2) assms(2) by (cases "0 < pl_price_cents p") auto
  ultimately show ?thesis using p e(1) sub(1,4) cap by fastforce
qed

definition shop_plan :: plan where
  "shop_plan = (default_plan 1)\<lparr>pl_plan_type := one_time, pl_price_cents := 60, pl_quota_cents := 500,
     pl_max_purchases_per_user := Some 1\<rparr>"

definition shop_db :: session where
  "shop_db = empty_session\<lparr>users := [default_user 7 100], plans := [shop_plan]\<rparr>"

lemmas shop_defs = shop_db_def shop_plan_def default_row_defs

lemma shop_buy: "\<exists>db' body. subscribe_with_balance 0 shop_db (default_user 7 100) 1 = Inr (db', body)"
  by (simp add: subscribe_with_balance_def existing_subs_def purchases_def subscribe_paid_def Let_def
      shop_defs row_get_def split: prod.splits)

theorem subscribe_with_balance_exact_witness:
  "\<exists>db' body. subscribe_with_balance 0 shop_db (default_user 7 100) 1 = Inr (db', body)
     \<and> wallet_of db' 7 = 40 \<and> purchases db' (default_user 7 100) shop_plan \<le> 1"
proof -
  obtain db' body where b: "subscribe_with_balance 0 shop_db (default_user 7 100) 1 = Inr (db', body)"
    using shop_buy by blast
  have pl: "row_get pl_id 1 (plans shop_db) = Some shop_plan" by (simp add: shop_defs row_get_def)
  have us: "row_get us_id (us_id (default_user 7 100)) (users shop_db) = Some (default_user 7 100)"
    by (simp add: shop_defs row_get_def)
  have bal: "0 \<le> us_balance_cents (default_user 7 100)" by (simp add: default_user_def)
  from subscribe_with_balance_exact [OF us bal b] pl
  have "wallet_of db' (us_id (default_user 7 100)) = us_balance_cents (default_user 7 100) - max 0 (pl_price_cents shop_plan)"
    and "purchases db' (default_user 7 100) shop_plan \<le> 1" by (auto simp: shop_plan_def)
  with b show ?thesis by (simp add: shop_defs)
qed

end
