(* ===== verification/Worker_Laws.thy ===== *)
theory Worker_Laws
  imports Renewal_Laws
begin

text \<open>
  Cancellation with a prorated refund, and what one pass of the renewal worker does to the
  subscriptions whose period is over.
\<close>

section \<open>Cancellation\<close>

lemma cancel_refund_bounds: "0 \<le> cancel_refund pl s"
  "cancel_refund (Some p) s \<le> max 0 (pl_price_cents p)" "cancel_refund None s = 0"
  by (auto simp: cancel_refund_def split: option.splits)

lemma cancel_refund_prorated:
  assumes "0 < pl_quota_cents p" and "0 \<le> sb_remaining_cents s"
  shows "cancel_refund (Some p) s * pl_quota_cents p \<le> max 0 (pl_price_cents p) * sb_remaining_cents s"
proof (cases "0 < pl_price_cents p")
  case True
  let ?q = "pl_price_cents p * sb_remaining_cents s div pl_quota_cents p"
  have "0 \<le> ?q" using True assms by (simp add: pos_imp_zdiv_nonneg_iff)
  then have "cancel_refund (Some p) s \<le> ?q" using True assms by (simp add: cancel_refund_def)
  moreover have "?q * pl_quota_cents p \<le> pl_price_cents p * sb_remaining_cents s"
    using assms(1) by (metis div_mult_mod_eq le_add_same_cancel1 pos_mod_sign)
  ultimately show ?thesis
    using True assms(1) by (smt (verit) mult_right_mono)
next
  case False
  then show ?thesis using assms by (simp add: cancel_refund_def)
qed

lemma open_sub_Inr:
  "open_sub_of_user db u i = Inr s \<longleftrightarrow>
     row_get sb_id i (subscriptions db) = Some s \<and> sb_user_id s = us_id u
     \<and> sb_status s \<in> {sub_active, sub_past_due}"
  by (auto simp: open_sub_of_user_def sub_of_user_def bind_result_eq_Inr split: option.splits if_splits)

text \<open>
  An immediate cancellation pays back between zero and the plan's price, at most in
  proportion to the unused quota; it closes the subscription (no quota left, period over), credits
  exactly the amount it reports and leaves every other subscription alone.
\<close>

theorem cancel_immediate_exact:
  assumes "row_get us_id (us_id u) (users db) = Some u"
    and "row_get sb_id i (subscriptions db) = Some s" and "0 \<le> sb_remaining_cents s"
    and "cancel_subscription now db u i False = Inr (db', body)"
  shows "\<exists>refund. dict_get body ''refund_cents'' = Some (JInt refund) \<and> 0 \<le> refund
    \<and> wallet_of db' (us_id u) = us_balance_cents u + refund
    \<and> (\<forall>p. row_get pl_id (sb_plan_id s) (plans db) = Some p \<longrightarrow> 0 < pl_quota_cents p \<longrightarrow>
         refund \<le> max 0 (pl_price_cents p)
         \<and> refund * pl_quota_cents p \<le> max 0 (pl_price_cents p) * sb_remaining_cents s)
    \<and> row_get sb_id i (subscriptions db') = Some (s\<lparr>sb_status := sub_canceled,
        sb_cancel_at_period_end := True, sb_canceled_at := Some now, sb_remaining_cents := 0,
        sb_current_period_end := now\<rparr>)
    \<and> (\<forall>j. j \<noteq> i \<longrightarrow> row_get sb_id j (subscriptions db') = row_get sb_id j (subscriptions db))"
proof -
  have id: "sb_id s = i" using row.get_Some [OF assms(2)] by simp
  let ?r = "cancel_refund (row_get pl_id (sb_plan_id s) (plans db)) s"
  have nn: "0 \<le> ?r" by (rule cancel_refund_bounds)
  from assms(4) obtain s' where s': "open_sub_of_user db u i = Inr s'"
    by (cases "open_sub_of_user db u i") (auto simp: cancel_subscription_def)
  have op: "open_sub_of_user db u i = Inr s" using s' assms(2) by (simp add: open_sub_Inr)
  note unf = assms(4) [unfolded cancel_subscription_def op, simplified Let_def bind_result_simps, simplified]
  have "dict_get body ''refund_cents'' = Some (JInt ?r)" using unf by auto
  moreover have "wallet_of db' (us_id u) = us_balance_cents u + ?r"
    using unf assms(1) nn by (auto simp: wallet_of_def returning_balance_def add_balance_def row_simps)
  moreover have "row_get sb_id j (subscriptions db') = (if j = i then Some (s\<lparr>sb_status := sub_canceled,
        sb_cancel_at_period_end := True, sb_canceled_at := Some now, sb_remaining_cents := 0,
        sb_current_period_end := now\<rparr>) else row_get sb_id j (subscriptions db))" for j
    using unf assms(2) id by (auto simp: row_simps)
  ultimately show ?thesis
    using nn cancel_refund_bounds(2) cancel_refund_prorated assms(3) by (intro exI [of _ ?r]) auto
qed

definition cancel_db :: session where
  "cancel_db = empty_session\<lparr>users := [default_user 7 100],
     plans := [(default_plan 1)\<lparr>pl_price_cents := 60, pl_quota_cents := 500\<rparr>],
     subscriptions := [default_sub 1 7 1 1000 250], seq_subscriptions := 2\<rparr>"

theorem cancel_immediate_exact_witness:
  "\<exists>db' body. cancel_subscription 5 cancel_db (default_user 7 100) 1 False = Inr (db', body)
     \<and> dict_get body ''refund_cents'' = Some (JInt 30) \<and> wallet_of db' 7 = 130"
proof -
  let ?u = "default_user 7 100" and ?s = "default_sub 1 7 1 1000 250"
  have u: "row_get us_id (us_id ?u) (users cancel_db) = Some ?u"
    and s: "row_get sb_id 1 (subscriptions cancel_db) = Some ?s"
    by (simp_all add: cancel_db_def default_row_defs row_get_def)
  have op: "open_sub_of_user cancel_db ?u 1 = Inr ?s"
    using s by (simp add: open_sub_Inr default_row_defs)
  then obtain db' body where c: "cancel_subscription 5 cancel_db ?u 1 False = Inr (db', body)"
    by (simp add: cancel_subscription_def Let_def)
  have "dict_get body ''refund_cents'' = Some (JInt 30)"
    using c op by (auto simp: cancel_subscription_def Let_def cancel_refund_def cancel_db_def
        default_row_defs row_get_def)
  with cancel_immediate_exact [OF u s _ c] c show ?thesis by (auto simp: default_row_defs)
qed

section \<open>Renewal\<close>

text \<open>The three ways a renewal can end for its subscription.\<close>

definition renewal_outcome :: "session \<Rightarrow> subscription \<Rightarrow> subscription \<Rightarrow> bool" where
  "renewal_outcome db s r \<longleftrightarrow>
     sb_id r = sb_id s \<and> sb_user_id r = sb_user_id s \<and> sb_plan_id r = sb_plan_id s \<and>
     (sb_status r = sub_expired
      \<or> (sb_status r = sub_past_due \<and> sb_remaining_cents r = 0)
      \<or> (sb_status r = sub_active \<and> sb_current_period_start r = sb_current_period_end s
         \<and> sb_current_period_end s < sb_current_period_end r
         \<and> (\<exists>p. row_get pl_id (sb_plan_id s) (plans db) = Some p \<and> pl_plan_type p \<noteq> one_time
              \<and> sb_remaining_cents r = pl_quota_cents p)))"

lemma renew_frame:
  assumes "renew_subscription now db s = (db', ok, reason)"
  shows "plans db' = plans db" "api_keys db' = api_keys db" "orders db' = orders db"
    "seq_orders db' = seq_orders db" "seq_subscriptions db' = seq_subscriptions db"
    "map sb_id (subscriptions db') = map sb_id (subscriptions db)"
    "map us_id (users db') = map us_id (users db)"
    "j \<noteq> sb_id s \<Longrightarrow> row_get sb_id j (subscriptions db') = row_get sb_id j (subscriptions db)"
  using assms
  by (auto simp: renew_subscription_def Let_def row_simps add_balance_def
      split: option.splits if_splits)

lemma renew_row:
  assumes "renew_subscription now db s = (db', ok, reason)"
    and "row_get sb_id (sb_id s) (subscriptions db) = Some s"
  shows "\<exists>r. row_get sb_id (sb_id s) (subscriptions db') = Some r \<and> renewal_outcome db s r"
  using assms next_period_end_later [of "sb_current_period_end s"]
  by (auto simp: renew_subscription_def Let_def row_simps renewal_outcome_def
      split: option.splits if_splits)

lemma renew_wallet:
  assumes "renew_subscription now db s = (db', ok, reason)"
  shows "(users db' = users db \<and> balance_txs db' = balance_txs db) \<or>
    (\<exists>u price nt. row_get us_id (sb_user_id s) (users db) = Some u \<and> 0 < price
       \<and> price \<le> us_balance_cents u \<and> users db' = users (add_balance (sb_user_id s) (- price) db)
       \<and> balance_txs db' = balance_txs db @ [\<lparr>tx_user_id = sb_user_id s, tx_type = tx_consume,
           tx_amount_cents = - price, tx_balance_after = us_balance_cents u - price,
           tx_ref_id = Some (''sub#'' @ str_int (sb_id s)), tx_note = nt\<rparr>])"
proof (cases "row_get us_id (sb_user_id s) (users db)")
  case None
  with assms show ?thesis
    by (auto simp: renew_subscription_def Let_def split: option.splits if_splits)
next
  case (Some u)
  have "us_id u = sb_user_id s" using row.get_Some [OF Some] by simp
  with Some assms show ?thesis
    by (auto simp: renew_subscription_def Let_def split: option.splits if_splits)
qed

lemma renew_wallet_nonneg:
  assumes "renew_subscription now db s = (db', ok, reason)" and "0 \<le> wallet_of db j"
  shows "0 \<le> wallet_of db' j"
  using renew_wallet [OF assms(1)] assms(2)
  by (auto simp: wallet_of_def returning_balance_def add_balance_def row_simps)

text \<open>The worker's loop: each subscription is renewed once, independently of the others.\<close>

lemma renew_fold:
  assumes "distinct (map sb_id ss)"
    and "\<forall>s \<in> set ss. row_get sb_id (sb_id s) (subscriptions db) = Some s"
    and "db' = foldl (\<lambda>d s. fst (renew_subscription (clock (sb_id s)) d s)) db ss"
  shows "(\<forall>s \<in> set ss. \<exists>r. row_get sb_id (sb_id s) (subscriptions db') = Some r \<and> renewal_outcome db s r)
    \<and> (\<forall>j. j \<notin> sb_id ` set ss \<longrightarrow> row_get sb_id j (subscriptions db') = row_get sb_id j (subscriptions db))
    \<and> (\<forall>j. 0 \<le> wallet_of db j \<longrightarrow> 0 \<le> wallet_of db' j)"
  using assms
proof (induction ss arbitrary: db)
  case Nil
  then show ?case by simp
next
  case (Cons s ss)
  obtain db1 ok reason where rn: "renew_subscription (clock (sb_id s)) db s = (db1, ok, reason)"
    by (metis prod_cases3)
  note fr = renew_frame [OF rn]
  have ne: "sb_id t \<noteq> sb_id s" if "t \<in> set ss" for t
    using Cons.prems(1) that by (metis distinct.simps(2) image_eqI list.set_map list.simps(9))
  have rows: "\<forall>t \<in> set ss. row_get sb_id (sb_id t) (subscriptions db1) = Some t"
    using Cons.prems(2) fr(8) ne by simp
  have ih: "(\<forall>t \<in> set ss. \<exists>r. row_get sb_id (sb_id t) (subscriptions db') = Some r \<and> renewal_outcome db1 t r)
    \<and> (\<forall>j. j \<notin> sb_id ` set ss \<longrightarrow> row_get sb_id j (subscriptions db') = row_get sb_id j (subscriptions db1))
    \<and> (\<forall>j. 0 \<le> wallet_of db1 j \<longrightarrow> 0 \<le> wallet_of db' j)"
    using Cons.IH [OF _ rows] Cons.prems(1,3) rn by simp
  have oc: "renewal_outcome db1 t r = renewal_outcome db t r" for t r
    by (simp add: renewal_outcome_def fr(1))
  have "sb_id s \<notin> sb_id ` set ss" using Cons.prems(1) by auto
  moreover have "\<exists>r. row_get sb_id (sb_id s) (subscriptions db1) = Some r \<and> renewal_outcome db s r"
    using renew_row [OF rn] Cons.prems(2) by simp
  ultimately show ?case using ih oc fr(8) renew_wallet_nonneg [OF rn] by simp
qed

text \<open>
  Claim C7. One pass of the renewal worker settles every subscription whose period is over and
  that no other transaction holds: it ends expired, past due without quota, or active again for
  a later period with the plan's quota. No other subscription changes, and no wallet goes
  negative.
\<close>

theorem renewal_scan_settles:
  assumes "keys_ok db" and "db' = renewal_scan_once now clock locked db"
  shows "(\<forall>s \<in> set (due_subs now locked db).
            \<exists>r. row_get sb_id (sb_id s) (subscriptions db') = Some r \<and> renewal_outcome db s r)
    \<and> (\<forall>j. j \<notin> sb_id ` set (due_subs now locked db) \<longrightarrow>
          row_get sb_id j (subscriptions db') = row_get sb_id j (subscriptions db))
    \<and> (\<forall>j. 0 \<le> wallet_of db j \<longrightarrow> 0 \<le> wallet_of db' j)"
proof (rule renew_fold)
  have ds: "distinct (map sb_id (subscriptions db))" using assms(1) by (simp add: keys_ok_def)
  then show "distinct (map sb_id (due_subs now locked db))"
    by (simp add: due_subs_def distinct_map_sort_key distinct_map_filter)
  show "\<forall>s \<in> set (due_subs now locked db). row_get sb_id (sb_id s) (subscriptions db) = Some s"
    using row.get_unique [OF ds] by (auto simp: due_subs_def)
  show "db' = foldl (\<lambda>d s. fst (renew_subscription (clock (sb_id s)) d s)) db (due_subs now locked db)"
    using assms(2) by (simp add: renewal_scan_once_def)
qed

theorem renewal_scan_settles_witness:
  "let db' = renewal_scan_once 2000 (\<lambda>i. 2000) (\<lambda>i. False) cancel_db in
     0 \<le> wallet_of db' 7 \<and> (\<exists>r. row_get sb_id 1 (subscriptions db') = Some r
       \<and> renewal_outcome cancel_db (default_sub 1 7 1 1000 250) r)"
proof -
  have k: "keys_ok cancel_db" by (simp add: keys_ok_def cancel_db_def default_row_defs)
  have d: "due_subs 2000 (\<lambda>i. False) cancel_db = [default_sub 1 7 1 1000 250]"
    by (simp add: due_subs_def cancel_db_def default_row_defs)
  have "0 \<le> wallet_of cancel_db 7"
    by (simp add: wallet_of_def returning_balance_def cancel_db_def default_row_defs row_get_def)
  with renewal_scan_settles [OF k refl, where now = 2000 and clock = "\<lambda>i. 2000" and locked = "\<lambda>i. False"] show ?thesis
    by (simp add: d Let_def default_sub_def)
qed

end
