(* ===== verification/Ledger.thy ===== *)
theory Ledger
  imports Worker_Laws
begin

text \<open>
  The accounting operations as one transition system: each step is a committed transaction of a
  handler or worker that read the rows it works on inside that transaction. The invariants: keys
  stay unique, the newest entry of a user's ledger shows the wallet's balance, a paid order stays
  paid. A payment credits exactly what was bought, once.
\<close>

section \<open>Steps\<close>

inductive billing_step :: "session \<Rightarrow> session \<Rightarrow> bool" where
  charge: "row_get us_id uid (users db) = Some u \<Longrightarrow>
    charge_user sync now db u k cost ref_id note = (db', u', k', bd) \<Longrightarrow> billing_step db db'"
| refund: "row_get us_id uid (users db) = Some u \<Longrightarrow> nonneg_bd bd \<Longrightarrow>
    refund_to_sources sync now db u k bd amt ref_id note = (db', u', k', refunded) \<Longrightarrow>
    billing_step db db'"
| subscribe: "row_get us_id uid (users db) = Some u \<Longrightarrow>
    subscribe_with_balance now db u plan_id = Inr (db', body) \<Longrightarrow> billing_step db db'"
| cancel: "row_get us_id uid (users db) = Some u \<Longrightarrow>
    cancel_subscription now db u sub_id at_end = Inr (db', body) \<Longrightarrow> billing_step db db'"
| resume: "row_get us_id uid (users db) = Some u \<Longrightarrow>
    resume_subscription db u sub_id = Inr (db', body) \<Longrightarrow> billing_step db db'"
| renew: "row_get us_id uid (users db) = Some u \<Longrightarrow>
    renew_now now db u sub_id = Inr (db', body) \<Longrightarrow> billing_step db db'"
| scan: "db' = renewal_scan_once now clock locked db \<Longrightarrow> billing_step db db'"
| order: "row_get us_id uid (users db) = Some u \<Longrightarrow>
    create_order url db u channel plan_opt amount = Inr (db', body) \<Longrightarrow> billing_step db db'"
| callback: "payment_callback now db channel payload = Inr (db', body) \<Longrightarrow> billing_step db db'"
| mock: "mock_pay now db channel oid = Inr (db', body) \<Longrightarrow> billing_step db db'"
| set_status: "set_user_status db uid st = Inr db' \<Longrightarrow> billing_step db db'"
| adjust: "adjust_balance db uid amount note = Inr db' \<Longrightarrow> billing_step db db'"
| reset: "reset_password hash_fn db uid pw = Inr db' \<Longrightarrow> billing_step db db'"

section \<open>Movements of the ledger\<close>

definition txs_of :: "session \<Rightarrow> int \<Rightarrow> balance_tx list" where
  "txs_of db uid = filter (\<lambda>t. tx_user_id t = uid) (balance_txs db)"

definition ledger_ok :: "session \<Rightarrow> bool" where
  "ledger_ok db \<longleftrightarrow> (\<forall>u \<in> set (users db). txs_of db (us_id u) = []
     \<or> tx_balance_after (last (txs_of db (us_id u))) = us_balance_cents u)"

definition ledger_move :: "session \<Rightarrow> session \<Rightarrow> bool" where
  \<comment> \<open>the ledger only grows, and a wallet that changes has a new entry with its balance\<close>
  "ledger_move db db' \<longleftrightarrow> (\<exists>new. balance_txs db' = balance_txs db @ new
     \<and> (\<forall>uid. let ts = filter (\<lambda>t. tx_user_id t = uid) new in
          if ts = [] then wallet_of db' uid = wallet_of db uid
          else tx_balance_after (last ts) = wallet_of db' uid))"

definition ids_grow :: "int list \<Rightarrow> int \<Rightarrow> int list \<Rightarrow> int \<Rightarrow> bool" where
  "ids_grow ids n ids' n' \<longleftrightarrow> n \<le> n' \<and> ids' = ids @ [n..n' - 1]"

definition keys_move :: "session \<Rightarrow> session \<Rightarrow> bool" where
  "keys_move db db' \<longleftrightarrow>
     map us_id (users db') = map us_id (users db) \<and> map ak_id (api_keys db') = map ak_id (api_keys db)
     \<and> ids_grow (map sb_id (subscriptions db)) (seq_subscriptions db)
                (map sb_id (subscriptions db')) (seq_subscriptions db')
     \<and> ids_grow (map od_id (orders db)) (seq_orders db) (map od_id (orders db')) (seq_orders db')"

definition is_paid :: "session \<Rightarrow> int \<Rightarrow> bool" where
  "is_paid db i \<longleftrightarrow> (\<exists>odr. row_get od_id i (orders db) = Some odr \<and> od_status odr = order_paid)"

definition account_move :: "session \<Rightarrow> session \<Rightarrow> bool" where
  "account_move db db' \<longleftrightarrow> ledger_move db db' \<and> keys_move db db'
     \<and> (\<forall>i. is_paid db i \<longrightarrow> is_paid db' i)"

lemma ids_grow_refl [simp]: "ids_grow ids n ids n"
  by (simp add: ids_grow_def)

lemma ids_grow_one [simp]: "ids_grow ids n (ids @ [n]) (n + 1)"
  by (simp add: ids_grow_def)

lemma ids_grow_trans: "ids_grow a n b m \<Longrightarrow> ids_grow b m c k \<Longrightarrow> ids_grow a n c k"
  using upto_split1 [of n m "k - 1"] by (cases "m = k") (auto simp: ids_grow_def)

lemma ledger_move_same:
  "users db' = users db \<Longrightarrow> balance_txs db' = balance_txs db \<Longrightarrow> ledger_move db db'"
  by (simp add: ledger_move_def wallet_of_def returning_balance_def)

lemma ledger_move_entry:
  assumes "balance_txs db' = balance_txs db @ [t]" and "tx_balance_after t = wallet_of db' (tx_user_id t)"
    and "\<And>j. j \<noteq> tx_user_id t \<Longrightarrow> wallet_of db' j = wallet_of db j"
  shows "ledger_move db db'"
  unfolding ledger_move_def using assms by (intro exI [of _ "[t]"]) (auto simp: Let_def)

lemma ledger_move_trans:
  assumes "ledger_move a b" and "ledger_move b c"
  shows "ledger_move a c"
proof -
  obtain n1 where 1: "balance_txs b = balance_txs a @ n1"
    "\<And>uid. let ts = filter (\<lambda>t. tx_user_id t = uid) n1 in
       if ts = [] then wallet_of b uid = wallet_of a uid else tx_balance_after (last ts) = wallet_of b uid"
    using assms(1) unfolding ledger_move_def by blast
  obtain n2 where 2: "balance_txs c = balance_txs b @ n2"
    "\<And>uid. let ts = filter (\<lambda>t. tx_user_id t = uid) n2 in
       if ts = [] then wallet_of c uid = wallet_of b uid else tx_balance_after (last ts) = wallet_of c uid"
    using assms(2) unfolding ledger_move_def by blast
  show ?thesis
    unfolding ledger_move_def
  proof (intro exI [of _ "n1 @ n2"] conjI allI)
    show "balance_txs c = balance_txs a @ n1 @ n2" using 1(1) 2(1) by simp
    show "let ts = filter (\<lambda>t. tx_user_id t = uid) (n1 @ n2) in
       if ts = [] then wallet_of c uid = wallet_of a uid else tx_balance_after (last ts) = wallet_of c uid" for uid
      using 1(2) [of uid] 2(2) [of uid] by (auto simp: Let_def last_append split: if_splits)
  qed
qed

lemma account_move_refl: "account_move db db"
  by (simp add: account_move_def keys_move_def ledger_move_same)

lemma account_move_trans: "account_move a b \<Longrightarrow> account_move b c \<Longrightarrow> account_move a c"
  unfolding account_move_def keys_move_def using ledger_move_trans ids_grow_trans by (auto; blast)

lemma ids_grow_distinct:
  "ids_grow ids n ids' n' \<Longrightarrow> distinct ids \<Longrightarrow> \<forall>i \<in> set ids. i < n \<Longrightarrow> distinct ids' \<and> (\<forall>i \<in> set ids'. i < n')"
  by (fastforce simp: ids_grow_def)

lemma keys_move_ok: "keys_move db db' \<Longrightarrow> keys_ok db \<Longrightarrow> keys_ok db'"
  unfolding keys_move_def keys_ok_def
  using ids_grow_distinct [of "map sb_id (subscriptions db)" "seq_subscriptions db"
      "map sb_id (subscriptions db')" "seq_subscriptions db'"]
    ids_grow_distinct [of "map od_id (orders db)" "seq_orders db" "map od_id (orders db')" "seq_orders db'"]
  by simp

lemma wallet_of_row: "distinct (map us_id (users db)) \<Longrightarrow> u \<in> set (users db) \<Longrightarrow>
    wallet_of db (us_id u) = us_balance_cents u"
  by (simp add: wallet_of_def returning_balance_def row.get_unique)

lemma ledger_move_ok:
  assumes "ledger_move db db'" and "keys_move db db'" and "keys_ok db" and "ledger_ok db"
  shows "ledger_ok db'"
  unfolding ledger_ok_def
proof
  fix u assume u: "u \<in> set (users db')"
  let ?i = "us_id u"
  have d: "distinct (map us_id (users db))" using assms(3) by (simp add: keys_ok_def)
  have ids: "map us_id (users db') = map us_id (users db)" using assms(2) by (simp add: keys_move_def)
  have w: "wallet_of db' ?i = us_balance_cents u" using d ids u by (intro wallet_of_row) simp_all
  have "?i \<in> us_id ` set (users db)" using u ids by (metis image_eqI list.set_map)
  then obtain v where v: "v \<in> set (users db)" "us_id v = ?i" by auto
  then have wv: "wallet_of db ?i = us_balance_cents v" using wallet_of_row [OF d v(1)] by simp
  obtain new where n: "balance_txs db' = balance_txs db @ new"
    "let ts = filter (\<lambda>t. tx_user_id t = ?i) new in
       if ts = [] then wallet_of db' ?i = wallet_of db ?i else tx_balance_after (last ts) = wallet_of db' ?i"
    using assms(1) unfolding ledger_move_def by blast
  have "txs_of db ?i = [] \<or> tx_balance_after (last (txs_of db ?i)) = us_balance_cents v"
    using assms(4) v by (fastforce simp: ledger_ok_def)
  then show "txs_of db' ?i = [] \<or> tx_balance_after (last (txs_of db' ?i)) = us_balance_cents u"
    using n w wv by (auto simp: txs_of_def Let_def last_append split: if_splits)
qed

section \<open>Every step is a movement\<close>

lemma is_paid_cong: "orders db' = orders db \<Longrightarrow> is_paid db' = is_paid db"
  by (simp add: is_paid_def fun_eq_iff)

lemma account_move_entry:
  assumes "balance_txs db' = balance_txs db @ [t]" and "tx_balance_after t = wallet_of db' (tx_user_id t)"
    and "\<And>j. j \<noteq> tx_user_id t \<Longrightarrow> wallet_of db' j = wallet_of db j"
    and "keys_move db db'" and "orders db' = orders db"
  shows "account_move db db'"
  using ledger_move_entry [OF assms(1-3)] assms(4,5) by (simp add: account_move_def is_paid_def)

lemma account_move_same:
  assumes "users db' = users db" and "balance_txs db' = balance_txs db" and "orders db' = orders db"
    and "map ak_id (api_keys db') = map ak_id (api_keys db)"
    and "map sb_id (subscriptions db') = map sb_id (subscriptions db)"
    and "seq_subscriptions db' = seq_subscriptions db" and "seq_orders db' = seq_orders db"
  shows "account_move db db'"
  using assms by (simp add: account_move_def keys_move_def ledger_move_same is_paid_cong [of db' db])

lemma wallet_add_balance:
  "row_get us_id i (users db) = Some r \<Longrightarrow>
     users db' = users (add_balance i amt db) \<Longrightarrow>
     wallet_of db' j = (if j = i then us_balance_cents r + amt else wallet_of db j)"
  by (auto simp: wallet_of_def returning_balance_def add_balance_def row_simps)

lemma users_add_balance_ids: "map us_id (users (add_balance i amt db)) = map us_id (users db)"
  by (simp add: add_balance_def row_simps)

lemma charge_move:
  assumes "distinct (map sb_id (subscriptions db))" and "row_get us_id (us_id u) (users db) = Some u"
    and "charge_user sync now db u k cost ref_id note = (db', u', k', bd)"
  shows "account_move db db'"
proof (cases "0 < cost")
  case True
  note e = charge_user_effect [OF assms(1,2) True assms(3)]
  have w: "wallet_of db' j = (if j = us_id u then us_balance_cents u' else wallet_of db j)" for j
    using e(4,5) assms(2) by (auto simp: wallet_of_def returning_balance_def row_simps)
  obtain nt where t: "balance_txs db' = balance_txs db @ [\<lparr>tx_user_id = us_id u, tx_type = tx_consume,
      tx_amount_cents = - cost, tx_balance_after = us_balance_cents u', tx_ref_id = ref_id, tx_note = nt\<rparr>]"
    using e(11) by blast
  have k: "keys_move db db'" using e(4,12,13,14) by (simp add: keys_move_def row_simps)
  show ?thesis by (rule account_move_entry [OF t]) (use w k e(14) in simp_all)
next
  case False
  then show ?thesis using assms(3) account_move_refl by (simp add: charge_user_def)
qed

lemma refund_move:
  assumes "row_get us_id (us_id u) (users db) = Some u" and "nonneg_bd bd"
    and "refund_to_sources sync now db u k bd amt ref_id note = (db', u', k', refunded)"
  shows "account_move db db'"
proof (cases "0 < amt \<and> bd \<noteq> []")
  case True
  then have a: "0 < amt" "bd \<noteq> []" by auto
  obtain subs w where sp: "refund_split now db (us_id u) bd amt = (subs, w)" by force
  note s = refund_shape [OF a assms(3) sp]
  have w: "wallet_of db' j = (if j = us_id u then us_balance_cents u' else wallet_of db j)" for j
    using s(3,4) assms(1)
    by (auto simp: wallet_of_def returning_balance_def add_balance_def row_simps)
  obtain nt where t: "balance_txs db' = balance_txs db @ [\<lparr>tx_user_id = us_id u, tx_type = tx_refund,
      tx_amount_cents = refunded, tx_balance_after = us_balance_cents u', tx_ref_id = ref_id, tx_note = nt\<rparr>]"
    using s(7) by blast
  have k: "keys_move db db'"
    using s(2,3,6) by (simp add: keys_move_def users_add_balance_ids refund_subs_frame)
  show ?thesis by (rule account_move_entry [OF t]) (use w k s(6) in simp_all)
next
  case False
  then show ?thesis using assms(3) account_move_refl by (auto simp: refund_to_sources_def)
qed

lemma grant_move:
  assumes "row_get us_id (us_id u) (users db) = Some v" and "us_balance_cents v = us_balance_cents u"
    and "grant_subscription now db u p ref_id = (db', sub)"
  shows "account_move db db'"
proof -
  note g = grant_frame [OF assms(3)]
  have w: "wallet_of db' j = wallet_of db j" for j
    using g(1) by (simp add: wallet_of_def returning_balance_def)
  have "wallet_of db (us_id u) = us_balance_cents u"
    using assms(1,2) by (simp add: wallet_of_def returning_balance_def)
  moreover obtain nt where t: "balance_txs db' = balance_txs db @ [\<lparr>tx_user_id = us_id u,
      tx_type = tx_grant, tx_amount_cents = pl_quota_cents p, tx_balance_after = us_balance_cents u,
      tx_ref_id = ref_id, tx_note = nt\<rparr>]" using g(9) by blast
  moreover have "keys_move db db'" using g by (simp add: keys_move_def new_subscription_def)
  ultimately show ?thesis by (intro account_move_entry [OF t]) (use w g(4) in simp_all)
qed

lemma topup_move:
  assumes "row_get us_id (us_id u) (users db) = Some v"
    and "topup_wallet db u amount ref_id note = (db', u')"
  shows "account_move db db'"
proof -
  note f = topup_frame [OF assms(2)]
  have "keys_move db db'" using f by (simp add: keys_move_def users_add_balance_ids)
  then show ?thesis
    using wallet_add_balance [OF assms(1) f(1)] f(4)
    by (intro account_move_entry [OF f(8)]) (simp_all add: wallet_of_def)
qed

lemma renew_move:
  assumes "renew_subscription now db s = (db', ok, reason)"
  shows "account_move db db'"
proof -
  note f = renew_frame [OF assms]
  consider (same) "users db' = users db" "balance_txs db' = balance_txs db"
    | (paid) u price nt where "row_get us_id (sb_user_id s) (users db) = Some u"
        "users db' = users (add_balance (sb_user_id s) (- price) db)"
        "balance_txs db' = balance_txs db @ [\<lparr>tx_user_id = sb_user_id s, tx_type = tx_consume,
           tx_amount_cents = - price, tx_balance_after = us_balance_cents u - price,
           tx_ref_id = Some (''sub#'' @ str_int (sb_id s)), tx_note = nt\<rparr>]"
    using renew_wallet [OF assms] by blast
  then show ?thesis
  proof cases
    case same
    with f show ?thesis by (intro account_move_same) simp_all
  next
    case (paid u price nt)
    have "keys_move db db'" using f by (simp add: keys_move_def)
    with wallet_add_balance [OF paid(1,2)] f(3) show ?thesis
      by (intro account_move_entry [OF paid(3)]) simp_all
  qed
qed

lemma scan_move: "account_move db (renewal_scan_once now clock locked db)"
proof -
  have "account_move db (foldl (\<lambda>d s. fst (renew_subscription (clock (sb_id s)) d s)) db ss)" for ss
  proof (induction ss arbitrary: db)
    case (Cons s ss)
    obtain db1 ok reason where r: "renew_subscription (clock (sb_id s)) db s = (db1, ok, reason)"
      by (metis prod_cases3)
    from account_move_trans [OF renew_move [OF r] Cons.IH] show ?case by (simp add: r)
  qed (simp add: account_move_refl)
  then show ?thesis by (simp add: renewal_scan_once_def)
qed

lemma add_order_move:
  assumes "od_id odr = seq_orders db"
  shows "account_move db (add_order odr db)"
proof -
  have "is_paid (add_order odr db) i" if "is_paid db i" for i
    using that by (auto simp: is_paid_def add_order_def row_get_append)
  then show ?thesis
    using assms by (simp add: account_move_def keys_move_def add_order_def ledger_move_same)
qed

lemma pay_move:
  assumes "row_get us_id (us_id u) (users db) = Some u" and "pay_plan db u p oid = (db', u')"
  shows "account_move db db'"
proof (cases "0 < pl_price_cents p")
  case True
  note f = pay_frame [OF assms(2)]
  obtain t where t: "balance_txs db' = balance_txs db @ [t]" "tx_user_id t = us_id u"
    "tx_balance_after t = wallet_of db' (us_id u)"
    using assms(2) True by (auto simp: pay_plan_def Let_def wallet_of_def returning_balance_def)
  have "keys_move db db'" using f True by (simp add: keys_move_def users_add_balance_ids)
  with t f True wallet_add_balance [OF assms(1), of db' "- pl_price_cents p"] show ?thesis
    by (intro account_move_entry [OF t(1)]) simp_all
next
  case False
  with assms(2) show ?thesis using account_move_refl by (simp add: pay_plan_def Let_def)
qed

lemma subscribe_move:
  assumes "row_get us_id (us_id u) (users db) = Some u"
    and "subscribe_with_balance now db u plan_id = Inr (db', body)"
  shows "account_move db db'"
proof -
  from assms(2) obtain p where sp: "subscribe_paid now db u p = Inr (db', body)"
    by (rule subscribe_cases)
  let ?odr = "wallet_order now db u p"
  obtain db2 u2 where pay: "pay_plan (add_order ?odr db) u p (od_id ?odr) = (db2, u2)" by force
  obtain db3 sub where gr: "grant_subscription now db2 u2 p (Some (str_int (od_id ?odr))) = (db3, sub)"
    by force
  have db': "db' = db3"
    using sp pay gr by (auto simp: subscribe_paid_def Let_def split: if_splits)
  have u1: "row_get us_id (us_id u) (users (add_order ?odr db)) = Some u"
    using assms(1) by (simp add: add_order_def)
  note q = pay_frame [OF pay]
  have "\<exists>v. row_get us_id (us_id u2) (users db2) = Some v \<and> us_balance_cents v = us_balance_cents u2"
    using q(1,8,9) u1 by (auto simp: returning_balance_def add_balance_def row_simps)
  then obtain v where v: "row_get us_id (us_id u2) (users db2) = Some v"
    "us_balance_cents v = us_balance_cents u2" by blast
  have "account_move db (add_order ?odr db)" by (rule add_order_move) (simp add: wallet_order_def)
  from account_move_trans [OF account_move_trans [OF this pay_move [OF u1 pay]] grant_move [OF v gr]]
  show ?thesis by (simp add: db')
qed

lemma upd_sub_move:
  assumes "\<And>r. sb_id (f r) = sb_id r"
  shows "account_move db (upd_sub i f db)"
  using assms by (intro account_move_same) (simp_all add: row_simps)

lemma credit_move:
  assumes "row_get us_id i (users db) = Some v"
    and "tx_user_id t = i" and "tx_balance_after t = returning_balance (add_balance i amt db) i"
  shows "account_move db (add_tx t (add_balance i amt db))"
proof (rule account_move_entry [where t = t])
  show "keys_move db (add_tx t (add_balance i amt db))"
    by (simp add: keys_move_def users_add_balance_ids)
  show "tx_balance_after t = wallet_of (add_tx t (add_balance i amt db)) (tx_user_id t)"
    using assms(2,3) by (simp add: wallet_of_def returning_balance_def)
  show "wallet_of (add_tx t (add_balance i amt db)) j = wallet_of db j" if "j \<noteq> tx_user_id t" for j
    using wallet_add_balance [OF assms(1), of "add_tx t (add_balance i amt db)" amt j] that assms(2) by simp
qed simp_all

lemma cancel_move:
  assumes "row_get us_id (us_id u) (users db) = Some u"
    and "cancel_subscription now db u sub_id at_end = Inr (db', body)"
  shows "account_move db db'"
proof -
  from assms(2) obtain s where s: "open_sub_of_user db u sub_id = Inr s"
    by (cases "open_sub_of_user db u sub_id") (auto simp: cancel_subscription_def)
  note unf = assms(2) [unfolded cancel_subscription_def s, simplified Let_def bind_result_simps, simplified]
  show ?thesis
  proof (cases at_end)
    case True
    with unf show ?thesis by (auto simp: account_move_refl split: if_splits intro!: upd_sub_move)
  next
    case False
    let ?f = "\<lambda>r. r\<lparr>sb_status := sub_canceled, sb_cancel_at_period_end := True,
      sb_canceled_at := Some now, sb_remaining_cents := 0, sb_current_period_end := now\<rparr>"
    have u1: "row_get us_id (us_id u) (users (upd_sub (sb_id s) ?f db)) = Some u" using assms(1) by simp
    have 1: "account_move db (upd_sub (sb_id s) ?f db)" by (rule upd_sub_move) simp
    show ?thesis
      using unf False 1 by (auto split: if_splits intro!: account_move_trans [OF 1] credit_move [OF u1])
  qed
qed

lemma resume_move: "resume_subscription db u sub_id = Inr (db', body) \<Longrightarrow> account_move db db'"
  by (auto simp: resume_subscription_def bind_result_eq_Inr account_move_refl
      split: if_splits intro!: upd_sub_move)

lemma renew_now_move: "renew_now now db u sub_id = Inr (db', body) \<Longrightarrow> account_move db db'"
  by (auto simp: renew_now_def bind_result_eq_Inr account_move_refl
      split: if_splits prod.splits dest: renew_move)

lemma create_order_move:
  "create_order url db u channel plan_opt amount = Inr (db', body) \<Longrightarrow> account_move db db'"
  by (auto simp: create_order_def bind_result_eq_Inr Let_def split: option.splits if_splits
      intro!: add_order_move)

lemma settle_move:
  assumes "row_get od_id (od_id odr) (orders db) = Some odr"
    and "settle_order now db odr ref note = Inr db'"
  shows "account_move db db' \<and> is_paid db' (od_id odr)"
proof -
  let ?db1 = "upd_order (od_id odr) (\<lambda>r. r\<lparr>od_status := order_paid, od_paid_at := Some now,
                  od_provider_order_id := ref\<rparr>) db"
  have 1: "account_move db ?db1"
    by (auto simp: account_move_def keys_move_def ledger_move_same is_paid_def row_simps)
  have p: "is_paid ?db1 (od_id odr)" using assms(1) by (simp add: is_paid_def row_simps)
  from assms(2) obtain u where u: "row_get us_id (od_user_id odr) (users ?db1) = Some u"
    and cs: "(\<exists>pl. db' = fst (grant_subscription now ?db1 u pl (Some (str_int (od_id odr)))))
      \<or> db' = fst (topup_wallet ?db1 u (od_amount_cents odr) (Some (str_int (od_id odr))) (Some note))"
    by (auto simp: settle_order_def Let_def split: option.splits if_splits)
  have uid: "us_id u = od_user_id odr" using row.get_Some [OF u] by simp
  have "account_move ?db1 db'"
    using cs u grant_move [of u ?db1 u, OF _ refl prod.collapse [symmetric]]
      topup_move [of u ?db1 u, OF _ prod.collapse [symmetric]] by (auto simp: uid)
  with 1 p account_move_trans show ?thesis unfolding account_move_def by blast
qed

lemma callback_move:
  assumes "payment_callback now db channel payload = Inr (db', body)"
  shows "account_move db db'"
    and "py_int (dict_get_none payload ''order_id'') = Inr i \<Longrightarrow> is_paid db' i"
proof -
  from assms obtain i0 odr where i: "py_int (dict_get_none payload ''order_id'') = Inr i0"
    and odr: "row_get od_id i0 (orders db) = Some odr"
    and cs: "(od_status odr = order_paid \<and> db' = db) \<or> (\<exists>r n. settle_order now db odr r n = Inr db')"
    by (cases "py_int (dict_get_none payload ''order_id'')")
      (auto simp: payment_callback_def bind_result_eq_Inr split: option.splits if_splits prod.splits)
  have id: "od_id odr = i0" using row.get_Some [OF odr] by simp
  with cs odr settle_move account_move_refl show "account_move db db'" by metis
  show "is_paid db' i" if "py_int (dict_get_none payload ''order_id'') = Inr i"
    using cs odr id that i settle_move by (metis is_paid_def sum.inject(2))
qed

lemma mock_move:
  assumes "mock_pay now db channel oid = Inr (db', body)"
  shows "account_move db db' \<and> is_paid db' oid"
proof -
  from assms obtain odr where odr: "row_get od_id oid (orders db) = Some odr"
    and cs: "(od_status odr = order_paid \<and> db' = db) \<or> (\<exists>r n. settle_order now db odr r n = Inr db')"
    by (auto simp: mock_pay_def bind_result_eq_Inr split: option.splits if_splits)
  have id: "od_id odr = oid" using row.get_Some [OF odr] by simp
  with cs odr settle_move account_move_refl show ?thesis by (metis is_paid_def)
qed

lemma admin_moves:
  "set_user_status db uid st = Inr db' \<Longrightarrow> account_move db db'"
  "reset_password hash_fn db uid pw = Inr db' \<Longrightarrow> account_move db db'"
  "adjust_balance db uid amount note = Inr db' \<Longrightarrow> account_move db db'"
proof -
  show "account_move db db'" if "set_user_status db uid st = Inr db'"
    using that by (auto simp: set_user_status_def account_move_def keys_move_def ledger_move_def
        is_paid_def wallet_of_def returning_balance_def row_simps split: option.splits)
  show "account_move db db'" if "reset_password hash_fn db uid pw = Inr db'"
    using that by (auto simp: reset_password_def account_move_def keys_move_def ledger_move_def
        is_paid_def wallet_of_def returning_balance_def row_simps split: option.splits)
  show "account_move db db'" if adj: "adjust_balance db uid amount note = Inr db'"
  proof -
    from adj obtain u where u: "row_get us_id uid (users db) = Some u"
      by (auto simp: adjust_balance_def split: option.splits)
    have "us_id u = uid" using row.get_Some [OF u] by simp
    define t where "t = last (balance_txs db')"
    have db': "db' = add_tx t (upd_user uid
        (\<lambda>r. r\<lparr>us_balance_cents := max (us_balance_cents u + amount) 0\<rparr>) db)"
      and t: "tx_user_id t = uid" "tx_balance_after t = max (us_balance_cents u + amount) 0"
      using adj u \<open>us_id u = uid\<close> by (auto simp: adjust_balance_def Let_def t_def)
    then show ?thesis
      using u by (intro account_move_entry [where t = t])
        (simp_all add: keys_move_def wallet_of_def returning_balance_def row_simps)
  qed
qed

lemma billing_step_move:
  assumes "billing_step db db'" and "keys_ok db"
  shows "account_move db db'"
  using assms
proof (cases rule: billing_step.cases)
  case (charge uid u sync now k cost ref_id nt u' k' bd)
  with assms(2) row.get_Some [OF charge(1)] show ?thesis
    by (intro charge_move [where u = u]) (simp_all add: keys_ok_def)
next
  case (refund uid u bd sync now k amt ref_id nt u' k' refunded)
  with row.get_Some [OF refund(1)] show ?thesis by (intro refund_move [where u = u]) simp_all
next
  case (subscribe uid u now plan_id body)
  with row.get_Some [OF subscribe(1)] show ?thesis by (intro subscribe_move [where u = u]) simp_all
next
  case (cancel uid u now sub_id at_end body)
  with row.get_Some [OF cancel(1)] show ?thesis by (intro cancel_move [where u = u]) simp_all
qed (auto intro: resume_move renew_now_move scan_move create_order_move callback_move(1)
      mock_move [THEN conjunct1] admin_moves)

section \<open>Invariants of the accounts\<close>

lemma billing_step_keeps:
  assumes "billing_step db db'" and "keys_ok db"
  shows "keys_ok db'" "ledger_ok db \<Longrightarrow> ledger_ok db'" "is_paid db i \<Longrightarrow> is_paid db' i"
  using billing_step_move [OF assms] assms(2) keys_move_ok ledger_move_ok
  by (auto simp: account_move_def)

interpretation ledger: step_invariant billing_step "\<lambda>db. keys_ok db \<and> ledger_ok db"
  by unfold_locales (auto intro: billing_step_keeps)

interpretation paid: step_invariant billing_step "\<lambda>db. keys_ok db \<and> is_paid db i" for i
  by unfold_locales (auto intro: billing_step_keeps)

text \<open>
  Claim C2. Whatever sequence of charges, refunds, purchases, cancellations, renewals, payments
  and administrative adjustments is committed, keys stay unique and the newest ledger entry of
  every user shows the balance of the wallet.
\<close>

theorem ledger_matches_wallets:
  assumes "billing_step\<^sup>*\<^sup>* db db'" and "keys_ok db" and "ledger_ok db"
  shows "keys_ok db' \<and> ledger_ok db'"
  using ledger.reach_inv [OF assms(1)] assms(2,3) by simp

lemma empty_ledger_ok: "balance_txs db = [] \<Longrightarrow> ledger_ok db"
  by (simp add: ledger_ok_def txs_of_def)

theorem ledger_matches_wallets_witness:
  "\<exists>db'. billing_step\<^sup>*\<^sup>* shop_db db' \<and> ledger_ok db' \<and> wallet_of db' 7 = 130
     \<and> balance_txs db' \<noteq> []"
proof -
  let ?u = "default_user 7 100"
  obtain t where t: "adjust_balance shop_db 7 30 None = Inr (add_tx t
      (upd_user 7 (\<lambda>r. r\<lparr>us_balance_cents := 130\<rparr>) shop_db))"
    by (simp add: adjust_balance_def Let_def shop_defs row_get_def)
  let ?db = "add_tx t (upd_user 7 (\<lambda>r. r\<lparr>us_balance_cents := 130\<rparr>) shop_db)"
  have s: "billing_step\<^sup>*\<^sup>* shop_db ?db" using billing_step.adjust [OF t] by blast
  have k: "keys_ok shop_db" by (simp add: keys_ok_def shop_defs)
  have "ledger_ok shop_db" by (rule empty_ledger_ok) (simp add: shop_defs)
  from ledger_matches_wallets [OF s k this] have "ledger_ok ?db" by simp
  moreover have "wallet_of ?db 7 = 130"
    by (simp add: wallet_of_def returning_balance_def shop_defs row_upd_def row_get_def)
  ultimately show ?thesis using s by (intro exI [of _ ?db]) simp
qed

section \<open>Payments\<close>

definition bought_plan :: "session \<Rightarrow> order \<Rightarrow> plan option" where
  \<comment> \<open>what an order is for: a plan that still exists, or a top-up of the wallet\<close>
  "bought_plan db odr = (case od_plan_id odr of None \<Rightarrow> None | Some pid \<Rightarrow> if pid = 0 then None else row_get pl_id pid (plans db))"

definition credited_order :: "datetime \<Rightarrow> session \<Rightarrow> order \<Rightarrow> session \<Rightarrow> bool" where
  \<comment> \<open>the buyer has received what the order is for, nobody else anything, and only this order changed\<close>
  "credited_order now db odr db' \<longleftrightarrow>
     (\<forall>uid. wallet_of db' uid = wallet_of db uid
        + (if uid = od_user_id odr \<and> bought_plan db odr = None then od_amount_cents odr else 0))
     \<and> (case bought_plan db odr of
          None \<Rightarrow> subscriptions db' = subscriptions db
        | Some p \<Rightarrow> \<exists>s. subscriptions db' = subscriptions db @ [s] \<and> sb_user_id s = od_user_id odr \<and> sb_plan_id s = pl_id p
            \<and> sb_remaining_cents s = pl_quota_cents p \<and> sb_status s = sub_active \<and> now < sb_current_period_end s)
     \<and> (\<exists>t. balance_txs db' = balance_txs db @ [t] \<and> tx_user_id t = od_user_id odr \<and> tx_ref_id t = Some (str_int (od_id odr))
          \<and> tx_amount_cents t = (case bought_plan db odr of None \<Rightarrow> od_amount_cents odr | Some p \<Rightarrow> pl_quota_cents p))
     \<and> is_paid db' (od_id odr) \<and> (\<forall>j. j \<noteq> od_id odr \<longrightarrow> row_get od_id j (orders db') = row_get od_id j (orders db))"

lemma settle_credits:
  assumes "row_get od_id (od_id odr) (orders db) = Some odr"
    and "settle_order now db odr ref note = Inr db'"
  shows "credited_order now db odr db'"
proof -
  let ?db1 = "upd_order (od_id odr) (\<lambda>r. r\<lparr>od_status := order_paid, od_paid_at := Some now,
                  od_provider_order_id := ref\<rparr>) db"
  have plan: "(case od_plan_id odr of None \<Rightarrow> None
      | Some pid \<Rightarrow> if pid = 0 then None else row_get pl_id pid (plans ?db1)) = bought_plan db odr"
    by (simp add: bought_plan_def split: option.split)
  from assms(2) obtain u where u: "row_get us_id (od_user_id odr) (users db) = Some u"
    and db': "db' = (case bought_plan db odr of
        Some p \<Rightarrow> fst (grant_subscription now ?db1 u p (Some (str_int (od_id odr))))
      | None \<Rightarrow> fst (topup_wallet ?db1 u (od_amount_cents odr) (Some (str_int (od_id odr))) (Some note)))"
    unfolding settle_order_def Let_def plan by (auto split: option.splits)
  have uid: "us_id u = od_user_id odr" using row.get_Some [OF u] by simp
  have o: "j \<noteq> od_id odr \<Longrightarrow> row_get od_id j (orders ?db1) = row_get od_id j (orders db)" for j
    by (simp add: row_simps)
  have paid: "is_paid db' (od_id odr)" using settle_move [OF assms] by simp
  show ?thesis
  proof (cases "bought_plan db odr")
    case (Some p)
    then have "grant_subscription now ?db1 u p (Some (str_int (od_id odr))) = (db', new_subscription now ?db1 u p)"
      using db' by (simp add: grant_subscription_def Let_def)
    note g = grant_frame [OF this]
    have w: "wallet_of db' j = wallet_of db j" for j using g(1) by (simp add: wallet_of_def returning_balance_def)
    have s: "subscriptions db' = subscriptions db @ [new_subscription now ?db1 u p]" using g(7) by simp
    have n: "now < sb_current_period_end (new_subscription now ?db1 u p)"
      using initial_period_end_later by (simp add: new_subscription_def)
    obtain nt where t: "balance_txs db' = balance_txs db @ [\<lparr>tx_user_id = us_id u, tx_type = tx_grant,
       tx_amount_cents = pl_quota_cents p, tx_balance_after = us_balance_cents u,
       tx_ref_id = Some (str_int (od_id odr)), tx_note = nt\<rparr>]" using g(9) by auto
    show ?thesis
      unfolding credited_order_def Some s t using w paid o n g(4)
      by (simp add: new_subscription_def uid)
  next
    case None
    then obtain u' where "topup_wallet ?db1 u (od_amount_cents odr) (Some (str_int (od_id odr))) (Some note) = (db', u')"
      using db' by (cases "topup_wallet ?db1 u (od_amount_cents odr) (Some (str_int (od_id odr))) (Some note)") simp
    note f = topup_frame [OF this]
    have "row_get us_id (us_id u) (users ?db1) = Some u" using u uid by simp
    from wallet_add_balance [OF this f(1)] have w: "wallet_of db' j
        = (if j = us_id u then wallet_of db j + od_amount_cents odr else wallet_of db j)" for j
      using u uid by (simp add: wallet_of_def returning_balance_def)
    have b: "wallet_of db' j = wallet_of db j + (if j = od_user_id odr \<and> bought_plan db odr = None then od_amount_cents odr else 0)" for j
      using w [of j] None by (simp add: uid)
    show ?thesis
      unfolding credited_order_def using b paid o f(4,5,8) None by (simp add: uid)
  qed
qed

text \<open>
  Claim C3. A payment is credited once, and exactly. The first callback that is accepted for an
  unpaid order gives the buyer what the order is for: its amount in the wallet, or one running subscription
  with the quota of the plan; one ledger entry is written, no other wallet, subscription or order changes
  and the order is paid. After that, and after any number of other transactions, every callback and
  every mock payment for the order, on any channel the gateway knows, changes nothing.
\<close>

theorem payment_credited_once:
  assumes "keys_ok db"
    and "py_int (dict_get_none payload ''order_id'') = Inr i"
    and "payment_callback now db channel payload = Inr (db1, body)"
    and "billing_step\<^sup>*\<^sup>* db1 db2"
    and "py_int (dict_get_none payload2 ''order_id'') = Inr i"
    and "get_provider channel2 \<noteq> None"
  shows "\<exists>odr. row_get od_id i (orders db) = Some odr
    \<and> (if od_status odr = order_paid then db1 = db else credited_order now db odr db1)
    \<and> payment_callback now2 db2 channel2 payload2 = Inr (db2, [(''ok'', JBool True), (''msg'', JStr ''already paid'')])
    \<and> mock_pay now2 db2 channel2 i
        = Inr (db2, [(''ok'', JBool True), (''order_id'', JInt i), (''status'', JStr (order_status_value order_paid))])"
proof -
  note m = callback_move [OF assms(3)]
  obtain odr where odr: "row_get od_id i (orders db) = Some odr"
    and cs: "if od_status odr = order_paid then db1 = db else \<exists>r n. settle_order now db odr r n = Inr db1"
    using assms(2,3) by (auto simp: payment_callback_def bind_result_eq_Inr split: option.splits if_splits prod.splits)
  have id: "od_id odr = i" using row.get_Some [OF odr] by simp
  with odr cs have c: "if od_status odr = order_paid then db1 = db else credited_order now db odr db1"
    using settle_credits by (auto split: if_splits)
  have "keys_ok db1 \<and> is_paid db1 i"
    using m(1) m(2) [OF assms(2)] assms(1) keys_move_ok by (auto simp: account_move_def)
  with paid.reach_inv [OF assms(4)] have "is_paid db2 i" by blast
  then obtain odr2 where o2: "row_get od_id i (orders db2) = Some odr2" "od_status odr2 = order_paid"
    by (auto simp: is_paid_def)
  have i2: "od_id odr2 = i" using row.get_Some [OF o2(1)] by simp
  obtain prov where p: "get_provider channel2 = Some prov" using assms(6) by blast
  moreover obtain r where "verify_callback prov payload2 = (True, r)" by (cases prov) auto
  ultimately have "payment_callback now2 db2 channel2 payload2 = Inr (db2, [(''ok'', JBool True), (''msg'', JStr ''already paid'')])"
    using assms(5) o2 by (simp add: payment_callback_def)
  moreover have "mock_pay now2 db2 channel2 i
        = Inr (db2, [(''ok'', JBool True), (''order_id'', JInt i), (''status'', JStr (order_status_value order_paid))])"
    using p o2 i2 by (simp add: mock_pay_def)
  ultimately show ?thesis using odr c by blast
qed

definition order_db :: session where
  "order_db = empty_session\<lparr>users := [default_user 7 100], seq_orders := 5,
     orders := [\<lparr>od_id = 4, od_user_id = 7, od_plan_id = None, od_amount_cents = 250, od_channel = stripe,
       od_status = order_pending, od_provider_order_id = None, od_paid_at = None\<rparr>]\<rparr>"

theorem payment_credited_once_witness:
  "\<exists>db1 body. payment_callback 9 order_db ''stripe'' [(''order_id'', JInt 4)] = Inr (db1, body)
     \<and> wallet_of db1 7 = 350
     \<and> payment_callback 9 db1 ''stripe'' [(''order_id'', JInt 4)]
         = Inr (db1, [(''ok'', JBool True), (''msg'', JStr ''already paid'')])"
proof -
  have k: "keys_ok order_db" by (simp add: keys_ok_def order_db_def default_row_defs)
  have p: "py_int (dict_get_none [(''order_id'', JInt 4)] ''order_id'') = Inr 4"
    by (simp add: dict_get_none_def)
  have g: "get_provider ''stripe'' = Some StripeProvider" by (simp add: get_provider_def)
  obtain odr where odr: "row_get od_id 4 (orders order_db) = Some odr" "od_status odr = order_pending"
    "od_plan_id odr = None" "od_user_id odr = 7" "od_amount_cents odr = 250"
    by (simp add: order_db_def row_get_def)
  have u: "row_get us_id 7 (users order_db) = Some (default_user 7 100)"
    by (simp add: order_db_def default_row_defs row_get_def)
  obtain db1 body where c: "payment_callback 9 order_db ''stripe'' [(''order_id'', JInt 4)] = Inr (db1, body)"
    using u by (simp add: payment_callback_def g p odr settle_order_def Let_def row_simps)
  have "wallet_of order_db 7 = 100" using u by (simp add: wallet_of_def returning_balance_def default_user_def)
  moreover from payment_credited_once [OF k p c _ p, of db1 "''stripe''" 9] g odr
  have "credited_order 9 order_db odr db1"
    and "payment_callback 9 db1 ''stripe'' [(''order_id'', JInt 4)]
         = Inr (db1, [(''ok'', JBool True), (''msg'', JStr ''already paid'')])" by auto
  ultimately show ?thesis using c odr by (auto simp: credited_order_def bought_plan_def)
qed

end
