(* ===== verification/Redis_Store.thy ===== *)
theory Redis_Store
  imports Py_Json Py_Calendar "HOL-Library.Char_ord" "HOL-Library.List_Lexorder"
begin

text \<open>
  The part of Redis that the quota cache and the rate limiter use: string keys that hold an
  integer, a sorted set or a JSON text, with an expiry time, and whether the server answers. Every command is
  given the time at which the server runs it; a key whose expiry time has come is gone. The
  key builders of the code give each kind of value its own prefix, so a command is never applied
  to a value of the other kind; here such a command sees no value.
\<close>

datatype redis_value =
    RInt int
  | RZset "(string \<times> int) list"
  | RJson json

record redis =
  r_up :: bool
  r_data :: "string \<Rightarrow> (redis_value \<times> datetime option) option"

definition secs :: "int \<Rightarrow> int" where "secs n = n * us_per_second"

definition rd_live :: "datetime \<Rightarrow> redis \<Rightarrow> string \<Rightarrow> (redis_value \<times> datetime option) option" where
  "rd_live now r k =
     (case r_data r k of
        Some (v, Some t) \<Rightarrow> if t \<le> now then None else Some (v, Some t)
      | x \<Rightarrow> x)"

definition rd_put :: "string \<Rightarrow> (redis_value \<times> datetime option) option \<Rightarrow> redis \<Rightarrow> redis" where
  "rd_put k e r = r\<lparr>r_data := (r_data r)(k := e)\<rparr>"

definition rd_get :: "datetime \<Rightarrow> redis \<Rightarrow> string \<Rightarrow> int option" where
  \<comment> \<open>\<open>GET\<close>\<close>
  "rd_get now r k = (case rd_live now r k of Some (RInt v, t) \<Rightarrow> Some v | _ \<Rightarrow> None)"

definition rd_set :: "datetime \<Rightarrow> string \<Rightarrow> int \<Rightarrow> int \<Rightarrow> redis \<Rightarrow> redis" where
  \<comment> \<open>\<open>SET k v EX ex\<close>\<close>
  "rd_set now k v ex r = rd_put k (Some (RInt v, Some (now + secs ex))) r"

definition rd_set_nx :: "datetime \<Rightarrow> string \<Rightarrow> int \<Rightarrow> int \<Rightarrow> redis \<Rightarrow> redis \<times> bool" where
  \<comment> \<open>\<open>SET k v EX ex NX\<close>\<close>
  "rd_set_nx now k v ex r =
     (if rd_live now r k = None then (rd_set now k v ex r, True) else (r, False))"

definition rd_get_json :: "datetime \<Rightarrow> redis \<Rightarrow> string \<Rightarrow> json option" where
  \<comment> \<open>\<open>GET\<close> and \<open>json.loads\<close> of a text written with \<open>json.dumps\<close>\<close>
  "rd_get_json now r k = (case rd_live now r k of Some (RJson v, t) \<Rightarrow> Some v | _ \<Rightarrow> None)"

definition rd_set_json :: "datetime \<Rightarrow> string \<Rightarrow> json \<Rightarrow> int \<Rightarrow> redis \<Rightarrow> redis" where
  \<comment> \<open>\<open>SET k json.dumps(v) EX ex\<close>\<close>
  "rd_set_json now k v ex r = rd_put k (Some (RJson v, Some (now + secs ex))) r"

definition rd_delete :: "string \<Rightarrow> redis \<Rightarrow> redis" where
  "rd_delete k r = rd_put k None r"

definition rd_incrby :: "datetime \<Rightarrow> string \<Rightarrow> int \<Rightarrow> redis \<Rightarrow> redis \<times> int" where
  \<comment> \<open>\<open>INCRBY\<close> creates a missing key without expiry and keeps the expiry of an existing one\<close>
  "rd_incrby now k d r =
     (case rd_live now r k of
        Some (RInt v, t) \<Rightarrow> (rd_put k (Some (RInt (v + d), t)) r, v + d)
      | _ \<Rightarrow> (rd_put k (Some (RInt d, None)) r, d))"

definition rd_expire :: "datetime \<Rightarrow> string \<Rightarrow> int \<Rightarrow> redis \<Rightarrow> redis" where
  "rd_expire now k ex r =
     (case rd_live now r k of
        Some (v, t) \<Rightarrow> rd_put k (Some (v, Some (now + secs ex))) r
      | None \<Rightarrow> r)"

definition zset_set :: "(string \<times> int) list \<Rightarrow> string \<times> int \<Rightarrow> (string \<times> int) list" where
  "zset_set zs m = filter (\<lambda>(k, s). k \<noteq> fst m) zs @ [m]"

definition rd_zadd :: "datetime \<Rightarrow> string \<Rightarrow> (string \<times> int) list \<Rightarrow> redis \<Rightarrow> redis" where
  "rd_zadd now k ms r =
     (case rd_live now r k of
        Some (RZset zs, t) \<Rightarrow> rd_put k (Some (RZset (foldl zset_set zs ms), t)) r
      | _ \<Rightarrow> rd_put k (Some (RZset (foldl zset_set [] ms), None)) r)"

definition rd_zrem :: "datetime \<Rightarrow> string \<Rightarrow> string \<Rightarrow> redis \<Rightarrow> redis" where
  "rd_zrem now k m r =
     (case rd_live now r k of
        Some (RZset zs, t) \<Rightarrow>
          (let zs' = filter (\<lambda>(k, s). k \<noteq> m) zs in
           rd_put k (if zs' = [] then None else Some (RZset zs', t)) r)
      | _ \<Rightarrow> r)"

definition rd_zrange :: "datetime \<Rightarrow> redis \<Rightarrow> string \<Rightarrow> string list" where
  \<comment> \<open>\<open>ZRANGE k 0 -1\<close>: by score, then by member; a missing key gives the empty list\<close>
  "rd_zrange now r k =
     (case rd_live now r k of
        Some (RZset zs, t) \<Rightarrow> map fst (sort_key snd (sort_key fst zs))
      | _ \<Rightarrow> [])"

definition rd_decr_if_exists :: "datetime \<Rightarrow> string \<Rightarrow> int \<Rightarrow> redis \<Rightarrow> redis" where
  \<comment> \<open>the script \<open>_DECR_IF_EXISTS_LUA\<close>\<close>
  "rd_decr_if_exists now k d r =
     (case rd_live now r k of
        Some (RInt v, t) \<Rightarrow> rd_put k (Some (RInt (v - d), t)) r
      | _ \<Rightarrow> r)"

section \<open>The store as a dictionary\<close>

text \<open>
  What the clients rely on: each command changes the key it names and no other, and a later
  read sees the write.
\<close>

locale int_store =
  fixes get :: "datetime \<Rightarrow> 'r \<Rightarrow> string \<Rightarrow> int option"
    and put :: "datetime \<Rightarrow> string \<Rightarrow> int \<Rightarrow> int \<Rightarrow> 'r \<Rightarrow> 'r"
    and del :: "string \<Rightarrow> 'r \<Rightarrow> 'r"
    and dec :: "datetime \<Rightarrow> string \<Rightarrow> int \<Rightarrow> 'r \<Rightarrow> 'r"
    and inc :: "datetime \<Rightarrow> string \<Rightarrow> int \<Rightarrow> 'r \<Rightarrow> 'r \<times> int"
  assumes get_put: "0 < ex \<Longrightarrow> get now (put now k v ex r) j = (if j = k then Some v else get now r j)"
    and get_del: "get now (del k r) j = (if j = k then None else get now r j)"
    and get_dec: "get now (dec now k d r) j
        = (if j = k then map_option (\<lambda>v. v - d) (get now r j) else get now r j)"
    and get_inc: "get now (fst (inc now k d r)) j
        = (if j = k then Some (case get now r j of None \<Rightarrow> d | Some v \<Rightarrow> v + d) else get now r j)"
begin

lemma dec_never_creates: "get now (dec now k d r) j = None \<longleftrightarrow> get now r j = None"
  by (simp add: get_dec)

lemma decs_other: "j \<notin> fst ` set ks \<Longrightarrow> get now (foldl (\<lambda>s (k, d). dec now k d s) r ks) j = get now r j"
  by (induction ks arbitrary: r) (auto simp: get_dec)

lemma decs_value:
  "get now (foldl (\<lambda>s (k, d). dec now k d s) r ks) j
     = map_option (\<lambda>v. v - sum_list (map (\<lambda>(k, d). if k = j then d else 0) ks)) (get now r j)"
proof (induction ks arbitrary: r)
  case (Cons p ks)
  obtain k d where "p = (k, d)" by (cases p)
  with Cons show ?case by (cases "get now r j") (auto simp: get_dec diff_diff_eq)
qed (simp add: option.map_ident)

end

lemma rd_live_put: "rd_live now (rd_put k e r) j =
    (if j = k then (case e of Some (v, Some t) \<Rightarrow> if t \<le> now then None else Some (v, Some t) | x \<Rightarrow> x)
     else rd_live now r j)"
  by (simp add: rd_live_def rd_put_def)

lemma rd_live_not_due: "rd_live now r k = Some (v, Some t) \<Longrightarrow> now < t"
  by (auto simp: rd_live_def split: option.splits if_splits)

interpretation redis: int_store rd_get rd_set rd_delete rd_decr_if_exists rd_incrby
proof unfold_locales
  fix now k d j and r :: redis and v ex :: int
  show "0 < ex \<Longrightarrow> rd_get now (rd_set now k v ex r) j = (if j = k then Some v else rd_get now r j)"
    by (simp add: rd_get_def rd_set_def rd_live_put secs_def)
  show "rd_get now (rd_delete k r) j = (if j = k then None else rd_get now r j)"
    by (simp add: rd_get_def rd_delete_def rd_live_put)
  show "rd_get now (rd_decr_if_exists now k d r) j
        = (if j = k then map_option (\<lambda>v. v - d) (rd_get now r j) else rd_get now r j)"
    using rd_live_not_due [of now r k]
    by (fastforce simp: rd_get_def rd_decr_if_exists_def rd_live_put split: option.splits redis_value.splits)
  show "rd_get now (fst (rd_incrby now k d r)) j
        = (if j = k then Some (case rd_get now r j of None \<Rightarrow> d | Some v \<Rightarrow> v + d) else rd_get now r j)"
    using rd_live_not_due [of now r k]
    by (fastforce simp: rd_get_def rd_incrby_def rd_live_put split: option.splits redis_value.splits)
qed

lemma rd_up_simps [simp]:
  "r_up (rd_put k e r) = r_up r" "r_up (rd_set now k v ex r) = r_up r"
  "r_up (rd_delete k r) = r_up r" "r_up (rd_decr_if_exists now k d r) = r_up r"
  "r_up (fst (rd_incrby now k d r)) = r_up r" "r_up (rd_expire now k ex r) = r_up r"
  "r_up (rd_zadd now k ms r) = r_up r" "r_up (rd_zrem now k m r) = r_up r"
  by (auto simp: rd_put_def rd_set_def rd_delete_def rd_decr_if_exists_def rd_incrby_def
      rd_expire_def rd_zadd_def rd_zrem_def Let_def split: option.splits redis_value.splits)

lemma rd_get_zset_ops [simp]:
  "rd_get now (rd_expire now j ex r) k = (if k = j \<and> ex \<le> 0 then None else rd_get now r k)"
  by (auto simp: rd_get_def rd_expire_def rd_live_put secs_def split: option.splits redis_value.splits)

lemma rd_get_json_set:
  "0 < ex \<Longrightarrow> rd_get_json now (rd_set_json now k v ex r) j = (if j = k then Some v else rd_get_json now r j)"
  by (simp add: rd_get_json_def rd_set_json_def rd_live_put secs_def)

lemma rd_up_set_json [simp]: "r_up (rd_set_json now k v ex r) = r_up r"
  by (simp add: rd_set_json_def)

end
