(* ===== verification/Quota_Cache.thy ===== *)
theory Quota_Cache
  imports Ledger Redis_Store
begin

text \<open>
  \<^verbatim>\<open>services/quota_cache.py\<close>, the quota cache of the request path in Redis, the commit hook of
  \<^verbatim>\<open>db/session.py\<close> that invalidates it, and the rate limiter \<^verbatim>\<open>services/quota.py\<close>. The database
  argument is the committed state a fresh session reads. A Redis that does not answer raises in
  every command; the handlers catch that.
\<close>

section \<open>Keys\<close>

definition k_wallet :: "int \<Rightarrow> string" where "k_wallet uid = ''wallet:'' @ str_int uid"
definition k_subq :: "int \<Rightarrow> string" where "k_subq sid = ''subq:'' @ str_int sid"
definition k_usubs :: "int \<Rightarrow> string" where "k_usubs uid = ''usubs:'' @ str_int uid"
definition k_kused :: "int \<Rightarrow> int \<Rightarrow> string" where
  "k_kused kid ws = ''kused:'' @ str_int kid @ '':w'' @ str_int ws"
definition k_hydr_lock :: "int \<Rightarrow> string" where "k_hydr_lock uid = ''qhydr:'' @ str_int uid"
definition k_rate :: "int \<Rightarrow> string" where "k_rate uid = ''rl:u:'' @ str_int uid"

lemmas key_defs = k_wallet_def k_subq_def k_usubs_def k_kused_def k_hydr_lock_def k_rate_def

abbreviation wallet_ttl :: int where "wallet_ttl \<equiv> 3600"
abbreviation subq_ttl_fallback :: int where "subq_ttl_fallback \<equiv> 35 * 24 * 3600"
abbreviation usubs_ttl :: int where "usubs_ttl \<equiv> 3600"
abbreviation kused_ttl_slack :: int where "kused_ttl_slack \<equiv> 3600"
abbreviation hydr_lock_ttl :: int where "hydr_lock_ttl \<equiv> 5"

record api_key_snapshot =
  sn_id :: int
  sn_user_id :: int
  sn_key_hash :: string
  sn_status :: key_status
  sn_quota_cents :: int
  sn_quota_mode :: quota_mode
  sn_quota_period :: "quota_period option"
  sn_quota_period_start :: "datetime option"
  sn_quota_period_end :: "datetime option"
  sn_expires_at :: "datetime option"

definition window_start_epoch_for :: "api_key_snapshot \<Rightarrow> int" where
  "window_start_epoch_for snap =
     (case (sn_quota_mode snap, sn_quota_period_start snap) of
        (periodic, Some t) \<Rightarrow> timestamp_int t
      | _ \<Rightarrow> 0)"

section \<open>Loading\<close>

definition sub_ttl :: "datetime \<Rightarrow> datetime \<Rightarrow> int" where
  \<comment> \<open>\<open>max(60, int((end - now).total_seconds()) + _KUSED_TTL_SLACK)\<close>\<close>
  "sub_ttl now end_at = max 60 (timestamp_int (end_at - now) + kused_ttl_slack)"

definition hydrate_subs :: "datetime \<Rightarrow> subscription list \<Rightarrow> redis \<Rightarrow> redis" where
  \<comment> \<open>the \<open>for s in subs\<close> loop of the pipeline\<close>
  "hydrate_subs now subs r =
     foldl (\<lambda>r s. rd_set now (k_subq (sb_id s)) (sb_remaining_cents s)
                    (min (sub_ttl now (sb_current_period_end s)) subq_ttl_fallback) r) r subs"

definition hydrate_user_quota :: "datetime \<Rightarrow> session \<Rightarrow> int \<Rightarrow> redis \<Rightarrow> redis" where
  "hydrate_user_quota now db uid r =
     (if \<not> r_up r then r
      else case rd_set_nx now (k_hydr_lock uid) 1 hydr_lock_ttl r of
        (r0, got_lock) \<Rightarrow>
          if \<not> got_lock then r0
          else case row_get us_id uid (users db) of
            None \<Rightarrow> r0
          | Some u \<Rightarrow>
              let subs = filter (in_period now uid) (subscriptions db);
                  r1 = rd_set now (k_wallet uid) (us_balance_cents u) wallet_ttl r0;
                  r2 = rd_delete (k_usubs uid) r1
              in if subs = [] then r2
                 else hydrate_subs now subs
                        (rd_expire now (k_usubs uid) usubs_ttl
                          (rd_zadd now (k_usubs uid)
                            (map (\<lambda>s. (str_int (sb_id s), sb_current_period_end s)) subs) r2)))"

definition hydrate_key_used :: "datetime \<Rightarrow> session \<Rightarrow> int \<Rightarrow> int \<Rightarrow> redis \<Rightarrow> redis" where
  "hydrate_key_used now db kid ws r =
     (if \<not> r_up r then r
      else case row_get ak_id kid (api_keys db) of
        None \<Rightarrow> r
      | Some k \<Rightarrow> rd_set now (k_kused kid ws) (ak_used_cents k) subq_ttl_fallback r)"

section \<open>Reading\<close>

fun check_subs :: "(int \<Rightarrow> int option) \<Rightarrow> int list \<Rightarrow> (bool \<times> string) option" where
  \<comment> \<open>the \<open>for sid in sub_ids\<close> loop; \<open>None\<close> when it ends without returning\<close>
  "check_subs quota [] = None"
| "check_subs quota (sid # sids) =
     (case quota sid of
        None \<Rightarrow> Some (False, ''miss'')
      | Some iv \<Rightarrow>
          if iv < 0 then Some (False, ''miss'')
          else if iv > 0 then Some (True, [])
          else check_subs quota sids)"

definition sub_id_of :: "string \<Rightarrow> int" where
  \<comment> \<open>\<open>int(sid)\<close>; the members of a \<open>usubs\<close> set are printed ids\<close>
  "sub_id_of s = (case int_of_text s of Inr i \<Rightarrow> i | Inl e \<Rightarrow> 0)"

definition check_wallet :: "int option \<Rightarrow> bool \<times> string" where
  "check_wallet w =
     (case w of
        None \<Rightarrow> (False, ''miss'')
      | Some wv \<Rightarrow>
          if wv < 0 then (False, ''miss'')
          else if wv > 0 then (True, [])
          else (False, ''no active subscription and insufficient balance''))"

definition quota_check :: "datetime \<Rightarrow> redis \<Rightarrow> int \<Rightarrow> int \<Rightarrow> int \<Rightarrow> int \<Rightarrow> bool \<times> string" where
  \<comment> \<open>\<open>_check\<close>\<close>
  "quota_check now r uid kid key_quota_cents ws =
     (let used = rd_get now r (k_kused kid ws) in
      if key_quota_cents > 0 \<and> used = None then (False, ''miss'')
      else if key_quota_cents > 0 \<and> the used \<ge> key_quota_cents then (False, ''api key quota exceeded'')
      else case check_subs (\<lambda>sid. rd_get now r (k_subq sid))
                  (map sub_id_of (rd_zrange now r (k_usubs uid))) of
             Some res \<Rightarrow> res
           | None \<Rightarrow> check_wallet (rd_get now r (k_wallet uid)))"

definition has_quota_fast ::
    "datetime \<Rightarrow> session \<Rightarrow> redis \<Rightarrow> int \<Rightarrow> int \<Rightarrow> int \<Rightarrow> int \<Rightarrow> redis \<times> bool \<times> string" where
  "has_quota_fast now db r uid kid key_quota_cents ws =
     (if \<not> r_up r then (r, True, [])
      else case quota_check now r uid kid key_quota_cents ws of
        (ok, reason) \<Rightarrow>
          if ok \<or> reason \<noteq> ''miss'' then (r, ok, reason)
          else
            let r' = hydrate_key_used now db kid ws (hydrate_user_quota now db uid r) in
            case quota_check now r' uid kid key_quota_cents ws of
              (ok, reason) \<Rightarrow> if reason = ''miss'' then (r', True, []) else (r', ok, reason))"

section \<open>Mirroring writes\<close>

definition invalidate_user_quota :: "datetime \<Rightarrow> int \<Rightarrow> redis \<Rightarrow> redis" where
  "invalidate_user_quota now uid r =
     (if \<not> r_up r then r
      else foldl (\<lambda>r sid. rd_delete (k_subq (sub_id_of sid)) r)
             (rd_delete (k_usubs uid) (rd_delete (k_wallet uid) r))
             (rd_zrange now r (k_usubs uid)))"

fun mirror_entry :: "int \<Rightarrow> source \<times> int \<times> int \<Rightarrow> string \<times> int" where
  "mirror_entry uid (src_sub, ident, amount) = (k_subq ident, amount)"
| "mirror_entry uid (src_wallet, ident, amount) = (k_wallet uid, amount)"

definition apply_charge ::
    "datetime \<Rightarrow> int \<Rightarrow> int option \<Rightarrow> int \<Rightarrow> int \<Rightarrow> breakdown \<Rightarrow> redis \<Rightarrow> redis" where
  "apply_charge now uid key_id cost_cents ws bd r =
     (if cost_cents \<le> 0 then r
      else if \<not> r_up r then invalidate_user_quota now uid r
      else
        let r1 = foldl (\<lambda>s (k, d). rd_decr_if_exists now k d s) r
                   (map (mirror_entry uid) (filter (\<lambda>(kind, ident, amount). \<not> amount \<le> 0) bd))
        in case key_id of
             None \<Rightarrow> r1
           | Some kid \<Rightarrow> fst (rd_incrby now (k_kused kid ws) cost_cents r1))"

definition apply_topup :: "datetime \<Rightarrow> int \<Rightarrow> int \<Rightarrow> redis \<Rightarrow> redis" where
  "apply_topup now uid amount_cents r =
     (if amount_cents \<le> 0 then r
      else if \<not> r_up r then invalidate_user_quota now uid r
      else fst (rd_incrby now (k_wallet uid) amount_cents r))"

definition apply_grant :: "datetime \<Rightarrow> int \<Rightarrow> int \<Rightarrow> int \<Rightarrow> datetime \<Rightarrow> redis \<Rightarrow> redis" where
  "apply_grant now uid sid remaining end_at r =
     (if \<not> r_up r then invalidate_user_quota now uid r
      else let ttl = sub_ttl now end_at in
           rd_set now (k_subq sid) remaining (min ttl subq_ttl_fallback)
             (rd_expire now (k_usubs uid) (max usubs_ttl ttl)
               (rd_zadd now (k_usubs uid) [(str_int sid, end_at)] r)))"

definition apply_renew :: "datetime \<Rightarrow> int \<Rightarrow> int \<Rightarrow> int \<Rightarrow> datetime \<Rightarrow> redis \<Rightarrow> redis" where
  "apply_renew now uid sid remaining end_at r = apply_grant now uid sid remaining end_at r"

definition apply_sub_expire :: "datetime \<Rightarrow> int \<Rightarrow> int \<Rightarrow> redis \<Rightarrow> redis" where
  "apply_sub_expire now uid sid r =
     (if \<not> r_up r then r
      else rd_delete (k_subq sid) (rd_zrem now (k_usubs uid) (str_int sid) r))"

definition apply_window_roll :: "int \<Rightarrow> int \<Rightarrow> redis \<Rightarrow> redis" where
  "apply_window_roll kid old_ws r = (if \<not> r_up r then r else rd_delete (k_kused kid old_ws) r)"

definition resync_prefixes :: "string list" where
  "resync_prefixes = [''wallet:'', ''subq:'', ''usubs:'', ''kused:'', ''qhydr:'']"

definition resync_on_startup :: "datetime \<Rightarrow> redis \<Rightarrow> redis" where
  \<comment> \<open>the \<open>SCAN\<close> loop visits every key with one of the prefixes\<close>
  "resync_on_startup now r =
     (if \<not> r_up r then r
      else case rd_set_nx now ''quota_cache:resync_lock'' 1 60 r of
        (r1, got) \<Rightarrow>
          if \<not> got then r1
          else r1\<lparr>r_data := (\<lambda>k. if list_ex (\<lambda>p. py_startswith k p) resync_prefixes then None
                               else r_data r1 k)\<rparr>)"

definition fire_quota_invalidate :: "datetime \<Rightarrow> session \<Rightarrow> redis \<Rightarrow> session \<times> redis" where
  \<comment> \<open>the \<open>after_commit\<close> hook, with the tasks it schedules run to their end\<close>
  "fire_quota_invalidate now db r =
     (db\<lparr>info_uids := []\<rparr>, foldl (\<lambda>r uid. invalidate_user_quota now uid r) r (info_uids db))"

section \<open>Rate limit\<close>

definition rate_limit :: "int \<Rightarrow> datetime \<Rightarrow> int \<Rightarrow> int option \<Rightarrow> redis \<Rightarrow> (redis \<times> bool) option" where
  \<comment> \<open>\<open>default_rpm\<close> is \<open>settings.DEFAULT_RATE_LIMIT_RPM\<close>; \<open>None\<close> is the connection error\<close>
  "rate_limit default_rpm now uid per_min r =
     (if \<not> r_up r then None
      else let limit = (case per_min of Some n \<Rightarrow> if n > 0 then n else default_rpm | None \<Rightarrow> default_rpm);
          (r1, n) = rd_incrby now (k_rate uid) 1 r;
          r2 = (if n = 1 then rd_expire now (k_rate uid) 60 r1 else r1)
      in Some (r2, n \<le> limit))"

definition plan_rpm :: "int \<Rightarrow> json \<Rightarrow> int" where
  \<comment> \<open>the cap in a plan's \<open>rate_limit_jsonb\<close>\<close>
  "plan_rpm default_rpm limits =
     (case limits of
        JObj d \<Rightarrow>
          (let rpm = dict_get_none d ''rpm'' in
           if is_int rpm \<and> as_int rpm > 0 then as_int rpm else default_rpm)
      | _ \<Rightarrow> default_rpm)"

definition rpm_candidates :: "datetime \<Rightarrow> session \<Rightarrow> int \<Rightarrow> (datetime \<times> json) list" where
  \<comment> \<open>the join of plans and running subscriptions\<close>
  "rpm_candidates now db uid =
     concat (map (\<lambda>s. map (\<lambda>p. (sb_current_period_end s, pl_rate_limit_jsonb p))
                        (filter (\<lambda>p. pl_id p = sb_plan_id s) (plans db)))
                 (filter (in_period now uid) (subscriptions db)))"

definition user_rpm :: "int \<Rightarrow> datetime \<Rightarrow> session \<Rightarrow> int \<Rightarrow> int" where
  \<comment> \<open>\<open>ORDER BY current_period_end DESC LIMIT 1\<close>\<close>
  "user_rpm default_rpm now db uid =
     (case sort_key (\<lambda>(t, l). - t) (rpm_candidates now db uid) of
        [] \<Rightarrow> default_rpm
      | (t, l) # _ \<Rightarrow> plan_rpm default_rpm l)"

end
