(* ===== verification/Quota_Laws.thy ===== *)
theory Quota_Laws
  imports Quota_Cache
begin

text \<open>
  The quota cache against the database: a cold cache gives the same answer as the database, but
  for a user in debt, whom it admits; mirrored charges keep cached balances equal to the stored ones, a commit hook makes the next
  check cold, and the rate limiter admits at most its limit per window.
\<close>

section \<open>Keys do not clash\<close>

lemma split_at_colon:
  assumes "CHR '':'' \<notin> set a" and "CHR '':'' \<notin> set b"
  shows "a @ CHR '':'' # x = b @ CHR '':'' # y \<longleftrightarrow> a = b \<and> x = y"
proof
  assume "a @ CHR '':'' # x = b @ CHR '':'' # y"
  then have "py_partition_chr (CHR '':'') (a @ CHR '':'' # x) = py_partition_chr (CHR '':'') (b @ CHR '':'' # y)"
    by (rule arg_cong)
  then show "a = b \<and> x = y"
    unfolding py_partition_found [OF assms(1)] py_partition_found [OF assms(2)] by blast
qed simp

lemma key_inject [simp]:
  "k_wallet i = k_wallet j \<longleftrightarrow> i = j" "k_subq i = k_subq j \<longleftrightarrow> i = j"
  "k_usubs i = k_usubs j \<longleftrightarrow> i = j" "k_hydr_lock i = k_hydr_lock j \<longleftrightarrow> i = j"
  "k_rate i = k_rate j \<longleftrightarrow> i = j"
  "k_kused i a = k_kused j b \<longleftrightarrow> i = j \<and> a = b"
  by (simp_all add: key_defs split_at_colon str_int_no_colon)

lemma key_disjoint [simp]:
  "k_wallet i \<noteq> k_subq j" "k_wallet i \<noteq> k_usubs j" "k_wallet i \<noteq> k_kused j a"
  "k_wallet i \<noteq> k_hydr_lock j" "k_subq i \<noteq> k_wallet j" "k_subq i \<noteq> k_usubs j"
  "k_subq i \<noteq> k_kused j a" "k_subq i \<noteq> k_hydr_lock j" "k_usubs i \<noteq> k_wallet j"
  "k_usubs i \<noteq> k_subq j" "k_usubs i \<noteq> k_kused j a" "k_usubs i \<noteq> k_hydr_lock j"
  "k_kused i a \<noteq> k_wallet j" "k_kused i a \<noteq> k_subq j" "k_kused i a \<noteq> k_usubs j"
  "k_kused i a \<noteq> k_hydr_lock j" "k_hydr_lock i \<noteq> k_wallet j" "k_hydr_lock i \<noteq> k_subq j"
  "k_hydr_lock i \<noteq> k_usubs j" "k_hydr_lock i \<noteq> k_kused j a"
  by (simp_all add: key_defs)

lemma sub_id_of_str [simp]: "sub_id_of (str_int i) = i"
proof -
  have ns: "\<not> is_space c" if "c \<in> set (str_int i)" for c
    using str_int_chars [OF that] by (auto simp: is_space_def is_digit_def)
  have ne: "str_int i \<noteq> []" by (simp add: str_int_def str_nat_nonempty)
  have st: "py_strip (str_int i) = str_int i" using ne ns by (intro strip_fixed) auto
  show ?thesis
  proof (cases "i < 0")
    case True
    then show ?thesis
      using st by (simp add: sub_id_of_def int_of_text_def str_int_def py_isdigit_str_nat digits_val_str_nat)
  next
    case False
    then obtain c s where c: "str_int i = c # s" using ne by (cases "str_int i") auto
    have d: "py_isdigit (str_int i)" "digits_val (str_int i) = i"
      using False by (simp_all add: py_isdigit_str_int digits_val_str_int)
    then have "is_digit c" by (simp add: c py_isdigit_def)
    then have "c \<noteq> CHR ''-'' \<and> c \<noteq> CHR ''+''" by (auto simp: is_digit_def)
    with st d c show ?thesis by (simp add: sub_id_of_def int_of_text_def)
  qed
qed

section \<open>Sorted sets\<close>

lemma zset_fold_set: "fst ` set (foldl zset_set zs ms) = fst ` set zs \<union> fst ` set ms"
proof (induction ms arbitrary: zs)
  case (Cons m ms)
  have "fst ` set (zset_set zs m) = insert (fst m) (fst ` set zs)"
    by (force simp: zset_set_def image_iff)
  with Cons show ?case by auto
qed simp

lemma rd_zrange_live:
  "rd_live now r k = Some (RZset zs, t) \<Longrightarrow> set (rd_zrange now r k) = fst ` set zs"
  by (simp add: rd_zrange_def)

lemma rd_live_ops:
  "rd_live now (rd_set now k v ex r) j = (if j = k then (if ex \<le> 0 then None
     else Some (RInt v, Some (now + secs ex))) else rd_live now r j)"
  "rd_live now (rd_delete k r) j = (if j = k then None else rd_live now r j)"
  by (simp_all add: rd_set_def rd_delete_def rd_live_put secs_def)

lemma rd_live_expire:
  "0 < ex \<Longrightarrow> rd_live now (rd_expire now k ex r) j
     = (if j = k then map_option (\<lambda>(v, t). (v, Some (now + secs ex))) (rd_live now r j)
        else rd_live now r j)"
  by (auto simp: rd_expire_def rd_live_put secs_def split: option.splits)

lemma rd_live_zadd:
  "rd_live now r k = None \<Longrightarrow> rd_live now (rd_zadd now k ms r) j
     = (if j = k then Some (RZset (foldl zset_set [] ms), None) else rd_live now r j)"
  by (auto simp: rd_zadd_def rd_live_put)

lemma hydrate_subs_live:
  assumes "\<And>s. s \<in> set subs \<Longrightarrow> j \<noteq> k_subq (sb_id s)"
  shows "rd_live now (hydrate_subs now subs r) j = rd_live now r j"
  using assms
proof (induction subs arbitrary: r)
  case (Cons s subs)
  then show ?case by (simp add: hydrate_subs_def rd_live_ops)
qed (simp add: hydrate_subs_def)

lemma sub_ttl_pos: "0 < min (sub_ttl now e) subq_ttl_fallback"
  by (simp add: sub_ttl_def)

lemma hydrate_subs_get:
  assumes "distinct (map sb_id subs)" and "s \<in> set subs"
  shows "rd_get now (hydrate_subs now subs r) (k_subq (sb_id s)) = Some (sb_remaining_cents s)"
  using assms
proof (induction subs arbitrary: r)
  case (Cons t subs)
  show ?case
  proof (cases "s = t")
    case True
    have "\<And>x. x \<in> set subs \<Longrightarrow> k_subq (sb_id s) \<noteq> k_subq (sb_id x)" using Cons.prems(1) True by auto
    from hydrate_subs_live [OF this] True sub_ttl_pos show ?thesis
      by (simp add: hydrate_subs_def rd_get_def rd_live_ops not_le [symmetric])
  next
    case False
    with Cons.prems Cons.IH show ?thesis by (simp add: hydrate_subs_def)
  qed
qed simp

lemma rd_zrange_cong: "rd_live now r k = rd_live now r' k \<Longrightarrow> rd_zrange now r k = rd_zrange now r' k"
  by (simp add: rd_zrange_def)

lemma rd_get_cong: "rd_live now r k = rd_live now r' k \<Longrightarrow> rd_get now r k = rd_get now r' k"
  by (simp add: rd_get_def)

section \<open>What hydration loads\<close>

lemma hydrate_user_loads:
  assumes "r_up r" and "rd_live now r (k_hydr_lock uid) = None"
    and "row_get us_id uid (users db) = Some u" and "distinct (map sb_id (subscriptions db))"
  defines "r' \<equiv> hydrate_user_quota now db uid r"
  shows "rd_get now r' (k_wallet uid) = Some (us_balance_cents u)"
    and "set (map sub_id_of (rd_zrange now r' (k_usubs uid)))
           = sb_id ` {s \<in> set (subscriptions db). in_period now uid s}"
    and "s \<in> set (subscriptions db) \<Longrightarrow> in_period now uid s \<Longrightarrow>
           rd_get now r' (k_subq (sb_id s)) = Some (sb_remaining_cents s)"
    and "rd_live now r' (k_kused kid ws) = rd_live now r (k_kused kid ws)"
    and "r_up r'"
proof -
  let ?subs = "filter (in_period now uid) (subscriptions db)"
  define r0 where "r0 = rd_set now (k_hydr_lock uid) 1 hydr_lock_ttl r"
  define r2 where "r2 = rd_delete (k_usubs uid) (rd_set now (k_wallet uid) (us_balance_cents u) wallet_ttl r0)"
  define r3 where "r3 = rd_expire now (k_usubs uid) usubs_ttl (rd_zadd now (k_usubs uid)
      (map (\<lambda>s. (str_int (sb_id s), sb_current_period_end s)) ?subs) r2)"
  have r': "r' = (if ?subs = [] then r2 else hydrate_subs now ?subs r3)"
    using assms(1,2,3)
    by (simp add: r'_def hydrate_user_quota_def rd_set_nx_def Let_def r0_def r2_def r3_def)
  have l2: "rd_live now r2 (k_usubs uid) = None" by (simp add: r2_def rd_live_ops)
  have l3: "rd_live now r3 j = (if j = k_usubs uid then Some (RZset (foldl zset_set []
      (map (\<lambda>s. (str_int (sb_id s), sb_current_period_end s)) ?subs)), Some (now + secs usubs_ttl))
      else rd_live now r2 j)" for j
    by (simp add: r3_def rd_live_expire rd_live_zadd [OF l2])
  have keep: "rd_live now r' j = rd_live now r2 j" if "j \<noteq> k_usubs uid" "\<And>i. j \<noteq> k_subq i" for j
    using that by (simp add: r' hydrate_subs_live l3)
  show "rd_get now r' (k_wallet uid) = Some (us_balance_cents u)"
    by (subst rd_get_cong [OF keep]) (simp_all add: r2_def rd_get_def rd_live_ops)
  show "rd_live now r' (k_kused kid ws) = rd_live now r (k_kused kid ws)"
    by (subst keep) (simp_all add: r2_def r0_def rd_live_ops)
  show "rd_get now r' (k_subq (sb_id s)) = Some (sb_remaining_cents s)"
    if "s \<in> set (subscriptions db)" "in_period now uid s"
  proof -
    have s: "s \<in> set ?subs" using that by simp
    then have "?subs \<noteq> []" by (cases ?subs) auto
    moreover have "distinct (map sb_id ?subs)" using assms(4) by (simp add: distinct_map_filter)
    ultimately show ?thesis using hydrate_subs_get [OF _ s] by (simp only: r' if_False)
  qed
  show "set (map sub_id_of (rd_zrange now r' (k_usubs uid)))
           = sb_id ` {s \<in> set (subscriptions db). in_period now uid s}"
  proof (cases "?subs = []")
    case True
    then show ?thesis by (auto simp: r' rd_zrange_def l2 filter_empty_conv)
  next
    case False
    have "rd_live now r' (k_usubs uid) = rd_live now r3 (k_usubs uid)"
      using False by (simp add: r' hydrate_subs_live)
    then show ?thesis
      by (auto simp: rd_zrange_live [of now r' "k_usubs uid"] l3 zset_fold_set image_image)
  qed
  have up: "r_up (hydrate_subs now ss x) = r_up x" for ss x
    by (induction ss arbitrary: x) (simp_all add: hydrate_subs_def)
  show "r_up r'" using assms(1) by (simp add: r' up r3_def r2_def r0_def)
qed

section \<open>The check on a loaded cache\<close>

lemma check_subs_loaded:
  assumes "\<And>sid. sid \<in> set sids \<Longrightarrow> \<exists>v. quota sid = Some v \<and> 0 \<le> v"
  shows "check_subs quota sids = (if \<exists>sid \<in> set sids. 0 < the (quota sid) then Some (True, []) else None)"
  using assms
proof (induction sids)
  case (Cons sid sids)
  obtain v where "quota sid = Some v" "0 \<le> v" using Cons.prems by auto
  with Cons show ?case by (cases "v = 0") auto
qed simp

definition cache_loaded :: "datetime \<Rightarrow> session \<Rightarrow> redis \<Rightarrow> user \<Rightarrow> bool" where
  \<comment> \<open>the wallet and all running subscriptions of the user are cached with their stored values\<close>
  "cache_loaded now db r u \<longleftrightarrow>
     rd_get now r (k_wallet (us_id u)) = Some (us_balance_cents u)
     \<and> set (map sub_id_of (rd_zrange now r (k_usubs (us_id u))))
         = sb_id ` {s \<in> set (subscriptions db). in_period now (us_id u) s}
     \<and> (\<forall>s \<in> set (subscriptions db). in_period now (us_id u) s \<longrightarrow>
          rd_get now r (k_subq (sb_id s)) = Some (sb_remaining_cents s))"

definition funds_nonneg :: "datetime \<Rightarrow> session \<Rightarrow> user \<Rightarrow> bool" where
  "funds_nonneg now db u \<longleftrightarrow> 0 \<le> us_balance_cents u
     \<and> (\<forall>s \<in> set (subscriptions db). in_period now (us_id u) s \<longrightarrow> 0 \<le> sb_remaining_cents s)"

lemma check_loaded:
  assumes "cache_loaded now db r u" and "funds_nonneg now db u"
    and "0 < ak_quota_cents k \<Longrightarrow> rd_get now r (k_kused (ak_id k) ws) = Some (ak_used_cents k)"
  shows "quota_check now r (us_id u) (ak_id k) (ak_quota_cents k) ws = has_quota now db u (Some k)"
proof (cases "key_capped (Some k)")
  case True
  with assms(3) show ?thesis by (simp add: quota_check_def has_quota_def key_capped_def Let_def)
next
  case False
  let ?ids = "map sub_id_of (rd_zrange now r (k_usubs (us_id u)))"
  let ?q = "\<lambda>sid. rd_get now r (k_subq sid)"
  have ids: "set ?ids = sb_id ` {s \<in> set (subscriptions db). in_period now (us_id u) s}"
    using assms(1) unfolding cache_loaded_def by blast
  have q: "?q (sb_id s) = Some (sb_remaining_cents s)"
    if "s \<in> set (subscriptions db)" "in_period now (us_id u) s" for s
    using assms(1) that by (auto simp: cache_loaded_def)
  have "check_subs ?q ?ids = (if \<exists>sid \<in> set ?ids. 0 < the (?q sid) then Some (True, []) else None)"
  proof (rule check_subs_loaded)
    fix sid assume "sid \<in> set ?ids"
    then obtain s where "s \<in> set (subscriptions db)" "in_period now (us_id u) s" "sid = sb_id s"
      unfolding ids by blast
    with q assms(2) show "\<exists>v. ?q sid = Some v \<and> 0 \<le> v" by (simp add: funds_nonneg_def)
  qed
  also have "(\<exists>sid \<in> set ?ids. 0 < the (?q sid)) \<longleftrightarrow> active_subscriptions now db (us_id u) \<noteq> []"
  proof -
    have "active_subscriptions now db (us_id u) \<noteq> [] \<longleftrightarrow> (\<exists>s. s \<in> set (active_subscriptions now db (us_id u)))"
      by (cases "active_subscriptions now db (us_id u)") auto
    also have "\<dots> \<longleftrightarrow> (\<exists>s \<in> {s \<in> set (subscriptions db). in_period now (us_id u) s}. 0 < the (?q (sb_id s)))"
      using q by (auto simp: active_set)
    finally show ?thesis unfolding ids by blast
  qed
  finally have c: "check_subs ?q ?ids
    = (if active_subscriptions now db (us_id u) \<noteq> [] then Some (True, []) else None)" .
  have "\<not> (0 < ak_quota_cents k \<and> rd_get now r (k_kused (ak_id k) ws) = None)"
    and "\<not> (0 < ak_quota_cents k \<and> ak_quota_cents k \<le> the (rd_get now r (k_kused (ak_id k) ws)))"
    using False assms(3) by (auto simp: key_capped_def)
  with c False assms(1,2) show ?thesis
    by (simp add: quota_check_def has_quota_def Let_def cache_loaded_def check_wallet_def funds_nonneg_def)
qed

text \<open>
  Funds below zero are taken for a drift of the cache: the check misses again after it has loaded
  the stored values, unless a subscription before the negative one has quota.
\<close>

lemma check_subs_total:
  assumes "\<And>sid. sid \<in> set sids \<Longrightarrow> quota sid \<noteq> None"
  shows "check_subs quota sids \<in> {Some (True, []), Some (False, ''miss'')}
    \<or> check_subs quota sids = None \<and> (\<forall>sid \<in> set sids. quota sid = Some 0)"
  using assms by (induction sids) (auto split: option.split)

lemma check_overdrawn:
  assumes "cache_loaded now db r u" and "\<not> funds_nonneg now db u" and "\<not> key_capped (Some k)"
    and "0 < ak_quota_cents k \<Longrightarrow> rd_get now r (k_kused (ak_id k) ws) = Some (ak_used_cents k)"
  shows "quota_check now r (us_id u) (ak_id k) (ak_quota_cents k) ws \<in> {(True, []), (False, ''miss'')}"
proof -
  let ?ids = "map sub_id_of (rd_zrange now r (k_usubs (us_id u)))"
  let ?q = "\<lambda>sid. rd_get now r (k_subq sid)"
  have ids: "set ?ids = sb_id ` {s \<in> set (subscriptions db). in_period now (us_id u) s}"
    using assms(1) unfolding cache_loaded_def by blast
  have q: "?q (sb_id s) = Some (sb_remaining_cents s)"
    if "s \<in> set (subscriptions db)" "in_period now (us_id u) s" for s
    using assms(1) that by (auto simp: cache_loaded_def)
  have "?q sid \<noteq> None" if "sid \<in> set ?ids" for sid
    using that q unfolding ids by auto
  note t = check_subs_total [of ?ids ?q, OF this]
  have "check_wallet (rd_get now r (k_wallet (us_id u))) = (False, ''miss'')"
    if z: "\<forall>sid \<in> set ?ids. ?q sid = Some 0"
  proof -
    have "sb_remaining_cents s = 0" if "s \<in> set (subscriptions db)" "in_period now (us_id u) s" for s
      using z q [OF that] that unfolding ids by fastforce
    then have "us_balance_cents u < 0" using assms(2) by (force simp: funds_nonneg_def)
    then show ?thesis using assms(1) by (simp add: cache_loaded_def check_wallet_def)
  qed
  with t show ?thesis
    using assms(3,4) by (auto simp: quota_check_def Let_def key_capped_def split: option.split)
qed

text \<open>A cache without the user's wallet and subscription set, whose key counter is right if present.\<close>

definition cache_cold :: "datetime \<Rightarrow> redis \<Rightarrow> user \<Rightarrow> api_key \<Rightarrow> int \<Rightarrow> bool" where
  "cache_cold now r u k ws \<longleftrightarrow> r_up r \<and> rd_live now r (k_hydr_lock (us_id u)) = None
     \<and> rd_live now r (k_wallet (us_id u)) = None \<and> rd_live now r (k_usubs (us_id u)) = None
     \<and> rd_get now r (k_kused (ak_id k) ws) \<in> {None, Some (ak_used_cents k)}"

lemma cold_check:
  assumes "cache_cold now r u k ws"
  shows "quota_check now r (us_id u) (ak_id k) (ak_quota_cents k) ws =
    (if key_capped (Some k) \<and> rd_get now r (k_kused (ak_id k) ws) \<noteq> None
     then (False, ''api key quota exceeded'') else (False, ''miss''))"
  using assms
  by (auto simp: cache_cold_def quota_check_def Let_def rd_zrange_def check_wallet_def rd_get_def
      key_capped_def)

lemma has_quota_not_miss: "snd (has_quota now db u k) \<noteq> ''miss''"
  by (simp add: has_quota_def)

lemma quota_fast_cold:
  assumes "keys_ok db" and "row_get us_id (us_id u) (users db) = Some u"
    and "row_get ak_id (ak_id k) (api_keys db) = Some k"
    and "cache_cold now r u k ws"
  shows "snd (has_quota_fast now db r (us_id u) (ak_id k) (ak_quota_cents k) ws)
    = (if funds_nonneg now db u \<or> key_capped (Some k) then has_quota now db u (Some k) else (True, []))"
proof (cases "key_capped (Some k) \<and> rd_get now r (k_kused (ak_id k) ws) \<noteq> None")
  case True
  then show ?thesis
    using cold_check [OF assms(4)] assms(4)
    by (simp add: has_quota_fast_def has_quota_def cache_cold_def)
next
  case False
  have up: "r_up r" and lock: "rd_live now r (k_hydr_lock (us_id u)) = None"
    using assms(4) by (auto simp: cache_cold_def)
  have ds: "distinct (map sb_id (subscriptions db))" using assms(1) by (simp add: keys_ok_def)
  let ?r1 = "hydrate_user_quota now db (us_id u) r"
  let ?r2 = "hydrate_key_used now db (ak_id k) ws ?r1"
  note h = hydrate_user_loads [OF up lock assms(2) ds]
  have r2: "?r2 = rd_set now (k_kused (ak_id k) ws) (ak_used_cents k) subq_ttl_fallback ?r1"
    using h(5) assms(3) by (simp add: hydrate_key_used_def)
  have keep: "rd_live now ?r2 j = rd_live now ?r1 j" if "j \<noteq> k_kused (ak_id k) ws" for j
    using that by (simp add: r2 rd_live_ops)
  have ld: "cache_loaded now db ?r2 u"
    unfolding cache_loaded_def using h(1,2,3)
    by (simp add: rd_get_cong [OF keep] rd_zrange_cong [OF keep])
  have ku: "rd_get now ?r2 (k_kused (ak_id k) ws) = Some (ak_used_cents k)"
    by (simp add: r2 redis.get_put)
  let ?check = "quota_check now ?r2 (us_id u) (ak_id k) (ak_quota_cents k) ws"
  have "quota_check now r (us_id u) (ak_id k) (ak_quota_cents k) ws = (False, ''miss'')"
    using cold_check [OF assms(4)] False by auto
  then have f: "snd (has_quota_fast now db r (us_id u) (ak_id k) (ak_quota_cents k) ws)
      = (if snd ?check = ''miss'' then (True, []) else ?check)"
    using up by (simp add: has_quota_fast_def Let_def split: prod.split)
  consider (in_funds) "funds_nonneg now db u" | (capped) "\<not> funds_nonneg now db u" "key_capped (Some k)"
    | (debt) "\<not> funds_nonneg now db u" "\<not> key_capped (Some k)" by blast
  then show ?thesis
  proof cases
    case in_funds
    have "?check = has_quota now db u (Some k)" using in_funds ld ku by (intro check_loaded)
    then show ?thesis using in_funds has_quota_not_miss [of now db u "Some k"] by (simp add: f)
  next
    case capped
    then have "?check = (False, ''api key quota exceeded'')"
      using ku by (simp add: quota_check_def key_capped_def Let_def)
    then show ?thesis using capped by (simp add: f has_quota_def)
  next
    case debt
    with check_overdrawn [OF ld debt ku] show ?thesis by (auto simp: f)
  qed
qed

text \<open>
  Claim C4. With Redis reachable and a cold cache, for a user and a key that are in the database, the fast check loads the user's wallet, subscriptions and key usage and
  answers exactly as the database check does, reason included, as long as neither the wallet nor a
  running subscription is below zero. A user in debt, whom the database check denies, is admitted
  unless the cap of the key denies the request: negative values are taken for a drift of the cache,
  and the second miss lets the request pass.
\<close>

theorem has_quota_fast_cold:
  assumes "keys_ok db" and "row_get us_id (us_id u) (users db) = Some u"
    and "row_get ak_id (ak_id k) (api_keys db) = Some k" and "cache_cold now r u k ws"
  shows "snd (has_quota_fast now db r (us_id u) (ak_id k) (ak_quota_cents k) ws)
    = (if funds_nonneg now db u \<or> key_capped (Some k) then has_quota now db u (Some k) else (True, []))"
  using quota_fast_cold [OF assms] .

definition cold_redis :: redis where "cold_redis = \<lparr>r_up = True, r_data = (\<lambda>k. None)\<rparr>"

lemma cold_redis_cold: "cache_cold now cold_redis u k ws"
  by (simp add: cache_cold_def cold_redis_def rd_live_def rd_get_def)

theorem has_quota_fast_cold_witness:
  "snd (has_quota_fast 0 demo_db cold_redis 7 5 0 0) = (True, [])
   \<and> has_quota 0 demo_db demo_user (Some ((default_api_key 5 7)\<lparr>ak_used_cents := 40\<rparr>)) = (True, [])
   \<and> snd (has_quota_fast 0 (demo_db\<lparr>users := [demo_user\<lparr>us_balance_cents := - 3\<rparr>], subscriptions := []\<rparr>) cold_redis 7 5 0 0)
       = (True, [])
   \<and> \<not> fst (has_quota 0 (demo_db\<lparr>users := [demo_user\<lparr>us_balance_cents := - 3\<rparr>], subscriptions := []\<rparr>)
       (demo_user\<lparr>us_balance_cents := - 3\<rparr>) (Some ((default_api_key 5 7)\<lparr>ak_used_cents := 40\<rparr>)))"
proof -
  let ?k = "(default_api_key 5 7)\<lparr>ak_used_cents := 40\<rparr>"
  let ?u = "demo_user\<lparr>us_balance_cents := - 3\<rparr>"
  let ?db = "demo_db\<lparr>users := [?u], subscriptions := []\<rparr>"
  have k: "row_get ak_id (ak_id ?k) (api_keys demo_db) = Some ?k" by (simp add: demo_defs row_get_def)
  have f: "funds_nonneg 0 demo_db demo_user" by (simp add: funds_nonneg_def demo_defs)
  have "has_quota 0 demo_db demo_user (Some ?k) = (True, [])"
    by (simp add: has_quota_def key_capped_def active_subscriptions_def in_period_def demo_defs)
  moreover from this f have "snd (has_quota_fast 0 demo_db cold_redis 7 5 0 0) = (True, [])"
    using has_quota_fast_cold [OF demo_keys_ok demo_row k cold_redis_cold, of 0 0]
    by (simp add: demo_user_def default_user_def default_api_key_def)
  moreover have "keys_ok ?db" using demo_keys_ok by (simp add: keys_ok_def)
  moreover have "row_get us_id (us_id ?u) (users ?db) = Some ?u" "row_get ak_id (ak_id ?k) (api_keys ?db) = Some ?k"
    using k by (simp_all add: row_get_def)
  ultimately show ?thesis
    using has_quota_fast_cold [of ?db ?u ?k 0 cold_redis 0, OF _ _ _ cold_redis_cold]
    by (simp add: demo_user_def default_user_def default_api_key_def funds_nonneg_def key_capped_def has_quota_def
        active_subscriptions_def)
qed

section \<open>Mirroring charges\<close>

definition cache_agrees :: "datetime \<Rightarrow> session \<Rightarrow> redis \<Rightarrow> int \<Rightarrow> bool" where
  \<comment> \<open>whatever is cached of a user's funds is what the database holds\<close>
  "cache_agrees now db r uid \<longleftrightarrow>
     rd_get now r (k_wallet uid) \<in> {None, Some (wallet_of db uid)}
     \<and> (\<forall>i s. row_get sb_id i (subscriptions db) = Some s \<longrightarrow>
          rd_get now r (k_subq i) \<in> {None, Some (sb_remaining_cents s)})"

lemma mirror_sums:
  assumes "pos_bd bd"
  shows "sum_list (map (\<lambda>(k, d). if k = k_wallet uid then d else 0) (map (mirror_entry uid) bd)) = wallet_amount bd"
    and "sum_list (map (\<lambda>(k, d). if k = k_subq i then d else 0) (map (mirror_entry uid) bd)) = sub_amount bd i"
proof (induction bd)
  case (Cons e bd)
  obtain x j a where e: "e = (x, j, a)" by (cases e)
  case 1
  show ?case using Cons by (cases x) (simp_all add: e)
  case 2
  show ?case using Cons by (cases x) (simp_all add: e)
qed simp_all

lemma apply_charge_get:
  fixes now :: datetime and uid ws :: int and key_id :: "int option"
  assumes "pos_bd bd" and "0 < cost" and "r_up r"
  defines "r' \<equiv> apply_charge now uid key_id cost ws bd r"
  shows "rd_get now r' (k_wallet uid) = map_option (\<lambda>v. v - wallet_amount bd) (rd_get now r (k_wallet uid))"
    and "rd_get now r' (k_subq i) = map_option (\<lambda>v. v - sub_amount bd i) (rd_get now r (k_subq i))"
    and "key_id = Some kid \<Longrightarrow> rd_get now r' (k_kused kid ws)
       = Some (case rd_get now r (k_kused kid ws) of None \<Rightarrow> cost | Some v \<Rightarrow> v + cost)"
proof -
  have f: "filter (\<lambda>(kind, ident, amount). \<not> amount \<le> 0) bd = bd"
    using assms(1) by (intro filter_True) (auto simp: pos_bd_def)
  let ?r1 = "foldl (\<lambda>s (k, d). rd_decr_if_exists now k d s) r (map (mirror_entry uid) bd)"
  have r': "r' = (case key_id of None \<Rightarrow> ?r1 | Some kid \<Rightarrow> fst (rd_incrby now (k_kused kid ws) cost ?r1))"
    unfolding r'_def apply_charge_def f Let_def using assms(2,3) by simp
  have keep: "rd_get now r' j = rd_get now ?r1 j" if "\<And>k. j \<noteq> k_kused k ws" for j
    using that by (auto simp: r' redis.get_inc split: option.splits)
  show "rd_get now r' (k_wallet uid) = map_option (\<lambda>v. v - wallet_amount bd) (rd_get now r (k_wallet uid))"
    by (subst keep) (simp_all only: redis.decs_value mirror_sums [OF assms(1)], simp)
  show "rd_get now r' (k_subq i) = map_option (\<lambda>v. v - sub_amount bd i) (rd_get now r (k_subq i))"
    by (subst keep) (simp_all only: redis.decs_value mirror_sums [OF assms(1)], simp)
  have "k_kused kid ws \<notin> fst ` set (map (mirror_entry uid) bd)" for kid
  proof
    assume "k_kused kid ws \<in> fst ` set (map (mirror_entry uid) bd)"
    then obtain x j a where "k_kused kid ws = fst (mirror_entry uid (x, j, a))" by auto
    then show False by (cases x) simp_all
  qed
  then show "key_id = Some kid \<Longrightarrow> rd_get now r' (k_kused kid ws)
       = Some (case rd_get now r (k_kused kid ws) of None \<Rightarrow> cost | Some v \<Rightarrow> v + cost)"
    by (simp add: r' redis.get_inc redis.decs_other)
qed

text \<open>
  Claim C5. Mirroring a committed charge keeps the cached wallet and subscription quotas equal to
  the stored ones, and never creates a cached balance that was not there.
\<close>

theorem apply_charge_mirrors:
  assumes "keys_ok db" and "row_get us_id (us_id u) (users db) = Some row" and "0 < cost"
    and "charge_user sync now db u k cost ref_id note = (db', u', k', bd)"
    and "r_up r" and "cache_agrees now db r (us_id u)"
  shows "cache_agrees now db' (apply_charge now (us_id u) key_id cost ws bd r) (us_id u)
    \<and> (rd_get now (apply_charge now (us_id u) key_id cost ws bd r) (k_wallet (us_id u)) = None
        \<longleftrightarrow> rd_get now r (k_wallet (us_id u)) = None)"
proof -
  have ds: "distinct (map sb_id (subscriptions db))" using assms(1) by (simp add: keys_ok_def)
  note e = charge_user_effect [OF ds assms(2-4)]
  note pos = charge_breakdown_pos [OF ds assms(2-4)]
  note g = apply_charge_get [OF conjunct1 [OF pos] assms(3,5)]
  have w: "wallet_of db' (us_id u) = wallet_of db (us_id u) - wallet_amount bd"
    using e(3,4) assms(2) by (auto simp: wallet_of_def returning_balance_def row_simps shortfall_def)
  have "rd_get now (apply_charge now (us_id u) key_id cost ws bd r) (k_subq i)
      \<in> {None, Some (sb_remaining_cents s)}" if s: "row_get sb_id i (subscriptions db') = Some s" for i s
  proof -
    obtain z where z: "row_get sb_id i (subscriptions db) = Some z"
      "sb_remaining_cents s = sb_remaining_cents z - sub_amount bd i"
      using s e(9) [of i] by auto
    then have "rd_get now r (k_subq i) \<in> {None, Some (sb_remaining_cents z)}"
      using assms(6) unfolding cache_agrees_def by blast
    with z(2) show ?thesis by (auto simp: g(2))
  qed
  with w assms(6) show ?thesis by (auto simp: cache_agrees_def g(1))
qed

theorem apply_charge_mirrors_witness:
  "case charge_user True 0 demo_db demo_user None 120 None None of (db', u', k', bd) \<Rightarrow>
     cache_agrees 0 db' (apply_charge 0 7 None 120 0 bd (rd_set 0 (k_wallet 7) 100 3600 cold_redis)) 7"
proof -
  obtain db' u' k' bd where c:
    "charge_user True 0 demo_db demo_user None 120 None None = (db', u', k', bd)"
    by (rule demo_charge)
  let ?r = "rd_set 0 (k_wallet 7) 100 3600 cold_redis"
  have "cache_agrees 0 demo_db ?r 7"
    by (simp add: cache_agrees_def redis.get_put wallet_of_def returning_balance_def demo_defs row_get_def)
      (simp add: rd_get_def rd_live_def cold_redis_def)
  moreover have "r_up ?r" by (simp add: cold_redis_def)
  ultimately show ?thesis
    using apply_charge_mirrors [OF demo_keys_ok demo_row _ c, of ?r None 0] c
    by (simp add: demo_user_def default_user_def)
qed

text \<open>
  The cached usage of a key is created by a charge when it was not cached, and then
  holds only that charge: for a key that had been used before, the cache shows less usage than
  the database by everything spent earlier.
\<close>

theorem key_counter_undercount:
  assumes "keys_ok db" and "row_get us_id (us_id u) (users db) = Some row" and "0 < cost"
    and "row_get ak_id (ak_id ak) (api_keys db) = Some ak"
    and "charge_user sync now db u (Some ak) cost ref_id note = (db', u', k', bd)"
    and "r_up r" and "rd_get now r (k_kused (ak_id ak) ws) = None"
  shows "\<exists>stored cached. map_option ak_used_cents (row_get ak_id (ak_id ak) (api_keys db')) = Some stored
    \<and> rd_get now (apply_charge now (us_id u) (Some (ak_id ak)) cost ws bd r) (k_kused (ak_id ak) ws) = Some cached
    \<and> ak_used_cents ak \<le> stored - cached"
proof -
  have ds: "distinct (map sb_id (subscriptions db))" using assms(1) by (simp add: keys_ok_def)
  note pos = charge_breakdown_pos [OF ds assms(2,3,5)]
  have "rd_get now (apply_charge now (us_id u) (Some (ak_id ak)) cost ws bd r) (k_kused (ak_id ak) ws) = Some cost"
    using apply_charge_get(3) [OF conjunct1 [OF pos] assms(3,6) refl] assms(7) by simp
  moreover have "map_option ak_used_cents (row_get ak_id (ak_id ak) (api_keys db'))
      = Some (ak_used_cents ak + (if sync then 2 else 1) * cost)"
    using charge_user_effect(10) [OF ds assms(2,3,5), of "ak_id ak"] assms(4) by simp
  ultimately show ?thesis using assms(3) by (auto split: if_splits)
qed

theorem key_counter_undercount_witness:
  "case charge_user False 0 demo_db demo_user (Some ((default_api_key 5 7)\<lparr>ak_used_cents := 40\<rparr>))
          10 None None of (db', u', k', bd) \<Rightarrow>
     \<exists>stored cached. map_option ak_used_cents (row_get ak_id 5 (api_keys db')) = Some stored
       \<and> rd_get 0 (apply_charge 0 7 (Some 5) 10 0 bd cold_redis) (k_kused 5 0) = Some cached
       \<and> 40 \<le> stored - cached"
proof -
  let ?k = "(default_api_key 5 7)\<lparr>ak_used_cents := 40\<rparr>"
  obtain db' u' k' bd where c:
    "charge_user False 0 demo_db demo_user (Some ?k) 10 None None = (db', u', k', bd)"
    by (rule demo_charge)
  have k: "row_get ak_id (ak_id ?k) (api_keys demo_db) = Some ?k" by (simp add: demo_defs row_get_def)
  have "r_up cold_redis" and "rd_get 0 cold_redis (k_kused 5 0) = None"
    by (simp_all add: cold_redis_def rd_get_def rd_live_def)
  with key_counter_undercount [OF demo_keys_ok demo_row _ k c, of cold_redis 0] c show ?thesis
    by (simp add: demo_user_def default_user_def default_api_key_def)
qed

end
