(* ===== verification/Commit_Laws.thy ===== *)
theory Commit_Laws
  imports Quota_Laws
begin

text \<open>
  The commit hook and the start-up resync make the quota cache cold, so the next check reads the
  committed state; the rate limiter admits at most its limit per sixty-second window.
\<close>

section \<open>Invalidation\<close>

lemma deletes_live:
  "rd_live now (foldl (\<lambda>r sid. rd_delete (k_subq (sub_id_of sid)) r) r sids) k
     = (if k \<in> (\<lambda>sid. k_subq (sub_id_of sid)) ` set sids then None else rd_live now r k)"
  by (induction sids arbitrary: r) (auto simp: rd_live_ops)

lemma deletes_up: "r_up (foldl (\<lambda>r sid. rd_delete (k_subq (sub_id_of sid)) r) r sids) = r_up r"
  by (induction sids arbitrary: r) simp_all

lemma invalidate_live:
  assumes "r_up r"
  shows "rd_live now (invalidate_user_quota t uid r) (k_wallet i)
           = (if i = uid then None else rd_live now r (k_wallet i))"
    and "rd_live now (invalidate_user_quota t uid r) (k_usubs i)
           = (if i = uid then None else rd_live now r (k_usubs i))"
    and "rd_live now (invalidate_user_quota t uid r) (k_kused kid ws) = rd_live now r (k_kused kid ws)"
    and "rd_live now (invalidate_user_quota t uid r) (k_hydr_lock i) = rd_live now r (k_hydr_lock i)"
    and "r_up (invalidate_user_quota t uid r) = r_up r"
  using assms by (auto simp: invalidate_user_quota_def deletes_live deletes_up rd_live_ops)

lemma invalidate_all:
  fixes t now :: datetime and uids :: "int list"
  assumes "r_up r"
  defines "r' \<equiv> foldl (\<lambda>r uid. invalidate_user_quota t uid r) r uids"
  shows "rd_live now r' (k_wallet i) = (if i \<in> set uids then None else rd_live now r (k_wallet i))"
    and "rd_live now r' (k_usubs i) = (if i \<in> set uids then None else rd_live now r (k_usubs i))"
    and "rd_live now r' (k_kused kid ws) = rd_live now r (k_kused kid ws)"
    and "rd_live now r' (k_hydr_lock i) = rd_live now r (k_hydr_lock i)"
    and "r_up r'"
  using assms(1) unfolding r'_def
  by (induction uids arbitrary: r) (auto simp: invalidate_live)

text \<open>
  After a top-up commits and its hook has run, the next fast quota check of the user
  answers as the committed database does: the credit is visible at once, provided the user's
  five-second loading lock is free and the key's cached usage is right or absent.
\<close>

theorem topup_visible_after_commit:
  assumes "keys_ok db" and "row_get us_id (us_id u) (users db) = Some u"
    and "row_get ak_id (ak_id k) (api_keys db) = Some k"
    and "topup_wallet db u amount ref_id note = (db1, u1)"
    and "fire_quota_invalidate now db1 r = (db2, r2)"
    and "r_up r" and "rd_live now r (k_hydr_lock (us_id u)) = None"
    and "rd_get now r (k_kused (ak_id k) ws) \<in> {None, Some (ak_used_cents k)}"
    and "funds_nonneg now db2 u1"
  shows "snd (has_quota_fast now db2 r2 (us_id u) (ak_id k) (ak_quota_cents k) ws)
    = has_quota now db2 u1 (Some k)"
proof -
  note f = topup_frame [OF assms(4)]
  have db2: "users db2 = users db1" "subscriptions db2 = subscriptions db" "api_keys db2 = api_keys db"
      "orders db2 = orders db" "seq_subscriptions db2 = seq_subscriptions db" "seq_orders db2 = seq_orders db"
    using assms(5) f by (auto simp: fire_quota_invalidate_def)
  have r2: "r2 = foldl (\<lambda>r uid. invalidate_user_quota now uid r) r (info_uids db1)"
    using assms(5) by (simp add: fire_quota_invalidate_def)
  have "map us_id (users db2) = map us_id (users db)" using db2(1) f(1) by (simp add: users_add_balance_ids)
  then have k: "keys_ok db2" using assms(1) db2 by (simp add: keys_ok_def)
  have u1: "u1 = u\<lparr>us_balance_cents := us_balance_cents u + amount\<rparr>"
    using assms(2,4) by (auto simp: topup_wallet_def Let_def)
  have row: "row_get us_id (us_id u1) (users db2) = Some u1"
    using assms(2) db2(1) f(1) by (simp add: add_balance_def row_simps u1)
  have "cache_cold now r2 u1 k ws"
    unfolding cache_cold_def r2 f(10)
    using invalidate_all [OF assms(6), where t = now and uids = "info_uids db1"] f(9) assms(6,7,8) by (simp add: rd_get_def)
  from quota_fast_cold [OF k row _ this] assms(3,9) db2(3) f(10) show ?thesis by simp
qed

theorem topup_visible_after_commit_witness:
  "case topup_wallet demo_db demo_user 25 None None of (db1, u1) \<Rightarrow>
     (case fire_quota_invalidate 0 db1 (rd_set 0 (k_wallet 7) 0 3600 cold_redis) of (db2, r2) \<Rightarrow>
        snd (has_quota_fast 0 db2 r2 7 5 0 0)
          = has_quota 0 db2 u1 (Some ((default_api_key 5 7)\<lparr>ak_used_cents := 40\<rparr>)))"
proof -
  let ?k = "(default_api_key 5 7)\<lparr>ak_used_cents := 40\<rparr>"
  let ?r = "rd_set 0 (k_wallet 7) 0 3600 cold_redis"
  obtain db1 u1 where t: "topup_wallet demo_db demo_user 25 None None = (db1, u1)" by force
  obtain db2 r2 where c: "fire_quota_invalidate 0 db1 ?r = (db2, r2)" by force
  have k: "row_get ak_id (ak_id ?k) (api_keys demo_db) = Some ?k" by (simp add: demo_defs row_get_def)
  have up: "r_up ?r" by (simp add: cold_redis_def)
  have lock: "rd_live 0 ?r (k_hydr_lock (us_id demo_user)) = None"
    by (simp add: rd_live_ops) (simp add: rd_live_def cold_redis_def)
  have kused: "rd_get 0 ?r (k_kused (ak_id ?k) 0) \<in> {None, Some (ak_used_cents ?k)}"
    by (simp add: redis.get_put) (simp add: rd_get_def rd_live_def cold_redis_def)
  have "us_balance_cents u1 = 125 \<and> us_id u1 = 7"
    using t by (auto simp: topup_wallet_def Let_def demo_defs returning_balance_def add_balance_def
        row_upd_def row_get_def)
  moreover have "subscriptions db2 = subscriptions demo_db"
    using c topup_frame(5) [OF t] by (auto simp: fire_quota_invalidate_def)
  ultimately have "funds_nonneg 0 db2 u1" by (simp add: funds_nonneg_def demo_defs)
  from topup_visible_after_commit [OF demo_keys_ok demo_row k t c up lock kused this] t c show ?thesis
    by (simp add: demo_user_def default_user_def default_api_key_def)
qed

section \<open>Resync\<close>

text \<open>
  The start-up resync, when it gets its lock, empties the quota cache: every user and
  key is cold afterwards, whatever drift had accumulated.
\<close>

theorem resync_makes_cold:
  assumes "r_up r" and "rd_live now r ''quota_cache:resync_lock'' = None"
  shows "cache_cold t (resync_on_startup now r) u k ws"
proof -
  let ?r = "resync_on_startup now r"
  have "r_data ?r (k_wallet i) = None \<and> r_data ?r (k_usubs i) = None \<and> r_data ?r (k_kused j ws) = None
      \<and> r_data ?r (k_hydr_lock i) = None" for i j ws
    using assms
    by (simp add: resync_on_startup_def rd_set_nx_def resync_prefixes_def py_startswith_def key_defs)
  moreover have "r_up ?r" using assms by (simp add: resync_on_startup_def rd_set_nx_def)
  ultimately show ?thesis by (simp add: cache_cold_def rd_live_def rd_get_def)
qed

theorem resync_makes_cold_witness:
  "cache_cold 0 (resync_on_startup 0 (rd_set 0 (k_wallet 7) (- 5) 3600 cold_redis)) demo_user (default_api_key 5 7) 0"
proof -
  have up: "r_up (rd_set 0 (k_wallet 7) (- 5) 3600 cold_redis)" by (simp add: cold_redis_def)
  have "rd_live 0 (rd_set 0 (k_wallet 7) (- 5) 3600 cold_redis) ''quota_cache:resync_lock'' = None"
    by (simp add: rd_live_ops k_wallet_def) (simp add: rd_live_def cold_redis_def)
  with up show ?thesis by (rule resync_makes_cold)
qed

section \<open>Rate limit\<close>

fun rate_run :: "int \<Rightarrow> int \<Rightarrow> int option \<Rightarrow> datetime list \<Rightarrow> redis \<Rightarrow> bool list option" where
  \<comment> \<open>the answers to one user's requests at the given times\<close>
  "rate_run default_rpm uid per_min [] r = Some []"
| "rate_run default_rpm uid per_min (t # ts) r =
     (case rate_limit default_rpm t uid per_min r of
        None \<Rightarrow> None
      | Some (r', ok) \<Rightarrow> map_option ((#) ok) (rate_run default_rpm uid per_min ts r'))"

definition rate_cap :: "int \<Rightarrow> int option \<Rightarrow> int" where
  "rate_cap default_rpm per_min =
     (case per_min of Some n \<Rightarrow> if n > 0 then n else default_rpm | None \<Rightarrow> default_rpm)"

lemma rate_limit_step:
  assumes "r_up r"
  shows "rate_limit default_rpm now uid per_min r =
    (case rd_incrby now (k_rate uid) 1 r of (r1, n) \<Rightarrow>
       Some (if n = 1 then rd_expire now (k_rate uid) 60 r1 else r1, n \<le> rate_cap default_rpm per_min))"
  using assms by (simp add: rate_limit_def rate_cap_def Let_def split: prod.splits)

lemma rate_run_window:
  assumes "r_up r" and "r_data r (k_rate uid) = Some (RInt c, Some e)" and "1 \<le> c"
    and "\<forall>t \<in> set ts. t < e"
  shows "rate_run default_rpm uid per_min ts r
    = Some (map (\<lambda>j. c + int j + 1 \<le> rate_cap default_rpm per_min) [0..<length ts])"
  using assms
proof (induction ts arbitrary: c r)
  case (Cons t ts)
  let ?r = "rd_put (k_rate uid) (Some (RInt (c + 1), Some e)) r"
  have inc: "rd_incrby t (k_rate uid) 1 r = (?r, c + 1)"
    using Cons.prems by (simp add: rd_incrby_def rd_live_def)
  have "rate_run default_rpm uid per_min ts ?r
      = Some (map (\<lambda>j. (c + 1) + int j + 1 \<le> rate_cap default_rpm per_min) [0..<length ts])"
    using Cons.prems by (intro Cons.IH) (simp_all add: rd_put_def)
  moreover have "map (\<lambda>j. c + int j + 1 \<le> m) [0..<Suc n]
      = (c + 1 \<le> m) # map (\<lambda>j. (c + 1) + int j + 1 \<le> m) [0..<n]" for m n
    by (simp add: upt_conv_Cons map_Suc_upt [symmetric] algebra_simps del: upt_Suc)
  ultimately show ?case using Cons.prems by (simp add: rate_limit_step inc)
qed simp

text \<open>
  Within sixty seconds of a user's first request, exactly the first \<open>limit\<close> requests
  are admitted, in order.
\<close>

theorem rate_limit_window:
  assumes "r_up r" and "rd_live t0 r (k_rate uid) = None" and "\<forall>t \<in> set ts. t < t0 + secs 60"
  shows "rate_run default_rpm uid per_min (t0 # ts) r
    = Some (map (\<lambda>j. int j < rate_cap default_rpm per_min) [0..<Suc (length ts)])"
proof -
  let ?r = "rd_expire t0 (k_rate uid) 60 (fst (rd_incrby t0 (k_rate uid) 1 r))"
  have inc: "rd_incrby t0 (k_rate uid) 1 r = (rd_put (k_rate uid) (Some (RInt 1, None)) r, 1)"
    using assms(2) by (simp add: rd_incrby_def)
  have "r_data ?r (k_rate uid) = Some (RInt 1, Some (t0 + secs 60))"
    by (simp add: inc rd_expire_def rd_live_put) (simp add: rd_put_def)
  then have "rate_run default_rpm uid per_min ts ?r
      = Some (map (\<lambda>j. 1 + int j + 1 \<le> rate_cap default_rpm per_min) [0..<length ts])"
    using assms(1,3) by (intro rate_run_window) simp_all
  moreover have "map (\<lambda>j. int j < m) [0..<Suc n] = (1 \<le> m) # map (\<lambda>j. 1 + int j + 1 \<le> m) [0..<n]" for m n
    by (auto simp: upt_conv_Cons map_Suc_upt [symmetric] simp del: upt_Suc)
  ultimately show ?thesis using assms(1) by (simp add: rate_limit_step inc)
qed

theorem rate_limit_window_witness:
  "rate_run 60 7 (Some 2) [0, 1, 30000000] cold_redis = Some [True, True, False]"
proof -
  have "r_up cold_redis" and "rd_live 0 cold_redis (k_rate 7) = None"
    by (simp_all add: cold_redis_def rd_live_def)
  from rate_limit_window [OF this, of "[1, 30000000]" 60 "Some 2"] show ?thesis
    by (simp add: secs_def rate_cap_def)
qed

end
