(* ===== verification/Ttl_Cache.thy ===== *)
theory Ttl_Cache
  imports Llmxy_Prelude
begin

text \<open>
  \<^verbatim>\<open>core/ttl_cache.py\<close>: the in-process LRU cache with expiry. The ordered dictionary is the list
  of its entries, oldest use first. Times are microseconds of the monotonic clock.
\<close>

record ('k, 'v) ttl_cache =
  tc_data :: "('k \<times> int \<times> 'v) list"
  tc_maxsize :: nat
  tc_ttl :: int

definition tc_new :: "nat \<Rightarrow> int \<Rightarrow> ('k, 'v) ttl_cache" where
  "tc_new maxsize ttl = \<lparr>tc_data = [], tc_maxsize = maxsize, tc_ttl = ttl\<rparr>"

definition tc_remove :: "'k \<Rightarrow> ('k \<times> int \<times> 'v) list \<Rightarrow> ('k \<times> int \<times> 'v) list" where
  "tc_remove k d = filter (\<lambda>e. fst e \<noteq> k) d"

definition tc_get :: "int \<Rightarrow> ('k, 'v) ttl_cache \<Rightarrow> 'k \<Rightarrow> ('k, 'v) ttl_cache \<times> 'v option" where
  "tc_get now c k =
     (case map_of (tc_data c) k of
        None \<Rightarrow> (c, None)
      | Some (expires_at, v) \<Rightarrow>
          if expires_at \<le> now then (c\<lparr>tc_data := tc_remove k (tc_data c)\<rparr>, None)
          else (c\<lparr>tc_data := tc_remove k (tc_data c) @ [(k, expires_at, v)]\<rparr>, Some v))"

fun tc_trim :: "nat \<Rightarrow> 'e list \<Rightarrow> 'e list" where
  \<comment> \<open>\<open>while len(self._data) > self._maxsize: popitem(last=False)\<close>\<close>
  "tc_trim m [] = []"
| "tc_trim m (e # d) = (if length (e # d) > m then tc_trim m d else e # d)"

definition tc_set :: "int \<Rightarrow> ('k, 'v) ttl_cache \<Rightarrow> 'k \<Rightarrow> 'v \<Rightarrow> ('k, 'v) ttl_cache" where
  "tc_set now c k v =
     c\<lparr>tc_data := tc_trim (tc_maxsize c) (tc_remove k (tc_data c) @ [(k, now + tc_ttl c, v)])\<rparr>"

definition tc_pop :: "('k, 'v) ttl_cache \<Rightarrow> 'k \<Rightarrow> ('k, 'v) ttl_cache" where
  "tc_pop c k = c\<lparr>tc_data := tc_remove k (tc_data c)\<rparr>"

definition tc_clear :: "('k, 'v) ttl_cache \<Rightarrow> ('k, 'v) ttl_cache" where
  "tc_clear c = c\<lparr>tc_data := []\<rparr>"

definition tc_len :: "('k, 'v) ttl_cache \<Rightarrow> nat" where
  "tc_len c = length (tc_data c)"

section \<open>Well-formed caches\<close>

definition tc_ok :: "('k, 'v) ttl_cache \<Rightarrow> bool" where
  "tc_ok c \<longleftrightarrow> distinct (map fst (tc_data c)) \<and> tc_len c \<le> tc_maxsize c"

lemma tc_trim_drop: "tc_trim m d = drop (length d - m) d"
proof (induction d)
  case (Cons e d)
  show ?case
  proof (cases "length (e # d) > m")
    case True
    then have "length (e # d) - m = Suc (length d - m)" by (simp add: Suc_diff_le)
    with True Cons show ?thesis by simp
  next
    case False
    then show ?thesis by simp
  qed
qed simp

lemma distinct_remove: "distinct (map fst d) \<Longrightarrow> distinct (map fst (tc_remove k d))"
  by (simp add: tc_remove_def distinct_map_filter)

lemma map_of_remove: "map_of (tc_remove k d) j = (if j = k then None else map_of d j)"
  by (induction d) (auto simp: tc_remove_def)

lemma remove_notin: "k \<notin> fst ` set (tc_remove k d)"
  by (auto simp: tc_remove_def)

lemma map_of_drop:
  "distinct (map fst d) \<Longrightarrow> map_of (drop n d) j = Some x \<Longrightarrow> map_of d j = Some x"
  by (meson in_set_dropD map_of_SomeD map_of_is_SomeI)

lemma map_of_append_last: "k \<notin> fst ` set d \<Longrightarrow> map_of (d @ [(k, x)]) j = (if j = k then Some x else map_of d j)"
  by (induction d) auto

lemma tc_set_simps:
  "tc_data (tc_set now c k v)
     = drop (length (tc_remove k (tc_data c) @ [(k, now + tc_ttl c, v)]) - tc_maxsize c)
         (tc_remove k (tc_data c) @ [(k, now + tc_ttl c, v)])"
  "tc_maxsize (tc_set now c k v) = tc_maxsize c"
  "tc_ttl (tc_set now c k v) = tc_ttl c"
  by (simp_all add: tc_set_def tc_trim_drop del: drop_append)

lemma length_remove_hit:
  assumes "map_of d k = Some x"
  shows "length (tc_remove k d) < length d"
proof -
  have "(k, x) \<in> set d" using assms by (rule map_of_SomeD)
  then show ?thesis unfolding tc_remove_def by (intro length_filter_less [of "(k, x)"]) auto
qed

lemma tc_ok_new: "tc_ok (tc_new m ttl)"
  by (simp add: tc_ok_def tc_new_def tc_len_def)

lemma tc_ok_get: "tc_ok c \<Longrightarrow> tc_ok (fst (tc_get now c k))"
proof -
  assume ok: "tc_ok c"
  show ?thesis
  proof (cases "map_of (tc_data c) k")
    case None
    with ok show ?thesis by (simp add: tc_get_def)
  next
    case (Some x)
    obtain e v where x: "x = (e, v)" by (cases x)
    have "length (tc_remove k (tc_data c)) < length (tc_data c)" using Some by (rule length_remove_hit)
    with ok Some x remove_notin [of k "tc_data c"] show ?thesis
      by (auto simp: tc_get_def tc_ok_def tc_len_def distinct_remove)
  qed
qed

lemma tc_ok_set: "tc_ok c \<Longrightarrow> tc_ok (tc_set now c k v)"
proof -
  assume ok: "tc_ok c"
  let ?d = "tc_remove k (tc_data c) @ [(k, now + tc_ttl c, v)]"
  have "distinct (map fst ?d)"
    using ok remove_notin [of k "tc_data c"] by (auto simp: tc_ok_def distinct_remove)
  then have "distinct (map fst (drop n ?d))" for n by (metis distinct_drop drop_map)
  then show ?thesis unfolding tc_ok_def tc_len_def tc_set_simps by (simp only: length_drop) simp
qed

lemma tc_ok_pop: "tc_ok c \<Longrightarrow> tc_ok (tc_pop c k)"
  using le_trans [OF length_filter_le [of "\<lambda>e. fst e \<noteq> k" "tc_data c"], of "tc_maxsize c"]
  by (simp add: tc_ok_def tc_pop_def tc_len_def distinct_remove) (simp add: tc_remove_def)

lemma tc_ok_clear: "tc_ok c \<Longrightarrow> tc_ok (tc_clear c)"
  by (simp add: tc_ok_def tc_clear_def tc_len_def)

section \<open>The contract of a snapshot cache\<close>

text \<open>
  What the users of a cache rely on. \<open>entry\<close> is what is stored under a key, with the time it was
  stored; a lookup may forget, it never invents.
\<close>

locale snapshot_cache =
  fixes ok :: "'c \<Rightarrow> bool"
    and entry :: "'c \<Rightarrow> 'k \<Rightarrow> (int \<times> 'v) option"
    and ttl :: "'c \<Rightarrow> int"
    and get :: "int \<Rightarrow> 'c \<Rightarrow> 'k \<Rightarrow> 'c \<times> 'v option"
    and set :: "int \<Rightarrow> 'c \<Rightarrow> 'k \<Rightarrow> 'v \<Rightarrow> 'c"
    and pop :: "'c \<Rightarrow> 'k \<Rightarrow> 'c"
  assumes ok_get: "ok c \<Longrightarrow> ok (fst (get now c k))"
    and ok_set: "ok c \<Longrightarrow> ok (set now c k v)"
    and ok_pop: "ok c \<Longrightarrow> ok (pop c k)"
    and ttl_get: "ttl (fst (get now c k)) = ttl c"
    and ttl_set: "ttl (set now c k v) = ttl c"
    and ttl_pop: "ttl (pop c k) = ttl c"
    and get_hit: "ok c \<Longrightarrow> snd (get now c k) = Some v \<Longrightarrow>
        \<exists>s. entry c k = Some (s, v) \<and> now < s + ttl c"
    and get_entry: "ok c \<Longrightarrow> entry (fst (get now c k)) j = Some x \<Longrightarrow> entry c j = Some x"
    and set_entry: "ok c \<Longrightarrow> entry (set now c k v) j = Some x \<Longrightarrow>
        (if j = k then x = (now, v) else entry c j = Some x)"
    and pop_entry: "ok c \<Longrightarrow> entry (pop c k) j = Some x \<Longrightarrow> j \<noteq> k \<and> entry c j = Some x"
begin

lemma pop_miss: "ok c \<Longrightarrow> snd (get now (pop c k) k) = None"
  using get_hit [OF ok_pop] pop_entry by (cases "snd (get now (pop c k) k)") fastforce+

lemma set_hit:
  assumes "ok c" and "snd (get t (set now c k v) k) = Some w"
  shows "w = v \<and> t < now + ttl c"
proof -
  obtain s where "entry (set now c k v) k = Some (s, w)" "t < s + ttl c"
    using get_hit [OF ok_set [OF assms(1)] assms(2)] by (auto simp: ttl_set)
  with set_entry [OF assms(1), of now k v k] show ?thesis by simp
qed

text \<open>A property of the stored values, with their times, is an invariant of all operations.\<close>

lemma entries_get:
  assumes "ok c" and "\<forall>j s v. entry c j = Some (s, v) \<longrightarrow> P j s v"
  shows "\<forall>j s v. entry (fst (get now c k)) j = Some (s, v) \<longrightarrow> P j s v"
  using assms(2) get_entry [OF assms(1)] by blast

lemma entries_pop:
  assumes "ok c" and "\<forall>j s v. entry c j = Some (s, v) \<longrightarrow> P j s v"
  shows "\<forall>j s v. entry (pop c k) j = Some (s, v) \<longrightarrow> P j s v"
  using assms(2) pop_entry [OF assms(1)] by blast

lemma entries_set:
  assumes "ok c" and "\<forall>j s v. entry c j = Some (s, v) \<longrightarrow> P j s v" and "P k now v"
  shows "\<forall>j s v'. entry (set now c k v) j = Some (s, v') \<longrightarrow> P j s v'"
proof (intro allI impI)
  fix j s v' assume e: "entry (set now c k v) j = Some (s, v')"
  show "P j s v'"
    using set_entry [OF assms(1) e] assms(2,3) by (cases "j = k") auto
qed

end

definition tc_entry :: "('k, 'v) ttl_cache \<Rightarrow> 'k \<Rightarrow> (int \<times> 'v) option" where
  "tc_entry c k = map_option (\<lambda>(e, v). (e - tc_ttl c, v)) (map_of (tc_data c) k)"

lemma tc_get_data:
  "tc_ok c \<Longrightarrow> map_of (tc_data (fst (tc_get now c k))) j = Some x \<Longrightarrow> map_of (tc_data c) j = Some x"
  using remove_notin [of k "tc_data c"]
  by (auto simp: tc_get_def map_of_remove map_of_append_last split: option.splits if_splits)

lemma tc_set_data:
  assumes "tc_ok c" and "map_of (tc_data (tc_set now c k v)) j = Some x"
  shows "if j = k then x = (now + tc_ttl c, v) else map_of (tc_data c) j = Some x"
proof -
  let ?d = "tc_remove k (tc_data c) @ [(k, now + tc_ttl c, v)]"
  have "distinct (map fst ?d)"
    using assms(1) remove_notin [of k "tc_data c"] by (auto simp: tc_ok_def distinct_remove)
  moreover have "map_of (drop (length ?d - tc_maxsize c) ?d) j = Some x"
    using assms(2) unfolding tc_set_simps .
  ultimately have "map_of ?d j = Some x" by (rule map_of_drop)
  then show ?thesis
    using remove_notin [of k "tc_data c"] by (auto simp: map_of_append_last map_of_remove split: if_splits)
qed

interpretation ttl: snapshot_cache tc_ok tc_entry tc_ttl tc_get tc_set tc_pop
proof unfold_locales
  fix c :: "('k, 'v) ttl_cache" and now k j v x
  show ttl_get: "tc_ttl (fst (tc_get now c k)) = tc_ttl c"
    by (auto simp: tc_get_def split: option.splits)
  show "tc_ttl (tc_set now c k v) = tc_ttl c" "tc_ttl (tc_pop c k) = tc_ttl c"
    by (simp_all add: tc_set_def tc_pop_def)
  show "tc_ok c \<Longrightarrow> snd (tc_get now c k) = Some v \<Longrightarrow>
      \<exists>s. tc_entry c k = Some (s, v) \<and> now < s + tc_ttl c"
    by (auto simp: tc_get_def tc_entry_def split: option.splits if_splits)
  show "tc_ok c \<Longrightarrow> tc_entry (fst (tc_get now c k)) j = Some x \<Longrightarrow> tc_entry c j = Some x"
    using tc_get_data [of c now k j] by (auto simp: tc_entry_def ttl_get)
  show "tc_ok c \<Longrightarrow> tc_entry (tc_set now c k v) j = Some x \<Longrightarrow>
      (if j = k then x = (now, v) else tc_entry c j = Some x)"
    using tc_set_data [of c now k v j] by (auto simp: tc_entry_def tc_set_simps(3) split: if_splits)
  show "tc_ok c \<Longrightarrow> tc_entry (tc_pop c k) j = Some x \<Longrightarrow> j \<noteq> k \<and> tc_entry c j = Some x"
    by (auto simp: tc_entry_def tc_pop_def map_of_remove split: if_splits)
qed (simp_all add: tc_ok_get tc_ok_set tc_ok_pop)

section \<open>Histories\<close>

text \<open>
  A history of operations on one cache, newest first, with the clock running forward:
  \<open>Some (t, v)\<close> for a value stored at \<open>t\<close>, \<open>None\<close> for a removal.
\<close>

inductive cache_run :: "('k, 'v) ttl_cache \<Rightarrow> ('k \<times> (int \<times> 'v) option) list \<Rightarrow> bool" where
  new: "cache_run (tc_new m ttl) []"
| get: "cache_run c hist \<Longrightarrow> cache_run (fst (tc_get now c k)) hist"
| set: "cache_run c hist \<Longrightarrow> cache_run (tc_set now c k v) ((k, Some (now, v)) # hist)"
| pop: "cache_run c hist \<Longrightarrow> cache_run (tc_pop c k) ((k, None) # hist)"

inductive_cases cache_runE: "cache_run c hist"

lemma cache_run_ok: "cache_run c hist \<Longrightarrow> tc_ok c"
  by (induction rule: cache_run.induct) (simp_all add: tc_ok_new tc_ok_get tc_ok_set tc_ok_pop)

lemma cache_run_entries:
  "cache_run c hist \<Longrightarrow> tc_entry c k = Some x \<Longrightarrow> map_of hist k = Some (Some x)"
proof (induction arbitrary: k x rule: cache_run.induct)
  case (new m ttl)
  then show ?case by (simp add: tc_entry_def tc_new_def)
next
  case (get c hist now j)
  with ttl.get_entry [OF cache_run_ok [OF get.hyps]] show ?case by blast
next
  case (set c hist now j v)
  with ttl.set_entry [OF cache_run_ok [OF set.hyps] set.prems] show ?case by (auto split: if_splits)
next
  case (pop c hist j)
  with ttl.pop_entry [OF cache_run_ok [OF pop.hyps] pop.prems] show ?case by simp
qed

text \<open>
  Claim C11. The cache never holds more entries than its maximum, and a lookup that hits returns
  the value stored last under the key, not removed since, and stored less than the time to live
  ago.
\<close>

theorem ttl_cache_fresh:
  assumes "cache_run c hist"
  shows "tc_len c \<le> tc_maxsize c \<and>
    (\<forall>k v. snd (tc_get now c k) = Some v \<longrightarrow>
       (\<exists>s. map_of hist k = Some (Some (s, v)) \<and> now < s + tc_ttl c))"
  using ttl.get_hit [OF cache_run_ok [OF assms]] cache_run_entries [OF assms] cache_run_ok [OF assms]
  unfolding tc_ok_def by blast

theorem ttl_cache_fresh_witness:
  "\<exists>c hist. cache_run c hist \<and> snd (tc_get 7 c ''k'') = Some ''b''
     \<and> map_of hist ''k'' = Some (Some (5, ''b'')) \<and> tc_len c \<le> tc_maxsize c"
proof -
  let ?c = "tc_set 5 (tc_set 0 (tc_new 2 10) ''k'' ''a'') ''k'' ''b''"
  let ?h = "[(''k'', Some (5::int, ''b'')), (''k'', Some (0, ''a''))]"
  have r: "cache_run ?c ?h" by (intro cache_run.set cache_run.new)
  have g: "snd (tc_get 7 ?c ''k'') = Some ''b''"
    by (simp add: tc_get_def tc_set_def tc_new_def tc_remove_def)
  from ttl_cache_fresh [OF r, of 7] have "tc_len ?c \<le> tc_maxsize ?c" by blast
  with r g show ?thesis by (intro exI [of _ ?c] exI [of _ ?h]) simp
qed

text \<open>A stored value is found again until it expires, as long as the cache has room.\<close>

lemma tc_get_set_same:
  assumes "1 \<le> tc_maxsize c" and "t < now + tc_ttl c"
  shows "snd (tc_get t (tc_set now c k v) k) = Some v"
proof -
  let ?d = "tc_remove k (tc_data c)" and ?e = "(k, now + tc_ttl c, v)"
  let ?n = "length (?d @ [?e]) - tc_maxsize c"
  have "?n - length ?d = 0" using assms(1) by simp
  then have "tc_data (tc_set now c k v) = drop ?n ?d @ [?e]"
    unfolding tc_set_simps drop_append by (simp only: drop_0)
  moreover have "k \<notin> fst ` set (drop ?n ?d)"
    using remove_notin [of k "tc_data c"] set_drop_subset [of ?n ?d] by blast
  ultimately have "map_of (tc_data (tc_set now c k v)) k = Some (now + tc_ttl c, v)"
    by (simp only: map_of_append_last not_False_eq_True simp_thms if_True)
  then show ?thesis using assms(2) by (simp add: tc_get_def)
qed

end
