(* ===== verification/Key_Cache.thy ===== *)
theory Key_Cache
  imports Commit_Laws Ttl_Cache
begin

text \<open>
  \<^verbatim>\<open>services/api_key_cache.py\<close> and \<^verbatim>\<open>core/cache_invalidate.py\<close>: the per-process snapshots of
  keys and users, and the messages that make every process drop one. The monotonic clock of the
  caches and the wall clock are one argument \<open>now\<close>.
\<close>

section \<open>Snapshots\<close>

record user_snapshot =
  un_id :: int
  un_status :: user_status
  un_plan_rpm :: int

text \<open>A worker process: its two caches; \<open>None\<close> as a cached value is the sentinel \<open>_MISSING\<close>.\<close>

record worker =
  wk_apikeys :: "(string, api_key_snapshot option) ttl_cache"
  wk_users :: "(int, user_snapshot option) ttl_cache"

abbreviation snapshot_ttl :: int where "snapshot_ttl \<equiv> 30 * us_per_second"

definition new_worker :: worker where
  "new_worker = \<lparr>wk_apikeys = tc_new 10000 snapshot_ttl, wk_users = tc_new 10000 snapshot_ttl\<rparr>"

definition snapshot_from_row :: "api_key \<Rightarrow> api_key_snapshot" where
  "snapshot_from_row row =
     \<lparr>sn_id = ak_id row, sn_user_id = ak_user_id row, sn_key_hash = ak_key_hash row,
      sn_status = ak_status row, sn_quota_cents = ak_quota_cents row,
      sn_quota_mode = ak_quota_mode row, sn_quota_period = ak_quota_period row,
      sn_quota_period_start = ak_quota_period_start row,
      sn_quota_period_end = ak_quota_period_end row, sn_expires_at = ak_expires_at row\<rparr>"

definition key_by_hash :: "session \<Rightarrow> string \<Rightarrow> api_key option" where
  \<comment> \<open>\<open>select(ApiKey).where(ApiKey.key_hash == h)\<close>; the column is unique\<close>
  "key_by_hash db h = find (\<lambda>k. ak_key_hash k = h) (api_keys db)"

definition get_apikey_snapshot ::
    "datetime \<Rightarrow> session \<Rightarrow> worker \<Rightarrow> string \<Rightarrow> worker \<times> api_key_snapshot option" where
  "get_apikey_snapshot now db w h =
     (case tc_get now (wk_apikeys w) h of
        (c, Some cached) \<Rightarrow> (w\<lparr>wk_apikeys := c\<rparr>, cached)
      | (c, None) \<Rightarrow>
          (let found = map_option snapshot_from_row (key_by_hash db h)
           in (w\<lparr>wk_apikeys := tc_set now c h found\<rparr>, found)))"

definition resolve_plan_rpm :: "int \<Rightarrow> datetime \<Rightarrow> session \<Rightarrow> int \<Rightarrow> int" where
  "resolve_plan_rpm default_rpm now db uid =
     (case sort_key (\<lambda>(t, l). - t) (rpm_candidates now db uid) of
        (t, JObj d) # _ \<Rightarrow>
          (let rpm = dict_get_none d ''rpm'' in
           if d \<noteq> [] \<and> is_int rpm \<and> as_int rpm > 0 then as_int rpm else default_rpm)
      | _ \<Rightarrow> default_rpm)"

definition get_user_snapshot ::
    "int \<Rightarrow> datetime \<Rightarrow> session \<Rightarrow> worker \<Rightarrow> int \<Rightarrow> worker \<times> user_snapshot option" where
  "get_user_snapshot default_rpm now db w uid =
     (case tc_get now (wk_users w) uid of
        (c, Some cached) \<Rightarrow> (w\<lparr>wk_users := c\<rparr>, cached)
      | (c, None) \<Rightarrow>
          (let found = map_option (\<lambda>u. \<lparr>un_id = us_id u, un_status = us_status u,
                         un_plan_rpm = resolve_plan_rpm default_rpm now db uid\<rparr>)
                       (row_get us_id uid (users db))
           in (w\<lparr>wk_users := tc_set now c uid found\<rparr>, found)))"

definition update_apikey_snapshot :: "datetime \<Rightarrow> api_key \<Rightarrow> worker \<Rightarrow> worker" where
  "update_apikey_snapshot now row w =
     w\<lparr>wk_apikeys := tc_set now (wk_apikeys w) (ak_key_hash row) (Some (snapshot_from_row row))\<rparr>"

section \<open>Invalidation messages\<close>

definition local_evict_apikey :: "string \<Rightarrow> worker \<Rightarrow> worker" where
  "local_evict_apikey h w = w\<lparr>wk_apikeys := tc_pop (wk_apikeys w) h\<rparr>"

definition local_evict_user :: "string \<Rightarrow> worker \<Rightarrow> worker" where
  "local_evict_user uid_str w =
     (case int_of_text uid_str of
        Inr uid \<Rightarrow> w\<lparr>wk_users := tc_pop (wk_users w) uid\<rparr>
      | Inl e \<Rightarrow> w)"

definition cache_handlers :: "string \<Rightarrow> (string \<Rightarrow> worker \<Rightarrow> worker) option" where
  \<comment> \<open>\<open>_handlers\<close> after the two \<open>register\<close> calls\<close>
  "cache_handlers =
     [''apikey'' \<mapsto> local_evict_apikey, ''user'' \<mapsto> local_evict_user]"

definition dispatch :: "string \<Rightarrow> string \<Rightarrow> worker \<Rightarrow> worker" where
  "dispatch kind key w = (case cache_handlers kind of None \<Rightarrow> w | Some handler \<Rightarrow> handler key w)"

definition publish :: "bool \<Rightarrow> string \<Rightarrow> string \<Rightarrow> worker \<Rightarrow> worker \<times> string list" where
  \<comment> \<open>the local handler, then the message on the channel when Redis is up\<close>
  "publish up kind key w =
     (dispatch kind key w, if up then [kind @ '':'' @ key] else [])"

definition on_message :: "string \<Rightarrow> worker \<Rightarrow> worker" where
  \<comment> \<open>the body of the listener's loop\<close>
  "on_message data w =
     (case py_partition_chr (CHR '':'') data of
        (kind, sep, key) \<Rightarrow> if \<not> sep then w else dispatch kind key w)"

definition invalidate_apikey :: "bool \<Rightarrow> string \<Rightarrow> worker \<Rightarrow> worker \<times> string list" where
  "invalidate_apikey up h w = publish up ''apikey'' h w"

definition invalidate_user :: "bool \<Rightarrow> int \<Rightarrow> worker \<Rightarrow> worker \<times> string list" where
  "invalidate_user up uid w = publish up ''user'' (str_int uid) w"

section \<open>Laws\<close>

lemma snapshot_miss:
  "snd (tc_get now (wk_apikeys w) h) = None \<Longrightarrow> get_apikey_snapshot now db w h =
     (w\<lparr>wk_apikeys := tc_set now (fst (tc_get now (wk_apikeys w) h)) h
         (map_option snapshot_from_row (key_by_hash db h))\<rparr>,
      map_option snapshot_from_row (key_by_hash db h))"
  by (cases "tc_get now (wk_apikeys w) h") (simp add: get_apikey_snapshot_def Let_def)

lemma snapshot_hit:
  "snd (tc_get now (wk_apikeys w) h) = Some x \<Longrightarrow> get_apikey_snapshot now db w h =
     (w\<lparr>wk_apikeys := fst (tc_get now (wk_apikeys w) h)\<rparr>, x)"
  by (cases "tc_get now (wk_apikeys w) h") (simp add: get_apikey_snapshot_def)

lemma resolve_plan_rpm_eq: "resolve_plan_rpm default_rpm now db uid = user_rpm default_rpm now db uid"
  by (auto simp: resolve_plan_rpm_def user_rpm_def plan_rpm_def Let_def dict_get_none_def
      split: list.splits json.splits)

text \<open>
  A message that one process publishes has the same effect in every other process as
  the local handler has in the publisher, whatever characters the key contains.
\<close>

theorem message_roundtrip:
  assumes "cache_handlers kind \<noteq> None"
  shows "map (\<lambda>m. on_message m w) (snd (publish True kind key v)) = [dispatch kind key w]
    \<and> fst (publish True kind key w) = dispatch kind key w"
proof -
  have "CHR '':'' \<notin> set kind" using assms by (auto simp: cache_handlers_def split: if_splits)
  from py_partition_found [OF this, of key] show ?thesis
    by (simp add: publish_def on_message_def)
qed

theorem message_roundtrip_witness:
  "map (\<lambda>m. on_message m new_worker) (snd (publish True ''apikey'' ''a:b'' new_worker))
     = [local_evict_apikey ''a:b'' new_worker]"
  using message_roundtrip [of "''apikey''" new_worker "''a:b''" new_worker]
  by (simp add: cache_handlers_def dispatch_def)

text \<open>
  A worker's life against a database that changes over time: \<open>db_at t\<close> is the committed state at
  \<open>t\<close>. A process stores a row in its cache right after committing it.
\<close>

inductive worker_run :: "(datetime \<Rightarrow> session) \<Rightarrow> worker \<Rightarrow> bool" for db_at where
  start: "worker_run db_at new_worker"
| lookup: "worker_run db_at w \<Longrightarrow> worker_run db_at (fst (get_apikey_snapshot now (db_at now) w h))"
| seed: "worker_run db_at w \<Longrightarrow> key_by_hash (db_at now) (ak_key_hash row) = Some row \<Longrightarrow>
    worker_run db_at (update_apikey_snapshot now row w)"
| message: "worker_run db_at w \<Longrightarrow> worker_run db_at (on_message m w)"
| user_lookup: "worker_run db_at w \<Longrightarrow>
    worker_run db_at (fst (get_user_snapshot default_rpm now (db_at now) w uid))"

definition snapshots_true :: "(datetime \<Rightarrow> session) \<Rightarrow> worker \<Rightarrow> bool" where
  "snapshots_true db_at w \<longleftrightarrow> tc_ok (wk_apikeys w) \<and> tc_ttl (wk_apikeys w) = snapshot_ttl
     \<and> (\<forall>h s v. tc_entry (wk_apikeys w) h = Some (s, v) \<longrightarrow>
          v = map_option snapshot_from_row (key_by_hash (db_at s) h))"

lemma snapshots_true_lookup:
  assumes "snapshots_true db_at w"
  shows "snapshots_true db_at (fst (get_apikey_snapshot now (db_at now) w h))"
proof -
  have ok: "tc_ok (wk_apikeys w)" and ttl: "tc_ttl (wk_apikeys w) = snapshot_ttl"
    and e: "\<forall>j s v. tc_entry (wk_apikeys w) j = Some (s, v) \<longrightarrow>
        v = map_option snapshot_from_row (key_by_hash (db_at s) j)"
    using assms unfolding snapshots_true_def by blast+
  let ?c = "fst (tc_get now (wk_apikeys w) h)"
  let ?v = "map_option snapshot_from_row (key_by_hash (db_at now) h)"
  note eg = ttl.entries_get [OF ok e, of now h]
  note okg = ttl.ok_get [OF ok, of now h]
  note es = ttl.entries_set [OF okg eg, where k = h and now = now and v = ?v]
  show ?thesis
  proof (cases "snd (tc_get now (wk_apikeys w) h)")
    case None
    with es ttl snapshot_miss [OF None, of "db_at now"] show ?thesis
      by (simp add: snapshots_true_def ttl.ok_set [OF okg] ttl.ttl_set ttl.ttl_get)
  next
    case (Some x)
    with eg okg ttl snapshot_hit [OF Some, of "db_at now"] show ?thesis by (simp add: snapshots_true_def ttl.ttl_get)
  qed
qed

lemma snapshots_true_seed:
  assumes "snapshots_true db_at w" and "key_by_hash (db_at now) (ak_key_hash row) = Some row"
  shows "snapshots_true db_at (update_apikey_snapshot now row w)"
proof -
  have ok: "tc_ok (wk_apikeys w)" and ttl: "tc_ttl (wk_apikeys w) = snapshot_ttl"
    and e: "\<forall>j s v. tc_entry (wk_apikeys w) j = Some (s, v) \<longrightarrow>
        v = map_option snapshot_from_row (key_by_hash (db_at s) j)"
    using assms(1) unfolding snapshots_true_def by blast+
  from ttl.entries_set [OF ok e, where k = "ak_key_hash row" and now = now
      and v = "Some (snapshot_from_row row)"] assms(2) ttl
  show ?thesis
    by (simp add: snapshots_true_def update_apikey_snapshot_def ttl.ok_set [OF ok] ttl.ttl_set)
qed

lemma snapshots_true_dispatch:
  assumes "snapshots_true db_at w"
  shows "snapshots_true db_at (dispatch kind key w)"
proof -
  have ok: "tc_ok (wk_apikeys w)" and ttl: "tc_ttl (wk_apikeys w) = snapshot_ttl"
    and e: "\<forall>j s v. tc_entry (wk_apikeys w) j = Some (s, v) \<longrightarrow>
        v = map_option snapshot_from_row (key_by_hash (db_at s) j)"
    using assms unfolding snapshots_true_def by blast+
  have "snapshots_true db_at (local_evict_apikey key w)"
    using ttl.entries_pop [OF ok e, of key] ttl
    by (simp add: snapshots_true_def local_evict_apikey_def ttl.ok_pop [OF ok] ttl.ttl_pop)
  moreover have "snapshots_true db_at (local_evict_user key w)"
    using assms by (auto simp: snapshots_true_def local_evict_user_def split: sum.splits)
  ultimately show ?thesis using assms by (simp add: dispatch_def cache_handlers_def)
qed

lemma worker_run_true: "worker_run db_at w \<Longrightarrow> snapshots_true db_at w"
proof (induction rule: worker_run.induct)
  case start
  then show ?case
    by (simp add: snapshots_true_def new_worker_def tc_ok_new) (simp add: tc_entry_def tc_new_def)
next
  case (lookup w now h)
  then show ?case by (intro snapshots_true_lookup)
next
  case (seed w now row)
  then show ?case by (intro snapshots_true_seed)
next
  case (message w m)
  then show ?case by (auto simp: on_message_def snapshots_true_dispatch split: prod.splits)
next
  case (user_lookup w default_rpm now uid)
  then show ?case
    by (simp add: snapshots_true_def get_user_snapshot_def Let_def split: prod.splits option.splits)
qed

text \<open>
  The key snapshot a process works with is what the database held at some moment less
  than thirty seconds ago, whether or not invalidation messages arrive.
\<close>

theorem snapshot_staleness:
  assumes "worker_run db_at w"
  shows "\<exists>s. now < s + snapshot_ttl \<and> snd (get_apikey_snapshot now (db_at now) w h)
     = map_option snapshot_from_row (key_by_hash (db_at s) h)"
proof (cases "snd (tc_get now (wk_apikeys w) h)")
  case None
  from snapshot_miss [OF this, of "db_at now"] show ?thesis by (intro exI [of _ now]) simp
next
  case (Some x)
  note t = worker_run_true [OF assms]
  obtain s where s: "tc_entry (wk_apikeys w) h = Some (s, x)" "now < s + tc_ttl (wk_apikeys w)"
    using ttl.get_hit [OF _ Some] t unfolding snapshots_true_def by blast
  with t have "x = map_option snapshot_from_row (key_by_hash (db_at s) h)"
    and "now < s + snapshot_ttl" unfolding snapshots_true_def by auto
  with snapshot_hit [OF Some, of "db_at now"] show ?thesis by (intro exI [of _ s]) simp
qed

theorem snapshot_staleness_witness:
  "\<exists>s. 0 < s + snapshot_ttl \<and> snd (get_apikey_snapshot 0 demo_db new_worker ''h'')
     = map_option snapshot_from_row (key_by_hash demo_db ''h'')"
  using snapshot_staleness [OF worker_run.start [of "\<lambda>t. demo_db"], of 0 "''h''"] by simp

text \<open>
  In a process that has handled the invalidation message of a key, the next lookup of
  that key returns the committed row.
\<close>

theorem invalidated_key_is_fresh:
  assumes "worker_run db_at w" and "m \<in> set (snd (invalidate_apikey up h v))"
  shows "snd (get_apikey_snapshot now db (on_message m w) h) = map_option snapshot_from_row (key_by_hash db h)"
proof -
  have "m = ''apikey'' @ '':'' @ h" using assms(2) by (auto simp: invalidate_apikey_def publish_def split: if_splits)
  then have "on_message m w = local_evict_apikey h w"
    using py_partition_found [of "CHR '':''" "''apikey''" h]
    by (simp add: on_message_def dispatch_def cache_handlers_def)
  moreover have "snd (tc_get now (tc_pop (wk_apikeys w) h) h) = None"
    using worker_run_true [OF assms(1)] unfolding snapshots_true_def by (intro ttl.pop_miss) blast
  ultimately show ?thesis
    using snapshot_miss [of now "local_evict_apikey h w" h db] by (simp add: local_evict_apikey_def)
qed

theorem invalidated_key_is_fresh_witness:
  "snd (get_apikey_snapshot 5 demo_db (on_message ''apikey:h'' new_worker) ''h'')
     = map_option snapshot_from_row (key_by_hash demo_db ''h'')"
  by (rule invalidated_key_is_fresh [OF worker_run.start, where up = True and v = new_worker])
    (simp add: invalidate_apikey_def publish_def)

end
