(* ===== verification/Api_Keys.thy ===== *)
theory Api_Keys
  imports Key_Cache
begin

text \<open>
  The life of an API key: \<^verbatim>\<open>services/api_key.py\<close> (quota windows, lazy state enforcement),
  \<^verbatim>\<open>services/api_key_expiry.py\<close> (the sweeper), \<^verbatim>\<open>api/v1/api_keys.py\<close> (the endpoints) and
  \<^verbatim>\<open>core/deps.py\<close> (authentication). Hashing, token decoding and key generation are parameters.
\<close>

section \<open>Quota windows\<close>

fun next_quota_window :: "datetime \<Rightarrow> quota_period \<Rightarrow> datetime" where
  "next_quota_window start day = start + timedelta_days 1"
| "next_quota_window start week = start + timedelta_days 7"
| "next_quota_window start month = next_period_end start"

definition init_periodic_window :: "datetime \<Rightarrow> quota_period \<Rightarrow> datetime \<times> datetime" where
  "init_periodic_window now p = (now, next_quota_window now p)"

lemma next_quota_window_later: "start < next_quota_window start p"
  by (cases p) (simp_all add: timedelta_days_def next_period_end_later)

function roll_forward :: "quota_period \<Rightarrow> datetime \<Rightarrow> datetime \<Rightarrow> datetime \<Rightarrow> datetime \<times> datetime" where
  \<comment> \<open>\<open>while new_end <= now\<close>\<close>
  "roll_forward p now new_start new_end =
     (if new_end \<le> now then roll_forward p now new_end (next_quota_window new_end p)
      else (new_start, new_end))"
  by pat_completeness auto

termination
proof (relation "measure (\<lambda>(p, now, s, e). nat (now + 1 - e))")
  fix p :: quota_period and now s e :: datetime
  assume "e \<le> now"
  then show "((p, now, e, next_quota_window e p), p, now, s, e) \<in> measure (\<lambda>(p, now, s, e). nat (now + 1 - e))"
    using next_quota_window_later [of e p] by simp
qed simp

declare roll_forward.simps [simp del]

definition needs_expire :: "datetime \<Rightarrow> key_status \<Rightarrow> datetime option \<Rightarrow> bool" where
  "needs_expire now st expires_at \<longleftrightarrow>
     st = key_active \<and> (case expires_at of None \<Rightarrow> False | Some t \<Rightarrow> t \<le> now)"

definition window_over ::
    "datetime \<Rightarrow> quota_mode \<Rightarrow> quota_period option \<Rightarrow> datetime option \<Rightarrow> bool" where
  "window_over now mode period_opt end_opt \<longleftrightarrow>
     mode = periodic \<and> period_opt \<noteq> None \<and> (case end_opt of None \<Rightarrow> False | Some t \<Rightarrow> t \<le> now)"

definition rolled :: "datetime \<Rightarrow> api_key \<Rightarrow> api_key" where
  \<comment> \<open>the assignments that move a key to the window containing \<open>now\<close>\<close>
  "rolled now k =
     (case (ak_quota_period k, ak_quota_period_end k) of
        (Some p, Some e) \<Rightarrow>
          (case roll_forward p now e (next_quota_window e p) of
             (s', e') \<Rightarrow> k\<lparr>ak_quota_period_start := Some s', ak_quota_period_end := Some e',
                          ak_used_cents := 0\<rparr>)
      | _ \<Rightarrow> k)"

definition put_key :: "api_key \<Rightarrow> session \<Rightarrow> session" where
  \<comment> \<open>the flush of a key that was loaded in this transaction\<close>
  "put_key k db = upd_api_key (ak_id k) (\<lambda>r. k) db"

definition enforce_key_state :: "datetime \<Rightarrow> session \<Rightarrow> api_key \<Rightarrow> session \<times> api_key result" where
  "enforce_key_state now db k =
     (if needs_expire now (ak_status k) (ak_expires_at k) then
        (put_key (k\<lparr>ak_status := key_expired\<rparr>) db, Inl (http 401 ''api key expired''))
      else if ak_status k = key_active
              \<and> window_over now (ak_quota_mode k) (ak_quota_period k) (ak_quota_period_end k) then
        (put_key (rolled now k) db, Inr (rolled now k))
      else (db, Inr k))"

text \<open>
  The variant of the request path: it works on a snapshot, reads the row only when the snapshot
  calls for a change, and then also touches the caches of its process and of Redis.
\<close>

definition enforce_key_state_cached ::
    "datetime \<Rightarrow> session \<Rightarrow> worker \<Rightarrow> redis \<Rightarrow> api_key_snapshot
       \<Rightarrow> session \<times> worker \<times> redis \<times> api_key_snapshot result" where
  "enforce_key_state_cached now db w r snap =
     (let expire = needs_expire now (sn_status snap) (sn_expires_at snap);
          roll = (sn_status snap = key_active
                  \<and> window_over now (sn_quota_mode snap) (sn_quota_period snap) (sn_quota_period_end snap))
      in if \<not> expire \<and> \<not> roll then (db, w, r, Inr snap)
         else case row_get ak_id (sn_id snap) (api_keys db) of
           None \<Rightarrow>
             (db, fst (invalidate_apikey (r_up r) (sn_key_hash snap) w), r,
              Inl (http 401 ''api key not found''))
         | Some row \<Rightarrow>
             if expire \<and> needs_expire now (ak_status row) (ak_expires_at row) then
               (let row' = row\<lparr>ak_status := key_expired\<rparr>
                in (put_key row' db,
                    fst (invalidate_apikey (r_up r) (ak_key_hash row') (update_apikey_snapshot now row' w)),
                    r, Inl (http 401 ''api key expired'')))
             else
               (let do_roll = (roll \<and> window_over now (ak_quota_mode row) (ak_quota_period row)
                                        (ak_quota_period_end row));
                    old_ws = (case ak_quota_period_start row of None \<Rightarrow> 0 | Some t \<Rightarrow> timestamp_int t);
                    row' = (if do_roll then rolled now row else row);
                    db' = (if do_roll then put_key row' db else db);
                    w' = fst (invalidate_apikey (r_up r) (ak_key_hash row')
                                (update_apikey_snapshot now row' w));
                    r' = (if do_roll then apply_window_roll (sn_id snap) old_ws r else r)
                in (db', w', r', Inr (snapshot_from_row row'))))"

section \<open>The expiry sweeper\<close>

definition due_keys :: "datetime \<Rightarrow> session \<Rightarrow> api_key list" where
  "due_keys now db = filter (\<lambda>k. needs_expire now (ak_status k) (ak_expires_at k)) (api_keys db)"

definition expiry_scan_once :: "datetime \<Rightarrow> session \<Rightarrow> worker \<Rightarrow> bool \<Rightarrow> session \<times> worker" where
  "expiry_scan_once now db w up =
     (let hashes = map ak_key_hash (due_keys now db) in
      if hashes = [] then (db, w)
      else (db\<lparr>api_keys := map (\<lambda>k. if needs_expire now (ak_status k) (ak_expires_at k)
                                     then k\<lparr>ak_status := key_expired\<rparr> else k) (api_keys db)\<rparr>,
            foldl (\<lambda>w h. fst (invalidate_apikey up h w)) w hashes))"

section \<open>The key endpoints\<close>

definition parse_mode :: "string option \<Rightarrow> quota_mode result" where
  "parse_mode raw =
     (case raw of
        None \<Rightarrow> Inr until_depleted
      | Some s \<Rightarrow>
          if s = ''until_depleted'' then Inr until_depleted
          else if s = ''periodic'' then Inr periodic
          else Inl (http 400 (''invalid quota_mode: '' @ s)))"

definition parse_period :: "string option \<Rightarrow> quota_period option result" where
  "parse_period raw =
     (case raw of
        None \<Rightarrow> Inr None
      | Some s \<Rightarrow>
          if s = ''day'' then Inr (Some day)
          else if s = ''week'' then Inr (Some week)
          else if s = ''month'' then Inr (Some month)
          else Inl (http 400 (''invalid quota_period: '' @ s)))"

definition validate_mode_period :: "quota_mode \<Rightarrow> quota_period option \<Rightarrow> unit result" where
  "validate_mode_period mode p =
     (if mode = periodic \<and> p = None then
        Inl (http 400 ''quota_period is required when quota_mode=periodic'')
      else if mode = until_depleted \<and> p \<noteq> None then
        Inl (http 400 ''quota_period must be null when quota_mode=until_depleted'')
      else Inr ())"

definition list_keys :: "session \<Rightarrow> user \<Rightarrow> api_key list" where
  "list_keys db u = sort_key (\<lambda>k. - ak_id k) (filter (\<lambda>k. ak_user_id k = us_id u) (api_keys db))"

record api_key_create =
  kc_name :: string
  kc_quota_cents :: int
  kc_expires_at :: "datetime option"
  kc_quota_mode :: string
  kc_quota_period :: "string option"

record api_key_update =
  ku_name :: "string option"
  ku_quota_cents :: "int option"
  ku_expires_at :: "datetime option"
  ku_clear_expires_at :: bool
  ku_quota_mode :: "string option"
  ku_quota_period :: "string option"

definition with_window :: "datetime \<Rightarrow> api_key \<Rightarrow> api_key" where
  \<comment> \<open>a fresh window for a periodic key, none for the others\<close>
  "with_window now k =
     (case (ak_quota_mode k, ak_quota_period k) of
        (periodic, Some p) \<Rightarrow>
          (case init_periodic_window now p of
             (s, e) \<Rightarrow> k\<lparr>ak_quota_period_start := Some s, ak_quota_period_end := Some e\<rparr>)
      | _ \<Rightarrow> k\<lparr>ak_quota_period_start := None, ak_quota_period_end := None\<rparr>)"

definition create_key ::
    "string \<times> string \<times> string \<Rightarrow> datetime \<Rightarrow> session \<Rightarrow> worker \<Rightarrow> user \<Rightarrow> api_key_create
       \<Rightarrow> (session \<times> worker \<times> api_key \<times> string) result" where
  \<comment> \<open>the first argument is the result of \<open>generate_api_key()\<close>: plain text, prefix, hash\<close>
  "create_key generated now db w u req =
     bind_result (parse_mode (Some (kc_quota_mode req))) (\<lambda>mode.
     bind_result (parse_period (kc_quota_period req)) (\<lambda>p.
     bind_result (validate_mode_period mode p) (\<lambda>_.
       case generated of (plain, pre, key_hash) \<Rightarrow>
         let row = with_window now \<lparr>ak_id = seq_api_keys db, ak_user_id = us_id u,
                     ak_name = kc_name req, ak_key_hash = key_hash, ak_key_prefix = pre,
                     ak_status = key_active, ak_quota_cents = kc_quota_cents req,
                     ak_used_cents = 0, ak_expires_at = kc_expires_at req, ak_quota_mode = mode,
                     ak_quota_period = p, ak_quota_period_start = None,
                     ak_quota_period_end = None\<rparr>
         in Inr (db\<lparr>api_keys := api_keys db @ [row], seq_api_keys := seq_api_keys db + 1\<rparr>,
                 update_apikey_snapshot now row w, row, plain))))"

definition own_key :: "session \<Rightarrow> user \<Rightarrow> int \<Rightarrow> api_key result" where
  "own_key db u key_id =
     (case row_get ak_id key_id (api_keys db) of
        None \<Rightarrow> Inl (http 404 ''not found'')
      | Some k \<Rightarrow> if ak_user_id k \<noteq> us_id u then Inl (http 404 ''not found'') else Inr k)"

definition refresh_key :: "datetime \<Rightarrow> bool \<Rightarrow> api_key \<Rightarrow> worker \<Rightarrow> worker" where
  \<comment> \<open>\<open>update_apikey_snapshot(row)\<close>, then \<open>invalidate_apikey(row.key_hash)\<close>\<close>
  "refresh_key now up row w =
     fst (invalidate_apikey up (ak_key_hash row) (update_apikey_snapshot now row w))"

definition update_fields :: "api_key_update \<Rightarrow> api_key \<Rightarrow> api_key" where
  "update_fields req k =
     k\<lparr>ak_name := (case ku_name req of None \<Rightarrow> ak_name k | Some s \<Rightarrow> s),
       ak_quota_cents := (case ku_quota_cents req of None \<Rightarrow> ak_quota_cents k | Some q \<Rightarrow> q),
       ak_expires_at := (if ku_clear_expires_at req then None
                         else case ku_expires_at req of None \<Rightarrow> ak_expires_at k | Some t \<Rightarrow> Some t)\<rparr>"

definition update_key ::
    "datetime \<Rightarrow> session \<Rightarrow> worker \<Rightarrow> redis \<Rightarrow> user \<Rightarrow> int \<Rightarrow> api_key_update
       \<Rightarrow> (session \<times> worker \<times> redis \<times> api_key) result" where
  "update_key now db w r u key_id req =
     bind_result (own_key db u key_id) (\<lambda>k.
     bind_result (case ku_quota_mode req of None \<Rightarrow> Inr (ak_quota_mode k) | Some s \<Rightarrow> parse_mode (Some s))
       (\<lambda>mode.
     bind_result (case ku_quota_period req of None \<Rightarrow> Inr (ak_quota_period k) | Some s \<Rightarrow> parse_period (Some s))
       (\<lambda>p.
     bind_result (validate_mode_period mode p) (\<lambda>_.
       let changed = (mode \<noteq> ak_quota_mode k \<or> p \<noteq> ak_quota_period k);
           k1 = (update_fields req k)\<lparr>ak_quota_mode := mode, ak_quota_period := p\<rparr>;
           k2 = (if changed then with_window now (k1\<lparr>ak_used_cents := 0\<rparr>) else k1)
       in Inr (put_key k2 db, refresh_key now (r_up r) k2 w,
               (if changed then apply_window_roll (ak_id k2) 0 r else r), k2)))))"

definition delete_key ::
    "session \<Rightarrow> worker \<Rightarrow> bool \<Rightarrow> user \<Rightarrow> int \<Rightarrow> (session \<times> worker) result" where
  "delete_key db w up u key_id =
     bind_result (own_key db u key_id) (\<lambda>k.
       Inr (db\<lparr>api_keys := row_del ak_id key_id (api_keys db)\<rparr>,
            fst (invalidate_apikey up (ak_key_hash k) w)))"

definition disable_key ::
    "datetime \<Rightarrow> session \<Rightarrow> worker \<Rightarrow> bool \<Rightarrow> user \<Rightarrow> int \<Rightarrow> (session \<times> worker \<times> api_key) result" where
  "disable_key now db w up u key_id =
     bind_result (own_key db u key_id) (\<lambda>k.
       let k' = k\<lparr>ak_status := key_disabled\<rparr>
       in Inr (put_key k' db, refresh_key now up k' w, k'))"

definition enable_key ::
    "datetime \<Rightarrow> session \<Rightarrow> worker \<Rightarrow> bool \<Rightarrow> user \<Rightarrow> int \<Rightarrow> (session \<times> worker \<times> api_key) result" where
  "enable_key now db w up u key_id =
     bind_result (own_key db u key_id) (\<lambda>k.
       if (case ak_expires_at k of None \<Rightarrow> False | Some t \<Rightarrow> t \<le> now) then
         Inl \<lparr>status_code = 400, detail = JObj [
            (''code'', JStr ''extend_expires_at_first''),
            (''message'', JStr ''expires_at is in the past; update it to a future time before re-enabling'')]\<rparr>
       else
         let k' = k\<lparr>ak_status := key_active\<rparr>
         in Inr (put_key k' db, refresh_key now up k' w, k'))"

section \<open>Authentication\<close>

definition bearer_token :: "string \<Rightarrow> string option \<Rightarrow> string result" where
  "bearer_token msg authorization =
     (case authorization of
        None \<Rightarrow> Inl (http 401 msg)
      | Some a \<Rightarrow>
          if a = [] \<or> \<not> py_startswith (py_lower a) ''bearer '' then Inl (http 401 msg)
          else Inr (py_strip (py_after (CHR '' '') a)))"

definition plain_from_bearer :: "string option \<Rightarrow> string result" where
  "plain_from_bearer authorization = bearer_token ''missing api key'' authorization"

definition get_current_user ::
    "(string \<Rightarrow> string + dict) \<Rightarrow> session \<Rightarrow> string option \<Rightarrow> user result" where
  \<comment> \<open>\<open>decode_token\<close> gives the claims of a valid token, or the message of its error; a token without a
      numeric \<open>sub\<close> raises\<close>
  "get_current_user decode_token db authorization =
     bind_result (bearer_token ''missing bearer token'' authorization) (\<lambda>token.
       case decode_token token of
         Inl msg \<Rightarrow> Inl (http 401 msg)
       | Inr payload \<Rightarrow>
           (case map_option py_int (dict_get payload ''sub'') of
              Some (Inr uid) \<Rightarrow>
                (case row_get us_id uid (users db) of
                   None \<Rightarrow> Inl (http 401 ''user not found or disabled'')
                 | Some u \<Rightarrow> if us_status u \<noteq> user_active
                             then Inl (http 401 ''user not found or disabled'') else Inr u)
            | _ \<Rightarrow> Inl internal_error))"

definition require_admin :: "user \<Rightarrow> user result" where
  "require_admin u = (if us_role u \<noteq> role_admin then Inl (http 403 ''admin required'') else Inr u)"

fun key_status_value :: "key_status \<Rightarrow> string" where
  "key_status_value key_active = ''active''"
| "key_status_value key_disabled = ''disabled''"
| "key_status_value key_expired = ''expired''"

definition load_api_key_from_plain ::
    "(string \<Rightarrow> string) \<Rightarrow> datetime \<Rightarrow> session \<Rightarrow> string \<Rightarrow> session \<times> (api_key \<times> user) result" where
  "load_api_key_from_plain hash_api_key now db plain =
     (if \<not> py_startswith plain ''sk-'' then (db, Inl (http 401 ''invalid api key format''))
      else case key_by_hash db (hash_api_key plain) of
        None \<Rightarrow> (db, Inl (http 401 ''invalid api key''))
      | Some row \<Rightarrow>
          (case enforce_key_state now db row of
             (db', Inl e) \<Rightarrow> (db', Inl e)
           | (db', Inr k) \<Rightarrow>
               if ak_status k \<noteq> key_active then
                 (db', Inl (http 401 (''api key '' @ key_status_value (ak_status k))))
               else case row_get us_id (ak_user_id k) (users db') of
                 None \<Rightarrow> (db', Inl (http 401 ''user disabled''))
               | Some u \<Rightarrow> if us_status u \<noteq> user_active then (db', Inl (http 401 ''user disabled''))
                           else (db', Inr (k, u))))"

definition get_api_key ::
    "(string \<Rightarrow> string) \<Rightarrow> datetime \<Rightarrow> session \<Rightarrow> string option \<Rightarrow> session \<times> (api_key \<times> user) result" where
  "get_api_key hash_api_key now db authorization =
     (case plain_from_bearer authorization of
        Inl e \<Rightarrow> (db, Inl e)
      | Inr plain \<Rightarrow> load_api_key_from_plain hash_api_key now db plain)"

definition get_api_key_any ::
    "(string \<Rightarrow> string) \<Rightarrow> datetime \<Rightarrow> session \<Rightarrow> string option \<Rightarrow> string option
       \<Rightarrow> session \<times> (api_key \<times> user) result" where
  "get_api_key_any hash_api_key now db authorization x_api_key =
     (let x = py_strip (case x_api_key of None \<Rightarrow> [] | Some s \<Rightarrow> s) in
      if x \<noteq> [] then load_api_key_from_plain hash_api_key now db x
      else get_api_key hash_api_key now db authorization)"

end
