(* ===== verification/Key_Laws.thy ===== *)
theory Key_Laws
  imports Api_Keys
begin

text \<open>
  What the key life cycle guarantees: a request is only let through with an active key of an
  active user in a current window, the snapshot variant does what the row variant does, and the
  endpoints keep keys well-formed.
\<close>

section \<open>Rolling\<close>

lemma roll_forward_current:
  assumes "s \<le> now" and "e = next_quota_window s p" and "roll_forward p now s e = (s', e')"
  shows "s' \<le> now \<and> now < e' \<and> e' = next_quota_window s' p \<and> s \<le> s'"
  using assms
proof (induction p now s e rule: roll_forward.induct)
  case (1 p now s e)
  show ?case
  proof (cases "e \<le> now")
    case True
    have "roll_forward p now e (next_quota_window e p) = (s', e')"
      using "1.prems"(3) True by (simp add: roll_forward.simps [of p now s e])
    with "1.IH" [OF True True refl] have "s' \<le> now \<and> now < e' \<and> e' = next_quota_window s' p \<and> e \<le> s'" .
    with next_quota_window_later [of s p] "1.prems"(2) show ?thesis by auto
  next
    case False
    then have "s' = s" and "e' = e"
      using "1.prems"(3) by (simp_all add: roll_forward.simps [of p now s e])
    with False "1.prems" show ?thesis by simp
  qed
qed

lemma rolled_window:
  assumes "ak_quota_period k = Some p" and "ak_quota_period_end k = Some e" and "e \<le> now"
  shows "\<exists>s' e'. rolled now k = k\<lparr>ak_quota_period_start := Some s', ak_quota_period_end := Some e',
      ak_used_cents := 0\<rparr> \<and> e \<le> s' \<and> s' \<le> now \<and> now < e' \<and> e' = next_quota_window s' p"
proof -
  obtain s' e' where r: "roll_forward p now e (next_quota_window e p) = (s', e')" by force
  from r assms(1,2) have "rolled now k = k\<lparr>ak_quota_period_start := Some s', ak_quota_period_end := Some e',
      ak_used_cents := 0\<rparr>" by (simp add: rolled_def)
  with roll_forward_current [OF assms(3) refl r] show ?thesis by blast
qed

lemma rolled_same [simp]:
  "ak_id (rolled now k) = ak_id k" "ak_status (rolled now k) = ak_status k"
  "ak_user_id (rolled now k) = ak_user_id k" "ak_key_hash (rolled now k) = ak_key_hash k"
  "ak_expires_at (rolled now k) = ak_expires_at k" "ak_quota_mode (rolled now k) = ak_quota_mode k"
  "ak_quota_period (rolled now k) = ak_quota_period k" "ak_quota_cents (rolled now k) = ak_quota_cents k"
  by (auto simp: rolled_def split: option.splits prod.splits)

section \<open>Well-formed keys\<close>

definition key_wf :: "api_key \<Rightarrow> bool" where
  "key_wf k \<longleftrightarrow> (case ak_quota_mode k of
       until_depleted \<Rightarrow> ak_quota_period k = None
     | periodic \<Rightarrow> (\<exists>p s. ak_quota_period k = Some p \<and> ak_quota_period_start k = Some s
                       \<and> ak_quota_period_end k = Some (next_quota_window s p)))"

lemma key_wf_cong:
  assumes "ak_quota_mode k' = ak_quota_mode k" and "ak_quota_period k' = ak_quota_period k"
    and "ak_quota_period_start k' = ak_quota_period_start k" and "ak_quota_period_end k' = ak_quota_period_end k"
  shows "key_wf k' = key_wf k"
  using assms by (cases "ak_quota_mode k") (simp_all add: key_wf_def)

lemma key_wf_status [simp]: "key_wf (k\<lparr>ak_status := st\<rparr>) = key_wf k"
  by (rule key_wf_cong) simp_all

lemma put_key_rows: "row_get ak_id (ak_id k) (api_keys db) = Some k0 \<Longrightarrow>
    row_get ak_id j (api_keys (put_key k db)) = (if j = ak_id k then Some k else row_get ak_id j (api_keys db))"
proof -
  assume g: "row_get ak_id (ak_id k) (api_keys db) = Some k0"
  have "row_get ak_id j (map (\<lambda>r. if ak_id r = ak_id k then k else r) t)
      = (if j = ak_id k then (if row_get ak_id j t = None then None else Some k) else row_get ak_id j t)" for t
    by (induction t) (auto simp: row_get_def)
  with g show ?thesis by (simp add: put_key_def row_upd_def)
qed

lemma put_key_set:
  "row_get ak_id (ak_id k) (api_keys db) = Some k0 \<Longrightarrow> r \<in> set (api_keys (put_key k db)) \<Longrightarrow>
     r = k \<or> r \<in> set (api_keys db)"
  by (auto simp: put_key_def row_upd_def)

lemma put_key_frame [simp]: "users (put_key k db) = users db"
  "map ak_id (api_keys (put_key k db)) = map ak_id (api_keys db)"
  by (auto simp: put_key_def row_upd_def)

lemma rolled_wf: "key_wf k \<Longrightarrow> window_over now (ak_quota_mode k) (ak_quota_period k) (ak_quota_period_end k) \<Longrightarrow>
    key_wf (rolled now k)"
proof -
  assume wf: "key_wf k"
    and w: "window_over now (ak_quota_mode k) (ak_quota_period k) (ak_quota_period_end k)"
  then obtain p e where "ak_quota_period k = Some p" "ak_quota_period_end k = Some e" "e \<le> now"
    by (auto simp: window_over_def split: option.splits)
  from rolled_window [OF this] wf w this show ?thesis
    by (auto simp: key_wf_def window_over_def)
qed

section \<open>Enforcement\<close>

lemma enforced_key_current:
  assumes "key_wf k" and "ak_status k = key_active"
    and "enforce_key_state now db k = (db', Inr k')"
  shows "ak_status k' = key_active \<and> key_wf k' \<and> ak_id k' = ak_id k
    \<and> (case ak_expires_at k' of None \<Rightarrow> True | Some t \<Rightarrow> now < t)
    \<and> (ak_quota_mode k = periodic \<longrightarrow> (\<exists>e'. ak_quota_period_end k' = Some e' \<and> now < e'))
    \<and> (\<forall>e. ak_quota_mode k = periodic \<longrightarrow> ak_quota_period_end k = Some e \<longrightarrow>
         (if e \<le> now then ak_used_cents k' = 0
              \<and> (\<exists>s'. ak_quota_period_start k' = Some s' \<and> e \<le> s' \<and> s' \<le> now)
          else k' = k))"
proof (cases "window_over now (ak_quota_mode k) (ak_quota_period k) (ak_quota_period_end k)")
  case True
  then obtain p e where p: "ak_quota_period k = Some p" "ak_quota_period_end k = Some e" "e \<le> now"
    by (auto simp: window_over_def split: option.splits)
  have k': "k' = rolled now k" and ne: "\<not> needs_expire now (ak_status k) (ak_expires_at k)"
    using assms(2,3) True by (auto simp: enforce_key_state_def split: if_splits)
  from rolled_window [OF p] rolled_wf [OF assms(1) True] ne assms(2) p show ?thesis
    by (auto simp: k' needs_expire_def split: option.splits)
next
  case False
  then have "k' = k" and "\<not> needs_expire now (ak_status k) (ak_expires_at k)"
    using assms(3) by (auto simp: enforce_key_state_def split: if_splits)
  with False assms(1,2) show ?thesis
    by (auto simp: needs_expire_def key_wf_def window_over_def not_le split: option.splits)
qed

text \<open>
  When a request's key passes enforcement, an active key is not past its expiry and a
  well-formed periodic key is in the window that contains the present; if its window had ended,
  its usage restarts at zero in a window that starts at or after the end of the old one, however
  many windows passed in between.
\<close>

theorem enforce_key_current:
  assumes "key_wf k" and "ak_status k = key_active"
    and "enforce_key_state now db k = (db', Inr k')"
  shows "ak_status k' = key_active \<and> key_wf k' \<and> ak_id k' = ak_id k
    \<and> (case ak_expires_at k' of None \<Rightarrow> True | Some t \<Rightarrow> now < t)
    \<and> (ak_quota_mode k = periodic \<longrightarrow> (\<exists>e'. ak_quota_period_end k' = Some e' \<and> now < e'))
    \<and> (\<forall>e. ak_quota_mode k = periodic \<longrightarrow> ak_quota_period_end k = Some e \<longrightarrow>
         (if e \<le> now then ak_used_cents k' = 0
              \<and> (\<exists>s'. ak_quota_period_start k' = Some s' \<and> e \<le> s' \<and> s' \<le> now)
          else k' = k))"
  using enforced_key_current [OF assms] .

definition daily_key :: api_key where
  "daily_key = (default_api_key 5 7)\<lparr>ak_key_hash := ''h'', ak_quota_mode := periodic, ak_quota_period := Some day,
     ak_quota_period_start := Some 0, ak_quota_period_end := Some us_per_day,
     ak_used_cents := 90, ak_quota_cents := 100\<rparr>"

lemma daily_key_wf: "key_wf daily_key"
  by (simp add: key_wf_def daily_key_def default_api_key_def timedelta_days_def)

definition key_db :: session where
  "key_db = empty_session\<lparr>users := [default_user 7 100], api_keys := [daily_key], seq_api_keys := 6\<rparr>"

theorem enforce_key_current_witness:
  "\<exists>db' k'. enforce_key_state (10 * us_per_day) key_db daily_key = (db', Inr k')
     \<and> ak_used_cents k' = 0 \<and> key_wf k'"
proof -
  have a: "ak_status daily_key = key_active" by (simp add: daily_key_def default_api_key_def)
  have "\<exists>db' k'. enforce_key_state (10 * us_per_day) key_db daily_key = (db', Inr k')"
    by (simp add: enforce_key_state_def needs_expire_def daily_key_def default_api_key_def)
  then obtain db' k' where c: "enforce_key_state (10 * us_per_day) key_db daily_key = (db', Inr k')"
    by blast
  from enforce_key_current [OF daily_key_wf a c] c show ?thesis
    by (simp add: daily_key_def default_api_key_def)
qed

lemma enforced_cached:
  assumes "row_get ak_id (ak_id k) (api_keys db) = Some k"
    and "enforce_key_state_cached now db w r (snapshot_from_row k) = (dbc, w', r', resc)"
    and "enforce_key_state now db k = (dbu, resu)"
  shows "dbc = dbu \<and> resc = (case resu of Inl e \<Rightarrow> Inl e | Inr k' \<Rightarrow> Inr (snapshot_from_row k'))"
proof -
  have g: "row_get ak_id (sn_id (snapshot_from_row k)) (api_keys db) = Some k"
    using assms(1) by (simp add: snapshot_from_row_def)
  have sn: "sn_status (snapshot_from_row k) = ak_status k" "sn_expires_at (snapshot_from_row k) = ak_expires_at k"
    "sn_quota_mode (snapshot_from_row k) = ak_quota_mode k" "sn_quota_period (snapshot_from_row k) = ak_quota_period k"
    "sn_quota_period_end (snapshot_from_row k) = ak_quota_period_end k"
    by (simp_all add: snapshot_from_row_def)
  show ?thesis
    using assms(2,3) unfolding enforce_key_state_cached_def g sn enforce_key_state_def Let_def option.case
    by (auto split: if_splits)
qed

text \<open>
  Given an up-to-date snapshot, the variant on the request path makes the same decision
  as the variant on the row: it commits the same database, raises the same error, or returns the
  snapshot of the key the other returns.
\<close>

theorem enforce_cached_agrees:
  assumes "row_get ak_id (ak_id k) (api_keys db) = Some k"
    and "enforce_key_state_cached now db w r (snapshot_from_row k) = (dbc, w', r', resc)"
    and "enforce_key_state now db k = (dbu, resu)"
  shows "dbc = dbu \<and> resc = (case resu of Inl e \<Rightarrow> Inl e | Inr k' \<Rightarrow> Inr (snapshot_from_row k'))"
  using enforced_cached [OF assms] .

theorem enforce_cached_agrees_witness:
  "case enforce_key_state_cached (10 * us_per_day) key_db new_worker cold_redis (snapshot_from_row daily_key)
     of (dbc, w', r', resc) \<Rightarrow> dbc = fst (enforce_key_state (10 * us_per_day) key_db daily_key)"
proof -
  have g: "row_get ak_id (ak_id daily_key) (api_keys key_db) = Some daily_key"
    by (simp add: key_db_def row_get_def)
  obtain dbc w' r' resc where c: "enforce_key_state_cached (10 * us_per_day) key_db new_worker cold_redis
      (snapshot_from_row daily_key) = (dbc, w', r', resc)" by (metis prod_cases4)
  obtain dbu resu where u: "enforce_key_state (10 * us_per_day) key_db daily_key = (dbu, resu)" by force
  from enforce_cached_agrees [OF g c u] c u show ?thesis by simp
qed

section \<open>Authentication\<close>

lemma loaded_key:
  assumes "distinct (map ak_id (api_keys db))" and "\<forall>r \<in> set (api_keys db). key_wf r"
    and "load_api_key_from_plain hash_fn now db plain = (db', Inr (k, u))"
  shows "py_startswith plain ''sk-'' \<and> ak_key_hash k = hash_fn plain
    \<and> ak_status k = key_active \<and> (case ak_expires_at k of None \<Rightarrow> True | Some t \<Rightarrow> now < t)
    \<and> us_id u = ak_user_id k \<and> us_status u = user_active
    \<and> row_get ak_id (ak_id k) (api_keys db') = Some k \<and> key_wf k
    \<and> \<not> window_over now (ak_quota_mode k) (ak_quota_period k) (ak_quota_period_end k)"
proof -
  from assms(3) obtain row where st: "py_startswith plain ''sk-''"
    and row: "key_by_hash db (hash_fn plain) = Some row"
    and en: "enforce_key_state now db row = (db', Inr k)" and act: "ak_status k = key_active"
    and u: "row_get us_id (ak_user_id k) (users db') = Some u" "us_status u = user_active"
    by (auto simp: load_api_key_from_plain_def split: if_splits option.splits prod.splits sum.splits)
  have r: "row \<in> set (api_keys db)" "ak_key_hash row = hash_fn plain"
    using row by (auto simp: key_by_hash_def find_Some_iff)
  have get: "row_get ak_id (ak_id row) (api_keys db) = Some row" using assms(1) r(1) by (rule row.get_unique)
  have wf: "key_wf row" using assms(2) r(1) by blast
  have cs: "(k = row \<and> db' = db) \<or> (k = rolled now row \<and> db' = put_key (rolled now row) db)"
    using en by (auto simp: enforce_key_state_def split: if_splits)
  then have ra: "ak_status row = key_active" using act by auto
  note c = enforced_key_current [OF wf ra en]
  have "row_get ak_id (ak_id k) (api_keys db') = Some k"
    using cs get put_key_rows [of "rolled now row" db row] by auto
  moreover have "ak_key_hash k = hash_fn plain" using cs r(2) by auto
  moreover have "\<not> window_over now (ak_quota_mode k) (ak_quota_period k) (ak_quota_period_end k)"
    using c cs by (auto simp: window_over_def split: option.splits)
  ultimately show ?thesis using st act c u row.get_Some [OF u(1)] by auto
qed

text \<open>
  Claim C8. A request that authenticates with an API key holds a key whose row is active, not
  expired, and owned by an active user; the key handed on is the row as it is stored after
  enforcement.
\<close>

theorem load_api_key_sound:
  assumes "distinct (map ak_id (api_keys db))" and "\<forall>r \<in> set (api_keys db). key_wf r"
    and "load_api_key_from_plain hash_fn now db plain = (db', Inr (k, u))"
  shows "py_startswith plain ''sk-'' \<and> ak_key_hash k = hash_fn plain
    \<and> ak_status k = key_active \<and> (case ak_expires_at k of None \<Rightarrow> True | Some t \<Rightarrow> now < t)
    \<and> us_id u = ak_user_id k \<and> us_status u = user_active
    \<and> row_get ak_id (ak_id k) (api_keys db') = Some k \<and> key_wf k
    \<and> \<not> window_over now (ak_quota_mode k) (ak_quota_period k) (ak_quota_period_end k)"
  using loaded_key [OF assms] .

theorem load_api_key_sound_witness:
  "\<exists>db' k u. load_api_key_from_plain (\<lambda>s. ''h'') (10 * us_per_day) key_db ''sk-x'' = (db', Inr (k, u))
     \<and> ak_status k = key_active \<and> us_status u = user_active \<and> us_id u = 7"
proof -
  have h: "key_by_hash key_db ''h'' = Some daily_key"
    by (simp add: key_by_hash_def key_db_def daily_key_def default_api_key_def)
  have ne: "\<not> needs_expire (10 * us_per_day) (ak_status daily_key) (ak_expires_at daily_key)"
    and ov: "window_over (10 * us_per_day) (ak_quota_mode daily_key) (ak_quota_period daily_key) (ak_quota_period_end daily_key)"
    and da: "ak_status daily_key = key_active" "ak_user_id daily_key = 7"
    by (simp_all add: needs_expire_def window_over_def daily_key_def default_api_key_def)
  have u: "row_get us_id 7 (users key_db) = Some (default_user 7 100)"
    by (simp add: key_db_def default_user_def row_get_def)
  obtain db' k u where c: "load_api_key_from_plain (\<lambda>s. ''h'') (10 * us_per_day) key_db ''sk-x'' = (db', Inr (k, u))"
    using h ne ov da u
    by (simp add: load_api_key_from_plain_def enforce_key_state_def py_startswith_def default_user_def)
  have d: "distinct (map ak_id (api_keys key_db))" and w: "\<forall>r \<in> set (api_keys key_db). key_wf r"
    using daily_key_wf by (simp_all add: key_db_def)
  have uid: "ak_user_id k = 7"
    using c h ne ov da by (auto simp: load_api_key_from_plain_def enforce_key_state_def
        split: if_splits option.splits)
  from load_api_key_sound [OF d w c] c uid show ?thesis by auto
qed

section \<open>The endpoints\<close>

lemma validate_Inr: "validate_mode_period mode p = Inr () \<longleftrightarrow> (mode = periodic \<longleftrightarrow> p \<noteq> None)"
  by (cases mode) (auto simp: validate_mode_period_def)

lemma with_window_wf: "(ak_quota_mode k = periodic \<longleftrightarrow> ak_quota_period k \<noteq> None) \<Longrightarrow> key_wf (with_window now k)"
  by (cases "ak_quota_mode k") (auto simp: with_window_def key_wf_def init_periodic_window_def)

lemma with_window_id [simp]: "ak_id (with_window now k) = ak_id k"
  by (auto simp: with_window_def init_periodic_window_def split: quota_mode.splits option.splits)

lemma own_key_Inr: "own_key db u i = Inr k \<longleftrightarrow> row_get ak_id i (api_keys db) = Some k \<and> ak_user_id k = us_id u"
  by (auto simp: own_key_def split: option.splits if_splits)

lemma update_key_wf:
  assumes "key_wf k" and "own_key db u i = Inr k"
    and "update_key now db w r u i req = Inr (db', w', r', k')"
  shows "key_wf k' \<and> ak_id k' = ak_id k \<and> db' = put_key k' db"
proof -
  from assms(2,3) obtain mode p where v: "mode = periodic \<longleftrightarrow> p \<noteq> None"
    and k': "k' = (if mode \<noteq> ak_quota_mode k \<or> p \<noteq> ak_quota_period k
        then with_window now ((update_fields req k)\<lparr>ak_quota_mode := mode, ak_quota_period := p, ak_used_cents := 0\<rparr>)
        else (update_fields req k)\<lparr>ak_quota_mode := mode, ak_quota_period := p\<rparr>)"
    and db': "db' = put_key k' db"
    by (auto simp: update_key_def bind_result_eq_Inr validate_Inr Let_def)
  have "key_wf k'"
  proof (cases "mode \<noteq> ak_quota_mode k \<or> p \<noteq> ak_quota_period k")
    case True
    then show ?thesis using v by (simp add: k' with_window_wf)
  next
    case False
    then have "key_wf k' = key_wf k" by (intro key_wf_cong) (simp_all add: k' update_fields_def)
    with assms(1) show ?thesis by simp
  qed
  moreover have "ak_id k' = ak_id k" by (simp add: k' update_fields_def)
  ultimately show ?thesis using db' by blast
qed

lemma put_key_wf:
  assumes "row_get ak_id (ak_id k) (api_keys db) = Some k0" and "\<forall>r \<in> set (api_keys db). key_wf r"
    and "key_wf k"
  shows "\<forall>r \<in> set (api_keys (put_key k db)). key_wf r"
  using put_key_set [OF assms(1)] assms(2,3) by blast

text \<open>
  The operations on keys as one step relation: the endpoints, enforcement on either path, and
  the sweeper.
\<close>

inductive key_step :: "session \<Rightarrow> session \<Rightarrow> bool" where
  create: "create_key g now db w u creq = Inr (db', w', k, plain) \<Longrightarrow> key_step db db'"
| update: "update_key now db w r u i req = Inr (db', w', r', k) \<Longrightarrow> key_step db db'"
| delete: "delete_key db w up u i = Inr (db', w') \<Longrightarrow> key_step db db'"
| disable: "disable_key now db w up u i = Inr (db', w', k) \<Longrightarrow> key_step db db'"
| enable: "enable_key now db w up u i = Inr (db', w', k) \<Longrightarrow> key_step db db'"
| enforce: "k \<in> set (api_keys db) \<Longrightarrow> enforce_key_state now db k = (db', res) \<Longrightarrow> key_step db db'"
| sweep: "expiry_scan_once now db w up = (db', w') \<Longrightarrow> key_step db db'"

definition keys_inv :: "session \<Rightarrow> bool" where
  "keys_inv db \<longleftrightarrow> distinct (map ak_id (api_keys db)) \<and> (\<forall>k \<in> set (api_keys db). ak_id k < seq_api_keys db)
     \<and> (\<forall>k \<in> set (api_keys db). key_wf k)"

lemma keys_inv_put:
  assumes "keys_inv db" and "row_get ak_id (ak_id k) (api_keys db) = Some k0" and "key_wf k"
  shows "keys_inv (put_key k db)"
proof -
  have "ak_id k < seq_api_keys db" using assms(1) row.get_Some [OF assms(2)] by (auto simp: keys_inv_def)
  moreover have "seq_api_keys (put_key k db) = seq_api_keys db" by (simp add: put_key_def upd_api_key_def)
  ultimately show ?thesis
    using assms put_key_set [OF assms(2)] put_key_wf [OF assms(2) _ assms(3)]
    by (auto simp: keys_inv_def)
qed

lemma keys_inv_status:
  assumes "keys_inv db" and "row_get ak_id i (api_keys db) = Some k"
  shows "keys_inv (put_key (k\<lparr>ak_status := st\<rparr>) db)"
proof -
  have "k \<in> set (api_keys db)" "ak_id k = i" using row.get_Some [OF assms(2)] by auto
  with assms show ?thesis by (intro keys_inv_put [where ?k0.0 = k]) (auto simp: keys_inv_def)
qed

lemma keys_inv_enforce:
  assumes "keys_inv db" and "k \<in> set (api_keys db)" and "enforce_key_state now db k = (db', res)"
  shows "keys_inv db'"
proof -
  have g: "row_get ak_id (ak_id k) (api_keys db) = Some k"
    using assms(1,2) by (intro row.get_unique) (auto simp: keys_inv_def)
  have wf: "key_wf k" using assms(1,2) by (auto simp: keys_inv_def)
  show ?thesis
    using assms(3) keys_inv_status [OF assms(1) g] keys_inv_put [OF assms(1), of "rolled now k" k]
      g rolled_wf [OF wf] assms(1)
    by (auto simp: enforce_key_state_def split: if_splits)
qed

lemma keys_inv_sweep:
  assumes "keys_inv db" and "expiry_scan_once now db w up = (db', w')"
  shows "keys_inv db'"
proof -
  define f :: "api_key \<Rightarrow> api_key" where "f = (\<lambda>k. if needs_expire now (ak_status k) (ak_expires_at k)
      then k\<lparr>ak_status := key_expired\<rparr> else k)"
  have f: "key_wf (f k) = key_wf k" "ak_id (f k) = ak_id k" for k by (simp_all add: f_def)
  have c: "ak_id \<circ> f = ak_id" by (simp add: fun_eq_iff f)
  have "db' = db \<or> db' = db\<lparr>api_keys := map f (api_keys db)\<rparr>"
    using assms(2) by (auto simp: expiry_scan_once_def Let_def f_def split: if_splits)
  then show ?thesis using assms(1) by (auto simp: keys_inv_def f c)
qed

lemma key_step_inv: "key_step db db' \<Longrightarrow> keys_inv db \<Longrightarrow> keys_inv db'"
proof (induction rule: key_step.induct)
  case (create g now db w u creq db' w' k plain)
  obtain a b c where "g = (a, b, c)" by (cases g)
  with create.hyps have "db' = db\<lparr>api_keys := api_keys db @ [k], seq_api_keys := seq_api_keys db + 1\<rparr>"
    and "key_wf k" and "ak_id k = seq_api_keys db"
    by (auto simp: create_key_def bind_result_eq_Inr validate_Inr Let_def intro!: with_window_wf)
  with create.prems show ?case by (auto simp: keys_inv_def)
next
  case (update now db w r u i req db' w' r' k)
  then obtain k0 where k0: "own_key db u i = Inr k0"
    by (cases "own_key db u i") (auto simp: update_key_def)
  then have g: "row_get ak_id i (api_keys db) = Some k0" by (simp add: own_key_Inr)
  then have "key_wf k0" and id: "ak_id k0 = i"
    using row.get_Some [OF g] update.prems by (auto simp: keys_inv_def)
  from update_key_wf [OF this(1) k0 update.hyps] g id show ?case
    using keys_inv_put [OF update.prems, of k] by simp
next
  case (delete db w up u i db' w')
  then have "db' = db\<lparr>api_keys := row_del ak_id i (api_keys db)\<rparr>"
    by (auto simp: delete_key_def bind_result_eq_Inr)
  with delete.prems show ?case by (auto simp: keys_inv_def row_del_def distinct_map_filter)
next
  case (disable now db w up u i db' w' k)
  then show ?case using keys_inv_status
    by (auto simp: disable_key_def bind_result_eq_Inr own_key_Inr Let_def)
next
  case (enable now db w up u i db' w' k)
  then show ?case using keys_inv_status
    by (auto simp: enable_key_def bind_result_eq_Inr own_key_Inr Let_def split: if_splits)
next
  case (enforce k db now db' res)
  from keys_inv_enforce [OF enforce.prems enforce.hyps] show ?case .
next
  case (sweep now db w up db' w')
  from keys_inv_sweep [OF sweep.prems sweep.hyps] show ?case .
qed

interpretation key_inv: step_invariant key_step keys_inv
  by unfold_locales (rule key_step_inv)

text \<open>
  Claim C9. However keys are created, edited, disabled, enabled, deleted, enforced and swept, every
  stored key stays well-formed: ids are unique, a key that is used until depleted has no period,
  and a periodic key has a period and a window of exactly that period.
\<close>

theorem keys_stay_wellformed:
  assumes "key_step\<^sup>*\<^sup>* db db'" and "keys_inv db"
  shows "keys_inv db'"
  using key_inv.reach_inv [OF assms] .

lemma key_db_inv: "keys_inv key_db"
  using daily_key_wf by (simp add: keys_inv_def key_db_def) (simp add: daily_key_def default_row_defs)

theorem keys_stay_wellformed_witness:
  "\<exists>db'. key_step\<^sup>*\<^sup>* key_db db' \<and> keys_inv db' \<and> db' \<noteq> key_db"
proof -
  let ?db = "fst (enforce_key_state (10 * us_per_day) key_db daily_key)"
  have k: "daily_key \<in> set (api_keys key_db)" by (simp add: key_db_def)
  have s: "key_step\<^sup>*\<^sup>* key_db ?db" using key_step.enforce [OF k prod.collapse [symmetric]] by blast
  have "row_get ak_id 5 (api_keys ?db) \<noteq> row_get ak_id 5 (api_keys key_db)"
  proof -
    have g: "row_get ak_id (ak_id (rolled (10 * us_per_day) daily_key)) (api_keys key_db) = Some daily_key"
      by (simp add: key_db_def row_get_def)
    have "?db = put_key (rolled (10 * us_per_day) daily_key) key_db"
      by (simp add: enforce_key_state_def needs_expire_def window_over_def daily_key_def default_api_key_def)
    moreover obtain s' e' where "rolled (10 * us_per_day) daily_key = daily_key\<lparr>ak_quota_period_start := Some s',
        ak_quota_period_end := Some e', ak_used_cents := 0\<rparr>"
      using rolled_window [of daily_key day us_per_day "10 * us_per_day"]
      by (auto simp: daily_key_def default_api_key_def)
    ultimately show ?thesis
      using put_key_rows [OF g, of 5] by (simp add: key_db_def row_get_def daily_key_def default_api_key_def)
  qed
  then have "?db \<noteq> key_db" by metis
  with s keys_stay_wellformed [OF s key_db_inv] show ?thesis by blast
qed

text \<open>
  A periodic key can never be changed back to one that is used until depleted: the
  request cannot clear the period (a missing \<open>quota_period\<close> keeps the stored one, and every text
  that parses names a period), so the check of mode against period rejects it.
\<close>

theorem update_key_cannot_leave_periodic:
  assumes "own_key db u i = Inr k" and "key_wf k" and "ak_quota_mode k = periodic"
    and "ku_quota_mode req = Some ''until_depleted''"
  shows "\<exists>e. update_key now db w r u i req = Inl e \<and> status_code e = 400"
proof -
  obtain p where p: "ak_quota_period k = Some p" using assms(2,3) by (auto simp: key_wf_def)
  let ?pr = "case ku_quota_period req of None \<Rightarrow> Inr (ak_quota_period k) | Some s \<Rightarrow> parse_period (Some s)"
  have "(\<exists>e. ?pr = Inl e \<and> status_code e = 400) \<or> (\<exists>q. ?pr = Inr (Some q))"
    by (cases "ku_quota_period req") (auto simp: parse_period_def p)
  then show ?thesis
    by (auto simp: update_key_def assms(1,4) parse_mode_def validate_mode_period_def)
qed

theorem update_key_cannot_leave_periodic_witness:
  "\<exists>e. update_key 0 key_db new_worker cold_redis (default_user 7 100) 5
      \<lparr>ku_name = None, ku_quota_cents = None, ku_expires_at = None, ku_clear_expires_at = False,
       ku_quota_mode = Some ''until_depleted'', ku_quota_period = None\<rparr> = Inl e \<and> status_code e = 400"
proof -
  have o: "own_key key_db (default_user 7 100) 5 = Inr daily_key"
    by (simp add: own_key_Inr key_db_def row_get_def daily_key_def default_row_defs)
  have m: "ak_quota_mode daily_key = periodic" by (simp add: daily_key_def)
  show ?thesis by (rule update_key_cannot_leave_periodic [OF o daily_key_wf m]) simp
qed

lemma evict_fold:
  assumes "tc_ok (wk_apikeys w)" and "h \<in> set hs"
  shows "tc_entry (wk_apikeys (foldl (\<lambda>w h. fst (invalidate_apikey up h w)) w hs)) h = None"
proof -
  have step: "wk_apikeys (fst (invalidate_apikey up g v)) = tc_pop (wk_apikeys v) g" for g v
    by (simp add: invalidate_apikey_def publish_def dispatch_def cache_handlers_def local_evict_apikey_def)
  have keep: "tc_ok (wk_apikeys v) \<Longrightarrow> tc_entry (wk_apikeys v) h = None \<Longrightarrow>
      tc_entry (wk_apikeys (foldl (\<lambda>w h. fst (invalidate_apikey up h w)) v gs)) h = None" for v gs
  proof (induction gs arbitrary: v)
    case (Cons g gs)
    have "tc_entry (tc_pop (wk_apikeys v) g) h = None"
      using ttl.pop_entry [OF Cons.prems(1), of g h] Cons.prems(2)
      by (cases "tc_entry (tc_pop (wk_apikeys v) g) h") auto
    with Cons ttl.ok_pop [OF Cons.prems(1)] show ?case by (simp add: step)
  qed simp
  show ?thesis
    using assms
  proof (induction hs arbitrary: w)
    case (Cons g gs)
    have ok: "tc_ok (wk_apikeys (fst (invalidate_apikey up g w)))" using Cons.prems(1) by (simp add: step ttl.ok_pop)
    show ?case
    proof (cases "h = g")
      case True
      have "tc_entry (wk_apikeys (fst (invalidate_apikey up g w))) h = None"
        using ttl.pop_entry [OF Cons.prems(1), of g h] True
        by (cases "tc_entry (tc_pop (wk_apikeys w) g) h") (auto simp: step)
      with keep [OF ok] show ?thesis by simp
    next
      case False
      with Cons ok show ?thesis by simp
    qed
  qed simp
qed

text \<open>
  After a pass of the sweeper no stored key is active past its expiry, keys that were not
  due are untouched, and the process that ran it has dropped every snapshot it made stale.
\<close>

theorem expiry_scan_complete:
  assumes "expiry_scan_once now db w up = (db', w')" and "tc_ok (wk_apikeys w)"
  shows "due_keys now db' = []
    \<and> (\<forall>k \<in> set (api_keys db). \<not> needs_expire now (ak_status k) (ak_expires_at k) \<longrightarrow> k \<in> set (api_keys db'))
    \<and> (\<forall>k \<in> set (due_keys now db). tc_entry (wk_apikeys w') (ak_key_hash k) = None)"
proof (cases "due_keys now db = []")
  case True
  then have "db' = db" using assms(1) by (simp add: expiry_scan_once_def)
  with True show ?thesis by simp
next
  case False
  let ?f = "\<lambda>k. if needs_expire now (ak_status k) (ak_expires_at k) then k\<lparr>ak_status := key_expired\<rparr> else k"
  have db': "db' = db\<lparr>api_keys := map ?f (api_keys db)\<rparr>"
    and w': "w' = foldl (\<lambda>w h. fst (invalidate_apikey up h w)) w (map ak_key_hash (due_keys now db))"
    using assms(1) False by (auto simp: expiry_scan_once_def Let_def)
  have "due_keys now db' = []" by (auto simp: due_keys_def db' filter_empty_conv needs_expire_def)
  moreover have "\<forall>k \<in> set (due_keys now db). tc_entry (wk_apikeys w') (ak_key_hash k) = None"
    unfolding w' using evict_fold [OF assms(2)] by simp
  ultimately show ?thesis by (force simp: db')
qed

theorem expiry_scan_complete_witness:
  "case expiry_scan_once 10 (key_db\<lparr>api_keys := [daily_key\<lparr>ak_expires_at := Some 9\<rparr>]\<rparr>)
      (update_apikey_snapshot 0 daily_key new_worker) True of (db', w') \<Rightarrow>
     due_keys 10 db' = [] \<and> tc_entry (wk_apikeys w') ''h'' = None"
proof -
  let ?k = "daily_key\<lparr>ak_expires_at := Some 9\<rparr>"
  let ?db = "key_db\<lparr>api_keys := [?k]\<rparr>" and ?w = "update_apikey_snapshot 0 daily_key new_worker"
  obtain db' w' where c: "expiry_scan_once 10 ?db ?w True = (db', w')" by force
  have ok: "tc_ok (wk_apikeys ?w)"
    by (simp add: update_apikey_snapshot_def new_worker_def tc_ok_set tc_ok_new)
  have "due_keys 10 ?db = [?k]" and "ak_key_hash ?k = ''h''"
    by (simp_all add: due_keys_def needs_expire_def daily_key_def default_api_key_def)
  with expiry_scan_complete [OF c ok] c show ?thesis by simp
qed

end
