(* ===== verification/Protocol_Ids.thy ===== *)
theory Protocol_Ids
  imports Data_Model
begin

text \<open>
  \<^verbatim>\<open>services/protocols/ids.py\<close>, \<^verbatim>\<open>services/providers/registry.py\<close>, \<^verbatim>\<open>image_registry.py\<close> and
  \<^verbatim>\<open>openai_compat.py\<close>: names of wire protocols and of the connectors that speak them. Adapters
  (objects that call upstream services) are represented by the connector name they are
  registered under.
\<close>

section \<open>Protocol names\<close>

abbreviation openai_chat :: string where "openai_chat \<equiv> ''openai.chat''"
abbreviation openai_responses :: string where "openai_responses \<equiv> ''openai.responses''"
abbreviation openai_embeddings :: string where "openai_embeddings \<equiv> ''openai.embeddings''"
abbreviation openai_images :: string where "openai_images \<equiv> ''openai.images''"
abbreviation anthropic_messages :: string where "anthropic_messages \<equiv> ''anthropic.messages''"
abbreviation gemini_generate_content :: string where "gemini_generate_content \<equiv> ''gemini.generate_content''"
abbreviation gemini_embeddings :: string where "gemini_embeddings \<equiv> ''gemini.embeddings''"
abbreviation gemini_images :: string where "gemini_images \<equiv> ''gemini.images''"

definition chat_protocols :: "string list" where
  "chat_protocols = [openai_chat, openai_responses, anthropic_messages, gemini_generate_content]"

definition protocol_aliases :: "(string \<times> string) list" where
  "protocol_aliases = [
     (''openai'', openai_chat), (''openai_chat'', openai_chat), (''openai-chat'', openai_chat),
     (''openai.chat_completions'', openai_chat), (''openai.chat-completions'', openai_chat),
     (''openai.chat.completions'', openai_chat), (''chat'', openai_chat),
     (''chat.completions'', openai_chat), (''responses'', openai_responses),
     (''response'', openai_responses), (''openai_response'', openai_responses),
     (''openai-response'', openai_responses), (''openai.responses'', openai_responses),
     (''openai.response'', openai_responses), (''embedding'', openai_embeddings),
     (''embeddings'', openai_embeddings), (''openai.embedding'', openai_embeddings),
     (''openai.embeddings'', openai_embeddings), (''image'', openai_images),
     (''images'', openai_images), (''openai.image'', openai_images),
     (''openai.images'', openai_images), (''anthropic'', anthropic_messages),
     (''message'', anthropic_messages), (''messages'', anthropic_messages),
     (''anthropic.message'', anthropic_messages), (''anthropic.messages'', anthropic_messages),
     (''gemini'', gemini_generate_content), (''gemini.generatecontent'', gemini_generate_content),
     (''gemini.generate_content'', gemini_generate_content), (''gemini.embedding'', gemini_embeddings),
     (''gemini.embeddings'', gemini_embeddings), (''gemini.image'', gemini_images),
     (''gemini.images'', gemini_images), (''azure'', openai_chat), (''azure_openai'', openai_chat),
     (''azure-openai'', openai_chat), (''openai-compatible'', openai_chat)]"

definition default_by_family_kind :: "((string \<times> string) \<times> string) list" where
  "default_by_family_kind = [
     ((''openai'', ''chat''), openai_chat), ((''openai'', ''embedding''), openai_embeddings),
     ((''openai'', ''image''), openai_images), ((''anthropic'', ''chat''), anthropic_messages),
     ((''gemini'', ''chat''), gemini_generate_content), ((''gemini'', ''embedding''), gemini_embeddings),
     ((''gemini'', ''image''), gemini_images)]"

definition assoc_default :: "('k \<times> 'v) list \<Rightarrow> 'k \<Rightarrow> 'v \<Rightarrow> 'v" where
  \<comment> \<open>\<open>d.get(k, v)\<close> on a constant dictionary\<close>
  "assoc_default d k v = (case map_of d k of None \<Rightarrow> v | Some w \<Rightarrow> w)"

definition or_text :: "string option \<Rightarrow> string \<Rightarrow> string" where
  \<comment> \<open>\<open>s or default\<close> for an optional string\<close>
  "or_text s d = (case s of None \<Rightarrow> d | Some t \<Rightarrow> if t = [] then d else t)"

definition clean_protocol :: "string option \<Rightarrow> string" where
  \<comment> \<open>\<open>(protocol or OPENAI_CHAT).lower().strip().replace("/", ".")\<close>\<close>
  "clean_protocol p = py_replace_chr (CHR ''/'') (CHR ''.'') (py_strip (py_lower (or_text p openai_chat)))"

definition normalize_plain :: "string option \<Rightarrow> string" where
  \<comment> \<open>\<open>normalize_protocol(protocol)\<close> without a kind\<close>
  "normalize_plain p = (let raw = clean_protocol p in assoc_default protocol_aliases raw raw)"

definition protocol_for_kind :: "string option \<Rightarrow> string option \<Rightarrow> string" where
  "protocol_for_kind p kind =
     (let value = normalize_plain p;
          normalized_kind = py_strip (py_lower (or_text kind ''chat''))
      in if normalized_kind = ''chat'' \<and> value \<in> set chat_protocols then value
         else assoc_default default_by_family_kind (py_before (CHR ''.'') value, normalized_kind) value)"

definition normalize_protocol :: "string option \<Rightarrow> string option \<Rightarrow> string" where
  "normalize_protocol p kind =
     (if or_text kind [] = [] then normalize_plain p
      else protocol_for_kind (Some (normalize_plain p)) kind)"

definition protocol_family :: "string option \<Rightarrow> string" where
  "protocol_family p = py_before (CHR ''.'') (normalize_plain p)"

definition protocol_label :: "string option \<Rightarrow> string" where
  "protocol_label p = py_replace_chr (CHR ''.'') (CHR '' '') (normalize_plain p)"

section \<open>Connectors\<close>

definition connectors :: "string list" where
  "connectors = [''openai'', ''azure_openai'', ''anthropic'', ''gemini'']"

definition connector_protocols :: "(string \<times> string list) list" where
  "connector_protocols = [
     (''openai'', [openai_chat, openai_responses, openai_embeddings, openai_images]),
     (''azure_openai'', [openai_chat, openai_responses, openai_embeddings, openai_images]),
     (''anthropic'', [anthropic_messages]),
     (''gemini'', [gemini_generate_content, gemini_embeddings, gemini_images])]"

definition connector_kinds :: "(string \<times> string list) list" where
  "connector_kinds = [
     (''openai'', [''chat'', ''embedding'', ''image'']),
     (''azure_openai'', [''chat'', ''embedding'', ''image'']),
     (''anthropic'', [''chat'']),
     (''gemini'', [''chat'', ''embedding'', ''image''])]"

definition connector_aliases :: "(string \<times> string) list" where
  "connector_aliases = [
     (''azure'', ''azure_openai''), (''azure-openai'', ''azure_openai''),
     (''openai-compatible'', ''openai''), (''openai.chat'', ''openai''),
     (''openai.responses'', ''openai''), (''openai.embeddings'', ''openai''),
     (''openai.images'', ''openai''), (''anthropic.messages'', ''anthropic''),
     (''gemini.generate_content'', ''gemini''), (''gemini.embeddings'', ''gemini''),
     (''gemini.images'', ''gemini'')]"

definition normalize_connector :: "string option \<Rightarrow> string" where
  "normalize_connector c =
     (let raw = py_strip (py_lower (or_text c ''openai'')) in assoc_default connector_aliases raw raw)"

definition get_connector_adapter :: "string option \<Rightarrow> string option" where
  "get_connector_adapter c =
     (let n = normalize_connector c in if n \<in> set connectors then Some n else None)"

definition get_adapter :: "string option \<Rightarrow> string option" where
  "get_adapter provider_type = get_connector_adapter provider_type"

definition adapter_family :: "string option \<Rightarrow> string" where
  "adapter_family p = py_before (CHR ''.'') (normalize_plain p)"

definition channel_locks_adapter :: "string option \<Rightarrow> bool" where
  "channel_locks_adapter provider_type \<longleftrightarrow> adapter_family provider_type \<noteq> ''openai''"

definition connector_protocol :: "string option \<Rightarrow> string option \<Rightarrow> string" where
  "connector_protocol c kind =
     (let connector = normalize_connector c; k = or_text kind ''chat'' in
      if connector = ''anthropic'' then anthropic_messages
      else if connector = ''gemini'' then protocol_for_kind (Some gemini_generate_content) (Some k)
      else protocol_for_kind (Some openai_chat) (Some k))"

definition connector_supports_protocol :: "string option \<Rightarrow> string option \<Rightarrow> bool" where
  "connector_supports_protocol c p \<longleftrightarrow>
     normalize_plain p \<in> set (assoc_default connector_protocols (normalize_connector c) [])"

definition connector_supports_kind :: "string option \<Rightarrow> string option \<Rightarrow> bool" where
  "connector_supports_kind c kind \<longleftrightarrow>
     or_text kind ''chat'' \<in> set (assoc_default connector_kinds (normalize_connector c) [])"

definition channel_connector :: "channel \<Rightarrow> string" where
  "channel_connector c =
     (let raw_provider = py_strip (py_lower (ch_provider_type c));
          raw_connector = ch_connector_type c;
          connector = normalize_connector (Some raw_connector);
          base_url = py_lower (ch_base_url c)
      in if raw_provider \<in> {''azure'', ''azure_openai'', ''azure-openai''} \<and> connector = ''openai''
         then ''azure_openai''
         else if connector = ''openai'' \<and> py_contains base_url ''.openai.azure.com''
         then ''azure_openai''
         else normalize_connector (Some (or_text (Some raw_connector)
                                         (or_text (Some raw_provider) ''openai''))))"

definition channel_protocol :: "channel \<Rightarrow> string option \<Rightarrow> string" where
  "channel_protocol c kind =
     normalize_protocol
       (Some (or_text (Some (ch_provider_type c)) (connector_protocol (Some (channel_connector c)) kind)))
       kind"

definition resolve_upstream_protocol :: "model option \<Rightarrow> channel \<Rightarrow> string option \<Rightarrow> string" where
  "resolve_upstream_protocol md c requested =
     (let kind = map_option md_kind md;
          override = or_text requested
            (case md of None \<Rightarrow> [] | Some mo \<Rightarrow> or_text (md_upstream_protocol mo) [])
      in if override \<noteq> [] then normalize_protocol (Some override) kind else channel_protocol c kind)"

definition resolve_connector_type :: "model option \<Rightarrow> channel \<Rightarrow> string option \<Rightarrow> string" where
  "resolve_connector_type md c requested =
     (if or_text requested [] \<noteq> [] then normalize_connector requested else channel_connector c)"

definition resolve_adapter_protocol :: "model option \<Rightarrow> channel \<Rightarrow> string option \<Rightarrow> string" where
  "resolve_adapter_protocol md c requested = resolve_connector_type md c requested"

definition image_connectors :: "string list" where
  "image_connectors = [''openai'', ''azure_openai'', ''gemini'']"

definition get_image_adapter :: "string option \<Rightarrow> string option" where
  "get_image_adapter p =
     (let n = normalize_connector p in if n \<in> set image_connectors then Some n else None)"

section \<open>Token limit fields\<close>

abbreviation max_tokens_field :: string where "max_tokens_field \<equiv> ''max_tokens''"
abbreviation max_completion_tokens_field :: string where
  "max_completion_tokens_field \<equiv> ''max_completion_tokens''"

definition move_field :: "string \<Rightarrow> string \<Rightarrow> dict \<Rightarrow> dict" where
  \<comment> \<open>pop one field and set the other unless it is there\<close>
  "move_field src dst body =
     (let v = dict_get_none body src; body1 = dict_pop body src in
      if v \<noteq> JNull \<and> \<not> dict_has body1 dst then dict_set body1 dst v else body1)"

definition normalize_chat_payload_for_protocol :: "dict \<Rightarrow> bool \<Rightarrow> string option \<Rightarrow> dict" where
  "normalize_chat_payload_for_protocol payload force preferred =
     (let token_field = (if force then Some max_completion_tokens_field else preferred) in
      if token_field = Some max_completion_tokens_field
      then move_field max_tokens_field max_completion_tokens_field payload
      else if token_field = Some max_tokens_field
      then move_field max_completion_tokens_field max_tokens_field payload
      else payload)"

definition mentions_unsupported_pair :: "(json \<Rightarrow> string) \<Rightarrow> json \<Rightarrow> string \<Rightarrow> string \<Rightarrow> bool" where
  \<comment> \<open>\<open>dumps\<close> prints the body: \<open>json.dumps(body, ensure_ascii=False)\<close>\<close>
  "mentions_unsupported_pair dumps body unsupported suggested =
     (let txt = py_lower (dumps body) in
      py_contains txt unsupported \<and> py_contains txt suggested
      \<and> (py_contains txt ''unsupported'' \<or> py_contains txt ''not supported''))"

definition should_retry_with_max_completion_tokens :: "(json \<Rightarrow> string) \<Rightarrow> dict \<Rightarrow> json \<Rightarrow> bool" where
  "should_retry_with_max_completion_tokens dumps payload body =
     (if \<not> dict_has payload max_tokens_field \<or> dict_has payload max_completion_tokens_field then False
      else mentions_unsupported_pair dumps body max_tokens_field max_completion_tokens_field)"

definition should_retry_with_max_tokens :: "(json \<Rightarrow> string) \<Rightarrow> dict \<Rightarrow> json \<Rightarrow> bool" where
  "should_retry_with_max_tokens dumps payload body =
     (if \<not> dict_has payload max_completion_tokens_field \<or> dict_has payload max_tokens_field then False
      else mentions_unsupported_pair dumps body max_completion_tokens_field max_tokens_field)"

end
