(* ===== verification/Protocol_Laws.thy ===== *)
theory Protocol_Laws
  imports Protocol_Ids
begin

text \<open>
  Normalising a protocol name twice changes nothing, every connector's default protocol is one it
  supports, and the retry on an unsupported token field cannot alternate.
\<close>

lemma py_lower_fixed: "c \<in> set (py_lower s) \<Longrightarrow> chr_lower c = c"
  by (auto simp: py_lower_def)

lemma strip_subset: "set (py_strip s) \<subseteq> set s"
  unfolding py_strip_def py_rstrip_def py_lstrip_def
  by (auto dest!: set_dropWhileD)

lemma clean_chars:
  assumes "c \<in> set (clean_protocol p)"
  shows "chr_lower c = c \<and> c \<noteq> CHR ''/''"
proof -
  let ?s = "py_strip (py_lower (or_text p openai_chat))"
  obtain d where d: "d \<in> set ?s" "c = (if d = CHR ''/'' then CHR ''.'' else d)"
    using assms by (auto simp: clean_protocol_def py_replace_chr_def)
  have "chr_lower d = d" using d(1) strip_subset py_lower_fixed by blast
  moreover have "chr_lower (CHR ''.'') = CHR ''.''" by (simp add: chr_lower_def)
  ultimately show ?thesis using d(2) by auto
qed

lemma clean_ends:
  assumes "clean_protocol p \<noteq> []"
  shows "\<not> is_space (hd (clean_protocol p)) \<and> \<not> is_space (last (clean_protocol p))"
proof -
  let ?s = "py_strip (py_lower (or_text p openai_chat))"
  have ne: "?s \<noteq> []" using assms by (auto simp: clean_protocol_def py_replace_chr_def)
  have "\<not> is_space (CHR ''.'')" by (simp add: is_space_def)
  with py_strip_ends [OF ne] ne show ?thesis
    by (auto simp: clean_protocol_def py_replace_chr_def hd_map last_map)
qed

lemma clean_idem:
  assumes "clean_protocol p \<noteq> []"
  shows "clean_protocol (Some (clean_protocol p)) = clean_protocol p"
proof -
  let ?s = "clean_protocol p"
  have "py_lower ?s = ?s" using clean_chars by (simp add: py_lower_def map_idI)
  moreover have "py_strip ?s = ?s" using assms clean_ends [OF assms] by (intro strip_fixed) auto
  moreover have "py_replace_chr (CHR ''/'') (CHR ''.'') ?s = ?s"
    unfolding py_replace_chr_def using clean_chars by (intro map_idI) auto
  ultimately show ?thesis using assms by (simp add: clean_protocol_def [of "Some ?s"] or_text_def)
qed

lemmas name_eval = normalize_plain_def clean_protocol_def or_text_def py_lower_def py_strip_def
  py_lstrip_def py_rstrip_def py_replace_chr_def assoc_default_def protocol_aliases_def chr_lower_def
  is_space_def Let_def

lemma canonical_names:
  "normalize_plain (Some openai_chat) = openai_chat"
  "normalize_plain (Some openai_responses) = openai_responses"
  "normalize_plain (Some openai_embeddings) = openai_embeddings"
  "normalize_plain (Some openai_images) = openai_images"
  "normalize_plain (Some anthropic_messages) = anthropic_messages"
  "normalize_plain (Some gemini_generate_content) = gemini_generate_content"
  "normalize_plain (Some gemini_embeddings) = gemini_embeddings"
  "normalize_plain (Some gemini_images) = gemini_images"
  by (simp_all add: name_eval)

lemma alias_targets: "list_all (\<lambda>(a, v). normalize_plain (Some v) = v) protocol_aliases"
  unfolding protocol_aliases_def by (simp only: list.pred_inject prod.case canonical_names simp_thms)

lemma normalize_plain_idem:
  assumes "normalize_plain p \<noteq> []"
  shows "normalize_plain (Some (normalize_plain p)) = normalize_plain p"
proof -
  let ?raw = "clean_protocol p"
  show ?thesis
  proof (cases "map_of protocol_aliases ?raw")
    case None
    then have v: "normalize_plain p = ?raw" by (simp add: normalize_plain_def assoc_default_def Let_def)
    with assms clean_idem [of p] None show ?thesis
      by simp (simp add: normalize_plain_def assoc_default_def Let_def)
  next
    case (Some v)
    then have "(?raw, v) \<in> set protocol_aliases" by (rule map_of_SomeD)
    with alias_targets have "normalize_plain (Some v) = v" by (auto simp: list_all_iff)
    moreover have "normalize_plain p = v" using Some by (simp add: normalize_plain_def assoc_default_def Let_def)
    ultimately show ?thesis by simp
  qed
qed

text \<open>
  Normalising a protocol name is idempotent, except that a name of white space only
  normalises to the empty name, which a second pass would turn into the default.
\<close>

theorem normalize_protocol_idem:
  assumes "normalize_protocol p None \<noteq> []"
  shows "normalize_protocol (Some (normalize_protocol p None)) None = normalize_protocol p None"
  using assms normalize_plain_idem [of p] by (simp add: normalize_protocol_def or_text_def)

theorem normalize_protocol_idem_witness:
  "normalize_protocol (Some '' OpenAI/Chat '') None = ''openai.chat''
   \<and> normalize_protocol (Some (normalize_protocol (Some '' OpenAI/Chat '') None)) None = ''openai.chat''"
proof -
  have v: "normalize_protocol (Some '' OpenAI/Chat '') None = ''openai.chat''" by code_simp
  show ?thesis using normalize_protocol_idem [of "Some '' OpenAI/Chat ''"] v by simp
qed

lemma kind_defaults:
  "protocol_for_kind (Some openai_chat) (Some ''chat'') = openai_chat"
  "protocol_for_kind (Some openai_chat) (Some ''embedding'') = openai_embeddings"
  "protocol_for_kind (Some openai_chat) (Some ''image'') = openai_images"
  "protocol_for_kind (Some gemini_generate_content) (Some ''chat'') = gemini_generate_content"
  "protocol_for_kind (Some gemini_generate_content) (Some ''embedding'') = gemini_embeddings"
  "protocol_for_kind (Some gemini_generate_content) (Some ''image'') = gemini_images"
  by (simp_all add: protocol_for_kind_def canonical_names chat_protocols_def or_text_def
      py_lower_def py_strip_def py_lstrip_def py_rstrip_def chr_lower_def is_space_def py_before_def
      default_by_family_kind_def assoc_default_def Let_def)

text \<open>
  For every registered connector and every kind of model it supports, the connector's
  default protocol is one the connector speaks, so a model without an override can be served.
\<close>

theorem connector_default_supported:
  assumes "connector_supports_kind (Some c) (Some kind)"
  shows "connector_supports_protocol (Some c) (Some (connector_protocol (Some c) (Some kind)))"
proof -
  let ?n = "normalize_connector (Some c)"
  have cs: "(?n, or_text (Some kind) ''chat'') \<in> set (concat (map (\<lambda>(n, ks). map (Pair n) ks) connector_kinds))"
  proof -
    obtain ks where ks: "map_of connector_kinds ?n = Some ks" "or_text (Some kind) ''chat'' \<in> set ks"
      using assms by (cases "map_of connector_kinds ?n")
        (auto simp: connector_supports_kind_def assoc_default_def)
    from map_of_SomeD [OF ks(1)] ks(2) show ?thesis by force
  qed
  then show ?thesis
    by (auto simp: connector_supports_protocol_def connector_protocol_def connector_kinds_def
        connector_protocols_def assoc_default_def kind_defaults canonical_names Let_def)
qed

theorem connector_default_supported_witness:
  "connector_supports_kind (Some ''azure'') (Some ''image'')
   \<and> connector_supports_protocol (Some ''azure'') (Some (connector_protocol (Some ''azure'') (Some ''image'')))"
proof -
  have "connector_supports_kind (Some ''azure'') (Some ''image'')" by code_simp
  with connector_default_supported [OF this] show ?thesis by blast
qed

text \<open>
  The two retry rules for token limit fields cannot chase each other: a payload normalised for a
  retry does not ask for that retry again, and its limit is the one that was sent.
\<close>

lemma move_field_has:
  "a \<noteq> b \<Longrightarrow> \<not> dict_has (move_field a b body) a"
  by (simp add: move_field_def Let_def)

lemma move_field_value:
  "a \<noteq> b \<Longrightarrow> dict_get body a = Some v \<Longrightarrow> v \<noteq> JNull \<Longrightarrow> \<not> dict_has body b \<Longrightarrow>
     dict_get (move_field a b body) b = Some v"
  by (simp add: move_field_def Let_def dict_get_none_def dict_get_set)

lemma token_field_retry_once:
  assumes "should_retry_with_max_completion_tokens dumps payload body"
    and "dict_get payload max_tokens_field = Some v" and "v \<noteq> JNull"
  shows "\<not> should_retry_with_max_completion_tokens dumps
           (normalize_chat_payload_for_protocol payload True None) body'
    \<and> dict_get (normalize_chat_payload_for_protocol payload True None) max_completion_tokens_field = Some v"
  using assms move_field_has [of max_tokens_field max_completion_tokens_field payload]
    move_field_value [of max_tokens_field max_completion_tokens_field payload v]
  by (auto simp: should_retry_with_max_completion_tokens_def normalize_chat_payload_for_protocol_def
      split: if_splits)

end
