(* ===== verification/Smart_Embedding.thy ===== *)
theory Smart_Embedding
  imports Billing Protocol_Ids Redis_Store
begin

text \<open>
  \<^verbatim>\<open>services/providers/smart_embedding.py\<close>: the classifier of smart routes. Exemplar texts and the
  prompt are turned into vectors by an upstream embedding model, the vectors are cached in Redis,
  and the label of the exemplar with the greatest cosine similarity wins if it reaches the
  threshold of the route.

  Vectors hold JSON numbers as the upstream returned them; sums, products and quotients of floats
  are exact here. Calls to the upstream service, \<open>math.sqrt\<close>, the SHA-256 digest, the text of
  floats and containers and the measured latency are fields of the environment. Upstream calls
  are numbered, since two equal requests may be answered differently.
\<close>

type_synonym embed_call = "nat \<Rightarrow> channel \<Rightarrow> string \<Rightarrow> json \<Rightarrow> string + int \<times> json"
  \<comment> \<open>call number, channel, upstream model and payload to status and body, or the exception's text\<close>

record smart_env =
  se_call :: embed_call
  se_sqrt :: "rat \<Rightarrow> rat"
  se_sha256 :: "string \<Rightarrow> string"
  se_repr :: "json \<Rightarrow> string"
  se_latency :: int

record smart_state =
  ss_redis :: redis
  ss_calls :: nat

record embedding_usage =
  eu_model :: model
  eu_channel :: channel
  eu_upstream_model :: string
  eu_prompt_tokens :: int
  eu_latency_ms :: int
  eu_status :: string

definition exemplar_ttl :: int where "exemplar_ttl = 7 * 24 * 3600"
definition prompt_ttl :: int where "prompt_ttl = 24 * 3600"
definition prompt_hash_limit :: nat where "prompt_hash_limit = 4096"

definition py_text :: "(json \<Rightarrow> string) \<Rightarrow> json \<Rightarrow> string" where
  \<comment> \<open>\<open>str(v)\<close>; \<open>repr\<close> prints floats and containers\<close>
  "py_text repr v = (case py_str v of Some s \<Rightarrow> s | None \<Rightarrow> repr v)"

section \<open>Similarity\<close>

fun num_of :: "json \<Rightarrow> py_error + rat" where
  "num_of (JInt i) = Inr (of_int i)"
| "num_of (JBool b) = Inr (if b then 1 else 0)"
| "num_of (JFloat r) = Inr r"
| "num_of _ = Inl TypeError"

fun nums_of :: "json list \<Rightarrow> py_error + rat list" where
  "nums_of [] = Inr []"
| "nums_of (x # xs) = bind_result (num_of x) (\<lambda>a. bind_result (nums_of xs) (\<lambda>as. Inr (a # as)))"

fun json_len :: "json \<Rightarrow> py_error + nat" where
  \<comment> \<open>\<open>len(v)\<close>\<close>
  "json_len (JList xs) = Inr (length xs)"
| "json_len (JStr s) = Inr (py_len s)"
| "json_len (JObj d) = Inr (length d)"
| "json_len _ = Inl TypeError"

definition dot :: "rat list \<Rightarrow> rat list \<Rightarrow> rat" where
  "dot a b = sum_list (map2 (*) a b)"

definition cos_nums :: "(rat \<Rightarrow> rat) \<Rightarrow> rat list \<Rightarrow> rat list \<Rightarrow> rat" where
  "cos_nums msqrt a b =
     (let na = msqrt (dot a a); nb = msqrt (dot b b) in
      if na = 0 \<or> nb = 0 then - 1 else dot a b / (na * nb))"

definition cos_sim :: "(rat \<Rightarrow> rat) \<Rightarrow> json list \<Rightarrow> json \<Rightarrow> py_error + rat" where
  \<comment> \<open>\<open>_cos(a, b)\<close>; multiplying a number with the elements of a string or the keys of a
      dictionary and summing raises \<open>TypeError\<close>\<close>
  "cos_sim msqrt a b =
     (if a = [] \<or> \<not> truthy b then Inr (- 1)
      else bind_result (json_len b) (\<lambda>lb.
        if length a \<noteq> lb then Inr (- 1)
        else case b of
          JList bs \<Rightarrow>
            bind_result (nums_of a) (\<lambda>as. bind_result (nums_of bs) (\<lambda>bs'. Inr (cos_nums msqrt as bs')))
        | _ \<Rightarrow> Inl TypeError))"

section \<open>Cache keys\<close>

definition prompt_cache_key :: "(string \<Rightarrow> string) \<Rightarrow> int \<Rightarrow> string \<Rightarrow> string" where
  "prompt_cache_key sha256 model_id txt =
     ''llmxy:smart:pemb:'' @ str_int model_id @ '':'' @ sha256 (py_take prompt_hash_limit txt)"

definition exemplar_cache_key :: "int \<Rightarrow> int \<Rightarrow> string" where
  "exemplar_cache_key policy_id version =
     ''llmxy:smart:exemp:'' @ str_int policy_id @ '':v'' @ str_int version"

section \<open>Upstream calls\<close>

definition adapter_for_model :: "model \<Rightarrow> channel \<Rightarrow> string \<times> string option" where
  "adapter_for_model m c =
     (let connector = resolve_connector_type (Some m) c None;
          protocol = resolve_upstream_protocol (Some m) c None
      in if \<not> connector_supports_protocol (Some connector) (Some protocol)
         then (connector @ ''/'' @ protocol, None)
         else (connector, get_connector_adapter (Some connector)))"

fun item0 :: "json \<Rightarrow> py_error + json" where
  \<comment> \<open>\<open>data[0]\<close> of a true value\<close>
  "item0 (JList (x # xs)) = Inr x"
| "item0 (JList []) = Inl IndexError"
| "item0 (JStr s) = Inr (JStr (py_take 1 s))"
| "item0 (JObj d) = Inl KeyError"
| "item0 _ = Inl TypeError"

definition usage_prompt_tokens :: "dict \<Rightarrow> py_error + int" where
  \<comment> \<open>\<open>int(((body.get("usage") or {}).get("prompt_tokens", 0)) or 0)\<close>\<close>
  "usage_prompt_tokens body =
     (case py_or (dict_get_none body ''usage'') (JObj []) of
        JObj u \<Rightarrow> py_int (py_or (dict_get_default u ''prompt_tokens'' (JInt 0)) (JInt 0))
      | _ \<Rightarrow> Inl AttributeError)"

definition embed_one ::
    "smart_env \<Rightarrow> nat \<Rightarrow> model \<Rightarrow> channel \<Rightarrow> string \<Rightarrow> nat \<times> (py_error + json list option \<times> int \<times> string)" where
  "embed_one env n m c txt =
     (case adapter_for_model m c of
        (protocol, None) \<Rightarrow> (n, Inr (None, 0, ''no connector adapter for '' @ protocol))
      | (protocol, Some adapter) \<Rightarrow>
          (Suc n,
           case se_call env n c (md_upstream_model m)
                  (JObj [(''input'', JStr (py_take prompt_hash_limit txt))]) of
             Inl e \<Rightarrow> Inr (None, 0, ''exception: '' @ e)
           | Inr (status, body) \<Rightarrow>
               (case (status = 200, body) of
                  (True, JObj b) \<Rightarrow>
                    (let data = py_or (dict_get_none b ''data'') (JList []) in
                     if \<not> truthy data then Inr (None, 0, ''no data'')
                     else bind_result (item0 data) (\<lambda>d0. case d0 of
                         JObj d \<Rightarrow>
                           (case dict_get_none d ''embedding'' of
                              JList vec \<Rightarrow>
                                bind_result (usage_prompt_tokens b) (\<lambda>pt. Inr (Some vec, pt, ''ok''))
                            | _ \<Rightarrow> Inr (None, 0, ''no embedding''))
                       | _ \<Rightarrow> Inr (None, 0, ''no data'')))
                | _ \<Rightarrow> Inr (None, 0, ''upstream status='' @ str_int status))))"

fun fill_vecs :: "json list \<Rightarrow> json list option list \<Rightarrow> py_error + json list option list" where
  \<comment> \<open>the \<open>for item in data\<close> loop; a float index passes the comparison and then raises\<close>
  "fill_vecs [] vecs = Inr vecs"
| "fill_vecs (JObj item # items) vecs =
     (let idx = dict_get_default item ''index'' (JInt 0) in
      case dict_get_none item ''embedding'' of
        JList vec \<Rightarrow>
          bind_result (num_of idx) (\<lambda>i.
            if 0 \<le> i \<and> i < of_nat (length vecs)
            then (if is_int idx then fill_vecs items (vecs[nat (as_int idx) := Some vec])
                  else Inl TypeError)
            else fill_vecs items vecs)
      | _ \<Rightarrow> fill_vecs items vecs)"
| "fill_vecs (_ # items) vecs = fill_vecs items vecs"

definition batch_result :: "string + int \<times> json \<Rightarrow> nat \<Rightarrow> (json list option list \<times> int) option" where
  \<comment> \<open>the \<open>try\<close> block of \<open>_embed_batch\<close>: \<open>None\<close> when it raises or finds no vector\<close>
  "batch_result resp k =
     (case resp of
        Inr (status, JObj body) \<Rightarrow>
          if status = 200 then
            (case bind_result (iter_json (py_or (dict_get_none body ''data'') (JList [])))
                    (\<lambda>items. bind_result (fill_vecs items (replicate k None))
                      (\<lambda>vecs. bind_result (usage_prompt_tokens body) (\<lambda>pt. Inr (vecs, pt)))) of
               Inl e \<Rightarrow> None
             | Inr (vecs, pt) \<Rightarrow> if list_ex (\<lambda>v. v \<noteq> None) vecs then Some (vecs, pt) else None)
          else None
      | _ \<Rightarrow> None)"

fun embed_each ::
    "smart_env \<Rightarrow> nat \<Rightarrow> model \<Rightarrow> channel \<Rightarrow> string list
       \<Rightarrow> nat \<times> (py_error + json list option list \<times> int)" where
  \<comment> \<open>the \<open>for t in texts\<close> loop of \<open>_embed_batch\<close>\<close>
  "embed_each env n m c [] = (n, Inr ([], 0))"
| "embed_each env n m c (t # ts) =
     (case embed_one env n m c t of
        (n1, Inl e) \<Rightarrow> (n1, Inl e)
      | (n1, Inr (v, pt, st)) \<Rightarrow>
          (case embed_each env n1 m c ts of
             (n2, Inl e) \<Rightarrow> (n2, Inl e)
           | (n2, Inr (vs, pts)) \<Rightarrow> (n2, Inr (v # vs, pt + pts))))"

definition embed_batch ::
    "smart_env \<Rightarrow> nat \<Rightarrow> model \<Rightarrow> channel \<Rightarrow> string list
       \<Rightarrow> nat \<times> (py_error + json list option list \<times> int)" where
  "embed_batch env n m c texts =
     (if snd (adapter_for_model m c) = None \<or> texts = []
      then (n, Inr (replicate (length texts) None, 0))
      else case batch_result
                  (se_call env n c (md_upstream_model m)
                     (JObj [(''input'', JList (map (\<lambda>t. JStr (py_take prompt_hash_limit t)) texts))]))
                  (length texts) of
             Some r \<Rightarrow> (Suc n, Inr r)
           | None \<Rightarrow> embed_each env (Suc n) m c texts)"

section \<open>Exemplars\<close>

type_synonym exemplars = "(string \<times> json list) list"

fun cached_exemplars :: "dict \<Rightarrow> exemplars" where
  \<comment> \<open>\<open>{k: v for k, v in data.items() if isinstance(v, list) and v}\<close>\<close>
  "cached_exemplars [] = []"
| "cached_exemplars ((k, JList (v # vs)) # d) = (k, v # vs) # cached_exemplars d"
| "cached_exemplars (_ # d) = cached_exemplars d"

fun exemplar_pairs :: "(json \<Rightarrow> string) \<Rightarrow> json list \<Rightarrow> (string \<times> string) list" where
  "exemplar_pairs repr [] = []"
| "exemplar_pairs repr (JObj it # items) =
     (let lbl = py_strip (py_text repr (dict_get_default it ''label'' (JStr [])));
          txt = py_strip (py_text repr (dict_get_default it ''text'' (JStr [])))
      in if lbl \<noteq> [] \<and> txt \<noteq> [] then (lbl, txt) # exemplar_pairs repr items
         else exemplar_pairs repr items)"
| "exemplar_pairs repr (_ # items) = exemplar_pairs repr items"

fun add_exemplar :: "exemplars \<Rightarrow> string \<Rightarrow> json \<Rightarrow> exemplars" where
  \<comment> \<open>\<open>out.setdefault(lbl, []).append(v)\<close>\<close>
  "add_exemplar [] lbl v = [(lbl, [v])]"
| "add_exemplar ((l, vs) # out) lbl v =
     (if l = lbl then (l, vs @ [v]) # out else (l, vs) # add_exemplar out lbl v)"

definition group_vectors :: "(string \<times> string) list \<Rightarrow> json list option list \<Rightarrow> exemplars" where
  "group_vectors pairs vecs =
     foldl (\<lambda>out ((lbl, txt), v). case v of None \<Rightarrow> out | Some vec \<Rightarrow> add_exemplar out lbl (JList vec))
       [] (zip pairs vecs)"

definition exemplars_json :: "exemplars \<Rightarrow> json" where
  "exemplars_json out = JObj (map (\<lambda>(l, vs). (l, JList vs)) out)"

definition load_or_build_exemplars ::
    "smart_env \<Rightarrow> datetime \<Rightarrow> smart_state \<Rightarrow> route_policy \<Rightarrow> model \<Rightarrow> channel
       \<Rightarrow> smart_state \<times> (py_error + exemplars)" where
  "load_or_build_exemplars env now st policy m c =
     (let key = exemplar_cache_key (rp_id policy) (rp_smart_embedding_version policy);
          r = ss_redis st
      in case (if r_up r then rd_get_json now r key else None) of
           Some (JObj data) \<Rightarrow> (st, Inr (cached_exemplars data))
         | _ \<Rightarrow>
             (let pairs = exemplar_pairs (se_repr env) (rp_smart_exemplars_jsonb policy) in
              if pairs = [] then (st, Inr [])
              else case embed_batch env (ss_calls st) m c (map snd pairs) of
                (n, Inl e) \<Rightarrow> (st\<lparr>ss_calls := n\<rparr>, Inl e)
              | (n, Inr (vecs, pt)) \<Rightarrow>
                  let out = group_vectors pairs vecs;
                      r' = (if out \<noteq> [] \<and> r_up r
                            then rd_set_json now key (exemplars_json out) exemplar_ttl r else r)
                  in (st\<lparr>ss_calls := n, ss_redis := r'\<rparr>, Inr out)))"

section \<open>Warm-up\<close>

definition warmup_route_exemplars ::
    "smart_env \<Rightarrow> datetime \<Rightarrow> session \<Rightarrow> smart_state \<Rightarrow> route_policy \<Rightarrow> smart_state \<times> (py_error + bool)" where
  "warmup_route_exemplars env now db st policy =
     (case rp_smart_embedding_model_id policy of
        None \<Rightarrow> (st, Inr False)
      | Some mid \<Rightarrow>
          if \<not> rp_enabled policy \<or> rp_strategy policy \<noteq> smart \<or> mid = 0
             \<or> rp_smart_exemplars_jsonb policy = []
          then (st, Inr False)
          else case get_model db mid of
            None \<Rightarrow> (st, Inr False)
          | Some m \<Rightarrow>
              if \<not> md_enabled m \<or> md_kind m \<noteq> ''embedding'' then (st, Inr False)
              else case get_channel db (md_channel_id m) of
                None \<Rightarrow> (st, Inr False)
              | Some c \<Rightarrow>
                  if \<not> ch_enabled c then (st, Inr False)
                  else case load_or_build_exemplars env now st policy m c of
                    (st', Inl e) \<Rightarrow> (st', Inl e)
                  | (st', Inr ex) \<Rightarrow> (st', Inr (ex \<noteq> [])))"

fun warmup_rows ::
    "smart_env \<Rightarrow> datetime \<Rightarrow> session \<Rightarrow> smart_state \<Rightarrow> route_policy list \<Rightarrow> smart_state \<times> int" where
  \<comment> \<open>the \<open>for policy in rows\<close> loop: a route that raises is skipped\<close>
  "warmup_rows env now db st [] = (st, 0)"
| "warmup_rows env now db st (p # ps) =
     (case warmup_route_exemplars env now db st p of
        (st1, res) \<Rightarrow>
          (case warmup_rows env now db st1 ps of
             (st2, ready) \<Rightarrow> (st2, (if res = Inr True then 1 else 0) + ready)))"

definition warmup_all_smart_routes ::
    "smart_env \<Rightarrow> datetime \<Rightarrow> session \<Rightarrow> smart_state \<Rightarrow> smart_state \<times> int \<times> int" where
  "warmup_all_smart_routes env now db st =
     (let rows = filter (\<lambda>p. rp_enabled p \<and> rp_strategy p = smart
                            \<and> rp_smart_embedding_model_id p \<noteq> None) (route_policies db)
      in case warmup_rows env now db st rows of (st', ready) \<Rightarrow> (st', ready, int (length rows)))"

section \<open>Classification\<close>

definition usage_of :: "model \<Rightarrow> channel \<Rightarrow> int \<Rightarrow> int \<Rightarrow> string \<Rightarrow> embedding_usage" where
  "usage_of m c pt lat st = \<lparr>eu_model = m, eu_channel = c, eu_upstream_model = md_upstream_model m,
     eu_prompt_tokens = pt, eu_latency_ms = lat, eu_status = st\<rparr>"

definition embed_prompt_cached ::
    "smart_env \<Rightarrow> datetime \<Rightarrow> smart_state \<Rightarrow> model \<Rightarrow> channel \<Rightarrow> string
       \<Rightarrow> smart_state \<times> (py_error + json list option \<times> embedding_usage)" where
  "embed_prompt_cached env now st m c txt =
     (let key = prompt_cache_key (se_sha256 env) (md_id m) txt;
          r = ss_redis st
      in case (if r_up r then rd_get_json now r key else None) of
           Some (JList vec) \<Rightarrow> (st, Inr (Some vec, usage_of m c 0 0 ''cache''))
         | _ \<Rightarrow>
             (case embed_one env (ss_calls st) m c txt of
                (n, Inl e) \<Rightarrow> (st\<lparr>ss_calls := n\<rparr>, Inl e)
              | (n, Inr (vec, pt, status)) \<Rightarrow>
                  let r' = (case vec of None \<Rightarrow> r
                            | Some v \<Rightarrow> if r_up r then rd_set_json now key (JList v) prompt_ttl r else r)
                  in (st\<lparr>ss_calls := n, ss_redis := r'\<rparr>,
                      Inr (vec, usage_of m c pt (se_latency env)
                                  (if vec \<noteq> None then ''ok'' else ''error'')))))"

fun best_of ::
    "(rat \<Rightarrow> rat) \<Rightarrow> json list \<Rightarrow> (string \<times> json) list \<Rightarrow> string option \<times> rat
       \<Rightarrow> py_error + string option \<times> rat" where
  \<comment> \<open>the two nested loops over labels and their vectors, on the flattened list\<close>
  "best_of msqrt vec [] best = Inr best"
| "best_of msqrt vec ((lbl, ev) # evs) (bl, bs) =
     bind_result (cos_sim msqrt vec ev)
       (\<lambda>s. best_of msqrt vec evs (if s > bs then (Some lbl, s) else (bl, bs)))"

definition flat_exemplars :: "exemplars \<Rightarrow> (string \<times> json) list" where
  "flat_exemplars ex = concat (map (\<lambda>(l, vs). map (Pair l) vs) ex)"

definition score_threshold :: "route_policy \<Rightarrow> rat" where
  \<comment> \<open>\<open>(policy.smart_score_threshold or 55) / 100.0\<close>\<close>
  "score_threshold policy =
     of_int (if rp_smart_score_threshold policy = 0 then 55 else rp_smart_score_threshold policy) / 100"

definition classify ::
    "smart_env \<Rightarrow> datetime \<Rightarrow> smart_state \<Rightarrow> route_policy \<Rightarrow> model \<Rightarrow> channel \<Rightarrow> string
       \<Rightarrow> string list option
       \<Rightarrow> smart_state \<times> (py_error + string option \<times> rat \<times> embedding_usage option)" where
  "classify env now st policy m c prompt_text allowed =
     (let txt = py_strip prompt_text in
      if txt = [] then (st, Inr (None, 0, None))
      else case load_or_build_exemplars env now st policy m c of
        (st1, Inl e) \<Rightarrow> (st1, Inl e)
      | (st1, Inr ex0) \<Rightarrow>
          (let ex = (case allowed of
                       Some ls \<Rightarrow> if ls \<noteq> [] then filter (\<lambda>(l, vs). l \<in> set ls) ex0 else ex0
                     | None \<Rightarrow> ex0)
           in if ex = [] then (st1, Inr (None, 0, None))
              else case embed_prompt_cached env now st1 m c txt of
                (st2, Inl e) \<Rightarrow> (st2, Inl e)
              | (st2, Inr (None, usage)) \<Rightarrow> (st2, Inr (None, 0, Some usage))
              | (st2, Inr (Some vec, usage)) \<Rightarrow>
                  (st2,
                   bind_result (best_of (se_sqrt env) vec (flat_exemplars ex) (None, - 1))
                     (\<lambda>(bl, bs). if bs < score_threshold policy
                                 then Inr (None, max bs 0, Some usage)
                                 else Inr (bl, bs, Some usage)))))"

end
