(* ===== verification/Sse_Text.thy ===== *)
theory Sse_Text
  imports Py_Json
begin

text \<open>
  Byte streams of server-sent events: \<open>bytes.decode("utf-8", errors="ignore")\<close>,
  \<open>str.splitlines()\<close> and \<open>str.split\<close> with a separator of several characters, on the UTF-8
  encoding.
\<close>

section \<open>Decoding\<close>

definition is_cont_from :: "nat \<Rightarrow> nat \<Rightarrow> char \<Rightarrow> bool" where
  "is_cont_from lo hi c \<longleftrightarrow> lo \<le> ord c \<and> ord c \<le> hi"

fun utf8_len :: "string \<Rightarrow> nat" where
  \<comment> \<open>length of the well-formed sequence at the head of the bytes, 0 if there is none\<close>
  "utf8_len [] = 0"
| "utf8_len (a # s) =
     (let n = ord a;
          c1 = (\<lambda>lo hi. s \<noteq> [] \<and> is_cont_from lo hi (s ! 0));
          c2 = 2 \<le> length s \<and> is_cont_from 128 191 (s ! 1);
          c3 = 3 \<le> length s \<and> is_cont_from 128 191 (s ! 2)
      in if n < 128 then 1
         else if 194 \<le> n \<and> n \<le> 223 \<and> c1 128 191 then 2
         else if n = 224 \<and> c1 160 191 \<and> c2 then 3
         else if (225 \<le> n \<and> n \<le> 236 \<or> n = 238 \<or> n = 239) \<and> c1 128 191 \<and> c2 then 3
         else if n = 237 \<and> c1 128 159 \<and> c2 then 3
         else if n = 240 \<and> c1 144 191 \<and> c2 \<and> c3 then 4
         else if 241 \<le> n \<and> n \<le> 243 \<and> c1 128 191 \<and> c2 \<and> c3 then 4
         else if n = 244 \<and> c1 128 143 \<and> c2 \<and> c3 then 4
         else 0)"

function decode_ignore :: "string \<Rightarrow> string" where
  \<comment> \<open>bytes that start no well-formed sequence are dropped\<close>
  "decode_ignore [] = []"
| "decode_ignore (a # s) =
     (let k = utf8_len (a # s) in
      if k = 0 then decode_ignore s else take k (a # s) @ decode_ignore (drop k (a # s)))"
  by pat_completeness auto

termination by (relation "measure length") auto

section \<open>Lines\<close>

fun line_break :: "string \<Rightarrow> nat" where
  \<comment> \<open>length of the line boundary at the head: CR LF, the ASCII boundaries, U+0085, U+2028, U+2029\<close>
  "line_break (a # b # c # s) =
     (if ord a = 13 \<and> ord b = 10 then 2
      else if ord a \<in> {10, 11, 12, 13, 28, 29, 30} then 1
      else if ord a = 194 \<and> ord b = 133 then 2
      else if ord a = 226 \<and> ord b = 128 \<and> (ord c = 168 \<or> ord c = 169) then 3
      else 0)"
| "line_break [a, b] =
     (if ord a = 13 \<and> ord b = 10 then 2
      else if ord a \<in> {10, 11, 12, 13, 28, 29, 30} then 1
      else if ord a = 194 \<and> ord b = 133 then 2
      else 0)"
| "line_break [a] = (if ord a \<in> {10, 11, 12, 13, 28, 29, 30} then 1 else 0)"
| "line_break [] = 0"

function split_lines :: "string \<Rightarrow> string \<Rightarrow> string list" where
  \<comment> \<open>the line read so far, reversed, and the rest\<close>
  "split_lines cur [] = (if cur = [] then [] else [rev cur])"
| "split_lines cur (a # s) =
     (let k = line_break (a # s) in
      if k = 0 then split_lines (a # cur) s else rev cur # split_lines [] (drop k (a # s)))"
  by pat_completeness auto

termination by (relation "measure (length \<circ> snd)") auto

definition py_splitlines :: "string \<Rightarrow> string list" where
  "py_splitlines s = split_lines [] s"

function split_on :: "string \<Rightarrow> string \<Rightarrow> string \<Rightarrow> string list" where
  \<comment> \<open>\<open>s.split(sep)\<close> for a separator that is not empty, with the piece read so far reversed\<close>
  "split_on sep cur [] = [rev cur]"
| "split_on sep cur (a # s) =
     (if sep \<noteq> [] \<and> py_startswith (a # s) sep
      then rev cur # split_on sep [] (drop (length sep) (a # s))
      else split_on sep (a # cur) s)"
  by pat_completeness auto

termination by (relation "measure (\<lambda>(sep, cur, s). length s)") auto

definition py_split :: "string \<Rightarrow> string \<Rightarrow> string list" where
  "py_split sep s = split_on sep [] s"

end
