(* ===== verification/Routing.thy ===== *)
theory Routing
  imports Smart_Embedding Sse_Text
begin

text \<open>
  \<^verbatim>\<open>services/providers/router.py\<close> and \<^verbatim>\<open>services/geo.py\<close>: from a route policy to the upstream model
  that serves a request. The weighted, round-robin and smart strategies choose a primary target;
  an optional fallback model follows it.

  The environment extends that of the classifier with \<open>re.search\<close> of an operator's pattern, the
  file test and the reader constructor of the GeoIP package, and the number that
  \<open>random.uniform(0, total)\<close> draws. The state extends the classifier's with the process-local
  round-robin cursors and the GeoIP reader.
\<close>

section \<open>Country of a client\<close>

datatype geo_reader =
    geo_unset
  | geo_failed
  | geo_loaded "string \<Rightarrow> string option"
  \<comment> \<open>\<open>_reader\<close> and \<open>_load_failed\<close>; a loaded reader maps an address to its country code, \<open>None\<close>
      when the lookup raises or finds no code\<close>

record route_env = smart_env +
  re_search_ic :: "string \<Rightarrow> string \<Rightarrow> bool option"
  geo_isfile :: "string \<Rightarrow> bool"
  geo_open :: "string \<Rightarrow> (string \<Rightarrow> string option) option"
  geoip_db_path :: "string option"
  geo_bundled_db :: string
  draw_uniform :: "int \<Rightarrow> rat"

record route_state = smart_state +
  rs_cursors :: "string \<Rightarrow> int"
  rs_geo :: geo_reader

definition geo_db_path :: "('e) route_env_scheme \<Rightarrow> string" where
  "geo_db_path env = or_text (Some (py_strip (or_text (geoip_db_path env) []))) (geo_bundled_db env)"

definition get_reader :: "('e) route_env_scheme \<Rightarrow> geo_reader \<Rightarrow> geo_reader" where
  "get_reader env g =
     (case g of
        geo_unset \<Rightarrow>
          (let path = geo_db_path env in
           if \<not> geo_isfile env path then geo_failed
           else case geo_open env path of None \<Rightarrow> geo_failed | Some rd \<Rightarrow> geo_loaded rd)
      | _ \<Rightarrow> g)"

definition lookup_country :: "('e) route_env_scheme \<Rightarrow> geo_reader \<Rightarrow> string option \<Rightarrow> geo_reader \<times> string option" where
  "lookup_country env g ip =
     (case ip of
        None \<Rightarrow> (g, None)
      | Some a \<Rightarrow>
          if a = [] then (g, None)
          else (let g' = get_reader env g in
                (g', case g' of geo_loaded rd \<Rightarrow> rd a | _ \<Rightarrow> None)))"

section \<open>Targets\<close>

abbreviation default_target_label :: string where "default_target_label \<equiv> ''default''"

type_synonym target = "model \<times> channel \<times> dict"

record route_decision =
  rd_model :: model
  rd_channel :: channel
  rd_fallback_chain :: "(model \<times> channel) list"
  rd_chosen_label :: "string option"
  rd_embedding_usage :: "embedding_usage option"

record rule_context =
  rc_prompt_text :: string
  rc_client_ip :: "string option"

definition target_model_id :: "dict \<Rightarrow> py_error + int" where
  \<comment> \<open>\<open>int(target["model_id"])\<close>\<close>
  "target_model_id t = (case dict_get t ''model_id'' of None \<Rightarrow> Inl KeyError | Some v \<Rightarrow> py_int v)"

fun target_ids :: "dict list \<Rightarrow> py_error + int list" where
  "target_ids [] = Inr []"
| "target_ids (t # ts) =
     bind_result (target_model_id t) (\<lambda>i. bind_result (target_ids ts) (\<lambda>is. Inr (i # is)))"

definition load_route_resources ::
    "session \<Rightarrow> route_policy \<Rightarrow> py_error + (model list \<times> channel list) option" where
  \<comment> \<open>the two dictionaries by id, as the rows they hold\<close>
  "load_route_resources db policy =
     bind_result (target_ids (rp_targets_jsonb policy)) (\<lambda>ids0.
       let ids1 = py_dedup ids0 in
       if ids1 = [] then Inr None
       else let ids = (case rp_fallback_model_id policy of
                         None \<Rightarrow> ids1 | Some f \<Rightarrow> if f \<in> set ids1 then ids1 else ids1 @ [f]);
                ms = filter (\<lambda>m. md_id m \<in> set ids) (models db);
                cs = filter (\<lambda>c. ch_id c \<in> md_channel_id ` set ms) (channels db)
            in Inr (Some (ms, cs)))"

fun ordered_targets :: "dict list \<Rightarrow> model list \<Rightarrow> channel list \<Rightarrow> py_error + target list" where
  "ordered_targets [] ms cs = Inr []"
| "ordered_targets (t # ts) ms cs =
     bind_result (target_model_id t) (\<lambda>i.
       bind_result (ordered_targets ts ms cs) (\<lambda>rest.
         case row_get md_id i ms of
           None \<Rightarrow> Inr rest
         | Some m \<Rightarrow>
             if \<not> md_enabled m then Inr rest
             else case row_get ch_id (md_channel_id m) cs of
               None \<Rightarrow> Inr rest
             | Some c \<Rightarrow> if \<not> ch_enabled c then Inr rest else Inr ((m, c, t) # rest)))"

definition target_label :: "(json \<Rightarrow> string) \<Rightarrow> dict \<Rightarrow> string" where
  "target_label repr t =
     (let label = dict_get_none t ''label'' in
      if label = JNull then default_target_label
      else or_text (Some (py_strip (py_text repr label))) default_target_label)"

section \<open>Prompt text\<close>

fun piece_texts :: "json list \<Rightarrow> string list" where
  "piece_texts [] = []"
| "piece_texts (JObj p # ps) =
     (case dict_get_none p ''text'' of JStr s \<Rightarrow> s # piece_texts ps | _ \<Rightarrow> piece_texts ps)"
| "piece_texts (_ # ps) = piece_texts ps"

fun message_texts :: "json list \<Rightarrow> string list" where
  "message_texts [] = []"
| "message_texts (JObj msg # msgs) =
     (case dict_get_none msg ''content'' of
        JStr s \<Rightarrow> s # message_texts msgs
      | JList ps \<Rightarrow> piece_texts ps @ message_texts msgs
      | _ \<Rightarrow> message_texts msgs)"
| "message_texts (_ # msgs) = message_texts msgs"

definition newline :: string where "newline = [chr 10]"

definition extract_prompt_text :: "json \<Rightarrow> string" where
  "extract_prompt_text payload =
     (case payload of
        JObj p \<Rightarrow>
          (case dict_get_none p ''messages'' of
             JList msgs \<Rightarrow> py_join newline (message_texts msgs)
           | _ \<Rightarrow>
               (case dict_get_none p ''input'' of
                  JStr s \<Rightarrow> s
                | JList xs \<Rightarrow> py_join newline (List.map_filter as_str xs)
                | _ \<Rightarrow> (case dict_get_none p ''prompt'' of JStr s \<Rightarrow> s | _ \<Rightarrow> [])))
      | _ \<Rightarrow> [])"

section \<open>Features of a prompt\<close>

definition approx_token_count :: "string \<Rightarrow> int" where
  "approx_token_count txt = max 1 (int (py_len txt) div 4)"

fun cjk_count :: "string \<Rightarrow> nat" where
  \<comment> \<open>code points U+4E00 to U+9FFF: lead byte E4 followed by at least B8, or E5 to E9\<close>
  "cjk_count (a # b # s) =
     (if ord a = 228 \<and> 184 \<le> ord b \<or> 229 \<le> ord a \<and> ord a \<le> 233 then 1 else 0) + cjk_count (b # s)"
| "cjk_count _ = 0"

definition is_latin :: "char \<Rightarrow> bool" where
  "is_latin c \<longleftrightarrow> 65 \<le> ord c \<and> ord c \<le> 90 \<or> 97 \<le> ord c \<and> ord c \<le> 122"

definition latin_count :: "string \<Rightarrow> nat" where
  "latin_count txt = length (filter is_latin txt)"

definition cjk_ratio :: "string \<Rightarrow> rat" where
  "cjk_ratio txt =
     (let n = cjk_count txt + latin_count txt in
      if n = 0 then 0 else of_nat (cjk_count txt) / of_nat n)"

definition code_fence :: string where "code_fence = replicate 3 (chr 96)"

definition utf8_3 :: "nat \<Rightarrow> string" where
  \<comment> \<open>a code point from U+0800 to U+FFFF\<close>
  "utf8_3 n = [chr (224 + n div 4096), chr (128 + n div 64 mod 64), chr (128 + n mod 64)]"

definition cjk :: "nat list \<Rightarrow> string" where "cjk ns = concat (map utf8_3 ns)"

fun fold_case :: "string \<Rightarrow> string" where
  \<comment> \<open>how \<open>re.I\<close> matches ASCII letters: also long s (U+017F), dotted and dotless i (U+0130,
      U+0131) and the Kelvin sign (U+212A)\<close>
  "fold_case (a # b # c # s) =
     (if ord a = 226 \<and> ord b = 132 \<and> ord c = 170 then CHR ''k'' # fold_case s
      else if ord a = 197 \<and> ord b = 191 then CHR ''s'' # fold_case (c # s)
      else if ord a = 196 \<and> (ord b = 176 \<or> ord b = 177) then CHR ''i'' # fold_case (c # s)
      else chr_lower a # fold_case (b # c # s))"
| "fold_case [a, b] =
     (if ord a = 197 \<and> ord b = 191 then [CHR ''s'']
      else if ord a = 196 \<and> (ord b = 176 \<or> ord b = 177) then [CHR ''i'']
      else [chr_lower a, chr_lower b])"
| "fold_case s = py_lower s"

definition mentions :: "string list \<Rightarrow> string \<Rightarrow> bool" where
  \<comment> \<open>\<open>re.search("w1|w2|...", t, re.I)\<close> for literal alternatives\<close>
  "mentions ws txt = list_ex (py_contains (fold_case txt)) ws"

definition translate_words :: "string list" where
  "translate_words = [''translate'', ''translation'', cjk [0x7ffb, 0x8bd1], cjk [0x7ffb, 0x6210],
     cjk [0x8bd1, 0x6210]]"

definition math_words :: "string list" where
  "math_words = [''calculate'', ''solve'', ''equation'', ''integral'', ''derivative'', ''prove'',
     cjk [0x8ba1, 0x7b97], cjk [0x6c42, 0x89e3], cjk [0x8bc1, 0x660e], cjk [0x65b9, 0x7a0b],
     cjk [0x79ef, 0x5206], cjk [0x5bfc, 0x6570], chr 92 # ''frac'', chr 92 # ''int'', chr 92 # ''sum'']"

definition reasoning_words :: "string list" where
  "reasoning_words = [''step-by-step'', ''step-by step'', ''step by-step'', ''step by step'',
     ''think step'', ''reason through'', ''chain of thought'', cjk [0x9010, 0x6b65],
     cjk [0x63a8, 0x7406], cjk [0x601d, 0x8003, 0x8fc7, 0x7a0b]]"

definition summarize_words :: "string list" where
  "summarize_words = [''summarise'', ''summarize'', ''summary'', ''tldr'', ''tl;dr'',
     cjk [0x603b, 0x7ed3], cjk [0x6982, 0x62ec], cjk [0x6458, 0x8981]]"

definition creative_words :: "string list" where
  "creative_words = [''story'', ''poem'', ''novel'', ''creative'', ''fiction'',
     cjk [0x6545, 0x4e8b], cjk [0x8bd7], cjk [0x5c0f, 0x8bf4], cjk [0x5267, 0x672c], cjk [0x7eed, 0x5199]]"

definition preset_predicates :: "(string \<times> (string \<Rightarrow> bool)) list" where
  "preset_predicates = [
     (''code_block'', \<lambda>t. py_contains t code_fence),
     (''long_prompt'', \<lambda>t. approx_token_count t > 800),
     (''short_prompt'', \<lambda>t. approx_token_count t \<le> 80),
     (''translate'', mentions translate_words),
     (''math'', mentions math_words),
     (''reasoning'', mentions reasoning_words),
     (''summarize'', mentions summarize_words),
     (''creative'', mentions creative_words),
     (''chinese'', \<lambda>t. cjk_ratio t \<ge> 3 / 10),
     (''english'', \<lambda>t. cjk_ratio t < 5 / 100 \<and> list_ex is_latin t)]"

section \<open>Rules\<close>

text \<open>
  An evaluator returns the label of a rule that matches, a true JSON value, or \<open>None\<close>
  (\<open>JNull\<close>); only the country rule touches the GeoIP reader.
\<close>

fun hashable_key :: "json \<Rightarrow> py_error + string option" where
  \<comment> \<open>\<open>table.get(v or "")\<close> for a table keyed by texts: a container cannot be hashed\<close>
  "hashable_key (JStr s) = Inr (Some s)"
| "hashable_key (JList xs) = (if xs = [] then Inr (Some []) else Inl TypeError)"
| "hashable_key (JObj d) = (if d = [] then Inr (Some []) else Inl TypeError)"
| "hashable_key v = Inr (if truthy v then None else Some [])"

definition eval_preset :: "dict \<Rightarrow> rule_context \<Rightarrow> py_error + json" where
  "eval_preset rule ctx =
     bind_result (hashable_key (dict_get_none rule ''id'')) (\<lambda>pid.
       let label = dict_get_none rule ''label'';
           pred = (case pid of None \<Rightarrow> None | Some i \<Rightarrow> map_of preset_predicates i)
       in case pred of
            None \<Rightarrow> Inr JNull
          | Some p \<Rightarrow> if truthy label \<and> p (rc_prompt_text ctx) then Inr label else Inr JNull)"

definition eval_tokens :: "dict \<Rightarrow> rule_context \<Rightarrow> py_error + json" where
  "eval_tokens rule ctx =
     bind_result (py_int (py_or (dict_get_none rule ''threshold'') (JInt 0))) (\<lambda>threshold.
       let gt_label = dict_get_none rule ''gt_label'';
           lte_label = dict_get_none rule ''lte_label'';
           tk = approx_token_count (rc_prompt_text ctx)
       in if tk > threshold \<and> truthy gt_label then Inr gt_label
          else if tk \<le> threshold \<and> truthy lte_label then Inr lte_label
          else Inr JNull)"

definition eval_keyword :: "('e) route_env_scheme \<Rightarrow> dict \<Rightarrow> rule_context \<Rightarrow> py_error + json" where
  "eval_keyword env rule ctx =
     (let pattern = dict_get_none rule ''pattern''; label = dict_get_none rule ''label'' in
      if \<not> truthy pattern \<or> \<not> truthy label then Inr JNull
      else case pattern of
        JStr p \<Rightarrow>
          (case re_search_ic env p (rc_prompt_text ctx) of
             None \<Rightarrow> Inl ValueError
           | Some hit \<Rightarrow> if hit then Inr label else Inr JNull)
      | _ \<Rightarrow> Inl TypeError)"

definition eval_code_block :: "dict \<Rightarrow> rule_context \<Rightarrow> py_error + json" where
  "eval_code_block rule ctx =
     (let label = dict_get_none rule ''label'' in
      if truthy label \<and> py_contains (rc_prompt_text ctx) code_fence then Inr label else Inr JNull)"

definition eval_geo ::
    "('e) route_env_scheme \<Rightarrow> geo_reader \<Rightarrow> dict \<Rightarrow> rule_context \<Rightarrow> geo_reader \<times> (py_error + json)" where
  "eval_geo env g rule ctx =
     (if or_text (rc_client_ip ctx) [] = [] then (g, Inr JNull)
      else
        let label = dict_get_none rule ''label'';
            raw = py_or (dict_get_none rule ''countries'') (JList [])
        in if \<not> truthy label \<or> \<not> truthy raw then (g, Inr JNull)
           else case iter_json raw of
             Inl e \<Rightarrow> (g, Inl e)
           | Inr cs \<Rightarrow>
               let wanted = map (\<lambda>c. py_upper (py_text (se_repr env) c)) (filter truthy cs);
                   (g', cc) = lookup_country env g (rc_client_ip ctx)
               in (g', case cc of
                         None \<Rightarrow> Inr JNull
                       | Some code \<Rightarrow>
                           if code \<noteq> [] \<and> py_upper code \<in> set wanted then Inr label else Inr JNull))"

definition eval_rule ::
    "('e) route_env_scheme \<Rightarrow> string \<Rightarrow> geo_reader \<Rightarrow> dict \<Rightarrow> rule_context \<Rightarrow> geo_reader \<times> (py_error + json)" where
  \<comment> \<open>\<open>_RULE_EVALUATORS\<close>; an unknown type is skipped, as a rule that does not match\<close>
  "eval_rule env rtype g rule ctx =
     (if rtype = ''preset'' then (g, eval_preset rule ctx)
      else if rtype = ''tokens'' then (g, eval_tokens rule ctx)
      else if rtype = ''keyword'' then (g, eval_keyword env rule ctx)
      else if rtype = ''code_block'' then (g, eval_code_block rule ctx)
      else if rtype = ''geo'' then eval_geo env g rule ctx
      else (g, Inr JNull))"

fun apply_rules ::
    "('e) route_env_scheme \<Rightarrow> geo_reader \<Rightarrow> json list \<Rightarrow> rule_context \<Rightarrow> geo_reader \<times> (py_error + json)" where
  "apply_rules env g [] ctx = (g, Inr JNull)"
| "apply_rules env g (JObj rule # rules) ctx =
     (case hashable_key (dict_get_none rule ''type'') of
        Inl e \<Rightarrow> (g, Inl e)
      | Inr None \<Rightarrow> apply_rules env g rules ctx
      | Inr (Some rtype) \<Rightarrow>
          (case eval_rule env rtype g rule ctx of
             (g', Inr label) \<Rightarrow> if truthy label then (g', Inr label) else apply_rules env g' rules ctx
           | (g', Inl e) \<Rightarrow> apply_rules env g' rules ctx))"
| "apply_rules env g (_ # rules) ctx = apply_rules env g rules ctx"

section \<open>Picking a target\<close>

definition target_weight :: "dict \<Rightarrow> py_error + int" where
  "target_weight t =
     bind_result (py_int (dict_get_default t ''weight'' (JInt 1))) (\<lambda>w. Inr (max w 0))"

fun target_weights :: "target list \<Rightarrow> py_error + int list" where
  "target_weights [] = Inr []"
| "target_weights ((m, c, t) # ps) =
     bind_result (target_weight t) (\<lambda>w. bind_result (target_weights ps) (\<lambda>ws. Inr (w # ws)))"

fun walk_weights :: "rat \<Rightarrow> rat \<Rightarrow> (target \<times> int) list \<Rightarrow> (model \<times> channel) option" where
  \<comment> \<open>the loop over the cumulated weights; \<open>None\<close> when it runs to its end\<close>
  "walk_weights draw acc [] = None"
| "walk_weights draw acc (((m, c, t), w) # ps) =
     (let acc' = acc + of_int w in
      if draw \<le> acc' then Some (m, c) else walk_weights draw acc' ps)"

definition pair_of :: "target \<Rightarrow> model \<times> channel" where
  "pair_of p = (fst p, fst (snd p))"

definition weighted_pick :: "(int \<Rightarrow> rat) \<Rightarrow> target list \<Rightarrow> py_error + (model \<times> channel) option" where
  "weighted_pick uniform pairs =
     bind_result (target_weights pairs) (\<lambda>weights.
       let n = sum_list weights in
       if n \<le> 0 then Inr (if pairs = [] then None else Some (pair_of (hd pairs)))
       else case walk_weights (uniform n) 0 (zip pairs weights) of
              Some p \<Rightarrow> Inr (Some p)
            | None \<Rightarrow> Inr (Some (pair_of (last pairs))))"

fun unique_by_model :: "int list \<Rightarrow> target list \<Rightarrow> target list" where
  "unique_by_model seen [] = []"
| "unique_by_model seen (p # ps) =
     (if md_id (fst p) \<in> set seen then unique_by_model seen ps
      else p # unique_by_model (md_id (fst p) # seen) ps)"

definition cursor_key :: "route_policy \<Rightarrow> string" where
  "cursor_key policy = ''llmxy:route:round_robin:''
     @ (if rp_id policy \<noteq> 0 then str_int (rp_id policy) else rp_user_facing_model policy)"

definition next_cursor :: "datetime \<Rightarrow> string \<Rightarrow> ('s) route_state_scheme \<Rightarrow> ('s) route_state_scheme \<times> int" where
  \<comment> \<open>\<open>INCR\<close> on the shared cursor, or the local one when Redis does not answer\<close>
  "next_cursor now key st =
     (if r_up (ss_redis st)
      then (case rd_incrby now key 1 (ss_redis st) of (r', v) \<Rightarrow> (st\<lparr>ss_redis := r'\<rparr>, v - 1))
      else (st\<lparr>rs_cursors := (rs_cursors st)(key := rs_cursors st key + 1)\<rparr>, rs_cursors st key))"

definition round_robin_pick ::
    "datetime \<Rightarrow> route_policy \<Rightarrow> target list \<Rightarrow> ('s) route_state_scheme
       \<Rightarrow> ('s) route_state_scheme \<times> (model \<times> channel) option" where
  "round_robin_pick now policy pairs st =
     (let us = unique_by_model [] pairs in
      if us = [] then (st, None)
      else case next_cursor now (cursor_key policy) st of
        (st', cursor) \<Rightarrow> (st', Some (pair_of (us ! nat (cursor mod int (length us))))))"

section \<open>Smart strategy\<close>

definition smart_label ::
    "route_env \<Rightarrow> datetime \<Rightarrow> session \<Rightarrow> route_state \<Rightarrow> route_policy \<Rightarrow> string list \<Rightarrow> rule_context
       \<Rightarrow> route_state \<times> (py_error + json \<times> embedding_usage option)" where
  \<comment> \<open>the classifier or the rules: the label chosen, \<open>JNull\<close> for none\<close>
  "smart_label env now db st policy unique_labels ctx =
     (if unique_labels = [] then (st, Inr (JNull, None))
      else case rp_smart_embedding_model_id policy of
        Some mid \<Rightarrow>
          if mid \<noteq> 0 then
            (if rc_prompt_text ctx = [] then (st, Inr (JNull, None))
             else case get_model db mid of
               None \<Rightarrow> (st, Inr (JNull, None))
             | Some em \<Rightarrow>
                 if \<not> md_enabled em \<or> md_kind em \<noteq> ''embedding'' then (st, Inr (JNull, None))
                 else case get_channel db (md_channel_id em) of
                   None \<Rightarrow> (st, Inr (JNull, None))
                 | Some ec \<Rightarrow>
                     if \<not> ch_enabled ec then (st, Inr (JNull, None))
                     else case classify (smart_env.truncate env) now (smart_state.truncate st) policy em ec
                                 (rc_prompt_text ctx) (Some unique_labels) of
                       (s, res) \<Rightarrow>
                         (st\<lparr>ss_redis := ss_redis s, ss_calls := ss_calls s\<rparr>,
                          bind_result res (\<lambda>(lbl, score, usage).
                            Inr (case lbl of None \<Rightarrow> JNull | Some l \<Rightarrow> JStr l, usage))))
          else (case apply_rules env (rs_geo st) (rp_smart_rules_jsonb policy) ctx of
                  (g, res) \<Rightarrow> (st\<lparr>rs_geo := g\<rparr>, bind_result res (\<lambda>l. Inr (l, None))))
      | None \<Rightarrow>
          (case apply_rules env (rs_geo st) (rp_smart_rules_jsonb policy) ctx of
             (g, res) \<Rightarrow> (st\<lparr>rs_geo := g\<rparr>, bind_result res (\<lambda>l. Inr (l, None)))))"

definition with_label :: "(json \<Rightarrow> string) \<Rightarrow> string \<Rightarrow> target list \<Rightarrow> target list" where
  "with_label repr lbl pairs = filter (\<lambda>(m, c, t). target_label repr t = lbl) pairs"

definition clean_label :: "(json \<Rightarrow> string) \<Rightarrow> json \<Rightarrow> string option" where
  \<comment> \<open>\<open>str(chosen_label).strip() or None\<close> for a true label\<close>
  "clean_label repr l =
     (if \<not> truthy l then None
      else let s = py_strip (py_text repr l) in if s = [] then None else Some s)"

definition smart_pick ::
    "route_env \<Rightarrow> datetime \<Rightarrow> session \<Rightarrow> route_state \<Rightarrow> route_policy \<Rightarrow> target list \<Rightarrow> rule_context
       \<Rightarrow> route_state \<times> (py_error + (model \<times> channel) option \<times> string option \<times> embedding_usage option)" where
  "smart_pick env now db st policy pairs ctx =
     (let repr = se_repr env;
          unique_labels = py_dedup (map (\<lambda>(m, c, t). target_label repr t) pairs)
      in case smart_label env now db st policy unique_labels ctx of
           (st', res) \<Rightarrow>
             (st',
              bind_result res (\<lambda>(l, usage).
                let chosen = clean_label repr l;
                    matched = (case chosen of None \<Rightarrow> [] | Some lbl \<Rightarrow> with_label repr lbl pairs);
                    default_pairs = with_label repr default_target_label pairs
                in if matched \<noteq> [] then
                     bind_result (weighted_pick (draw_uniform env) matched) (\<lambda>p. Inr (p, chosen, usage))
                   else if default_pairs \<noteq> [] then
                     bind_result (weighted_pick (draw_uniform env) default_pairs)
                       (\<lambda>p. Inr (p, Some default_target_label, usage))
                   else Inr (None, chosen, usage))))"

section \<open>The decision\<close>

definition pick_primary ::
    "route_env \<Rightarrow> datetime \<Rightarrow> session \<Rightarrow> route_state \<Rightarrow> route_policy \<Rightarrow> target list
       \<Rightarrow> string option \<Rightarrow> string option
       \<Rightarrow> route_state \<times> (py_error + (model \<times> channel) option \<times> string option \<times> embedding_usage option)" where
  "pick_primary env now db st policy pairs prompt_text client_ip =
     (case rp_strategy policy of
        smart \<Rightarrow>
          smart_pick env now db st policy pairs
            \<lparr>rc_prompt_text = or_text prompt_text [], rc_client_ip = client_ip\<rparr>
      | round_robin \<Rightarrow>
          (case round_robin_pick now policy pairs st of (st', p) \<Rightarrow> (st', Inr (p, None, None)))
      | weighted \<Rightarrow>
          (st, bind_result (weighted_pick (draw_uniform env) pairs) (\<lambda>p. Inr (p, None, None))))"

definition fallback_pair ::
    "route_policy \<Rightarrow> model list \<Rightarrow> channel list \<Rightarrow> (model \<times> channel) option \<Rightarrow> (model \<times> channel) list" where
  "fallback_pair policy ms cs primary =
     (case rp_fallback_model_id policy of
        None \<Rightarrow> []
      | Some f \<Rightarrow>
          if f \<noteq> 0 \<and> (case primary of None \<Rightarrow> True | Some (m, c) \<Rightarrow> f \<noteq> md_id m) then
            (case row_get md_id f ms of
               None \<Rightarrow> []
             | Some m \<Rightarrow>
                 (case row_get ch_id (md_channel_id m) cs of
                    None \<Rightarrow> []
                  | Some c \<Rightarrow> if md_enabled m \<and> ch_enabled c then [(m, c)] else []))
          else [])"

definition select_route ::
    "route_env \<Rightarrow> datetime \<Rightarrow> session \<Rightarrow> route_state \<Rightarrow> route_policy \<Rightarrow> model list \<Rightarrow> channel list
       \<Rightarrow> string option \<Rightarrow> string option \<Rightarrow> route_state \<times> (py_error + route_decision option)" where
  "select_route env now db st policy ms cs prompt_text client_ip =
     (case ordered_targets (rp_targets_jsonb policy) ms cs of
        Inl e \<Rightarrow> (st, Inl e)
      | Inr pairs \<Rightarrow>
          (case pick_primary env now db st policy pairs prompt_text client_ip of
             (st', res) \<Rightarrow>
               (st',
                bind_result res (\<lambda>(primary, label, usage).
                  case (case primary of None \<Rightarrow> [] | Some p \<Rightarrow> [p]) @ fallback_pair policy ms cs primary of
                    [] \<Rightarrow> Inr None
                  | (m, c) # chain \<Rightarrow>
                      Inr (Some \<lparr>rd_model = m, rd_channel = c, rd_fallback_chain = chain,
                                 rd_chosen_label = label, rd_embedding_usage = usage\<rparr>)))))"

section \<open>Usage in a stream\<close>

fun usage_in_lines :: "(string \<Rightarrow> json option) \<Rightarrow> string list \<Rightarrow> json option" where
  \<comment> \<open>an undecodable line ends the search, as the exception does\<close>
  "usage_in_lines loads [] = None"
| "usage_in_lines loads (line # ls) =
     (if \<not> py_startswith line ''data:'' then usage_in_lines loads ls
      else let data = py_strip (drop 5 line) in
           if data = [] \<or> data = ''[DONE]'' then usage_in_lines loads ls
           else case loads data of
             None \<Rightarrow> None
           | Some (JObj d) \<Rightarrow>
               if truthy (dict_get_none d ''usage'') then Some (dict_get_none d ''usage'')
               else usage_in_lines loads ls
           | Some _ \<Rightarrow> usage_in_lines loads ls)"

definition parse_usage_from_chunk :: "(string \<Rightarrow> json option) \<Rightarrow> string \<Rightarrow> json option" where
  \<comment> \<open>\<open>loads\<close> is \<open>json.loads\<close>, \<open>None\<close> when it raises\<close>
  "parse_usage_from_chunk loads chunk = usage_in_lines loads (py_splitlines (decode_ignore chunk))"

end
