(* ===== verification/Catalog.thy ===== *)
theory Catalog
  imports Routing
begin

text \<open>
  The catalogue that administrators maintain: \<^verbatim>\<open>core/crypto.py\<close>, \<^verbatim>\<open>api/v1/admin/channels.py\<close>,
  \<^verbatim>\<open>models.py\<close> and \<^verbatim>\<open>routes.py\<close>, with the request bodies of \<^verbatim>\<open>schemas/__init__.py\<close> and
  \<open>regenerate_all_running\<close> of \<^verbatim>\<open>services/envoy/config.py\<close>. The handlers take the identity of a new
  row from the database (\<open>new_id\<close>); \<open>repr\<close> prints a value in an error text. A violated unique
  constraint or foreign key makes the commit raise, which the client sees as a 500 response.
\<close>

section \<open>Secrets at rest\<close>

record crypto_env =
  ce_key :: string
  ce_sha256 :: "string \<Rightarrow> string"
  ce_b64 :: "string \<Rightarrow> string"
  ce_encrypt :: "string \<Rightarrow> string \<Rightarrow> string"
  ce_decrypt :: "string \<Rightarrow> string \<Rightarrow> string option"

abbreviation enc_prefix :: string where "enc_prefix \<equiv> ''enc:v1:''"

definition fernet_key :: "crypto_env \<Rightarrow> string" where
  "fernet_key ce = ce_b64 ce (ce_sha256 ce (ce_key ce))"

definition encrypt :: "crypto_env \<Rightarrow> string option \<Rightarrow> string option" where
  "encrypt ce plain =
     (case plain of
        None \<Rightarrow> None
      | Some p \<Rightarrow>
          if p = [] \<or> py_startswith p enc_prefix \<or> ce_key ce = [] then Some p
          else Some (enc_prefix @ ce_encrypt ce (fernet_key ce) p))"

definition decrypt :: "crypto_env \<Rightarrow> string option \<Rightarrow> string option" where
  "decrypt ce value =
     (case value of
        None \<Rightarrow> None
      | Some v \<Rightarrow>
          if v = [] \<or> \<not> py_startswith v enc_prefix then Some v
          else ce_decrypt ce (fernet_key ce) (drop (length enc_prefix) v))"

fun py_drop :: "nat \<Rightarrow> string \<Rightarrow> string" where
  \<comment> \<open>\<open>s[n:]\<close> on code points\<close>
  "py_drop 0 s = s"
| "py_drop (Suc n) [] = []"
| "py_drop (Suc n) (c # cs) = py_drop n (dropWhile is_cont cs)"

definition mask :: "crypto_env \<Rightarrow> string option \<Rightarrow> string" where
  "mask ce value =
     (if or_text value [] = [] then []
      else let plain = or_text (decrypt ce value) []; n = py_len plain in
           if n \<le> 8 then replicate n (CHR ''*'')
           else py_take 4 plain @ replicate (n - 8) (CHR ''*'') @ py_drop (n - 4) plain)"

section \<open>Envoy instances\<close>

text \<open>The node id and configuration version of each instance, and the nodes notified so far.\<close>

record fleet =
  fl_instances :: "(string \<times> int) list"
  fl_notified :: "string list"

definition regenerate_all_running :: "fleet \<Rightarrow> fleet" where
  "regenerate_all_running f =
     f\<lparr>fl_instances := map (\<lambda>(n, v). (n, v + 1)) (fl_instances f),
       fl_notified := fl_notified f @ map fst (fl_instances f)\<rparr>"

section \<open>Channels\<close>

record channel_in =
  ci_name :: string
  ci_provider_type :: string
  ci_connector_type :: string
  ci_base_url :: string
  ci_api_key_enc :: "string option"
  ci_enabled :: bool

abbreviation comma_join :: "string list \<Rightarrow> string" where "comma_join \<equiv> py_join '', ''"

definition embedding_protocols :: "string list" where
  "embedding_protocols = [openai_embeddings, gemini_embeddings]"

definition image_protocols :: "string list" where
  "image_protocols = [openai_images, gemini_images]"

definition validate_channel_protocol :: "(json \<Rightarrow> string) \<Rightarrow> string \<Rightarrow> string result" where
  "validate_channel_protocol repr provider_type =
     (let protocol = normalize_plain (Some provider_type) in
      if protocol \<notin> set chat_protocols
      then Inl (http 422 (''unsupported upstream protocol '' @ repr (JStr provider_type)
                          @ ''; supported: '' @ comma_join chat_protocols))
      else Inr protocol)"

definition validate_connector :: "(json \<Rightarrow> string) \<Rightarrow> string \<Rightarrow> string \<Rightarrow> string result" where
  "validate_connector repr connector_type protocol =
     (let connector = normalize_connector (Some connector_type) in
      if connector \<notin> set connectors
      then Inl (http 422 (''unsupported upstream connector '' @ repr (JStr connector_type)
                          @ ''; supported: '' @ comma_join connectors))
      else if \<not> connector_supports_protocol (Some connector) (Some protocol)
      then Inl (http 422 (''upstream connector '' @ repr (JStr connector)
                          @ '' does not support semantic protocol '' @ repr (JStr protocol)))
      else Inr connector)"

definition allowed_protocols_for_kind :: "string \<Rightarrow> string list" where
  "allowed_protocols_for_kind kind =
     (if kind = ''image'' then image_protocols
      else if kind = ''embedding'' then embedding_protocols
      else chat_protocols)"

definition bound_model_error :: "string \<Rightarrow> string \<Rightarrow> model \<Rightarrow> string option" where
  \<comment> \<open>the body of the loop over the models of a channel\<close>
  "bound_model_error protocol connector m =
     (let kind = or_text (Some (md_kind m)) ''chat'';
          p = normalize_protocol (Some (or_text (md_upstream_protocol m) protocol)) (Some kind)
      in if p \<notin> set (allowed_protocols_for_kind kind)
         then Some (md_code m @ '' ('' @ kind @ '' / '' @ p @ '')'')
         else if \<not> connector_supports_protocol (Some connector) (Some p)
                 \<or> \<not> connector_supports_kind (Some connector) (Some kind)
         then Some (md_code m @ '' ('' @ kind @ '' / '' @ p @ '' via '' @ connector @ '')'')
         else None)"

definition validate_channel_models :: "session \<Rightarrow> int \<Rightarrow> string \<Rightarrow> string \<Rightarrow> unit result" where
  "validate_channel_models db cid protocol connector =
     (let invalid = List.map_filter (bound_model_error protocol connector)
                      (filter (\<lambda>m. md_channel_id m = cid) (models db))
      in if invalid \<noteq> []
         then Inl (http 422 (''upstream protocol/connector is not supported by bound models: ''
                @ comma_join invalid
                @ ''; adjust model overrides first or choose a compatible connector''))
         else Inr ())"

definition channel_out :: "crypto_env \<Rightarrow> channel \<Rightarrow> channel" where
  \<comment> \<open>\<open>_to_out\<close>: the row with normalised names and the key masked\<close>
  "channel_out ce c = c\<lparr>ch_provider_type := channel_protocol c None,
     ch_connector_type := channel_connector c, ch_api_key_enc := Some (mask ce (ch_api_key_enc c))\<rparr>"

definition list_channels :: "crypto_env \<Rightarrow> session \<Rightarrow> channel list" where
  "list_channels ce db = map (channel_out ce) (sort_key ch_id (channels db))"

definition channel_row :: "crypto_env \<Rightarrow> int \<Rightarrow> string \<Rightarrow> string \<Rightarrow> channel_in \<Rightarrow> channel" where
  "channel_row ce i protocol connector req =
     \<lparr>ch_id = i, ch_name = ci_name req, ch_provider_type = protocol,
      ch_connector_type = connector, ch_base_url = ci_base_url req,
      ch_api_key_enc = encrypt ce (ci_api_key_enc req), ch_enabled = ci_enabled req\<rparr>"

definition create_channel ::
    "crypto_env \<Rightarrow> (json \<Rightarrow> string) \<Rightarrow> int \<Rightarrow> session \<Rightarrow> fleet \<Rightarrow> channel_in
       \<Rightarrow> (session \<times> fleet \<times> channel) result" where
  "create_channel ce repr new_id db f req =
     bind_result (validate_channel_protocol repr (ci_provider_type req)) (\<lambda>protocol.
     bind_result (validate_connector repr (ci_connector_type req) protocol) (\<lambda>connector.
       let row = channel_row ce new_id protocol connector req
       in Inr (db\<lparr>channels := channels db @ [row]\<rparr>, regenerate_all_running f, channel_out ce row)))"

definition key_unchanged :: "string option \<Rightarrow> bool" where
  "key_unchanged incoming \<longleftrightarrow>
     (case incoming of
        None \<Rightarrow> True
      | Some s \<Rightarrow> s = [] \<or> py_startswith s ''*'' \<or> py_contains s ''*'')"

definition changed_channel :: "crypto_env \<Rightarrow> string \<Rightarrow> string \<Rightarrow> channel_in \<Rightarrow> channel \<Rightarrow> channel" where
  "changed_channel ce protocol connector req row =
     row\<lparr>ch_name := ci_name req, ch_provider_type := protocol,
         ch_connector_type := connector, ch_base_url := ci_base_url req,
         ch_api_key_enc := (if key_unchanged (ci_api_key_enc req) then ch_api_key_enc row
                            else encrypt ce (ci_api_key_enc req)),
         ch_enabled := ci_enabled req\<rparr>"

definition update_channel ::
    "crypto_env \<Rightarrow> (json \<Rightarrow> string) \<Rightarrow> int \<Rightarrow> session \<Rightarrow> fleet \<Rightarrow> channel_in
       \<Rightarrow> (session \<times> fleet \<times> channel) result" where
  "update_channel ce repr cid db f req =
     (case get_channel db cid of
        None \<Rightarrow> Inl (http 404 ''Not Found'')
      | Some row \<Rightarrow>
          bind_result (validate_channel_protocol repr (ci_provider_type req)) (\<lambda>protocol.
          bind_result (validate_connector repr (ci_connector_type req) protocol) (\<lambda>connector.
          bind_result (validate_channel_models db cid protocol connector) (\<lambda>_.
            let row' = changed_channel ce protocol connector req row
            in Inr (db\<lparr>channels := row_upd ch_id cid (\<lambda>_. row') (channels db)\<rparr>,
                    regenerate_all_running f, channel_out ce row')))))"

definition delete_channel :: "int \<Rightarrow> session \<Rightarrow> fleet \<Rightarrow> (session \<times> fleet) result" where
  "delete_channel cid db f =
     (case get_channel db cid of
        None \<Rightarrow> Inl (http 404 ''Not Found'')
      | Some row \<Rightarrow>
          if list_ex (\<lambda>m. md_channel_id m = cid) (models db) then Inl internal_error
          else Inr (db\<lparr>channels := row_del ch_id cid (channels db)\<rparr>, regenerate_all_running f))"

section \<open>Models\<close>

record model_in =
  mi_code :: string
  mi_display_name :: string
  mi_channel_id :: int
  mi_upstream_model :: string
  mi_kind :: string
  mi_upstream_protocol :: "string option"
  mi_prompt_rate :: int
  mi_completion_rate :: int
  mi_pricing_jsonb :: dict
  mi_enabled :: bool

definition validate_model_protocol :: "(json \<Rightarrow> string) \<Rightarrow> session \<Rightarrow> model_in \<Rightarrow> unit result" where
  "validate_model_protocol repr db req =
     (case get_channel db (mi_channel_id req) of
        None \<Rightarrow> Inl (http 422 (''channel '' @ str_int (mi_channel_id req) @ '' not found''))
      | Some c \<Rightarrow>
          let inherited = channel_protocol c (Some (mi_kind req));
              connector = channel_connector c;
              override = (if or_text (mi_upstream_protocol req) [] \<noteq> []
                          then normalize_protocol (mi_upstream_protocol req) (Some (mi_kind req)) else []);
              proto = or_text (Some override) inherited;
              allowed = allowed_protocols_for_kind (mi_kind req)
          in if proto \<notin> set allowed
             then Inl (http 422 (''unsupported upstream protocol '' @ repr (JStr proto) @ '' (''
                    @ (if or_text (mi_upstream_protocol req) [] \<noteq> [] then ''model override''
                       else ''inherited channel protocol'')
                    @ '') for kind '' @ repr (JStr (mi_kind req))
                    @ ''; supported: '' @ comma_join allowed))
             else if \<not> connector_supports_protocol (Some connector) (Some proto)
                     \<or> \<not> connector_supports_kind (Some connector) (Some (mi_kind req))
             then Inl (http 422 (''channel connector '' @ repr (JStr connector) @ '' does not support ''
                    @ repr (JStr (mi_kind req)) @ '' models using semantic protocol ''
                    @ repr (JStr proto)))
             else Inr ())"

definition model_row :: "int \<Rightarrow> model_in \<Rightarrow> model" where
  "model_row i req = \<lparr>md_id = i, md_code = mi_code req, md_display_name = mi_display_name req,
     md_channel_id = mi_channel_id req, md_upstream_model = mi_upstream_model req,
     md_kind = mi_kind req, md_upstream_protocol = mi_upstream_protocol req,
     md_prompt_rate = mi_prompt_rate req, md_completion_rate = mi_completion_rate req,
     md_pricing_jsonb = mi_pricing_jsonb req, md_enabled = mi_enabled req\<rparr>"

definition list_models_admin :: "session \<Rightarrow> model list" where
  "list_models_admin db = sort_key md_id (models db)"

definition create_model ::
    "(json \<Rightarrow> string) \<Rightarrow> int \<Rightarrow> session \<Rightarrow> fleet \<Rightarrow> model_in \<Rightarrow> (session \<times> fleet \<times> model) result" where
  "create_model repr new_id db f req =
     bind_result (validate_model_protocol repr db req) (\<lambda>_.
       let row = model_row new_id req
       in Inr (db\<lparr>models := models db @ [row]\<rparr>, regenerate_all_running f, row))"

definition update_model ::
    "(json \<Rightarrow> string) \<Rightarrow> int \<Rightarrow> session \<Rightarrow> fleet \<Rightarrow> model_in \<Rightarrow> (session \<times> fleet \<times> model) result" where
  "update_model repr mid db f req =
     bind_result (validate_model_protocol repr db req) (\<lambda>_.
       case get_model db mid of
         None \<Rightarrow> Inl (http 404 ''Not Found'')
       | Some row \<Rightarrow>
           let row' = model_row mid req
           in Inr (db\<lparr>models := row_upd md_id mid (\<lambda>_. row') (models db)\<rparr>,
                   regenerate_all_running f, row'))"

definition null_if :: "int \<Rightarrow> int option \<Rightarrow> int option" where
  "null_if i r = (if r = Some i then None else r)"

definition delete_model :: "int \<Rightarrow> session \<Rightarrow> fleet \<Rightarrow> (session \<times> fleet) result" where
  \<comment> \<open>routes that name the model as fallback or embedding model get \<open>NULL\<close>; a usage log keeps it\<close>
  "delete_model mid db f =
     (case get_model db mid of
        None \<Rightarrow> Inl (http 404 ''Not Found'')
      | Some row \<Rightarrow>
          if list_ex (\<lambda>l. ul_model_id l = Some mid) (usage_logs db) then Inl internal_error
          else Inr (db\<lparr>models := row_del md_id mid (models db),
                       route_policies := map (\<lambda>p. p\<lparr>
                         rp_fallback_model_id := null_if mid (rp_fallback_model_id p),
                         rp_smart_embedding_model_id := null_if mid (rp_smart_embedding_model_id p)\<rparr>)
                         (route_policies db)\<rparr>,
                    regenerate_all_running f))"

section \<open>Routes\<close>

record route_target =
  rt_model_id :: int
  rt_weight :: int
  rt_label :: "string option"

record route_rule =
  rr_type :: string
  rr_id :: "string option"
  rr_threshold :: "int option"
  rr_gt_label :: "string option"
  rr_lte_label :: "string option"
  rr_pattern :: "string option"
  rr_label :: "string option"

record route_exemplar =
  rx_label :: string
  rx_text :: string

record route_policy_in =
  ri_user_facing_model :: string
  ri_modality :: string
  ri_exposed_protocols :: "string list"
  ri_strategy :: route_strategy
  ri_targets :: "route_target list"
  ri_fallback_model_id :: "int option"
  ri_smart_rules :: "route_rule list"
  ri_smart_embedding_model_id :: "int option"
  ri_smart_exemplars :: "route_exemplar list"
  ri_smart_score_threshold :: int
  ri_scope :: string
  ri_enabled :: bool

definition valid_modalities :: "string list" where
  "valid_modalities = [''chat'', ''embedding'', ''image'']"

definition valid_exposed_protocols :: "string list" where
  "valid_exposed_protocols =
     [''openai.chat'', ''openai.responses'', ''openai.embeddings'', ''openai.images'', ''anthropic.messages'']"

definition requested_protocols :: "route_policy_in \<Rightarrow> string list" where
  "requested_protocols req =
     map (\<lambda>p. normalize_protocol (Some p) (Some (ri_modality req)))
       (if ri_exposed_protocols req = [] then [''openai''] else ri_exposed_protocols req)"

definition kind_error :: "(json \<Rightarrow> string) \<Rightarrow> session \<Rightarrow> string \<Rightarrow> string \<Rightarrow> int \<Rightarrow> http_error option" where
  \<comment> \<open>the check of one target or of the fallback: the model exists and is of the route's kind\<close>
  "kind_error repr db what modality i =
     (case get_model db i of
        None \<Rightarrow> Some (http 400 (what @ '' model '' @ str_int i @ '' not found''))
      | Some m \<Rightarrow>
          if or_text (Some (md_kind m)) ''chat'' \<noteq> modality
          then Some (http 400 (what @ '' model '' @ repr (JStr (md_code m)) @ '' is kind=''
                 @ repr (JStr (md_kind m)) @ '', expected '' @ repr (JStr modality)))
          else None)"

fun first_error :: "http_error option list \<Rightarrow> unit result" where
  "first_error [] = Inr ()"
| "first_error (None # es) = first_error es"
| "first_error (Some e # es) = Inl e"

definition validate_modality :: "(json \<Rightarrow> string) \<Rightarrow> session \<Rightarrow> route_policy_in \<Rightarrow> unit result" where
  "validate_modality repr db req =
     (let modality = ri_modality req;
          protocols = requested_protocols req;
          bad = filter (\<lambda>p. p \<notin> set valid_exposed_protocols) protocols
      in if modality \<notin> set valid_modalities
         then Inl (http 400 (''invalid modality '' @ repr (JStr modality)))
         else if bad \<noteq> []
         then Inl (http 400 (''invalid exposed_protocols: '' @ comma_join bad))
         else if protocols = []
         then Inl (http 400 ''exposed_protocols must not be empty'')
         else if modality \<noteq> ''chat'' \<and> list_ex (\<lambda>p. \<not> py_startswith p ''openai.'') protocols
         then Inl (http 400 ''only chat routes can expose non-openai protocols'')
         else if ri_targets req = []
         then Inl (http 400 ''route must have at least one target model'')
         else bind_result
                (first_error (map (\<lambda>t. kind_error repr db ''target'' modality (rt_model_id t)) (ri_targets req)))
                (\<lambda>_. case ri_fallback_model_id req of
                       None \<Rightarrow> Inr ()
                     | Some i \<Rightarrow> first_error [kind_error repr db ''fallback'' modality i]))"

definition opt_json :: "string \<Rightarrow> ('a \<Rightarrow> json) \<Rightarrow> 'a option \<Rightarrow> dict" where
  "opt_json k f v = (case v of None \<Rightarrow> [] | Some x \<Rightarrow> [(k, f x)])"

definition dump_target :: "route_target \<Rightarrow> dict" where
  \<comment> \<open>\<open>model_dump()\<close>\<close>
  "dump_target t = [(''model_id'', JInt (rt_model_id t)), (''weight'', JInt (rt_weight t)),
     (''label'', case rt_label t of None \<Rightarrow> JNull | Some l \<Rightarrow> JStr l)]"

definition dump_rule :: "route_rule \<Rightarrow> dict" where
  \<comment> \<open>\<open>model_dump(exclude_none=True)\<close>: the fields of the schema, no others\<close>
  "dump_rule r = [(''type'', JStr (rr_type r))] @ opt_json ''id'' JStr (rr_id r)
     @ opt_json ''threshold'' JInt (rr_threshold r) @ opt_json ''gt_label'' JStr (rr_gt_label r)
     @ opt_json ''lte_label'' JStr (rr_lte_label r) @ opt_json ''pattern'' JStr (rr_pattern r)
     @ opt_json ''label'' JStr (rr_label r)"

definition dump_exemplar :: "route_exemplar \<Rightarrow> dict" where
  "dump_exemplar e = [(''label'', JStr (rx_label e)), (''text'', JStr (rx_text e))]"

definition parse_scope :: "string \<Rightarrow> route_scope option" where
  "parse_scope s = (if s = ''public'' then Some scope_public else if s = ''private'' then Some scope_private
     else None)"

definition route_to_orm :: "int \<Rightarrow> int \<Rightarrow> route_policy_in \<Rightarrow> py_error + route_policy" where
  \<comment> \<open>\<open>_to_orm(req)\<close> as the row with the given id and embedding version\<close>
  "route_to_orm i version req =
     (case parse_scope (ri_scope req) of
        None \<Rightarrow> Inl ValueError
      | Some sc \<Rightarrow>
          Inr \<lparr>rp_id = i, rp_user_facing_model = ri_user_facing_model req,
               rp_modality = ri_modality req,
               rp_exposed_protocols = py_dedup (requested_protocols req),
               rp_strategy = ri_strategy req,
               rp_targets_jsonb = map dump_target (ri_targets req),
               rp_fallback_model_id = ri_fallback_model_id req,
               rp_smart_rules_jsonb = map (JObj \<circ> dump_rule) (ri_smart_rules req),
               rp_smart_embedding_model_id = ri_smart_embedding_model_id req,
               rp_smart_exemplars_jsonb = map (JObj \<circ> dump_exemplar) (ri_smart_exemplars req),
               rp_smart_score_threshold = ri_smart_score_threshold req,
               rp_smart_embedding_version = version,
               rp_scope = sc, rp_enabled = ri_enabled req\<rparr>)"

fun row_exemplar_items :: "(json \<Rightarrow> string) \<Rightarrow> json list \<Rightarrow> (string \<times> string) list" where
  "row_exemplar_items repr [] = []"
| "row_exemplar_items repr (JObj it # items) =
     (py_text repr (dict_get_default it ''label'' (JStr [])),
      py_text repr (dict_get_default it ''text'' (JStr []))) # row_exemplar_items repr items"
| "row_exemplar_items repr (_ # items) = row_exemplar_items repr items"

definition fingerprint_row :: "(json \<Rightarrow> string) \<Rightarrow> route_policy \<Rightarrow> int option \<times> (string \<times> string) list" where
  "fingerprint_row repr p = (rp_smart_embedding_model_id p,
     sort_key fst (sort_key snd (row_exemplar_items repr (rp_smart_exemplars_jsonb p))))"

definition fingerprint_req :: "route_policy_in \<Rightarrow> int option \<times> (string \<times> string) list" where
  "fingerprint_req req = (ri_smart_embedding_model_id req,
     sort_key fst (sort_key snd (map (\<lambda>e. (rx_label e, rx_text e)) (ri_smart_exemplars req))))"

definition list_routes :: "session \<Rightarrow> route_policy list" where
  "list_routes db = sort_key rp_id (route_policies db)"

abbreviation get_route :: "session \<Rightarrow> int \<Rightarrow> route_policy option" where
  "get_route db i \<equiv> row_get rp_id i (route_policies db)"

definition name_taken :: "session \<Rightarrow> int \<Rightarrow> string \<Rightarrow> bool" where
  \<comment> \<open>the unique constraint on \<open>user_facing_model\<close>\<close>
  "name_taken db i name \<longleftrightarrow>
     list_ex (\<lambda>p. rp_user_facing_model p = name \<and> rp_id p \<noteq> i) (route_policies db)"

definition dangling :: "session \<Rightarrow> int option \<Rightarrow> bool" where
  \<comment> \<open>the foreign key \<open>smart_embedding_model_id\<close>\<close>
  "dangling db r = (case r of None \<Rightarrow> False | Some i \<Rightarrow> get_model db i = None)"

definition create_route ::
    "smart_env \<Rightarrow> datetime \<Rightarrow> int \<Rightarrow> session \<Rightarrow> fleet \<Rightarrow> smart_state \<Rightarrow> route_policy_in
       \<Rightarrow> (session \<times> fleet \<times> smart_state \<times> route_policy) result" where
  "create_route env now new_id db f st req =
     bind_result (validate_modality (se_repr env) db req) (\<lambda>_.
     bind_result (or_500 (route_to_orm new_id
         (if ri_smart_embedding_model_id req \<notin> {None, Some 0} \<and> ri_smart_exemplars req \<noteq> [] then 1 else 0)
         req)) (\<lambda>row.
       if name_taken db new_id (rp_user_facing_model row) \<or> dangling db (rp_smart_embedding_model_id row)
       then Inl internal_error
       else let db' = db\<lparr>route_policies := route_policies db @ [row]\<rparr>
            in Inr (db', regenerate_all_running f, fst (warmup_route_exemplars env now db' st row), row)))"

definition update_route ::
    "smart_env \<Rightarrow> datetime \<Rightarrow> int \<Rightarrow> session \<Rightarrow> fleet \<Rightarrow> smart_state \<Rightarrow> route_policy_in
       \<Rightarrow> (session \<times> fleet \<times> smart_state \<times> route_policy) result" where
  "update_route env now rid db f st req =
     (case get_route db rid of
        None \<Rightarrow> Inl (http 404 ''Not Found'')
      | Some old \<Rightarrow>
          bind_result (validate_modality (se_repr env) db req) (\<lambda>_.
          bind_result (or_500 (route_to_orm rid
              (if fingerprint_row (se_repr env) old \<noteq> fingerprint_req req
               then rp_smart_embedding_version old + 1 else rp_smart_embedding_version old) req)) (\<lambda>row.
            if name_taken db rid (rp_user_facing_model row) \<or> dangling db (rp_smart_embedding_model_id row)
       then Inl internal_error
            else let db' = db\<lparr>route_policies := row_upd rp_id rid (\<lambda>_. row) (route_policies db)\<rparr>
                 in Inr (db', regenerate_all_running f, fst (warmup_route_exemplars env now db' st row), row))))"

definition delete_route :: "int \<Rightarrow> session \<Rightarrow> fleet \<Rightarrow> (session \<times> fleet) result" where
  "delete_route rid db f =
     (case get_route db rid of
        None \<Rightarrow> Inl (http 404 ''Not Found'')
      | Some row \<Rightarrow>
          Inr (db\<lparr>route_policies := row_del rp_id rid (route_policies db)\<rparr>, regenerate_all_running f))"

section \<open>What a route exposes\<close>

text \<open>\<^verbatim>\<open>services/protocols/chat.py\<close>, \<open>route_protocols\<close> and \<open>route_exposes\<close>.\<close>

definition route_protocols :: "route_policy \<Rightarrow> string list" where
  "route_protocols p =
     (let raw = (if rp_exposed_protocols p = [] then [''openai''] else rp_exposed_protocols p);
          kind = or_text (Some (rp_modality p)) ''chat'';
          ps = py_dedup (filter (\<lambda>v. v \<noteq> []) (map (\<lambda>i. normalize_protocol (Some i) (Some kind)) raw))
      in if ps = [] then [normalize_protocol (Some ''openai'') (Some kind)] else ps)"

definition route_exposes :: "route_policy \<Rightarrow> string \<Rightarrow> bool" where
  "route_exposes p protocol \<longleftrightarrow>
     normalize_protocol (Some protocol) (Some (or_text (Some (rp_modality p)) ''chat'')) \<in> set (route_protocols p)"

end
