(* ===== verification/Smart_Laws.thy ===== *)
theory Smart_Laws
  imports Smart_Embedding
begin

text \<open>
  The classifier returns the best label among those allowed, and asking again is free: with
  Redis available the second answer is the same and makes no upstream call.
\<close>

section \<open>The best exemplar\<close>

lemma best_of_spec:
  assumes "best_of msqrt vec evs (bl, bs) = Inr (bl', bs')"
  shows "bs \<le> bs' \<and> (\<forall>(l, ev) \<in> set evs. \<exists>s. cos_sim msqrt vec ev = Inr s \<and> s \<le> bs')
    \<and> ((bl', bs') = (bl, bs) \<or> (\<exists>l ev. (l, ev) \<in> set evs \<and> bl' = Some l \<and> cos_sim msqrt vec ev = Inr bs'))"
  using assms
proof (induction evs arbitrary: bl bs)
  case (Cons p evs)
  obtain l ev where p: "p = (l, ev)" by (cases p)
  with Cons.prems obtain s where s: "cos_sim msqrt vec ev = Inr s"
    and rest: "best_of msqrt vec evs (if s > bs then (Some l, s) else (bl, bs)) = Inr (bl', bs')"
    by (auto simp: bind_result_eq_Inr)
  show ?case
  proof (cases "s > bs")
    case True
    with rest Cons.IH [of "Some l" s] s p show ?thesis by fastforce
  next
    case False
    with rest Cons.IH [of bl bs] s p show ?thesis by fastforce
  qed
qed simp

lemma flat_exemplars_set: "(l, v) \<in> set (flat_exemplars ex) \<longleftrightarrow> (\<exists>vs. (l, vs) \<in> set ex \<and> v \<in> set vs)"
  by (force simp: flat_exemplars_def)

lemma classify_cases:
  assumes "classify env now st policy m c prompt (Some ls) = (st', Inr (res, score, usage))"
    and "usage = Some us" and "res \<noteq> None \<or> eu_status us \<noteq> ''error''" and "ls \<noteq> []"
  obtains st1 ex vec where "load_or_build_exemplars env now st policy m c = (st1, Inr ex)"
    and "filter (\<lambda>(l, vs). l \<in> set ls) ex \<noteq> []" and "py_strip prompt \<noteq> []"
    and "embed_prompt_cached env now st1 m c (py_strip prompt) = (st', Inr (Some vec, us))"
    and "bind_result (best_of (se_sqrt env) vec (flat_exemplars (filter (\<lambda>(l, vs). l \<in> set ls) ex)) (None, - 1))
           (\<lambda>(bl, bs). if bs < score_threshold policy then Inr (None, max bs 0, Some us)
                       else Inr (bl, bs, Some us)) = Inr (res, score, usage)"
proof -
  have ne: "py_strip prompt \<noteq> []"
    using assms(1,2) by (auto simp: classify_def Let_def)
  obtain st1 r1 where l: "load_or_build_exemplars env now st policy m c = (st1, r1)" by fastforce
  with assms(1,2) ne obtain ex where r1: "r1 = Inr ex"
    by (cases r1) (auto simp: classify_def Let_def)
  let ?ex = "filter (\<lambda>(l, vs). l \<in> set ls) ex"
  have exne: "?ex \<noteq> []"
    using assms(1,2,4) ne l r1 by (auto simp: classify_def Let_def)
  obtain st2 r2 where p: "embed_prompt_cached env now st1 m c (py_strip prompt) = (st2, r2)" by fastforce
  have cl: "(case r2 of Inl e \<Rightarrow> (st2, Inl e)
      | Inr (None, u) \<Rightarrow> (st2, Inr (None, 0, Some u))
      | Inr (Some vec, u) \<Rightarrow> (st2, bind_result (best_of (se_sqrt env) vec (flat_exemplars ?ex) (None, - 1))
           (\<lambda>(bl, bs). if bs < score_threshold policy then Inr (None, max bs 0, Some u)
                       else Inr (bl, bs, Some u)))) = (st', Inr (res, score, usage))"
    using assms(1,4) ne l r1 exne p
    by (auto simp: classify_def Let_def split: sum.splits option.splits prod.splits)
  then obtain v u where r2: "r2 = Inr (v, u)" by (cases r2) auto
  have "v \<noteq> None"
  proof
    assume v: "v = None"
    then have "u = us" "res = None" using cl r2 assms(2) by auto
    moreover have "eu_status u = ''error''"
      using p r2 v by (auto simp: embed_prompt_cached_def Let_def usage_of_def
          split: option.splits json.splits prod.splits sum.splits if_splits)
    ultimately show False using assms(3) by simp
  qed
  then obtain vec where v: "v = Some vec" by auto
  with cl r2 have st2: "st2 = st'" by simp
  from cl r2 v have b: "bind_result (best_of (se_sqrt env) vec (flat_exemplars ?ex) (None, - 1))
           (\<lambda>(bl, bs). if bs < score_threshold policy then Inr (None, max bs 0, Some u)
                       else Inr (bl, bs, Some u)) = Inr (res, score, usage)" by simp
  then have "u = us" using assms(2) by (auto simp: bind_result_eq_Inr split: if_splits)
  with that l r1 exne ne p r2 v st2 b show ?thesis by blast
qed

text \<open>
  A label the classifier returns is one of the allowed labels, belongs to an exemplar
  whose similarity to the prompt is the score returned, no allowed exemplar is more similar, and
  the score reaches the threshold of the route.
\<close>

theorem classify_sound:
  assumes "classify env now st policy m c prompt (Some ls) = (st', Inr (Some l, score, Some us))"
    and "ls \<noteq> []"
  shows "l \<in> set ls \<and> score_threshold policy \<le> score
    \<and> (\<exists>st1 ex vec. load_or_build_exemplars env now st policy m c = (st1, Inr ex)
        \<and> embed_prompt_cached env now st1 m c (py_strip prompt) = (st', Inr (Some vec, us))
        \<and> (\<exists>vs. (l, vs) \<in> set ex \<and> (\<exists>ev \<in> set vs. cos_sim (se_sqrt env) vec ev = Inr score))
        \<and> (\<forall>(l', vs) \<in> set ex. l' \<in> set ls \<longrightarrow>
             (\<forall>ev \<in> set vs. \<exists>s. cos_sim (se_sqrt env) vec ev = Inr s \<and> s \<le> score)))"
proof -
  obtain st1 ex vec where
      load: "load_or_build_exemplars env now st policy m c = (st1, Inr ex)"
    and emb: "embed_prompt_cached env now st1 m c (py_strip prompt) = (st', Inr (Some vec, us))"
    and b: "bind_result (best_of (se_sqrt env) vec (flat_exemplars (filter (\<lambda>(l, vs). l \<in> set ls) ex)) (None, - 1))
           (\<lambda>(bl, bs). if bs < score_threshold policy then Inr (None, max bs 0, Some us)
                       else Inr (bl, bs, Some us)) = Inr (Some l, score, Some us)"
    using classify_cases [OF assms(1) refl _ assms(2)] by blast
  let ?evs = "flat_exemplars (filter (\<lambda>(l, vs). l \<in> set ls) ex)"
  from b have best: "best_of (se_sqrt env) vec ?evs (None, - 1) = Inr (Some l, score)"
    and thr: "score_threshold policy \<le> score"
    by (auto simp: bind_result_eq_Inr split: if_splits)
  note sp = best_of_spec [OF best]
  obtain ev where ev: "(l, ev) \<in> set ?evs" "cos_sim (se_sqrt env) vec ev = Inr score"
    using sp by auto
  then obtain vs where vs: "(l, vs) \<in> set ex" "l \<in> set ls" "ev \<in> set vs"
    by (auto simp: flat_exemplars_set)
  have "\<forall>(l', vs) \<in> set ex. l' \<in> set ls \<longrightarrow>
      (\<forall>ev \<in> set vs. \<exists>s. cos_sim (se_sqrt env) vec ev = Inr s \<and> s \<le> score)"
    using sp by (fastforce simp: flat_exemplars_set)
  with load emb vs ev(2) thr show ?thesis by blast
qed

section \<open>Asking again\<close>

definition wf_exemplars :: "exemplars \<Rightarrow> bool" where
  "wf_exemplars ex \<longleftrightarrow> (\<forall>(l, vs) \<in> set ex. vs \<noteq> [])"

lemma cached_exemplars_json: "wf_exemplars ex \<Longrightarrow> cached_exemplars (map (\<lambda>(l, vs). (l, JList vs)) ex) = ex"
proof (induction ex)
  case (Cons p ex)
  obtain l vs where p: "p = (l, vs)" by (cases p)
  with Cons.prems obtain v vs' where "vs = v # vs'" by (cases vs) (auto simp: wf_exemplars_def)
  with Cons p show ?case by (simp add: wf_exemplars_def)
qed simp

lemma add_exemplar_wf: "wf_exemplars ex \<Longrightarrow> wf_exemplars (add_exemplar ex l v)"
  by (induction ex l v rule: add_exemplar.induct) (auto simp: wf_exemplars_def)

lemma group_vectors_wf: "wf_exemplars (group_vectors pairs vecs)"
proof -
  have "wf_exemplars acc \<Longrightarrow> wf_exemplars (foldl (\<lambda>out ((lbl, txt), v).
      case v of None \<Rightarrow> out | Some vec \<Rightarrow> add_exemplar out lbl (JList vec)) acc zs)" for acc zs
    by (induction zs arbitrary: acc) (auto simp: add_exemplar_wf split: option.splits)
  from this [of "[]" "zip pairs vecs"] show ?thesis
    unfolding group_vectors_def by (simp add: wf_exemplars_def)
qed

lemma cache_keys_differ: "exemplar_cache_key i v \<noteq> prompt_cache_key sha j txt"
  by (simp add: exemplar_cache_key_def prompt_cache_key_def)

lemma load_exemplars_again:
  assumes "load_or_build_exemplars env now st policy m c = (st1, Inr ex)"
    and "r_up (ss_redis st)" and "ex \<noteq> []"
  shows "r_up (ss_redis st1) \<and> (\<exists>data.
      rd_get_json now (ss_redis st1) (exemplar_cache_key (rp_id policy) (rp_smart_embedding_version policy))
        = Some (JObj data) \<and> cached_exemplars data = ex)"
proof -
  let ?key = "exemplar_cache_key (rp_id policy) (rp_smart_embedding_version policy)"
  show ?thesis
  proof (cases "\<exists>data. rd_get_json now (ss_redis st) ?key = Some (JObj data)")
    case True
    with assms show ?thesis by (auto simp: load_or_build_exemplars_def Let_def)
  next
    case False
    then obtain n vecs pt pairs where ex: "ex = group_vectors pairs vecs"
      and st1: "st1 = st\<lparr>ss_calls := n, ss_redis := rd_set_json now ?key (exemplars_json ex) exemplar_ttl (ss_redis st)\<rparr>"
      using assms by (auto simp: load_or_build_exemplars_def Let_def
          split: option.splits json.splits prod.splits sum.splits if_splits)
    have "0 < exemplar_ttl" by (simp add: exemplar_ttl_def)
    with st1 ex group_vectors_wf show ?thesis
      by (auto simp: rd_get_json_set exemplars_json_def cached_exemplars_json assms(2))
  qed
qed

lemma embed_prompt_again:
  assumes "embed_prompt_cached env now st m c txt = (st', Inr (Some vec, us))" and "r_up (ss_redis st)"
  shows "r_up (ss_redis st')
    \<and> rd_get_json now (ss_redis st') (prompt_cache_key (se_sha256 env) (md_id m) txt) = Some (JList vec)
    \<and> (\<forall>k. k \<noteq> prompt_cache_key (se_sha256 env) (md_id m) txt \<longrightarrow>
         rd_get_json now (ss_redis st') k = rd_get_json now (ss_redis st) k)
    \<and> eu_model us = m \<and> eu_channel us = c"
proof -
  let ?key = "prompt_cache_key (se_sha256 env) (md_id m) txt"
  have ttl: "0 < prompt_ttl" by (simp add: prompt_ttl_def)
  show ?thesis
  proof (cases "\<exists>v. rd_get_json now (ss_redis st) ?key = Some (JList v)")
    case True
    with assms show ?thesis by (auto simp: embed_prompt_cached_def Let_def usage_of_def)
  next
    case False
    then obtain n pt where
      "st' = st\<lparr>ss_calls := n, ss_redis := rd_set_json now ?key (JList vec) prompt_ttl (ss_redis st)\<rparr>"
      and "us = usage_of m c pt (se_latency env) ''ok''"
      using assms by (auto simp: embed_prompt_cached_def Let_def
          split: option.splits json.splits prod.splits sum.splits if_splits)
    with ttl assms(2) show ?thesis by (simp add: rd_get_json_set usage_of_def)
  qed
qed

text \<open>
  With Redis available, classifying the same prompt again gives the same label and
  score, leaves the state unchanged, so makes no upstream call, and reports a cache hit of no
  tokens, which the relay does not charge. The upstream service and its latency may have changed.
\<close>

theorem classify_again_cached:
  assumes "classify env now st policy m c prompt (Some ls) = (st', Inr (Some l, score, Some us))"
    and "ls \<noteq> []" and "r_up (ss_redis st)"
    and "se_sqrt env' = se_sqrt env" and "se_sha256 env' = se_sha256 env"
  shows "classify env' now st' policy m c prompt (Some ls)
    = (st', Inr (Some l, score, Some (usage_of m c 0 0 ''cache'')))"
proof -
  obtain st1 ex vec where
      load: "load_or_build_exemplars env now st policy m c = (st1, Inr ex)"
    and exne: "filter (\<lambda>(l, vs). l \<in> set ls) ex \<noteq> []" and pne: "py_strip prompt \<noteq> []"
    and emb: "embed_prompt_cached env now st1 m c (py_strip prompt) = (st', Inr (Some vec, us))"
    and b: "bind_result (best_of (se_sqrt env) vec (flat_exemplars (filter (\<lambda>(l, vs). l \<in> set ls) ex)) (None, - 1))
           (\<lambda>(bl, bs). if bs < score_threshold policy then Inr (None, max bs 0, Some us)
                       else Inr (bl, bs, Some us)) = Inr (Some l, score, Some us)"
    using classify_cases [OF assms(1) refl _ assms(2)] by blast
  have "ex \<noteq> []" using exne by auto
  from load_exemplars_again [OF load assms(3) this] obtain data where up1: "r_up (ss_redis st1)"
    and d: "rd_get_json now (ss_redis st1) (exemplar_cache_key (rp_id policy) (rp_smart_embedding_version policy))
        = Some (JObj data)" "cached_exemplars data = ex" by blast
  note e = embed_prompt_again [OF emb up1]
  have "load_or_build_exemplars env' now st' policy m c = (st', Inr ex)"
    using e d cache_keys_differ by (simp add: load_or_build_exemplars_def Let_def)
  moreover have "embed_prompt_cached env' now st' m c (py_strip prompt)
      = (st', Inr (Some vec, usage_of m c 0 0 ''cache''))"
    using e assms(5) by (simp add: embed_prompt_cached_def Let_def)
  moreover have "best_of (se_sqrt env') vec (flat_exemplars (filter (\<lambda>(l, vs). l \<in> set ls) ex)) (None, - 1)
      = Inr (Some l, score)" and "\<not> score < score_threshold policy"
    using b assms(4) by (auto simp: bind_result_eq_Inr split: if_splits)
  ultimately show ?thesis using pne exne assms(2) by (simp add: classify_def Let_def)
qed

section \<open>A route with two labels\<close>

definition demo_vectors :: "nat \<Rightarrow> channel \<Rightarrow> string \<Rightarrow> json \<Rightarrow> string + int \<times> json" where
  "demo_vectors n c um payload =
     Inr (200, JObj [(''data'',
        case (case payload of JObj p \<Rightarrow> dict_get_none p ''input'' | _ \<Rightarrow> JNull) of
          JList ts \<Rightarrow>
            JList [JObj [(''index'', JInt 0), (''embedding'', JList [JInt 3, JInt 4])],
                   JObj [(''index'', JInt 1), (''embedding'', JList [JInt 4, JInt (- 3)])]]
        | _ \<Rightarrow> JList [JObj [(''embedding'', JList [JInt 6, JInt 8])]]),
       (''usage'', JObj [(''prompt_tokens'', JInt 7)])])"

definition demo_smart_env :: smart_env where
  "demo_smart_env = \<lparr>se_call = demo_vectors, se_sqrt = (\<lambda>x. if x = 25 then 5 else if x = 100 then 10 else 0),
     se_sha256 = (\<lambda>s. s), se_repr = (\<lambda>j. []), se_latency = 12\<rparr>"

definition demo_policy :: route_policy where
  "demo_policy = (default_route 1 ''m'')\<lparr>rp_strategy := smart, rp_smart_embedding_model_id := Some 9,
     rp_smart_exemplars_jsonb := [JObj [(''label'', JStr ''hard''), (''text'', JStr ''prove'')],
        JObj [(''label'', JStr ''easy''), (''text'', JStr ''hello'')]]\<rparr>"

definition demo_embedder :: model where
  "demo_embedder = (default_model 9 2)\<lparr>md_kind := ''embedding'', md_upstream_model := ''emb''\<rparr>"

definition demo_smart_state :: smart_state where
  "demo_smart_state = \<lparr>ss_redis = \<lparr>r_up = True, r_data = (\<lambda>k. None)\<rparr>, ss_calls = 0\<rparr>"

lemma demo_classify:
  "snd (classify demo_smart_env 0 demo_smart_state demo_policy demo_embedder (default_channel 2) ''q'' (Some [''hard'', ''easy'']))
     = Inr (Some ''hard'', 1, Some (usage_of demo_embedder (default_channel 2) 7 12 ''ok''))"
  by code_simp

lemma demo_label_set: "[''hard'', ''easy''] \<noteq> []"
  by simp

theorem classify_sound_witness:
  "let cl = classify demo_smart_env 0 demo_smart_state demo_policy demo_embedder (default_channel 2) ''q''
              (Some [''hard'', ''easy''])
   in \<exists>l score us. snd cl = Inr (Some l, score, Some us) \<and> l \<in> set [''hard'', ''easy'']
        \<and> score_threshold demo_policy \<le> score"
proof -
  obtain st' where cl: "classify demo_smart_env 0 demo_smart_state demo_policy demo_embedder
      (default_channel 2) ''q'' (Some [''hard'', ''easy''])
      = (st', Inr (Some ''hard'', 1, Some (usage_of demo_embedder (default_channel 2) 7 12 ''ok'')))"
    using demo_classify by (metis prod.collapse)
  from classify_sound [OF cl demo_label_set] cl show ?thesis by auto
qed

theorem classify_again_cached_witness:
  "let cl = classify demo_smart_env 0 demo_smart_state demo_policy demo_embedder (default_channel 2) ''q''
              (Some [''hard'', ''easy''])
   in snd cl = Inr (Some ''hard'', 1, Some (usage_of demo_embedder (default_channel 2) 7 12 ''ok''))
      \<and> classify (demo_smart_env\<lparr>se_call := (\<lambda>n c m p. Inl ''down'')\<rparr>) 0 (fst cl) demo_policy demo_embedder
          (default_channel 2) ''q'' (Some [''hard'', ''easy''])
        = (fst cl, Inr (Some ''hard'', 1, Some (usage_of demo_embedder (default_channel 2) 0 0 ''cache'')))"
proof -
  obtain st' where cl: "classify demo_smart_env 0 demo_smart_state demo_policy demo_embedder
      (default_channel 2) ''q'' (Some [''hard'', ''easy''])
      = (st', Inr (Some ''hard'', 1, Some (usage_of demo_embedder (default_channel 2) 7 12 ''ok'')))"
    using demo_classify by (metis prod.collapse)
  have up: "r_up (ss_redis demo_smart_state)" by (simp add: demo_smart_state_def)
  show ?thesis
    using classify_again_cached [OF cl demo_label_set up,
        where env' = "demo_smart_env\<lparr>se_call := (\<lambda>n c m p. Inl ''down'')\<rparr>"] cl by simp
qed

end
