(* ===== verification/Routing_Laws.thy ===== *)
theory Routing_Laws
  imports Routing Smart_Laws
begin

text \<open>
  What a route decision promises: every candidate is enabled and belongs to the policy, the
  weighted draw and the round-robin cursor select as their names say, and a route of the shape
  the admin endpoints write always yields a decision.
\<close>

section \<open>Where the candidates come from\<close>

definition usable :: "model list \<Rightarrow> channel list \<Rightarrow> model \<times> channel \<Rightarrow> bool" where
  "usable ms cs p \<longleftrightarrow> fst p \<in> set ms \<and> md_enabled (fst p) \<and> snd p \<in> set cs \<and> ch_enabled (snd p)
     \<and> ch_id (snd p) = md_channel_id (fst p)"

lemma ordered_targets_usable:
  assumes "ordered_targets ts ms cs = Inr ps" and "p \<in> set ps"
  shows "usable ms cs (pair_of p) \<and> snd (snd p) \<in> set ts \<and> target_model_id (snd (snd p)) = Inr (md_id (fst p))"
  using assms
proof (induction ts arbitrary: ps)
  case (Cons t ts)
  then obtain i rest where i: "target_model_id t = Inr i" and r: "ordered_targets ts ms cs = Inr rest"
    by (auto simp: bind_result_eq_Inr)
  show ?case
  proof (cases "p \<in> set rest")
    case True
    with Cons.IH [OF r] show ?thesis by simp
  next
    case False
    with Cons.prems i r obtain m c where "row_get md_id i ms = Some m" "md_enabled m"
        "row_get ch_id (md_channel_id m) cs = Some c" "ch_enabled c" "p = (m, c, t)"
      by (auto split: option.splits if_splits)
    with row.get_Some [of md_id i ms m] row.get_Some [of ch_id "md_channel_id m" cs c] i show ?thesis
      by (simp add: usable_def pair_of_def)
  qed
qed simp

lemma walk_weights_mem: "walk_weights d a zs = Some p \<Longrightarrow> p \<in> pair_of ` fst ` set zs"
  by (induction d a zs rule: walk_weights.induct) (auto simp: pair_of_def Let_def split: if_splits)

lemma weighted_pick_mem:
  assumes "weighted_pick u ps = Inr (Some p)"
  shows "p \<in> pair_of ` set ps"
proof -
  from assms obtain ws where ws: "target_weights ps = Inr ws"
    by (auto simp: weighted_pick_def bind_result_eq_Inr)
  show ?thesis
  proof (cases "ps = []")
    case True
    with assms show ?thesis by (auto simp: weighted_pick_def bind_result_eq_Inr Let_def split: if_splits)
  next
    case False
    then have "hd ps \<in> set ps" "last ps \<in> set ps" by auto
    with assms False ws show ?thesis
      by (fastforce simp: weighted_pick_def Let_def dest: walk_weights_mem set_zip_leftD
          split: option.splits if_splits)
  qed
qed

lemma unique_by_model_subset: "set (unique_by_model seen ps) \<subseteq> set ps"
  by (induction seen ps rule: unique_by_model.induct) auto

lemma round_robin_pick_mem:
  assumes "round_robin_pick now policy ps st = (st', Some p)"
  shows "p \<in> pair_of ` set ps"
proof -
  let ?us = "unique_by_model [] ps"
  have ne: "?us \<noteq> []" using assms by (auto simp: round_robin_pick_def Let_def)
  obtain st1 cursor where n: "next_cursor now (cursor_key policy) st = (st1, cursor)" by fastforce
  have "nat (cursor mod int (length ?us)) < length ?us"
    using ne by (simp add: nat_less_iff)
  then have "?us ! nat (cursor mod int (length ?us)) \<in> set ps"
    using unique_by_model_subset nth_mem by blast
  with assms ne n show ?thesis by (auto simp: round_robin_pick_def Let_def)
qed

lemma smart_pick_mem:
  assumes "smart_pick env now db st policy ps ctx = (st', Inr (Some p, l, u))"
  shows "p \<in> pair_of ` set ps"
proof -
  have sub: "set (with_label repr lbl ps) \<subseteq> set ps" for repr lbl
    by (auto simp: with_label_def)
  from assms obtain qs where "weighted_pick (draw_uniform env) qs = Inr (Some p)" "set qs \<subseteq> set ps"
    using sub by (fastforce simp: smart_pick_def Let_def bind_result_eq_Inr
        split: prod.splits if_splits option.splits)
  with weighted_pick_mem show ?thesis by (metis image_mono subsetD)
qed

lemma pick_primary_mem:
  assumes "pick_primary env now db st policy ps prompt ip = (st', Inr (Some p, l, u))"
  shows "p \<in> pair_of ` set ps"
proof (cases "rp_strategy policy")
  case weighted
  with assms show ?thesis by (auto simp: pick_primary_def bind_result_eq_Inr dest: weighted_pick_mem)
next
  case round_robin
  with assms show ?thesis
    by (auto simp: pick_primary_def split: prod.splits dest: round_robin_pick_mem)
next
  case smart
  with assms show ?thesis by (auto simp: pick_primary_def dest: smart_pick_mem)
qed

lemma fallback_pair_usable:
  assumes "p \<in> set (fallback_pair policy ms cs primary)"
  shows "usable ms cs p \<and> rp_fallback_model_id policy = Some (md_id (fst p))
    \<and> (\<forall>q. primary = Some q \<longrightarrow> md_id (fst p) \<noteq> md_id (fst q))"
proof -
  from assms obtain f m c where f: "rp_fallback_model_id policy = Some f"
      "\<forall>q. primary = Some q \<longrightarrow> f \<noteq> md_id (fst q)"
    and m: "row_get md_id f ms = Some m" "md_enabled m"
    and c: "row_get ch_id (md_channel_id m) cs = Some c" "ch_enabled c" and p: "p = (m, c)"
  proof (cases "rp_fallback_model_id policy")
    case None
    with assms have False by (simp add: fallback_pair_def)
    then show ?thesis ..
  next
    case (Some f)
    have ne: "f \<noteq> 0 \<and> (case primary of None \<Rightarrow> True | Some (m, c) \<Rightarrow> f \<noteq> md_id m)"
      using assms Some by (rule_tac ccontr) (simp add: fallback_pair_def)
    with assms Some have "p \<in> set (case row_get md_id f ms of None \<Rightarrow> []
        | Some m \<Rightarrow> (case row_get ch_id (md_channel_id m) cs of None \<Rightarrow> []
             | Some c \<Rightarrow> if md_enabled m \<and> ch_enabled c then [(m, c)] else []))"
      by (simp add: fallback_pair_def)
    then obtain m c where "row_get md_id f ms = Some m" "md_enabled m"
        "row_get ch_id (md_channel_id m) cs = Some c" "ch_enabled c" "p = (m, c)"
      by (cases "row_get md_id f ms"; simp; metis)
    moreover have "\<forall>q. primary = Some q \<longrightarrow> f \<noteq> md_id (fst q)" using ne by auto
    ultimately show ?thesis using Some that by blast
  qed
  from row.get_Some [OF m(1)] row.get_Some [OF c(1)] f m c p show ?thesis by (simp add: usable_def)
qed

lemma fallback_pair_short: "length (fallback_pair policy ms cs primary) \<le> 1"
  by (auto simp: fallback_pair_def split: option.splits if_splits)

definition candidates :: "route_decision \<Rightarrow> (model \<times> channel) list" where
  "candidates d = (rd_model d, rd_channel d) # rd_fallback_chain d"

lemma select_route_chain:
  assumes "select_route env now db st policy ms cs prompt ip = (st', Inr (Some d))"
  obtains pairs primary u where "ordered_targets (rp_targets_jsonb policy) ms cs = Inr pairs"
    and "pick_primary env now db st policy pairs prompt ip = (st', Inr (primary, rd_chosen_label d, u))"
    and "candidates d = (case primary of None \<Rightarrow> [] | Some p \<Rightarrow> [p]) @ fallback_pair policy ms cs primary"
proof -
  from assms obtain pairs where o: "ordered_targets (rp_targets_jsonb policy) ms cs = Inr pairs"
    by (auto simp: select_route_def split: sum.splits)
  obtain st1 res where p: "pick_primary env now db st policy pairs prompt ip = (st1, res)" by fastforce
  with assms o obtain primary l u where res: "res = Inr (primary, l, u)"
    by (cases res) (auto simp: select_route_def)
  let ?chain = "(case primary of None \<Rightarrow> [] | Some p \<Rightarrow> [p]) @ fallback_pair policy ms cs primary"
  from assms o p res have st: "st1 = st'" and c: "?chain \<noteq> []" "candidates d = ?chain" "rd_chosen_label d = l"
    by (auto simp: select_route_def candidates_def split: list.splits prod.splits)
  with that o p res show ?thesis by metis
qed

lemma select_route_facts:
  assumes "select_route env now db st policy ms cs prompt ip = (st', Inr (Some d))"
  shows "(\<forall>p \<in> set (candidates d). usable ms cs p
        \<and> ((\<exists>t \<in> set (rp_targets_jsonb policy). target_model_id t = Inr (md_id (fst p)))
           \<or> rp_fallback_model_id policy = Some (md_id (fst p))))
    \<and> length (candidates d) \<le> 2 \<and> distinct (map (md_id \<circ> fst) (candidates d))"
proof -
  obtain pairs primary u where o: "ordered_targets (rp_targets_jsonb policy) ms cs = Inr pairs"
    and p: "pick_primary env now db st policy pairs prompt ip = (st', Inr (primary, rd_chosen_label d, u))"
    and c: "candidates d = (case primary of None \<Rightarrow> [] | Some p \<Rightarrow> [p]) @ fallback_pair policy ms cs primary"
    using select_route_chain [OF assms] by metis
  let ?fb = "fallback_pair policy ms cs primary"
  have fb: "?fb = [] \<or> (\<exists>q. ?fb = [q])"
    using fallback_pair_short [of policy ms cs primary] by (cases ?fb) auto
  have prim: "usable ms cs q \<and> (\<exists>t \<in> set (rp_targets_jsonb policy). target_model_id t = Inr (md_id (fst q)))"
    if pq: "primary = Some q" for q
  proof -
    obtain r where "r \<in> set pairs" "q = pair_of r"
      using pick_primary_mem [of env now db st policy pairs prompt ip st' q] p pq by auto
    with ordered_targets_usable [OF o] show ?thesis by (fastforce simp: pair_of_def)
  qed
  have f: "usable ms cs q \<and> rp_fallback_model_id policy = Some (md_id (fst q))
      \<and> (\<forall>r. primary = Some r \<longrightarrow> md_id (fst q) \<noteq> md_id (fst r))" if "q \<in> set ?fb" for q
    using fallback_pair_usable [OF that] by blast
  show ?thesis
  proof (cases primary)
    case None
    with c fb f show ?thesis by auto
  next
    case (Some q)
    with c have cd: "candidates d = q # ?fb" by simp
    from fb show ?thesis
    proof
      assume "?fb = []"
      with cd prim [OF Some] show ?thesis by simp
    next
      assume "\<exists>r. ?fb = [r]"
      then obtain r where r: "?fb = [r]" ..
      with f [of r] Some have "md_id (fst r) \<noteq> md_id (fst q)" by auto
      with cd r prim [OF Some] f [of r] show ?thesis by auto
    qed
  qed
qed

lemma select_route_usable:
  assumes "select_route env now db st policy ms cs prompt ip = (st', Inr (Some d))" and "p \<in> set (candidates d)"
  shows "usable ms cs p"
  using select_route_facts [OF assms(1)] assms(2) by blast

text \<open>
  Claim C12. Every candidate of a decision is an enabled model behind an enabled channel, the
  model's own; it is a target of the policy or its fallback model; there are at most two
  candidates, and they are different models.
\<close>

theorem select_route_sound:
  assumes "select_route env now db st policy ms cs prompt ip = (st', Inr (Some d))"
  shows "(\<forall>p \<in> set (candidates d). usable ms cs p
        \<and> ((\<exists>t \<in> set (rp_targets_jsonb policy). target_model_id t = Inr (md_id (fst p)))
           \<or> rp_fallback_model_id policy = Some (md_id (fst p))))
    \<and> length (candidates d) \<le> 2 \<and> distinct (map (md_id \<circ> fst) (candidates d))"
  using select_route_facts [OF assms] .

section \<open>The weighted draw\<close>

lemma target_weights_length: "target_weights ps = Inr ws \<Longrightarrow> length ws = length ps"
  by (induction ps arbitrary: ws rule: target_weights.induct) (auto simp: bind_result_eq_Inr)

lemma walk_weights_interval:
  assumes "length ws = length ps" and "acc < draw" and "draw \<le> acc + of_int (sum_list ws)"
  shows "\<exists>i < length ps. walk_weights draw acc (zip ps ws) = Some (pair_of (ps ! i))
    \<and> acc + of_int (sum_list (take i ws)) < draw \<and> draw \<le> acc + of_int (sum_list (take (Suc i) ws))"
  using assms
proof (induction ps arbitrary: ws acc)
  case (Cons p ps)
  obtain m c t where p: "p = (m, c, t)" by (cases p)
  obtain w ws' where ws: "ws = w # ws'" using Cons.prems(1) by (cases ws) auto
  show ?case
  proof (cases "draw \<le> acc + of_int w")
    case True
    then have "walk_weights draw acc (zip (p # ps) ws) = Some (pair_of p)"
      using p ws by (simp add: pair_of_def)
    with True Cons.prems(2) ws show ?thesis by (intro exI [of _ 0]) simp
  next
    case False
    with Cons.IH [of ws' "acc + of_int w"] Cons.prems ws obtain i where i: "i < length ps"
        "walk_weights draw (acc + of_int w) (zip ps ws') = Some (pair_of (ps ! i))"
        "acc + of_int w + of_int (sum_list (take i ws')) < draw"
        "draw \<le> acc + of_int w + of_int (sum_list (take (Suc i) ws'))" by auto
    with False p ws show ?thesis by (intro exI [of _ "Suc i"]) (simp add: add.assoc)
  qed
qed simp

text \<open>
  The weighted draw divides the interval from zero to the sum of the weights into
  consecutive intervals as long as the targets' weights and picks the target in whose interval the
  number falls; a target of weight zero is not picked.
\<close>

theorem weighted_pick_interval:
  assumes "target_weights ps = Inr ws" and "0 < sum_list ws"
    and "0 < uniform (sum_list ws)" and "uniform (sum_list ws) \<le> of_int (sum_list ws)"
  shows "\<exists>i < length ps. weighted_pick uniform ps = Inr (Some (pair_of (ps ! i))) \<and> 0 < ws ! i
    \<and> of_int (sum_list (take i ws)) < uniform (sum_list ws)
    \<and> uniform (sum_list ws) \<le> of_int (sum_list (take i ws)) + of_int (ws ! i)"
proof -
  have len: "length ws = length ps" using target_weights_length [OF assms(1)] .
  obtain i where i: "i < length ps"
      "walk_weights (uniform (sum_list ws)) 0 (zip ps ws) = Some (pair_of (ps ! i))"
      "of_int (sum_list (take i ws)) < uniform (sum_list ws)"
      "uniform (sum_list ws) \<le> of_int (sum_list (take (Suc i) ws))"
    using walk_weights_interval [of ws ps 0 "uniform (sum_list ws)"] len assms(3,4) by auto
  have t: "sum_list (take (Suc i) ws) = sum_list (take i ws) + ws ! i"
    using i(1) len by (simp add: take_Suc_conv_app_nth)
  with i(3,4) have "(of_int (sum_list (take i ws)) :: rat) < of_int (sum_list (take i ws) + ws ! i)"
    by linarith
  then have "0 < ws ! i" by linarith
  with i t assms(1,2) show ?thesis by (intro exI [of _ i]) (simp add: weighted_pick_def Let_def)
qed

section \<open>Round robin\<close>

fun cursor_entry :: "(redis_value \<times> datetime option) option \<Rightarrow> int option" where
  \<comment> \<open>the value of a shared cursor: created by \<open>INCR\<close>, so an integer without expiry\<close>
  "cursor_entry None = Some 0"
| "cursor_entry (Some (RInt v, None)) = Some v"
| "cursor_entry _ = None"

definition cursor_is :: "('s) route_state_scheme \<Rightarrow> string \<Rightarrow> int \<Rightarrow> bool" where
  "cursor_is st key v \<longleftrightarrow>
     (if r_up (ss_redis st) then cursor_entry (r_data (ss_redis st) key) = Some v
      else rs_cursors st key = v)"

lemma cursor_entry_Some: "cursor_entry e = Some v \<Longrightarrow> e = None \<and> v = 0 \<or> e = Some (RInt v, None)"
  by (cases e rule: cursor_entry.cases) auto

lemma next_cursor_step:
  assumes "cursor_is st key v"
  obtains st' where "next_cursor now key st = (st', v)" and "cursor_is st' key (v + 1)"
    and "r_up (ss_redis st') = r_up (ss_redis st)"
proof (cases "r_up (ss_redis st)")
  case True
  with assms have "r_data (ss_redis st) key = None \<and> v = 0 \<or> r_data (ss_redis st) key = Some (RInt v, None)"
    by (auto simp: cursor_is_def dest: cursor_entry_Some)
  then have "rd_incrby now key 1 (ss_redis st) = (rd_put key (Some (RInt (v + 1), None)) (ss_redis st), v + 1)"
    by (auto simp: rd_incrby_def rd_live_def)
  with True that show ?thesis by (simp add: next_cursor_def cursor_is_def rd_put_def)
next
  case False
  with assms that show ?thesis by (simp add: next_cursor_def cursor_is_def)
qed

fun rr_run ::
    "route_policy \<Rightarrow> target list \<Rightarrow> datetime list \<Rightarrow> ('s) route_state_scheme \<Rightarrow> (model \<times> channel) option list" where
  \<comment> \<open>the picks of consecutive requests, one at each of the given times\<close>
  "rr_run policy ps [] st = []"
| "rr_run policy ps (now # nows) st =
     (case round_robin_pick now policy ps st of (st', p) \<Rightarrow> p # rr_run policy ps nows st')"

lemma rr_run_picks:
  assumes "unique_by_model [] ps \<noteq> []" and "cursor_is st (cursor_key policy) v"
  shows "rr_run policy ps nows st
    = map (\<lambda>j. Some (pair_of (unique_by_model [] ps ! nat ((v + int j) mod int (length (unique_by_model [] ps))))))
        [0..<length nows]"
  using assms(2)
proof (induction nows arbitrary: st v)
  case (Cons now nows)
  obtain st' where st': "next_cursor now (cursor_key policy) st = (st', v)"
      "cursor_is st' (cursor_key policy) (v + 1)"
    using next_cursor_step [OF Cons.prems] by blast
  have sh: "v + 1 + int j = v + int (Suc j)" for j by simp
  show ?case
    using Cons.IH [OF st'(2)] st'(1) assms(1)
    by (simp add: round_robin_pick_def Let_def sh upt_conv_Cons map_Suc_upt [symmetric] comp_def
        del: upt_Suc)
qed simp

lemma rotation_mset:
  assumes "0 < k"
  shows "mset (map (\<lambda>j. nat ((v + int j) mod int k)) [0..<k]) = mset [0..<k]"
proof -
  let ?f = "\<lambda>j. nat ((v + int j) mod int k)"
  have inj: "inj_on ?f {0..<k}"
  proof (rule inj_onI)
    fix i j assume i: "i \<in> {0..<k}" and j: "j \<in> {0..<k}" and e: "?f i = ?f j"
    have "(v + int i) mod int k = (v + int j) mod int k"
      using e assms by (simp add: nat_eq_iff)
    then have "int k dvd int i - int j" by (simp add: mod_eq_dvd_iff)
    moreover have "\<bar>int i - int j\<bar> < int k" using i j by auto
    ultimately show "i = j" by (metis abs_ge_zero dvd_abs_iff eq_iff_diff_eq_0 abs_0_eq of_nat_eq_iff
          zdvd_not_zless zero_less_abs_iff)
  qed
  have sub: "?f ` {0..<k} \<subseteq> {0..<k}" using assms by (auto simp: nat_less_iff)
  then have "?f ` {0..<k} = {0..<k}" using inj by (simp add: card_image card_subset_eq)
  moreover have "distinct (map ?f [0..<k])" using inj by (simp add: distinct_map)
  ultimately show ?thesis by (metis distinct_upt set_eq_iff_mset_eq_distinct set_map set_upt)
qed

text \<open>
  Round robin is fair: of as many consecutive requests as the route has different
  usable models, wherever the cursor stands, each model serves exactly one. This holds for the
  cursor shared through Redis and for the local one used while Redis is down.
\<close>

theorem round_robin_fair:
  assumes "us = unique_by_model [] ps" and "us \<noteq> []" and "length nows = length us"
    and "cursor_is st (cursor_key policy) v"
  shows "mset (rr_run policy ps nows st) = mset (map (\<lambda>p. Some (pair_of p)) us)"
proof -
  let ?g = "\<lambda>i. Some (pair_of (us ! i))"
  have "rr_run policy ps nows st = map ?g (map (\<lambda>j. nat ((v + int j) mod int (length us))) [0..<length us])"
    using rr_run_picks [of ps st policy v nows] assms by (simp add: comp_def)
  then have "mset (rr_run policy ps nows st)
      = image_mset ?g (mset (map (\<lambda>j. nat ((v + int j) mod int (length us))) [0..<length us]))"
    by (simp only: mset_map)
  also have "\<dots> = image_mset ?g (mset [0..<length us])"
    using rotation_mset [of "length us" v] assms(2) by simp
  also have "\<dots> = mset (map (\<lambda>p. Some (pair_of p)) us)"
  proof -
    have "map ?g [0..<length us] = map (\<lambda>p. Some (pair_of p)) us" by (rule nth_equalityI) simp_all
    then show ?thesis by (metis mset_map)
  qed
  finally show ?thesis .
qed

section \<open>A route with two targets and a fallback\<close>

definition demo_route_env :: route_env where
  "demo_route_env = smart_env.extend demo_smart_env \<lparr>re_search_ic = (\<lambda>p t. Some (py_contains t p)),
     geo_isfile = (\<lambda>p. False), geo_open = (\<lambda>p. None), geoip_db_path = None, geo_bundled_db = ''db'',
     draw_uniform = (\<lambda>n. of_int n / 2)\<rparr>"

definition demo_route_state :: route_state where
  "demo_route_state = smart_state.extend demo_smart_state \<lparr>rs_cursors = (\<lambda>k. 0), rs_geo = geo_unset\<rparr>"

definition demo_target :: "int \<Rightarrow> int \<Rightarrow> dict" where
  "demo_target i w = [(''model_id'', JInt i), (''weight'', JInt w), (''label'', JNull)]"

definition demo_route :: route_policy where
  "demo_route = (default_route 5 ''gpt'')\<lparr>rp_targets_jsonb := [demo_target 1 1, demo_target 2 3],
     rp_fallback_model_id := Some 3\<rparr>"

abbreviation demo_models :: "model list" where
  "demo_models \<equiv> [default_model 1 7, default_model 2 7, default_model 3 7]"

lemma demo_decision:
  "snd (select_route demo_route_env 0 empty_session demo_route_state demo_route demo_models [default_channel 7]
      (Some ''hi'') None)
   = Inr (Some \<lparr>rd_model = default_model 2 7, rd_channel = default_channel 7,
       rd_fallback_chain = [(default_model 3 7, default_channel 7)], rd_chosen_label = None,
       rd_embedding_usage = None\<rparr>)"
  by code_simp

theorem select_route_sound_witness:
  "\<exists>st' d. select_route demo_route_env 0 empty_session demo_route_state demo_route demo_models
        [default_channel 7] (Some ''hi'') None = (st', Inr (Some d))
     \<and> length (candidates d) = 2 \<and> distinct (map (md_id \<circ> fst) (candidates d))"
proof -
  obtain st' where d: "select_route demo_route_env 0 empty_session demo_route_state demo_route demo_models
        [default_channel 7] (Some ''hi'') None
      = (st', Inr (Some \<lparr>rd_model = default_model 2 7, rd_channel = default_channel 7,
       rd_fallback_chain = [(default_model 3 7, default_channel 7)], rd_chosen_label = None,
       rd_embedding_usage = None\<rparr>))"
    using demo_decision by (metis prod.collapse)
  from select_route_sound [OF d] d show ?thesis by (auto simp: candidates_def)
qed

theorem weighted_pick_interval_witness:
  "target_weights [(default_model 1 7, default_channel 7, demo_target 1 1),
      (default_model 2 7, default_channel 7, demo_target 2 3)] = Inr [1, 3]
   \<and> (\<exists>i < 2. weighted_pick (\<lambda>n. of_int n / 2) [(default_model 1 7, default_channel 7, demo_target 1 1),
        (default_model 2 7, default_channel 7, demo_target 2 3)]
      = Inr (Some (pair_of ([(default_model 1 7, default_channel 7, demo_target 1 1),
        (default_model 2 7, default_channel 7, demo_target 2 3)] ! i))) \<and> 0 < [1, 3 :: int] ! i)"
proof -
  have w: "target_weights [(default_model 1 7, default_channel 7, demo_target 1 1),
      (default_model 2 7, default_channel 7, demo_target 2 3)] = Inr [1, 3]"
    by (simp add: target_weight_def demo_target_def dict_get_default_def)
  have p: "0 < sum_list [1, 3 :: int]" "0 < (\<lambda>n. of_int n / 2 :: rat) (sum_list [1, 3])"
      "(\<lambda>n. of_int n / 2 :: rat) (sum_list [1, 3]) \<le> of_int (sum_list [1, 3])"
    by simp_all
  from weighted_pick_interval [OF w, where uniform = "\<lambda>n. of_int n / 2", OF p] w show ?thesis unfolding length_Cons list.size(3) numeral_2_eq_2
    by blast
qed

theorem round_robin_fair_witness:
  "mset (rr_run demo_route [(default_model 1 7, default_channel 7, demo_target 1 1),
       (default_model 2 7, default_channel 7, demo_target 2 3)] [10, 20] demo_route_state)
   = {#Some (default_model 1 7, default_channel 7), Some (default_model 2 7, default_channel 7)#}"
proof -
  let ?ps = "[(default_model 1 7, default_channel 7, demo_target 1 1),
       (default_model 2 7, default_channel 7, demo_target 2 3)]"
  have us: "?ps = unique_by_model [] ?ps" by (simp add: default_row_defs)
  have c: "cursor_is demo_route_state (cursor_key demo_route) 0"
    by (simp add: cursor_is_def demo_route_state_def demo_smart_state_def smart_state.defs)
  show ?thesis using round_robin_fair [OF us _ _ c, of "[10, 20]"] by (simp add: pair_of_def)
qed

end
