(* ===== verification/Catalog_Laws.thy ===== *)
theory Catalog_Laws
  imports Catalog Routing_Laws Protocol_Laws
begin

text \<open>
  Secrets survive encryption and the masked round trip through the administration page; every
  model of a reachable catalogue can be served by its channel; a route written through the
  administration endpoints never makes routing fail.
\<close>

section \<open>Secrets\<close>

definition fernet_ok :: "crypto_env \<Rightarrow> bool" where
  \<comment> \<open>Fernet decrypts what it encrypted with the same key\<close>
  "fernet_ok ce \<longleftrightarrow> (\<forall>k p. ce_decrypt ce k (ce_encrypt ce k p) = Some p)"

text \<open>
  Reading a stored secret gives back the secret that was stored, whether or not an
  encryption key is configured, unless the secret itself looks like a stored one.
\<close>

theorem decrypt_encrypt:
  assumes "fernet_ok ce" and "\<not> py_startswith p enc_prefix"
  shows "decrypt ce (encrypt ce (Some p)) = Some p"
proof (cases "p = [] \<or> ce_key ce = []")
  case True
  with assms(2) show ?thesis by (auto simp: decrypt_def encrypt_def)
next
  case False
  let ?t = "ce_encrypt ce (fernet_key ce) p"
  have e: "encrypt ce (Some p) = Some (enc_prefix @ ?t)"
    using False assms(2) by (simp add: encrypt_def)
  have s: "py_startswith (enc_prefix @ ?t) enc_prefix" by (rule startswith_append)
  show ?thesis
    using assms(1) s unfolding e decrypt_def by (simp add: fernet_ok_def)
qed

lemma stars_found: "0 < n \<Longrightarrow> py_contains (a @ replicate n (CHR ''*'') @ b) ''*''"
proof (induction a)
  case Nil
  then obtain k where "n = Suc k" by (cases n) auto
  then show ?case by (simp add: py_startswith_def)
next
  case (Cons c a)
  then show ?case by simp
qed

lemma mask_is_no_change: "key_unchanged (Some (mask ce v))"
proof -
  have "mask ce v = [] \<or> py_contains (mask ce v) ''*''"
    using stars_found [of "py_len (or_text (decrypt ce v) [])" "[]" "[]"]
      stars_found [of "py_len (or_text (decrypt ce v) []) - 8"]
    by (cases "py_len (or_text (decrypt ce v) [])") (auto simp: mask_def Let_def)
  then show ?thesis by (auto simp: key_unchanged_def)
qed

text \<open>
  The masked key that the channel list shows can be sent back with an update: the
  stored key does not change.
\<close>

theorem masked_key_roundtrip:
  assumes "get_channel db cid = Some c"
    and "update_channel ce repr cid db f (req\<lparr>ci_api_key_enc := ch_api_key_enc (channel_out ce c)\<rparr>)
           = Inr (db', f', out)"
  shows "\<exists>c'. get_channel db' cid = Some c' \<and> ch_api_key_enc c' = ch_api_key_enc c"
proof -
  have id: "ch_id c = cid" using row.get_Some [OF assms(1)] by simp
  let ?req = "req\<lparr>ci_api_key_enc := ch_api_key_enc (channel_out ce c)\<rparr>"
  obtain protocol connector where
    db': "channels db' = row_upd ch_id cid (\<lambda>_. changed_channel ce protocol connector ?req c) (channels db)"
    using assms by (auto simp: update_channel_def bind_result_eq_Inr Let_def)
  define row' where "row' = changed_channel ce protocol connector ?req c"
  have r: "ch_id row' = cid" "ch_api_key_enc row' = ch_api_key_enc c"
    using id mask_is_no_change [of ce "ch_api_key_enc c"]
    by (auto simp: row'_def changed_channel_def channel_out_def)
  have "row_upd ch_id cid (\<lambda>_. row') (channels db)
      = row_upd ch_id cid (\<lambda>x. if ch_id x = cid then row' else x) (channels db)"
    by (rule row.upd_cong) simp
  then have "get_channel db' cid = Some (if ch_id c = cid then row' else c)"
    using r(1) assms(1) by (simp add: db' row'_def [symmetric] row.get_upd)
  with id r show ?thesis by simp
qed

section \<open>Models that can be served\<close>

definition channel_ok :: "channel \<Rightarrow> bool" where
  "channel_ok c \<longleftrightarrow> ch_provider_type c \<in> set chat_protocols \<and> ch_connector_type c \<in> set connectors"

definition served_by :: "model \<Rightarrow> channel \<Rightarrow> bool" where
  \<comment> \<open>what the relay checks before it calls the upstream\<close>
  "served_by m c \<longleftrightarrow>
     (let connector = resolve_connector_type (Some m) c None;
          protocol = resolve_upstream_protocol (Some m) c None
      in protocol \<in> set (allowed_protocols_for_kind (md_kind m))
         \<and> get_connector_adapter (Some connector) \<noteq> None
         \<and> connector_supports_protocol (Some connector) (Some protocol)
         \<and> connector_supports_kind (Some connector) (Some (md_kind m)))"

definition catalog_ok :: "session \<Rightarrow> bool" where
  "catalog_ok db \<longleftrightarrow> distinct (map ch_id (channels db)) \<and> (\<forall>c \<in> set (channels db). channel_ok c)
     \<and> (\<forall>m \<in> set (models db). \<exists>c. get_channel db (md_channel_id m) = Some c \<and> served_by m c)"

text \<open>Stored names are in normal form, and an Azure address only swaps two connectors that speak
  the same protocols.\<close>

lemma connectors_normal: "list_all (\<lambda>k. normalize_connector (Some k) = k) connectors"
  by code_simp

lemma connector_normal: "k \<in> set connectors \<Longrightarrow> normalize_connector (Some k) = k"
  using connectors_normal by (simp add: list_all_iff)

lemma chat_normal: "p \<in> set chat_protocols \<Longrightarrow> normalize_plain (Some p) = p"
  by (auto simp: chat_protocols_def canonical_names)

lemma chats_not_azure:
  "list_all (\<lambda>p. py_strip (py_lower p) \<notin> {''azure'', ''azure_openai'', ''azure-openai''}) chat_protocols"
  by code_simp

lemma chat_not_azure:
  "p \<in> set chat_protocols \<Longrightarrow> py_strip (py_lower p) \<notin> {''azure'', ''azure_openai'', ''azure-openai''}"
  using chats_not_azure unfolding list_all_iff by blast

lemma channel_connector_ok:
  assumes "channel_ok c"
  shows "channel_connector c = ch_connector_type c
    \<or> ch_connector_type c = ''openai'' \<and> channel_connector c = ''azure_openai''"
proof -
  have k: "ch_connector_type c \<in> set connectors" and p: "ch_provider_type c \<in> set chat_protocols"
    using assms by (auto simp: channel_ok_def)
  have ne: "ch_connector_type c \<noteq> []" using k by (auto simp: connectors_def)
  show ?thesis
    using connector_normal [OF k] chat_not_azure [OF p] ne
    by (auto simp: channel_connector_def Let_def or_text_def)
qed

lemma azure_like_openai:
  "connector_supports_protocol (Some ''azure_openai'') p = connector_supports_protocol (Some ''openai'') p"
  "connector_supports_kind (Some ''azure_openai'') k = connector_supports_kind (Some ''openai'') k"
  using connector_normal [of "''openai''"] connector_normal [of "''azure_openai''"]
  by (simp_all add: connector_supports_protocol_def connector_supports_kind_def connectors_def
      connector_protocols_def connector_kinds_def assoc_default_def)

lemma channel_supports:
  assumes "channel_ok c"
  shows "connector_supports_protocol (Some (channel_connector c)) p
      = connector_supports_protocol (Some (ch_connector_type c)) p"
    and "connector_supports_kind (Some (channel_connector c)) k
      = connector_supports_kind (Some (ch_connector_type c)) k"
    and "get_connector_adapter (Some (channel_connector c)) \<noteq> None"
proof -
  have k: "ch_connector_type c \<in> set connectors" using assms by (simp add: channel_ok_def)
  have a: "''azure_openai'' \<in> set connectors" by (simp add: connectors_def)
  show "connector_supports_protocol (Some (channel_connector c)) p
      = connector_supports_protocol (Some (ch_connector_type c)) p"
    "connector_supports_kind (Some (channel_connector c)) k
      = connector_supports_kind (Some (ch_connector_type c)) k"
    using channel_connector_ok [OF assms] azure_like_openai by auto
  show "get_connector_adapter (Some (channel_connector c)) \<noteq> None"
    using channel_connector_ok [OF assms] connector_normal [OF k] connector_normal [OF a] k a
    by (auto simp: get_connector_adapter_def Let_def)
qed

lemma chat_kind_word: "py_strip (py_lower ''chat'') = ''chat''"
  by code_simp

lemma chat_for_kind: "p \<in> set chat_protocols \<Longrightarrow> protocol_for_kind (Some p) (Some ''chat'') = p"
  using chat_normal [of p] chat_kind_word by (simp add: protocol_for_kind_def or_text_def Let_def)

lemma upstream_protocol_ok:
  assumes "channel_ok c"
  shows "resolve_upstream_protocol (Some m) c None
    = normalize_protocol (Some (or_text (md_upstream_protocol m) (ch_provider_type c))) (Some (md_kind m))"
proof -
  have "ch_provider_type c \<noteq> []" using assms by (auto simp: channel_ok_def chat_protocols_def)
  then show ?thesis
    by (cases "md_upstream_protocol m")
      (auto simp: resolve_upstream_protocol_def channel_protocol_def or_text_def)
qed

lemma served_by_alt:
  assumes "channel_ok c"
  shows "served_by m c \<longleftrightarrow>
    (let p = normalize_protocol (Some (or_text (md_upstream_protocol m) (ch_provider_type c))) (Some (md_kind m))
     in p \<in> set (allowed_protocols_for_kind (md_kind m))
        \<and> connector_supports_protocol (Some (ch_connector_type c)) (Some p)
        \<and> connector_supports_kind (Some (ch_connector_type c)) (Some (md_kind m)))"
  using channel_supports [OF assms] upstream_protocol_ok [OF assms]
  by (simp add: served_by_def resolve_connector_type_def or_text_def Let_def)

lemma normalize_plain_empty: "normalize_plain (Some []) = openai_chat"
  by code_simp

lemma normalize_plain_again: "normalize_plain (Some (normalize_plain p)) \<noteq> []"
proof (cases "normalize_plain p = []")
  case True
  then show ?thesis by (simp add: normalize_plain_empty)
next
  case False
  then show ?thesis using normalize_plain_idem [of p] by simp
qed

lemma normalize_for_kind_nonempty: "k \<noteq> [] \<Longrightarrow> normalize_protocol p (Some k) \<noteq> []"
  using normalize_plain_again [of p]
  by (auto simp: normalize_protocol_def or_text_def protocol_for_kind_def default_by_family_kind_def
      assoc_default_def Let_def)

lemma validated_model_served:
  assumes "validate_model_protocol repr db req = Inr ()" and "get_channel db (mi_channel_id req) = Some c"
    and "channel_ok c" and "mi_kind req \<noteq> []"
  shows "served_by (model_row i req) c"
proof -
  let ?p = "resolve_upstream_protocol (Some (model_row i req)) c None"
  let ?ov = "if or_text (mi_upstream_protocol req) [] \<noteq> []
         then normalize_protocol (mi_upstream_protocol req) (Some (mi_kind req)) else []"
  have p: "?p = or_text (Some ?ov) (channel_protocol c (Some (mi_kind req)))"
    using normalize_for_kind_nonempty [OF assms(4)]
    by (cases "mi_upstream_protocol req")
      (auto simp: resolve_upstream_protocol_def model_row_def or_text_def)
  from assms(1,2) have "or_text (Some ?ov) (channel_protocol c (Some (mi_kind req)))
        \<in> set (allowed_protocols_for_kind (mi_kind req))"
      "connector_supports_protocol (Some (channel_connector c))
         (Some (or_text (Some ?ov) (channel_protocol c (Some (mi_kind req)))))"
      "connector_supports_kind (Some (channel_connector c)) (Some (mi_kind req))"
    by (auto simp: validate_model_protocol_def Let_def split: if_splits)
  then show ?thesis
    using channel_supports(3) [OF assms(3)]
    unfolding served_by_def Let_def p by (simp add: resolve_connector_type_def or_text_def model_row_def)
qed

lemma rebound_model_served:
  assumes "bound_model_error (ch_provider_type c) (ch_connector_type c) m = None" and "channel_ok c"
    and "md_kind m \<noteq> []"
  shows "served_by m c"
  using assms by (auto simp: served_by_alt bound_model_error_def Let_def or_text_def split: if_splits)

lemma validated_channel:
  assumes "validate_channel_protocol repr pt = Inr protocol"
    and "validate_connector repr ct protocol = Inr connector"
  shows "protocol \<in> set chat_protocols \<and> connector \<in> set connectors"
  using assms by (auto simp: validate_channel_protocol_def validate_connector_def Let_def split: if_splits)

text \<open>The administration of channels and models; a new row gets an id that no row has.\<close>

inductive catalog_step :: "session \<Rightarrow> session \<Rightarrow> bool" where
  channel_created: "create_channel ce repr i db f req = Inr (db', f', out) \<Longrightarrow> i \<notin> ch_id ` set (channels db)
      \<Longrightarrow> catalog_step db db'"
| channel_updated: "update_channel ce repr i db f req = Inr (db', f', out) \<Longrightarrow> catalog_step db db'"
| channel_deleted: "delete_channel i db f = Inr (db', f') \<Longrightarrow> catalog_step db db'"
| model_created: "create_model repr i db f mreq = Inr (db', f', row) \<Longrightarrow> mi_kind mreq \<noteq> []
      \<Longrightarrow> catalog_step db db'"
| model_updated: "update_model repr i db f mreq = Inr (db', f', row) \<Longrightarrow> mi_kind mreq \<noteq> []
      \<Longrightarrow> catalog_step db db'"
| model_deleted: "delete_model i db f = Inr (db', f') \<Longrightarrow> catalog_step db db'"
| route_created: "create_route env now i db f st rreq = Inr (db', f', st', p) \<Longrightarrow> catalog_step db db'"
| route_updated: "update_route env now i db f st rreq = Inr (db', f', st', p) \<Longrightarrow> catalog_step db db'"
| route_deleted: "delete_route i db f = Inr (db', f') \<Longrightarrow> catalog_step db db'"

inductive_cases catalog_stepE: "catalog_step db db'"

definition catalog_inv :: "session \<Rightarrow> bool" where
  "catalog_inv db \<longleftrightarrow> catalog_ok db \<and> (\<forall>m \<in> set (models db). md_kind m \<noteq> [])"

lemma catalog_invI:
  assumes "distinct (map ch_id (channels db'))" and "\<And>c. c \<in> set (channels db') \<Longrightarrow> channel_ok c"
    and "\<And>m. m \<in> set (models db') \<Longrightarrow> md_kind m \<noteq> []
           \<and> (\<exists>c. get_channel db' (md_channel_id m) = Some c \<and> served_by m c)"
  shows "catalog_inv db'"
  using assms by (auto simp: catalog_inv_def catalog_ok_def)

lemma catalog_invD:
  assumes "catalog_inv db"
  shows "distinct (map ch_id (channels db))" and "c \<in> set (channels db) \<Longrightarrow> channel_ok c"
    and "m \<in> set (models db) \<Longrightarrow> md_kind m \<noteq> []"
    and "m \<in> set (models db) \<Longrightarrow> \<exists>c. get_channel db (md_channel_id m) = Some c \<and> served_by m c"
  using assms by (auto simp: catalog_inv_def catalog_ok_def)

lemma catalog_inv_channels_models:
  "channels db' = channels db \<Longrightarrow> models db' = models db \<Longrightarrow> catalog_inv db \<Longrightarrow> catalog_inv db'"
  by (simp add: catalog_inv_def catalog_ok_def)

lemma create_channel_inv:
  assumes "create_channel ce repr i db f req = Inr (db', f', out)" and "i \<notin> ch_id ` set (channels db)"
    and "catalog_inv db"
  shows "catalog_inv db'"
proof -
  from assms(1) obtain protocol connector where
      val: "validate_channel_protocol repr (ci_provider_type req) = Inr protocol"
        "validate_connector repr (ci_connector_type req) protocol = Inr connector"
    and db': "channels db' = channels db @ [channel_row ce i protocol connector req]" "models db' = models db"
    by (auto simp: create_channel_def bind_result_eq_Inr Let_def)
  let ?row = "channel_row ce i protocol connector req"
  have ok: "channel_ok ?row" and id: "ch_id ?row = i"
    using validated_channel [OF val] by (auto simp: channel_ok_def channel_row_def)
  note inv = catalog_invD [OF assms(3)]
  show ?thesis
  proof (rule catalog_invI)
    show "distinct (map ch_id (channels db'))" using inv(1) assms(2) db' id by auto
    show "channel_ok c" if "c \<in> set (channels db')" for c using that inv(2) ok db' by auto
    fix m assume "m \<in> set (models db')"
    with inv(3,4) [of m] db' show "md_kind m \<noteq> []
        \<and> (\<exists>c. get_channel db' (md_channel_id m) = Some c \<and> served_by m c)"
      by (auto simp: row_get_append)
  qed
qed

lemma update_channel_inv:
  assumes "update_channel ce repr i db f req = Inr (db', f', out)" and "catalog_inv db"
  shows "catalog_inv db'"
proof -
  from assms(1) obtain row protocol connector where old: "get_channel db i = Some row"
    and v: "validate_channel_protocol repr (ci_provider_type req) = Inr protocol"
      "validate_connector repr (ci_connector_type req) protocol = Inr connector"
    and v2: "validate_channel_models db i protocol connector = Inr ()"
    and d: "channels db' = row_upd ch_id i (\<lambda>_. changed_channel ce protocol connector req row) (channels db)"
      "models db' = models db"
    by (auto simp: update_channel_def bind_result_eq_Inr Let_def split: option.splits)
  define row' where "row' = changed_channel ce protocol connector req row"
  have ok: "channel_ok row'" and id: "ch_id row' = ch_id row"
    and val: "validate_channel_models db i (ch_provider_type row') (ch_connector_type row') = Inr ()"
    and db': "channels db' = row_upd ch_id i (\<lambda>_. row') (channels db)" "models db' = models db"
    using validated_channel [OF v] v2 d by (auto simp: channel_ok_def row'_def changed_channel_def)
  note inv = catalog_invD [OF assms(2)]
  define g where "g = (\<lambda>x. if ch_id x = i then row' else x)"
  have rowi: "ch_id row = i" using row.get_Some [OF old] by simp
  have upd: "channels db' = row_upd ch_id i g (channels db)"
    unfolding db' by (rule row.upd_cong) (simp add: g_def)
  have gid: "ch_id (g x) = ch_id x" for x using id rowi by (simp add: g_def)
  have lookup: "get_channel db' j = (if j = i then map_option g (get_channel db j) else get_channel db j)" for j
    unfolding upd using gid by (rule row.get_upd)
  show ?thesis
  proof (rule catalog_invI)
    show "distinct (map ch_id (channels db'))" using inv(1) gid by (simp add: upd row.upd_ids)
    show "channel_ok c" if "c \<in> set (channels db')" for c
      using that inv(2) ok by (auto simp: db' row_upd_def split: if_splits)
    fix m assume m: "m \<in> set (models db')"
    then have k: "md_kind m \<noteq> []" using inv(3) db' by simp
    moreover have "\<exists>c. get_channel db' (md_channel_id m) = Some c \<and> served_by m c"
    proof (cases "md_channel_id m = i")
      case True
      then have "m \<in> set (filter (\<lambda>m. md_channel_id m = i) (models db))" using m db' by simp
      then have "bound_model_error (ch_provider_type row') (ch_connector_type row') m = None"
        using val by (auto simp: validate_channel_models_def Let_def List.map_filter_def filter_empty_conv
            split: if_splits)
      then have "served_by m row'" using rebound_model_served ok k by blast
      with True old rowi show ?thesis by (simp add: lookup g_def)
    next
      case False
      with inv(4) [of m] m db'(2) show ?thesis by (simp add: lookup)
    qed
    ultimately show "md_kind m \<noteq> [] \<and> (\<exists>c. get_channel db' (md_channel_id m) = Some c \<and> served_by m c)" ..
  qed
qed

lemma delete_channel_inv:
  assumes "delete_channel i db f = Inr (db', f')" and "catalog_inv db"
  shows "catalog_inv db'"
proof -
  from assms(1) have db': "channels db' = row_del ch_id i (channels db)" "models db' = models db"
    and free: "\<forall>m \<in> set (models db). md_channel_id m \<noteq> i"
    by (auto simp: delete_channel_def list_ex_iff split: option.splits if_splits)
  have lookup: "j \<noteq> i \<Longrightarrow> row_get ch_id j (row_del ch_id i cs) = row_get ch_id j cs" for j and cs :: "channel list"
    by (rule row_get_del_other)
  note inv = catalog_invD [OF assms(2)]
  show ?thesis
  proof (rule catalog_invI)
    show "distinct (map ch_id (channels db'))"
      using inv(1) by (simp add: db' row_del_def distinct_map_filter)
    show "channel_ok c" if "c \<in> set (channels db')" for c
      using that inv(2) by (simp add: db' row_del_def)
    fix m assume "m \<in> set (models db')"
    with inv(3,4) [of m] free db' show "md_kind m \<noteq> []
        \<and> (\<exists>c. get_channel db' (md_channel_id m) = Some c \<and> served_by m c)"
      by (simp add: lookup)
  qed
qed

lemma new_model_inv:
  assumes "validate_model_protocol repr db req = Inr ()" and "mi_kind req \<noteq> []" and "catalog_inv db"
    and "channels db' = channels db"
    and "\<And>m. m \<in> set (models db') \<Longrightarrow> m \<in> set (models db) \<or> m = model_row i req"
  shows "catalog_inv db'"
proof -
  note inv = catalog_invD [OF assms(3)]
  obtain c where c: "get_channel db (mi_channel_id req) = Some c"
    using assms(1) by (auto simp: validate_model_protocol_def split: option.splits)
  then have "channel_ok c" using inv(2) row.get_Some [OF c] by blast
  then have s: "served_by (model_row i req) c" by (rule validated_model_served [OF assms(1) c _ assms(2)])
  show ?thesis
  proof (rule catalog_invI)
    show "distinct (map ch_id (channels db'))" using inv(1) assms(4) by simp
    show "channel_ok c" if "c \<in> set (channels db')" for c using that inv(2) assms(4) by simp
    fix m assume "m \<in> set (models db')"
    with assms(5) consider "m \<in> set (models db)" | "m = model_row i req" by blast
    then show "md_kind m \<noteq> [] \<and> (\<exists>c. get_channel db' (md_channel_id m) = Some c \<and> served_by m c)"
    proof cases
      case 1
      with inv(3,4) [of m] assms(4) show ?thesis by simp
    next
      case 2
      with s c assms(2,4) show ?thesis by (simp add: model_row_def)
    qed
  qed
qed

lemma create_model_inv:
  assumes "create_model repr i db f req = Inr (db', f', row)" and "mi_kind req \<noteq> []" and "catalog_inv db"
  shows "catalog_inv db'"
proof (rule new_model_inv [where i = i])
  show "validate_model_protocol repr db req = Inr ()" "channels db' = channels db"
    using assms(1) by (auto simp: create_model_def bind_result_eq_Inr Let_def)
  show "m \<in> set (models db) \<or> m = model_row i req" if "m \<in> set (models db')" for m
    using that assms(1) by (auto simp: create_model_def bind_result_eq_Inr Let_def)
qed (fact assms)+

lemma update_model_inv:
  assumes "update_model repr i db f req = Inr (db', f', row)" and "mi_kind req \<noteq> []" and "catalog_inv db"
  shows "catalog_inv db'"
proof (rule new_model_inv [where i = i])
  show "validate_model_protocol repr db req = Inr ()" "channels db' = channels db"
    using assms(1) by (auto simp: update_model_def bind_result_eq_Inr Let_def split: option.splits)
  show "m \<in> set (models db) \<or> m = model_row i req" if "m \<in> set (models db')" for m
    using that assms(1)
    by (auto simp: update_model_def bind_result_eq_Inr Let_def row_upd_def split: option.splits if_splits)
qed (fact assms)+

lemma delete_model_inv:
  assumes "delete_model i db f = Inr (db', f')" and "catalog_inv db"
  shows "catalog_inv db'"
proof -
  from assms(1) have "channels db' = channels db" "set (models db') \<subseteq> set (models db)"
    by (auto simp: delete_model_def row_del_def split: option.splits if_splits)
  then show ?thesis using catalog_invD [OF assms(2)] by (intro catalog_invI) auto
qed

interpretation catalog: step_invariant catalog_step catalog_inv
proof unfold_locales
  fix db db' assume "catalog_step db db'" and inv: "catalog_inv db"
  then show "catalog_inv db'"
  proof (cases rule: catalog_step.cases)
    case route_created
    with inv show ?thesis
      by (auto simp: create_route_def bind_result_eq_Inr Let_def split: if_splits
          intro: catalog_inv_channels_models)
  next
    case route_updated
    with inv show ?thesis
      by (auto simp: update_route_def bind_result_eq_Inr Let_def split: if_splits option.splits
          intro: catalog_inv_channels_models)
  next
    case route_deleted
    with inv show ?thesis
      by (auto simp: delete_route_def split: option.splits intro: catalog_inv_channels_models)
  qed (auto intro: create_channel_inv update_channel_inv delete_channel_inv create_model_inv
      update_model_inv delete_model_inv)
qed

text \<open>
  Claim C14. However channels, models and routes are administered, every model keeps a channel
  whose connector has an adapter and speaks the model's protocol for the model's kind: the checks
  the relays make before an upstream call succeed. Models are created with a kind.
\<close>

theorem catalog_models_served:
  assumes "catalog_step\<^sup>*\<^sup>* empty_session db" and "m \<in> set (models db)"
  shows "\<exists>c. get_channel db (md_channel_id m) = Some c
    \<and> get_connector_adapter (Some (resolve_connector_type (Some m) c None)) \<noteq> None
    \<and> connector_supports_protocol (Some (resolve_connector_type (Some m) c None))
         (Some (resolve_upstream_protocol (Some m) c None))
    \<and> resolve_upstream_protocol (Some m) c None \<in> set (allowed_protocols_for_kind (md_kind m))"
proof -
  have "catalog_inv empty_session" by (simp add: catalog_inv_def catalog_ok_def empty_session_def)
  with assms(1) have "catalog_inv db" by (rule catalog.reach_inv)
  from catalog_invD(4) [OF this assms(2)] show ?thesis by (auto simp: served_by_def Let_def)
qed

section \<open>A small catalogue\<close>

definition demo_crypto :: crypto_env where
  "demo_crypto = \<lparr>ce_key = ''k'', ce_sha256 = (\<lambda>s. s), ce_b64 = (\<lambda>s. s), ce_encrypt = (\<lambda>k p. rev p),
     ce_decrypt = (\<lambda>k t. Some (rev t))\<rparr>"

theorem decrypt_encrypt_witness:
  "encrypt demo_crypto (Some ''sk-1234'') = Some ''enc:v1:4321-ks''
   \<and> decrypt demo_crypto (encrypt demo_crypto (Some ''sk-1234'')) = Some ''sk-1234''"
proof -
  have "fernet_ok demo_crypto" by (simp add: fernet_ok_def demo_crypto_def)
  moreover have "\<not> py_startswith ''sk-1234'' enc_prefix" by (simp add: py_startswith_def)
  ultimately have "decrypt demo_crypto (encrypt demo_crypto (Some ''sk-1234'')) = Some ''sk-1234''"
    by (rule decrypt_encrypt)
  then show ?thesis by (simp add: encrypt_def demo_crypto_def py_startswith_def)
qed

definition demo_channel_in :: channel_in where
  "demo_channel_in = \<lparr>ci_name = ''main'', ci_provider_type = ''openai'', ci_connector_type = ''openai-compatible'',
     ci_base_url = ''https://x'', ci_api_key_enc = Some ''sk-123456789'', ci_enabled = True\<rparr>"

definition demo_model_in :: model_in where
  "demo_model_in = \<lparr>mi_code = ''pic'', mi_display_name = ''Pic'', mi_channel_id = 1, mi_upstream_model = ''dall-e'',
     mi_kind = ''image'', mi_upstream_protocol = None, mi_prompt_rate = 0, mi_completion_rate = 0,
     mi_pricing_jsonb = [], mi_enabled = True\<rparr>"

abbreviation demo_fleet :: fleet where
  "demo_fleet \<equiv> \<lparr>fl_instances = [(''n1'', 4)], fl_notified = []\<rparr>"

definition demo_channel :: channel where
  "demo_channel = channel_row demo_crypto 1 ''openai.chat'' ''openai'' demo_channel_in"

definition demo_db1 :: session where
  "demo_db1 = empty_session\<lparr>channels := [demo_channel]\<rparr>"

lemma demo_create_channel:
  "create_channel demo_crypto (\<lambda>j. []) 1 empty_session demo_fleet demo_channel_in
   = Inr (demo_db1, regenerate_all_running demo_fleet, channel_out demo_crypto demo_channel)"
  by code_simp

lemma demo_create_model:
  "create_model (\<lambda>j. []) 1 demo_db1 demo_fleet demo_model_in
   = Inr (demo_db1\<lparr>models := [model_row 1 demo_model_in]\<rparr>, regenerate_all_running demo_fleet,
          model_row 1 demo_model_in)"
  by code_simp

theorem masked_key_roundtrip_witness:
  "\<exists>db' c'. get_channel db' 1 = Some c' \<and> ch_name c' = ''renamed''
     \<and> mask demo_crypto (ch_api_key_enc demo_channel) = ''sk-1****6789''
     \<and> ch_api_key_enc c' = ch_api_key_enc demo_channel"
proof -
  let ?req = "demo_channel_in\<lparr>ci_name := ''renamed''\<rparr>"
  let ?c = "changed_channel demo_crypto ''openai.chat'' ''openai'' (?req\<lparr>ci_api_key_enc := ch_api_key_enc
      (channel_out demo_crypto demo_channel)\<rparr>) demo_channel"
  have c: "get_channel demo_db1 1 = Some demo_channel" by code_simp
  have u: "update_channel demo_crypto (\<lambda>j. []) 1 demo_db1 demo_fleet
      (?req\<lparr>ci_api_key_enc := ch_api_key_enc (channel_out demo_crypto demo_channel)\<rparr>)
      = Inr (demo_db1\<lparr>channels := [?c]\<rparr>, regenerate_all_running demo_fleet, channel_out demo_crypto ?c)"
    by code_simp
  have "mask demo_crypto (ch_api_key_enc demo_channel) = ''sk-1****6789''" by code_simp
  moreover have "get_channel (demo_db1\<lparr>channels := [?c]\<rparr>) 1 = Some ?c \<and> ch_name ?c = ''renamed''" by code_simp
  ultimately show ?thesis using masked_key_roundtrip [OF c u] by fastforce
qed

theorem catalog_models_served_witness:
  "let db = demo_db1\<lparr>models := [model_row 1 demo_model_in]\<rparr> in
   catalog_step\<^sup>*\<^sup>* empty_session db
   \<and> (\<exists>c. get_channel db 1 = Some c
        \<and> connector_supports_protocol (Some (resolve_connector_type (Some (model_row 1 demo_model_in)) c None))
            (Some (resolve_upstream_protocol (Some (model_row 1 demo_model_in)) c None)))"
proof -
  let ?db = "demo_db1\<lparr>models := [model_row 1 demo_model_in]\<rparr>"
  have "catalog_step empty_session demo_db1"
    by (rule channel_created [OF demo_create_channel]) (simp add: empty_session_def)
  moreover have "catalog_step demo_db1 ?db"
    by (rule model_created [OF demo_create_model]) (simp add: demo_model_in_def)
  ultimately have r: "catalog_step\<^sup>*\<^sup>* empty_session ?db" by auto
  from catalog_models_served [OF r, of "model_row 1 demo_model_in"] r show ?thesis
    by (auto simp: model_row_def demo_model_in_def)
qed

end
