(* ===== verification/Route_Admin_Laws.thy ===== *)
theory Route_Admin_Laws
  imports Catalog Routing_Laws
begin

text \<open>
  Routes as the administration endpoints write them: routing such a route raises only what
  the embedding classifier raises, it finds a target whenever one is usable that a smart strategy may choose, and a country rule never matches, because the request schema
  has no field for the countries.
\<close>

section \<open>Typed routes\<close>

definition typed_target :: "dict \<Rightarrow> bool" where
  "typed_target t \<longleftrightarrow> (\<exists>i w. dict_get t ''model_id'' = Some (JInt i) \<and> dict_get t ''weight'' = Some (JInt w))"

definition typed_rule :: "json \<Rightarrow> bool" where
  "typed_rule r \<longleftrightarrow> (\<exists>d s. r = JObj d \<and> dict_get d ''type'' = Some (JStr s))"

definition typed_policy :: "route_policy \<Rightarrow> bool" where
  "typed_policy p \<longleftrightarrow> list_all typed_target (rp_targets_jsonb p) \<and> list_all typed_rule (rp_smart_rules_jsonb p)"

lemma dict_get_append:
  "dict_get (a @ b) k = (case dict_get a k of None \<Rightarrow> dict_get b k | Some v \<Rightarrow> Some v)"
  by (induction a) auto

lemma dict_get_opt_json: "dict_get (opt_json k f v) k' = (if k = k' then map_option f v else None)"
  by (cases v) (auto simp: opt_json_def)

lemma route_to_orm_typed: "route_to_orm i v req = Inr p \<Longrightarrow> typed_policy p"
  by (auto simp: route_to_orm_def typed_policy_def typed_target_def typed_rule_def dump_target_def
      dump_rule_def list_all_iff split: option.splits)

lemma typed_ordered_targets:
  assumes "list_all typed_target ts"
  obtains ps where "ordered_targets ts ms cs = Inr ps" and "\<forall>p \<in> set ps. typed_target (snd (snd p))"
proof -
  have "\<exists>ps. ordered_targets ts ms cs = Inr ps \<and> (\<forall>p \<in> set ps. typed_target (snd (snd p)))"
    using assms
  proof (induction ts)
    case (Cons t ts)
    then obtain ps where ps: "ordered_targets ts ms cs = Inr ps" "\<forall>p \<in> set ps. typed_target (snd (snd p))"
      by auto
    from Cons.prems obtain i where "target_model_id t = Inr i"
      by (auto simp: typed_target_def target_model_id_def)
    with ps Cons.prems show ?case by (auto split: option.splits)
  qed simp
  then show ?thesis using that by blast
qed

lemma ordered_targets_complete:
  assumes "ordered_targets ts ms cs = Inr ps" and "t \<in> set ts" and "target_model_id t = Inr i"
    and "row_get md_id i ms = Some m" and "md_enabled m"
    and "row_get ch_id (md_channel_id m) cs = Some c" and "ch_enabled c"
  shows "(m, c, t) \<in> set ps"
  using assms(1,2)
proof (induction ts arbitrary: ps)
  case (Cons x ts)
  then obtain j rest where j: "target_model_id x = Inr j" and r: "ordered_targets ts ms cs = Inr rest"
    by (auto simp: bind_result_eq_Inr)
  have sub: "set rest \<subseteq> set ps"
    using Cons.prems(1) j r by (auto split: option.splits if_splits)
  show ?case
  proof (cases "t \<in> set ts")
    case True
    with Cons.IH [OF r] sub show ?thesis by blast
  next
    case False
    then have "x = t" using Cons.prems(2) by simp
    with Cons.prems(1) r assms(3-7) show ?thesis by auto
  qed
qed simp

lemma typed_weights: "\<forall>p \<in> set ps. typed_target (snd (snd p)) \<Longrightarrow> \<exists>ws. target_weights ps = Inr ws"
proof (induction ps)
  case (Cons p ps)
  obtain m c t where p: "p = (m, c, t)" by (cases p)
  from Cons obtain ws where "target_weights ps = Inr ws" by auto
  moreover from Cons.prems p obtain w where "target_weight t = Inr w"
    by (auto simp: typed_target_def target_weight_def dict_get_default_def)
  ultimately show ?case using p by simp
qed simp

lemma typed_weighted_pick:
  assumes "\<forall>p \<in> set ps. typed_target (snd (snd p))"
  shows "\<exists>r. weighted_pick u ps = Inr r \<and> (ps \<noteq> [] \<longrightarrow> r \<noteq> None)"
proof -
  obtain ws where "target_weights ps = Inr ws" using typed_weights [OF assms] by blast
  then show ?thesis by (auto simp: weighted_pick_def Let_def split: option.splits)
qed

lemma typed_apply_rules: "list_all typed_rule rules \<Longrightarrow> \<exists>g' l. apply_rules env g rules ctx = (g', Inr l)"
proof (induction rules arbitrary: g)
  case (Cons r rules)
  then obtain d s where r: "r = JObj d" "dict_get d ''type'' = Some (JStr s)"
    by (auto simp: typed_rule_def)
  obtain g1 res where "eval_rule env s g d ctx = (g1, res)" by fastforce
  with r Cons show ?case by (cases res) (auto simp: dict_get_none_def)
qed simp

definition by_rules :: "route_policy \<Rightarrow> bool" where
  "by_rules p \<longleftrightarrow> rp_strategy p \<noteq> smart \<or> rp_smart_embedding_model_id p \<in> {None, Some 0}"

definition classifier_raises ::
    "route_env \<Rightarrow> datetime \<Rightarrow> session \<Rightarrow> route_state \<Rightarrow> route_policy \<Rightarrow> string \<Rightarrow> py_error \<Rightarrow> bool" where
  \<comment> \<open>the route is smart and its embedding classifier, asked about the prompt, raises\<close>
  "classifier_raises env now db st p txt e \<longleftrightarrow> rp_strategy p = smart \<and>
     (\<exists>mid em ec ls. rp_smart_embedding_model_id p = Some mid \<and> mid \<noteq> 0 \<and> get_model db mid = Some em \<and> md_enabled em
        \<and> get_channel db (md_channel_id em) = Some ec \<and> ch_enabled ec
        \<and> snd (classify (smart_env.truncate env) now (smart_state.truncate st) p em ec txt (Some ls)) = Inl e)"

lemma rules_no_classifier: "by_rules p \<Longrightarrow> \<not> classifier_raises env now db st p txt e"
  by (auto simp: by_rules_def classifier_raises_def)

lemma typed_smart_label:
  assumes "list_all typed_rule (rp_smart_rules_jsonb p)" and "rp_strategy p = smart"
  shows "\<exists>st' res. smart_label env now db st p labels ctx = (st', res)
    \<and> (\<forall>e. res = Inl e \<longrightarrow> classifier_raises env now db st p (rc_prompt_text ctx) e)"
proof -
  obtain g l where r: "apply_rules env (rs_geo st) (rp_smart_rules_jsonb p) ctx = (g, Inr l)"
    using typed_apply_rules [OF assms(1)] by blast
  obtain st' res where s: "smart_label env now db st p labels ctx = (st', res)" by fastforce
  have "classifier_raises env now db st p (rc_prompt_text ctx) e" if e: "res = Inl e" for e
  proof (cases "rp_smart_embedding_model_id p \<in> {None, Some 0}")
    case True
    then show ?thesis using s r e by (auto simp: smart_label_def split: if_splits)
  next
    case False
    then obtain mid where m: "rp_smart_embedding_model_id p = Some mid" "mid \<noteq> 0" by auto
    have u: "res = snd (smart_label env now db st p labels ctx)" by (simp add: s)
    obtain em where em: "get_model db mid = Some em" "md_enabled em" "md_kind em = ''embedding''"
      using u m e by (auto simp: smart_label_def split: if_splits option.splits)
    obtain ec where ec: "get_channel db (md_channel_id em) = Some ec" "ch_enabled ec"
      using u m e em by (auto simp: smart_label_def split: if_splits option.splits)
    have "snd (classify (smart_env.truncate env) now (smart_state.truncate st) p em ec (rc_prompt_text ctx) (Some labels)) = Inl e"
      using u m e em ec by (auto simp: smart_label_def bind_result_def split: if_splits prod.splits sum.splits)
    with m em ec assms(2) show ?thesis unfolding classifier_raises_def by blast
  qed
  with s show ?thesis by blast
qed

lemma typed_pick_primary:
  assumes "typed_policy p" and "\<forall>q \<in> set ps. typed_target (snd (snd q))"
  shows "\<exists>st' res. pick_primary env now db st p ps prompt ip = (st', res)
    \<and> (\<forall>e. res = Inl e \<longrightarrow> classifier_raises env now db st p (or_text prompt []) e)
    \<and> (\<forall>r l u. res = Inr (r, l, u) \<longrightarrow>
         (if rp_strategy p = smart then with_label (se_repr env) default_target_label ps else ps) \<noteq> [] \<longrightarrow> r \<noteq> None)"
proof (cases "rp_strategy p")
  case weighted
  obtain r where "weighted_pick (draw_uniform env) ps = Inr r" "ps \<noteq> [] \<longrightarrow> r \<noteq> None"
    using typed_weighted_pick [OF assms(2)] by blast
  with weighted show ?thesis by (simp add: pick_primary_def)
next
  case round_robin
  have "unique_by_model [] ps \<noteq> []" if "ps \<noteq> []" using that by (cases ps) auto
  with round_robin show ?thesis
    by (cases "round_robin_pick now p ps st")
      (auto simp: pick_primary_def round_robin_pick_def Let_def split: prod.splits)
next
  case smart
  let ?ctx = "\<lparr>rc_prompt_text = or_text prompt [], rc_client_ip = ip\<rparr>"
  have wl: "\<forall>q \<in> set (with_label repr lbl ps). typed_target (snd (snd q))" for repr lbl
    using assms(2) by (auto simp: with_label_def)
  obtain st' res where sl: "smart_label env now db st p
      (py_dedup (map (\<lambda>(m, c, t). target_label (se_repr env) t) ps)) ?ctx = (st', res)"
      and ce: "\<forall>e. res = Inl e \<longrightarrow> classifier_raises env now db st p (or_text prompt []) e"
    using typed_smart_label [of p env now db st _ ?ctx] assms(1) smart unfolding typed_policy_def by fastforce
  show ?thesis
  proof (cases res)
    case (Inl e)
    with smart sl ce show ?thesis by (simp add: pick_primary_def smart_pick_def Let_def)
  next
    case (Inr lu)
    obtain l us where lu: "lu = (l, us)" by (cases lu)
    obtain r1 where r1: "weighted_pick (draw_uniform env)
          (case clean_label (se_repr env) l of None \<Rightarrow> [] | Some lbl \<Rightarrow> with_label (se_repr env) lbl ps) = Inr r1"
        "(case clean_label (se_repr env) l of None \<Rightarrow> [] | Some lbl \<Rightarrow> with_label (se_repr env) lbl ps) \<noteq> [] \<longrightarrow> r1 \<noteq> None"
      using typed_weighted_pick wl by (cases "clean_label (se_repr env) l") (fastforce simp: weighted_pick_def)+
    obtain r2 where r2: "weighted_pick (draw_uniform env) (with_label (se_repr env) default_target_label ps) = Inr r2"
        "with_label (se_repr env) default_target_label ps \<noteq> [] \<longrightarrow> r2 \<noteq> None"
      using typed_weighted_pick wl by blast
    from smart sl r1 r2 Inr lu show ?thesis by (auto simp: pick_primary_def smart_pick_def Let_def)
  qed
qed

lemma typed_select_route:
  assumes "typed_policy p"
  obtains st' res ps where "select_route env now db st p ms cs prompt ip = (st', res)"
    and "ordered_targets (rp_targets_jsonb p) ms cs = Inr ps"
    and "\<And>e. res = Inl e \<Longrightarrow> classifier_raises env now db st p (or_text prompt []) e"
    and "(if rp_strategy p = smart then with_label (se_repr env) default_target_label ps else ps) \<noteq> []
           \<Longrightarrow> res \<noteq> Inr None"
proof -
  obtain ps where ps: "ordered_targets (rp_targets_jsonb p) ms cs = Inr ps"
      "\<forall>q \<in> set ps. typed_target (snd (snd q))"
    using typed_ordered_targets assms(1) unfolding typed_policy_def by blast
  obtain st' res where pp: "pick_primary env now db st p ps prompt ip = (st', res)"
      "\<forall>e. res = Inl e \<longrightarrow> classifier_raises env now db st p (or_text prompt []) e"
      "\<forall>r l u. res = Inr (r, l, u) \<longrightarrow>
         (if rp_strategy p = smart then with_label (se_repr env) default_target_label ps else ps) \<noteq> [] \<longrightarrow> r \<noteq> None"
    using typed_pick_primary [OF assms ps(2)] by blast
  show ?thesis
  proof (cases res)
    case (Inl e)
    with ps(1) pp that show ?thesis by (simp add: select_route_def)
  next
    case (Inr x)
    obtain r l u where "x = (r, l, u)" by (cases x)
    with Inr ps(1) pp that show ?thesis
      by (cases r; cases "fallback_pair p ms cs r") (auto simp: select_route_def)
  qed
qed

text \<open>
  Routing a route that the administration endpoints wrote does not raise, whatever
  models, channels and prompt it meets, unless it uses the embedding classifier.
\<close>

theorem api_route_never_raises:
  assumes "route_to_orm i v req = Inr p" and "by_rules p"
  shows "\<exists>r. snd (select_route env now db st p ms cs prompt ip) = Inr r"
  using typed_select_route [OF route_to_orm_typed [OF assms(1)], of env now db st ms cs prompt ip]
    rules_no_classifier [OF assms(2)] by (metis snd_conv sum.exhaust)

text \<open>
  Claim C13. A route written through the administration endpoints with a usable target (its model and
  the model's channel are enabled) is served, with two exceptions: a smart route all of whose usable
  targets carry a label may decide for none, and the request fails when the embedding classifier of a
  smart route raises, with the exception of the classifier.
\<close>

theorem api_route_served:
  assumes "route_to_orm i v req = Inr p" and "t \<in> set (ri_targets req)"
    and "row_get md_id (rt_model_id t) ms = Some m" and "md_enabled m"
    and "row_get ch_id (md_channel_id m) cs = Some c" and "ch_enabled c"
  shows "case snd (select_route env now db st p ms cs prompt ip) of
      Inr (Some d) \<Rightarrow> True
    | Inr None \<Rightarrow> ri_strategy req = smart \<and> rt_label t \<noteq> None
    | Inl e \<Rightarrow> classifier_raises env now db st p (or_text prompt []) e"
proof -
  have p: "rp_targets_jsonb p = map dump_target (ri_targets req)" "rp_strategy p = ri_strategy req"
    using assms(1) by (auto simp: route_to_orm_def split: option.splits)
  obtain st' res ps where r: "select_route env now db st p ms cs prompt ip = (st', res)"
    and ps: "ordered_targets (rp_targets_jsonb p) ms cs = Inr ps"
    and raise: "\<And>e. res = Inl e \<Longrightarrow> classifier_raises env now db st p (or_text prompt []) e"
    and ne: "(if rp_strategy p = smart then with_label (se_repr env) default_target_label ps else ps) \<noteq> []
           \<Longrightarrow> res \<noteq> Inr None"
    using typed_select_route [OF route_to_orm_typed [OF assms(1)]] by metis
  have "target_model_id (dump_target t) = Inr (rt_model_id t)"
    by (simp add: target_model_id_def dump_target_def)
  then have mem: "(m, c, dump_target t) \<in> set ps"
    using ordered_targets_complete [OF ps _ _ assms(3-6)] assms(2) p(1) by simp
  have lbl: "target_label repr (dump_target t) = default_target_label" if "rt_label t = None" for repr
    using that by (simp add: target_label_def dump_target_def dict_get_none_def Let_def)
  have "ri_strategy req = smart \<and> rt_label t \<noteq> None" if "res = Inr None"
  proof (rule ccontr)
    assume "\<not> ?thesis"
    then have "(if rp_strategy p = smart then with_label (se_repr env) default_target_label ps else ps) \<noteq> []"
      using mem lbl p(2) by (auto simp: with_label_def filter_empty_conv)
    with ne that show False by blast
  qed
  with r raise show ?thesis by (auto split: sum.split option.split)
qed

section \<open>Country rules\<close>

text \<open>
  A country rule of a route written through the administration endpoints never matches
  and never looks a client up: the endpoints drop the list of countries, which the request schema
  does not have.
\<close>

theorem api_geo_rule_dead:
  assumes "route_to_orm i v req = Inr p" and "JObj rule \<in> set (rp_smart_rules_jsonb p)"
  shows "eval_geo env g rule ctx = (g, Inr JNull)"
proof -
  obtain r where "rule = dump_rule r"
    using assms by (auto simp: route_to_orm_def split: option.splits)
  then have "dict_get_none rule ''countries'' = JNull"
    by (simp add: dump_rule_def dict_get_none_def dict_get_append dict_get_opt_json)
  then show ?thesis by (simp add: eval_geo_def py_or_def Let_def)
qed

section \<open>A route request\<close>

definition demo_route_in :: route_policy_in where
  "demo_route_in = \<lparr>ri_user_facing_model = ''gpt'', ri_modality = ''chat'', ri_exposed_protocols = [],
     ri_strategy = smart, ri_targets = [\<lparr>rt_model_id = 1, rt_weight = 1, rt_label = None\<rparr>],
     ri_fallback_model_id = None,
     ri_smart_rules = [\<lparr>rr_type = ''geo'', rr_id = None, rr_threshold = None, rr_gt_label = None,
        rr_lte_label = None, rr_pattern = None, rr_label = Some ''eu''\<rparr>],
     ri_smart_embedding_model_id = None, ri_smart_exemplars = [], ri_smart_score_threshold = 55,
     ri_scope = ''public'', ri_enabled = True\<rparr>"

definition demo_geo_rule :: dict where
  "demo_geo_rule = [(''type'', JStr ''geo''), (''label'', JStr ''eu'')]"

definition demo_api_route :: route_policy where
  "demo_api_route = (default_route 4 ''gpt'')\<lparr>rp_strategy := smart, rp_targets_jsonb := [demo_target 1 1],
     rp_smart_rules_jsonb := [JObj demo_geo_rule]\<rparr>"

lemma demo_to_orm: "route_to_orm 4 0 demo_route_in = Inr demo_api_route"
  by code_simp

lemma demo_by_rules: "by_rules demo_api_route"
  by (simp add: by_rules_def demo_api_route_def default_route_def)

theorem api_route_never_raises_witness:
  "by_rules demo_api_route \<and> (\<exists>r. snd (select_route demo_route_env 0 empty_session demo_route_state
     demo_api_route [] [] (Some ''hi'') (Some ''1.2.3.4'')) = Inr r)"
  using api_route_never_raises [OF demo_to_orm demo_by_rules] demo_by_rules by blast

theorem api_route_served_witness:
  "\<exists>d. snd (select_route demo_route_env 0 empty_session demo_route_state demo_api_route
     [default_model 1 7] [default_channel 7] (Some ''hi'') (Some ''1.2.3.4'')) = Inr (Some d)"
proof -
  let ?t = "\<lparr>rt_model_id = 1, rt_weight = 1, rt_label = None\<rparr>"
  have t: "?t \<in> set (ri_targets demo_route_in)" by (simp add: demo_route_in_def)
  have "case snd (select_route demo_route_env 0 empty_session demo_route_state demo_api_route
     [default_model 1 7] [default_channel 7] (Some ''hi'') (Some ''1.2.3.4'')) of
      Inr (Some d) \<Rightarrow> True
    | Inr None \<Rightarrow> ri_strategy demo_route_in = smart \<and> rt_label ?t \<noteq> None
    | Inl e \<Rightarrow> classifier_raises demo_route_env 0 empty_session demo_route_state demo_api_route (or_text (Some ''hi'') []) e"
    by (rule api_route_served [OF demo_to_orm t, where m = "default_model 1 7" and c = "default_channel 7"])
      (simp_all add: row_get_def default_row_defs)
  then show ?thesis using rules_no_classifier [OF demo_by_rules] by (auto split: sum.splits option.splits)
qed

theorem api_geo_rule_dead_witness:
  "JObj demo_geo_rule \<in> set (rp_smart_rules_jsonb demo_api_route)
   \<and> eval_geo demo_route_env geo_unset demo_geo_rule \<lparr>rc_prompt_text = ''hi'', rc_client_ip = Some ''1.2.3.4''\<rparr>
     = (geo_unset, Inr JNull)"
proof -
  have r: "JObj demo_geo_rule \<in> set (rp_smart_rules_jsonb demo_api_route)"
    by (simp add: demo_api_route_def)
  with api_geo_rule_dead [OF demo_to_orm r] show ?thesis by blast
qed

end
