(* ===== verification/Relay.thy ===== *)
theory Relay
  imports Catalog Quota_Cache
begin

text \<open>
  The public relay endpoints: \<^verbatim>\<open>api/relay/chat.py\<close>, \<^verbatim>\<open>embeddings.py\<close>, \<^verbatim>\<open>images.py\<close> and
  \<^verbatim>\<open>models_list.py\<close>, with \<^verbatim>\<open>services/embedding_relay.py\<close>, \<^verbatim>\<open>services/image_relay.py\<close>,
  \<^verbatim>\<open>core/request_ctx.py\<close> and \<open>run_chat\<close> of the registry. A request is admitted (quota, rate limit), its
  route is loaded and decided, the candidates are tried in order, and the first that answers is
  charged and logged in one transaction.

  The environment adds the upstream chat and image calls (numbered, as in the classifier),
  \<open>json.loads\<close>, the measured latency and the request id. A handler returns the database, the
  state of the process and of Redis, and its response; when it raises, the open transaction is
  rolled back, so the database is the one it started from. The session of a streamed request stays
  open until its stream ends, which FastAPI does from version 0.118 on.
\<close>

section \<open>Requests\<close>

record chat_result =
  cr_status :: int
  cr_body :: json
  cr_stream :: "(string list \<times> bool) option"
    \<comment> \<open>the chunks and whether the stream ends without raising\<close>
  cr_prompt_tokens :: int
  cr_completion_tokens :: int

record relay_env = route_env +
  rl_sync :: bool
  rl_default_rpm :: int
  rl_loads :: "string \<Rightarrow> json option"
  rl_chat :: "nat \<Rightarrow> string \<Rightarrow> bool \<Rightarrow> channel \<Rightarrow> string \<Rightarrow> dict \<Rightarrow> bool \<Rightarrow> string + chat_result"
    \<comment> \<open>call number, connector, whether through \<open>responses_from_chat\<close>, channel, upstream model,
        payload, stream; or the exception's text\<close>
  rl_images :: "nat \<Rightarrow> string \<Rightarrow> channel \<Rightarrow> string \<Rightarrow> dict \<Rightarrow> string + int \<times> json"
  rl_latency :: int
  rl_request_id :: string

record relay_request =
  rq_x_forwarded_for :: "string option"
  rq_x_real_ip :: "string option"
  rq_peer :: "string option"
  rq_json :: "json option"
    \<comment> \<open>\<open>None\<close>: the body is not JSON\<close>

definition client_ip :: "relay_request \<Rightarrow> string option" where
  "client_ip rq =
     (let first = py_strip (py_before (CHR '','') (or_text (rq_x_forwarded_for rq) [])) in
      if first \<noteq> [] then Some first
      else if or_text (rq_x_real_ip rq) [] \<noteq> [] then Some (py_strip (or_text (rq_x_real_ip rq) []))
      else if or_text (rq_peer rq) [] \<noteq> [] then rq_peer rq
      else None)"

definition relay_admit ::
    "relay_env \<Rightarrow> datetime \<Rightarrow> session \<Rightarrow> route_state \<Rightarrow> user \<Rightarrow> api_key option \<Rightarrow> route_state \<times> unit result" where
  \<comment> \<open>quota and rate limit; the counter of the limit advances even when the request is refused\<close>
  "relay_admit env now db st u k =
     (case has_quota now db u k of
        (False, msg) \<Rightarrow> (st, Inl (http 402 msg))
      | (True, _) \<Rightarrow>
          (case rate_limit (rl_default_rpm env) now (us_id u)
                  (Some (user_rpm (rl_default_rpm env) now db (us_id u))) (ss_redis st) of
             None \<Rightarrow> (st, Inl internal_error)
           | Some (r, ok) \<Rightarrow>
               (st\<lparr>ss_redis := r\<rparr>, if ok then Inr () else Inl (http 429 ''rate limit exceeded''))))"

definition load_route ::
    "session \<Rightarrow> string \<Rightarrow> string option \<Rightarrow> string option \<Rightarrow> (route_policy \<times> model list \<times> channel list) result" where
  "load_route db name expected_modality expected_protocol =
     (case find (\<lambda>p. rp_user_facing_model p = name) (route_policies db) of
        None \<Rightarrow> Inl (http 404 (''model '' @ name @ '' not available''))
      | Some policy \<Rightarrow>
          if \<not> rp_enabled policy \<or> rp_scope policy = scope_private
          then Inl (http 404 (''model '' @ name @ '' not available''))
          else if (case expected_modality of None \<Rightarrow> False
                   | Some md \<Rightarrow> or_text (Some (rp_modality policy)) ''chat'' \<noteq> md)
          then Inl (http 404 (''model '' @ name @ '' is not available on the ''
                 @ or_text expected_modality [] @ '' endpoint''))
          else if (case expected_protocol of None \<Rightarrow> False | Some pr \<Rightarrow> \<not> route_exposes policy pr)
          then Inl (http 404 (''model '' @ name @ '' is not available on the ''
                 @ or_text expected_protocol [] @ '' protocol''))
          else case load_route_resources db policy of
            Inl e \<Rightarrow> Inl internal_error
          | Inr None \<Rightarrow> Inl (http 502 ''route has no targets'')
          | Inr (Some (ms, cs)) \<Rightarrow> Inr (policy, ms, cs))"

definition request_model :: "json \<Rightarrow> (dict \<times> string) result" where
  \<comment> \<open>\<open>payload.get("model")\<close>: a body that is no object raises, and so does a query for a name
      that is no text\<close>
  "request_model payload =
     (case payload of
        JObj p \<Rightarrow>
          (let name = dict_get_none p ''model'' in
           if \<not> truthy name then Inl (http 400 ''missing model'')
           else case name of JStr s \<Rightarrow> Inr (p, s) | _ \<Rightarrow> Inl internal_error)
      | _ \<Rightarrow> Inl internal_error)"

definition decide ::
    "relay_env \<Rightarrow> datetime \<Rightarrow> session \<Rightarrow> route_state \<Rightarrow> relay_request \<Rightarrow> dict \<Rightarrow> string \<Rightarrow> string \<Rightarrow> string
       \<Rightarrow> string \<Rightarrow> route_state \<times> route_decision result" where
  \<comment> \<open>\<open>_load_route\<close> and \<open>select_route\<close>\<close>
  "decide env now db st rq payload name modality protocol none_msg =
     (case load_route db name (Some modality) (Some protocol) of
        Inl e \<Rightarrow> (st, Inl e)
      | Inr (policy, ms, cs) \<Rightarrow>
          (case select_route (route_env.truncate env) now db st policy ms cs
                  (Some (extract_prompt_text (JObj payload))) (client_ip rq) of
             (st', Inl e) \<Rightarrow> (st', Inl internal_error)
           | (st', Inr None) \<Rightarrow> (st', Inl (http 502 none_msg))
           | (st', Inr (Some d)) \<Rightarrow> (st', Inr d)))"

definition decision_candidates :: "route_decision \<Rightarrow> (model \<times> channel) list" where
  "decision_candidates d = (rd_model d, rd_channel d) # rd_fallback_chain d"

section \<open>Charging and logging\<close>

type_synonym account = "session \<times> user \<times> api_key option"

definition usage_entry ::
    "user \<Rightarrow> api_key option \<Rightarrow> model \<Rightarrow> string \<Rightarrow> string \<Rightarrow> int \<Rightarrow> int \<Rightarrow> int \<Rightarrow> int \<Rightarrow> string \<Rightarrow> string
       \<Rightarrow> string \<Rightarrow> string option \<Rightarrow> usage_log" where
  "usage_entry u k m name upstream pt ct cost latency status request_id kind label =
     \<lparr>ul_user_id = us_id u, ul_api_key_id = map_option ak_id k, ul_model_id = Some (md_id m),
      ul_user_facing_model = Some name, ul_upstream_model = Some upstream, ul_prompt_tokens = pt,
      ul_completion_tokens = ct, ul_cost_cents = cost, ul_image_count = 0, ul_meta_jsonb = JNull,
      ul_latency_ms = latency, ul_status = status, ul_request_id = Some request_id,
      ul_kind = kind, ul_resolved_label = label\<rparr>"

definition charge_account ::
    "bool \<Rightarrow> datetime \<Rightarrow> string \<Rightarrow> string \<Rightarrow> int \<Rightarrow> account \<Rightarrow> account \<times> breakdown" where
  \<comment> \<open>\<open>charge_user\<close> on the session and the loaded objects\<close>
  "charge_account sync now ref note cost acc =
     (case acc of (db, u, k) \<Rightarrow>
        (case charge_user sync now db u k cost (Some ref) (Some note) of
           (db', u', k', bd) \<Rightarrow> ((db', u', k'), bd)))"

definition refund_account ::
    "bool \<Rightarrow> datetime \<Rightarrow> string \<Rightarrow> string \<Rightarrow> breakdown \<Rightarrow> int \<Rightarrow> account \<Rightarrow> account" where
  \<comment> \<open>\<open>refund_to_sources\<close> on the session and the loaded objects\<close>
  "refund_account sync now ref note bd amount acc =
     (case acc of (db, u, k) \<Rightarrow>
        (case refund_to_sources sync now db u k bd amount (Some ref) (Some note) of
           (db', u', k', r) \<Rightarrow> (db', u', k')))"

definition log_account :: "usage_log \<Rightarrow> account \<Rightarrow> account" where
  "log_account l acc = (case acc of (db, u, k) \<Rightarrow> (add_usage_log l db, u, k))"

definition smart_cost :: "route_decision \<Rightarrow> int" where
  "smart_cost d =
     (case rd_embedding_usage d of
        None \<Rightarrow> 0
      | Some eu \<Rightarrow> if eu_status eu = ''ok'' then calc_cost_cents (Some (eu_model eu)) (eu_prompt_tokens eu) 0 else 0)"

definition record_smart_usage ::
    "bool \<Rightarrow> datetime \<Rightarrow> route_decision \<Rightarrow> string \<Rightarrow> string \<Rightarrow> account \<Rightarrow> account" where
  "record_smart_usage sync now d name request_id acc =
     (case rd_embedding_usage d of
        None \<Rightarrow> acc
      | Some eu \<Rightarrow>
          (let cost = smart_cost d;
               acc1 = (if cost > 0
                       then fst (charge_account sync now request_id (name @ '' [classifier]'') cost acc) else acc)
           in case acc of (db, u, k) \<Rightarrow>
                log_account (usage_entry u k (eu_model eu) name (eu_upstream_model eu)
                  (eu_prompt_tokens eu) 0 cost (eu_latency_ms eu) (eu_status eu) request_id
                  ''classifier'' (rd_chosen_label d)) acc1))"

definition settle_relay ::
    "relay_env \<Rightarrow> datetime \<Rightarrow> route_decision \<Rightarrow> string \<Rightarrow> model \<Rightarrow> int \<Rightarrow> int \<Rightarrow> account \<Rightarrow> account" where
  \<comment> \<open>charge, usage log, classifier usage and the mark for the quota cache, before the commit\<close>
  "settle_relay env now d name m pt ct acc =
     (let cost = calc_cost_cents (Some m) pt ct;
          rid = rl_request_id env;
          acc1 = fst (charge_account (rl_sync env) now rid name cost acc)
      in case acc of (db, u, k) \<Rightarrow>
           (case record_smart_usage (rl_sync env) now d name rid
                   (log_account (usage_entry u k m name (md_upstream_model m) pt ct cost (rl_latency env)
                      ''ok'' rid ''relay'' (rd_chosen_label d)) acc1) of
              (db', u', k') \<Rightarrow> (mark_quota_invalidate (us_id u) db', u', k')))"

definition commit_relay :: "datetime \<Rightarrow> session \<Rightarrow> route_state \<Rightarrow> session \<times> route_state" where
  "commit_relay now db st =
     (case fire_quota_invalidate now db (ss_redis st) of (db', r) \<Rightarrow> (db', st\<lparr>ss_redis := r\<rparr>))"

section \<open>Trying the candidates\<close>

definition candidate_adapter :: "model \<Rightarrow> channel \<Rightarrow> string + string \<times> string" where
  \<comment> \<open>the connector and protocol of a candidate, or why it cannot be called\<close>
  "candidate_adapter m c =
     (let connector = resolve_connector_type (Some m) c None;
          protocol = resolve_upstream_protocol (Some m) c None
      in case get_connector_adapter (Some connector) of
           None \<Rightarrow> Inl (''no connector adapter for '' @ connector)
         | Some adapter \<Rightarrow>
             if \<not> connector_supports_protocol (Some connector) (Some protocol)
             then Inl (''connector '' @ connector @ '' does not support protocol '' @ protocol)
             else Inr (adapter, protocol))"

definition has_responses_from_chat :: "string \<Rightarrow> bool" where
  \<comment> \<open>\<open>hasattr(adapter, "responses_from_chat")\<close>\<close>
  "has_responses_from_chat adapter \<longleftrightarrow> adapter \<in> {''openai'', ''azure_openai''}"

definition run_chat ::
    "relay_env \<Rightarrow> nat \<Rightarrow> string \<Rightarrow> string \<Rightarrow> channel \<Rightarrow> string \<Rightarrow> dict \<Rightarrow> bool \<Rightarrow> string + chat_result" where
  "run_chat env n adapter protocol c upstream payload stream =
     rl_chat env n adapter
       (normalize_plain (Some protocol) = openai_responses \<and> has_responses_from_chat adapter)
       c upstream payload stream"

definition chat_ok :: "bool \<Rightarrow> chat_result \<Rightarrow> bool" where
  "chat_ok stream r \<longleftrightarrow> cr_status r = 200 \<and> (if stream then cr_stream r \<noteq> None else truthy (cr_body r))"

fun chat_loop ::
    "relay_env \<Rightarrow> nat \<Rightarrow> dict \<Rightarrow> bool \<Rightarrow> (model \<times> channel) list \<Rightarrow> json \<Rightarrow> json + model \<times> chat_result" where
  \<comment> \<open>the loop over the candidates: the last error, or the first that answers\<close>
  "chat_loop env n payload stream [] last_err = Inl last_err"
| "chat_loop env n payload stream ((m, c) # cands) last_err =
     (case candidate_adapter m c of
        Inl e \<Rightarrow> chat_loop env n payload stream cands (JStr e)
      | Inr (adapter, protocol) \<Rightarrow>
          (case run_chat env n adapter protocol c (md_upstream_model m) payload stream of
             Inl e \<Rightarrow> chat_loop env (Suc n) payload stream cands (JStr e)
           | Inr r \<Rightarrow>
               if chat_ok stream r then Inr (m, r)
               else chat_loop env (Suc n) payload stream cands (cr_body r)))"

definition all_failed :: "relay_env \<Rightarrow> json \<Rightarrow> http_error" where
  "all_failed env last_err = http 502 (''all upstreams failed: '' @ py_text (se_repr env) last_err)"

section \<open>Chat completions\<close>

datatype relay_response =
    response_json json
  | response_stream "string list" bool
  \<comment> \<open>the chunks sent and whether the stream ended without an error\<close>

fun stream_usage :: "(string \<Rightarrow> json option) \<Rightarrow> string list \<Rightarrow> json \<times> json \<Rightarrow> string list \<times> (json \<times> json) option" where
  \<comment> \<open>the \<open>async for\<close> loop: the chunks sent and the token counts, \<open>None\<close> when a usage that is no
      object raises before its chunk is sent\<close>
  "stream_usage loads [] t = ([], Some t)"
| "stream_usage loads (ch # chs) (pt, ct) =
     (case parse_usage_from_chunk loads ch of
        None \<Rightarrow> (case stream_usage loads chs (pt, ct) of (sent, r) \<Rightarrow> (ch # sent, r))
      | Some (JObj us) \<Rightarrow>
          (case stream_usage loads chs
                  (dict_get_default us ''prompt_tokens'' pt, dict_get_default us ''completion_tokens'' ct) of
             (sent, r) \<Rightarrow> (ch # sent, r))
      | Some _ \<Rightarrow> ([], None))"

definition chat_stream ::
    "relay_env \<Rightarrow> datetime \<Rightarrow> session \<Rightarrow> route_state \<Rightarrow> user \<Rightarrow> api_key option \<Rightarrow> route_decision \<Rightarrow> string
       \<Rightarrow> dict \<Rightarrow> session \<times> route_state \<times> relay_response result" where
  \<comment> \<open>\<open>streamer()\<close>: the response has started when it runs, so its errors end the stream; counts that
      are no integers make the charge or the log raise\<close>
  "chat_stream env now db st u k d name payload =
     (case chat_loop env (ss_calls st) payload True (decision_candidates d) JNull of
        Inl e \<Rightarrow> (db, st, Inr (response_stream [] False))
      | Inr (m, r) \<Rightarrow>
          (case cr_stream r of
             None \<Rightarrow> (db, st, Inr (response_stream [] False))
           | Some (chunks, ends) \<Rightarrow>
               (case stream_usage (rl_loads env) chunks (JInt 0, JInt 0) of
                  (sent, None) \<Rightarrow> (db, st, Inr (response_stream sent False))
                | (sent, Some (pt, ct)) \<Rightarrow>
                    if \<not> ends \<or> \<not> is_int pt \<or> \<not> is_int ct then (db, st, Inr (response_stream sent False))
                    else (case settle_relay env now d name m (as_int pt) (as_int ct) (db, u, k) of
                            (db', u', k') \<Rightarrow>
                              (case commit_relay now db' st of
                                 (db'', st') \<Rightarrow> (db'', st', Inr (response_stream sent True)))))))"

definition chat_json ::
    "relay_env \<Rightarrow> datetime \<Rightarrow> session \<Rightarrow> route_state \<Rightarrow> user \<Rightarrow> api_key option \<Rightarrow> route_decision \<Rightarrow> string
       \<Rightarrow> dict \<Rightarrow> session \<times> route_state \<times> relay_response result" where
  "chat_json env now db st u k d name payload =
     (case chat_loop env (ss_calls st) payload False (decision_candidates d) JNull of
        Inl e \<Rightarrow> (db, st, Inl (all_failed env e))
      | Inr (m, r) \<Rightarrow>
          (case settle_relay env now d name m (cr_prompt_tokens r) (cr_completion_tokens r) (db, u, k) of
             (db', u', k') \<Rightarrow>
               (case commit_relay now db' st of (db'', st') \<Rightarrow> (db'', st', Inr (response_json (cr_body r))))))"

definition chat_completions ::
    "relay_env \<Rightarrow> datetime \<Rightarrow> session \<Rightarrow> route_state \<Rightarrow> user \<Rightarrow> api_key option \<Rightarrow> relay_request
       \<Rightarrow> session \<times> route_state \<times> relay_response result" where
  "chat_completions env now db st u k rq =
     (case relay_admit env now db st u k of
        (st1, Inl e) \<Rightarrow> (db, st1, Inl e)
      | (st1, Inr _) \<Rightarrow>
          (case rq_json rq of
             None \<Rightarrow> (db, st1, Inl (http 400 ''invalid json body''))
           | Some body \<Rightarrow>
               (case request_model body of
                  Inl e \<Rightarrow> (db, st1, Inl e)
                | Inr (payload, name) \<Rightarrow>
                    (case decide env now db st1 rq payload name ''chat'' ''openai'' ''no available upstream'' of
                       (st2, Inl e) \<Rightarrow> (db, st2, Inl e)
                     | (st2, Inr d) \<Rightarrow>
                         if truthy (dict_get_none payload ''stream'')
                         then chat_stream env now db st2 u k d name payload
                         else chat_json env now db st2 u k d name payload))))"

section \<open>Embeddings\<close>

fun execute_embedding_relay ::
    "relay_env \<Rightarrow> nat \<Rightarrow> json \<Rightarrow> (model \<times> channel) list \<Rightarrow> json \<Rightarrow> json + dict \<times> model \<times> channel" where
  \<comment> \<open>the last error, or the body of the first candidate that answers\<close>
  "execute_embedding_relay env n payload [] last_err = Inl last_err"
| "execute_embedding_relay env n payload ((m, c) # cands) last_err =
     (case candidate_adapter m c of
        Inl e \<Rightarrow> execute_embedding_relay env n payload cands (JStr e)
      | Inr _ \<Rightarrow>
          (case se_call env n c (md_upstream_model m) payload of
             Inl e \<Rightarrow> execute_embedding_relay env (Suc n) payload cands (JStr e)
           | Inr (status, body) \<Rightarrow>
               (case (status = 200, body) of
                  (True, JObj b) \<Rightarrow> Inr (b, m, c)
                | _ \<Rightarrow> execute_embedding_relay env (Suc n) payload cands body)))"

definition body_prompt_tokens :: "dict \<Rightarrow> int result" where
  \<comment> \<open>\<open>((body or {}).get("usage") or {}).get("prompt_tokens", 0)\<close>, then used as a number\<close>
  "body_prompt_tokens body =
     (case py_or (dict_get_none body ''usage'') (JObj []) of
        JObj us \<Rightarrow>
          (let pt = dict_get_default us ''prompt_tokens'' (JInt 0) in
           if is_int pt then Inr (as_int pt) else Inl internal_error)
      | _ \<Rightarrow> Inl internal_error)"

definition embeddings ::
    "relay_env \<Rightarrow> datetime \<Rightarrow> session \<Rightarrow> route_state \<Rightarrow> user \<Rightarrow> api_key option \<Rightarrow> relay_request
       \<Rightarrow> session \<times> route_state \<times> relay_response result" where
  \<comment> \<open>no rate limit here; a body that is no JSON raises\<close>
  "embeddings env now db st u k rq =
     (case has_quota now db u k of
        (False, msg) \<Rightarrow> (db, st, Inl (http 402 msg))
      | (True, _) \<Rightarrow>
          (case bind_result (case rq_json rq of None \<Rightarrow> Inl internal_error | Some b \<Rightarrow> Inr b) request_model of
             Inl e \<Rightarrow> (db, st, Inl e)
           | Inr (payload, name) \<Rightarrow>
               (case decide env now db st rq payload name ''embedding'' ''openai'' ''no upstream'' of
                  (st1, Inl e) \<Rightarrow> (db, st1, Inl e)
                | (st1, Inr d) \<Rightarrow>
                    (case execute_embedding_relay env (ss_calls st1) (JObj payload) (decision_candidates d)
                            (JStr ''no upstream'') of
                       Inl e \<Rightarrow> (db, st1, Inl (all_failed env e))
                     | Inr (body, m, c) \<Rightarrow>
                         (case body_prompt_tokens body of
                            Inl e \<Rightarrow> (db, st1, Inl e)
                          | Inr pt \<Rightarrow>
                              (case settle_relay env now d name m pt 0 (db, u, k) of
                                 (db', u', k') \<Rightarrow>
                                   (case commit_relay now db' st1 of
                                      (db'', st') \<Rightarrow> (db'', st', Inr (response_json (JObj body))))))))))"

section \<open>Images\<close>

record image_params =
  ip_size :: string
  ip_quality :: string
  ip_n :: int
  ip_prompt :: string

definition parse_params :: "(json \<Rightarrow> string) \<Rightarrow> dict \<Rightarrow> image_params" where
  "parse_params repr payload =
     \<lparr>ip_size = py_text repr (py_or (dict_get_none payload ''size'') (JStr ''1024x1024'')),
      ip_quality = py_text repr (py_or (dict_get_none payload ''quality'') (JStr ''standard'')),
      ip_n = max 1 (case py_int (py_or (dict_get_none payload ''n'') (JInt 1)) of Inl e \<Rightarrow> 1 | Inr n \<Rightarrow> n),
      ip_prompt = py_text repr (py_or (dict_get_none payload ''prompt'') (JStr []))\<rparr>"

definition message_body :: "string \<Rightarrow> json" where
  "message_body msg = JObj [(''error'', JObj [(''message'', JStr msg)])]"

definition images_returned :: "int \<Rightarrow> json \<Rightarrow> int" where
  "images_returned status body =
     (case (status = 200, body) of
        (True, JObj b) \<Rightarrow> (case dict_get_none b ''data'' of JList xs \<Rightarrow> int (length xs) | _ \<Rightarrow> 0)
      | _ \<Rightarrow> 0)"

definition token_count :: "dict \<Rightarrow> string \<Rightarrow> string \<Rightarrow> py_error + int" where
  \<comment> \<open>\<open>int(u.get(a) or u.get(b) or 0)\<close>\<close>
  "token_count us a b = py_int (py_or (py_or (dict_get_none us a) (dict_get_none us b)) (JInt 0))"

definition actual_cost :: "model \<Rightarrow> image_params \<Rightarrow> dict \<Rightarrow> json \<Rightarrow> int \<Rightarrow> py_error + int" where
  \<comment> \<open>what the images cost: the reported tokens in token mode, otherwise the quote for the images
      returned\<close>
  "actual_cost m ip meta body returned =
     (case (dict_get_none meta ''mode'' = JStr ''token'',
            case body of JObj b \<Rightarrow> dict_get_none b ''usage'' | _ \<Rightarrow> JNull) of
        (True, JObj us) \<Rightarrow>
          bind_result (token_count us ''input_tokens'' ''prompt_tokens'') (\<lambda>in_tok.
          bind_result (token_count us ''output_tokens'' ''completion_tokens'') (\<lambda>out_tok.
            Inr (ceil_truediv (in_tok * md_prompt_rate m + out_tok * md_completion_rate m) 10000000)))
      | _ \<Rightarrow>
          bind_result (quote_image_cost_cents (Some m) (ip_size ip) (ip_quality ip) returned (ip_prompt ip))
            (\<lambda>(cost, meta'). Inr cost))"

definition reconcile ::
    "relay_env \<Rightarrow> datetime \<Rightarrow> string \<Rightarrow> int \<Rightarrow> int \<Rightarrow> breakdown \<Rightarrow> account \<Rightarrow> account" where
  \<comment> \<open>refund what the hold took too much, or charge what it took too little\<close>
  "reconcile env now name estimate actual bd acc =
     (if actual < estimate
      then refund_account (rl_sync env) now (rl_request_id env) (name @ '' [image-refund]'') bd
             (estimate - actual) acc
      else if actual > estimate
      then fst (charge_account (rl_sync env) now (rl_request_id env) (name @ '' [image-adjust]'')
             (actual - estimate) acc)
      else acc)"

datatype attempt =
    attempt_skipped int json
  | attempt_failed account int json
  | attempt_ok account int json

definition image_log ::
    "relay_env \<Rightarrow> user \<Rightarrow> api_key option \<Rightarrow> model \<Rightarrow> string \<Rightarrow> string option \<Rightarrow> int \<Rightarrow> int \<Rightarrow> dict \<Rightarrow> int \<Rightarrow> string
       \<Rightarrow> usage_log" where
  "image_log env u k m name label cost cnt meta latency status =
     (usage_entry u k m name (md_upstream_model m) 0 0 cost latency status (rl_request_id env) ''relay'' label)
     \<lparr>ul_image_count := cnt, ul_meta_jsonb := JObj meta\<rparr>"

definition mark_account :: "account \<Rightarrow> account" where
  "mark_account acc = (case acc of (db, u, k) \<Rightarrow> (mark_quota_invalidate (us_id u) db, u, k))"

definition image_attempt ::
    "relay_env \<Rightarrow> datetime \<Rightarrow> nat \<Rightarrow> dict \<Rightarrow> string \<Rightarrow> string option \<Rightarrow> model \<Rightarrow> channel \<Rightarrow> account
       \<Rightarrow> attempt result" where
  \<comment> \<open>the body of the loop over the candidates\<close>
  "image_attempt env now n payload name label m c acc =
     (let ip = parse_params (se_repr env) payload;
          protocol = resolve_upstream_protocol (Some m) c None;
          connector = resolve_connector_type (Some m) c None
      in case get_image_adapter (Some connector) of
           None \<Rightarrow> Inr (attempt_skipped 502 (message_body (''no image adapter for connector '' @ connector)))
         | Some adapter \<Rightarrow>
             if \<not> connector_supports_protocol (Some connector) (Some protocol)
             then Inr (attempt_skipped 502 (message_body (''connector '' @ connector
                    @ '' does not support protocol '' @ protocol)))
             else
               bind_result (or_500 (quote_image_cost_cents (Some m) (ip_size ip) (ip_quality ip) (ip_n ip) (ip_prompt ip)))
               (\<lambda>(estimate, meta0).
                  let meta = dict_set meta0 ''requested_n'' (JInt (ip_n ip)) in
                  if estimate > 0 \<and> (case acc of (db, u, k) \<Rightarrow> available_cents now db u) < estimate
                  then Inl (http 402 ''insufficient balance for image request'')
                  else case charge_account (rl_sync env) now (rl_request_id env) (name @ '' [image-hold]'')
                              estimate acc of
                    (acc1, bd) \<Rightarrow>
                      (case rl_images env n adapter c (md_upstream_model m) payload of
                         Inl e \<Rightarrow> Inl internal_error
                       | Inr (status, body) \<Rightarrow>
                           let returned = images_returned status body in
                           if returned > 0 then
                             bind_result (or_500 (actual_cost m ip meta body returned)) (\<lambda>actual.
                               let acc2 = reconcile env now name estimate actual bd acc1;
                                   meta' = dict_set meta ''images_returned'' (JInt returned)
                               in case acc of (db, u, k) \<Rightarrow>
                                    Inr (attempt_ok (mark_account (log_account
                                      (image_log env u k m name label actual returned meta' (rl_latency env) ''ok'')
                                      acc2)) status body))
                           else Inr (attempt_failed
                                  (if estimate > 0
                                   then refund_account (rl_sync env) now (rl_request_id env)
                                          (name @ '' [image-refund]'') bd estimate acc1
                                   else acc1) status body))))"

fun image_loop ::
    "relay_env \<Rightarrow> datetime \<Rightarrow> nat \<Rightarrow> dict \<Rightarrow> string \<Rightarrow> string option \<Rightarrow> (model \<times> channel) list \<Rightarrow> int \<times> json
       \<Rightarrow> account \<Rightarrow> (account \<times> bool \<times> int \<times> json) result" where
  \<comment> \<open>the flag tells whether a candidate returned images\<close>
  "image_loop env now n payload name label [] (status, body) acc = Inr (acc, False, status, body)"
| "image_loop env now n payload name label ((m, c) # cands) lst acc =
     (case image_attempt env now n payload name label m c acc of
        Inl e \<Rightarrow> Inl e
      | Inr (attempt_ok acc' status body) \<Rightarrow> Inr (acc', True, status, body)
      | Inr (attempt_skipped status body) \<Rightarrow>
          image_loop env now n payload name label cands (status, body) acc
      | Inr (attempt_failed acc' status body) \<Rightarrow>
          image_loop env now (Suc n) payload name label cands (status, body) acc')"

definition failure_meta :: "image_params \<Rightarrow> dict" where
  "failure_meta ip = [(''size'', JStr (ip_size ip)), (''quality'', JStr (ip_quality ip)),
     (''requested_n'', JInt (ip_n ip)), (''images_returned'', JInt 0)]"

definition execute_image_relay ::
    "relay_env \<Rightarrow> datetime \<Rightarrow> nat \<Rightarrow> dict \<Rightarrow> string \<Rightarrow> string option \<Rightarrow> (model \<times> channel) list \<Rightarrow> account
       \<Rightarrow> (account \<times> int \<times> json) result" where
  "execute_image_relay env now n payload name label cands acc =
     (case cands of
        [] \<Rightarrow> Inl (http 502 ''no upstream'')
      | (m0, c0) # _ \<Rightarrow>
          bind_result (image_loop env now n payload name label cands (502, message_body ''no upstream'') acc)
            (\<lambda>(acc', won, status, body).
               if won then Inr (acc', status, body)
               else case acc' of (db, u, k) \<Rightarrow>
                 Inr (mark_account (log_account
                        (image_log env u k m0 name label 0 0
                           (failure_meta (parse_params (se_repr env) payload)) 0
                           (if status = 504 then ''timeout'' else ''error'')) acc'), status, body)))"

definition images_generations ::
    "relay_env \<Rightarrow> datetime \<Rightarrow> session \<Rightarrow> route_state \<Rightarrow> user \<Rightarrow> api_key option \<Rightarrow> relay_request
       \<Rightarrow> session \<times> route_state \<times> relay_response result" where
  \<comment> \<open>a failure is committed too: it is logged, and its holds are already refunded\<close>
  "images_generations env now db st u k rq =
     (case relay_admit env now db st u k of
        (st1, Inl e) \<Rightarrow> (db, st1, Inl e)
      | (st1, Inr _) \<Rightarrow>
          (case bind_result (case rq_json rq of None \<Rightarrow> Inl internal_error | Some b \<Rightarrow> Inr b) request_model of
             Inl e \<Rightarrow> (db, st1, Inl e)
           | Inr (payload, name) \<Rightarrow>
               (case decide env now db st1 rq payload name ''image'' ''openai'' ''no upstream'' of
                  (st2, Inl e) \<Rightarrow> (db, st2, Inl e)
                | (st2, Inr d) \<Rightarrow>
                    (case execute_image_relay env now (ss_calls st2) payload name (rd_chosen_label d)
                            (decision_candidates d) (db, u, k) of
                       Inl e \<Rightarrow> (db, st2, Inl e)
                     | Inr (acc, code, body) \<Rightarrow>
                         (case (if code = 200
                                then record_smart_usage (rl_sync env) now d name (rl_request_id env) acc
                                else acc) of
                            (db', u', k') \<Rightarrow>
                              (case commit_relay now db' st2 of
                                 (db'', st') \<Rightarrow>
                                   (db'', st',
                                    if code \<noteq> 200
                                    then Inl (http (if code = 504 then 504 else 502) (py_text (se_repr env) body))
                                    else Inr (response_json body))))))))"

section \<open>Model list\<close>

definition list_relay_models :: "session \<Rightarrow> string list" where
  \<comment> \<open>the ids of \<open>GET /v1/models\<close>\<close>
  "list_relay_models db =
     map rp_user_facing_model
       (filter (\<lambda>p. route_exposes p ''openai.chat'' \<or> route_exposes p ''openai.responses'')
         (filter (\<lambda>p. rp_enabled p \<and> rp_scope p = scope_public) (route_policies db)))"

end
