(* ===== verification/Chat_Protocols.thy ===== *)
theory Chat_Protocols
  imports Routing
begin

text \<open>
  Conversions between the OpenAI chat contract and Anthropic messages:
  \<^verbatim>\<open>services/protocols/chat.py\<close>. A request is converted before it is routed, a response after it is
  billed, and a stream chunk by chunk by a converter that keeps an unfinished event in its buffer.
  Parameters: \<open>loads\<close> is \<open>json.loads\<close> (\<open>None\<close> when it raises), \<open>fr\<close> prints a float, \<open>repr\<close> prints the
  values that \<open>str\<close> prints as Python syntax; \<open>mid\<close> is the message id drawn from \<open>uuid4\<close>.
\<close>

section \<open>Printing JSON\<close>

definition hex_digit :: "nat \<Rightarrow> char" where
  "hex_digit n = (if n < 10 then char_of (48 + n) else char_of (87 + n))"

definition escape_chr :: "char \<Rightarrow> string" where
  \<comment> \<open>the escapes of \<open>json.dumps(..., ensure_ascii=False)\<close>\<close>
  "escape_chr c =
     (let n = of_char c :: nat in
      if c = CHR 0x22 then [CHR 0x5C, CHR 0x22]
      else if c = CHR 0x5C then [CHR 0x5C, CHR 0x5C]
      else if n = 10 then [CHR 0x5C, CHR ''n'']
      else if n = 13 then [CHR 0x5C, CHR ''r'']
      else if n = 9 then [CHR 0x5C, CHR ''t'']
      else if n = 12 then [CHR 0x5C, CHR ''f'']
      else if n = 8 then [CHR 0x5C, CHR ''b'']
      else if n < 32 then CHR 0x5C # ''u00'' @ [hex_digit (n div 16), hex_digit (n mod 16)]
      else [c])"

definition quote_text :: "string \<Rightarrow> string" where
  "quote_text s = CHR 0x22 # concat (map escape_chr s) @ [CHR 0x22]"

fun py_dumps :: "(rat \<Rightarrow> string) \<Rightarrow> json \<Rightarrow> string"
  and dumps_items :: "(rat \<Rightarrow> string) \<Rightarrow> json list \<Rightarrow> string list"
  and dumps_fields :: "(rat \<Rightarrow> string) \<Rightarrow> (string \<times> json) list \<Rightarrow> string list" where
  \<comment> \<open>\<open>json.dumps(v, ensure_ascii=False, separators=(",", ":"))\<close>\<close>
  "py_dumps fr JNull = ''null''"
| "py_dumps fr (JBool b) = (if b then ''true'' else ''false'')"
| "py_dumps fr (JInt i) = str_int i"
| "py_dumps fr (JFloat r) = fr r"
| "py_dumps fr (JStr s) = quote_text s"
| "py_dumps fr (JList xs) = ''['' @ py_join '','' (dumps_items fr xs) @ '']''"
| "py_dumps fr (JObj d) = ''{'' @ py_join '','' (dumps_fields fr d) @ ''}''"
| "dumps_items fr [] = []"
| "dumps_items fr (x # xs) = py_dumps fr x # dumps_items fr xs"
| "dumps_fields fr [] = []"
| "dumps_fields fr ((k, v) # d) = (quote_text k @ '':'' @ py_dumps fr v) # dumps_fields fr d"

record sse_event =
  ev_name :: string
  ev_data :: dict

definition sse :: "(rat \<Rightarrow> string) \<Rightarrow> sse_event \<Rightarrow> string" where
  "sse fr e = ''event: '' @ ev_name e @ [CHR 0x0A] @ ''data: '' @ py_dumps fr (JObj (ev_data e)) @ [CHR 0x0A, CHR 0x0A]"

section \<open>Requests\<close>

definition openai_chat_token_limit :: "json \<Rightarrow> json \<Rightarrow> json" where
  "openai_chat_token_limit payload dflt =
     (case payload of
        JObj p \<Rightarrow>
          if dict_get_none p ''max_completion_tokens'' \<noteq> JNull then dict_get_none p ''max_completion_tokens''
          else if dict_get_none p ''max_tokens'' \<noteq> JNull then dict_get_none p ''max_tokens''
          else dflt
      | _ \<Rightarrow> dflt)"

definition anthropic_messages_request_error :: "dict \<Rightarrow> string option" where
  "anthropic_messages_request_error payload =
     (if dict_has payload ''max_completion_tokens''
      then Some ''max_completion_tokens is not valid for Anthropic Messages; use max_tokens''
      else if \<not> dict_has payload ''max_tokens'' then Some ''missing max_tokens''
      else case dict_get_none payload ''max_tokens'' of
        JInt v \<Rightarrow> if v \<le> 0 then Some ''max_tokens must be a positive integer'' else None
      | _ \<Rightarrow> Some ''max_tokens must be a positive integer'')"

definition text_block :: "json \<Rightarrow> json" where
  "text_block t = JObj [(''type'', JStr ''text''), (''text'', t)]"

definition image_block :: "(json \<Rightarrow> string) \<Rightarrow> dict \<Rightarrow> py_error + json list" where
  \<comment> \<open>no block for an image that is not base64\<close>
  "image_block repr block =
     (case py_or (dict_get_none block ''source'') (JObj []) of
        JObj source \<Rightarrow>
          if dict_get_none source ''type'' = JStr ''base64'' \<and> truthy (dict_get_none source ''media_type'')
             \<and> truthy (dict_get_none source ''data'')
          then Inr [JObj [(''type'', JStr ''image_url''), (''image_url'', JObj [(''url'', JStr
                 (''data:'' @ py_text repr (dict_get_none source ''media_type'') @ '';base64,''
                  @ py_text repr (dict_get_none source ''data'')))])]]
          else Inr []
      | _ \<Rightarrow> Inl AttributeError)"

fun content_blocks :: "(json \<Rightarrow> string) \<Rightarrow> json list \<Rightarrow> py_error + json list" where
  "content_blocks repr [] = Inr []"
| "content_blocks repr (b # bs) =
     bind_result
       (case b of
          JObj block \<Rightarrow>
            if dict_get_none block ''type'' = JStr ''text''
            then Inr [text_block (py_or (dict_get_none block ''text'') (JStr []))]
            else if dict_get_none block ''type'' = JStr ''image'' then image_block repr block
            else Inr [b]
        | _ \<Rightarrow> Inr [])
       (\<lambda>ys. bind_result (content_blocks repr bs) (\<lambda>zs. Inr (ys @ zs)))"

definition anthropic_content_to_openai :: "(json \<Rightarrow> string) \<Rightarrow> json \<Rightarrow> py_error + json" where
  "anthropic_content_to_openai repr content =
     (case content of
        JStr s \<Rightarrow> Inr content
      | JList bs \<Rightarrow> bind_result (content_blocks repr bs) (\<lambda>ys. Inr (JList ys))
      | _ \<Rightarrow> Inr (JStr []))"

definition chat_message :: "string \<Rightarrow> json \<Rightarrow> json" where
  "chat_message role content = JObj [(''role'', JStr role), (''content'', content)]"

fun chat_messages :: "(json \<Rightarrow> string) \<Rightarrow> json list \<Rightarrow> py_error + json list" where
  "chat_messages repr [] = Inr []"
| "chat_messages repr (JObj msg # ms) =
     (let role = py_or (dict_get_none msg ''role'') (JStr ''user'') in
      bind_result (anthropic_content_to_openai repr (dict_get_none msg ''content'')) (\<lambda>content.
      bind_result (chat_messages repr ms) (\<lambda>rest.
        Inr (chat_message (if role = JStr ''assistant'' then ''assistant'' else ''user'') content # rest))))"
| "chat_messages repr (_ # ms) = chat_messages repr ms"

definition system_messages :: "(json \<Rightarrow> string) \<Rightarrow> json \<Rightarrow> py_error + json list" where
  "system_messages repr system =
     (case system of
        JStr s \<Rightarrow> Inr (if s \<noteq> [] then [chat_message ''system'' system] else [])
      | JList bs \<Rightarrow>
          if bs \<noteq> []
          then bind_result (anthropic_content_to_openai repr system) (\<lambda>c. Inr [chat_message ''system'' c])
          else Inr []
      | _ \<Rightarrow> Inr [])"

definition copy_field :: "dict \<Rightarrow> string \<Rightarrow> string \<Rightarrow> dict \<Rightarrow> dict" where
  \<comment> \<open>\<open>if a in payload: out[b] = payload.get(a)\<close>\<close>
  "copy_field payload a b out = (if dict_has payload a then dict_set out b (dict_get_none payload a) else out)"

definition anthropic_to_openai_payload :: "(json \<Rightarrow> string) \<Rightarrow> dict \<Rightarrow> py_error + dict" where
  "anthropic_to_openai_payload repr payload =
     bind_result (system_messages repr (dict_get_none payload ''system'')) (\<lambda>sys.
     bind_result (iter_json (py_or (dict_get_none payload ''messages'') (JList []))) (\<lambda>items.
     bind_result (chat_messages repr items) (\<lambda>ms.
       let out0 = [(''model'', dict_get_none payload ''model''), (''messages'', JList (sys @ ms))];
           out1 = copy_field payload ''stop_sequences'' ''stop''
                    (copy_field payload ''top_p'' ''top_p''
                      (copy_field payload ''temperature'' ''temperature''
                        (copy_field payload ''max_tokens'' ''max_tokens'' out0)));
           out2 = (if dict_has payload ''stream''
                   then dict_set out1 ''stream'' (JBool (truthy (dict_get_none payload ''stream''))) else out1)
       in Inr (if truthy (dict_get_none out2 ''stream'')
               then dict_set out2 ''stream_options'' (JObj [(''include_usage'', JBool True)]) else out2))))"

section \<open>Responses\<close>

definition openai_finish_reason_to_anthropic :: "json \<Rightarrow> string" where
  "openai_finish_reason_to_anthropic reason =
     (if reason = JStr ''length'' then ''max_tokens''
      else if reason = JStr ''tool_calls'' then ''tool_use''
      else if reason = JStr ''content_filter'' then ''stop_sequence''
      else ''end_turn'')"

fun text_blocks :: "json list \<Rightarrow> json list" where
  "text_blocks [] = []"
| "text_blocks (JObj block # bs) =
     (if dict_get_none block ''type'' = JStr ''text''
      then text_block (py_or (dict_get_none block ''text'') (JStr [])) # text_blocks bs
      else text_blocks bs)"
| "text_blocks (_ # bs) = text_blocks bs"

definition openai_content_to_anthropic :: "json \<Rightarrow> json list" where
  "openai_content_to_anthropic content =
     (case content of
        JStr s \<Rightarrow> [text_block content]
      | JList bs \<Rightarrow> (if text_blocks bs \<noteq> [] then text_blocks bs else [text_block (JStr [])])
      | _ \<Rightarrow> [text_block (JStr [])])"

definition need_obj :: "json \<Rightarrow> py_error + dict" where
  \<comment> \<open>\<open>v.get\<close> exists\<close>
  "need_obj v = (case v of JObj d \<Rightarrow> Inr d | _ \<Rightarrow> Inl AttributeError)"

definition first_choice :: "dict \<Rightarrow> json" where
  "first_choice body =
     (case dict_get_none body ''choices'' of JList (c # cs) \<Rightarrow> c | _ \<Rightarrow> JObj [])"

definition openai_to_anthropic_response :: "string \<Rightarrow> json \<Rightarrow> json \<Rightarrow> py_error + json" where
  "openai_to_anthropic_response mid b name =
     bind_result (need_obj b) (\<lambda>body.
     bind_result (need_obj (first_choice body)) (\<lambda>choice.
     bind_result (need_obj (py_or (dict_get_none choice ''message'') (JObj []))) (\<lambda>message.
     bind_result (need_obj (py_or (dict_get_none body ''usage'') (JObj []))) (\<lambda>us.
     bind_result (py_int (py_or (dict_get_none us ''prompt_tokens'') (JInt 0))) (\<lambda>pt.
     bind_result (py_int (py_or (dict_get_none us ''completion_tokens'') (JInt 0))) (\<lambda>ct.
       Inr (JObj
         [(''id'', py_or (dict_get_none body ''id'') (JStr mid)), (''type'', JStr ''message''),
          (''role'', JStr ''assistant''), (''model'', name),
          (''content'', JList (openai_content_to_anthropic (py_or (dict_get_none message ''content'') (JStr [])))),
          (''stop_reason'', JStr (openai_finish_reason_to_anthropic (dict_get_none choice ''finish_reason''))),
          (''stop_sequence'', JNull),
          (''usage'', JObj [(''input_tokens'', JInt pt), (''output_tokens'', JInt ct)])])))))))"

section \<open>Streams\<close>

record anthropic_stream =
  as_model :: json
  as_message_id :: string
  as_buffer :: string
  as_started :: bool
  as_content_started :: bool
  as_prompt_tokens :: int
  as_completion_tokens :: int
  as_stop_reason :: string

definition new_stream :: "string \<Rightarrow> json \<Rightarrow> anthropic_stream" where
  "new_stream mid name = \<lparr>as_model = name, as_message_id = mid, as_buffer = [], as_started = False,
     as_content_started = False, as_prompt_tokens = 0, as_completion_tokens = 0, as_stop_reason = ''end_turn''\<rparr>"

definition message_start :: "anthropic_stream \<Rightarrow> sse_event" where
  "message_start st = \<lparr>ev_name = ''message_start'', ev_data =
     [(''type'', JStr ''message_start''),
      (''message'', JObj [(''id'', JStr (as_message_id st)), (''type'', JStr ''message''), (''role'', JStr ''assistant''),
        (''model'', as_model st), (''content'', JList []), (''stop_reason'', JNull), (''stop_sequence'', JNull),
        (''usage'', JObj [(''input_tokens'', JInt (as_prompt_tokens st)), (''output_tokens'', JInt 0)])])]\<rparr>"

definition content_block_start :: sse_event where
  "content_block_start = \<lparr>ev_name = ''content_block_start'', ev_data =
     [(''type'', JStr ''content_block_start''), (''index'', JInt 0), (''content_block'', text_block (JStr []))]\<rparr>"

definition content_block_delta :: "json \<Rightarrow> sse_event" where
  "content_block_delta content = \<lparr>ev_name = ''content_block_delta'', ev_data =
     [(''type'', JStr ''content_block_delta''), (''index'', JInt 0),
      (''delta'', JObj [(''type'', JStr ''text_delta''), (''text'', content)])]\<rparr>"

definition content_block_stop :: sse_event where
  "content_block_stop = \<lparr>ev_name = ''content_block_stop'', ev_data =
     [(''type'', JStr ''content_block_stop''), (''index'', JInt 0)]\<rparr>"

definition message_delta :: "anthropic_stream \<Rightarrow> sse_event" where
  "message_delta st = \<lparr>ev_name = ''message_delta'', ev_data =
     [(''type'', JStr ''message_delta''),
      (''delta'', JObj [(''stop_reason'', JStr (as_stop_reason st)), (''stop_sequence'', JNull)]),
      (''usage'', JObj [(''output_tokens'', JInt (as_completion_tokens st))])]\<rparr>"

definition message_stop :: sse_event where
  "message_stop = \<lparr>ev_name = ''message_stop'', ev_data = [(''type'', JStr ''message_stop'')]\<rparr>"

definition ensure_started :: "anthropic_stream \<Rightarrow> anthropic_stream \<times> sse_event list" where
  "ensure_started st =
     (st\<lparr>as_started := True, as_content_started := True\<rparr>,
      (if as_started st then [] else [message_start st])
      @ (if as_content_started st then [] else [content_block_start]))"

definition add_tokens :: "dict \<Rightarrow> anthropic_stream \<Rightarrow> py_error + anthropic_stream" where
  \<comment> \<open>\<open>int(usage.get(k) or self.k or 0)\<close> for both counts\<close>
  "add_tokens us st =
     bind_result (py_int (py_or (dict_get_none us ''prompt_tokens'') (JInt (as_prompt_tokens st)))) (\<lambda>pt.
     bind_result (py_int (py_or (dict_get_none us ''completion_tokens'') (JInt (as_completion_tokens st)))) (\<lambda>ct.
       Inr (st\<lparr>as_prompt_tokens := pt, as_completion_tokens := ct\<rparr>)))"

definition delta_choice :: "dict \<Rightarrow> py_error + dict" where
  \<comment> \<open>\<open>(obj.get("choices") or [{}])[0]\<close>, on which \<open>get\<close> is called\<close>
  "delta_choice obj =
     (case py_or (dict_get_none obj ''choices'') (JList [JObj []]) of
        JList (c # cs) \<Rightarrow> need_obj c
      | JStr s \<Rightarrow> Inl AttributeError
      | JObj d \<Rightarrow> Inl KeyError
      | _ \<Rightarrow> Inl TypeError)"

definition note_finish :: "json \<Rightarrow> anthropic_stream \<Rightarrow> anthropic_stream" where
  "note_finish reason st =
     (if truthy reason then st\<lparr>as_stop_reason := openai_finish_reason_to_anthropic reason\<rparr> else st)"

definition emit :: "json \<Rightarrow> anthropic_stream \<Rightarrow> anthropic_stream \<times> sse_event list" where
  "emit content st =
     (if truthy content
      then (case ensure_started st of (st', es) \<Rightarrow> (st', es @ [content_block_delta content]))
      else (st, []))"

definition feed_obj :: "json \<Rightarrow> anthropic_stream \<Rightarrow> py_error + anthropic_stream \<times> sse_event list" where
  "feed_obj v st =
     bind_result (need_obj v) (\<lambda>obj.
     bind_result (need_obj (py_or (dict_get_none obj ''usage'') (JObj []))) (\<lambda>us.
     bind_result (if us \<noteq> [] then add_tokens us st else Inr st) (\<lambda>st1.
     bind_result (delta_choice obj) (\<lambda>choice.
     bind_result (need_obj (py_or (dict_get_none choice ''delta'') (JObj []))) (\<lambda>delta.
       Inr (emit (dict_get_none delta ''content'') (note_finish (dict_get_none choice ''finish_reason'') st1)))))))"

definition feed_line :: "(string \<Rightarrow> json option) \<Rightarrow> string \<Rightarrow> anthropic_stream
     \<Rightarrow> py_error + anthropic_stream \<times> sse_event list" where
  "feed_line loads line0 st =
     (let line = py_strip line0 in
      if \<not> py_startswith line ''data:'' then Inr (st, [])
      else let raw = py_strip (drop 5 line) in
           if raw = [] \<or> raw = ''[DONE]'' then Inr (st, [])
           else case loads raw of None \<Rightarrow> Inr (st, []) | Some obj \<Rightarrow> feed_obj obj st)"

fun feed_lines :: "(string \<Rightarrow> json option) \<Rightarrow> string list \<Rightarrow> anthropic_stream
     \<Rightarrow> py_error + anthropic_stream \<times> sse_event list" where
  "feed_lines loads [] st = Inr (st, [])"
| "feed_lines loads (l # ls) st =
     bind_result (feed_line loads l st) (\<lambda>(st1, es1).
     bind_result (feed_lines loads ls st1) (\<lambda>(st2, es2). Inr (st2, es1 @ es2)))"

definition event_separator :: string where
  "event_separator = [CHR 0x0A, CHR 0x0A]"

definition feed :: "(string \<Rightarrow> json option) \<Rightarrow> string \<Rightarrow> anthropic_stream
     \<Rightarrow> py_error + anthropic_stream \<times> sse_event list" where
  \<comment> \<open>the last piece stays in the buffer; \<open>split\<close> never returns an empty list\<close>
  "feed loads chunk st =
     (let parts = py_split event_separator (as_buffer st @ decode_ignore chunk) in
      feed_lines loads (concat (map py_splitlines (butlast parts))) (st\<lparr>as_buffer := List.last parts\<rparr>))"

definition finish :: "anthropic_stream \<Rightarrow> sse_event list" where
  "finish st =
     (case ensure_started st of (st1, es) \<Rightarrow> es @ [content_block_stop, message_delta st1, message_stop])"

fun openai_sse_to_anthropic_sse :: "(string \<Rightarrow> json option) \<Rightarrow> string list \<Rightarrow> anthropic_stream
     \<Rightarrow> sse_event list \<times> bool" where
  \<comment> \<open>the events sent and whether the generator ends without raising\<close>
  "openai_sse_to_anthropic_sse loads [] st = (finish st, True)"
| "openai_sse_to_anthropic_sse loads (ch # chs) st =
     (case feed loads ch st of
        Inl e \<Rightarrow> ([], False)
      | Inr (st', es) \<Rightarrow>
          (case openai_sse_to_anthropic_sse loads chs st' of (es', ok) \<Rightarrow> (es @ es', ok)))"

end
