(* ===== verification/Messages_Relay.thy ===== *)
theory Messages_Relay
  imports Relay Chat_Protocols
begin

text \<open>
  The Anthropic endpoint \<^verbatim>\<open>api/relay/anthropic.py\<close>: \<open>POST /v1/messages\<close> is validated, converted to the
  chat contract, relayed over the candidates, billed as a chat request, and its answer converted
  back, in one piece after the commit or event by event while it streams. Beside the environment
  of the relay, \<open>fr\<close> prints floats and \<open>mid\<close> is the message id.
\<close>

definition messages_request :: "(json \<Rightarrow> string) \<Rightarrow> json \<Rightarrow> (dict \<times> dict \<times> string) result" where
  \<comment> \<open>the payload, its conversion and the model name; a name that is no text reaches the query
      after the checks and raises there\<close>
  "messages_request repr body =
     (case body of
        JObj payload \<Rightarrow>
          (let name = dict_get_none payload ''model'' in
           if \<not> truthy name then Inl (http 400 ''missing model'')
           else if \<not> truthy (dict_get_none payload ''messages'') then Inl (http 400 ''missing messages'')
           else case anthropic_messages_request_error payload of
             Some err \<Rightarrow> Inl (http 400 err)
           | None \<Rightarrow>
               bind_result (or_500 (anthropic_to_openai_payload repr payload)) (\<lambda>openai_payload.
                 case name of JStr s \<Rightarrow> Inr (payload, openai_payload, s) | _ \<Rightarrow> Inl internal_error))
      | _ \<Rightarrow> Inl internal_error)"

fun messages_events :: "(string \<Rightarrow> json option) \<Rightarrow> string list \<Rightarrow> anthropic_stream
     \<Rightarrow> sse_event list \<times> anthropic_stream option" where
  \<comment> \<open>the events of the chunks and the converter after them, \<open>None\<close> when it raises\<close>
  "messages_events loads [] st = ([], Some st)"
| "messages_events loads (ch # chs) st =
     (case bind_result
             (case parse_usage_from_chunk loads ch of
                None \<Rightarrow> Inr st
              | Some us \<Rightarrow> bind_result (need_obj us) (\<lambda>d. add_tokens d st))
             (feed loads ch) of
        Inl e \<Rightarrow> ([], None)
      | Inr (st', es) \<Rightarrow>
          (case messages_events loads chs st' of (es', r) \<Rightarrow> (es @ es', r)))"

definition messages_stream ::
    "(rat \<Rightarrow> string) \<Rightarrow> string \<Rightarrow> relay_env \<Rightarrow> datetime \<Rightarrow> session \<Rightarrow> route_state \<Rightarrow> user \<Rightarrow> api_key option
       \<Rightarrow> route_decision \<Rightarrow> string \<Rightarrow> dict \<Rightarrow> session \<times> route_state \<times> relay_response result" where
  \<comment> \<open>\<open>streamer()\<close>; an upstream stream that breaks off raises before \<open>finish\<close>\<close>
  "messages_stream fr mid env now db st u k d name payload =
     (case chat_loop env (ss_calls st) payload True (decision_candidates d) JNull of
        Inl e \<Rightarrow> (db, st, Inr (response_stream [] False))
      | Inr (m, r) \<Rightarrow>
          (case cr_stream r of
             None \<Rightarrow> (db, st, Inr (response_stream [] False))
           | Some (chunks, ends) \<Rightarrow>
               (case messages_events (rl_loads env) chunks (new_stream mid (JStr name)) of
                  (es, None) \<Rightarrow> (db, st, Inr (response_stream (map (sse fr) es) False))
                | (es, Some conv) \<Rightarrow>
                    if \<not> ends
                    then (db, st, Inr (response_stream (map (sse fr) es) False))
                    else (case settle_relay env now d name m (as_prompt_tokens conv) (as_completion_tokens conv) (db, u, k) of
                            (db', u', k') \<Rightarrow>
                              (case commit_relay now db' st of
                                 (db'', st') \<Rightarrow> (db'', st', Inr (response_stream (map (sse fr) (es @ finish conv)) True)))))))"

definition messages_json ::
    "string \<Rightarrow> relay_env \<Rightarrow> datetime \<Rightarrow> session \<Rightarrow> route_state \<Rightarrow> user \<Rightarrow> api_key option \<Rightarrow> route_decision
       \<Rightarrow> string \<Rightarrow> dict \<Rightarrow> session \<times> route_state \<times> relay_response result" where
  \<comment> \<open>the conversion runs after the commit: an answer that cannot be converted is billed\<close>
  "messages_json mid env now db st u k d name payload =
     (case chat_loop env (ss_calls st) payload False (decision_candidates d) JNull of
        Inl e \<Rightarrow> (db, st, Inl (all_failed env e))
      | Inr (m, r) \<Rightarrow>
          (case settle_relay env now d name m (cr_prompt_tokens r) (cr_completion_tokens r) (db, u, k) of
             (db', u', k') \<Rightarrow>
               (case commit_relay now db' st of
                  (db'', st') \<Rightarrow>
                    (db'', st', bind_result (or_500 (openai_to_anthropic_response mid (cr_body r) (JStr name)))
                                  (\<lambda>v. Inr (response_json v))))))"

definition messages ::
    "(rat \<Rightarrow> string) \<Rightarrow> string \<Rightarrow> relay_env \<Rightarrow> datetime \<Rightarrow> session \<Rightarrow> route_state \<Rightarrow> user \<Rightarrow> api_key option
       \<Rightarrow> relay_request \<Rightarrow> session \<times> route_state \<times> relay_response result" where
  "messages fr mid env now db st u k rq =
     (case relay_admit env now db st u k of
        (st1, Inl e) \<Rightarrow> (db, st1, Inl e)
      | (st1, Inr _) \<Rightarrow>
          (case rq_json rq of
             None \<Rightarrow> (db, st1, Inl (http 400 ''invalid json body''))
           | Some body \<Rightarrow>
               (case messages_request (se_repr env) body of
                  Inl e \<Rightarrow> (db, st1, Inl e)
                | Inr (payload, openai_payload, name) \<Rightarrow>
                    (case decide env now db st1 rq openai_payload name ''chat'' ''anthropic'' ''no available upstream'' of
                       (st2, Inl e) \<Rightarrow> (db, st2, Inl e)
                     | (st2, Inr d) \<Rightarrow>
                         if truthy (dict_get_none payload ''stream'')
                         then messages_stream fr mid env now db st2 u k d name openai_payload
                         else messages_json mid env now db st2 u k d name openai_payload))))"

end
