(* ===== verification/Relay_Laws.thy ===== *)
theory Relay_Laws
  imports Relay Refund_Laws Routing_Laws
begin

text \<open>
  The relays take what they log: over the interface that billing offers (a charge takes its cost,
  a refund gives back what a charge took, neither touches the usage log), the hold and reconcile
  flow of image requests nets to the actual cost, and each endpoint's effect on the user's funds
  is the sum of the costs it logged. Failover reaches the first candidate that answers and bills its
  model.
\<close>

section \<open>The interface of billing\<close>

locale payments =
  fixes ok :: "'s \<Rightarrow> bool"
    and funds :: "'s \<Rightarrow> int"
    and view :: "'s \<Rightarrow> 'v"
    and charge :: "'n \<Rightarrow> int \<Rightarrow> 's \<Rightarrow> 's \<times> 'b"
    and refund :: "'n \<Rightarrow> 'b \<Rightarrow> int \<Rightarrow> 's \<Rightarrow> 's"
  assumes charge_law: "ok s \<Longrightarrow> charge nt c s = (s', b) \<Longrightarrow>
        ok s' \<and> funds s' = funds s - max 0 c \<and> view s' = view s"
    and refund_law: "ok s \<Longrightarrow> charge nt c s = (s1, b) \<Longrightarrow> 0 < a \<Longrightarrow>
        ok (refund nt' b a s1) \<and> funds (refund nt' b a s1) = funds s1 + min a (max 0 c)
        \<and> view (refund nt' b a s1) = view s1"
begin

lemma hold_release:
  assumes "ok s" and "charge nt c s = (s1, b)" and s2_def: "s2 = (if c > 0 then refund nt' b c s1 else s1)"
  shows "ok s2 \<and> funds s2 = funds s \<and> view s2 = view s"
  using charge_law [OF assms(1,2)] refund_law [OF assms(1,2), of c nt'] by (auto simp: s2_def)

lemma hold_reconcile:
  assumes "ok s" and "charge nt c s = (s1, b)" and "0 \<le> c"
    and s2_def: "s2 = (if actual < c then refund nt' b (c - actual) s1
                 else if actual > c then fst (charge nt'' (actual - c) s1) else s1)"
  shows "ok s2 \<and> funds s2 = funds s - max 0 actual \<and> view s2 = view s"
proof -
  note h = charge_law [OF assms(1,2)]
  consider "actual < c" | "actual > c" | "actual = c" by linarith
  then show ?thesis
  proof cases
    case 1
    with h refund_law [OF assms(1,2), of "c - actual" nt'] assms(3) show ?thesis by (auto simp: s2_def)
  next
    case 2
    obtain s3 b3 where c3: "charge nt'' (actual - c) s1 = (s3, b3)" by fastforce
    with 2 h charge_law [OF conjunct1 [OF h] c3] assms(3) show ?thesis by (auto simp: s2_def)
  next
    case 3
    with h assms(3) show ?thesis by (auto simp: s2_def)
  qed
qed

end

section \<open>Billing provides it\<close>

definition account_ok :: "int \<Rightarrow> account \<Rightarrow> bool" where
  "account_ok uid acc \<longleftrightarrow> (case acc of (db, u, k) \<Rightarrow>
     us_id u = uid \<and> distinct (map sb_id (subscriptions db)) \<and> row_get us_id uid (users db) \<noteq> None)"

definition account_funds :: "datetime \<Rightarrow> int \<Rightarrow> account \<Rightarrow> int" where
  "account_funds now uid acc = (case acc of (db, u, k) \<Rightarrow> sub_total now db uid + wallet_of db uid)"

definition account_logs :: "account \<Rightarrow> usage_log list" where
  "account_logs acc = usage_logs (fst acc)"

lemma charge_account_law:
  assumes "account_ok uid acc" and "charge_account sync now ref note c acc = (acc', bd)"
  shows "account_ok uid acc' \<and> account_funds now uid acc' = account_funds now uid acc - max 0 c
    \<and> account_logs acc' = account_logs acc"
proof (cases "0 < c")
  case False
  with assms(2) have "acc' = acc" by (auto simp: charge_account_def charge_user_def split: prod.splits)
  with False assms(1) show ?thesis by simp
next
  case True
  obtain db u k where acc: "acc = (db, u, k)" by (cases acc)
  obtain db' u' k' where ch: "charge_user sync now db u k c (Some ref) (Some note) = (db', u', k', bd)"
    and acc': "acc' = (db', u', k')"
    using assms(2) acc by (auto simp: charge_account_def split: prod.splits)
  from assms(1) acc obtain row where ok: "us_id u = uid" "distinct (map sb_id (subscriptions db))"
      "row_get us_id (us_id u) (users db) = Some row"
    by (auto simp: account_ok_def)
  note e = charge_user_effect [OF ok(2,3) True ch]
  obtain row1 where row1: "row_get us_id (us_id u') (users db') = Some row1"
      "us_balance_cents row1 = us_balance_cents row - shortfall now db (us_id u) c"
    using charge_row_after [OF ok(2,3) True ch] by blast
  have w: "wallet_of db' uid = wallet_of db uid - shortfall now db uid c"
    using row1 e(6) ok by (simp add: wallet_of_def returning_balance_def)
  have "account_ok uid acc'" using acc' e(6,12) ok row1 by (simp add: account_ok_def)
  moreover have "usage_logs db' = usage_logs db" using e(14) by simp
  moreover have "sub_total now db' uid = sub_total now db uid - (c - shortfall now db uid c)"
    using e(7) ok(1) by simp
  ultimately show ?thesis using True w acc acc' by (simp add: account_funds_def account_logs_def)
qed

lemma refund_account_law:
  assumes "account_ok uid acc" and "charge_account sync now ref note c acc = (acc1, bd)" and "0 < a"
    and acc2_def: "acc2 = refund_account sync now ref' note' bd a acc1"
  shows "account_ok uid acc2 \<and> account_funds now uid acc2 = account_funds now uid acc1 + min a (max 0 c)
    \<and> account_logs acc2 = account_logs acc1"
proof (cases "0 < c")
  case False
  with assms(1-3) have "acc1 = acc" "bd = []"
    by (auto simp: charge_account_def charge_user_def split: prod.splits)
  then have "acc2 = acc1" by (auto simp: acc2_def refund_account_def refund_to_sources_def split: prod.splits)
  with False assms(1,3) \<open>acc1 = acc\<close> show ?thesis by simp
next
  case True
  obtain db u k where acc: "acc = (db, u, k)" by (cases acc)
  obtain db1 u1 k1 where ch: "charge_user sync now db u k c (Some ref) (Some note) = (db1, u1, k1, bd)"
    and acc1: "acc1 = (db1, u1, k1)"
    using assms(2) acc by (auto simp: charge_account_def split: prod.splits)
  from assms(1) acc obtain row where ok: "us_id u = uid" "distinct (map sb_id (subscriptions db))"
      "row_get us_id (us_id u) (users db) = Some row"
    by (auto simp: account_ok_def)
  note e = charge_user_effect [OF ok(2,3) True ch]
  note pos = charge_breakdown_pos [OF ok(2,3) True ch]
  have ds1: "distinct (map sb_id (subscriptions db1))" using e(12) ok(2) by simp
  obtain row1 where row1: "row_get us_id (us_id u1) (users db1) = Some row1"
    using charge_row_after [OF ok(2,3) True ch] by blast
  obtain db2 u2 k2 r where rf: "refund_to_sources sync now db1 u1 k1 bd a (Some ref') (Some note') = (db2, u2, k2, r)"
    by (metis prod_cases4)
  obtain subs w where sp: "refund_split now db1 (us_id u1) bd a = (subs, w)" by force
  note f = refund_funds [OF ds1 row1 pos_nonneg [OF conjunct1 [OF pos]] assms(3) conjunct2 [OF pos] rf]
  note s = refund_shape [OF assms(3) conjunct2 [OF pos] rf sp]
  have acc2: "acc2 = (db2, u2, k2)" using rf acc1 by (simp add: acc2_def refund_account_def)
  have ids: "map sb_id (subscriptions db2) = map sb_id (subscriptions db1)"
    using s(2) refund_subs_frame by simp
  have "row_get us_id uid (users db2) \<noteq> None"
    using s(3) row1 e(6) ok(1) by (auto simp: add_balance_def row_simps)
  then have "account_ok uid acc2" using acc2 ids ds1 s(5) e(6) ok(1) by (simp add: account_ok_def)
  then show ?thesis
    using True acc1 acc2 f s(6) e(2,6) ok(1) by (simp add: account_funds_def account_logs_def)
qed

interpretation acct: payments "account_ok uid" "account_funds now uid" account_logs
    "\<lambda>(ref, note). charge_account sync now ref note" "\<lambda>(ref, note). refund_account sync now ref note"
  for uid now sync
proof unfold_locales
  fix acc acc' :: account and q :: "string \<times> string" and c bd
  obtain ref nt where [simp]: "q = (ref, nt)" by (cases q)
  show "account_ok uid acc \<Longrightarrow> (case q of (ref, note) \<Rightarrow> charge_account sync now ref note) c acc = (acc', bd) \<Longrightarrow>
      account_ok uid acc' \<and> account_funds now uid acc' = account_funds now uid acc - max 0 c
      \<and> account_logs acc' = account_logs acc"
    using charge_account_law by simp
next
  fix acc acc1 :: account and q q' :: "string \<times> string" and c bd a
  obtain ref nt ref' nt' where [simp]: "q = (ref, nt)" "q' = (ref', nt')" by (cases q; cases q')
  show "account_ok uid acc \<Longrightarrow> (case q of (ref, note) \<Rightarrow> charge_account sync now ref note) c acc = (acc1, bd)
      \<Longrightarrow> 0 < a \<Longrightarrow>
      account_ok uid ((case q' of (ref, note) \<Rightarrow> refund_account sync now ref note) bd a acc1)
      \<and> account_funds now uid ((case q' of (ref, note) \<Rightarrow> refund_account sync now ref note) bd a acc1)
        = account_funds now uid acc1 + min a (max 0 c)
      \<and> account_logs ((case q' of (ref, note) \<Rightarrow> refund_account sync now ref note) bd a acc1)
        = account_logs acc1"
    using refund_account_law by simp
qed

lemma log_account_simps [simp]:
  "account_ok uid (log_account l acc) = account_ok uid acc"
  "account_funds now uid (log_account l acc) = account_funds now uid acc"
  "account_logs (log_account l acc) = account_logs acc @ [l]"
  by (auto simp: log_account_def account_ok_def account_funds_def account_logs_def sub_total_def
      wallet_of_def returning_balance_def split: prod.splits)

lemma mark_account_simps [simp]:
  "account_ok uid (mark_account acc) = account_ok uid acc"
  "account_funds now uid (mark_account acc) = account_funds now uid acc"
  "account_logs (mark_account acc) = account_logs acc"
  by (auto simp: mark_account_def account_ok_def account_funds_def account_logs_def sub_total_def
      wallet_of_def returning_balance_def split: prod.splits)

section \<open>Image requests\<close>

definition quotes_nonneg :: "model \<Rightarrow> bool" where
  "quotes_nonneg m \<longleftrightarrow> (\<forall>sz q n p est meta.
     quote_image_cost_cents (Some m) sz q n p = Inr (est, meta) \<longrightarrow> 0 \<le> est)"

lemma reconcile_effect:
  assumes "account_ok uid acc" and "charge_account (rl_sync env) now rid note est acc = (acc1, bd)" and "0 \<le> est"
  shows "account_ok uid (reconcile env now name est actual bd acc1)
    \<and> account_funds now uid (reconcile env now name est actual bd acc1) = account_funds now uid acc - max 0 actual
    \<and> account_logs (reconcile env now name est actual bd acc1) = account_logs acc"
proof -
  have ch: "(case (rid, note) of (ref, note) \<Rightarrow> charge_account (rl_sync env) now ref note) est acc = (acc1, bd)"
    using assms(2) by simp
  show ?thesis
    using acct.hold_reconcile [OF assms(1) ch assms(3) refl, of actual
        "(rl_request_id env, name @ '' [image-refund]'')" "(rl_request_id env, name @ '' [image-adjust]'')"]
    by (simp only: reconcile_def prod.case)
qed

lemma release_effect:
  assumes "account_ok uid acc" and "charge_account sync now rid note est acc = (acc1, bd)"
    and "acc2 = (if est > 0 then refund_account sync now rid' note' bd est acc1 else acc1)"
  shows "account_ok uid acc2 \<and> account_funds now uid acc2 = account_funds now uid acc
    \<and> account_logs acc2 = account_logs acc"
proof -
  have ch: "(case (rid, note) of (ref, note) \<Rightarrow> charge_account sync now ref note) est acc = (acc1, bd)"
    using assms(2) by simp
  show ?thesis
    using acct.hold_release [OF assms(1) ch refl, of "(rid', note')"] by (simp only: assms(3) prod.case)
qed

lemma image_attempt_effect:
  assumes "image_attempt env now n payload name label m c acc = Inr att" and "account_ok uid acc"
    and "quotes_nonneg m"
  shows "case att of
      attempt_skipped status body \<Rightarrow> True
    | attempt_failed acc' status body \<Rightarrow>
        account_ok uid acc' \<and> account_funds now uid acc' = account_funds now uid acc \<and> account_logs acc' = account_logs acc
    | attempt_ok acc' status body \<Rightarrow>
        account_ok uid acc' \<and> (\<exists>l. account_logs acc' = account_logs acc @ [l] \<and> ul_status l = ''ok''
          \<and> account_funds now uid acc' = account_funds now uid acc - max 0 (ul_cost_cents l))"
proof (cases att)
  case (attempt_skipped status body)
  then show ?thesis by simp
next
  case (attempt_failed acc' status body)
  obtain db u k where acc: "acc = (db, u, k)" by (cases acc)
  from assms(1) attempt_failed acc obtain est meta acc1 bd where
      ch: "charge_account (rl_sync env) now (rl_request_id env) (name @ '' [image-hold]'') est acc = (acc1, bd)"
    and acc': "acc' = (if est > 0 then refund_account (rl_sync env) now (rl_request_id env)
                  (name @ '' [image-refund]'') bd est acc1 else acc1)"
    by (auto simp: image_attempt_def Let_def bind_result_eq_Inr split: option.splits if_splits prod.splits sum.splits)
  have "account_ok uid acc' \<and> account_funds now uid acc' = account_funds now uid acc \<and> account_logs acc' = account_logs acc"
    using release_effect [OF assms(2) ch acc'] .
  with attempt_failed show ?thesis by simp
next
  case (attempt_ok acc' status body)
  let ?ip = "parse_params (se_repr env) payload"
  obtain db u k where acc: "acc = (db, u, k)" by (cases acc)
  from assms(1) attempt_ok acc obtain est meta acc1 bd actual cnt meta' where
      q: "quote_image_cost_cents (Some m) (ip_size ?ip) (ip_quality ?ip) (ip_n ?ip) (ip_prompt ?ip) = Inr (est, meta)"
    and ch: "charge_account (rl_sync env) now (rl_request_id env) (name @ '' [image-hold]'') est acc = (acc1, bd)"
    and acc': "acc' = mark_account (log_account (image_log env u k m name label actual cnt meta' (rl_latency env) ''ok'')
                  (reconcile env now name est actual bd acc1))"
    by (auto simp: image_attempt_def Let_def bind_result_eq_Inr or_500_def
        split: option.splits if_splits prod.splits sum.splits)
  have "0 \<le> est" using assms(3) q unfolding quotes_nonneg_def by blast
  note r = reconcile_effect [OF assms(2) ch this, of name actual]
  then show ?thesis
    using attempt_ok by (auto simp: acc' image_log_def usage_entry_def)
qed

lemma image_loop_effect:
  assumes "image_loop env now n payload name label cands lst acc = Inr (acc', won, status, body)"
    and "account_ok uid acc" and "\<forall>(m, c) \<in> set cands. quotes_nonneg m"
  shows "account_ok uid acc' \<and> (if won
    then \<exists>l. account_logs acc' = account_logs acc @ [l] \<and> ul_status l = ''ok''
          \<and> account_funds now uid acc' = account_funds now uid acc - max 0 (ul_cost_cents l)
    else account_logs acc' = account_logs acc \<and> account_funds now uid acc' = account_funds now uid acc)"
  using assms
proof (induction cands arbitrary: n lst acc)
  case Nil
  then show ?case by (cases lst) auto
next
  case (Cons p cands)
  obtain m c where p: "p = (m, c)" by (cases p)
  obtain att where at: "image_attempt env now n payload name label m c acc = Inr att"
    using Cons.prems(1) p by (auto split: sum.splits)
  have q: "quotes_nonneg m" "\<forall>(m, c) \<in> set cands. quotes_nonneg m" using Cons.prems(3) p by auto
  note e = image_attempt_effect [OF at Cons.prems(2) q(1)]
  show ?case
  proof (cases att)
    case (attempt_skipped s b)
    with Cons.prems p at have "image_loop env now n payload name label cands (s, b) acc = Inr (acc', won, status, body)"
      by simp
    from Cons.IH [OF this Cons.prems(2) q(2)] show ?thesis .
  next
    case (attempt_failed acc1 s b)
    with Cons.prems p at have l: "image_loop env now (Suc n) payload name label cands (s, b) acc1
        = Inr (acc', won, status, body)" by simp
    from e attempt_failed have e1: "account_ok uid acc1" "account_funds now uid acc1 = account_funds now uid acc"
        "account_logs acc1 = account_logs acc" by auto
    from Cons.IH [OF l e1(1) q(2)] show ?thesis unfolding e1 .
  next
    case (attempt_ok acc1 s b)
    with Cons.prems p at e show ?thesis by auto
  qed
qed

lemma image_relay_entry:
  assumes "execute_image_relay env now n payload name label cands acc = Inr (acc', status, body)"
    and "account_ok uid acc" and "\<forall>(m, c) \<in> set cands. quotes_nonneg m"
  shows "account_ok uid acc' \<and> (\<exists>l. account_logs acc' = account_logs acc @ [l]
    \<and> account_funds now uid acc' = account_funds now uid acc - max 0 (ul_cost_cents l)
    \<and> (ul_status l \<noteq> ''ok'' \<longrightarrow> ul_cost_cents l = 0))"
proof -
  from assms(1) obtain m0 c0 rest where c: "cands = (m0, c0) # rest"
    by (auto simp: execute_image_relay_def split: list.splits)
  with assms(1) obtain acc1 won s b where l: "image_loop env now n payload name label cands
      (502, message_body ''no upstream'') acc = Inr (acc1, won, s, b)"
    by (auto simp: execute_image_relay_def bind_result_eq_Inr)
  note e = image_loop_effect [OF l assms(2,3)]
  show ?thesis
  proof (cases won)
    case True
    with assms(1) c l have "acc' = acc1" by (auto simp: execute_image_relay_def)
    with True e show ?thesis by auto
  next
    case False
    with assms(1) c l obtain lg where "acc' = mark_account (log_account lg acc1)" "ul_cost_cents lg = 0"
      by (auto simp: execute_image_relay_def image_log_def usage_entry_def split: prod.splits)
    with False e show ?thesis by auto
  qed
qed

text \<open>
  Claim C25. Whatever the candidates do, an image request that is not refused nets to what it
  logs: one entry, and the user's funds fall by its cost, the actual cost when images were
  returned and zero when every candidate failed, so that no hold is left behind.
\<close>

theorem image_relay_exact:
  assumes "execute_image_relay env now n payload name label cands acc = Inr (acc', status, body)"
    and "account_ok uid acc" and "\<forall>(m, c) \<in> set cands. quotes_nonneg m"
  shows "account_ok uid acc' \<and> (\<exists>l. account_logs acc' = account_logs acc @ [l]
    \<and> account_funds now uid acc' = account_funds now uid acc - max 0 (ul_cost_cents l)
    \<and> (ul_status l \<noteq> ''ok'' \<longrightarrow> ul_cost_cents l = 0))"
  using image_relay_entry [OF assms] .

section \<open>Every charge is logged\<close>

definition logged :: "datetime \<Rightarrow> int \<Rightarrow> account \<Rightarrow> account \<Rightarrow> bool" where
  "logged now uid acc acc' \<longleftrightarrow> account_ok uid acc' \<and> (\<exists>ls. account_logs acc' = account_logs acc @ ls
     \<and> account_funds now uid acc' = account_funds now uid acc - sum_list (map (\<lambda>l. max 0 (ul_cost_cents l)) ls))"

lemma logged_refl: "account_ok uid acc \<Longrightarrow> logged now uid acc acc"
  by (auto simp: logged_def)

lemma logged_trans: "logged now uid a b \<Longrightarrow> logged now uid b c \<Longrightarrow> logged now uid a c"
  by (fastforce simp: logged_def)

lemma logged_one:
  assumes "account_ok uid acc'" and "account_logs acc' = account_logs acc @ [l]"
    and "account_funds now uid acc' = account_funds now uid acc - max 0 (ul_cost_cents l)"
  shows "logged now uid acc acc'"
  using assms by (auto simp: logged_def intro: exI [of _ "[l]"])

lemma logged_mark: "logged now uid acc acc' \<Longrightarrow> logged now uid acc (mark_account acc')"
  by (simp add: logged_def)

lemma charge_then_log:
  assumes "account_ok uid acc" and "ul_cost_cents l = cost"
  shows "logged now uid acc (log_account l (fst (charge_account sync now ref note cost acc)))"
proof -
  obtain acc1 bd where c: "charge_account sync now ref note cost acc = (acc1, bd)" by fastforce
  from charge_account_law [OF assms(1) c] assms(2) c show ?thesis
    by (intro logged_one [of _ _ _ l]) auto
qed

lemma record_smart_usage_logged:
  assumes "account_ok uid acc"
  shows "logged now uid acc (record_smart_usage sync now d name rid acc)"
proof (cases "rd_embedding_usage d")
  case None
  with assms show ?thesis by (simp add: record_smart_usage_def logged_refl)
next
  case (Some eu)
  obtain db u k where acc: "acc = (db, u, k)" by (cases acc)
  let ?l = "usage_entry u k (eu_model eu) name (eu_upstream_model eu) (eu_prompt_tokens eu) 0 (smart_cost d)
    (eu_latency_ms eu) (eu_status eu) rid ''classifier'' (rd_chosen_label d)"
  have l: "ul_cost_cents ?l = smart_cost d" by (simp add: usage_entry_def)
  show ?thesis
  proof (cases "smart_cost d > 0")
    case True
    with charge_then_log [OF assms l, of now sync rid "name @ '' [classifier]''"] Some acc show ?thesis
      by (simp add: record_smart_usage_def Let_def)
  next
    case False
    then have "record_smart_usage sync now d name rid acc = log_account ?l acc"
      using Some acc by (simp add: record_smart_usage_def Let_def)
    with False l assms show ?thesis by (intro logged_one [of _ _ _ ?l]) auto
  qed
qed

lemma settle_relay_logged:
  assumes "account_ok uid acc"
  shows "logged now uid acc (settle_relay env now d name m pt ct acc)"
proof -
  obtain db u k where acc: "acc = (db, u, k)" by (cases acc)
  let ?cost = "calc_cost_cents (Some m) pt ct"
  let ?l = "usage_entry u k m name (md_upstream_model m) pt ct ?cost (rl_latency env) ''ok'' (rl_request_id env)
    ''relay'' (rd_chosen_label d)"
  let ?a1 = "log_account ?l (fst (charge_account (rl_sync env) now (rl_request_id env) name ?cost acc))"
  have l: "ul_cost_cents ?l = ?cost" by (simp add: usage_entry_def)
  note g1 = charge_then_log [OF assms l, of now "rl_sync env" "rl_request_id env" name]
  have ok1: "account_ok uid ?a1" using g1 by (simp add: logged_def)
  let ?a2 = "record_smart_usage (rl_sync env) now d name (rl_request_id env) ?a1"
  have g2: "logged now uid acc ?a2" using g1 record_smart_usage_logged [OF ok1] by (rule logged_trans)
  obtain db2 u2 k2 where a2: "?a2 = (db2, u2, k2)" by (cases ?a2)
  have "us_id u2 = us_id u" using g2 assms acc a2 by (auto simp: logged_def account_ok_def)
  then have "settle_relay env now d name m pt ct acc = mark_account ?a2"
    using acc a2 by (simp add: settle_relay_def Let_def mark_account_def)
  with g2 show ?thesis by (simp add: logged_mark)
qed

lemma commit_relay_logged:
  assumes "logged now uid acc (db, u, k)" and "commit_relay now db st = (db', st')"
  shows "logged now uid acc (db', u, k)"
proof -
  have "db' = db\<lparr>info_uids := []\<rparr>"
    using assms(2) by (auto simp: commit_relay_def fire_quota_invalidate_def)
  with assms(1) show ?thesis
    by (simp add: logged_def account_ok_def account_logs_def account_funds_def sub_total_def wallet_of_def
        returning_balance_def)
qed

lemma image_relay_logged:
  assumes "execute_image_relay env now n payload name label cands acc = Inr (acc', status, body)"
    and "account_ok uid acc" and "\<forall>(m, c) \<in> set cands. quotes_nonneg m"
  shows "logged now uid acc acc'"
  using image_relay_entry [OF assms] by (auto intro: logged_one)

text \<open>Candidates come from the catalogue.\<close>

lemma decide_models:
  assumes "decide env now db st rq payload name modality protocol msg = (st', Inr d)"
    and "(m, c) \<in> set (decision_candidates d)"
  shows "m \<in> set (models db)"
proof -
  from assms(1) obtain policy ms cs where l: "load_route db name (Some modality) (Some protocol) = Inr (policy, ms, cs)"
    and s: "select_route (route_env.truncate env) now db st policy ms cs
        (Some (extract_prompt_text (JObj payload))) (client_ip rq) = (st', Inr (Some d))"
    by (auto simp: decide_def split: sum.splits prod.splits option.splits)
  from l have "set ms \<subseteq> set (models db)"
    by (auto simp: load_route_def load_route_resources_def bind_result_eq_Inr Let_def
        split: option.splits if_splits sum.splits)
  moreover have "usable ms cs (m, c)"
    using select_route_usable [OF s] assms(2) by (auto simp: decision_candidates_def candidates_def)
  ultimately show ?thesis by (auto simp: usable_def)
qed


section \<open>The endpoints\<close>

lemma settle_commit_logged:
  assumes "account_ok uid (db, u, k)" and "settle_relay env now d name m pt ct (db, u, k) = (db1, u1, k1)"
    and "commit_relay now db1 st = (db', st')"
  shows "logged now uid (db, u, k) (db', u1, k1)"
  using commit_relay_logged [OF _ assms(3)] settle_relay_logged [OF assms(1), of now env d name m pt ct] assms(2)
  by simp

lemma chat_json_logged:
  assumes "chat_json env now db st u k d name payload = (db', st', res)" and "account_ok uid (db, u, k)"
  shows "\<exists>u' k'. logged now uid (db, u, k) (db', u', k')"
proof (cases "chat_loop env (ss_calls st) payload False (decision_candidates d) JNull")
  case (Inl e)
  with assms show ?thesis by (auto simp: chat_json_def intro: logged_refl)
next
  case (Inr p)
  obtain m r where p: "p = (m, r)" by (cases p)
  obtain db1 u1 k1 where sr: "settle_relay env now d name m (cr_prompt_tokens r) (cr_completion_tokens r) (db, u, k)
      = (db1, u1, k1)" by (metis prod_cases3)
  with assms(1) Inr p have "commit_relay now db1 st = (db', st')"
    by (auto simp: chat_json_def split: prod.splits)
  from settle_commit_logged [OF assms(2) sr this] show ?thesis by blast
qed

lemma chat_stream_logged:
  assumes "chat_stream env now db st u k d name payload = (db', st', res)" and "account_ok uid (db, u, k)"
  shows "\<exists>u' k'. logged now uid (db, u, k) (db', u', k')"
proof (cases "db' = db")
  case True
  with assms(2) show ?thesis by (auto intro: logged_refl)
next
  case False
  then obtain m pt ct db1 u1 k1 where sr: "settle_relay env now d name m pt ct (db, u, k) = (db1, u1, k1)"
    and "commit_relay now db1 st = (db', st')"
    using assms(1) by (auto simp: chat_stream_def split: sum.splits option.splits prod.splits if_splits)
  from settle_commit_logged [OF assms(2) this] show ?thesis by blast
qed

lemma chat_completions_logged:
  assumes "chat_completions env now db st u k rq = (db', st', res)" and "account_ok uid (db, u, k)"
  shows "\<exists>u' k'. logged now uid (db, u, k) (db', u', k')"
proof (cases "db' = db")
  case True
  with assms(2) show ?thesis by (auto intro: logged_refl)
next
  case False
  obtain st1 ra where a: "relay_admit env now db st u k = (st1, ra)" by fastforce
  obtain body where b: "ra = Inr ()" "rq_json rq = Some body"
    using False assms(1) a by (cases ra; cases "rq_json rq") (auto simp: chat_completions_def)
  obtain payload name where c: "request_model body = Inr (payload, name)"
    using False assms(1) a b by (cases "request_model body") (auto simp: chat_completions_def)
  obtain st2 rd where e: "decide env now db st1 rq payload name ''chat'' ''openai'' ''no available upstream'' = (st2, rd)"
    by fastforce
  obtain d where f: "rd = Inr d" using False assms(1) a b c e by (cases rd) (auto simp: chat_completions_def)
  have "chat_stream env now db st2 u k d name payload = (db', st', res)
       \<or> chat_json env now db st2 u k d name payload = (db', st', res)"
    using assms(1) a b c e f by (auto simp: chat_completions_def split: if_splits)
  then show ?thesis by (elim disjE) (erule chat_stream_logged [OF _ assms(2)], erule chat_json_logged [OF _ assms(2)])
qed

lemma embeddings_logged:
  assumes "embeddings env now db st u k rq = (db', st', res)" and "account_ok uid (db, u, k)"
  shows "\<exists>u' k'. logged now uid (db, u, k) (db', u', k')"
proof (cases "db' = db")
  case True
  with assms(2) show ?thesis by (auto intro: logged_refl)
next
  case False
  then obtain st1 d name m pt db1 u1 k1 where sr: "settle_relay env now d name m pt 0 (db, u, k) = (db1, u1, k1)"
    and "commit_relay now db1 st1 = (db', st')"
    using assms(1) by (auto simp: embeddings_def split: sum.splits option.splits prod.splits bool.splits)
  from settle_commit_logged [OF assms(2) this] show ?thesis by blast
qed

lemma images_generations_logged:
  assumes "images_generations env now db st u k rq = (db', st', res)" and "account_ok uid (db, u, k)"
    and "\<forall>m \<in> set (models db). quotes_nonneg m"
  shows "\<exists>u' k'. logged now uid (db, u, k) (db', u', k')"
proof (cases "db' = db")
  case True
  with assms(2) show ?thesis by (auto intro: logged_refl)
next
  case False
  let ?b = "bind_result (case rq_json rq of None \<Rightarrow> Inl internal_error | Some b \<Rightarrow> Inr b) request_model"
  obtain st1 ra where a: "relay_admit env now db st u k = (st1, ra)" by fastforce
  obtain payload name where b: "ra = Inr ()" "?b = Inr (payload, name)"
    using False assms(1) a by (cases ra; cases ?b) (auto simp: images_generations_def)
  obtain st2 rd where c: "decide env now db st1 rq payload name ''image'' ''openai'' ''no upstream'' = (st2, rd)"
    by fastforce
  obtain d where rd: "rd = Inr d" using False assms(1) a b c by (cases rd) (simp_all add: images_generations_def)
  note d = c [unfolded rd]
  let ?x = "execute_image_relay env now (ss_calls st2) payload name (rd_chosen_label d)
        (decision_candidates d) (db, u, k)"
  obtain acc code body where ex: "?x = Inr (acc, code, body)"
    using False assms(1) a b d by (cases ?x) (auto simp: images_generations_def)
  obtain db1 u1 k1 where
      sm: "(if code = 200 then record_smart_usage (rl_sync env) now d name (rl_request_id env) acc else acc)
        = (db1, u1, k1)" by (metis prod_cases3)
  have cm: "commit_relay now db1 st2 = (db', st')"
    using assms(1) a b d ex sm by (simp add: images_generations_def split: prod.splits)
  have "\<forall>(m, c) \<in> set (decision_candidates d). quotes_nonneg m"
    using decide_models [OF d] assms(3) by auto
  note l = image_relay_logged [OF ex assms(2) this]
  have "logged now uid (db, u, k) (db1, u1, k1)"
  proof (cases "code = 200")
    case True
    have "account_ok uid acc" using l by (simp add: logged_def)
    from logged_trans [OF l record_smart_usage_logged [OF this]] True sm show ?thesis by (metis (full_types))
  next
    case False
    with l sm show ?thesis by simp
  qed
  from commit_relay_logged [OF this cm] show ?thesis by blast
qed

section \<open>Failover\<close>

definition answers :: "relay_env \<Rightarrow> dict \<Rightarrow> bool \<Rightarrow> model \<times> channel \<Rightarrow> bool" where
  "answers env payload stream p \<longleftrightarrow> (case p of (m, c) \<Rightarrow>
     (case candidate_adapter m c of
        Inl e \<Rightarrow> False
      | Inr (adapter, protocol) \<Rightarrow>
          \<forall>n. \<exists>r. run_chat env n adapter protocol c (md_upstream_model m) payload stream = Inr r \<and> chat_ok stream r))"

definition attempt :: "relay_env \<Rightarrow> nat \<Rightarrow> dict \<Rightarrow> bool \<Rightarrow> model \<times> channel \<Rightarrow> chat_result option" where
  \<comment> \<open>what one candidate gives as upstream call number \<open>n\<close>: a usable result or none\<close>
  "attempt env n payload stream p = (case p of (m, c) \<Rightarrow>
     (case candidate_adapter m c of
        Inl e \<Rightarrow> None
      | Inr (adapter, protocol) \<Rightarrow>
          (case run_chat env n adapter protocol c (md_upstream_model m) payload stream of
             Inl e \<Rightarrow> None | Inr r \<Rightarrow> if chat_ok stream r then Some r else None)))"

definition calls_made :: "(model \<times> channel) list \<Rightarrow> nat" where
  \<comment> \<open>candidates without an adapter are passed over without a call\<close>
  "calls_made cands = length (filter (\<lambda>(m, c). \<not> isl (candidate_adapter m c)) cands)"

definition first_answer ::
    "relay_env \<Rightarrow> nat \<Rightarrow> dict \<Rightarrow> bool \<Rightarrow> (model \<times> channel) list \<Rightarrow> model \<Rightarrow> chat_result \<Rightarrow> bool" where
  \<comment> \<open>\<open>r\<close> is the result of the first candidate that gives one, whose model is \<open>m\<close>\<close>
  "first_answer env n payload stream cands m r \<longleftrightarrow> (\<exists>pre c post. cands = pre @ (m, c) # post
     \<and> attempt env (n + calls_made pre) payload stream (m, c) = Some r
     \<and> (\<forall>i < length pre. attempt env (n + calls_made (take i pre)) payload stream (pre ! i) = None))"

lemma answers_attempt:
  assumes "answers env payload stream p"
  shows "attempt env n payload stream p \<noteq> None"
proof -
  obtain m c where p: "p = (m, c)" by (cases p)
  with assms obtain adapter protocol where a: "candidate_adapter m c = Inr (adapter, protocol)"
    and r: "\<exists>r. run_chat env n adapter protocol c (md_upstream_model m) payload stream = Inr r \<and> chat_ok stream r"
    by (auto simp: answers_def split: sum.splits)
  then show ?thesis by (auto simp: p attempt_def)
qed

lemma first_answer_here: "attempt env n payload stream (m, c) = Some r \<Longrightarrow> first_answer env n payload stream ((m, c) # cands) m r"
  unfolding first_answer_def by (rule exI [of _ "[]"]) (simp add: calls_made_def)

lemma first_answer_later:
  assumes "attempt env n payload stream q = None"
    and "first_answer env (n + calls_made [q]) payload stream cands m r"
  shows "first_answer env n payload stream (q # cands) m r"
proof -
  have k: "calls_made (q # qs) = calls_made [q] + calls_made qs" for qs by (simp add: calls_made_def)
  obtain pre c post where p: "cands = pre @ (m, c) # post"
    "attempt env (n + calls_made [q] + calls_made pre) payload stream (m, c) = Some r"
    "\<forall>i < length pre. attempt env (n + calls_made [q] + calls_made (take i pre)) payload stream (pre ! i) = None"
    using assms(2) unfolding first_answer_def by blast
  have "attempt env (n + calls_made (take i (q # pre))) payload stream ((q # pre) ! i) = None" if "i < length (q # pre)" for i
  proof (cases i)
    case 0
    then show ?thesis using assms(1) by (simp add: calls_made_def)
  next
    case (Suc j)
    then show ?thesis using p(3) that by (simp add: k [of "take j pre"] add.assoc)
  qed
  with p show ?thesis unfolding first_answer_def
    by (intro exI [of _ "q # pre"] exI [of _ c] exI [of _ post]) (simp add: k [of pre] add.assoc)
qed

lemma chat_loop_first:
  assumes "p \<in> set cands" and "answers env payload stream p"
  shows "\<exists>m r. chat_loop env n payload stream cands lst = Inr (m, r) \<and> first_answer env n payload stream cands m r \<and> chat_ok stream r"
  using assms(1)
proof (induction cands arbitrary: n lst)
  case Nil
  then show ?case by simp
next
  case (Cons q cands)
  obtain m c where q: "q = (m, c)" by (cases q)
  show ?case
  proof (cases "attempt env n payload stream q")
    case (Some r)
    then have "chat_loop env n payload stream (q # cands) lst = Inr (m, r) \<and> chat_ok stream r"
      by (auto simp: q attempt_def split: sum.splits prod.splits if_splits)
    with Some first_answer_here show ?thesis unfolding q by metis
  next
    case None
    then have "p \<noteq> q" using answers_attempt [OF assms(2)] by metis
    with Cons.prems have "p \<in> set cands" by simp
    from Cons.IH [OF this] obtain m' r lst' where ih: "chat_loop env (n + calls_made [q]) payload stream cands lst' = Inr (m', r)"
        "first_answer env (n + calls_made [q]) payload stream cands m' r" "chat_ok stream r"
      and step: "chat_loop env n payload stream (q # cands) lst = chat_loop env (n + calls_made [q]) payload stream cands lst'"
    proof -
      obtain lst' where "chat_loop env n payload stream (q # cands) lst = chat_loop env (n + calls_made [q]) payload stream cands lst'"
        using None by (auto simp: q attempt_def calls_made_def split: sum.splits prod.splits if_splits)
      with Cons.IH [OF \<open>p \<in> set cands\<close>, of "n + calls_made [q]" lst'] that show ?thesis by metis
    qed
    with first_answer_later [OF None] show ?thesis by metis
  qed
qed

lemma record_smart_usage_logs:
  assumes "account_ok uid acc"
  shows "\<exists>ls. account_logs (record_smart_usage sync now d name rid acc) = account_logs acc @ ls
    \<and> map ul_kind ls = (if rd_embedding_usage d = None then [] else [''classifier''])"
proof (cases "rd_embedding_usage d")
  case None
  then show ?thesis by (simp add: record_smart_usage_def)
next
  case (Some eu)
  obtain db u k where acc: "acc = (db, u, k)" by (cases acc)
  obtain acc1 bd where c: "charge_account sync now rid (name @ '' [classifier]'') (smart_cost d) acc = (acc1, bd)" by fastforce
  have "account_logs acc1 = account_logs acc" using charge_account_law [OF assms c] by simp
  with Some acc c show ?thesis by (auto simp: record_smart_usage_def Let_def usage_entry_def)
qed

lemma settle_relay_entry:
  assumes "account_ok uid (db, u, k)" and "settle_relay env now d name m pt ct (db, u, k) = (db1, u1, k1)"
    and "commit_relay now db1 st = (db', st')"
  shows "\<exists>l ls. usage_logs db' = usage_logs db @ l # ls
    \<and> map ul_kind (l # ls) = ''relay'' # (if rd_embedding_usage d = None then [] else [''classifier''])
    \<and> ul_model_id l = Some (md_id m) \<and> ul_status l = ''ok'' \<and> ul_request_id l = Some (rl_request_id env)
    \<and> ul_prompt_tokens l = pt \<and> ul_completion_tokens l = ct \<and> ul_cost_cents l = calc_cost_cents (Some m) pt ct"
proof -
  let ?cost = "calc_cost_cents (Some m) pt ct"
  let ?l = "usage_entry u k m name (md_upstream_model m) pt ct ?cost (rl_latency env) ''ok'' (rl_request_id env)
    ''relay'' (rd_chosen_label d)"
  obtain acc1 bd where c: "charge_account (rl_sync env) now (rl_request_id env) name ?cost (db, u, k) = (acc1, bd)" by fastforce
  let ?a1 = "log_account ?l acc1"
  have ok1: "account_ok uid ?a1"
    using charge_then_log [OF assms(1), of ?l ?cost now "rl_sync env" "rl_request_id env" name] c
    by (simp add: logged_def usage_entry_def)
  have "account_logs acc1 = usage_logs db"
    using charge_account_law [OF assms(1) c] by (simp add: account_logs_def)
  then have l1: "account_logs ?a1 = usage_logs db @ [?l]" by simp
  let ?a2 = "record_smart_usage (rl_sync env) now d name (rl_request_id env) ?a1"
  obtain ls where ls: "account_logs ?a2 = usage_logs db @ ?l # ls"
      "map ul_kind ls = (if rd_embedding_usage d = None then [] else [''classifier''])"
    using record_smart_usage_logs [OF ok1, of "rl_sync env" now d name "rl_request_id env"] l1 by auto
  obtain db2 u2 k2 where a2: "?a2 = (db2, u2, k2)" by (cases ?a2)
  have "db1 = mark_quota_invalidate (us_id u) db2"
    using assms(2) c a2 by (simp add: settle_relay_def Let_def)
  then have "usage_logs db1 = usage_logs db @ ?l # ls"
    using ls(1) a2 by (simp add: account_logs_def mark_quota_invalidate_def)
  moreover have "usage_logs db' = usage_logs db1"
    using assms(3) by (auto simp: commit_relay_def fire_quota_invalidate_def)
  ultimately show ?thesis using ls(2) by (intro exI [of _ ?l] exI [of _ ls]) (simp add: usage_entry_def)
qed

text \<open>
  Claim C26. Failover: an admitted chat request that is not streamed and for which some candidate of the decision can be
  called and answers is served with the result of the first candidate that gives one, whatever the
  candidates before it do (no adapter, a protocol the connector lacks, an exception, an error status,
  an empty body). It appends one relay entry, for the model of that candidate, with the token counts of
  its result and their price at that model's rates, and one entry of the classifier if it was asked.
\<close>

theorem chat_failover:
  assumes "relay_admit env now db st u k = (st1, Inr ())"
    and "rq_json rq = Some body" and "request_model body = Inr (payload, name)"
    and "\<not> truthy (dict_get_none payload ''stream'')"
    and "decide env now db st1 rq payload name ''chat'' ''openai'' ''no available upstream'' = (st2, Inr d)"
    and "p \<in> set (decision_candidates d)" and "answers env payload False p"
    and "account_ok uid (db, u, k)"
  shows "\<exists>db' st' m (r :: chat_result) l ls. first_answer env (ss_calls st2) payload False (decision_candidates d) m r
    \<and> chat_completions env now db st u k rq = (db', st', Inr (response_json (cr_body r)))
    \<and> usage_logs db' = usage_logs db @ l # ls
    \<and> map ul_kind (l # ls) = ''relay'' # (if rd_embedding_usage d = None then [] else [''classifier''])
    \<and> ul_model_id l = Some (md_id m) \<and> ul_status l = ''ok'' \<and> ul_request_id l = Some (rl_request_id env)
    \<and> ul_prompt_tokens l = cr_prompt_tokens r \<and> ul_completion_tokens l = cr_completion_tokens r
    \<and> ul_cost_cents l = calc_cost_cents (Some m) (cr_prompt_tokens r) (cr_completion_tokens r)"
proof -
  obtain m r where l: "chat_loop env (ss_calls st2) payload False (decision_candidates d) JNull = Inr (m, r)"
    and m: "first_answer env (ss_calls st2) payload False (decision_candidates d) m r"
    using chat_loop_first [OF assms(6,7)] by blast
  obtain db1 u1 k1 where sr: "settle_relay env now d name m (cr_prompt_tokens r) (cr_completion_tokens r) (db, u, k)
      = (db1, u1, k1)" by (metis prod_cases3)
  obtain db' st' where cm: "commit_relay now db1 st2 = (db', st')" by fastforce
  have "chat_completions env now db st u k rq = (db', st', Inr (response_json (cr_body r)))"
    using assms(1-5) l sr cm by (simp add: chat_completions_def chat_json_def split: prod.splits)
  moreover obtain l ls where "usage_logs db' = usage_logs db @ l # ls
    \<and> map ul_kind (l # ls) = ''relay'' # (if rd_embedding_usage d = None then [] else [''classifier''])
    \<and> ul_model_id l = Some (md_id m) \<and> ul_status l = ''ok'' \<and> ul_request_id l = Some (rl_request_id env)
    \<and> ul_prompt_tokens l = cr_prompt_tokens r \<and> ul_completion_tokens l = cr_completion_tokens r
    \<and> ul_cost_cents l = calc_cost_cents (Some m) (cr_prompt_tokens r) (cr_completion_tokens r)"
    using settle_relay_entry [OF assms(8) sr cm] by (elim exE) (rule that)
  ultimately show ?thesis using m
    by (intro exI [of _ db'] exI [of _ st'] exI [of _ m] exI [of _ r] exI [of _ l] exI [of _ ls]) (simp only:)
qed

section \<open>A route whose first upstream is down\<close>

definition demo_priced :: "int \<Rightarrow> string \<Rightarrow> model" where
  "demo_priced i up = (default_model i 7)\<lparr>md_upstream_model := up, md_prompt_rate := 10000, md_completion_rate := 20000,
     md_pricing_jsonb := [(''default_price_micro'', JInt 10000)]\<rparr>"

definition demo_answer :: chat_result where
  "demo_answer = \<lparr>cr_status = 200, cr_body = JObj [(''id'', JStr ''a'')], cr_stream = None,
     cr_prompt_tokens = 1000, cr_completion_tokens = 500\<rparr>"

definition demo_relay_env :: relay_env where
  "demo_relay_env = route_env.extend demo_route_env \<lparr>rl_sync = False, rl_default_rpm = 60, rl_loads = (\<lambda>t. None),
     rl_chat = (\<lambda>n a resp c up p s. if up = ''down'' then Inl ''timeout'' else Inr demo_answer),
     rl_images = (\<lambda>n a c up p. if up = ''down'' then Inr (502, JNull)
        else Inr (200, JObj [(''data'', JList [JNull, JNull])])),
     rl_latency = 9, rl_request_id = ''r1''\<rparr>"

definition demo_client :: user where
  "demo_client = default_user 4 1000"

definition demo_shop :: session where
  "demo_shop = empty_session\<lparr>users := [demo_client], models := [demo_priced 1 ''down'', demo_priced 2 ''down'', demo_priced 3 ''up''],
     channels := [default_channel 7], route_policies := [demo_route]\<rparr>"

definition demo_request :: relay_request where
  "demo_request = \<lparr>rq_x_forwarded_for = None, rq_x_real_ip = None, rq_peer = None,
     rq_json = Some (JObj [(''model'', JStr ''gpt'')])\<rparr>"

definition demo_relay_decision :: route_decision where
  "demo_relay_decision = \<lparr>rd_model = demo_priced 2 ''down'', rd_channel = default_channel 7,
     rd_fallback_chain = [(demo_priced 3 ''up'', default_channel 7)], rd_chosen_label = None,
     rd_embedding_usage = None\<rparr>"

lemma demo_admit: "snd (relay_admit demo_relay_env 0 demo_shop demo_route_state demo_client None) = Inr ()"
  by code_simp

lemma demo_decide:
  "snd (decide demo_relay_env 0 demo_shop (fst (relay_admit demo_relay_env 0 demo_shop demo_route_state demo_client None))
      demo_request [(''model'', JStr ''gpt'')] ''gpt'' ''chat'' ''openai'' ''no available upstream'')
   = Inr demo_relay_decision"
  by code_simp

lemma demo_account: "account_ok 4 (demo_shop, demo_client, None)"
  by code_simp

lemma quotes_nonneg_default:
  assumes "md_pricing_jsonb m = [(''default_price_micro'', JInt p)]" and "0 \<le> p"
  shows "quotes_nonneg m"
  using assms by (auto simp: quotes_nonneg_def quote_image_cost_cents_def match_image_tier_micro_def dict_get_none_def
      dict_get_default_def py_or_def Let_def split: if_splits intro!: ceil_truediv_nonneg)

lemma demo_quotes: "quotes_nonneg (demo_priced i up)"
  by (rule quotes_nonneg_default [of _ 10000]) (simp_all add: demo_priced_def)

lemma demo_answers: "answers demo_relay_env payload False (demo_priced 3 ''up'', default_channel 7)"
proof -
  have "candidate_adapter (demo_priced 3 ''up'') (default_channel 7) = Inr (''openai'', ''openai.chat'')"
    by code_simp
  then show ?thesis
    by (simp add: answers_def run_chat_def demo_relay_env_def route_env.defs demo_priced_def demo_answer_def chat_ok_def)
qed

lemma demo_funds: "account_funds 0 4 (demo_shop, demo_client, None) = 1000 \<and> account_logs (demo_shop, demo_client, None) = []"
  by code_simp

lemma demo_quote:
  assumes "0 \<le> n" and "n < 1000"
  shows "quote_image_cost_cents (Some (demo_priced i up)) sz q n p
    = Inr (n, [(''mode'', JStr ''per_image''), (''size'', JStr sz), (''quality'', JStr q), (''unit_micro'', JInt 10000)])"
proof -
  have "ceil_truediv (10000 * n) 10000 = n"
    using assms ceil_truediv_exact [of "10000 * n" 10000 10] by (simp add: ceil_div_def)
  then show ?thesis
    using assms by (simp add: quote_image_cost_cents_def match_image_tier_micro_def demo_priced_def dict_get_none_def
        dict_get_default_def py_or_def Let_def)
qed

lemma demo_image_attempt:
  "\<exists>acc' status body. image_attempt demo_relay_env 0 0 [(''n'', JInt 3)] ''img'' None (demo_priced 3 ''up'') (default_channel 7)
     (demo_shop, demo_client, None) = Inr (attempt_ok acc' status body)"
proof -
  let ?m = "demo_priced 3 ''up''" and ?c = "default_channel 7"
  let ?ip = "parse_params (se_repr demo_relay_env) [(''n'', JInt 3)]"
  let ?meta = "[(''mode'', JStr ''per_image''), (''size'', JStr ''1024x1024''), (''quality'', JStr ''standard''),
    (''unit_micro'', JInt 10000)]"
  have a: "get_image_adapter (Some (resolve_connector_type (Some ?m) ?c None)) = Some ''openai''"
      "connector_supports_protocol (Some (resolve_connector_type (Some ?m) ?c None))
         (Some (resolve_upstream_protocol (Some ?m) ?c None))"
    by code_simp+
  have ip: "?ip = \<lparr>ip_size = ''1024x1024'', ip_quality = ''standard'', ip_n = 3, ip_prompt = []\<rparr>" by code_simp
  have q: "quote_image_cost_cents (Some ?m) ''1024x1024'' ''standard'' 3 [] = Inr (3, ?meta)"
      "quote_image_cost_cents (Some ?m) ''1024x1024'' ''standard'' 2 [] = Inr (2, ?meta)"
    by (simp_all add: demo_quote)
  have av: "available_cents 0 demo_shop demo_client = 1000" by code_simp
  have im: "rl_images demo_relay_env 0 ''openai'' ?c (md_upstream_model ?m) [(''n'', JInt 3)]
      = Inr (200, JObj [(''data'', JList [JNull, JNull])])"
    by code_simp
  have ac: "actual_cost ?m \<lparr>ip_size = ''1024x1024'', ip_quality = ''standard'', ip_n = 3, ip_prompt = []\<rparr>
      (dict_set ?meta ''requested_n'' (JInt 3)) (JObj [(''data'', JList [JNull, JNull])]) 2 = Inr 2"
    by (simp add: actual_cost_def demo_quote dict_get_none_def)
  have rt: "images_returned 200 (JObj [(''data'', JList [JNull, JNull])]) = 2" by code_simp
  obtain acc1 bd where "charge_account (rl_sync demo_relay_env) 0 (rl_request_id demo_relay_env)
      (''img'' @ '' [image-hold]'') 3 (demo_shop, demo_client, None) = (acc1, bd)" by fastforce
  then show ?thesis
    using a q av ac by (simp add: image_attempt_def ip im rt or_500_def Let_def) (metis prod_cases3)
qed

theorem image_relay_exact_witness:
  "\<exists>acc' status body l. execute_image_relay demo_relay_env 0 0 [(''n'', JInt 3)] ''img'' None
        [(demo_priced 3 ''up'', default_channel 7)] (demo_shop, demo_client, None) = Inr (acc', status, body)
     \<and> account_logs acc' = [l] \<and> account_funds 0 4 acc' = 1000 - max 0 (ul_cost_cents l)"
proof -
  obtain acc' status body where x: "execute_image_relay demo_relay_env 0 0 [(''n'', JInt 3)] ''img'' None
        [(demo_priced 3 ''up'', default_channel 7)] (demo_shop, demo_client, None) = Inr (acc', status, body)"
    using demo_image_attempt by (auto simp: execute_image_relay_def)
  from image_relay_exact [OF x demo_account] demo_quotes demo_funds x show ?thesis by auto
qed

lemma demo_candidates: "decision_candidates demo_relay_decision
    = [(demo_priced 2 ''down'', default_channel 7), (demo_priced 3 ''up'', default_channel 7)]"
  by (simp add: demo_relay_decision_def decision_candidates_def)

lemma demo_down: "attempt demo_relay_env n payload False (demo_priced 2 ''down'', default_channel 7) = None"
proof -
  have "candidate_adapter (demo_priced 2 ''down'') (default_channel 7) = Inr (''openai'', ''openai.chat'')"
    by code_simp
  then show ?thesis
    by (simp add: attempt_def run_chat_def demo_relay_env_def route_env.defs demo_priced_def)
qed

theorem chat_failover_witness:
  "\<exists>db' st' (r :: chat_result) l. chat_completions demo_relay_env 0 demo_shop demo_route_state demo_client None demo_request
      = (db', st', Inr (response_json (cr_body r)))
    \<and> usage_logs db' = [l] \<and> ul_model_id l = Some 3"
proof -
  let ?p = "[(''model'', JStr ''gpt'')]"
  obtain st1 where a: "relay_admit demo_relay_env 0 demo_shop demo_route_state demo_client None = (st1, Inr ())"
    using demo_admit by (metis prod.collapse)
  obtain st2 where d: "decide demo_relay_env 0 demo_shop st1 demo_request ?p ''gpt'' ''chat'' ''openai''
      ''no available upstream'' = (st2, Inr demo_relay_decision)"
    using demo_decide a by (metis prod.collapse fst_conv)
  have j: "rq_json demo_request = Some (JObj ?p)" by (simp add: demo_request_def)
  have n: "request_model (JObj ?p) = Inr (?p, ''gpt'')" "\<not> truthy (dict_get_none ?p ''stream'')" by code_simp+
  have m: "(demo_priced 3 ''up'', default_channel 7) \<in> set (decision_candidates demo_relay_decision)"
    by (simp add: demo_candidates)
  have third: "md_id m = 3" if "first_answer demo_relay_env k ?p False (decision_candidates demo_relay_decision) m r" for k m r
    using that demo_down [of _ ?p] unfolding first_answer_def demo_candidates
    by (auto simp: Cons_eq_append_conv) (simp add: demo_priced_def default_model_def)
  have "rd_embedding_usage demo_relay_decision = None" by (simp add: demo_relay_decision_def)
  moreover have "usage_logs demo_shop = []" by (simp add: demo_shop_def empty_session_def)
  ultimately show ?thesis
    using chat_failover [OF a j n d m demo_answers demo_account] third by fastforce
qed

end
