(* ===== verification/Messages_Laws.thy ===== *)
theory Messages_Laws
  imports Messages_Relay Relay_Laws
begin

text \<open>
  The stream converter sends one well-formed Anthropic message whatever the upstream sends, and
  its output does not depend on how the network cuts the upstream's bytes into chunks, as long
  as no character is cut. The endpoint charges what it logs.
\<close>

section \<open>Splitting is compositional\<close>

lemma startswith_longer:
  "length sep \<le> length a \<Longrightarrow> py_startswith (a @ b) sep = py_startswith a sep"
  by (simp add: py_startswith_def)

lemma split_on_hit:
  assumes "sep \<noteq> []" and "\<forall>j < length u. \<not> py_startswith (drop j u @ sep @ v) sep"
  shows "split_on sep cur (u @ sep @ v) = (rev cur @ u) # split_on sep [] v"
  using assms(2)
proof (induction u arbitrary: cur)
  case Nil
  obtain x xs where sep: "sep = x # xs" using assms(1) by (cases sep) auto
  have "py_startswith (sep @ v) sep" by (simp add: py_startswith_def)
  then show ?case using sep by simp
next
  case (Cons x u)
  from Cons.prems have n: "\<not> py_startswith (x # u @ sep @ v) sep" by force
  have "\<forall>j < length u. \<not> py_startswith (drop j u @ sep @ v) sep"
    using Cons.prems by fastforce
  from Cons.IH [OF this, of "x # cur"] n show ?case by simp
qed

lemma split_on_miss:
  assumes "\<forall>j < length a. \<not> py_startswith (drop j a) sep"
  shows "split_on sep cur a = [rev cur @ a]"
  using assms
proof (induction a arbitrary: cur)
  case Nil
  then show ?case by simp
next
  case (Cons x a)
  from Cons.prems have "\<not> py_startswith (x # a) sep" "\<forall>j < length a. \<not> py_startswith (drop j a) sep"
    by (force, fastforce)
  with Cons.IH [of "x # cur"] show ?case by simp
qed

lemma split_on_ne: "split_on sep cur s \<noteq> []"
  by (induction sep cur s rule: split_on.induct) auto

lemma py_split_append:
  assumes "sep \<noteq> []"
  shows "py_split sep (a @ b) = butlast (py_split sep a) @ py_split sep (List.last (py_split sep a) @ b)"
proof (induction "length a" arbitrary: a rule: less_induct)
  case less
  show ?case
  proof (cases "\<forall>j < length a. \<not> py_startswith (drop j a) sep")
    case True
    then show ?thesis by (simp add: py_split_def split_on_miss)
  next
    case False
    define j where "j = (LEAST j. j < length a \<and> py_startswith (drop j a) sep)"
    have j: "j < length a" "py_startswith (drop j a) sep" "\<forall>i < j. \<not> py_startswith (drop i a) sep"
    proof -
      let ?P = "\<lambda>j. j < length a \<and> py_startswith (drop j a) sep"
      have "?P j" unfolding j_def using False by (intro LeastI_ex [of ?P]) auto
      then show "j < length a" "py_startswith (drop j a) sep" by auto
      then show "\<forall>i < j. \<not> py_startswith (drop i a) sep"
        using not_less_Least [of _ ?P] unfolding j_def [symmetric] by (meson order_less_trans)
    qed
    define u v where "u = take j a" and "v = drop (length sep) (drop j a)"
    have "drop j a = sep @ v"
      using j(2) append_take_drop_id [of "length sep" "drop j a"] by (simp add: v_def py_startswith_def)
    then have a: "a = u @ sep @ v" using append_take_drop_id [of j a] by (simp add: u_def)
    have u: "length u = j" using j(1) by (simp add: u_def)
    have no: "\<forall>i < length u. \<not> py_startswith (drop i u @ sep @ w) sep" for w
    proof (intro allI impI)
      fix i assume i: "i < length u"
      have "\<not> py_startswith (drop i u @ sep @ v) sep" using j(3) i u by (simp add: a)
      then have "\<not> py_startswith (drop i u @ sep) sep"
        using startswith_longer [of sep "drop i u @ sep" v] by simp
      then show "\<not> py_startswith (drop i u @ sep @ w) sep"
        using startswith_longer [of sep "drop i u @ sep" w] by simp
    qed
    have s: "py_split sep (u @ sep @ w) = u # py_split sep w" for w
      using split_on_hit [OF assms no, of "[]" w] by (simp add: py_split_def)
    have "length v < length a" using a assms by simp
    from less [OF this] show ?thesis using s [of "v @ b"] s [of v] a split_on_ne by (simp add: py_split_def)
  qed
qed

section \<open>Decoding is compositional\<close>

declare utf8_len.simps [simp del]

lemma decode_ignore_length: "length (decode_ignore s) \<le> length s"
proof (induction s rule: decode_ignore.induct)
  case (2 a s)
  then show ?case by (cases "utf8_len (a # s) = 0") (auto simp: Let_def min_def)
qed simp

lemma utf8_len_append:
  assumes "utf8_len (x # s) \<noteq> 0"
  shows "utf8_len (x # s @ b) = utf8_len (x # s) \<and> utf8_len (x # s) \<le> Suc (length s)"
proof -
  consider "ord x < 128" | "194 \<le> ord x" "ord x \<le> 223" | "ord x = 224"
    | "225 \<le> ord x" "ord x \<le> 236" | "ord x = 238" | "ord x = 239" | "ord x = 237" | "ord x = 240"
    | "241 \<le> ord x" "ord x \<le> 243" | "ord x = 244"
    using assms by (auto simp: utf8_len.simps Let_def split: if_split_asm)
  then show ?thesis
    using assms by cases (auto simp: utf8_len.simps Let_def nth_append Suc_le_eq split: if_split_asm)
qed

lemma decode_ignore_append:
  "decode_ignore a = a \<Longrightarrow> decode_ignore (a @ b) = a @ decode_ignore b"
proof (induction a rule: decode_ignore.induct)
  case (2 x a)
  let ?k = "utf8_len (x # a)"
  have k: "?k \<noteq> 0"
  proof
    assume "?k = 0"
    with "2.prems" have "length (decode_ignore a) = Suc (length a)" by simp
    with decode_ignore_length [of a] show False by simp
  qed
  have "take ?k (x # a) @ decode_ignore (drop ?k (x # a)) = x # a"
    using "2.prems" k by (simp add: Let_def)
  then have d: "decode_ignore (drop ?k (x # a)) = drop ?k (x # a)"
    by (metis append_take_drop_id same_append_eq)
  have "utf8_len (x # a @ b) = ?k" "?k \<le> length (x # a)" using utf8_len_append [OF k, of b] by auto
  then have "take ?k ((x # a) @ b) = take ?k (x # a)" "drop ?k ((x # a) @ b) = drop ?k (x # a) @ b"
      "utf8_len ((x # a) @ b) = ?k"
    by (simp_all add: take_append drop_append del: append_Cons) simp
  then have "decode_ignore ((x # a) @ b) = take ?k (x # a) @ decode_ignore (drop ?k (x # a) @ b)"
    using k by (simp add: Let_def)
  also have "\<dots> = (x # a) @ decode_ignore b"
    using "2.IH"(2) [OF refl k d] by simp
  finally show ?case .
qed simp

section \<open>Chunks\<close>

lemma feed_lines_append:
  "feed_lines loads (ls @ ls') st = bind_result (feed_lines loads ls st) (\<lambda>(st1, es1).
     bind_result (feed_lines loads ls' st1) (\<lambda>(st2, es2). Inr (st2, es1 @ es2)))"
  by (induction ls arbitrary: st) (auto simp: bind_result_def split: sum.splits prod.splits)

text \<open>The buffer is \<open>feed\<close>'s alone: the handling of a line neither reads nor writes it.\<close>

definition rebuffer :: "string \<Rightarrow> py_error + anthropic_stream \<times> sse_event list
     \<Rightarrow> py_error + anthropic_stream \<times> sse_event list" where
  "rebuffer b r = bind_result r (\<lambda>(st, es). Inr (st\<lparr>as_buffer := b\<rparr>, es))"

lemma add_tokens_buffer:
  "add_tokens us (st\<lparr>as_buffer := b\<rparr>) = bind_result (add_tokens us st) (\<lambda>st1. Inr (st1\<lparr>as_buffer := b\<rparr>))"
  by (auto simp: add_tokens_def bind_result_def split: sum.splits)

lemma emit_buffer: "emit c (st\<lparr>as_buffer := b\<rparr>) = (case emit c st of (st1, es) \<Rightarrow> (st1\<lparr>as_buffer := b\<rparr>, es))"
  by (simp add: emit_def ensure_started_def message_start_def)

lemma note_finish_buffer: "note_finish r (st\<lparr>as_buffer := b\<rparr>) = (note_finish r st)\<lparr>as_buffer := b\<rparr>"
  by (simp add: note_finish_def)

lemma feed_obj_buffer: "feed_obj v (st\<lparr>as_buffer := b\<rparr>) = rebuffer b (feed_obj v st)"
  by (simp add: feed_obj_def rebuffer_def add_tokens_buffer emit_buffer note_finish_buffer bind_result_def
      split: sum.split prod.split)

lemma feed_line_buffer: "feed_line loads l (st\<lparr>as_buffer := b\<rparr>) = rebuffer b (feed_line loads l st)"
  by (auto simp: feed_line_def feed_obj_buffer Let_def split: option.splits) (simp_all add: rebuffer_def)

lemma feed_lines_buffer: "feed_lines loads ls (st\<lparr>as_buffer := b\<rparr>) = rebuffer b (feed_lines loads ls st)"
  by (induction ls arbitrary: st)
    (auto simp: feed_line_buffer rebuffer_def bind_result_def split: sum.splits prod.splits)

lemma feed_append:
  assumes "decode_ignore c1 = c1"
  shows "feed loads (c1 @ c2) st = bind_result (feed loads c1 st) (\<lambda>(st1, es1).
     bind_result (feed loads c2 st1) (\<lambda>(st2, es2). Inr (st2, es1 @ es2)))"
proof -
  let ?p1 = "py_split event_separator (as_buffer st @ c1)"
  let ?p2 = "py_split event_separator (List.last ?p1 @ decode_ignore c2)"
  let ?lines = "\<lambda>ps. concat (map py_splitlines (butlast ps))"
  have ne: "event_separator \<noteq> []" by (simp add: event_separator_def)
  have "?p2 \<noteq> []" by (simp add: py_split_def split_on_ne)
  then have p: "butlast (butlast ?p1 @ ?p2) = butlast ?p1 @ butlast ?p2" "List.last (butlast ?p1 @ ?p2) = List.last ?p2"
    by (simp_all add: butlast_append)
  have d: "decode_ignore (c1 @ c2) = c1 @ decode_ignore c2" by (rule decode_ignore_append [OF assms])
  have s: "py_split event_separator (as_buffer st @ decode_ignore (c1 @ c2)) = butlast ?p1 @ ?p2"
    using py_split_append [OF ne, of "as_buffer st @ c1" "decode_ignore c2"] d by simp
  have l: "feed loads (c1 @ c2) st
      = rebuffer (List.last ?p2) (feed_lines loads (?lines ?p1 @ ?lines ?p2) st)"
    by (simp add: feed_def s p feed_lines_buffer Let_def)
  have f1: "feed loads c1 st = rebuffer (List.last ?p1) (feed_lines loads (?lines ?p1) st)"
    by (simp add: feed_def assms feed_lines_buffer Let_def)
  have f2: "feed loads c2 (st1\<lparr>as_buffer := List.last ?p1\<rparr>)
      = rebuffer (List.last ?p2) (feed_lines loads (?lines ?p2) st1)" for st1
    by (simp add: feed_def feed_lines_buffer Let_def)
  show ?thesis
    unfolding l f1 feed_lines_append by (simp add: rebuffer_def f2 bind_result_def split: sum.split prod.split)
qed

lemma run_merge:
  assumes "decode_ignore c1 = c1"
  shows "openai_sse_to_anthropic_sse loads (c1 # c2 # chs) st = (es, True)
    \<longleftrightarrow> openai_sse_to_anthropic_sse loads ((c1 @ c2) # chs) st = (es, True)"
  by (auto simp: feed_append [OF assms] bind_result_def split: sum.splits prod.splits)

lemma run_concat:
  assumes "\<forall>c \<in> set (c1 # chs). decode_ignore c = c"
  shows "openai_sse_to_anthropic_sse loads (c1 # chs) st = (es, True)
    \<longleftrightarrow> openai_sse_to_anthropic_sse loads [c1 @ concat chs] st = (es, True)"
  using assms
proof (induction chs arbitrary: c1)
  case Nil
  then show ?case by simp
next
  case (Cons c2 chs)
  then have c: "decode_ignore c1 = c1" "decode_ignore c2 = c2" by auto
  then have "decode_ignore (c1 @ c2) = c1 @ c2" using decode_ignore_append by simp
  with Cons have "openai_sse_to_anthropic_sse loads ((c1 @ c2) # chs) st = (es, True)
      \<longleftrightarrow> openai_sse_to_anthropic_sse loads [(c1 @ c2) @ concat chs] st = (es, True)" by (intro Cons.IH) auto
  with run_merge [OF c(1)] show ?case by simp
qed

text \<open>
  Claim C28. How the network cuts the upstream's bytes does not matter to the converter, as long as
  no chunk ends inside a character: it succeeds on the chunks exactly if it succeeds on all bytes
  in one chunk, and sends the same events.
\<close>

theorem anthropic_sse_chunking:
  assumes "\<forall>c \<in> set chs. decode_ignore c = c"
  shows "openai_sse_to_anthropic_sse loads chs (new_stream mid name) = (es, True)
    \<longleftrightarrow> openai_sse_to_anthropic_sse loads [concat chs] (new_stream mid name) = (es, True)"
proof (cases chs)
  case Nil
  then show ?thesis by (simp add: feed_def py_split_def new_stream_def)
next
  case (Cons c1 cs)
  with assms run_concat [of c1 cs] show ?thesis by simp
qed

section \<open>The shape of the answer\<close>

definition stream_head :: "anthropic_stream \<Rightarrow> sse_event list" where
  "stream_head st = [message_start st, content_block_start]"

definition same_message :: "anthropic_stream \<Rightarrow> anthropic_stream \<Rightarrow> bool" where
  "same_message st st' \<longleftrightarrow> as_model st' = as_model st \<and> as_message_id st' = as_message_id st"

definition in_step :: "anthropic_stream \<Rightarrow> bool" where
  "in_step st \<longleftrightarrow> as_content_started st = as_started st"

definition segment :: "anthropic_stream \<Rightarrow> anthropic_stream \<Rightarrow> sse_event list \<Rightarrow> bool" where
  \<comment> \<open>the events sent between two states: deltas, after the opening if they are the first\<close>
  "segment st st' es \<longleftrightarrow> in_step st' \<and> same_message st st' \<and> (\<exists>cs st0. (\<forall>c \<in> set cs. truthy c)
     \<and> same_message st st0 \<and> as_started st' = (as_started st \<or> cs \<noteq> [])
     \<and> es = (if as_started st \<or> cs = [] then [] else stream_head st0) @ map content_block_delta cs)"

lemma segment_refl: "in_step st \<Longrightarrow> segment st st []"
  by (auto simp: segment_def same_message_def intro!: exI [of _ "[]"])

lemma segment_silent:
  "in_step st \<Longrightarrow> same_message st st' \<Longrightarrow> as_started st' = as_started st
   \<Longrightarrow> as_content_started st' = as_content_started st \<Longrightarrow> segment st st' []"
  by (auto simp: segment_def same_message_def in_step_def intro!: exI [of _ "[]"])

lemma segment_trans:
  assumes "segment st st1 es1" and "segment st1 st2 es2"
  shows "segment st st2 (es1 @ es2)"
proof -
  from assms(1) obtain cs1 s1 where 1: "\<forall>c \<in> set cs1. truthy c" "same_message st s1" "same_message st st1"
      "as_started st1 = (as_started st \<or> cs1 \<noteq> [])"
      "es1 = (if as_started st \<or> cs1 = [] then [] else stream_head s1) @ map content_block_delta cs1"
    by (auto simp: segment_def)
  from assms(2) obtain cs2 s2 where 2: "\<forall>c \<in> set cs2. truthy c" "same_message st1 s2" "same_message st1 st2"
      "in_step st2" "as_started st2 = (as_started st1 \<or> cs2 \<noteq> [])"
      "es2 = (if as_started st1 \<or> cs2 = [] then [] else stream_head s2) @ map content_block_delta cs2"
    by (auto simp: segment_def)
  show ?thesis
    unfolding segment_def using 1 2
    by (intro conjI exI [of _ "cs1 @ cs2"] exI [of _ "if cs1 = [] then s2 else s1"])
      (auto simp: same_message_def)
qed

lemma emit_segment:
  assumes "emit c st = (st', es)" and "in_step st"
  shows "segment st st' es"
proof (cases "truthy c")
  case True
  with assms show ?thesis
    unfolding segment_def
    by (intro conjI exI [of _ "[c]"] exI [of _ st])
      (auto simp: emit_def ensure_started_def in_step_def same_message_def stream_head_def)
next
  case False
  with assms show ?thesis by (simp add: emit_def segment_refl)
qed

lemma add_tokens_frame:
  assumes "add_tokens us st = Inr st'"
  shows "same_message st st' \<and> as_started st' = as_started st \<and> as_content_started st' = as_content_started st"
  using assms by (auto simp: add_tokens_def bind_result_eq_Inr same_message_def)

lemma note_finish_frame:
  "same_message st (note_finish r st)" "as_started (note_finish r st) = as_started st"
  "as_content_started (note_finish r st) = as_content_started st"
  by (auto simp: note_finish_def same_message_def)

lemma feed_obj_segment:
  assumes "feed_obj v st = Inr (st', es)" and "in_step st"
  shows "segment st st' es"
proof -
  from assms(1) obtain us st1 c r where t: "(if us \<noteq> [] then add_tokens us st else Inr st) = Inr st1"
    and e: "emit c (note_finish r st1) = (st', es)"
    by (auto simp: feed_obj_def bind_result_eq_Inr)
  have s1: "segment st (note_finish r st1) []"
    using t assms(2) add_tokens_frame [of us st st1] note_finish_frame
    by (intro segment_silent) (auto simp: same_message_def split: if_splits)
  then have "segment (note_finish r st1) st' es" by (intro emit_segment [OF e]) (simp add: segment_def)
  with segment_trans [OF s1] show ?thesis by simp
qed

lemma feed_lines_segment:
  "feed_lines loads ls st = Inr (st', es) \<Longrightarrow> in_step st \<Longrightarrow> segment st st' es"
proof (induction ls arbitrary: st es)
  case Nil
  then show ?case by (simp add: segment_refl)
next
  case (Cons l ls)
  then obtain st1 es1 es2 where l: "feed_line loads l st = Inr (st1, es1)"
    and r: "feed_lines loads ls st1 = Inr (st', es2)" and es: "es = es1 @ es2"
    by (auto simp: bind_result_eq_Inr)
  have s: "segment st st1 es1"
    using l Cons.prems(2) feed_obj_segment
    by (auto simp: feed_line_def Let_def segment_refl split: if_splits option.splits)
  then have "segment st1 st' es2" by (intro Cons.IH [OF r]) (simp add: segment_def)
  with segment_trans [OF s] es show ?case by simp
qed

lemma feed_segment:
  assumes "feed loads ch st = Inr (st', es)" and "in_step st"
  shows "segment st st' es"
proof -
  let ?ps = "py_split event_separator (as_buffer st @ decode_ignore ch)"
  have "feed_lines loads (concat (map py_splitlines (butlast ?ps))) (st\<lparr>as_buffer := List.last ?ps\<rparr>) = Inr (st', es)"
    using assms(1) by (simp add: feed_def Let_def)
  from feed_lines_segment [OF this] assms(2) show ?thesis
    by (simp add: segment_def in_step_def same_message_def)
qed

lemma messages_events_segment:
  "messages_events loads chs st = (es, r) \<Longrightarrow> in_step st
   \<Longrightarrow> \<exists>st'. segment st st' es \<and> (case r of None \<Rightarrow> True | Some conv \<Rightarrow> conv = st')"
proof (induction chs arbitrary: st es)
  case Nil
  then show ?case by (auto intro: segment_refl)
next
  case (Cons ch chs)
  let ?r1 = "case parse_usage_from_chunk loads ch of None \<Rightarrow> Inr st
      | Some us \<Rightarrow> bind_result (need_obj us) (\<lambda>d. add_tokens d st)"
  show ?case
  proof (cases "bind_result ?r1 (feed loads ch)")
    case (Inl e)
    with Cons.prems show ?thesis by (auto intro: segment_refl)
  next
    case (Inr p)
    obtain st2 es1 where p: "p = (st2, es1)" by (cases p)
    obtain es2 where m: "messages_events loads chs st2 = (es2, r)" and es: "es = es1 @ es2"
      using Cons.prems(1) Inr p by (auto split: prod.splits)
    obtain st1 where t: "?r1 = Inr st1" and f: "feed loads ch st1 = Inr (st2, es1)"
      using Inr p by (auto simp: bind_result_eq_Inr)
    have s0: "segment st st1 []"
      using t Cons.prems(2) add_tokens_frame
      by (intro segment_silent) (auto simp: bind_result_eq_Inr same_message_def split: option.splits)
    then have "segment st1 st2 es1" by (intro feed_segment [OF f]) (simp add: segment_def)
    with segment_trans [OF s0] have s1: "segment st st2 es1" by simp
    then obtain st' where "segment st2 st' es2" "case r of None \<Rightarrow> True | Some conv \<Rightarrow> conv = st'"
      using Cons.IH [OF m] by (auto simp: segment_def)
    with segment_trans [OF s1] es show ?thesis by blast
  qed
qed

text \<open>
  Claim C27. Whatever chunks the upstream sends, a stream of \<open>POST /v1/messages\<close> that completes is
  one well-formed Anthropic message: its start (with the id and the requested model), one content
  block with a delta for each piece of content, none empty, and the three closing events, the
  \<open>message_delta\<close> with the stop reason and token count that are billed. A stream that breaks off
  has sent nothing, or the opening and some deltas.
\<close>

theorem messages_stream_wellformed:
  assumes "messages_events loads chs (new_stream mid name) = (es, r)"
  shows "\<exists>st0 cs. as_model st0 = name \<and> as_message_id st0 = mid \<and> (\<forall>c \<in> set cs. truthy c)
    \<and> (case r of
         None \<Rightarrow> es = [] \<or> es = message_start st0 # content_block_start # map content_block_delta cs
       | Some conv \<Rightarrow> es @ finish conv = message_start st0 # content_block_start # map content_block_delta cs
           @ [content_block_stop, message_delta conv, message_stop])"
proof -
  have "in_step (new_stream mid name)" by (simp add: in_step_def new_stream_def)
  from messages_events_segment [OF assms this] obtain st' cs st0 where
      s: "in_step st'" "as_model st' = name" "as_message_id st' = mid" "\<forall>c \<in> set cs. truthy c"
        "as_model st0 = name" "as_message_id st0 = mid" "as_started st' = (cs \<noteq> [])"
        "es = (if cs = [] then [] else stream_head st0) @ map content_block_delta cs"
    and r: "case r of None \<Rightarrow> True | Some conv \<Rightarrow> conv = st'"
    by (auto simp: segment_def same_message_def new_stream_def)
  show ?thesis
    using s r
    by (intro exI [of _ "if cs = [] then st' else st0"] exI [of _ cs])
      (auto simp: finish_def ensure_started_def in_step_def stream_head_def message_delta_def split: option.splits)
qed

section \<open>Every charge is logged\<close>

lemma messages_stream_logged:
  assumes "messages_stream fr mid env now db st u k d name payload = (db', st', res)" and "account_ok uid (db, u, k)"
  shows "\<exists>u' k'. logged now uid (db, u, k) (db', u', k')"
proof (cases "db' = db")
  case True
  with assms(2) show ?thesis by (auto intro: logged_refl)
next
  case False
  then obtain m pt ct db1 u1 k1 where sr: "settle_relay env now d name m pt ct (db, u, k) = (db1, u1, k1)"
    and "commit_relay now db1 st = (db', st')"
    using assms(1) by (auto simp: messages_stream_def split: sum.splits option.splits prod.splits if_splits)
  from settle_commit_logged [OF assms(2) this] show ?thesis by blast
qed

lemma messages_json_logged:
  assumes "messages_json mid env now db st u k d name payload = (db', st', res)" and "account_ok uid (db, u, k)"
  shows "\<exists>u' k'. logged now uid (db, u, k) (db', u', k')"
proof (cases "db' = db")
  case True
  with assms(2) show ?thesis by (auto intro: logged_refl)
next
  case False
  then obtain m pt ct db1 u1 k1 where sr: "settle_relay env now d name m pt ct (db, u, k) = (db1, u1, k1)"
    and "commit_relay now db1 st = (db', st')"
    using assms(1) by (auto simp: messages_json_def split: sum.splits prod.splits)
  from settle_commit_logged [OF assms(2) this] show ?thesis by blast
qed

lemma messages_logged:
  assumes "messages fr mid env now db st u k rq = (db', st', res)" and "account_ok uid (db, u, k)"
  shows "\<exists>u' k'. logged now uid (db, u, k) (db', u', k')"
proof (cases "db' = db")
  case True
  with assms(2) show ?thesis by (auto intro: logged_refl)
next
  case False
  obtain st1 ra where a: "relay_admit env now db st u k = (st1, ra)" by fastforce
  obtain body where b: "ra = Inr ()" "rq_json rq = Some body"
    using False assms(1) a by (cases ra; cases "rq_json rq") (auto simp: messages_def)
  obtain p payload name where c: "messages_request (se_repr env) body = Inr (p, payload, name)"
    using False assms(1) a b by (cases "messages_request (se_repr env) body") (auto simp: messages_def)
  obtain st2 rd where e: "decide env now db st1 rq payload name ''chat'' ''anthropic'' ''no available upstream'' = (st2, rd)"
    by fastforce
  obtain d where f: "rd = Inr d" using False assms(1) a b c e by (cases rd) (auto simp: messages_def)
  have "messages_stream fr mid env now db st2 u k d name payload = (db', st', res)
       \<or> messages_json mid env now db st2 u k d name payload = (db', st', res)"
    using assms(1) a b c e f by (auto simp: messages_def split: if_splits)
  then show ?thesis
    by (elim disjE) (erule messages_stream_logged [OF _ assms(2)], erule messages_json_logged [OF _ assms(2)])
qed

section \<open>A stream cut inside an event\<close>

definition demo_loads :: "string \<Rightarrow> json option" where
  "demo_loads t = (if t = ''a'' then Some (JObj [(''choices'', JList [JObj [(''delta'', JObj [(''content'', JStr ''hi'')])]])]) else None)"

definition demo_line :: string where
  "demo_line = ''data: a'' @ event_separator"

theorem anthropic_sse_chunking_witness:
  "openai_sse_to_anthropic_sse demo_loads [''da'', ''ta: a'' @ event_separator] (new_stream ''id'' (JStr ''m''))
     = openai_sse_to_anthropic_sse demo_loads [demo_line] (new_stream ''id'' (JStr ''m''))
   \<and> snd (openai_sse_to_anthropic_sse demo_loads [demo_line] (new_stream ''id'' (JStr ''m'')))"
proof -
  let ?chs = "[''da'', ''ta: a'' @ event_separator]"
  have v: "\<forall>c \<in> set ?chs. decode_ignore c = c" by code_simp
  have ok: "snd (openai_sse_to_anthropic_sse demo_loads [demo_line] (new_stream ''id'' (JStr ''m'')))" by code_simp
  then obtain es where e: "openai_sse_to_anthropic_sse demo_loads [demo_line] (new_stream ''id'' (JStr ''m'')) = (es, True)"
    by (metis prod.collapse)
  have "concat ?chs = demo_line" by (simp add: demo_line_def)
  with anthropic_sse_chunking [OF v, of demo_loads "''id''" "JStr ''m''" es] e ok show ?thesis by simp
qed

theorem messages_stream_wellformed_witness:
  "\<exists>st0 conv. messages_events demo_loads [demo_line] (new_stream ''id'' (JStr ''m''))
       = ([message_start st0, content_block_start, content_block_delta (JStr ''hi'')], Some conv)
     \<and> as_model st0 = JStr ''m'' \<and> as_message_id st0 = ''id''"
proof -
  have "map ev_name (fst (messages_events demo_loads [demo_line] (new_stream ''id'' (JStr ''m''))))
      = [''message_start'', ''content_block_start'', ''content_block_delta'']
      \<and> fst (messages_events demo_loads [demo_line] (new_stream ''id'' (JStr ''m''))) ! 2 = content_block_delta (JStr ''hi'')
      \<and> snd (messages_events demo_loads [demo_line] (new_stream ''id'' (JStr ''m''))) \<noteq> None"
    by code_simp
  then obtain es conv where m: "messages_events demo_loads [demo_line] (new_stream ''id'' (JStr ''m'')) = (es, Some conv)"
    and es: "length es = 3" "es ! 2 = content_block_delta (JStr ''hi'')"
    by (cases "messages_events demo_loads [demo_line] (new_stream ''id'' (JStr ''m''))") (auto simp: map_eq_Cons_conv)
  obtain st0 cs where s: "as_model st0 = JStr ''m''" "as_message_id st0 = ''id''"
    and e: "es @ finish conv = message_start st0 # content_block_start # map content_block_delta cs
       @ [content_block_stop, message_delta conv, message_stop]"
    using messages_stream_wellformed [OF m] by auto
  obtain x y z where xyz: "es = [x, y, z]" using es(1) by (auto simp: length_Suc_conv numeral_3_eq_3)
  have "x = message_start st0" "y = content_block_start" using e xyz by auto
  with xyz es m s show ?thesis by auto
qed

text \<open>The proviso on characters is needed: each chunk is decoded on its own, so a character that is
  cut is dropped.\<close>

lemma cut_character_lost:
  "feed (\<lambda>t. None) [CHR 0xA9] (case feed (\<lambda>t. None) [CHR 0xC3] (new_stream [] JNull) of Inr (st, es) \<Rightarrow> st)
     = Inr (new_stream [] JNull, [])
   \<and> feed (\<lambda>t. None) [CHR 0xC3, CHR 0xA9] (new_stream [] JNull) = Inr ((new_stream [] JNull)\<lparr>as_buffer := [CHR 0xC3, CHR 0xA9]\<rparr>, [])"
  by code_simp

section \<open>Unmetered streams\<close>

lemma stream_usage_none:
  "\<forall>c \<in> set chs. parse_usage_from_chunk loads c = None \<Longrightarrow> stream_usage loads chs t = (chs, Some t)"
  by (induction chs arbitrary: t) (case_tac t, auto)+

lemma record_smart_usage_funds:
  assumes "account_ok uid acc"
  shows "account_funds now uid (record_smart_usage sync now d name rid acc)
    = account_funds now uid acc - max 0 (smart_cost d)"
proof (cases "rd_embedding_usage d")
  case None
  then show ?thesis by (simp add: record_smart_usage_def smart_cost_def)
next
  case (Some eu)
  obtain acc1 bd where c: "charge_account sync now rid (name @ '' [classifier]'') (smart_cost d) acc = (acc1, bd)"
    by fastforce
  from Some charge_account_law [OF assms c] c show ?thesis
    by (cases acc) (auto simp: record_smart_usage_def Let_def)
qed

lemma settle_free:
  assumes "account_ok uid acc"
  shows "account_funds now uid (settle_relay env now d name m 0 0 acc)
    = account_funds now uid acc - max 0 (smart_cost d)"
proof -
  obtain db u k where acc: "acc = (db, u, k)" by (cases acc)
  have z: "calc_cost_cents (Some m) 0 0 = 0" by (simp add: calc_cost_cents_def)
  have c: "fst (charge_account (rl_sync env) now (rl_request_id env) name 0 acc) = acc"
    by (simp add: charge_account_def charge_user_def acc)
  let ?l = "usage_entry u k m name (md_upstream_model m) 0 0 0 (rl_latency env) ''ok'' (rl_request_id env) ''relay''
    (rd_chosen_label d)"
  let ?a2 = "record_smart_usage (rl_sync env) now d name (rl_request_id env) (log_account ?l acc)"
  obtain db2 u2 k2 where a2: "?a2 = (db2, u2, k2)" by (cases ?a2)
  have "account_funds now uid ?a2 = account_funds now uid acc - max 0 (smart_cost d)"
    using record_smart_usage_funds [of uid "log_account ?l acc"] assms by simp
  moreover have "settle_relay env now d name m 0 0 acc = (mark_quota_invalidate (us_id u) db2, u2, k2)"
    using a2 c acc z by (simp add: settle_relay_def Let_def)
  ultimately show ?thesis
    using a2 by (simp add: account_funds_def sub_total_def wallet_of_def returning_balance_def mark_quota_invalidate_def)
qed

text \<open>
  The streamed chat endpoint looks for the token counts in one chunk at a time: when the
  bytes arrive so that no chunk holds a whole usage line (an event cut in two suffices, since
  chunks are the raw reads of the connection), the client receives every chunk and the stream
  ends well, but nothing is charged for the model's work; only the routing classifier is paid.
\<close>

theorem chat_stream_unmetered:
  assumes "chat_loop env (ss_calls st) payload True (decision_candidates d) JNull = Inr (m, r)"
    and "cr_stream r = Some (chs, True)" and "\<forall>c \<in> set chs. parse_usage_from_chunk (rl_loads env) c = None"
    and "chat_stream env now db st u k d name payload = (db', st', res)" and "account_ok uid (db, u, k)"
  shows "res = Inr (response_stream chs True)
    \<and> sub_total now db' uid + wallet_of db' uid = sub_total now db uid + wallet_of db uid - max 0 (smart_cost d)"
proof -
  obtain db1 u1 k1 where sr: "settle_relay env now d name m 0 0 (db, u, k) = (db1, u1, k1)" by (metis prod_cases3)
  obtain db2 st2 where cm: "commit_relay now db1 st = (db2, st2)" by fastforce
  have "chat_stream env now db st u k d name payload = (db2, st2, Inr (response_stream chs True))"
    using assms(1,2) stream_usage_none [OF assms(3)] sr cm by (simp add: chat_stream_def)
  with assms(4) have r: "db' = db2" "res = Inr (response_stream chs True)" by auto
  have "db2 = db1\<lparr>info_uids := []\<rparr>"
    using cm by (auto simp: commit_relay_def fire_quota_invalidate_def)
  with settle_free [OF assms(5), of now env d name m] sr r show ?thesis
    by (simp add: account_funds_def sub_total_def wallet_of_def returning_balance_def)
qed

definition demo_cut :: "string list" where
  "demo_cut = [''data'', '': a'' @ event_separator]"

definition demo_stream_env :: relay_env where
  "demo_stream_env = demo_relay_env\<lparr>
     rl_loads := (\<lambda>t. if t = ''a'' then Some (JObj [(''usage'', JObj [(''prompt_tokens'', JInt 9)])]) else None),
     rl_chat := (\<lambda>n a resp c up p s. Inr (demo_answer\<lparr>cr_stream := Some (demo_cut, True)\<rparr>))\<rparr>"

theorem chat_stream_unmetered_witness:
  "parse_usage_from_chunk (rl_loads demo_stream_env) (concat demo_cut) \<noteq> None
   \<and> (case chat_stream demo_stream_env 0 demo_shop demo_route_state demo_client None demo_relay_decision ''gpt'' [] of
        (db', st', res) \<Rightarrow> res = Inr (response_stream demo_cut True) \<and> sub_total 0 db' 4 + wallet_of db' 4 = 1000)"
proof -
  let ?d = "demo_relay_decision"
  have w: "parse_usage_from_chunk (rl_loads demo_stream_env) (concat demo_cut) \<noteq> None"
      "\<forall>c \<in> set demo_cut. parse_usage_from_chunk (rl_loads demo_stream_env) c = None"
    by code_simp+
  have a: "candidate_adapter (demo_priced 2 ''down'') (default_channel 7) = Inr (''openai'', ''openai.chat'')"
    by code_simp
  obtain r where l: "chat_loop demo_stream_env (ss_calls demo_route_state) [] True (decision_candidates ?d) JNull
      = Inr (demo_priced 2 ''down'', r)" and r: "cr_stream r = Some (demo_cut, True)"
    using a by (simp add: decision_candidates_def demo_relay_decision_def run_chat_def demo_stream_env_def chat_ok_def
        demo_answer_def)
  obtain db' st' res where c: "chat_stream demo_stream_env 0 demo_shop demo_route_state demo_client None ?d ''gpt'' []
      = (db', st', res)" by (metis prod_cases3)
  have "smart_cost ?d = 0" by (simp add: smart_cost_def demo_relay_decision_def)
  with chat_stream_unmetered [OF l r w(2) c demo_account] demo_funds c w(1) show ?thesis
    by (simp add: account_funds_def)
qed

end
