(* ===== verification/Responses_Protocol.thy ===== *)
theory Responses_Protocol
  imports Chat_Protocols
begin

text \<open>
  Conversions between the OpenAI chat contract and the responses protocol:
  \<^verbatim>\<open>services/protocols/openai_responses.py\<close>. Parameters as in the Anthropic conversions; \<open>rid\<close> and \<open>iid\<close>
  are the response and item ids drawn from \<open>uuid4\<close>, \<open>cid\<close> the completion id and \<open>created\<close> the
  time in seconds.
\<close>

section \<open>Contents\<close>

fun text_parts :: "(json \<Rightarrow> string) \<Rightarrow> json list \<Rightarrow> string list" where
  "text_parts repr [] = []"
| "text_parts repr (JObj block # bs) =
     (if dict_get_none block ''type'' \<in> {JStr ''text'', JStr ''input_text'', JStr ''output_text''}
      then py_text repr (py_or (dict_get_none block ''text'') (JStr [])) # text_parts repr bs
      else text_parts repr bs)"
| "text_parts repr (_ # bs) = text_parts repr bs"

definition content_to_text :: "(json \<Rightarrow> string) \<Rightarrow> json \<Rightarrow> string" where
  "content_to_text repr content =
     (case content of
        JStr s \<Rightarrow> s
      | JList bs \<Rightarrow> concat (text_parts repr bs)
      | _ \<Rightarrow> [])"

definition hashable :: "json \<Rightarrow> bool" where
  \<comment> \<open>membership in a set literal hashes the value; a list or a dict raises\<close>
  "hashable v \<longleftrightarrow> (case v of JList xs \<Rightarrow> False | JObj d \<Rightarrow> False | _ \<Rightarrow> True)"

fun blocks_hashable :: "json list \<Rightarrow> bool" where
  "blocks_hashable [] = True"
| "blocks_hashable (JObj block # bs) = (hashable (dict_get_none block ''type'') \<and> blocks_hashable bs)"
| "blocks_hashable (_ # bs) = blocks_hashable bs"

definition content_text :: "(json \<Rightarrow> string) \<Rightarrow> json \<Rightarrow> py_error + string" where
  \<comment> \<open>\<open>_content_to_text\<close> with the exception of an unhashable block type\<close>
  "content_text repr content =
     (case content of
        JList bs \<Rightarrow> if blocks_hashable bs then Inr (content_to_text repr content) else Inl TypeError
      | _ \<Rightarrow> Inr (content_to_text repr content))"

section \<open>Requests\<close>

definition responses_input_item_to_chat_message :: "(json \<Rightarrow> string) \<Rightarrow> json \<Rightarrow> py_error + json option" where
  "responses_input_item_to_chat_message repr item =
     (case item of
        JStr s \<Rightarrow> Inr (Some (chat_message ''user'' item))
      | JObj d \<Rightarrow>
          (let role = py_or (dict_get_none d ''role'') (JStr ''user'') in
           if \<not> hashable role then Inl TypeError
           else bind_result (content_text repr (dict_get_none d ''content'')) (\<lambda>t.
             Inr (Some (JObj [(''role'', if role \<in> {JStr ''system'', JStr ''user'', JStr ''assistant''} then role
                                         else JStr ''user''),
                              (''content'', JStr t)]))))
      | _ \<Rightarrow> Inr None)"

fun input_messages :: "(json \<Rightarrow> string) \<Rightarrow> json list \<Rightarrow> py_error + json list" where
  "input_messages repr [] = Inr []"
| "input_messages repr (it # its) =
     bind_result (responses_input_item_to_chat_message repr it) (\<lambda>msg.
     bind_result (input_messages repr its) (\<lambda>rest.
       Inr (case msg of None \<Rightarrow> rest | Some v \<Rightarrow> v # rest)))"

definition instruction_messages :: "json \<Rightarrow> json list" where
  "instruction_messages v =
     (case v of JStr s \<Rightarrow> if py_strip s \<noteq> [] then [chat_message ''system'' v] else [] | _ \<Rightarrow> [])"

definition copy_fields :: "dict \<Rightarrow> string list \<Rightarrow> dict \<Rightarrow> dict" where
  "copy_fields payload ks out = foldl (\<lambda>o' k. copy_field payload k k o') out ks"

definition responses_to_openai_chat_payload :: "(json \<Rightarrow> string) \<Rightarrow> dict \<Rightarrow> py_error + dict" where
  "responses_to_openai_chat_payload repr payload =
     bind_result
       (case dict_get_none payload ''input'' of
          JStr s \<Rightarrow> Inr [chat_message ''user'' (JStr s)]
        | JList its \<Rightarrow> input_messages repr its
        | _ \<Rightarrow> Inr [])
       (\<lambda>ms.
          let msgs = instruction_messages (dict_get_none payload ''instructions'') @ ms;
              out0 = [(''model'', dict_get_none payload ''model''),
                      (''messages'', JList (if msgs \<noteq> [] then msgs else [chat_message ''user'' (JStr [])]))];
              out1 = (if dict_has payload ''max_output_tokens''
                      then copy_field payload ''max_output_tokens'' ''max_tokens'' out0
                      else copy_field payload ''max_tokens'' ''max_tokens'' out0);
              out2 = copy_fields payload [''temperature'', ''top_p'', ''stream'', ''stop''] out1
          in Inr (if truthy (dict_get_none out2 ''stream'')
                  then dict_set out2 ''stream_options'' (JObj [(''include_usage'', JBool True)]) else out2))"

definition input_text :: "json \<Rightarrow> json" where
  "input_text t = JObj [(''type'', JStr ''input_text''), (''text'', t)]"

fun input_blocks :: "json list \<Rightarrow> json list" where
  "input_blocks [] = []"
| "input_blocks (JObj block # bs) =
     (if dict_get_none block ''type'' = JStr ''text''
      then input_text (py_or (dict_get_none block ''text'') (JStr [])) # input_blocks bs
      else if dict_get_none block ''type'' = JStr ''image_url''
      then (case (case dict_get_none block ''image_url'' of JObj im \<Rightarrow> dict_get_none im ''url'' | v \<Rightarrow> v) of
              JStr url \<Rightarrow> JObj [(''type'', JStr ''input_image''), (''image_url'', JStr url)] # input_blocks bs
            | _ \<Rightarrow> input_blocks bs)
      else input_blocks bs)"
| "input_blocks (_ # bs) = input_blocks bs"

definition chat_content_to_responses_content :: "json \<Rightarrow> json list" where
  \<comment> \<open>for a content that is no list \<open>_content_to_text\<close> returns a text or the empty text\<close>
  "chat_content_to_responses_content content =
     (case content of
        JList bs \<Rightarrow> (if input_blocks bs \<noteq> [] then input_blocks bs else [input_text (JStr [])])
      | JStr s \<Rightarrow> [input_text (JStr s)]
      | _ \<Rightarrow> [input_text (JStr [])])"

fun split_messages :: "(json \<Rightarrow> string) \<Rightarrow> json list \<Rightarrow> py_error + string list \<times> json list" where
  \<comment> \<open>the instructions and the input items\<close>
  "split_messages repr [] = Inr ([], [])"
| "split_messages repr (JObj msg # ms) =
     (let role = py_or (dict_get_none msg ''role'') (JStr ''user'');
          content = dict_get_none msg ''content''
      in if role = JStr ''system''
         then bind_result (content_text repr content) (\<lambda>t.
              bind_result (split_messages repr ms) (\<lambda>(ins, items).
                Inr ((if t \<noteq> [] then t # ins else ins), items)))
         else bind_result (split_messages repr ms) (\<lambda>(ins, items).
                Inr (ins, JObj [(''role'', JStr (if role = JStr ''assistant'' then ''assistant'' else ''user'')),
                                (''content'', JList (chat_content_to_responses_content content))] # items)))"
| "split_messages repr (_ # ms) = split_messages repr ms"

definition openai_chat_to_responses_payload :: "(json \<Rightarrow> string) \<Rightarrow> dict \<Rightarrow> py_error + dict" where
  "openai_chat_to_responses_payload repr payload =
     bind_result (iter_json (py_or (dict_get_none payload ''messages'') (JList []))) (\<lambda>items0.
     bind_result (split_messages repr items0) (\<lambda>(ins, items).
       let out0 = [(''model'', dict_get_none payload ''model''),
                   (''input'', JList (if items \<noteq> [] then items
                      else [JObj [(''role'', JStr ''user''), (''content'', JList [input_text (JStr [])])]]))];
           out1 = (if ins \<noteq> [] then dict_set out0 ''instructions'' (JStr (py_join event_separator ins)) else out0);
           lim = openai_chat_token_limit (JObj payload) JNull;
           out2 = (if lim \<noteq> JNull then dict_set out1 ''max_output_tokens'' lim else out1)
       in Inr (copy_field payload ''stop'' ''stop''
                 (copy_fields payload [''temperature'', ''top_p'', ''stream''] out2))))"

section \<open>Responses\<close>

fun output_block_text :: "(json \<Rightarrow> py_error + string) \<Rightarrow> json list \<Rightarrow> py_error + string" where
  "output_block_text cat [] = Inr []"
| "output_block_text cat (JObj block # bs) =
     (if dict_get_none block ''type'' = JStr ''output_text''
      then bind_result (cat (py_or (dict_get_none block ''text'') (JStr []))) (\<lambda>t.
           bind_result (output_block_text cat bs) (\<lambda>r. Inr (t @ r)))
      else output_block_text cat bs)"
| "output_block_text cat (_ # bs) = output_block_text cat bs"

definition cat_text :: "json \<Rightarrow> py_error + string" where
  \<comment> \<open>\<open>text += v\<close> raises unless \<open>v\<close> is a text\<close>
  "cat_text v = (case v of JStr s \<Rightarrow> Inr s | _ \<Rightarrow> Inl TypeError)"

fun output_item_text :: "json list \<Rightarrow> py_error + string" where
  "output_item_text [] = Inr []"
| "output_item_text (JObj item # its) =
     bind_result (iter_json (py_or (dict_get_none item ''content'') (JList []))) (\<lambda>bs.
     bind_result (output_block_text cat_text bs) (\<lambda>t.
     bind_result (output_item_text its) (\<lambda>r. Inr (t @ r))))"
| "output_item_text (_ # its) = output_item_text its"

definition responses_output_text :: "dict \<Rightarrow> py_error + string" where
  "responses_output_text body =
     (case dict_get_none body ''output_text'' of
        JStr s \<Rightarrow> Inr s
      | _ \<Rightarrow> bind_result (iter_json (py_or (dict_get_none body ''output'') (JList []))) output_item_text)"

definition tokens_of :: "dict \<Rightarrow> string \<Rightarrow> string \<Rightarrow> py_error + int" where
  \<comment> \<open>\<open>int(usage.get(a) or usage.get(b) or 0)\<close>\<close>
  "tokens_of us a b = py_int (py_or (py_or (dict_get_none us a) (dict_get_none us b)) (JInt 0))"

definition responses_response_to_openai_chat :: "string \<Rightarrow> int \<Rightarrow> json \<Rightarrow> string \<Rightarrow> py_error + json" where
  "responses_response_to_openai_chat cid created b name =
     bind_result (need_obj b) (\<lambda>body.
     bind_result (responses_output_text body) (\<lambda>text.
     bind_result (need_obj (py_or (dict_get_none body ''usage'') (JObj []))) (\<lambda>us.
     bind_result (tokens_of us ''input_tokens'' ''prompt_tokens'') (\<lambda>pt.
     bind_result (tokens_of us ''output_tokens'' ''completion_tokens'') (\<lambda>ct.
     bind_result (py_int (py_or (dict_get_none body ''created_at'') (JInt created))) (\<lambda>cr.
     bind_result (py_int (py_or (dict_get_none us ''total_tokens'') (JInt (pt + ct)))) (\<lambda>tt.
       let status = dict_get_none body ''status'' in
       Inr (JObj
         [(''id'', py_or (dict_get_none body ''id'') (JStr cid)), (''object'', JStr ''chat.completion''),
          (''created'', JInt cr), (''model'', JStr name),
          (''choices'', JList [JObj
             [(''index'', JInt 0), (''message'', chat_message ''assistant'' (JStr text)),
              (''finish_reason'', if status = JNull \<or> status = JStr ''completed'' then JStr ''stop'' else status)]]),
          (''usage'', JObj [(''prompt_tokens'', JInt pt), (''completion_tokens'', JInt ct),
             (''total_tokens'', JInt tt)])]))))))))"

definition output_text :: "string \<Rightarrow> json" where
  "output_text t = JObj [(''type'', JStr ''output_text''), (''text'', JStr t), (''annotations'', JList [])]"

definition output_item :: "string \<Rightarrow> string \<Rightarrow> json list \<Rightarrow> json" where
  "output_item iid status content = JObj [(''id'', JStr iid), (''type'', JStr ''message''), (''status'', JStr status),
     (''role'', JStr ''assistant''), (''content'', JList content)]"

definition openai_chat_to_responses_response ::
    "(json \<Rightarrow> string) \<Rightarrow> string \<Rightarrow> string \<Rightarrow> int \<Rightarrow> json \<Rightarrow> json \<Rightarrow> py_error + json" where
  "openai_chat_to_responses_response repr rid iid created b name =
     bind_result (need_obj b) (\<lambda>body.
     bind_result (need_obj (first_choice body)) (\<lambda>choice.
     bind_result (need_obj (py_or (dict_get_none choice ''message'') (JObj []))) (\<lambda>message.
     bind_result (content_text repr (dict_get_none message ''content'')) (\<lambda>text.
     bind_result (need_obj (py_or (dict_get_none body ''usage'') (JObj []))) (\<lambda>us.
     bind_result (py_int (py_or (dict_get_none us ''prompt_tokens'') (JInt 0))) (\<lambda>pt.
     bind_result (py_int (py_or (dict_get_none us ''completion_tokens'') (JInt 0))) (\<lambda>ct.
     bind_result (py_int (py_or (dict_get_none us ''total_tokens'') (JInt (pt + ct)))) (\<lambda>tt.
       Inr (JObj
         [(''id'', JStr rid), (''object'', JStr ''response''), (''created_at'', JInt created),
          (''status'', JStr ''completed''), (''model'', name),
          (''output'', JList [output_item iid ''completed'' [output_text text]]),
          (''output_text'', JStr text),
          (''usage'', JObj [(''input_tokens'', JInt pt), (''output_tokens'', JInt ct),
             (''total_tokens'', JInt tt)])])))))))))"

section \<open>Events\<close>

fun event_lines :: "string option \<Rightarrow> string list \<Rightarrow> string list \<Rightarrow> string option \<times> string list" where
  \<comment> \<open>the loop over the lines of one event: its name and its data lines, in order\<close>
  "event_lines name data [] = (name, data)"
| "event_lines name data (l # ls) =
     (let line = py_strip l in
      if py_startswith line ''event:'' then event_lines (Some (py_strip (drop 6 line))) data ls
      else if py_startswith line ''data:''
      then (let raw = py_strip (drop 5 line) in
            if raw = ''[DONE]'' then (name, []) else event_lines name (data @ [raw]) ls)
      else event_lines name data ls)"

definition parse_event :: "(string \<Rightarrow> json option) \<Rightarrow> string \<Rightarrow> (string option \<times> dict) list" where
  \<comment> \<open>what one event yields, at most one object\<close>
  "parse_event loads event =
     (case event_lines None [] (py_splitlines event) of
        (name, data) \<Rightarrow>
          if data = [] then []
          else case loads (py_join [CHR 0x0A] data) of
            Some (JObj d) \<Rightarrow> [(name, d)]
          | _ \<Rightarrow> [])"

definition iter_chunk :: "(string \<Rightarrow> json option) \<Rightarrow> string \<Rightarrow> string \<Rightarrow> string \<times> (string option \<times> dict) list" where
  \<comment> \<open>one chunk: the buffer after the \<open>while\<close> loop and the objects it yields\<close>
  "iter_chunk loads buf chunk =
     (let parts = py_split event_separator (buf @ decode_ignore chunk) in
      (List.last parts, concat (map (parse_event loads) (butlast parts))))"

fun iter_sse_events :: "(string \<Rightarrow> json option) \<Rightarrow> string \<Rightarrow> string list \<Rightarrow> (string option \<times> dict) list" where
  "iter_sse_events loads buf [] = []"
| "iter_sse_events loads buf (ch # chs) =
     (case iter_chunk loads buf ch of (buf', objs) \<Rightarrow> objs @ iter_sse_events loads buf' chs)"

section \<open>Chat stream to responses stream\<close>

record responses_stream =
  rx_response_id :: string
  rx_item_id :: string
  rx_model :: json
  rx_created :: int
  rx_completed :: int
  rx_started :: bool
  rx_text_parts :: "string list"
  rx_prompt_tokens :: int
  rx_completion_tokens :: int

definition new_responses_stream :: "string \<Rightarrow> string \<Rightarrow> int \<Rightarrow> int \<Rightarrow> json \<Rightarrow> responses_stream" where
  \<comment> \<open>the clock at the first and at the last event\<close>
  "new_responses_stream rid iid created completed name = \<lparr>rx_response_id = rid, rx_item_id = iid, rx_model = name,
     rx_created = created, rx_completed = completed, rx_started = False, rx_text_parts = [], rx_prompt_tokens = 0, rx_completion_tokens = 0\<rparr>"

definition response_stub :: "responses_stream \<Rightarrow> int \<Rightarrow> string \<Rightarrow> dict" where
  "response_stub st created status = [(''id'', JStr (rx_response_id st)), (''object'', JStr ''response''),
     (''created_at'', JInt created), (''status'', JStr status), (''model'', rx_model st),
     (''output'', JList [])]"

definition typed_event :: "string \<Rightarrow> dict \<Rightarrow> sse_event" where
  "typed_event name fs = \<lparr>ev_name = name, ev_data = (''type'', JStr name) # fs\<rparr>"

definition responses_start :: "responses_stream \<Rightarrow> sse_event list" where
  "responses_start st =
     [typed_event ''response.created'' [(''response'', JObj (response_stub st (rx_created st) ''in_progress''))],
      typed_event ''response.output_item.added''
        [(''output_index'', JInt 0), (''item'', output_item (rx_item_id st) ''in_progress'' [])],
      typed_event ''response.content_part.added''
        [(''item_id'', JStr (rx_item_id st)), (''output_index'', JInt 0), (''content_index'', JInt 0),
         (''part'', output_text [])]]"

definition responses_delta :: "responses_stream \<Rightarrow> json \<Rightarrow> sse_event" where
  "responses_delta st text = typed_event ''response.output_text.delta''
     [(''item_id'', JStr (rx_item_id st)), (''output_index'', JInt 0), (''content_index'', JInt 0), (''delta'', text)]"

definition responses_tokens :: "dict \<Rightarrow> responses_stream \<Rightarrow> py_error + responses_stream" where
  "responses_tokens us st =
     bind_result (py_int (py_or (dict_get_none us ''prompt_tokens'') (JInt (rx_prompt_tokens st)))) (\<lambda>pt.
     bind_result (py_int (py_or (dict_get_none us ''completion_tokens'') (JInt (rx_completion_tokens st)))) (\<lambda>ct.
       Inr (st\<lparr>rx_prompt_tokens := pt, rx_completion_tokens := ct\<rparr>)))"

definition responses_emit :: "(json \<Rightarrow> string) \<Rightarrow> json \<Rightarrow> responses_stream \<Rightarrow> responses_stream \<times> sse_event list" where
  "responses_emit repr text st =
     (if truthy text
      then (st\<lparr>rx_started := True, rx_text_parts := rx_text_parts st @ [py_text repr text]\<rparr>,
            (if rx_started st then [] else responses_start st) @ [responses_delta st text])
      else (st, []))"

definition responses_obj :: "(json \<Rightarrow> string) \<Rightarrow> dict \<Rightarrow> responses_stream \<Rightarrow> py_error + responses_stream \<times> sse_event list" where
  "responses_obj repr obj st =
     bind_result (need_obj (py_or (dict_get_none obj ''usage'') (JObj []))) (\<lambda>us.
     bind_result (if us \<noteq> [] then responses_tokens us st else Inr st) (\<lambda>st1.
     bind_result (delta_choice obj) (\<lambda>choice.
     bind_result (need_obj (py_or (dict_get_none choice ''delta'') (JObj []))) (\<lambda>delta.
       Inr (responses_emit repr (dict_get_none delta ''content'') st1)))))"

definition responses_finish :: "responses_stream \<Rightarrow> sse_event list" where
  "responses_finish st =
     (let text = concat (rx_text_parts st);
          item = output_item (rx_item_id st) ''completed'' [output_text text]
      in (if rx_started st then [] else responses_start st)
         @ [typed_event ''response.output_text.done''
              [(''item_id'', JStr (rx_item_id st)), (''output_index'', JInt 0), (''content_index'', JInt 0),
               (''text'', JStr text)],
            typed_event ''response.content_part.done''
              [(''item_id'', JStr (rx_item_id st)), (''output_index'', JInt 0), (''content_index'', JInt 0),
               (''part'', output_text text)],
            typed_event ''response.output_item.done'' [(''output_index'', JInt 0), (''item'', item)],
            typed_event ''response.completed''
              [(''response'', JObj (dict_set (dict_set (dict_set (response_stub st (rx_completed st) ''completed'')
                 ''output'' (JList [item])) ''output_text'' (JStr text))
                 ''usage'' (JObj [(''input_tokens'', JInt (rx_prompt_tokens st)),
                    (''output_tokens'', JInt (rx_completion_tokens st)),
                    (''total_tokens'', JInt (rx_prompt_tokens st + rx_completion_tokens st))])))]])"

definition done_line :: string where
  "done_line = ''data: [DONE]'' @ event_separator"

fun responses_objs :: "(json \<Rightarrow> string) \<Rightarrow> dict list \<Rightarrow> responses_stream \<Rightarrow> sse_event list \<times> responses_stream option" where
  \<comment> \<open>the events of the objects and the converter after them, \<open>None\<close> when it raises\<close>
  "responses_objs repr [] st = ([], Some st)"
| "responses_objs repr (obj # objs) st =
     (case responses_obj repr obj st of
        Inl e \<Rightarrow> ([], None)
      | Inr (st', es) \<Rightarrow> (case responses_objs repr objs st' of (es', r) \<Rightarrow> (es @ es', r)))"

definition openai_chat_sse_to_responses_sse ::
    "(string \<Rightarrow> json option) \<Rightarrow> (json \<Rightarrow> string) \<Rightarrow> string list \<Rightarrow> responses_stream
       \<Rightarrow> sse_event list \<times> responses_stream option" where
  \<comment> \<open>the events before \<open>data: [DONE]\<close>\<close>
  "openai_chat_sse_to_responses_sse loads repr chs st =
     (case responses_objs repr (map snd (iter_sse_events loads [] chs)) st of
        (es, Some st') \<Rightarrow> (es @ responses_finish st', Some st')
      | (es, None) \<Rightarrow> (es, None))"

section \<open>Responses stream to chat stream\<close>

record completion =
  cp_id :: string
  cp_created :: int
  cp_model :: string
  cp_prompt_tokens :: int
  cp_completion_tokens :: int

definition completion_chunk :: "completion \<Rightarrow> json \<Rightarrow> json \<Rightarrow> dict" where
  "completion_chunk st delta reason = [(''id'', JStr (cp_id st)), (''object'', JStr ''chat.completion.chunk''),
     (''created'', JInt (cp_created st)), (''model'', JStr (cp_model st)),
     (''choices'', JList [JObj [(''index'', JInt 0), (''delta'', delta), (''finish_reason'', reason)]])]"

definition completion_event :: "string option \<times> dict \<Rightarrow> completion \<Rightarrow> py_error + completion \<times> dict list" where
  "completion_event ev st =
     (case ev of (event, obj) \<Rightarrow>
        (let typ = py_or (dict_get_none obj ''type'') (case event of None \<Rightarrow> JNull | Some n \<Rightarrow> JStr n) in
         if typ = JStr ''response.output_text.delta''
         then Inr (st, [completion_chunk st
                (JObj [(''content'', py_or (dict_get_none obj ''delta'') (JStr []))]) JNull])
         else if typ = JStr ''response.completed''
         then bind_result (need_obj (py_or (dict_get_none obj ''response'') (JObj []))) (\<lambda>resp.
              bind_result (need_obj (py_or (dict_get_none resp ''usage'') (JObj []))) (\<lambda>us.
              bind_result (py_int (py_or (dict_get_none us ''input_tokens'') (JInt (cp_prompt_tokens st)))) (\<lambda>pt.
              bind_result (py_int (py_or (dict_get_none us ''output_tokens'') (JInt (cp_completion_tokens st)))) (\<lambda>ct.
                Inr (st\<lparr>cp_prompt_tokens := pt, cp_completion_tokens := ct\<rparr>, [])))))
         else Inr (st, [])))"

fun completion_events :: "(string option \<times> dict) list \<Rightarrow> completion \<Rightarrow> dict list \<times> completion option" where
  "completion_events [] st = ([], Some st)"
| "completion_events (ev # evs) st =
     (case completion_event ev st of
        Inl e \<Rightarrow> ([], None)
      | Inr (st', ds) \<Rightarrow> (case completion_events evs st' of (ds', r) \<Rightarrow> (ds @ ds', r)))"

definition completion_final :: "completion \<Rightarrow> dict" where
  "completion_final st = completion_chunk st (JObj []) (JStr ''stop'')
     @ [(''usage'', JObj [(''prompt_tokens'', JInt (cp_prompt_tokens st)),
          (''completion_tokens'', JInt (cp_completion_tokens st)),
          (''total_tokens'', JInt (cp_prompt_tokens st + cp_completion_tokens st))])]"

definition responses_sse_to_openai_chat_sse ::
    "(string \<Rightarrow> json option) \<Rightarrow> string list \<Rightarrow> completion \<Rightarrow> dict list \<times> completion option" where
  \<comment> \<open>the chunks before \<open>data: [DONE]\<close>\<close>
  "responses_sse_to_openai_chat_sse loads chs st =
     (case completion_events (iter_sse_events loads [] chs) st of
        (ds, Some st') \<Rightarrow> (ds @ [completion_final st'], Some st')
      | (ds, None) \<Rightarrow> (ds, None))"

section \<open>ASCII output\<close>

fun code_point :: "string \<Rightarrow> nat" where
  \<comment> \<open>of one well-formed UTF-8 sequence\<close>
  "code_point [a] = of_char a"
| "code_point [a, b] = (of_char a - 192) * 64 + (of_char b - 128)"
| "code_point [a, b, c] = (of_char a - 224) * 4096 + (of_char b - 128) * 64 + (of_char c - 128)"
| "code_point [a, b, c, d] =
     (of_char a - 240) * 262144 + (of_char b - 128) * 4096 + (of_char c - 128) * 64 + (of_char d - 128)"
| "code_point _ = 0"

definition hex4 :: "nat \<Rightarrow> string" where
  "hex4 n = [CHR 0x5C, CHR ''u'', hex_digit (n div 4096 mod 16), hex_digit (n div 256 mod 16),
     hex_digit (n div 16 mod 16), hex_digit (n mod 16)]"

definition escape_point :: "nat \<Rightarrow> string" where
  \<comment> \<open>one escape, or a surrogate pair\<close>
  "escape_point n =
     (if n < 65536 then hex4 n
      else hex4 (55296 + (n - 65536) div 1024) @ hex4 (56320 + (n - 65536) mod 1024))"

function ascii_text :: "string \<Rightarrow> string" where
  \<comment> \<open>what \<open>ensure_ascii=True\<close> makes of the text printed without it: only strings hold such
      characters\<close>
  "ascii_text [] = []"
| "ascii_text (a # s) =
     (let k = max 1 (utf8_len (a # s)); n = code_point (take k (a # s)) in
      if k = 1 \<and> n < 127 then a # ascii_text s
      else escape_point n @ ascii_text (drop k (a # s)))"
  by pat_completeness auto

termination by (relation "measure length") (simp_all del: utf8_len.simps)

definition chunk_line :: "(rat \<Rightarrow> string) \<Rightarrow> dict \<Rightarrow> string" where
  "chunk_line fr d = ''data: '' @ ascii_text (py_dumps fr (JObj d)) @ event_separator"

end
