(* ===== verification/Ext_Proc.thy ===== *)
theory Ext_Proc
  imports Api_Keys Relay Responses_Protocol "HOL-Library.AList"
begin

text \<open>
  The external processor that Envoy consults for every request:
  \<^verbatim>\<open>services/envoy/ext_proc_server.py\<close>. It authenticates the key on the snapshots, checks quota and rate
  limit in Redis, decides the route, and answers with the headers that tell the translator whom
  to bill and which upstreams to try, or with a denial. An exception ends the gRPC stream, which
  Envoy answers with an error of its own (\<open>None\<close> below). A protobuf message is given by the fields the
  code reads.
\<close>

type_synonym headers = "(string \<times> string) list"

definition hdr_set :: "headers \<Rightarrow> string \<Rightarrow> string \<Rightarrow> headers" where
  \<comment> \<open>\<open>d[k] = v\<close>\<close>
  "hdr_set hs k v = AList.update k v hs"

record ext_env = relay_env +
  xe_hash :: "string \<Rightarrow> string"
  xe_uuid :: string
  xe_error_text :: "py_error \<Rightarrow> string"
  xe_tokens :: string
  \<comment> \<open>\<open>hash_api_key\<close>, a drawn request id, the text of a Python error, and \<open>settings.XDS_AUTH_TOKEN\<close>\<close>

section \<open>Reading a request\<close>

definition bad_len :: "string \<Rightarrow> nat" where
  \<comment> \<open>length of the ill-formed start that \<open>errors="replace"\<close> turns into one replacement character\<close>
  "bad_len s =
     (case s of
        a # b # t \<Rightarrow>
          (let n = of_char a :: nat;
               two = (if n = 224 then is_cont_from 160 191 b else if n = 237 then is_cont_from 128 159 b
                      else if n = 240 then is_cont_from 144 191 b else if n = 244 then is_cont_from 128 143 b
                      else 225 \<le> n \<and> n \<le> 243 \<and> is_cont_from 128 191 b)
           in if \<not> two then 1
              else if 240 \<le> n \<and> t \<noteq> [] \<and> is_cont_from 128 191 (hd t) then 3 else 2)
      | _ \<Rightarrow> 1)"

function decode_replace :: "string \<Rightarrow> string" where
  "decode_replace [] = []"
| "decode_replace (a # s) =
     (let k = utf8_len (a # s) in
      if k = 0 then [CHR 0xEF, CHR 0xBF, CHR 0xBD] @ decode_replace (drop (max 1 (bad_len (a # s))) (a # s))
      else take k (a # s) @ decode_replace (drop (max 1 k) (a # s)))"
  by pat_completeness auto

termination by (relation "measure length") (simp_all del: utf8_len.simps)

definition headers_map :: "(string \<times> string \<times> string) list \<Rightarrow> headers" where
  \<comment> \<open>key, \<open>value\<close> and \<open>raw_value\<close> of each header\<close>
  "headers_map hs =
     foldl (\<lambda>out (k, v, raw). hdr_set out (py_lower k) (if v = [] \<and> raw \<noteq> [] then decode_replace raw else v)) [] hs"

definition hdr :: "headers \<Rightarrow> string \<Rightarrow> string" where
  \<comment> \<open>\<open>headers.get(k) or ""\<close>\<close>
  "hdr hs k = or_text (map_of hs k) []"

definition auth_plain :: "headers \<Rightarrow> string option" where
  "auth_plain hs =
     (let x_api_key = py_strip (if hdr hs ''x-api-key'' \<noteq> [] then hdr hs ''x-api-key'' else hdr hs ''api-key'') in
      if x_api_key \<noteq> [] then Some x_api_key
      else let auth = hdr hs ''authorization'' in
           if py_startswith (py_lower auth) ''bearer '' then Some (py_strip (py_after (CHR '' '') auth))
           else None)"

definition client_protocol_and_modality :: "string \<Rightarrow> string \<times> string option" where
  "client_protocol_and_modality path =
     (let clean = py_before (CHR ''?'') path in
      if py_endswith clean ''/v1/messages'' then (anthropic_messages, Some ''chat'')
      else if py_endswith clean ''/v1/chat/completions'' then (openai_chat, Some ''chat'')
      else if py_endswith clean ''/v1/responses'' then (openai_responses, Some ''chat'')
      else if py_endswith clean ''/v1/embeddings'' then (openai_embeddings, Some ''embedding'')
      else if py_endswith clean ''/v1/images/generations'' then (openai_images, Some ''image'')
      else (openai_chat, None))"

definition extract_model :: "(string \<Rightarrow> json option) \<Rightarrow> string \<Rightarrow> string option" where
  "extract_model loads body =
     (if body = [] then None
      else case loads body of
        Some (JObj d) \<Rightarrow> (case dict_get_none d ''model'' of JStr s \<Rightarrow> Some s | _ \<Rightarrow> None)
      | _ \<Rightarrow> None)"

definition header_client_ip :: "headers \<Rightarrow> string option" where
  \<comment> \<open>\<open>_client_ip\<close>\<close>
  "header_client_ip hs =
     (let xff = hdr hs ''x-forwarded-for'';
          ip = (if xff \<noteq> [] then py_strip (py_before (CHR '','') xff) else py_strip (hdr hs ''x-real-ip''))
      in if ip \<noteq> [] then Some ip else None)"

definition prompt_text :: "(json \<Rightarrow> string) \<Rightarrow> string \<Rightarrow> json \<Rightarrow> py_error + string" where
  "prompt_text repr client_protocol payload =
     (case payload of
        JObj p \<Rightarrow>
          if client_protocol = anthropic_messages
          then bind_result (anthropic_to_openai_payload repr p) (\<lambda>q. Inr (extract_prompt_text (JObj q)))
          else Inr (extract_prompt_text payload)
      | _ \<Rightarrow> Inr [])"

definition ext_load_route :: "ext_env \<Rightarrow> session \<Rightarrow> string \<Rightarrow> ((nat \<times> string) + route_policy \<times> model list \<times> channel list) option" where
  \<comment> \<open>\<open>ValueError\<close> becomes 404, also that of a malformed target id, and \<open>RuntimeError\<close> 502; \<open>None\<close> for
      another exception\<close>
  "ext_load_route env db name =
     (case find (\<lambda>p. rp_user_facing_model p = name) (route_policies db) of
        None \<Rightarrow> Some (Inl (404, ''model '' @ name @ '' not available''))
      | Some policy \<Rightarrow>
          if \<not> rp_enabled policy \<or> rp_scope policy = scope_private
          then Some (Inl (404, ''model '' @ name @ '' not available''))
          else case load_route_resources db policy of
            Inl ValueError \<Rightarrow> Some (Inl (404, xe_error_text env ValueError))
          | Inl e \<Rightarrow> None
          | Inr None \<Rightarrow> Some (Inl (502, ''route has no targets''))
          | Inr (Some (ms, cs)) \<Rightarrow> Some (Inr (policy, ms, cs)))"

section \<open>The decision\<close>

datatype ext_decision =
    ext_deny nat string
  | ext_allow headers

definition chain_text :: "(model \<times> channel) list \<Rightarrow> string" where
  "chain_text pairs = py_join '','' (map (\<lambda>(m, c). str_int (md_id m) @ '':'' @ str_int (ch_id c)) pairs)"

definition listing_headers :: "string \<Rightarrow> api_key_snapshot \<Rightarrow> string \<Rightarrow> headers" where
  "listing_headers request_id snap client_protocol =
     [(''x-llmxy-cluster'', ''translator''), (''x-llmxy-request-id'', request_id),
      (''x-llmxy-user-id'', str_int (sn_user_id snap)), (''x-llmxy-api-key-id'', str_int (sn_id snap)),
      (''x-llmxy-client-protocol'', client_protocol), (''x-llmxy-billed-sync'', ''true'')]"

definition classifier_out :: "embedding_usage option \<Rightarrow> headers \<Rightarrow> headers" where
  "classifier_out usage out =
     (case usage of
        None \<Rightarrow> out
      | Some eu \<Rightarrow> out @
          [(''x-llmxy-classifier-model-id'', str_int (md_id (eu_model eu))),
           (''x-llmxy-classifier-upstream-model'', eu_upstream_model eu),
           (''x-llmxy-classifier-prompt-tokens'', str_int (eu_prompt_tokens eu)),
           (''x-llmxy-classifier-latency-ms'', str_int (eu_latency_ms eu)),
           (''x-llmxy-classifier-status'', if eu_status eu \<noteq> [] then eu_status eu else ''ok'')])"

definition route_headers ::
    "string \<Rightarrow> api_key_snapshot \<Rightarrow> string \<Rightarrow> string option \<Rightarrow> string \<Rightarrow> route_decision \<Rightarrow> headers" where
  "route_headers request_id snap client_protocol modality name d =
     (let m = rd_model d; c = rd_channel d; pairs = decision_candidates d;
          out0 =
            [(''x-llmxy-cluster'', ''translator''), (''x-llmxy-request-id'', request_id),
             (''x-llmxy-user-id'', str_int (sn_user_id snap)), (''x-llmxy-api-key-id'', str_int (sn_id snap)),
             (''x-llmxy-model-id'', str_int (md_id m)), (''x-llmxy-user-facing-model'', name),
             (''x-llmxy-upstream-model'', md_upstream_model m),
             (''x-llmxy-provider-type'', py_lower (ch_provider_type c)),
             (''x-llmxy-connector-type'', resolve_connector_type (Some m) c None),
             (''x-llmxy-upstream-protocol'', resolve_upstream_protocol (Some m) c None),
             (''x-llmxy-channel-id'', str_int (ch_id c)),
             (''x-llmxy-client-protocol'', client_protocol), (''x-llmxy-billed-sync'', ''true'')];
          out1 = (if modality = Some ''chat'' then out0 @ [(''x-llmxy-chat-chain'', chain_text pairs)] else out0);
          out2 = (if modality = Some ''embedding'' then out1 @ [(''x-llmxy-embedding-chain'', chain_text pairs)] else out1);
          out3 = (if or_text (rd_chosen_label d) [] \<noteq> []
                  then out2 @ [(''x-llmxy-resolved-label'', or_text (rd_chosen_label d) [])] else out2);
          out4 = (if md_kind m = ''image'' then out3 @ [(''x-llmxy-image-chain'', chain_text pairs)] else out3)
      in classifier_out (rd_embedding_usage d) out4)"

type_synonym ext_state = "session \<times> worker \<times> route_state"

definition ext_admit ::
    "ext_env \<Rightarrow> datetime \<Rightarrow> ext_state \<Rightarrow> headers \<Rightarrow> ext_state \<times> ((nat \<times> string) + api_key_snapshot) option" where
  \<comment> \<open>the first half of \<open>_decide\<close>: key, owner, quota and rate limit. The \<open>HTTPException\<close> of an expired
      or deleted key is not caught\<close>
  "ext_admit env now s hs =
     (case s of (db, w, st) \<Rightarrow>
        (case auth_plain hs of
           None \<Rightarrow> (s, Some (Inl (401,
             ''missing api key; send Authorization: Bearer sk-... or x-api-key: sk-...'')))
         | Some plain \<Rightarrow>
             if plain = [] then (s, Some (Inl (401,
               ''missing api key; send Authorization: Bearer sk-... or x-api-key: sk-...'')))
             else if \<not> py_startswith plain ''sk-'' then (s, Some (Inl (401, ''invalid api key format'')))
             else case get_apikey_snapshot now db w (xe_hash env plain) of
               (w1, None) \<Rightarrow> ((db, w1, st), Some (Inl (401, ''invalid api key'')))
             | (w1, Some snap0) \<Rightarrow>
                 (case enforce_key_state_cached now db w1 (ss_redis st) snap0 of
                    (db2, w2, r2, Inl e) \<Rightarrow> ((db2, w2, st\<lparr>ss_redis := r2\<rparr>), None)
                  | (db2, w2, r2, Inr snap) \<Rightarrow>
                      if sn_status snap \<noteq> key_active
                      then ((db2, w2, st\<lparr>ss_redis := r2\<rparr>),
                            Some (Inl (401, ''api key '' @ key_status_value (sn_status snap))))
                      else case get_user_snapshot (rl_default_rpm env) now db2 w2 (sn_user_id snap) of
                        (w3, us) \<Rightarrow>
                          (case us of
                             None \<Rightarrow> ((db2, w3, st\<lparr>ss_redis := r2\<rparr>), Some (Inl (401, ''user disabled'')))
                           | Some usr \<Rightarrow>
                               if un_status usr \<noteq> user_active
                               then ((db2, w3, st\<lparr>ss_redis := r2\<rparr>), Some (Inl (401, ''user disabled'')))
                               else case has_quota_fast now db2 r2 (sn_user_id snap) (sn_id snap) (sn_quota_cents snap)
                                           (window_start_epoch_for snap) of
                                 (r3, False, msg) \<Rightarrow> ((db2, w3, st\<lparr>ss_redis := r3\<rparr>), Some (Inl (402, msg)))
                               | (r3, True, msg) \<Rightarrow>
                                   (case rate_limit (rl_default_rpm env) now (sn_user_id snap) (Some (un_plan_rpm usr)) r3 of
                                      None \<Rightarrow> ((db2, w3, st\<lparr>ss_redis := r3\<rparr>), None)
                                    | Some (r4, ok) \<Rightarrow>
                                        ((db2, w3, st\<lparr>ss_redis := r4\<rparr>),
                                         Some (if ok then Inr snap else Inl (429, ''rate limit exceeded''))))))))"

definition ext_route ::
    "ext_env \<Rightarrow> datetime \<Rightarrow> session \<Rightarrow> route_state \<Rightarrow> api_key_snapshot \<Rightarrow> headers \<Rightarrow> string
       \<Rightarrow> route_state \<times> ext_decision option" where
  \<comment> \<open>the second half: the path, the model and its route\<close>
  "ext_route env now db st snap hs body =
     (let path = hdr hs '':path'';
          request_id = (if hdr hs ''x-request-id'' \<noteq> [] then hdr hs ''x-request-id'' else xe_uuid env)
      in case client_protocol_and_modality path of
           (proto, modality) \<Rightarrow>
             if py_rstrip_chr (CHR ''/'') (py_before (CHR ''?'') path) = ''/v1/models''
             then (st, Some (ext_allow (listing_headers request_id snap proto)))
             else case extract_model (rl_loads env) body of
               None \<Rightarrow> (st, Some (ext_deny 400 ''missing model in body''))
             | Some name \<Rightarrow>
                 if name = [] then (st, Some (ext_deny 400 ''missing model in body''))
                 else case rl_loads env body of
                   None \<Rightarrow> (st, Some (ext_deny 400 ''invalid json body''))
                 | Some payload \<Rightarrow>
                     (case ext_load_route env db name of
                        None \<Rightarrow> (st, None)
                      | Some (Inl (code, msg)) \<Rightarrow> (st, Some (ext_deny code msg))
                      | Some (Inr (policy, ms, cs)) \<Rightarrow>
                          if (case modality of None \<Rightarrow> False
                              | Some md \<Rightarrow> or_text (Some (rp_modality policy)) ''chat'' \<noteq> md)
                          then (st, Some (ext_deny 404 (''model '' @ name @ '' is not available on the ''
                                 @ or_text modality [] @ '' endpoint'')))
                          else if \<not> route_exposes policy proto
                          then (st, Some (ext_deny 404 (''model '' @ name @ '' is not available on the ''
                                 @ proto @ '' protocol'')))
                          else case prompt_text (se_repr env) proto payload of
                            Inl e \<Rightarrow> (st, None)
                          | Inr prompt \<Rightarrow>
                              (case select_route (route_env.truncate env) now db st policy ms cs (Some prompt)
                                      (header_client_ip hs) of
                                 (st', Inl e) \<Rightarrow> (st', None)
                               | (st', Inr None) \<Rightarrow> (st', Some (ext_deny 502 ''no available upstream''))
                               | (st', Inr (Some d)) \<Rightarrow>
                                   (st', Some (ext_allow (route_headers request_id snap proto modality name d))))))"

definition ext_decide ::
    "ext_env \<Rightarrow> datetime \<Rightarrow> ext_state \<Rightarrow> headers \<Rightarrow> string \<Rightarrow> ext_state \<times> ext_decision option" where
  "ext_decide env now s hs body =
     (case ext_admit env now s hs of
        (s1, None) \<Rightarrow> (s1, None)
      | (s1, Some (Inl (code, msg))) \<Rightarrow> (s1, Some (ext_deny code msg))
      | ((db, w, st), Some (Inr snap)) \<Rightarrow>
          (case ext_route env now db st snap hs body of (st', r) \<Rightarrow> ((db, w, st'), r)))"

section \<open>The stream\<close>

datatype ext_message =
    request_headers "(string \<times> string \<times> string) list" bool
  | request_body string bool
  | other_message

datatype ext_response =
    continue_headers
  | mutate_headers headers
  | body_continue
  | continue_body headers
  | immediate_response nat headers string
  | empty_response

definition deny :: "nat \<Rightarrow> string \<Rightarrow> ext_response" where
  "deny code message = immediate_response code [(''content-type'', ''application/json'')]
     (ascii_text (py_dumps (\<lambda>r. []) (JObj [(''error'', JObj [(''message'', JStr message)])])))"

definition is_cors_preflight :: "headers \<Rightarrow> bool" where
  "is_cors_preflight hs \<longleftrightarrow> py_upper (hdr hs '':method'') = ''OPTIONS'' \<and> hdr hs ''origin'' \<noteq> []
     \<and> hdr hs ''access-control-request-method'' \<noteq> []"

definition cors_preflight :: "headers \<Rightarrow> ext_response" where
  "cors_preflight hs = immediate_response 204
     ([(''access-control-allow-origin'', if hdr hs ''origin'' \<noteq> [] then hdr hs ''origin'' else ''*''),
       (''access-control-allow-methods'', ''GET,POST,OPTIONS''),
       (''access-control-allow-headers'', if hdr hs ''access-control-request-headers'' \<noteq> []
          then hdr hs ''access-control-request-headers''
          else ''authorization,content-type,x-api-key,anthropic-version''),
       (''access-control-allow-credentials'', ''true''), (''access-control-max-age'', ''600''),
       (''vary'', ''Origin, Access-Control-Request-Method, Access-Control-Request-Headers'')]
      @ (if py_lower (hdr hs ''access-control-request-private-network'') = ''true''
         then [(''access-control-allow-private-network'', ''true'')] else [])) []"

definition check_token :: "string \<Rightarrow> (string \<times> string) list \<Rightarrow> bool" where
  \<comment> \<open>\<open>_check_token\<close>: the setting \<open>XDS_AUTH_TOKEN\<close> and the call's metadata, a later entry winning\<close>
  "check_token raw md =
     (let accepted = filter (\<lambda>t. t \<noteq> []) (map py_strip (py_split_chr (CHR '','') raw)) in
      accepted = [] \<or> (case map_of (rev md) ''x-llmxy-token'' of None \<Rightarrow> False | Some t \<Rightarrow> t \<in> set accepted))"

fun process_loop ::
    "(ext_state \<Rightarrow> headers \<Rightarrow> string \<Rightarrow> ext_state \<times> ext_decision option) \<Rightarrow> ext_message list \<Rightarrow> headers \<Rightarrow> string
       \<Rightarrow> ext_state \<Rightarrow> ext_state \<times> ext_response list \<times> bool" where
  \<comment> \<open>the responses and whether the stream ends without raising\<close>
  "process_loop dec [] hs body s = (s, [], True)"
| "process_loop dec (request_headers raw end_of_stream # ms) hs body s =
     (let hs' = headers_map raw in
      if is_cors_preflight hs' then (s, [cors_preflight hs'], True)
      else if end_of_stream then
        (case dec s hs' [] of
           (s1, None) \<Rightarrow> (s1, [], False)
         | (s1, Some (ext_deny code msg)) \<Rightarrow> (s1, [deny code msg], True)
         | (s1, Some (ext_allow out)) \<Rightarrow>
             (case process_loop dec ms hs' body s1 of (s2, rs, ok) \<Rightarrow> (s2, mutate_headers out # rs, ok)))
      else (case process_loop dec ms hs' body s of (s2, rs, ok) \<Rightarrow> (s2, continue_headers # rs, ok)))"
| "process_loop dec (request_body chunk end_of_stream # ms) hs body s =
     (if \<not> end_of_stream
      then (case process_loop dec ms hs (body @ chunk) s of (s2, rs, ok) \<Rightarrow> (s2, body_continue # rs, ok))
      else (case dec s hs (body @ chunk) of
              (s1, None) \<Rightarrow> (s1, [], False)
            | (s1, Some (ext_deny code msg)) \<Rightarrow> (s1, [deny code msg], True)
            | (s1, Some (ext_allow out)) \<Rightarrow>
                (case process_loop dec ms hs (body @ chunk) s1 of (s2, rs, ok) \<Rightarrow> (s2, continue_body out # rs, ok))))"
| "process_loop dec (other_message # ms) hs body s =
     (case process_loop dec ms hs body s of (s2, rs, ok) \<Rightarrow> (s2, empty_response # rs, ok))"

definition ext_process ::
    "ext_env \<Rightarrow> (string \<times> string) list \<Rightarrow> datetime \<Rightarrow> ext_message list \<Rightarrow> ext_state
       \<Rightarrow> ext_state \<times> ext_response list \<times> bool" where
  \<comment> \<open>\<open>Process\<close>; a call with a wrong token is aborted\<close>
  "ext_process env md now ms s =
     (if \<not> check_token (xe_tokens env) md then (s, [], False)
      else process_loop (ext_decide env now) ms [] [] s)"

end
