(* ===== verification/Als.thy ===== *)
theory Als
  imports Ext_Proc
begin

text \<open>
  The access log service \<^verbatim>\<open>services/envoy/als_server.py\<close> with its ring buffer
  \<^verbatim>\<open>services/envoy/access_log_buffer.py\<close>. Envoy streams one entry per request; each is formatted into the
  buffer of its node, and a request that was not billed synchronously is charged and logged here,
  in one transaction, and then mirrored to Redis. An entry is given by the fields the code reads.
\<close>

section \<open>The ring buffer\<close>

definition max_lines_per_node :: nat where "max_lines_per_node = 500"

type_synonym buffers = "string \<rightharpoonup> string list"

definition deque_append :: "nat \<Rightarrow> string \<Rightarrow> string list \<Rightarrow> string list" where
  \<comment> \<open>\<open>append\<close> of a \<open>deque(maxlen=n)\<close>: a full one loses its oldest element\<close>
  "deque_append n line buf = (let ls = buf @ [line] in drop (length ls - n) ls)"

definition buffer_append :: "string \<Rightarrow> string \<Rightarrow> buffers \<Rightarrow> buffers" where
  "buffer_append node line bs =
     (if node = [] then bs
      else bs(node \<mapsto> deque_append max_lines_per_node line (case bs node of None \<Rightarrow> [] | Some buf \<Rightarrow> buf)))"

definition buffer_tail :: "string \<Rightarrow> int \<Rightarrow> buffers \<Rightarrow> string list" where
  \<comment> \<open>the slice \<open>[-n:]\<close> keeps everything for \<open>n = 0\<close> and drops from the front for a negative \<open>n\<close>\<close>
  "buffer_tail node n bs =
     (case bs node of
        None \<Rightarrow> []
      | Some buf \<Rightarrow>
          if n \<ge> int (length buf) then buf
          else if n > 0 then drop (length buf - nat n) buf
          else drop (nat (- n)) buf)"

definition buffer_clear :: "string \<Rightarrow> buffers \<Rightarrow> buffers" where
  "buffer_clear node bs = bs(node := None)"

section \<open>Entries\<close>

record als_entry =
  en_request_headers :: headers
  en_response_headers :: headers
  en_request_method :: int
  en_protocol_version :: int
  en_original_path :: string
  en_path :: string
  en_forwarded_for :: string
  en_user_agent :: string
  en_request_id :: string
  en_authority :: string
  en_request_body_bytes :: int
  en_response_body_bytes :: int
  en_response_code :: "int option"
  en_response_flags :: "string list option"
    \<comment> \<open>the names of the flags that are set\<close>
  en_start_time :: "datetime option"
  en_duration :: "(int \<times> int) option"
    \<comment> \<open>seconds and nanoseconds\<close>
  en_upstream_remote_address :: "(string \<times> int) option option"
    \<comment> \<open>the inner option is the socket address\<close>
  en_usage :: "(string \<times> rat option) list option"
    \<comment> \<open>the number fields of the metadata \<open>llmxy.usage\<close>; \<open>None\<close> is a number that is not finite\<close>

definition als_hdr :: "headers \<Rightarrow> string \<Rightarrow> string option" where
  \<comment> \<open>\<open>_hdr\<close>: the exact name first, then the first that differs only in case\<close>
  "als_hdr hs name =
     (case map_of hs name of
        Some v \<Rightarrow> Some v
      | None \<Rightarrow> map_option snd (find (\<lambda>(k, v). py_lower k = py_lower name) hs))"

section \<open>The access log line\<close>

definition response_flag_short :: "(string \<times> string) list" where
  "response_flag_short =
     [(''failed_local_healthcheck'', ''LH''), (''no_healthy_upstream'', ''UH''), (''upstream_request_timeout'', ''UT''),
      (''local_reset'', ''LR''), (''upstream_remote_reset'', ''UR''), (''upstream_connection_failure'', ''UF''),
      (''upstream_connection_termination'', ''UC''), (''upstream_overflow'', ''UO''), (''no_route_found'', ''NR''),
      (''delay_injected'', ''DI''), (''fault_injected'', ''FI''), (''rate_limited'', ''RL''),
      (''unauthorized_details'', ''UAEX''), (''rate_limit_service_error'', ''RLSE''),
      (''downstream_connection_termination'', ''DC''), (''upstream_retry_limit_exceeded'', ''URX''),
      (''stream_idle_timeout'', ''SI''), (''invalid_envoy_request_headers'', ''IH''),
      (''downstream_protocol_error'', ''DPE''), (''upstream_max_stream_duration_reached'', ''UMSDR''),
      (''response_from_cache_filter'', ''RFCF''), (''no_filter_config_found'', ''NFCF''), (''duration_timeout'', ''DT''),
      (''upstream_protocol_error'', ''UPE''), (''no_cluster_found'', ''NC''), (''overload_manager'', ''OM''),
      (''dns_resolution_failure'', ''DF'')]"

definition protocol_names :: "(int \<times> string) list" where
  "protocol_names = [(0, ''-''), (1, ''HTTP/1.0''), (2, ''HTTP/1.1''), (3, ''HTTP/2''), (4, ''HTTP/3'')]"

definition method_names :: "(int \<times> string) list" where
  "method_names = [(0, ''-''), (1, ''GET''), (2, ''HEAD''), (3, ''POST''), (4, ''PUT''), (5, ''DELETE''),
     (6, ''CONNECT''), (7, ''OPTIONS''), (8, ''TRACE''), (9, ''PATCH'')]"

definition render_response_flags :: "string list option \<Rightarrow> string" where
  "render_response_flags rf =
     (case rf of
        None \<Rightarrow> ''-''
      | Some flags \<Rightarrow>
          (let codes = map snd (filter (\<lambda>(field, code). field \<in> set flags) response_flag_short)
           in if codes \<noteq> [] then py_join '','' codes else ''-''))"

definition fmt_address :: "(string \<times> int) option \<Rightarrow> string" where
  "fmt_address addr =
     (case addr of
        None \<Rightarrow> ''-''
      | Some (address, port) \<Rightarrow> if address \<noteq> [] then address @ '':'' @ str_int port else ''-'')"

definition pad :: "nat \<Rightarrow> int \<Rightarrow> string" where
  \<comment> \<open>zero-padded to a width\<close>
  "pad w i = (let s = str_int i in replicate (w - length s) (CHR ''0'') @ s)"

definition start_time_text :: "datetime \<Rightarrow> string" where
  \<comment> \<open>\<open>strftime("%Y-%m-%dT%H:%M:%S.")\<close> with milliseconds and \<open>Z\<close>\<close>
  "start_time_text t =
     (case ord2ymd (dt_ordinal t) of
        (y, mo, d) \<Rightarrow>
          (let s = (t mod us_per_day) div us_per_second
           in pad 4 y @ ''-'' @ pad 2 (int mo) @ ''-'' @ pad 2 d @ ''T'' @ pad 2 (s div 3600) @ '':''
              @ pad 2 (s div 60 mod 60) @ '':'' @ pad 2 (s mod 60) @ ''.''
              @ pad 3 (t mod us_per_second div 1000) @ ''Z''))"

definition duration_ms :: "als_entry \<Rightarrow> int" where
  \<comment> \<open>\<open>int(d.seconds * 1000 + d.nanos / 1_000_000)\<close>; the float sum keeps the integer part for
      durations below 2 ^ 32 milliseconds\<close>
  "duration_ms e =
     (case en_duration e of None \<Rightarrow> 0
      | Some (seconds, nanos) \<Rightarrow> trunc_rat (of_int (seconds * 1000) + of_int nanos / 1000000))"

definition first_text :: "string list \<Rightarrow> string" where
  \<comment> \<open>\<open>a or b or ... or "-"\<close>\<close>
  "first_text ss = (case filter (\<lambda>s. s \<noteq> []) ss of [] \<Rightarrow> ''-'' | s # _ \<Rightarrow> s)"

definition hdr_text :: "headers \<Rightarrow> string \<Rightarrow> string" where
  "hdr_text hs name = or_text (als_hdr hs name) []"

definition quoted :: "string \<Rightarrow> string" where
  "quoted s = [CHR 0x22] @ s @ [CHR 0x22]"

definition access_line :: "datetime \<Rightarrow> als_entry \<Rightarrow> string" where
  "access_line now e =
     (let req = en_request_headers e;
          meth = (case map_of method_names (en_request_method e) of None \<Rightarrow> ''-'' | Some t \<Rightarrow> t);
          path = first_text [en_original_path e, en_path e];
          protocol = (case map_of protocol_names (en_protocol_version e) of None \<Rightarrow> ''-'' | Some t \<Rightarrow> t)
      in ''['' @ start_time_text (case en_start_time e of None \<Rightarrow> now | Some t \<Rightarrow> t) @ ''] ''
         @ quoted (meth @ '' '' @ path @ '' '' @ protocol) @ '' ''
         @ str_int (case en_response_code e of None \<Rightarrow> 0 | Some c \<Rightarrow> c) @ '' ''
         @ render_response_flags (en_response_flags e) @ '' ''
         @ str_int (en_request_body_bytes e) @ '' '' @ str_int (en_response_body_bytes e) @ '' ''
         @ str_int (duration_ms e) @ '' ''
         @ first_text [hdr_text (en_response_headers e) ''x-envoy-upstream-service-time''] @ '' ''
         @ quoted (first_text [en_forwarded_for e, hdr_text req ''x-forwarded-for'']) @ '' ''
         @ quoted (first_text [en_user_agent e, hdr_text req ''user-agent'']) @ '' ''
         @ quoted (first_text [en_request_id e, hdr_text req ''x-request-id'', hdr_text req ''x-llmxy-request-id'']) @ '' ''
         @ quoted (first_text [en_authority e]) @ '' ''
         @ quoted (case en_upstream_remote_address e of None \<Rightarrow> ''-'' | Some a \<Rightarrow> fmt_address a))"

definition record_access_line :: "datetime \<Rightarrow> string option \<Rightarrow> als_entry \<Rightarrow> buffers \<Rightarrow> buffers" where
  "record_access_line now node e bs =
     (if or_text node [] = [] then bs else buffer_append (or_text node []) (access_line now e) bs)"

section \<open>Billing an entry\<close>

record als_env =
  al_sync :: bool
  al_commit :: bool
  al_commit_degraded :: bool
  al_tokens :: string
  \<comment> \<open>session synchronisation, whether the database accepts each of the two commits, and
      \<open>settings.XDS_AUTH_TOKEN\<close>\<close>

definition usage_number :: "(string \<times> rat option) list \<Rightarrow> string \<Rightarrow> int option" where
  "usage_number fs k =
     (case map_of fs k of None \<Rightarrow> Some 0 | Some None \<Rightarrow> None | Some (Some r) \<Rightarrow> Some (trunc_rat r))"

definition extract_usage :: "als_entry \<Rightarrow> int \<times> int" where
  "extract_usage e =
     (case en_usage e of
        None \<Rightarrow> (0, 0)
      | Some fs \<Rightarrow>
          (case (usage_number fs ''prompt_tokens'', usage_number fs ''completion_tokens'') of
             (Some pt, Some ct) \<Rightarrow> (pt, ct)
           | _ \<Rightarrow> (0, 0)))"

record als_request =
  ar_request_id :: string
  ar_user_id :: int
  ar_api_key_id :: "int option"
  ar_model_id :: "int option"
  ar_user_facing_model :: "string option"
  ar_upstream_model :: "string option"
  ar_resolved_label :: "string option"
  ar_cls_model_id :: "int option"
  ar_cls_upstream :: "string option"
  ar_cls_prompt_tokens :: int
  ar_cls_latency_ms :: int
  ar_cls_status :: "string option"
  ar_status :: string
  ar_duration_ms :: int
  ar_prompt_tokens :: int
  ar_completion_tokens :: int

definition digits_or :: "'a \<Rightarrow> (int \<Rightarrow> 'a) \<Rightarrow> string option \<Rightarrow> 'a" where
  \<comment> \<open>\<open>int(h) if (h and h.isdigit()) else default\<close>\<close>
  "digits_or d f h = (case h of None \<Rightarrow> d | Some s \<Rightarrow> if py_isdigit s then f (digits_val s) else d)"

definition entry_status :: "als_entry \<Rightarrow> string" where
  "entry_status e =
     (let rc = (case en_response_code e of None \<Rightarrow> 0 | Some c \<Rightarrow> c)
      in if 200 \<le> rc \<and> rc < 300 then ''ok'' else ''error'')"

definition billed_sync :: "headers \<Rightarrow> bool" where
  "billed_sync hs \<longleftrightarrow> py_lower (hdr_text hs ''x-llmxy-billed-sync'') = ''true''"

definition read_entry :: "als_entry \<Rightarrow> als_request option" where
  \<comment> \<open>the first part of \<open>_ingest_entry\<close>: \<open>None\<close> where it returns or where \<open>int(user_id)\<close> raises, which
      the stream handler catches\<close>
  "read_entry e =
     (let hs = en_request_headers e in
      if billed_sync hs then None
      else if hdr_text hs ''x-llmxy-user-id'' = [] \<or> hdr_text hs ''x-llmxy-model-id'' = [] then None
      else case int_of_text (hdr_text hs ''x-llmxy-user-id'') of
        Inl _ \<Rightarrow> None
      | Inr uid \<Rightarrow> Some
          \<lparr>ar_request_id = first_text [hdr_text hs ''x-llmxy-request-id''], ar_user_id = uid,
           ar_api_key_id = digits_or None Some (als_hdr hs ''x-llmxy-api-key-id''),
           ar_model_id = digits_or None Some (als_hdr hs ''x-llmxy-model-id''),
           ar_user_facing_model = als_hdr hs ''x-llmxy-user-facing-model'',
           ar_upstream_model = als_hdr hs ''x-llmxy-upstream-model'',
           ar_resolved_label = als_hdr hs ''x-llmxy-resolved-label'',
           ar_cls_model_id = digits_or None Some (als_hdr hs ''x-llmxy-classifier-model-id''),
           ar_cls_upstream = als_hdr hs ''x-llmxy-classifier-upstream-model'',
           ar_cls_prompt_tokens = digits_or 0 (\<lambda>i. i) (als_hdr hs ''x-llmxy-classifier-prompt-tokens''),
           ar_cls_latency_ms = digits_or 0 (\<lambda>i. i) (als_hdr hs ''x-llmxy-classifier-latency-ms''),
           ar_cls_status = als_hdr hs ''x-llmxy-classifier-status'',
           ar_status = entry_status e, ar_duration_ms = duration_ms e,
           ar_prompt_tokens = fst (extract_usage e), ar_completion_tokens = snd (extract_usage e)\<rparr>)"

definition als_log :: "als_request \<Rightarrow> int \<Rightarrow> string \<Rightarrow> usage_log" where
  "als_log q cost status =
     \<lparr>ul_user_id = ar_user_id q, ul_api_key_id = ar_api_key_id q, ul_model_id = ar_model_id q,
      ul_user_facing_model = ar_user_facing_model q, ul_upstream_model = ar_upstream_model q,
      ul_prompt_tokens = ar_prompt_tokens q, ul_completion_tokens = ar_completion_tokens q,
      ul_cost_cents = cost, ul_image_count = 0, ul_meta_jsonb = JNull, ul_latency_ms = ar_duration_ms q,
      ul_status = status, ul_request_id = Some (ar_request_id q), ul_kind = ''relay'',
      ul_resolved_label = ar_resolved_label q\<rparr>"

definition classifier_log :: "als_request \<Rightarrow> int \<Rightarrow> usage_log list" where
  \<comment> \<open>written when the headers carry a classifier model and a status\<close>
  "classifier_log q cost =
     (case (ar_cls_model_id q, or_text (ar_cls_status q) []) of
        (None, _) \<Rightarrow> []
      | (_, []) \<Rightarrow> []
      | (Some mid, status) \<Rightarrow>
          [(als_log q cost status)
           \<lparr>ul_model_id := Some mid,
            ul_upstream_model := (if or_text (ar_cls_upstream q) [] = [] then None else ar_cls_upstream q),
            ul_prompt_tokens := ar_cls_prompt_tokens q, ul_completion_tokens := 0,
            ul_latency_ms := ar_cls_latency_ms q, ul_kind := ''classifier''\<rparr>])"

definition log_refs :: "session \<Rightarrow> usage_log \<Rightarrow> bool" where
  \<comment> \<open>the foreign keys of \<open>usage_logs\<close>\<close>
  "log_refs db l \<longleftrightarrow> get_user db (ul_user_id l) \<noteq> None
     \<and> (case ul_api_key_id l of None \<Rightarrow> True | Some i \<Rightarrow> get_api_key_row db i \<noteq> None)
     \<and> (case ul_model_id l of None \<Rightarrow> True | Some i \<Rightarrow> get_model db i \<noteq> None)"

definition lookup_row :: "(int \<Rightarrow> 'r option) \<Rightarrow> int option \<Rightarrow> 'r option" where
  "lookup_row get i = (case i of None \<Rightarrow> None | Some j \<Rightarrow> get j)"

definition relay_cost :: "session \<Rightarrow> als_request \<Rightarrow> int" where
  \<comment> \<open>\<open>billable_relay\<close>\<close>
  "relay_cost db q =
     (if ar_status q = ''ok''
      then calc_cost_cents (lookup_row (get_model db) (ar_model_id q)) (ar_prompt_tokens q) (ar_completion_tokens q)
      else 0)"

definition classifier_cost :: "session \<Rightarrow> als_request \<Rightarrow> int" where
  "classifier_cost db q =
     (if ar_cls_status q = Some ''ok''
      then calc_cost_cents (lookup_row (get_model db) (ar_cls_model_id q)) (ar_cls_prompt_tokens q) 0 else 0)"

definition charge_text :: "session \<Rightarrow> als_request \<Rightarrow> string" where
  "charge_text db q =
     (let base = or_text (ar_user_facing_model q) [] in
      if classifier_cost db q > 0 \<and> relay_cost db q > 0 then base @ '' [relay+classifier]''
      else if classifier_cost db q > 0 then base @ '' [classifier]'' else base)"

definition charge_entry ::
    "als_env \<Rightarrow> datetime \<Rightarrow> session \<Rightarrow> als_request \<Rightarrow> session \<times> api_key option \<times> breakdown" where
  \<comment> \<open>the key comes back loaded only where the user was charged\<close>
  "charge_entry env now db q =
     (let cost = relay_cost db q + classifier_cost db q in
      case (cost > 0, get_user db (ar_user_id q)) of
        (True, Some u) \<Rightarrow>
          (case charge_user (al_sync env) now db u (lookup_row (get_api_key_row db) (ar_api_key_id q)) cost
                  (Some (ar_request_id q)) (Some (charge_text db q)) of
             (db', u', k', bd) \<Rightarrow> (db', k', bd))
      | _ \<Rightarrow> (db, None, []))"

definition key_window_start :: "api_key option \<Rightarrow> int" where
  "key_window_start k =
     (case k of
        None \<Rightarrow> 0
      | Some ak \<Rightarrow>
          (case (ak_quota_mode ak, ak_quota_period_start ak) of
             (periodic, Some t) \<Rightarrow> timestamp_int t
           | _ \<Rightarrow> 0))"

definition write_usage_log_only :: "als_env \<Rightarrow> session \<Rightarrow> als_request \<Rightarrow> session" where
  "write_usage_log_only env db q =
     (let l = als_log q 0 ''error''
      in if al_commit_degraded env \<and> log_refs db l then add_usage_log l db else db)"

definition entry_logs :: "session \<Rightarrow> als_request \<Rightarrow> usage_log list" where
  "entry_logs db q = als_log q (relay_cost db q) (ar_status q) # classifier_log q (classifier_cost db q)"

definition bill_entry :: "als_env \<Rightarrow> datetime \<Rightarrow> session \<Rightarrow> redis \<Rightarrow> als_request \<Rightarrow> session \<times> redis" where
  \<comment> \<open>the \<open>try\<close> block of \<open>_ingest_entry\<close> and its handler\<close>
  "bill_entry env now db r q =
     (if (case lookup_row (get_model db) (ar_model_id q) of None \<Rightarrow> False | Some m \<Rightarrow> md_kind m = ''image'')
      then (db, r)
      else case charge_entry env now db q of
        (db1, k, bd) \<Rightarrow>
          let logs = entry_logs db q in
          if al_commit env \<and> list_all (log_refs db) logs
          then (foldl (\<lambda>s l. add_usage_log l s) db1 logs,
                if bd = [] then r
                else apply_charge now (ar_user_id q) (ar_api_key_id q) (relay_cost db q + classifier_cost db q)
                       (key_window_start k) bd r)
          else (write_usage_log_only env db q, r))"

definition ingest_entry :: "als_env \<Rightarrow> datetime \<Rightarrow> als_entry \<Rightarrow> session \<times> redis \<Rightarrow> session \<times> redis" where
  "ingest_entry env now e s =
     (case s of (db, r) \<Rightarrow> (case read_entry e of None \<Rightarrow> (db, r) | Some q \<Rightarrow> bill_entry env now db r q))"

section \<open>The stream\<close>

record als_state =
  ls_db :: session
  ls_redis :: redis
  ls_buffers :: buffers
  ls_nodes :: "(string \<times> datetime option) list"
    \<comment> \<open>\<open>node_id\<close> and \<open>last_seen_at\<close> of the registered instances\<close>

record als_message =
  am_node :: "string option"
    \<comment> \<open>\<open>identifier.node.id\<close>, where it is present and not empty\<close>
  am_entries :: "als_entry list option"

definition als_entry_step :: "als_env \<Rightarrow> datetime \<Rightarrow> string option \<Rightarrow> als_entry \<Rightarrow> als_state \<Rightarrow> als_state" where
  "als_entry_step env now node e s =
     (case ingest_entry env now e (ls_db s, ls_redis s) of
        (db', r') \<Rightarrow> s\<lparr>ls_db := db', ls_redis := r', ls_buffers := record_access_line now node e (ls_buffers s)\<rparr>)"

definition node_exists :: "string \<Rightarrow> als_state \<Rightarrow> bool" where
  "node_exists n s \<longleftrightarrow> map_of (ls_nodes s) n \<noteq> None"

definition touch_node :: "datetime \<Rightarrow> string option \<Rightarrow> als_state \<Rightarrow> als_state" where
  \<comment> \<open>after the stream\<close>
  "touch_node now node s =
     (case node of
        None \<Rightarrow> s
      | Some n \<Rightarrow> s\<lparr>ls_nodes := map (\<lambda>(i, t). (i, if i = n then Some now else t)) (ls_nodes s)\<rparr>)"

fun stream_loop ::
    "als_env \<Rightarrow> datetime \<Rightarrow> als_message list \<Rightarrow> string option \<Rightarrow> als_state \<Rightarrow> als_state \<times> string option" where
  \<comment> \<open>\<open>node\<close> is \<open>node_id_from_msg\<close>, set exactly when \<open>authed\<close> is; the error text when the call is aborted\<close>
  "stream_loop env now [] node s = (touch_node now node s, None)"
| "stream_loop env now (msg # msgs) node s =
     (let node' = (if node = None then am_node msg else node) in
      case (node = None, node') of
        (True, Some n) \<Rightarrow>
          if node_exists n s
          then stream_loop env now msgs node'
                 (fold (als_entry_step env now node') (case am_entries msg of None \<Rightarrow> [] | Some es \<Rightarrow> es) s)
          else (s, Some (''unknown node '' @ n))
      | _ \<Rightarrow>
          stream_loop env now msgs node'
            (fold (als_entry_step env now node') (case am_entries msg of None \<Rightarrow> [] | Some es \<Rightarrow> es) s))"

definition stream_handler ::
    "als_env \<Rightarrow> (string \<times> string) list \<Rightarrow> datetime \<Rightarrow> als_message list \<Rightarrow> als_state \<Rightarrow> als_state \<times> string option" where
  "stream_handler env md now msgs s =
     (if \<not> check_token (al_tokens env) md then (s, Some ''invalid x-llmxy-token'')
      else stream_loop env now msgs None s)"

end
