(* ===== verification/Responses_Relay.thy ===== *)
theory Responses_Relay
  imports Messages_Relay Responses_Protocol
begin

text \<open>
  The responses endpoint \<^verbatim>\<open>api/relay/responses.py\<close>: \<open>POST /v1/responses\<close> is converted to the chat contract,
  relayed and billed as a chat request, and its answer converted back. The token counts that are
  billed for a stream are those the endpoint finds in single chunks, not the converter's.
\<close>

record response_ids =
  ri_response :: string
  ri_item :: string
  ri_created :: int
  ri_completed :: int

definition ids_stream :: "response_ids \<Rightarrow> json \<Rightarrow> responses_stream" where
  "ids_stream ids name = new_responses_stream (ri_response ids) (ri_item ids) (ri_created ids) (ri_completed ids) name"

definition responses_request :: "(json \<Rightarrow> string) \<Rightarrow> json \<Rightarrow> (dict \<times> dict \<times> string) result" where
  "responses_request repr body =
     (case body of
        JObj payload \<Rightarrow>
          (let name = dict_get_none payload ''model'' in
           if \<not> truthy name then Inl (http 400 ''missing model'')
           else bind_result (or_500 (responses_to_openai_chat_payload repr payload)) (\<lambda>chat_payload.
                  case name of JStr s \<Rightarrow> Inr (payload, chat_payload, s) | _ \<Rightarrow> Inl internal_error))
      | _ \<Rightarrow> Inl internal_error)"

fun chunk_tokens :: "(string \<Rightarrow> json option) \<Rightarrow> string list \<Rightarrow> int \<times> int \<Rightarrow> string list \<times> (int \<times> int) option" where
  \<comment> \<open>\<open>source()\<close>: the chunks it passes on and the counts, \<open>None\<close> when it raises\<close>
  "chunk_tokens loads [] t = ([], Some t)"
| "chunk_tokens loads (ch # chs) (pt, ct) =
     (case (case parse_usage_from_chunk loads ch of
              None \<Rightarrow> Inr (pt, ct)
            | Some v \<Rightarrow>
                bind_result (need_obj v) (\<lambda>us.
                bind_result (py_int (py_or (dict_get_none us ''prompt_tokens'') (JInt pt))) (\<lambda>pt'.
                bind_result (py_int (py_or (dict_get_none us ''completion_tokens'') (JInt ct))) (\<lambda>ct'.
                  Inr (pt', ct'))))) of
        Inl e \<Rightarrow> ([], None)
      | Inr t \<Rightarrow> (case chunk_tokens loads chs t of (sent, r) \<Rightarrow> (ch # sent, r)))"

definition responses_run ::
    "(string \<Rightarrow> json option) \<Rightarrow> (json \<Rightarrow> string) \<Rightarrow> string list \<Rightarrow> bool \<Rightarrow> responses_stream
       \<Rightarrow> sse_event list \<times> (int \<times> int) option" where
  \<comment> \<open>the converter fed by \<open>source()\<close>: the events sent, and the counts when it ends; \<open>ends\<close> tells
      whether the upstream ends without raising\<close>
  "responses_run loads repr chs ends st =
     (case chunk_tokens loads chs (0, 0) of
        (sent, t) \<Rightarrow>
          (case responses_objs repr (map snd (iter_sse_events loads [] sent)) st of
             (es, Some st') \<Rightarrow>
               (case t of
                  Some tokens \<Rightarrow> if ends then (es @ responses_finish st', Some tokens) else (es, None)
                | None \<Rightarrow> (es, None))
           | (es, None) \<Rightarrow> (es, None)))"

definition responses_streamed ::
    "(rat \<Rightarrow> string) \<Rightarrow> response_ids \<Rightarrow> relay_env \<Rightarrow> datetime \<Rightarrow> session \<Rightarrow> route_state \<Rightarrow> user \<Rightarrow> api_key option
       \<Rightarrow> route_decision \<Rightarrow> string \<Rightarrow> dict \<Rightarrow> session \<times> route_state \<times> relay_response result" where
  \<comment> \<open>\<open>streamer()\<close>\<close>
  "responses_streamed fr ids env now db st u k d name payload =
     (case chat_loop env (ss_calls st) payload True (decision_candidates d) JNull of
        Inl e \<Rightarrow> (db, st, Inr (response_stream [] False))
      | Inr (m, r) \<Rightarrow>
          (case cr_stream r of
             None \<Rightarrow> (db, st, Inr (response_stream [] False))
           | Some (chunks, ends) \<Rightarrow>
               (case responses_run (rl_loads env) (se_repr env) chunks ends (ids_stream ids (JStr name)) of
                  (es, None) \<Rightarrow> (db, st, Inr (response_stream (map (sse fr) es) False))
                | (es, Some (pt, ct)) \<Rightarrow>
                    (case settle_relay env now d name m pt ct (db, u, k) of
                       (db', u', k') \<Rightarrow>
                         (case commit_relay now db' st of
                            (db'', st') \<Rightarrow>
                              (db'', st', Inr (response_stream (map (sse fr) es @ [done_line]) True)))))))"

definition responses_json ::
    "response_ids \<Rightarrow> relay_env \<Rightarrow> datetime \<Rightarrow> session \<Rightarrow> route_state \<Rightarrow> user \<Rightarrow> api_key option \<Rightarrow> route_decision
       \<Rightarrow> string \<Rightarrow> dict \<Rightarrow> session \<times> route_state \<times> relay_response result" where
  \<comment> \<open>as for Anthropic messages, the conversion runs after the commit\<close>
  "responses_json ids env now db st u k d name payload =
     (case chat_loop env (ss_calls st) payload False (decision_candidates d) JNull of
        Inl e \<Rightarrow> (db, st, Inl (all_failed env e))
      | Inr (m, r) \<Rightarrow>
          (case settle_relay env now d name m (cr_prompt_tokens r) (cr_completion_tokens r) (db, u, k) of
             (db', u', k') \<Rightarrow>
               (case commit_relay now db' st of
                  (db'', st') \<Rightarrow>
                    (db'', st', bind_result (or_500 (openai_chat_to_responses_response (se_repr env) (ri_response ids)
                                   (ri_item ids) (ri_completed ids) (cr_body r) (JStr name)))
                                  (\<lambda>v. Inr (response_json v))))))"

definition responses ::
    "(rat \<Rightarrow> string) \<Rightarrow> response_ids \<Rightarrow> relay_env \<Rightarrow> datetime \<Rightarrow> session \<Rightarrow> route_state \<Rightarrow> user \<Rightarrow> api_key option
       \<Rightarrow> relay_request \<Rightarrow> session \<times> route_state \<times> relay_response result" where
  "responses fr ids env now db st u k rq =
     (case relay_admit env now db st u k of
        (st1, Inl e) \<Rightarrow> (db, st1, Inl e)
      | (st1, Inr _) \<Rightarrow>
          (case rq_json rq of
             None \<Rightarrow> (db, st1, Inl (http 400 ''invalid json body''))
           | Some body \<Rightarrow>
               (case responses_request (se_repr env) body of
                  Inl e \<Rightarrow> (db, st1, Inl e)
                | Inr (payload, chat_payload, name) \<Rightarrow>
                    (case decide env now db st1 rq chat_payload name ''chat'' ''openai.responses'' ''no available upstream'' of
                       (st2, Inl e) \<Rightarrow> (db, st2, Inl e)
                     | (st2, Inr d) \<Rightarrow>
                         if truthy (dict_get_none payload ''stream'')
                         then responses_streamed fr ids env now db st2 u k d name chat_payload
                         else responses_json ids env now db st2 u k d name chat_payload))))"

end
