(* ===== verification/Translate.thy ===== *)
theory Translate
  imports Responses_Relay
begin

text \<open>
  The internal translator \<^verbatim>\<open>api/internal/translate.py\<close>, which Envoy calls once the external processor
  has admitted a request. The headers of the processor name the user, the key and the chain of
  upstreams; the translator tries them in order, converts between protocols, charges the user and
  writes the usage log.

  Every endpoint opens its session in an \<open>async with\<close> block around the handler. A streamed body
  runs after that block was left, so its loaded objects no longer belong to the session: the bulk
  updates of the charge reach the rows, the assignments to the objects do not.
\<close>

record translate_headers =
  th_channel_id :: "string option"
  th_model_id :: "string option"
  th_user_id :: "string option"
  th_api_key_id :: "string option"
  th_user_facing_model :: "string option"
  th_upstream_model :: "string option"
  th_upstream_protocol :: "string option"
  th_connector_type :: "string option"
  th_chat_chain :: "string option"
  th_embedding_chain :: "string option"
  th_image_chain :: "string option"
  th_request_id :: "string option"
  th_resolved_label :: "string option"
  th_classifier_model_id :: "string option"
  th_classifier_upstream_model :: "string option"
  th_classifier_prompt_tokens :: "string option"
  th_classifier_latency_ms :: "string option"
  th_classifier_status :: "string option"

section \<open>Reading the headers\<close>

definition header_int :: "string option \<Rightarrow> int option" where
  \<comment> \<open>\<open>int(h) if (h and h.isdigit()) else None\<close>\<close>
  "header_int h =
     (case h of None \<Rightarrow> None | Some s \<Rightarrow> if py_isdigit s then Some (digits_val s) else None)"

definition load_row :: "('r \<Rightarrow> int) \<Rightarrow> 'r list \<Rightarrow> string option \<Rightarrow> 'r option" where
  \<comment> \<open>\<open>db.get(Table, int(h))\<close> for a header that is a number\<close>
  "load_row rid rows h = (case header_int h of None \<Rightarrow> None | Some i \<Rightarrow> row_get rid i rows)"

definition load_channel :: "session \<Rightarrow> string option \<Rightarrow> channel result" where
  "load_channel db h =
     (case header_int h of
        None \<Rightarrow> Inl (http 400 ''missing or invalid x-llmxy-channel-id'')
      | Some i \<Rightarrow>
          (case row_get ch_id i (channels db) of
             None \<Rightarrow> Inl (http 502 ''channel unavailable'')
           | Some c \<Rightarrow> if ch_enabled c then Inr c else Inl (http 502 ''channel unavailable'')))"

type_synonym candidate = "model option \<times> channel \<times> string"

definition parse_pair :: "string \<Rightarrow> (int \<times> int) option" where
  "parse_pair item =
     (case py_partition_chr (CHR '':'') (py_strip item) of
        (model_id, sep, channel_id) \<Rightarrow>
          if \<not> sep \<or> \<not> py_isdigit model_id \<or> \<not> py_isdigit channel_id then None
          else Some (digits_val model_id, digits_val channel_id))"

definition chain_candidate :: "session \<Rightarrow> int \<times> int \<Rightarrow> candidate list" where
  "chain_candidate db key =
     (case (row_get md_id (fst key) (models db), row_get ch_id (snd key) (channels db)) of
        (Some m, Some c) \<Rightarrow> if md_enabled m \<and> ch_enabled c then [(Some m, c, md_upstream_model m)] else []
      | _ \<Rightarrow> [])"

fun chain_loop :: "session \<Rightarrow> string list \<Rightarrow> (int \<times> int) set \<Rightarrow> candidate list" where
  \<comment> \<open>the loop over the items of the chain header, with the pairs already seen\<close>
  "chain_loop db [] seen = []"
| "chain_loop db (item # items) seen =
     (case parse_pair item of
        None \<Rightarrow> chain_loop db items seen
      | Some key \<Rightarrow>
          if key \<in> seen then chain_loop db items seen
          else chain_candidate db key @ chain_loop db items (insert key seen))"

definition load_candidates ::
    "session \<Rightarrow> string option \<Rightarrow> string option \<Rightarrow> string option \<Rightarrow> string option \<Rightarrow> candidate list result" where
  "load_candidates db chain_header fallback_model_id fallback_channel_id fallback_upstream_model =
     (case chain_loop db (py_split_chr (CHR '','') (or_text chain_header [])) {} of
        [] \<Rightarrow>
          bind_result (load_channel db fallback_channel_id) (\<lambda>channel.
            let model = load_row md_id (models db) fallback_model_id;
                upstream_model = or_text fallback_upstream_model
                  (case model of None \<Rightarrow> [] | Some m \<Rightarrow> md_upstream_model m)
            in if upstream_model = [] then Inl (http 400 ''missing x-llmxy-upstream-model'')
               else Inr [(model, channel, upstream_model)])
      | cands \<Rightarrow> Inr cands)"

definition billing_context ::
    "session \<Rightarrow> string option \<Rightarrow> string option \<Rightarrow> string option \<Rightarrow> user option \<times> api_key option \<times> model option" where
  "billing_context db user_id api_key_id model_id =
     (load_row us_id (users db) user_id, load_row ak_id (api_keys db) api_key_id,
      load_row md_id (models db) model_id)"

definition request_id_of :: "relay_env \<Rightarrow> translate_headers \<Rightarrow> string" where
  \<comment> \<open>\<open>x_llmxy_request_id or f"req-{...}"\<close>\<close>
  "request_id_of env th = or_text (th_request_id th) (rl_request_id env)"

section \<open>Charging and logging\<close>

type_synonym charging = "string \<Rightarrow> string \<Rightarrow> int \<Rightarrow> account \<Rightarrow> account"

definition charge_loaded :: "relay_env \<Rightarrow> datetime \<Rightarrow> charging" where
  \<comment> \<open>\<open>charge_user\<close> on objects of the open session\<close>
  "charge_loaded env now ref desc cost acc = fst (charge_account (rl_sync env) now ref desc cost acc)"

definition charge_detached :: "datetime \<Rightarrow> charging" where
  \<comment> \<open>\<open>charge_user\<close> on objects that left the session: the update of the key reaches its row only\<close>
  "charge_detached now ref desc cost acc =
     (case acc of (db, u, k) \<Rightarrow>
        if cost \<le> 0 then acc
        else case charge_user False now db u None cost (Some ref) (Some desc) of
          (db', u', _, bd) \<Rightarrow>
            (case k of
               None \<Rightarrow> (db', u', None)
             | Some ak \<Rightarrow>
                 (upd_api_key (ak_id ak) (\<lambda>r. r\<lparr>ak_used_cents := ak_used_cents r + cost\<rparr>) db', u',
                  Some (ak\<lparr>ak_used_cents := ak_used_cents ak + cost\<rparr>))))"

definition record_classifier_from_headers ::
    "charging \<Rightarrow> translate_headers \<Rightarrow> string \<Rightarrow> string \<Rightarrow> account \<Rightarrow> account" where
  "record_classifier_from_headers charge th user_facing_model request_id acc =
     (case acc of (db, u, k) \<Rightarrow>
        (case (or_text (th_classifier_status th) [], load_row md_id (models db) (th_classifier_model_id th)) of
           ([], _) \<Rightarrow> acc
         | (status, None) \<Rightarrow> acc
         | (status, Some m) \<Rightarrow>
             let prompt_tokens = (case header_int (th_classifier_prompt_tokens th) of None \<Rightarrow> 0 | Some n \<Rightarrow> n);
                 latency_ms = (case header_int (th_classifier_latency_ms th) of None \<Rightarrow> 0 | Some n \<Rightarrow> n);
                 cost = (if status = ''ok'' then calc_cost_cents (Some m) prompt_tokens 0 else 0);
                 upstream = or_text (th_classifier_upstream_model th) []
             in log_account
                  ((usage_entry u k m user_facing_model upstream prompt_tokens 0 cost latency_ms status request_id
                      ''classifier'' (th_resolved_label th))
                   \<lparr>ul_upstream_model := (if upstream = [] then None else Some upstream)\<rparr>)
                  (if cost > 0 then charge request_id (user_facing_model @ '' [classifier]'') cost acc else acc)))"

definition bill_account ::
    "relay_env \<Rightarrow> charging \<Rightarrow> translate_headers \<Rightarrow> model \<Rightarrow> string \<Rightarrow> int \<Rightarrow> int \<Rightarrow> account \<Rightarrow> account" where
  \<comment> \<open>the charges, the log entries and the mark of \<open>_bill_chat_relay\<close>\<close>
  "bill_account env charge th m upstream pt ct acc =
     (case acc of (db, u, k) \<Rightarrow>
        let label = or_text (th_user_facing_model th) (md_code m);
            rid = request_id_of env th;
            cost = calc_cost_cents (Some m) pt ct;
            acc1 = (if cost > 0 then charge rid label cost acc else acc);
            acc2 = log_account (usage_entry u k m label upstream pt ct cost (rl_latency env) ''ok'' rid ''relay''
                     (th_resolved_label th)) acc1
        in mark_account (record_classifier_from_headers charge th label rid acc2))"

definition bill_chat_relay ::
    "relay_env \<Rightarrow> datetime \<Rightarrow> charging \<Rightarrow> translate_headers \<Rightarrow> session \<Rightarrow> route_state \<Rightarrow> user option \<Rightarrow> api_key option
       \<Rightarrow> model option \<Rightarrow> string \<Rightarrow> int \<Rightarrow> int \<Rightarrow> session \<times> route_state" where
  "bill_chat_relay env now charge th db st uo k mo upstream pt ct =
     (case (uo, mo) of
        (Some u, Some m) \<Rightarrow>
          (case bill_account env charge th m upstream pt ct (db, u, k) of
             (db', u', k') \<Rightarrow> commit_relay now db' st)
      | _ \<Rightarrow> (db, st))"

definition bill_selected ::
    "relay_env \<Rightarrow> datetime \<Rightarrow> charging \<Rightarrow> translate_headers \<Rightarrow> session \<Rightarrow> route_state \<Rightarrow> model option \<Rightarrow> string
       \<Rightarrow> int \<Rightarrow> int \<Rightarrow> session \<times> route_state" where
  \<comment> \<open>the billing context of the headers, with \<open>candidate_model or header_model\<close>\<close>
  "bill_selected env now charge th db st mo upstream pt ct =
     (case billing_context db (th_user_id th) (th_api_key_id th) (th_model_id th) of
        (u, k, header_model) \<Rightarrow>
          bill_chat_relay env now charge th db st u k (case mo of None \<Rightarrow> header_model | Some m \<Rightarrow> Some m)
            upstream pt ct)"

section \<open>Trying the candidates\<close>

definition translate_adapter :: "translate_headers \<Rightarrow> model option \<Rightarrow> channel \<Rightarrow> string + string \<times> string" where
  \<comment> \<open>the headers for protocol and connector count only for a candidate without a model\<close>
  "translate_adapter th mo c =
     (let protocol = resolve_upstream_protocol mo c (if mo = None then th_upstream_protocol th else None);
          connector = resolve_connector_type mo c (if mo = None then th_connector_type th else None)
      in case get_connector_adapter (Some connector) of
           None \<Rightarrow> Inl (''no connector adapter for '' @ connector)
         | Some adapter \<Rightarrow>
             if \<not> connector_supports_protocol (Some connector) (Some protocol)
             then Inl (''connector '' @ connector @ '' does not support protocol '' @ protocol)
             else Inr (adapter, protocol))"

fun translate_loop ::
    "relay_env \<Rightarrow> translate_headers \<Rightarrow> nat \<Rightarrow> dict \<Rightarrow> bool \<Rightarrow> candidate list \<Rightarrow> json
       \<Rightarrow> json + model option \<times> string \<times> chat_result" where
  "translate_loop env th n payload stream [] last_err = Inl last_err"
| "translate_loop env th n payload stream ((mo, c, upstream) # cands) last_err =
     (case translate_adapter th mo c of
        Inl e \<Rightarrow> translate_loop env th n payload stream cands (JStr e)
      | Inr (adapter, protocol) \<Rightarrow>
          (case run_chat env n adapter protocol c upstream payload stream of
             Inl e \<Rightarrow> translate_loop env th (Suc n) payload stream cands (JStr e)
           | Inr r \<Rightarrow>
               if chat_ok stream r then Inr (mo, upstream, r)
               else translate_loop env th (Suc n) payload stream cands (cr_body r)))"

section \<open>Chat endpoints\<close>

definition translate_relay ::
    "relay_env \<Rightarrow> translate_headers \<Rightarrow> datetime \<Rightarrow> session \<Rightarrow> route_state \<Rightarrow> candidate list \<Rightarrow> dict \<Rightarrow> bool
       \<Rightarrow> (string list \<Rightarrow> bool \<Rightarrow> string list \<times> (int \<times> int) option) \<Rightarrow> (json \<Rightarrow> json result)
       \<Rightarrow> session \<times> route_state \<times> relay_response result" where
  \<comment> \<open>the part the three chat endpoints share. \<open>conv_stream\<close> gives what is sent for the upstream's
      chunks and the counts to bill, \<open>None\<close> when it raises; \<open>conv_json\<close> runs after the commit\<close>
  "translate_relay env th now db st cands payload stream conv_stream conv_json =
     (case translate_loop env th (ss_calls st) payload stream cands JNull of
        Inl e \<Rightarrow> (db, st, Inl (all_failed env e))
      | Inr (mo, upstream, r) \<Rightarrow>
          if stream then
            (case cr_stream r of
               None \<Rightarrow> (db, st, Inl internal_error)
             | Some (chunks, ends) \<Rightarrow>
                 (case conv_stream chunks ends of
                    (sent, None) \<Rightarrow> (db, st, Inr (response_stream sent False))
                  | (sent, Some (pt, ct)) \<Rightarrow>
                      (case bill_selected env now (charge_detached now) th db st mo upstream pt ct of
                         (db', st') \<Rightarrow> (db', st', Inr (response_stream sent True)))))
          else
            (case bill_selected env now (charge_loaded env now) th db st mo upstream
                    (cr_prompt_tokens r) (cr_completion_tokens r) of
               (db', st') \<Rightarrow> (db', st', bind_result (conv_json (cr_body r)) (\<lambda>v. Inr (response_json v)))))"

definition translate_chat_candidates :: "session \<Rightarrow> translate_headers \<Rightarrow> candidate list result" where
  "translate_chat_candidates db th =
     load_candidates db (th_chat_chain th) (th_model_id th) (th_channel_id th) (th_upstream_model th)"

definition chat_pass :: "(string \<Rightarrow> json option) \<Rightarrow> string list \<Rightarrow> bool \<Rightarrow> string list \<times> (int \<times> int) option" where
  "chat_pass loads chunks ends =
     (case chunk_tokens loads chunks (0, 0) of (sent, t) \<Rightarrow> (sent, if ends then t else None))"

definition translate_chat_completions ::
    "relay_env \<Rightarrow> translate_headers \<Rightarrow> datetime \<Rightarrow> session \<Rightarrow> route_state \<Rightarrow> json option
       \<Rightarrow> session \<times> route_state \<times> relay_response result" where
  "translate_chat_completions env th now db st body =
     (case translate_chat_candidates db th of
        Inl e \<Rightarrow> (db, st, Inl e)
      | Inr cands \<Rightarrow>
          (case body of
             None \<Rightarrow> (db, st, Inl (http 400 ''invalid json body''))
           | Some (JObj payload) \<Rightarrow>
               translate_relay env th now db st cands payload (truthy (dict_get_none payload ''stream''))
                 (chat_pass (rl_loads env)) Inr
           | Some _ \<Rightarrow> (db, st, Inl internal_error)))"

definition response_model :: "translate_headers \<Rightarrow> dict \<Rightarrow> json" where
  "response_model th payload =
     py_or (JStr (or_text (th_user_facing_model th) []))
       (py_or (dict_get_none payload ''model'')
         (py_or (JStr (or_text (th_upstream_model th) [])) (JStr ''model'')))"

definition responses_pass ::
    "(rat \<Rightarrow> string) \<Rightarrow> relay_env \<Rightarrow> responses_stream \<Rightarrow> string list \<Rightarrow> bool \<Rightarrow> string list \<times> (int \<times> int) option" where
  "responses_pass fr env conv chunks ends =
     (case responses_run (rl_loads env) (se_repr env) chunks ends conv of
        (es, None) \<Rightarrow> (map (sse fr) es, None)
      | (es, Some t) \<Rightarrow> (map (sse fr) es @ [done_line], Some t))"

definition translate_responses ::
    "(rat \<Rightarrow> string) \<Rightarrow> response_ids \<Rightarrow> relay_env \<Rightarrow> translate_headers \<Rightarrow> datetime \<Rightarrow> session \<Rightarrow> route_state \<Rightarrow> json option
       \<Rightarrow> session \<times> route_state \<times> relay_response result" where
  "translate_responses fr ids env th now db st body =
     (case translate_chat_candidates db th of
        Inl e \<Rightarrow> (db, st, Inl e)
      | Inr cands \<Rightarrow>
          (case body of
             None \<Rightarrow> (db, st, Inl (http 400 ''invalid json body''))
           | Some (JObj payload) \<Rightarrow>
               (case responses_to_openai_chat_payload (se_repr env) payload of
                  Inl e \<Rightarrow> (db, st, Inl internal_error)
                | Inr chat_payload \<Rightarrow>
                    let name = response_model th payload in
                    translate_relay env th now db st cands chat_payload (truthy (dict_get_none payload ''stream''))
                      (responses_pass fr env (ids_stream ids name))
                      (\<lambda>b. or_500 (openai_chat_to_responses_response (se_repr env) (ri_response ids) (ri_item ids)
                              (ri_completed ids) b name)))
           | Some _ \<Rightarrow> (db, st, Inl internal_error)))"

definition messages_payload :: "json \<Rightarrow> dict result" where
  \<comment> \<open>\<open>anthropic_messages_request_error\<close> on any body: \<open>in\<close> also works on lists and texts\<close>
  "messages_payload body =
     (let err = (\<lambda>has. if has ''max_completion_tokens''
                       then http 400 ''max_completion_tokens is not valid for Anthropic Messages; use max_tokens''
                       else if \<not> has ''max_tokens'' then http 400 ''missing max_tokens'' else internal_error)
      in case body of
           JObj payload \<Rightarrow>
             (case anthropic_messages_request_error payload of
                Some e \<Rightarrow> Inl (http 400 e) | None \<Rightarrow> Inr payload)
         | JList xs \<Rightarrow> Inl (err (\<lambda>k. JStr k \<in> set xs))
         | JStr s \<Rightarrow> Inl (err (\<lambda>k. py_contains s k))
         | _ \<Rightarrow> Inl internal_error)"

definition messages_pass ::
    "(rat \<Rightarrow> string) \<Rightarrow> (string \<Rightarrow> json option) \<Rightarrow> anthropic_stream \<Rightarrow> string list \<Rightarrow> bool
       \<Rightarrow> string list \<times> (int \<times> int) option" where
  "messages_pass fr loads converter chunks ends =
     (case messages_events loads chunks converter of
        (es, None) \<Rightarrow> (map (sse fr) es, None)
      | (es, Some conv) \<Rightarrow>
          if ends then (map (sse fr) (es @ finish conv), Some (as_prompt_tokens conv, as_completion_tokens conv))
          else (map (sse fr) es, None))"

definition translate_messages ::
    "(rat \<Rightarrow> string) \<Rightarrow> string \<Rightarrow> relay_env \<Rightarrow> translate_headers \<Rightarrow> datetime \<Rightarrow> session \<Rightarrow> route_state \<Rightarrow> json option
       \<Rightarrow> session \<times> route_state \<times> relay_response result" where
  "translate_messages fr mid env th now db st body =
     (case translate_chat_candidates db th of
        Inl e \<Rightarrow> (db, st, Inl e)
      | Inr cands \<Rightarrow>
          (case body of
             None \<Rightarrow> (db, st, Inl (http 400 ''invalid json body''))
           | Some b \<Rightarrow>
               (case bind_result (messages_payload b) (\<lambda>payload.
                       bind_result (or_500 (anthropic_to_openai_payload (se_repr env) payload)) (\<lambda>q.
                         Inr (payload, q))) of
                  Inl e \<Rightarrow> (db, st, Inl e)
                | Inr (payload, openai_payload) \<Rightarrow>
                    let name = response_model th payload in
                    translate_relay env th now db st cands openai_payload (truthy (dict_get_none payload ''stream''))
                      (messages_pass fr (rl_loads env) (new_stream mid name))
                      (\<lambda>r. or_500 (openai_to_anthropic_response mid r name)))))"

section \<open>Embeddings\<close>

definition with_model :: "string \<Rightarrow> candidate list \<Rightarrow> (model \<times> channel) list" where
  \<comment> \<open>the candidates with a model of the kind\<close>
  "with_model kind cands =
     concat (map (\<lambda>(mo, c, upstream).
       case mo of None \<Rightarrow> [] | Some m \<Rightarrow> if md_kind m = kind then [(m, c)] else []) cands)"

definition answer_prompt_tokens :: "dict \<Rightarrow> py_error + int" where
  "answer_prompt_tokens body =
     bind_result (need_obj (py_or (dict_get_none body ''usage'') (JObj []))) (\<lambda>us.
       py_int (py_or (dict_get_none us ''prompt_tokens'') (JInt 0)))"

definition translate_embeddings ::
    "relay_env \<Rightarrow> translate_headers \<Rightarrow> datetime \<Rightarrow> session \<Rightarrow> route_state \<Rightarrow> json option
       \<Rightarrow> session \<times> route_state \<times> relay_response result" where
  "translate_embeddings env th now db st body =
     (case load_candidates db (th_embedding_chain th) (th_model_id th) (th_channel_id th) (th_upstream_model th) of
        Inl e \<Rightarrow> (db, st, Inl e)
      | Inr loaded \<Rightarrow>
          let cands = with_model ''embedding'' loaded in
          if cands = [] then (db, st, Inl (http 502 ''no embedding upstream''))
          else case body of
            None \<Rightarrow> (db, st, Inl (http 400 ''invalid json body''))
          | Some payload \<Rightarrow>
              (case execute_embedding_relay env (ss_calls st) payload cands (JStr ''no upstream'') of
                 Inl e \<Rightarrow> (db, st, Inl (all_failed env e))
               | Inr (answer, m, c) \<Rightarrow>
                   (case answer_prompt_tokens answer of
                      Inl e \<Rightarrow> (db, st, Inl internal_error)
                    | Inr pt \<Rightarrow>
                        (case bill_selected env now (charge_loaded env now) th db st (Some m) (md_upstream_model m) pt 0 of
                           (db', st') \<Rightarrow> (db', st', Inr (response_json (JObj answer)))))))"

section \<open>Images\<close>

definition translate_images_generations ::
    "relay_env \<Rightarrow> translate_headers \<Rightarrow> datetime \<Rightarrow> session \<Rightarrow> route_state \<Rightarrow> json option
       \<Rightarrow> session \<times> route_state \<times> relay_response result" where
  "translate_images_generations env th now db st body =
     (case header_int (th_user_id th) of
        None \<Rightarrow> (db, st, Inl (http 400 ''missing or invalid x-llmxy-user-id''))
      | Some uid \<Rightarrow>
          (case row_get us_id uid (users db) of
             None \<Rightarrow> (db, st, Inl (http 400 ''unknown user''))
           | Some u \<Rightarrow>
               (case load_candidates db (th_image_chain th) (th_model_id th) (th_channel_id th) None of
                  Inl e \<Rightarrow> (db, st, Inl e)
                | Inr loaded \<Rightarrow>
                    (case (filter (\<lambda>(m, c). md_enabled m) (with_model ''image'' loaded), body) of
                       ([], _) \<Rightarrow> (db, st, Inl (http 502 ''no image upstream''))
                     | (cands, None) \<Rightarrow> (db, st, Inl (http 400 ''invalid json body''))
                     | (cands, Some (JObj payload)) \<Rightarrow>
                         let rid = request_id_of env th;
                             k = load_row ak_id (api_keys db) (th_api_key_id th);
                             name = or_text (th_user_facing_model th) (md_code (fst (hd cands)))
                         in (case execute_image_relay (env\<lparr>rl_request_id := rid\<rparr>) now (ss_calls st) payload name
                                    (th_resolved_label th) cands (db, u, k) of
                               Inl e \<Rightarrow> (db, st, Inl e)
                             | Inr (acc, code, answer) \<Rightarrow>
                                 (case (if code = 200
                                        then record_classifier_from_headers (charge_loaded env now) th name rid acc
                                        else acc) of
                                    (db', u', k') \<Rightarrow>
                                      (case commit_relay now db' st of
                                         (db'', st') \<Rightarrow>
                                           (db'', st',
                                            if code \<noteq> 200
                                            then Inl (http (nat (if code \<in> {502, 504, 402} then code else 502))
                                                       (py_text (se_repr env) answer))
                                            else Inr (response_json answer)))))
                     | (cands, Some _) \<Rightarrow> (db, st, Inl internal_error)))))"

section \<open>Model list\<close>

definition translate_list_models :: "session \<Rightarrow> json" where
  "translate_list_models db = JObj
     [(''object'', JStr ''list''),
      (''data'', JList (map (\<lambda>n. JObj [(''id'', JStr n), (''object'', JStr ''model''), (''owned_by'', JStr ''llmxy'')])
         (list_relay_models db)))]"

end
