(* ===== verification/Responses_Laws.thy ===== *)
theory Responses_Laws
  imports Responses_Relay Messages_Laws
begin

text \<open>
  The conversions of the responses protocol lose nothing that both protocols carry: an answer in
  one piece keeps its text and token counts through both conversions, and so does a stream, which
  is one well-formed response whatever the upstream sends: the names of its events, the pieces, the
  closing text and the counts are those of the chat stream.
\<close>

section \<open>Answers in one piece\<close>

definition chat_answer :: "string \<Rightarrow> int \<Rightarrow> string \<Rightarrow> string \<Rightarrow> int \<Rightarrow> int \<Rightarrow> int \<Rightarrow> json" where
  \<comment> \<open>a chat completion with one choice\<close>
  "chat_answer cid created name text pt ct tt = JObj
     [(''id'', JStr cid), (''object'', JStr ''chat.completion''), (''created'', JInt created), (''model'', JStr name),
      (''choices'', JList [JObj [(''index'', JInt 0), (''message'', chat_message ''assistant'' (JStr text)),
         (''finish_reason'', JStr ''stop'')]]),
      (''usage'', JObj [(''prompt_tokens'', JInt pt), (''completion_tokens'', JInt ct), (''total_tokens'', JInt tt)])]"

lemma py_or_int [simp]: "py_int (py_or (JInt i) (JInt 0)) = Inr i"
  by (simp add: py_or_def)

text \<open>
  A chat answer survives the responses protocol: converted to a response and back it is
  the chat completion with the same text and token counts (the sum where the total is zero),
  under the ids and names of the conversion.
\<close>

theorem responses_roundtrip:
  assumes "rid \<noteq> []" and "created \<noteq> 0"
  shows "bind_result (openai_chat_to_responses_response repr rid iid created
      (chat_answer cid0 created0 name0 text pt ct tt) name) (\<lambda>v. responses_response_to_openai_chat cid created1 v name1)
    = Inr (chat_answer rid created name1 text pt ct (if tt = 0 then pt + ct else tt))"
  using assms
  by (simp add: chat_answer_def openai_chat_to_responses_response_def responses_response_to_openai_chat_def
      need_obj_def first_choice_def chat_message_def content_text_def content_to_text_def tokens_of_def
      responses_output_text_def dict_get_none_def py_or_def Let_def)

theorem responses_roundtrip_witness:
  "bind_result (openai_chat_to_responses_response (\<lambda>v. []) ''r1'' ''m1'' 7 (chat_answer ''c0'' 5 ''gpt'' ''hi'' 3 4 0) (JStr ''gpt''))
      (\<lambda>v. responses_response_to_openai_chat ''c1'' 9 v ''gpt'') = Inr (chat_answer ''r1'' 7 ''gpt'' ''hi'' 3 4 7)"
  using responses_roundtrip [of "''r1''" 7 "\<lambda>v. []" "''m1''" "''c0''" 5 "''gpt''" "''hi''" 3 4 0] by simp

section \<open>Streams\<close>

definition delta_content :: "dict \<Rightarrow> json" where
  \<comment> \<open>the piece of text a chat chunk carries\<close>
  "delta_content obj =
     (case delta_choice obj of
        Inl e \<Rightarrow> JNull
      | Inr choice \<Rightarrow>
          (case need_obj (py_or (dict_get_none choice ''delta'') (JObj [])) of
             Inl e \<Rightarrow> JNull | Inr delta \<Rightarrow> dict_get_none delta ''content''))"

definition contents :: "dict list \<Rightarrow> json list" where
  "contents objs = filter truthy (map delta_content objs)"

lemma contents_simps [simp]:
  "contents [] = []" "contents (obj # objs) = (if truthy (delta_content obj) then [delta_content obj] else []) @ contents objs"
  by (simp_all add: contents_def)

lemma stream_ids [simp]:
  "responses_start (st\<lparr>rx_started := b\<rparr>) = responses_start st"
  "responses_start (st\<lparr>rx_text_parts := ts\<rparr>) = responses_start st"
  "responses_start (st\<lparr>rx_prompt_tokens := i\<rparr>) = responses_start st"
  "responses_start (st\<lparr>rx_completion_tokens := i\<rparr>) = responses_start st"
  "responses_delta (st\<lparr>rx_started := b\<rparr>) = responses_delta st"
  "responses_delta (st\<lparr>rx_text_parts := ts\<rparr>) = responses_delta st"
  "responses_delta (st\<lparr>rx_prompt_tokens := i\<rparr>) = responses_delta st"
  "responses_delta (st\<lparr>rx_completion_tokens := i\<rparr>) = responses_delta st"
  by (simp_all add: responses_start_def responses_delta_def response_stub_def fun_eq_iff)

definition grown :: "(json \<Rightarrow> string) \<Rightarrow> json list \<Rightarrow> responses_stream \<Rightarrow> responses_stream \<Rightarrow> bool" where
  \<comment> \<open>the converter after the pieces \<open>cs\<close>\<close>
  "grown repr cs st st' \<longleftrightarrow> (\<exists>pt ct. st' = st\<lparr>rx_started := rx_started st \<or> cs \<noteq> [],
     rx_text_parts := rx_text_parts st @ map (py_text repr) cs, rx_prompt_tokens := pt, rx_completion_tokens := ct\<rparr>)"

lemma grown_refl: "grown repr [] st st"
  unfolding grown_def
  by (rule exI [of _ "rx_prompt_tokens st"], rule exI [of _ "rx_completion_tokens st"]) simp

lemma responses_obj_grown:
  assumes "responses_obj repr obj st = Inr (st', es)"
  shows "grown repr (contents [obj]) st st'
    \<and> es = (if rx_started st \<or> contents [obj] = [] then [] else responses_start st) @ map (responses_delta st) (contents [obj])"
proof -
  from assms obtain us st1 choice delta where
      t: "(if us \<noteq> [] then responses_tokens us st else Inr st) = Inr st1"
    and c: "delta_choice obj = Inr choice" "need_obj (py_or (dict_get_none choice ''delta'') (JObj [])) = Inr delta"
    and e: "responses_emit repr (dict_get_none delta ''content'') st1 = (st', es)"
    by (auto simp: responses_obj_def bind_result_eq_Inr)
  obtain pt ct where st1: "st1 = st\<lparr>rx_prompt_tokens := pt, rx_completion_tokens := ct\<rparr>"
  proof (cases "us = []")
    case True
    with t that [where pt = "rx_prompt_tokens st" and ct = "rx_completion_tokens st"] show ?thesis by simp
  next
    case False
    with t that show ?thesis by (auto simp: responses_tokens_def bind_result_eq_Inr)
  qed
  have d: "delta_content obj = dict_get_none delta ''content''" using c by (simp add: delta_content_def)
  have "st' = st\<lparr>rx_started := rx_started st \<or> contents [obj] \<noteq> [],
     rx_text_parts := rx_text_parts st @ map (py_text repr) (contents [obj]), rx_prompt_tokens := pt,
     rx_completion_tokens := ct\<rparr>"
    using e d by (auto simp: st1 responses_emit_def split: if_splits)
  moreover have "es = (if rx_started st \<or> contents [obj] = [] then [] else responses_start st)
      @ map (responses_delta st) (contents [obj])"
    using e d by (auto simp: st1 responses_emit_def split: if_splits)
  ultimately show ?thesis unfolding grown_def by blast
qed

lemma responses_objs_grown:
  "responses_objs repr objs st = (es, Some st') \<Longrightarrow> grown repr (contents objs) st st'
    \<and> es = (if rx_started st \<or> contents objs = [] then [] else responses_start st) @ map (responses_delta st) (contents objs)"
proof (induction objs arbitrary: st es)
  case Nil
  then show ?case by (simp add: grown_refl)
next
  case (Cons obj objs)
  then obtain st1 es1 es2 where o: "responses_obj repr obj st = Inr (st1, es1)"
    and r: "responses_objs repr objs st1 = (es2, Some st')" and es: "es = es1 @ es2"
    by (auto split: sum.splits prod.splits)
  note a = responses_obj_grown [OF o] and b = Cons.IH [OF r]
  from a obtain pt ct where st1: "st1 = st\<lparr>rx_started := rx_started st \<or> contents [obj] \<noteq> [],
     rx_text_parts := rx_text_parts st @ map (py_text repr) (contents [obj]), rx_prompt_tokens := pt,
     rx_completion_tokens := ct\<rparr>" unfolding grown_def by blast
  from a b show ?case unfolding es by (auto simp: st1 grown_def)
qed

text \<open>What the other converter makes of the events.\<close>

definition wire :: "sse_event list \<Rightarrow> (string option \<times> dict) list" where
  "wire es = map (\<lambda>e. (Some (ev_name e), ev_data e)) es"

definition content_chunk :: "completion \<Rightarrow> json \<Rightarrow> dict" where
  "content_chunk c t = completion_chunk c (JObj [(''content'', t)]) JNull"

lemma completion_append:
  "completion_events es c = (ds, Some c1) \<Longrightarrow> completion_events es' c1 = (ds', r)
    \<Longrightarrow> completion_events (es @ es') c = (ds @ ds', r)"
proof (induction es arbitrary: c ds)
  case (Cons e es)
  then obtain c2 d1 d2 where "completion_event e c = Inr (c2, d1)" "completion_events es c2 = (d2, Some c1)" "ds = d1 @ d2"
    by (auto split: sum.splits prod.splits)
  with Cons show ?case by auto
qed simp

lemma completion_start: "completion_events (wire (responses_start st)) c = ([], Some c)"
  by (simp add: responses_start_def wire_def typed_event_def completion_event_def dict_get_none_def py_or_def)

lemma completion_deltas:
  "\<forall>t \<in> set cs. truthy t \<Longrightarrow>
   completion_events (wire (map (responses_delta st) cs)) c = (map (content_chunk c) cs, Some c)"
  by (induction cs) (simp_all add: responses_delta_def wire_def typed_event_def completion_event_def dict_get_none_def
      py_or_def content_chunk_def)

lemma completion_finish:
  assumes "rx_started st" and "cp_prompt_tokens c = 0" and "cp_completion_tokens c = 0"
  shows "completion_events (wire (responses_finish st)) c
    = ([], Some (c\<lparr>cp_prompt_tokens := rx_prompt_tokens st, cp_completion_tokens := rx_completion_tokens st\<rparr>))"
  using assms by (simp add: responses_finish_def wire_def typed_event_def completion_event_def dict_get_none_def py_or_def
      need_obj_def response_stub_def Let_def)

text \<open>The token counts: of each kind the last that is not zero or empty, and zero without one.\<close>

definition usage_field :: "string \<Rightarrow> dict \<Rightarrow> json" where
  "usage_field k obj = (case dict_get_none obj ''usage'' of JObj us \<Rightarrow> dict_get_none us k | _ \<Rightarrow> JNull)"

definition last_reported :: "string \<Rightarrow> int \<Rightarrow> dict list \<Rightarrow> json" where
  "last_reported k n objs = last (JInt n # filter truthy (map (usage_field k) objs))"

lemma last_reported_Cons:
  assumes "py_int (last_reported k n [obj]) = Inr n'"
  shows "py_int (last_reported k n (obj # objs)) = py_int (last_reported k n' objs)"
  using assms by (cases "filter truthy (map (usage_field k) objs)") (auto simp: last_reported_def split: if_splits)

lemma responses_obj_tokens:
  assumes "responses_obj repr obj st = Inr (st', es)"
  shows "py_int (last_reported ''prompt_tokens'' (rx_prompt_tokens st) [obj]) = Inr (rx_prompt_tokens st')
    \<and> py_int (last_reported ''completion_tokens'' (rx_completion_tokens st) [obj]) = Inr (rx_completion_tokens st')"
proof -
  from assms obtain us st1 delta where u: "need_obj (py_or (dict_get_none obj ''usage'') (JObj [])) = Inr us"
    and t: "(if us \<noteq> [] then responses_tokens us st else Inr st) = Inr st1"
    and e: "responses_emit repr (dict_get_none delta ''content'') st1 = (st', es)"
    by (auto simp: responses_obj_def bind_result_eq_Inr)
  have s: "rx_prompt_tokens st' = rx_prompt_tokens st1" "rx_completion_tokens st' = rx_completion_tokens st1"
    using e by (auto simp: responses_emit_def split: if_splits)
  have f: "usage_field k obj = dict_get_none us k" if "us \<noteq> []" for k
    using u that by (auto simp: usage_field_def py_or_def need_obj_def split: if_splits json.splits)
  have g: "\<not> truthy (usage_field k obj)" if "us = []" for k
    using u that by (auto simp: usage_field_def py_or_def need_obj_def dict_get_none_def split: if_splits json.splits)
  show ?thesis
  proof (cases "us = []")
    case True
    with t g s show ?thesis by (simp add: last_reported_def)
  next
    case False
    with t f s show ?thesis
      by (auto simp: last_reported_def responses_tokens_def bind_result_eq_Inr py_or_def)
  qed
qed

lemma responses_objs_tokens:
  "responses_objs repr objs st = (es, Some st') \<Longrightarrow>
     py_int (last_reported ''prompt_tokens'' (rx_prompt_tokens st) objs) = Inr (rx_prompt_tokens st')
     \<and> py_int (last_reported ''completion_tokens'' (rx_completion_tokens st) objs) = Inr (rx_completion_tokens st')"
proof (induction objs arbitrary: st es)
  case Nil
  then show ?case by (simp add: last_reported_def)
next
  case (Cons obj objs)
  then obtain st1 es1 es2 where o: "responses_obj repr obj st = Inr (st1, es1)"
    and r: "responses_objs repr objs st1 = (es2, Some st')"
    by (auto split: sum.splits prod.splits)
  note a = responses_obj_tokens [OF o] and b = Cons.IH [OF r]
  show ?case
    using last_reported_Cons [OF conjunct1 [OF a]] last_reported_Cons [OF conjunct2 [OF a]] b by simp
qed

text \<open>The stream as a client reads it.\<close>

definition json_at :: "json \<Rightarrow> string \<Rightarrow> json" where
  "json_at v k = (case v of JObj d \<Rightarrow> dict_get_none d k | _ \<Rightarrow> JNull)"

definition event_at :: "sse_event \<Rightarrow> string \<Rightarrow> json" where
  "event_at e k = json_at (JObj (ev_data e)) k"

definition closes_with :: "sse_event list \<Rightarrow> string \<Rightarrow> string \<Rightarrow> json \<Rightarrow> string \<Rightarrow> int \<Rightarrow> int \<Rightarrow> bool" where
  \<comment> \<open>the four closing events carry the text; the last the response with its output and token counts\<close>
  "closes_with es rid iid name txt p q \<longleftrightarrow>
     (case es of [e1, e2, e3, e4] \<Rightarrow>
        event_at e1 ''text'' = JStr txt \<and> json_at (event_at e2 ''part'') ''text'' = JStr txt
        \<and> event_at e3 ''item'' = output_item iid ''completed'' [output_text txt]
        \<and> (let r = event_at e4 ''response'' in
             json_at r ''id'' = JStr rid \<and> json_at r ''model'' = name \<and> json_at r ''status'' = JStr ''completed''
             \<and> json_at r ''output'' = JList [output_item iid ''completed'' [output_text txt]]
             \<and> json_at r ''output_text'' = JStr txt
             \<and> json_at r ''usage'' = JObj [(''input_tokens'', JInt p), (''output_tokens'', JInt q), (''total_tokens'', JInt (p + q))])
      | _ \<Rightarrow> False)"

lemma finish_closes:
  assumes "rx_started st"
  shows "closes_with (responses_finish st) (rx_response_id st) (rx_item_id st) (rx_model st) (concat (rx_text_parts st))
      (rx_prompt_tokens st) (rx_completion_tokens st)"
    and "map ev_name (responses_finish st)
      = [''response.output_text.done'', ''response.content_part.done'', ''response.output_item.done'', ''response.completed'']"
proof -
  define said where "said = concat (rx_text_parts st)"
  define item where "item = output_item (rx_item_id st) ''completed'' [output_text said]"
  define r where "r = dict_set (dict_set (dict_set (response_stub st (rx_completed st) ''completed'')
                 ''output'' (JList [item])) ''output_text'' (JStr said))
                 ''usage'' (JObj [(''input_tokens'', JInt (rx_prompt_tokens st)),
                    (''output_tokens'', JInt (rx_completion_tokens st)),
                    (''total_tokens'', JInt (rx_prompt_tokens st + rx_completion_tokens st))])"
  have f: "responses_finish st = [typed_event ''response.output_text.done''
              [(''item_id'', JStr (rx_item_id st)), (''output_index'', JInt 0), (''content_index'', JInt 0), (''text'', JStr said)],
            typed_event ''response.content_part.done''
              [(''item_id'', JStr (rx_item_id st)), (''output_index'', JInt 0), (''content_index'', JInt 0),
               (''part'', output_text said)],
            typed_event ''response.output_item.done'' [(''output_index'', JInt 0), (''item'', item)],
            typed_event ''response.completed'' [(''response'', JObj r)]]"
    using assms by (simp add: responses_finish_def said_def item_def r_def Let_def)
  show "map ev_name (responses_finish st)
      = [''response.output_text.done'', ''response.content_part.done'', ''response.output_item.done'', ''response.completed'']"
    unfolding f by (simp add: typed_event_def)
  have e: "event_at (typed_event n fs) k = (if k = ''type'' then JStr n else case dict_get fs k of None \<Rightarrow> JNull | Some v \<Rightarrow> v)" for n fs k
    by (simp add: event_at_def json_at_def typed_event_def dict_get_none_def)
  have rs: "json_at (JObj r) ''id'' = JStr (rx_response_id st)" "json_at (JObj r) ''model'' = rx_model st"
      "json_at (JObj r) ''status'' = JStr ''completed''" "json_at (JObj r) ''output'' = JList [item]"
      "json_at (JObj r) ''output_text'' = JStr said"
      "json_at (JObj r) ''usage'' = JObj [(''input_tokens'', JInt (rx_prompt_tokens st)),
         (''output_tokens'', JInt (rx_completion_tokens st)), (''total_tokens'', JInt (rx_prompt_tokens st + rx_completion_tokens st))]"
    by (simp_all add: r_def response_stub_def json_at_def dict_get_none_def)
  show "closes_with (responses_finish st) (rx_response_id st) (rx_item_id st) (rx_model st) (concat (rx_text_parts st))
      (rx_prompt_tokens st) (rx_completion_tokens st)"
    unfolding f closes_with_def said_def [symmetric] item_def [symmetric]
    by (simp add: e rs Let_def) (simp add: output_text_def json_at_def dict_get_none_def)
qed

text \<open>
  Claim C24. A chat stream that the converter turns into a responses stream is one well-formed
  response: the three opening events, one delta for each non-empty piece of content in order, and the
  four closing events with the text of the pieces joined and the token counts that the chat stream
  reported last. Converted back, the events are the same pieces as chat chunks, with those counts.
\<close>

theorem responses_stream_roundtrip:
  assumes "openai_chat_sse_to_responses_sse loads repr chs (new_responses_stream rid iid t0 t1 name) = (es, Some st')"
    and "cp_prompt_tokens c = 0" and "cp_completion_tokens c = 0"
    and objs_def: "objs = map snd (iter_sse_events loads [] chs)" and cs_def: "cs = contents objs"
  shows "\<exists>p q. py_int (last_reported ''prompt_tokens'' 0 objs) = Inr p \<and> py_int (last_reported ''completion_tokens'' 0 objs) = Inr q
    \<and> map ev_name es = [''response.created'', ''response.output_item.added'', ''response.content_part.added'']
        @ replicate (length cs) ''response.output_text.delta''
        @ [''response.output_text.done'', ''response.content_part.done'', ''response.output_item.done'', ''response.completed'']
    \<and> (\<forall>e \<in> set es. event_at e ''type'' = JStr (ev_name e))
    \<and> map (\<lambda>e. event_at e ''delta'') (take (length cs) (drop 3 es)) = cs
    \<and> closes_with (drop (3 + length cs) es) rid iid name (concat (map (py_text repr) cs)) p q
    \<and> completion_events (wire es) c = (map (content_chunk c) cs, Some (c\<lparr>cp_prompt_tokens := p, cp_completion_tokens := q\<rparr>))"
proof -
  let ?st = "new_responses_stream rid iid t0 t1 name"
  obtain es1 where o: "responses_objs repr objs ?st = (es1, Some st')"
    and es: "es = es1 @ responses_finish st'"
    using assms(1) by (auto simp: openai_chat_sse_to_responses_sse_def objs_def split: prod.splits option.splits)
  note g = responses_objs_grown [OF o, folded cs_def]
  have tk: "py_int (last_reported ''prompt_tokens'' 0 objs) = Inr (rx_prompt_tokens st')"
      "py_int (last_reported ''completion_tokens'' 0 objs) = Inr (rx_completion_tokens st')"
    using responses_objs_tokens [OF o] by (simp_all add: new_responses_stream_def)
  from g obtain pt ct where st': "st' = ?st\<lparr>rx_started := rx_started ?st \<or> cs \<noteq> [],
     rx_text_parts := rx_text_parts ?st @ map (py_text repr) cs, rx_prompt_tokens := pt, rx_completion_tokens := ct\<rparr>"
    unfolding grown_def by blast
  have st: "\<not> rx_started ?st" "rx_text_parts ?st = []" by (simp_all add: new_responses_stream_def)
  have same: "responses_start st' = responses_start ?st" "responses_delta st' = responses_delta ?st"
    by (simp_all add: st')
  define fin where "fin = responses_finish (st'\<lparr>rx_started := True\<rparr>)"
  have f: "responses_finish st' = (if rx_started st' then [] else responses_start st') @ fin"
    by (simp add: fin_def responses_finish_def response_stub_def Let_def)
  have e: "es = responses_start st' @ map (responses_delta st') cs @ fin"
    using g st es f by (simp add: same) (simp add: st')
  have t: "\<forall>t \<in> set cs. truthy t" by (auto simp: cs_def contents_def)
  have ids: "rx_response_id st' = rid" "rx_item_id st' = iid" "rx_model st' = name"
      "concat (rx_text_parts st') = concat (map (py_text repr) cs)"
    using st by (simp_all add: st' new_responses_stream_def)
  have cl: "closes_with fin rid iid name (concat (map (py_text repr) cs)) (rx_prompt_tokens st') (rx_completion_tokens st')"
    and cn: "map ev_name fin = [''response.output_text.done'', ''response.content_part.done'', ''response.output_item.done'',
        ''response.completed'']"
    using finish_closes [of "st'\<lparr>rx_started := True\<rparr>"] ids by (simp_all add: fin_def)
  have "length (responses_start st') = 3" by (simp add: responses_start_def)
  then have d: "drop (3 + length cs) es = fin" "take (length cs) (drop 3 es) = map (responses_delta st') cs"
    unfolding e by simp_all
  have n: "map ev_name (responses_start st') = [''response.created'', ''response.output_item.added'', ''response.content_part.added'']"
      "map ev_name (map (responses_delta st') cs) = replicate (length cs) ''response.output_text.delta''"
    by (simp_all add: responses_start_def responses_delta_def typed_event_def comp_def map_replicate_const)
  have "map ev_name es = [''response.created'', ''response.output_item.added'', ''response.content_part.added'']
        @ replicate (length cs) ''response.output_text.delta''
        @ [''response.output_text.done'', ''response.content_part.done'', ''response.output_item.done'', ''response.completed'']"
    unfolding e map_append n cn ..
  moreover have "event_at (typed_event k fs) ''type'' = JStr (ev_name (typed_event k fs))" for k fs
    by (simp add: event_at_def json_at_def typed_event_def dict_get_none_def)
  then have "\<forall>e \<in> set es. event_at e ''type'' = JStr (ev_name e)"
    unfolding e fin_def by (auto simp: responses_start_def responses_delta_def responses_finish_def Let_def)
  moreover have "map (\<lambda>e. event_at e ''delta'') (take (length cs) (drop 3 es)) = cs"
    unfolding d by (induction cs) (simp_all add: responses_delta_def event_at_def json_at_def typed_event_def dict_get_none_def)
  moreover have "completion_events (wire es) c = ([] @ map (content_chunk c) cs @ [],
        Some (c\<lparr>cp_prompt_tokens := rx_prompt_tokens st', cp_completion_tokens := rx_completion_tokens st'\<rparr>))"
    unfolding e wire_def map_append
    using completion_start [of st' c] completion_deltas [OF t, of st' c]
      completion_finish [of "st'\<lparr>rx_started := True\<rparr>" c] assms(2,3)
    by (intro completion_append) (auto simp: wire_def fin_def)
  ultimately show ?thesis using tk cl unfolding d by auto
qed

theorem responses_stream_roundtrip_witness:
  "\<exists>es st'. openai_chat_sse_to_responses_sse demo_loads (\<lambda>v. []) [demo_line] (new_responses_stream ''r'' ''i'' 1 2 (JStr ''m''))
       = (es, Some st') \<and> length (map ev_name es) = 8
     \<and> fst (completion_events (wire es) \<lparr>cp_id = ''c'', cp_created = 1, cp_model = ''m'', cp_prompt_tokens = 0, cp_completion_tokens = 0\<rparr>)
       = [content_chunk \<lparr>cp_id = ''c'', cp_created = 1, cp_model = ''m'', cp_prompt_tokens = 0, cp_completion_tokens = 0\<rparr> (JStr ''hi'')]"
proof -
  let ?c = "\<lparr>cp_id = ''c'', cp_created = 1, cp_model = ''m'', cp_prompt_tokens = 0, cp_completion_tokens = 0\<rparr>"
  have "snd (openai_chat_sse_to_responses_sse demo_loads (\<lambda>v. []) [demo_line] (new_responses_stream ''r'' ''i'' 1 2 (JStr ''m''))) \<noteq> None"
    by code_simp
  then obtain es st' where x: "openai_chat_sse_to_responses_sse demo_loads (\<lambda>v. []) [demo_line]
      (new_responses_stream ''r'' ''i'' 1 2 (JStr ''m'')) = (es, Some st')"
    by (metis prod.collapse not_None_eq)
  have cs: "contents (map snd (iter_sse_events demo_loads [] [demo_line])) = [JStr ''hi'']" by code_simp
  have z: "cp_prompt_tokens ?c = 0" "cp_completion_tokens ?c = 0" by simp_all
  show ?thesis
    using responses_stream_roundtrip [OF x z refl refl] x unfolding cs by auto
qed

section \<open>Every charge is logged\<close>

lemma responses_streamed_logged:
  assumes "responses_streamed fr ids env now db st u k d name payload = (db', st', res)" and "account_ok uid (db, u, k)"
  shows "\<exists>u' k'. logged now uid (db, u, k) (db', u', k')"
proof (cases "db' = db")
  case True
  with assms(2) show ?thesis by (auto intro: logged_refl)
next
  case False
  then obtain m pt ct db1 u1 k1 where sr: "settle_relay env now d name m pt ct (db, u, k) = (db1, u1, k1)"
    and "commit_relay now db1 st = (db', st')"
    using assms(1) by (auto simp: responses_streamed_def split: sum.splits option.splits prod.splits if_splits)
  from settle_commit_logged [OF assms(2) this] show ?thesis by blast
qed

lemma responses_json_logged:
  assumes "responses_json ids env now db st u k d name payload = (db', st', res)" and "account_ok uid (db, u, k)"
  shows "\<exists>u' k'. logged now uid (db, u, k) (db', u', k')"
proof (cases "db' = db")
  case True
  with assms(2) show ?thesis by (auto intro: logged_refl)
next
  case False
  then obtain m pt ct db1 u1 k1 where sr: "settle_relay env now d name m pt ct (db, u, k) = (db1, u1, k1)"
    and "commit_relay now db1 st = (db', st')"
    using assms(1) by (auto simp: responses_json_def split: sum.splits prod.splits)
  from settle_commit_logged [OF assms(2) this] show ?thesis by blast
qed

lemma responses_logged:
  assumes "responses fr ids env now db st u k rq = (db', st', res)" and "account_ok uid (db, u, k)"
  shows "\<exists>u' k'. logged now uid (db, u, k) (db', u', k')"
proof (cases "db' = db")
  case True
  with assms(2) show ?thesis by (auto intro: logged_refl)
next
  case False
  obtain st1 ra where a: "relay_admit env now db st u k = (st1, ra)" by fastforce
  obtain body where b: "ra = Inr ()" "rq_json rq = Some body"
    using False assms(1) a by (cases ra; cases "rq_json rq") (auto simp: responses_def)
  obtain p payload name where c: "responses_request (se_repr env) body = Inr (p, payload, name)"
    using False assms(1) a b by (cases "responses_request (se_repr env) body") (auto simp: responses_def)
  obtain st2 rd where e: "decide env now db st1 rq payload name ''chat'' ''openai.responses'' ''no available upstream'' = (st2, rd)"
    by fastforce
  obtain d where f: "rd = Inr d" using False assms(1) a b c e by (cases rd) (auto simp: responses_def)
  have "responses_streamed fr ids env now db st2 u k d name payload = (db', st', res)
       \<or> responses_json ids env now db st2 u k d name payload = (db', st', res)"
    using assms(1) a b c e f by (auto simp: responses_def split: if_splits)
  then show ?thesis
    by (elim disjE) (erule responses_streamed_logged [OF _ assms(2)], erule responses_json_logged [OF _ assms(2)])
qed

text \<open>
  Claim C15. On every relay endpoint the user's funds (live subscriptions and wallet together)
  fall by exactly the costs of the usage entries the request appended: nothing is charged that
  is not logged, nothing logged that is not charged, and a request that is refused, fails on
  every upstream or breaks off in its stream takes nothing.
\<close>

theorem relay_charges_logged:
  assumes "h \<in> {chat_completions, embeddings, images_generations, messages fr mid, responses fr ids}" and "h env now db st u k rq = (db', st', res)"
    and "account_ok uid (db, u, k)" and "\<forall>m \<in> set (models db). quotes_nonneg m"
  shows "\<exists>ls. usage_logs db' = usage_logs db @ ls
    \<and> sub_total now db' uid + wallet_of db' uid
      = sub_total now db uid + wallet_of db uid - sum_list (map (\<lambda>l. max 0 (ul_cost_cents l)) ls)"
proof -
  have "\<exists>u' k'. logged now uid (db, u, k) (db', u', k')"
    using assms(1)
  proof (elim insertE emptyE)
    assume "h = chat_completions"
    with assms show ?thesis using chat_completions_logged by simp
  next
    assume "h = embeddings"
    with assms show ?thesis using embeddings_logged by simp
  next
    assume "h = images_generations"
    with assms show ?thesis using images_generations_logged by simp
  next
    assume "h = messages fr mid"
    with assms show ?thesis using messages_logged by simp
  next
    assume "h = responses fr ids"
    with assms show ?thesis using responses_logged by simp
  qed
  then show ?thesis by (auto simp: logged_def account_logs_def account_funds_def)
qed

theorem relay_charges_logged_witness:
  "case chat_completions demo_relay_env 0 demo_shop demo_route_state demo_client None demo_request of (db', st', res) \<Rightarrow>
     sub_total 0 db' 4 + wallet_of db' 4 = 1000 - sum_list (map (\<lambda>l. max 0 (ul_cost_cents l)) (usage_logs db'))"
proof -
  obtain db' st' res where c: "chat_completions demo_relay_env 0 demo_shop demo_route_state demo_client None demo_request
      = (db', st', res)" by (metis prod_cases3)
  have q: "\<forall>m \<in> set (models demo_shop). quotes_nonneg m" by (simp add: demo_shop_def demo_quotes)
  have h: "chat_completions \<in> {chat_completions, embeddings, images_generations, messages (\<lambda>r. []) [],
      responses (\<lambda>r. []) \<lparr>ri_response = [], ri_item = [], ri_created = 0, ri_completed = 0\<rparr>}" by simp
  from relay_charges_logged [OF h c demo_account q] demo_funds c show ?thesis
    by (auto simp: account_funds_def account_logs_def)
qed

end
