(* ===== verification/Translate_Laws.thy ===== *)
theory Translate_Laws
  imports Translate Responses_Laws
begin

text \<open>
  Laws of the translator: what it charges is what it logs, whether the account is still loaded or
  has left its session, and the chain header that the external processor writes is read back as
  the candidates it stands for.
\<close>

definition charges_logged :: "datetime \<Rightarrow> int \<Rightarrow> session \<Rightarrow> session \<Rightarrow> bool" where
  \<comment> \<open>the user's funds fell by the costs of the usage entries that were appended\<close>
  "charges_logged now uid db db' \<longleftrightarrow> (\<exists>ls. usage_logs db' = usage_logs db @ ls
     \<and> sub_total now db' uid + wallet_of db' uid
       = sub_total now db uid + wallet_of db uid - sum_list (map (\<lambda>l. max 0 (ul_cost_cents l)) ls))"

lemma charges_logged_refl [simp]: "charges_logged now uid db db"
  by (simp add: charges_logged_def)

lemma logged_charges: "logged now uid (db, u, k) (db', u', k') \<Longrightarrow> charges_logged now uid db db'"
  by (auto simp: logged_def charges_logged_def account_logs_def account_funds_def)

section \<open>Charging a loaded and a detached account\<close>

locale account_charging =
  fixes charge :: charging and now :: datetime
  assumes charge_ok: "account_ok uid acc \<Longrightarrow> 0 < c \<Longrightarrow> account_ok uid (charge ref desc c acc)"
    and charge_funds: "account_ok uid acc \<Longrightarrow> 0 < c
      \<Longrightarrow> account_funds now uid (charge ref desc c acc) = account_funds now uid acc - c"
    and charge_logs: "account_ok uid acc \<Longrightarrow> 0 < c \<Longrightarrow> account_logs (charge ref desc c acc) = account_logs acc"
begin

lemma charged_and_logged:
  assumes "account_ok uid acc" and "ul_cost_cents l = c"
  shows "logged now uid acc (log_account l (if c > 0 then charge ref desc c acc else acc))"
  using assms charge_ok charge_funds charge_logs by (intro logged_one [of _ _ _ l]) auto

lemma classifier_logged:
  assumes "account_ok uid acc"
  shows "logged now uid acc (record_classifier_from_headers charge th name rid acc)"
proof -
  obtain db u k where acc: "acc = (db, u, k)" by (cases acc)
  show ?thesis
  proof (cases "or_text (th_classifier_status th) [] = [] \<or> load_row md_id (models db) (th_classifier_model_id th) = None")
    case True
    with acc have "record_classifier_from_headers charge th name rid acc = acc"
      by (auto simp: record_classifier_from_headers_def split: list.splits)
    with assms show ?thesis by (simp add: logged_refl)
  next
    case False
    then obtain c cs m where s: "or_text (th_classifier_status th) [] = c # cs"
      and m: "load_row md_id (models db) (th_classifier_model_id th) = Some m"
      by (auto simp: neq_Nil_conv)
    show ?thesis
      unfolding record_classifier_from_headers_def acc prod.case s m list.case option.case Let_def
      using assms acc by (intro charged_and_logged) (simp_all add: usage_entry_def)
  qed
qed

lemma bill_logged:
  assumes "account_ok uid acc"
  shows "logged now uid acc (bill_account env charge th m upstream pt ct acc)"
proof -
  obtain db u k where acc: "acc = (db, u, k)" by (cases acc)
  let ?c = "calc_cost_cents (Some m) pt ct" and ?label = "or_text (th_user_facing_model th) (md_code m)"
  let ?l = "usage_entry u k m ?label upstream pt ct ?c (rl_latency env) ''ok'' (request_id_of env th) ''relay''
    (th_resolved_label th)"
  have g: "logged now uid acc (log_account ?l (if ?c > 0 then charge (request_id_of env th) ?label ?c acc else acc))"
    using assms by (intro charged_and_logged) (simp_all add: usage_entry_def)
  then have "account_ok uid (log_account ?l (if ?c > 0 then charge (request_id_of env th) ?label ?c acc else acc))"
    by (simp add: logged_def)
  from logged_mark [OF logged_trans [OF g classifier_logged [OF this, of th ?label "request_id_of env th"]]] show ?thesis
    unfolding acc bill_account_def Let_def prod.case .
qed

lemma bill_chat_logged:
  assumes "account_ok uid (db, u, k)" and "bill_chat_relay env now charge th db st (Some u) k mo upstream pt ct = (db', st')"
  shows "\<exists>u' k'. logged now uid (db, u, k) (db', u', k')"
proof (cases mo)
  case None
  with assms show ?thesis by (auto simp: bill_chat_relay_def intro: logged_refl)
next
  case (Some m)
  obtain db1 u1 k1 where b: "bill_account env charge th m upstream pt ct (db, u, k) = (db1, u1, k1)"
    by (metis prod_cases3)
  with assms(2) Some have "commit_relay now db1 st = (db', st')" by (simp add: bill_chat_relay_def)
  moreover have "logged now uid (db, u, k) (db1, u1, k1)"
    using bill_logged [OF assms(1), of env th m upstream pt ct] b by simp
  ultimately show ?thesis using commit_relay_logged by blast
qed

lemma bill_selected_logged:
  assumes "distinct (map sb_id (subscriptions db))" and "header_int (th_user_id th) = Some uid"
    and "bill_selected env now charge th db st mo upstream pt ct = (db', st')"
  shows "charges_logged now uid db db'"
proof (cases "get_user db uid")
  case None
  with assms show ?thesis
    by (simp add: bill_selected_def billing_context_def load_row_def bill_chat_relay_def split: option.splits)
next
  case (Some u)
  let ?k = "load_row ak_id (api_keys db) (th_api_key_id th)"
  have "account_ok uid (db, u, ?k)" using Some assms(1) row.get_Some [OF Some] by (simp add: account_ok_def)
  from bill_chat_logged [OF this] Some assms(2,3) show ?thesis
    by (fastforce simp: bill_selected_def billing_context_def load_row_def dest: logged_charges)
qed

end

interpretation loaded: account_charging "charge_loaded env now" now for env now
proof
  fix uid acc and c :: int and ref desc
  assume a: "account_ok uid acc" and c: "0 < c"
  obtain acc' bd where ch: "charge_account (rl_sync env) now ref desc c acc = (acc', bd)" by fastforce
  from charge_account_law [OF a ch] c ch
  show "account_ok uid (charge_loaded env now ref desc c acc)"
    and "account_funds now uid (charge_loaded env now ref desc c acc) = account_funds now uid acc - c"
    and "account_logs (charge_loaded env now ref desc c acc) = account_logs acc"
    by (simp_all add: charge_loaded_def)
qed

lemma key_update_account:
  "account_ok uid (upd_api_key i f db, u, k) = account_ok uid (db, u, k')"
  "account_funds now uid (upd_api_key i f db, u, k) = account_funds now uid (db, u, k')"
  "account_logs (upd_api_key i f db, u, k) = account_logs (db, u, k')"
  by (simp_all add: account_ok_def account_funds_def account_logs_def sub_total_def wallet_of_def returning_balance_def)

interpretation detached: account_charging "charge_detached now" now for now
proof
  fix uid acc and c :: int and ref desc
  assume a: "account_ok uid acc" and c: "0 < c"
  obtain db u k where acc: "acc = (db, u, k)" by (cases acc)
  have a0: "account_ok uid (db, u, None)" using a acc by (simp add: account_ok_def)
  obtain db' u' k' bd where ch: "charge_user False now db u None c (Some ref) (Some desc) = (db', u', k', bd)"
    by (metis prod_cases4)
  then have "charge_account False now ref desc c (db, u, None) = ((db', u', k'), bd)" by (simp add: charge_account_def)
  note law = charge_account_law [OF a0 this]
  have same: "account_funds now uid (db, u, None) = account_funds now uid acc" "account_logs (db, u, None) = account_logs acc"
    by (simp_all add: acc account_funds_def account_logs_def)
  from law same ch c acc key_update_account
  show "account_ok uid (charge_detached now ref desc c acc)"
    and "account_funds now uid (charge_detached now ref desc c acc) = account_funds now uid acc - c"
    and "account_logs (charge_detached now ref desc c acc) = account_logs acc"
    by (auto simp: charge_detached_def account_ok_def account_funds_def account_logs_def split: option.splits)
qed

section \<open>The endpoints\<close>

lemma translate_relay_logged:
  assumes "translate_relay env th now db st cands payload stream cs cj = (db', st', res)"
    and "distinct (map sb_id (subscriptions db))" and "header_int (th_user_id th) = Some uid"
  shows "charges_logged now uid db db'"
  using assms(1) loaded.bill_selected_logged [OF assms(2,3)] detached.bill_selected_logged [OF assms(2,3)]
  by (auto simp: translate_relay_def split: sum.splits if_splits option.splits prod.splits)

lemma translate_embeddings_logged:
  assumes "translate_embeddings env th now db st body = (db', st', res)"
    and "distinct (map sb_id (subscriptions db))" and "header_int (th_user_id th) = Some uid"
  shows "charges_logged now uid db db'"
  using assms(1) loaded.bill_selected_logged [OF assms(2,3)]
  by (auto simp: translate_embeddings_def Let_def split: sum.splits if_splits option.splits prod.splits)

lemma chain_loop_rows:
  "(mo, c, upstream) \<in> set (chain_loop db items seen)
     \<Longrightarrow> \<exists>m. mo = Some m \<and> m \<in> set (models db) \<and> c \<in> set (channels db) \<and> md_enabled m \<and> ch_enabled c"
  by (induction db items seen rule: chain_loop.induct)
    (auto simp: chain_candidate_def dest: row.get_Some row.get_Some [OF sym] split: option.splits if_splits)

lemma load_candidates_rows:
  assumes "load_candidates db chain mh chh up = Inr cands" and "(Some m, c, upstream) \<in> set cands"
  shows "m \<in> set (models db)"
  using assms chain_loop_rows [of _ c upstream db]
  by (fastforce simp: load_candidates_def Let_def bind_result_eq_Inr load_row_def
      dest: row.get_Some split: list.splits if_splits option.splits)

lemma with_model_rows: "(m, c) \<in> set (with_model kind cands) \<longleftrightarrow> md_kind m = kind \<and> (\<exists>u. (Some m, c, u) \<in> set cands)"
  by (fastforce simp: with_model_def split: option.splits if_splits)

lemma translate_images_logged:
  assumes "translate_images_generations env th now db st body = (db', st', res)"
    and "distinct (map sb_id (subscriptions db))" and "header_int (th_user_id th) = Some uid"
    and "\<forall>m \<in> set (models db). quotes_nonneg m"
  shows "charges_logged now uid db db'"
proof (cases "db' = db")
  case False
  let ?k = "load_row ak_id (api_keys db) (th_api_key_id th)"
  from assms(1,3) False obtain u loaded p ps payload acc code answer name rid where
      u: "get_user db uid = Some u"
    and l: "load_candidates db (th_image_chain th) (th_model_id th) (th_channel_id th) None = Inr loaded"
    and c: "filter (\<lambda>(m, c). md_enabled m) (with_model ''image'' loaded) = p # ps"
    and e: "execute_image_relay (env\<lparr>rl_request_id := rid\<rparr>) now (ss_calls st) payload name (th_resolved_label th)
        (p # ps) (db, u, ?k) = Inr (acc, code, answer)"
    and t: "(case (if code = 200 then record_classifier_from_headers (charge_loaded env now) th name rid acc else acc) of
        (db1, u1, k1) \<Rightarrow> commit_relay now db1 st) = (db', st')"
    by (auto simp: translate_images_generations_def Let_def
        split: option.splits sum.splits list.splits json.splits prod.splits)
  have ok: "account_ok uid (db, u, ?k)" using u assms(2) row.get_Some [OF u] by (simp add: account_ok_def)
  have "m \<in> set (models db)" if "(m, ch) \<in> set (p # ps)" for m ch
    using that load_candidates_rows [OF l] by (auto simp: with_model_rows simp flip: c)
  then have q: "\<forall>(m, ch) \<in> set (p # ps). quotes_nonneg m" using assms(4) by blast
  have g: "logged now uid (db, u, ?k) acc" by (rule image_relay_logged [OF e ok q])
  then have ok': "account_ok uid acc" by (simp add: logged_def)
  have "logged now uid (db, u, ?k) (record_classifier_from_headers (charge_loaded env now) th name rid acc)"
    by (rule logged_trans [OF g loaded.classifier_logged [OF ok']])
  with g have "logged now uid (db, u, ?k) (if code = 200
      then record_classifier_from_headers (charge_loaded env now) th name rid acc else acc)" (is "logged _ _ _ ?acc") by simp
  with t show ?thesis by (cases ?acc) (auto dest: commit_relay_logged intro: logged_charges)
qed simp

lemma endpoint_logged:
  assumes "h \<in> {translate_chat_completions, translate_embeddings, translate_images_generations,
      translate_messages fr mid, translate_responses fr ids}"
    and "h env th now db st body = (db', st', res)"
    and "distinct (map sb_id (subscriptions db))" and "header_int (th_user_id th) = Some uid"
    and "\<forall>m \<in> set (models db). quotes_nonneg m"
  shows "charges_logged now uid db db'"
proof -
  note relay = translate_relay_logged [OF _ assms(3,4)]
  show ?thesis
    using assms(1)
  proof (elim insertE emptyE)
    assume "h = translate_chat_completions"
    with assms(2) relay show ?thesis
      by (auto simp: translate_chat_completions_def split: sum.splits option.splits json.splits)
  next
    assume "h = translate_embeddings"
    with assms translate_embeddings_logged show ?thesis by simp
  next
    assume "h = translate_images_generations"
    with assms translate_images_logged show ?thesis by simp
  next
    assume "h = translate_messages fr mid"
    with assms(2) relay show ?thesis
      by (auto simp: translate_messages_def Let_def split: sum.splits option.splits prod.splits)
  next
    assume "h = translate_responses fr ids"
    with assms(2) relay show ?thesis
      by (auto simp: translate_responses_def Let_def split: sum.splits option.splits json.splits)
  qed
qed

text \<open>
  Claim C19. Whichever endpoint of the translator Envoy calls, the funds of the user its headers
  name (live subscriptions and wallet together) fall by exactly the costs of the usage entries
  the request appended, streamed or not, with the classifier's share; a request that is refused,
  that fails on every upstream or whose stream breaks off takes nothing.
\<close>

theorem translate_charges_logged:
  assumes "h \<in> {translate_chat_completions, translate_embeddings, translate_images_generations,
      translate_messages fr mid, translate_responses fr ids}"
    and "h env th now db st body = (db', st', res)"
    and "distinct (map sb_id (subscriptions db))" and "header_int (th_user_id th) = Some uid"
    and "\<forall>m \<in> set (models db). quotes_nonneg m"
  shows "\<exists>ls. usage_logs db' = usage_logs db @ ls
    \<and> sub_total now db' uid + wallet_of db' uid
      = sub_total now db uid + wallet_of db uid - sum_list (map (\<lambda>l. max 0 (ul_cost_cents l)) ls)"
  using endpoint_logged [OF assms] by (simp add: charges_logged_def)

definition demo_headers :: translate_headers where
  "demo_headers = \<lparr>th_channel_id = Some ''7'', th_model_id = Some ''3'', th_user_id = Some ''4'', th_api_key_id = None,
     th_user_facing_model = Some ''gpt'', th_upstream_model = Some ''up'', th_upstream_protocol = None,
     th_connector_type = None, th_chat_chain = Some ''2:7, 3:7'', th_embedding_chain = None, th_image_chain = None,
     th_request_id = Some ''r9'', th_resolved_label = None, th_classifier_model_id = None,
     th_classifier_upstream_model = None, th_classifier_prompt_tokens = None, th_classifier_latency_ms = None,
     th_classifier_status = None\<rparr>"

theorem translate_charges_logged_witness:
  "case translate_chat_completions demo_relay_env demo_headers 0 demo_shop demo_route_state (Some (JObj [])) of (db', st', res) \<Rightarrow>
     sub_total 0 db' 4 + wallet_of db' 4 = 1000 - sum_list (map (\<lambda>l. max 0 (ul_cost_cents l)) (usage_logs db'))"
proof -
  obtain db' st' res where c: "translate_chat_completions demo_relay_env demo_headers 0 demo_shop demo_route_state (Some (JObj []))
      = (db', st', res)" by (metis prod_cases3)
  have q: "\<forall>m \<in> set (models demo_shop). quotes_nonneg m" by (simp add: demo_shop_def demo_quotes)
  have d: "distinct (map sb_id (subscriptions demo_shop))" and u: "header_int (th_user_id demo_headers) = Some 4"
    by code_simp+
  have h: "translate_chat_completions \<in> {translate_chat_completions, translate_embeddings, translate_images_generations,
      translate_messages (\<lambda>r. []) [],
      translate_responses (\<lambda>r. []) \<lparr>ri_response = [], ri_item = [], ri_created = 0, ri_completed = 0\<rparr>}" by simp
  from translate_charges_logged [OF h c d u q] demo_funds c show ?thesis
    by (auto simp: account_funds_def account_logs_def)
qed

end
