(* ===== verification/Als_Laws.thy ===== *)
theory Als_Laws
  imports Als Translate_Laws
begin

text \<open>
  Laws of the access log service: the ring buffer keeps the newest lines of each node, and an
  entry that is left to this service is charged what is logged for it, each log at the price of its
  model, or leaves at most a free error entry when the transaction fails.
\<close>

section \<open>The ring buffer\<close>

lemma deque_append_last:
  "deque_append n line (drop (length ls - n) ls) = drop (length (ls @ [line]) - n) (ls @ [line])"
  by (cases "n \<le> length ls") (simp_all add: deque_append_def Let_def Suc_diff_le)

lemma buffer_append_other: "n \<noteq> node \<Longrightarrow> buffer_append node line bs n = bs n"
  by (simp add: buffer_append_def)

lemma buffer_fold:
  assumes "node \<noteq> []" and "bs node = Some (drop (length ls0 - max_lines_per_node) ls0)"
  shows "fold (buffer_append node) ls bs node = Some (drop (length (ls0 @ ls) - max_lines_per_node) (ls0 @ ls))"
  using assms(2)
proof (induction ls arbitrary: bs ls0)
  case (Cons l ls)
  have "buffer_append node l bs node = Some (drop (length (ls0 @ [l]) - max_lines_per_node) (ls0 @ [l]))"
    using assms(1) Cons.prems deque_append_last [of max_lines_per_node l ls0] by (simp add: buffer_append_def)
  with Cons.IH [of "buffer_append node l bs" "ls0 @ [l]"] show ?case by simp
qed simp

lemma fold_append_other: "n \<noteq> node \<Longrightarrow> fold (buffer_append node) ls bs n = bs n"
  by (induction ls arbitrary: bs) (simp_all add: buffer_append_other)

text \<open>
  After any lines were appended for a node, reading its last \<open>n\<close> lines gives the newest
  \<open>n\<close> of them, at most 500, in order; the buffers of other nodes are unchanged.
\<close>

theorem access_log_tail:
  assumes "node \<noteq> []" and "bs node = None" and "0 < n"
  shows "buffer_tail node n (fold (buffer_append node) ls bs)
      = drop (length ls - min (nat n) max_lines_per_node) ls
    \<and> (\<forall>m. m \<noteq> node \<longrightarrow> fold (buffer_append node) ls bs m = bs m)"
proof -
  have other: "\<forall>m. m \<noteq> node \<longrightarrow> fold (buffer_append node) ls bs m = bs m" by (simp add: fold_append_other)
  show ?thesis
  proof (cases ls)
    case Nil
    with assms(2) show ?thesis by (simp add: buffer_tail_def)
  next
    case (Cons l ls')
    have "buffer_append node l bs node = Some (drop (length [l] - max_lines_per_node) [l])"
      using assms(1,2) by (simp add: buffer_append_def deque_append_def)
    with buffer_fold [OF assms(1), of "buffer_append node l bs" "[l]" ls'] Cons
    have b: "fold (buffer_append node) ls bs node = Some (drop (length ls - max_lines_per_node) ls)" by simp
    have "buffer_tail node n (fold (buffer_append node) ls bs) = drop (length ls - min (nat n) max_lines_per_node) ls"
      using assms(3) by (auto simp: buffer_tail_def b min_def split: if_splits) (auto simp: not_le le_diff_conv intro!: arg_cong [where f = "\<lambda>i. drop i ls"])
    with other show ?thesis by blast
  qed
qed

theorem access_log_tail_witness:
  "buffer_tail ''n1'' 2 (fold (buffer_append ''n1'') [''a'', ''b'', ''c''] Map.empty) = [''b'', ''c'']"
  using access_log_tail [of "''n1''" Map.empty 2 "[''a'', ''b'', ''c'']"] by (simp add: max_lines_per_node_def)

section \<open>Charging an entry\<close>

definition rates_nonneg :: "session \<Rightarrow> bool" where
  "rates_nonneg db \<longleftrightarrow> (\<forall>m \<in> set (models db). 0 \<le> md_prompt_rate m \<and> 0 \<le> md_completion_rate m)"

lemma lookup_cost_nonneg:
  assumes "rates_nonneg db" and "0 \<le> pt" and "0 \<le> ct"
  shows "0 \<le> calc_cost_cents (lookup_row (get_model db) i) pt ct"
proof (cases "lookup_row (get_model db) i")
  case None
  then show ?thesis by (simp add: calc_cost_cents_def)
next
  case (Some m)
  then have "m \<in> set (models db)" by (auto simp: lookup_row_def dest: row.get_Some split: option.splits)
  with assms Some show ?thesis by (auto simp: calc_cost_cents_def rates_nonneg_def intro!: ceil_truediv_nonneg)
qed

lemma digits_val_nonneg: "py_isdigit s \<Longrightarrow> 0 \<le> digits_val s"
proof -
  have "0 \<le> a \<Longrightarrow> list_all is_digit s \<Longrightarrow> 0 \<le> foldl (\<lambda>a c. a * 10 + (int (of_char c) - 48)) a s" for a s
    by (induction s arbitrary: a) (auto simp: is_digit_def)
  then show "py_isdigit s \<Longrightarrow> 0 \<le> digits_val s" by (simp add: digits_val_def py_isdigit_def)
qed

lemma digits_or_nonneg: "0 \<le> digits_or 0 (\<lambda>i. i) h"
  by (simp add: digits_or_def digits_val_nonneg split: option.splits)

lemma read_entry_request:
  assumes "read_entry e = Some q"
  shows "int_of_text (hdr_text (en_request_headers e) ''x-llmxy-user-id'') = Inr (ar_user_id q)"
    and "0 \<le> ar_cls_prompt_tokens q"
    and "ar_prompt_tokens q = fst (extract_usage e)" and "ar_completion_tokens q = snd (extract_usage e)"
  using assms digits_or_nonneg
  by (auto simp: read_entry_def Let_def split: if_splits sum.splits)

lemma charge_entry_effect:
  assumes "charge_entry env now db q = (db1, k, bd)" and "get_user db (ar_user_id q) = Some u"
    and "distinct (map sb_id (subscriptions db))"
  shows "usage_logs db1 = usage_logs db"
    and "sub_total now db1 (ar_user_id q) + wallet_of db1 (ar_user_id q)
      = sub_total now db (ar_user_id q) + wallet_of db (ar_user_id q) - max 0 (relay_cost db q + classifier_cost db q)"
proof -
  let ?c = "relay_cost db q + classifier_cost db q" and ?k = "lookup_row (get_api_key_row db) (ar_api_key_id q)"
  have ok: "account_ok (ar_user_id q) (db, u, ?k)"
    using assms(2,3) row.get_Some [OF assms(2)] by (simp add: account_ok_def)
  obtain acc' bd' where ch: "charge_account (al_sync env) now (ar_request_id q) (charge_text db q) ?c (db, u, ?k) = (acc', bd')"
    by fastforce
  have "db1 = fst acc'"
    using assms(1,2) ch by (auto simp: charge_entry_def charge_account_def charge_user_def Let_def split: prod.splits if_splits)
  with charge_account_law [OF ok ch] show "usage_logs db1 = usage_logs db"
    and "sub_total now db1 (ar_user_id q) + wallet_of db1 (ar_user_id q)
      = sub_total now db (ar_user_id q) + wallet_of db (ar_user_id q) - max 0 ?c"
    by (cases acc'; simp add: account_logs_def account_funds_def)+
qed

lemma logs_fold:
  "usage_logs (foldl (\<lambda>s l. add_usage_log l s) db ls) = usage_logs db @ ls"
  "sub_total now (foldl (\<lambda>s l. add_usage_log l s) db ls) uid = sub_total now db uid"
  "wallet_of (foldl (\<lambda>s l. add_usage_log l s) db ls) uid = wallet_of db uid"
  by (induction ls arbitrary: db) (simp_all add: sub_total_def wallet_of_def returning_balance_def)

lemma entry_logs_cost:
  assumes "0 \<le> relay_cost db q" and "0 \<le> classifier_cost db q"
    and "classifier_log q (classifier_cost db q) = [] \<Longrightarrow> classifier_cost db q = 0"
  shows "sum_list (map (\<lambda>l. max 0 (ul_cost_cents l)) (entry_logs db q)) = relay_cost db q + classifier_cost db q"
  using assms
  by (auto simp: entry_logs_def als_log_def classifier_log_def split: option.splits list.splits)

lemma classifier_unlogged: "classifier_log q (classifier_cost db q) = [] \<Longrightarrow> classifier_cost db q = 0"
  by (auto simp: classifier_log_def classifier_cost_def lookup_row_def calc_cost_cents_def or_text_def
      split: option.splits list.splits if_splits)

definition classified :: "als_request \<Rightarrow> bool" where
  "classified q \<longleftrightarrow> ar_cls_model_id q \<noteq> None \<and> or_text (ar_cls_status q) [] \<noteq> []"

definition billable :: "als_env \<Rightarrow> session \<Rightarrow> als_request \<Rightarrow> bool" where
  \<comment> \<open>the transaction commits: the user and whatever else the entries refer to exist; image requests are not
      billed here\<close>
  "billable env db q \<longleftrightarrow> al_commit env \<and> get_user db (ar_user_id q) \<noteq> None
     \<and> (case ar_api_key_id q of None \<Rightarrow> True | Some i \<Rightarrow> get_api_key_row db i \<noteq> None)
     \<and> (case ar_model_id q of None \<Rightarrow> True | Some i \<Rightarrow> (case get_model db i of None \<Rightarrow> False | Some m \<Rightarrow> md_kind m \<noteq> ''image''))
     \<and> (classified q \<longrightarrow> get_model db (the (ar_cls_model_id q)) \<noteq> None)"

definition priced :: "session \<Rightarrow> usage_log \<Rightarrow> bool" where
  \<comment> \<open>an entry costs its tokens at the rates of its model, or nothing when the request failed\<close>
  "priced db l \<longleftrightarrow> ul_cost_cents l =
     (if ul_status l = ''ok'' then calc_cost_cents (lookup_row (get_model db) (ul_model_id l)) (ul_prompt_tokens l) (ul_completion_tokens l)
      else 0)"

lemma classifier_log_cases:
  "classifier_log q c = (if classified q then [(als_log q c (or_text (ar_cls_status q) []))
      \<lparr>ul_model_id := ar_cls_model_id q,
       ul_upstream_model := (if or_text (ar_cls_upstream q) [] = [] then None else ar_cls_upstream q),
       ul_prompt_tokens := ar_cls_prompt_tokens q, ul_completion_tokens := 0,
       ul_latency_ms := ar_cls_latency_ms q, ul_kind := ''classifier''\<rparr>] else [])"
  by (auto simp: classifier_log_def classified_def split: option.split list.split)

lemma entry_logs_priced: "l \<in> set (entry_logs db q) \<Longrightarrow> priced db l"
  by (auto simp: entry_logs_def classifier_log_cases classified_def als_log_def priced_def relay_cost_def classifier_cost_def
      or_text_def split: if_splits option.splits)

lemma billable_commit:
  "billable env db q \<longleftrightarrow> al_commit env \<and> list_all (log_refs db) (entry_logs db q)
     \<and> \<not> (case lookup_row (get_model db) (ar_model_id q) of None \<Rightarrow> False | Some m \<Rightarrow> md_kind m = ''image'')"
  by (auto simp: billable_def entry_logs_def classifier_log_cases classified_def als_log_def log_refs_def lookup_row_def
      split: option.splits)

lemma bill_entry_cases:
  assumes "bill_entry env now db r q = (db', r')" and "charge_entry env now db q = (db1, k, bd)"
  shows "if billable env db q then db' = foldl (\<lambda>s l. add_usage_log l s) db1 (entry_logs db q)
    else r' = r \<and> (db' = db \<or> db' = add_usage_log (als_log q 0 ''error'') db)"
  using assms unfolding billable_commit
  by (auto simp: bill_entry_def write_usage_log_only_def Let_def split: if_splits)

lemma bill_entry_logged:
  assumes "bill_entry env now db r q = (db', r')" and "distinct (map sb_id (subscriptions db))"
    and "0 \<le> relay_cost db q" and "0 \<le> classifier_cost db q"
  shows "\<exists>ls. usage_logs db' = usage_logs db @ ls
    \<and> sub_total now db' (ar_user_id q) + wallet_of db' (ar_user_id q)
      = sub_total now db (ar_user_id q) + wallet_of db (ar_user_id q) - sum_list (map (\<lambda>l. max 0 (ul_cost_cents l)) ls)
    \<and> (\<forall>l \<in> set ls. priced db l)
    \<and> (if billable env db q then ls = entry_logs db q
       else r' = r \<and> (db' = db \<and> ls = [] \<or> db' = add_usage_log (als_log q 0 ''error'') db \<and> ls = [als_log q 0 ''error'']))"
proof -
  obtain db1 k bd where c: "charge_entry env now db q = (db1, k, bd)" by (metis prod_cases3)
  note cs = bill_entry_cases [OF assms(1) c]
  show ?thesis
  proof (cases "billable env db q")
    case True
    then obtain u where u: "get_user db (ar_user_id q) = Some u" by (auto simp: billable_def)
    note e = charge_entry_effect [OF c u assms(2)]
    have "db' = foldl (\<lambda>s l. add_usage_log l s) db1 (entry_logs db q)" using cs True by simp
    then show ?thesis
      using True e entry_logs_cost [OF assms(3,4) classifier_unlogged] assms(3,4) entry_logs_priced
      by (intro exI [of _ "entry_logs db q"]) (simp add: logs_fold)
  next
    case False
    have l: "ul_cost_cents (als_log q 0 ''error'') = 0" "priced db (als_log q 0 ''error'')"
      by (simp_all add: als_log_def priced_def)
    from False cs consider "r' = r" "db' = db" | "r' = r" "db' = add_usage_log (als_log q 0 ''error'') db" by auto
    then show ?thesis
    proof cases
      case 2
      then show ?thesis using False l
        by (intro exI [of _ "[als_log q 0 ''error'']"]) (simp add: sub_total_def wallet_of_def returning_balance_def)
    qed (use False in auto)
  qed
qed

text \<open>
  Claim C20. An access log entry takes from the user exactly what it logs. An entry that is billed already,
  or names no user and model, changes nothing. Otherwise, for non-negative token counts and rates: when
  the transaction commits it leaves the relay's entry with the reported tokens, and the classifier's entry
  if there was one, each priced at its own model, and the funds fall by their sum; when it is rolled back,
  or the request was one for images, at most one free error entry is left, and neither the funds nor Redis
  nor anything else changes.
\<close>

theorem ingest_charges_logged:
  assumes "ingest_entry env now e (db, r) = (db', r')"
    and "distinct (map sb_id (subscriptions db))" and "rates_nonneg db"
    and "0 \<le> fst (extract_usage e)" and "0 \<le> snd (extract_usage e)"
  shows "case read_entry e of
      None \<Rightarrow> db' = db \<and> r' = r
    | Some q \<Rightarrow> \<exists>ls. usage_logs db' = usage_logs db @ ls
        \<and> sub_total now db' (ar_user_id q) + wallet_of db' (ar_user_id q)
          = sub_total now db (ar_user_id q) + wallet_of db (ar_user_id q) - sum_list (map (\<lambda>l. max 0 (ul_cost_cents l)) ls)
        \<and> (\<forall>l \<in> set ls. priced db l \<and> ul_user_id l = ar_user_id q)
        \<and> (if billable env db q
           then map ul_kind ls = ''relay'' # (if classified q then [''classifier''] else [])
             \<and> ul_model_id (hd ls) = ar_model_id q \<and> ul_status (hd ls) = entry_status e
             \<and> (ul_prompt_tokens (hd ls), ul_completion_tokens (hd ls)) = extract_usage e
           else r' = r \<and> (db' = db \<or> (\<exists>l. db' = add_usage_log l db \<and> ul_status l = ''error'' \<and> ul_cost_cents l = 0)))"
proof (cases "read_entry e")
  case None
  with assms(1) show ?thesis by (simp add: ingest_entry_def)
next
  case (Some q)
  note rq = read_entry_request [OF Some]
  have st: "ar_status q = entry_status e"
    using Some by (auto simp: read_entry_def Let_def split: if_splits sum.splits)
  have "bill_entry env now db r q = (db', r')" using assms(1) Some by (simp add: ingest_entry_def)
  moreover have "0 \<le> relay_cost db q" "0 \<le> classifier_cost db q"
    using assms(3,4,5) rq by (simp_all add: relay_cost_def classifier_cost_def lookup_cost_nonneg)
  ultimately obtain ls where ls: "usage_logs db' = usage_logs db @ ls"
      "sub_total now db' (ar_user_id q) + wallet_of db' (ar_user_id q)
        = sub_total now db (ar_user_id q) + wallet_of db (ar_user_id q) - sum_list (map (\<lambda>l. max 0 (ul_cost_cents l)) ls)"
      "\<forall>l \<in> set ls. priced db l"
    and cs: "if billable env db q then ls = entry_logs db q
       else r' = r \<and> (db' = db \<and> ls = [] \<or> db' = add_usage_log (als_log q 0 ''error'') db \<and> ls = [als_log q 0 ''error''])"
    using bill_entry_logged assms(2) by blast
  have u: "ul_user_id (als_log q c s) = ar_user_id q" "ul_status (als_log q c s) = s" "ul_cost_cents (als_log q c s) = c" for c s
    by (simp_all add: als_log_def)
  have uid: "\<forall>l \<in> set ls. ul_user_id l = ar_user_id q"
    using cs u by (auto simp: entry_logs_def classifier_log_cases als_log_def split: if_splits)
  have "if billable env db q
     then map ul_kind ls = ''relay'' # (if classified q then [''classifier''] else [])
       \<and> ul_model_id (hd ls) = ar_model_id q \<and> ul_status (hd ls) = entry_status e
       \<and> (ul_prompt_tokens (hd ls), ul_completion_tokens (hd ls)) = extract_usage e
     else r' = r \<and> (db' = db \<or> (\<exists>l. db' = add_usage_log l db \<and> ul_status l = ''error'' \<and> ul_cost_cents l = 0))"
  proof (cases "billable env db q")
    case True
    then show ?thesis using cs rq(3,4) st by (simp add: entry_logs_def classifier_log_cases als_log_def)
  next
    case False
    then show ?thesis using cs u by auto
  qed
  with ls uid Some show ?thesis by auto
qed

section \<open>Streams\<close>

definition stream_entries :: "als_message list \<Rightarrow> als_entry list" where
  "stream_entries msgs = concat (map (\<lambda>m. case am_entries m of None \<Rightarrow> [] | Some es \<Rightarrow> es) msgs)"

lemma unnamed_entries:
  "fold (als_entry_step env now None) es s =
     (case fold (ingest_entry env now) es (ls_db s, ls_redis s) of (db', r') \<Rightarrow> s\<lparr>ls_db := db', ls_redis := r'\<rparr>)"
proof (induction es arbitrary: s)
  case (Cons e es)
  obtain db' r' where i: "ingest_entry env now e (ls_db s, ls_redis s) = (db', r')" by fastforce
  then have "als_entry_step env now None e s = s\<lparr>ls_db := db', ls_redis := r'\<rparr>"
    by (simp add: als_entry_step_def record_access_line_def or_text_def)
  with Cons i show ?case by (simp split: prod.splits)
qed simp

lemma unnamed_stream:
  assumes "\<forall>m \<in> set msgs. am_node m = None"
  shows "stream_loop env now msgs None s = (fold (als_entry_step env now None) (stream_entries msgs) s, None)"
  using assms by (induction msgs arbitrary: s) (simp_all add: stream_entries_def touch_node_def Let_def)

text \<open>
  The registration of the node is checked only for streams that name one: a stream whose
  messages carry no identifier is ingested and billed in full, while one that opens with the
  name of an unregistered node is refused before any entry is read.
\<close>

theorem als_unidentified_ingested:
  assumes "check_token (al_tokens env) md"
  shows "((\<forall>m \<in> set msgs. am_node m = None) \<longrightarrow>
      (case fold (ingest_entry env now) (stream_entries msgs) (ls_db s, ls_redis s) of
         (db', r') \<Rightarrow> stream_handler env md now msgs s = (s\<lparr>ls_db := db', ls_redis := r'\<rparr>, None)))
    \<and> (am_node m0 = Some n \<and> \<not> node_exists n s \<longrightarrow>
      stream_handler env md now (m0 # msgs) s = (s, Some (''unknown node '' @ n)))"
  using assms unnamed_stream [of msgs env now s] unnamed_entries [of env now "stream_entries msgs" s]
  by (auto simp: stream_handler_def Let_def split: prod.splits)

section \<open>Examples\<close>

definition demo_entry :: als_entry where
  "demo_entry = \<lparr>en_request_headers = [(''x-llmxy-user-id'', ''4''), (''X-LLMXY-Model-Id'', ''3'')],
     en_response_headers = [], en_request_method = 3, en_protocol_version = 2, en_original_path = [],
     en_path = ''/v1/chat/completions'', en_forwarded_for = [], en_user_agent = [], en_request_id = [], en_authority = [],
     en_request_body_bytes = 10, en_response_body_bytes = 20, en_response_code = Some 200, en_response_flags = None,
     en_start_time = Some 0, en_duration = Some (1, 500000000), en_upstream_remote_address = None,
     en_usage = Some [(''prompt_tokens'', Some 1000)]\<rparr>"

definition demo_als_env :: als_env where
  "demo_als_env = \<lparr>al_sync = True, al_commit = True, al_commit_degraded = True, al_tokens = ''t1,t2''\<rparr>"

theorem ingest_charges_logged_witness:
  "case ingest_entry demo_als_env 0 demo_entry (demo_shop, cold_redis) of (db', r') \<Rightarrow>
     sub_total 0 db' 4 + wallet_of db' 4 = 1000 - sum_list (map (\<lambda>l. max 0 (ul_cost_cents l)) (usage_logs db'))
     \<and> (\<exists>l. usage_logs db' = [l] \<and> ul_kind l = ''relay'' \<and> ul_status l = ''ok'')"
proof -
  obtain db' r' where i: "ingest_entry demo_als_env 0 demo_entry (demo_shop, cold_redis) = (db', r')" by fastforce
  have d: "distinct (map sb_id (subscriptions demo_shop))"
    and r: "rates_nonneg demo_shop"
    and t: "0 \<le> fst (extract_usage demo_entry)" "0 \<le> snd (extract_usage demo_entry)"
    and q: "case read_entry demo_entry of None \<Rightarrow> False | Some q \<Rightarrow> billable demo_als_env demo_shop q \<and> \<not> classified q
       \<and> ar_user_id q = 4"
    and s: "entry_status demo_entry = ''ok''"
    by code_simp+
  from ingest_charges_logged [OF i d r t] demo_funds i q s show ?thesis
    by (auto simp: account_funds_def account_logs_def split: option.splits)
qed

definition demo_als_state :: als_state where
  "demo_als_state = \<lparr>ls_db = demo_shop, ls_redis = cold_redis, ls_buffers = Map.empty, ls_nodes = [(''n1'', None)]\<rparr>"

theorem als_unidentified_ingested_witness:
  "case ingest_entry demo_als_env 0 demo_entry (demo_shop, cold_redis) of (db', r') \<Rightarrow>
     stream_handler demo_als_env [(''x-llmxy-token'', ''t2'')] 0 [\<lparr>am_node = None, am_entries = Some [demo_entry]\<rparr>] demo_als_state
       = (demo_als_state\<lparr>ls_db := db', ls_redis := r'\<rparr>, None)"
proof -
  have c: "check_token (al_tokens demo_als_env) [(''x-llmxy-token'', ''t2'')]" by code_simp
  from als_unidentified_ingested [OF c, of "[\<lparr>am_node = None, am_entries = Some [demo_entry]\<rparr>]" 0 demo_als_state]
  show ?thesis by (simp add: stream_entries_def demo_als_state_def)
qed

end
