(* ===== verification/Ext_Laws.thy ===== *)
theory Ext_Laws
  imports Ext_Proc Key_Laws Relay_Laws
begin

text \<open>
  Admission by the external processor, compared with the authentication of the relay endpoints,
  and the way its stream treats request bodies.
\<close>

section \<open>Admission\<close>

definition due_to_expire :: "datetime \<Rightarrow> session \<Rightarrow> string \<Rightarrow> bool" where
  \<comment> \<open>the key is active in its row but past its expiry\<close>
  "due_to_expire now db h \<longleftrightarrow>
     (case key_by_hash db h of None \<Rightarrow> False | Some row \<Rightarrow> needs_expire now (ak_status row) (ak_expires_at row))"

definition fresh_worker :: "datetime \<Rightarrow> worker \<Rightarrow> bool" where
  "fresh_worker now w \<longleftrightarrow> (\<forall>h. snd (tc_get now (wk_apikeys w) h) = None) \<and> (\<forall>i. snd (tc_get now (wk_users w) i) = None)"

definition empty_redis :: "datetime \<Rightarrow> redis \<Rightarrow> bool" where
  "empty_redis now r \<longleftrightarrow> r_up r \<and> (\<forall>k. rd_live now r k = None)"

lemma empty_redis_cold: "empty_redis now r \<Longrightarrow> cache_cold now r u k ws"
  by (simp add: empty_redis_def cache_cold_def rd_get_def)

lemma empty_redis_roll: "empty_redis now r \<Longrightarrow> empty_redis now (apply_window_roll kid ws r)"
  by (auto simp: empty_redis_def apply_window_roll_def rd_delete_def rd_put_def rd_live_def)

lemma cached_enforcement_frame:
  assumes "enforce_key_state_cached now db w r snap = (db', w', r', res)"
  shows "wk_users w' = wk_users w" and "empty_redis now r \<Longrightarrow> empty_redis now r'"
  using assms empty_redis_roll
  by (auto simp: enforce_key_state_cached_def update_apikey_snapshot_def invalidate_apikey_def publish_def dispatch_def
      cache_handlers_def local_evict_apikey_def Let_def split: if_splits option.splits)

lemma put_key_frames:
  "keys_ok (put_key k db) \<longleftrightarrow> keys_ok db" "funds_nonneg now (put_key k db) u \<longleftrightarrow> funds_nonneg now db u"
proof -
  have "map ak_id (row_upd ak_id (ak_id k) (\<lambda>r. k) t) = map ak_id t" for t
    by (simp add: row_upd_def)
  then show "keys_ok (put_key k db) \<longleftrightarrow> keys_ok db" by (simp add: keys_ok_def put_key_def)
qed (simp add: funds_nonneg_def put_key_def)

text \<open>The quota check leaves the counter of the rate limit alone.\<close>

lemma rate_key [simp]:
  "k_rate i \<noteq> k_wallet j" "k_rate i \<noteq> k_subq j" "k_rate i \<noteq> k_usubs j" "k_rate i \<noteq> k_kused j a"
  "k_rate i \<noteq> k_hydr_lock j"
  by (simp_all add: key_defs)

lemma rd_data_frame:
  "j \<noteq> k \<Longrightarrow> r_data (rd_set now k v ex r) j = r_data r j" "j \<noteq> k \<Longrightarrow> r_data (rd_delete k r) j = r_data r j"
  "j \<noteq> k \<Longrightarrow> r_data (rd_expire now k ex r) j = r_data r j" "j \<noteq> k \<Longrightarrow> r_data (rd_zadd now k ms r) j = r_data r j"
  "j \<noteq> k \<Longrightarrow> r_data (fst (rd_set_nx now k v ex r)) j = r_data r j"
  by (auto simp: rd_set_def rd_delete_def rd_expire_def rd_zadd_def rd_set_nx_def rd_put_def
      split: option.splits redis_value.splits)

lemma rd_up_frame:
  "r_up (rd_set now k v ex r) = r_up r" "r_up (rd_delete k r) = r_up r" "r_up (rd_expire now k ex r) = r_up r"
  "r_up (rd_zadd now k ms r) = r_up r" "r_up (fst (rd_set_nx now k v ex r)) = r_up r"
  by (auto simp: rd_set_def rd_delete_def rd_expire_def rd_zadd_def rd_set_nx_def rd_put_def
      split: option.splits redis_value.splits)

lemma hydrate_subs_frame:
  "r_data (hydrate_subs now ss r) (k_rate i) = r_data r (k_rate i) \<and> r_up (hydrate_subs now ss r) = r_up r"
  by (induction ss arbitrary: r) (simp_all add: hydrate_subs_def rd_data_frame rd_up_frame)

lemma hydrate_frame:
  "r_data (hydrate_user_quota now db uid r) (k_rate i) = r_data r (k_rate i)"
  "r_up (hydrate_user_quota now db uid r) = r_up r"
  "r_data (hydrate_key_used now db kid ws r) (k_rate i) = r_data r (k_rate i)"
  "r_up (hydrate_key_used now db kid ws r) = r_up r"
  by (auto simp: hydrate_user_quota_def rd_set_nx_def hydrate_key_used_def rd_data_frame rd_up_frame hydrate_subs_frame Let_def
      split: option.splits prod.splits)

lemma quota_fast_frame:
  "r_data (fst (has_quota_fast now db r uid kid q ws)) (k_rate i) = r_data r (k_rate i)"
  "r_up (fst (has_quota_fast now db r uid kid q ws)) = r_up r"
  by (auto simp: has_quota_fast_def hydrate_frame Let_def split: prod.splits)

lemma first_request_admitted:
  assumes "r_up r" and "rd_live now r (k_rate uid) = None" and "0 < default_rpm"
  shows "\<exists>r'. rate_limit default_rpm now uid per_min r = Some (r', True)"
  using assms by (auto simp: rate_limit_def rd_incrby_def Let_def split: option.splits)

lemma fresh_key:
  assumes "fresh_worker now w"
  shows "\<exists>w1. get_apikey_snapshot now db w h = (w1, map_option snapshot_from_row (key_by_hash db h))
    \<and> wk_users w1 = wk_users w"
  using assms by (simp add: fresh_worker_def snapshot_miss)

lemma fresh_user:
  assumes "snd (tc_get now (wk_users w) uid) = None"
  shows "\<exists>w1. get_user_snapshot rpm now db w uid = (w1, map_option (\<lambda>u. \<lparr>un_id = us_id u, un_status = us_status u,
      un_plan_rpm = resolve_plan_rpm rpm now db uid\<rparr>) (get_user db uid))"
  using assms by (cases "tc_get now (wk_users w) uid") (simp add: get_user_snapshot_def Let_def)

text \<open>Where the key and its owner are in order, the quota decides.\<close>

lemma quota_then_admitted:
  assumes r: "empty_redis now r" and rpm: "0 < default_rpm" and ok: "keys_ok db"
    and u: "get_user db (us_id u) = Some u" and k: "get_api_key_row db (ak_id k) = Some k"
    and q: "has_quota_fast now db r (us_id u) (ak_id k) (ak_quota_cents k) ws = (r3, b, msg)"
  shows "(b, msg) = (if funds_nonneg now db u \<or> key_capped (Some k) then has_quota now db u (Some k) else (True, []))"
    and "\<exists>r4. rate_limit default_rpm now (us_id u) per_min r3 = Some (r4, True)"
proof -
  show "(b, msg) = (if funds_nonneg now db u \<or> key_capped (Some k) then has_quota now db u (Some k) else (True, []))"
    using quota_fast_cold [OF ok u k empty_redis_cold [OF r], of ws] q by simp
  have "r_up r3" "r_data r3 (k_rate (us_id u)) = r_data r (k_rate (us_id u))"
    using quota_fast_frame [of now db r "us_id u" "ak_id k" "ak_quota_cents k" ws] q r by (auto simp: empty_redis_def)
  moreover have "rd_live now r (k_rate (us_id u)) = None" using r by (simp add: empty_redis_def)
  ultimately show "\<exists>r4. rate_limit default_rpm now (us_id u) per_min r3 = Some (r4, True)"
    using rpm by (intro first_request_admitted) (simp_all add: rd_live_def)
qed

text \<open>
  Claim C17. With nothing cached and a positive rate limit, the external processor admits exactly the
  requests with a key that the relay endpoints authenticate and that have quota, commits what they commit, and denies the others
  with the same status and text, with two exceptions: a key that has just passed its expiry ends
  the gRPC stream with an exception instead of the 401, and a user whose wallet (or a running
  subscription) is below zero is admitted unless the cap of the key is reached, where the relay
  endpoints decide by the sum in the database and deny with 402.
\<close>

theorem ext_admit_fresh:
  assumes auth: "auth_plain hs = Some plain" "py_startswith plain ''sk-''"
    and fresh: "fresh_worker now w" and cold: "empty_redis now (ss_redis st)" and rpm: "0 < rl_default_rpm env"
    and ok: "keys_ok db" and wf: "\<forall>r \<in> set (api_keys db). key_wf r"
    and adm: "ext_admit env now (db, w, st) hs = ((db', w', st'), res)"
  shows "case load_api_key_from_plain (xe_hash env) now db plain of
      (db1, Inl e) \<Rightarrow> db' = db1 \<and> (\<exists>t. e = http 401 t
        \<and> res = (if due_to_expire now db (xe_hash env plain) then None else Some (Inl (401, t))))
    | (db1, Inr (k, u)) \<Rightarrow> db' = db1
        \<and> res = Some (if funds_nonneg now db1 u \<or> key_capped (Some k)
                      then case has_quota now db1 u (Some k) of
                             (True, _) \<Rightarrow> Inr (snapshot_from_row k) | (False, msg) \<Rightarrow> Inl (402, msg)
                      else Inr (snapshot_from_row k))"
proof -
  let ?h = "xe_hash env plain"
  have ne: "plain \<noteq> []" using auth(2) by (auto simp: py_startswith_def)
  obtain w1 where w1: "get_apikey_snapshot now db w ?h = (w1, map_option snapshot_from_row (key_by_hash db ?h))"
      "wk_users w1 = wk_users w"
    using fresh_key [OF fresh] by blast
  note start = ext_admit_def auth ne w1(1)
  show ?thesis
  proof (cases "key_by_hash db ?h")
    case None
    with adm show ?thesis by (auto simp: start load_api_key_from_plain_def due_to_expire_def)
  next
    case (Some row)
    have row: "row \<in> set (api_keys db)" using Some by (auto simp: key_by_hash_def find_Some_iff)
    have get: "get_api_key_row db (ak_id row) = Some row"
      using ok row by (intro row.get_unique) (simp_all add: keys_ok_def)
    obtain db2 w2 r2 resc where ec: "enforce_key_state_cached now db w1 (ss_redis st) (snapshot_from_row row)
        = (db2, w2, r2, resc)" by (metis prod_cases4)
    obtain dbu resu where eu: "enforce_key_state now db row = (dbu, resu)" by force
    note ag = enforced_cached [OF get ec eu] and fr = cached_enforcement_frame [OF ec]
    show ?thesis
    proof (cases resu)
      case (Inl e)
      then have "e = http 401 ''api key expired''" "due_to_expire now db ?h"
        using eu Some by (auto simp: enforce_key_state_def due_to_expire_def split: if_splits)
      moreover have "enforce_key_state_cached now db w1 (ss_redis st) (snapshot_from_row row) = (dbu, w2, r2, Inl e)"
        using ec ag Inl by simp
      ultimately show ?thesis using adm Some Inl eu by (auto simp: start load_api_key_from_plain_def)
    next
      case (Inr k)
      have nd: "\<not> due_to_expire now db ?h"
        using eu Some Inr by (auto simp: enforce_key_state_def due_to_expire_def split: if_splits)
      have same: "dbu = db \<or> dbu = put_key k db" using eu Inr by (auto simp: enforce_key_state_def split: if_splits)
      have sn: "sn_status (snapshot_from_row k) = ak_status k" "sn_user_id (snapshot_from_row k) = ak_user_id k"
        "sn_id (snapshot_from_row k) = ak_id k" "sn_quota_cents (snapshot_from_row k) = ak_quota_cents k"
        by (simp_all add: snapshot_from_row_def)
      have miss: "snd (tc_get now (wk_users w2) (ak_user_id k)) = None"
        using fresh fr(1) w1(2) by (simp add: fresh_worker_def)
      obtain w3 where w3: "get_user_snapshot (rl_default_rpm env) now dbu w2 (ak_user_id k)
          = (w3, map_option (\<lambda>u. \<lparr>un_id = us_id u, un_status = us_status u,
              un_plan_rpm = resolve_plan_rpm (rl_default_rpm env) now dbu (ak_user_id k)\<rparr>) (get_user dbu (ak_user_id k)))"
        using fresh_user [OF miss] by blast
      have ec': "enforce_key_state_cached now db w1 (ss_redis st) (snapshot_from_row row) = (dbu, w2, r2, Inr (snapshot_from_row k))"
        using ec ag Inr by simp
      note step = start Some ec' sn w3
      show ?thesis
      proof (cases "ak_status k = key_active \<and> (\<exists>u. get_user dbu (ak_user_id k) = Some u \<and> us_status u = user_active)")
        case False
        with adm eu Inr nd show ?thesis
          by (auto simp: step load_api_key_from_plain_def split: option.splits if_splits)
      next
        case True
        then obtain u where u: "get_user dbu (ak_user_id k) = Some u" "us_status u = user_active"
          and act: "ak_status k = key_active" by blast
        have l: "load_api_key_from_plain (xe_hash env) now db plain = (dbu, Inr (k, u))"
          using Some eu Inr auth u act by (simp add: load_api_key_from_plain_def)
        have dk: "distinct (map ak_id (api_keys db))" using ok by (simp add: keys_ok_def)
        note lk = loaded_key [OF dk wf l]
        have ok2: "keys_ok dbu" using ok same by (auto simp: put_key_frames)
        obtain r3 b msg where q: "has_quota_fast now dbu r2 (us_id u) (ak_id k) (ak_quota_cents k)
            (window_start_epoch_for (snapshot_from_row k)) = (r3, b, msg)" by (metis prod_cases3)
        have ui: "ak_user_id k = us_id u" using lk by simp
        have gu: "get_user dbu (us_id u) = Some u" and gk: "get_api_key_row dbu (ak_id k) = Some k"
          using u(1) lk by simp_all
        note qa = quota_then_admitted [OF fr(2) [OF cold] rpm ok2 gu gk q]
        show ?thesis
          using adm l act u qa(1) qa(2) [of "Some (resolve_plan_rpm (rl_default_rpm env) now dbu (us_id u))"] q gu
          by (cases b; cases "funds_nonneg now dbu u \<or> key_capped (Some k)")
            (auto simp: step w3 [unfolded ui] ui split: prod.split bool.split)
      qed
    qed
  qed
qed

section \<open>Bodies\<close>

lemma body_pieces:
  "process_loop dec (map (\<lambda>b. request_body b False) bs @ request_body l True # ms) hs body s
     = (case process_loop dec (request_body (concat bs @ l) True # ms) hs body s of
          (s', rs, ok) \<Rightarrow> (s', replicate (length bs) body_continue @ rs, ok))"
  by (induction bs arbitrary: body) (auto split: prod.splits option.splits ext_decision.splits)

text \<open>
  How Envoy cuts a request body into messages does not matter: the state, the
  responses other than the acknowledgements of the pieces, and whether the stream breaks are
  those of the body in one message.
\<close>

theorem ext_body_chunking:
  "\<exists>n. ext_process env md now (request_headers raw False # map (\<lambda>b. request_body b False) bs @ request_body l True # ms) s
     = (case ext_process env md now (request_headers raw False # request_body (concat bs @ l) True # ms) s of
          (s', rs, ok) \<Rightarrow> (s', take 1 rs @ replicate n body_continue @ drop 1 rs, ok))"
proof (cases "check_token (xe_tokens env) md \<and> \<not> is_cors_preflight (headers_map raw)")
  case True
  then show ?thesis
    by (intro exI [of _ "length bs"]) (simp add: ext_process_def body_pieces Let_def split: prod.splits)
next
  case False
  then show ?thesis by (intro exI [of _ 0]) (auto simp: ext_process_def Let_def)
qed

section \<open>Examples\<close>

definition demo_ext_env :: ext_env where
  "demo_ext_env = relay_env.extend demo_relay_env
     \<lparr>xe_hash = (\<lambda>s. ''h''), xe_uuid = ''u1'', xe_error_text = (\<lambda>e. []), xe_tokens = []\<rparr>"

lemma demo_ext_env_simps [simp]: "xe_hash demo_ext_env p = ''h''" "rl_default_rpm demo_ext_env = 60"
  by (simp_all add: demo_ext_env_def demo_relay_env_def relay_env.defs route_env.defs)

definition demo_key :: api_key where
  "demo_key = (default_api_key 5 7)\<lparr>ak_key_hash := ''h''\<rparr>"

definition demo_key_db :: session where
  "demo_key_db = empty_session\<lparr>users := [default_user 7 100], api_keys := [demo_key]\<rparr>"

theorem ext_admit_fresh_witness:
  "\<exists>s'. ext_admit demo_ext_env 0 (demo_key_db, new_worker, demo_route_state) [(''x-api-key'', ''sk-x'')]
     = (s', Some (Inr (snapshot_from_row demo_key)))"
proof -
  obtain db' w' st' res where a: "ext_admit demo_ext_env 0 (demo_key_db, new_worker, demo_route_state) [(''x-api-key'', ''sk-x'')]
      = ((db', w', st'), res)" by (metis prod_cases3 prod.collapse)
  have auth: "auth_plain [(''x-api-key'', ''sk-x'')] = Some ''sk-x''" "py_startswith ''sk-x'' ''sk-''" by code_simp+
  have fresh: "fresh_worker 0 new_worker" by (simp add: fresh_worker_def new_worker_def tc_new_def tc_get_def)
  have cold: "empty_redis 0 (ss_redis demo_route_state)"
    by (simp add: empty_redis_def demo_route_state_def demo_smart_state_def smart_state.defs cold_redis_def rd_live_def)
  have ok: "keys_ok demo_key_db" by (simp add: keys_ok_def demo_key_db_def empty_session_def)
  have wf: "\<forall>r \<in> set (api_keys demo_key_db). key_wf r"
    by (simp add: demo_key_db_def demo_key_def key_wf_def default_api_key_def)
  have funds: "funds_nonneg 0 demo_key_db (default_user 7 100)"
    by (simp add: demo_key_db_def funds_nonneg_def default_user_def empty_session_def)
  have l: "load_api_key_from_plain (\<lambda>s. ''h'') 0 demo_key_db ''sk-x'' = (demo_key_db, Inr (demo_key, default_user 7 100))"
      and q: "has_quota 0 demo_key_db (default_user 7 100) (Some demo_key) = (True, [])"
    by code_simp+
  have h: "xe_hash demo_ext_env = (\<lambda>s. ''h'')" by (simp add: fun_eq_iff)
  from ext_admit_fresh [OF auth fresh cold _ ok wf a] l q funds a show ?thesis by (simp add: h)
qed

end
