(* ===== verification/Envoy_Config.thy ===== *)
theory Envoy_Config
  imports Ext_Proc
begin

text \<open>
  The resources that the control plane renders for an Envoy node: \<^verbatim>\<open>services/envoy/config.py\<close>,
  \<^verbatim>\<open>services/envoy/bootstrap.py\<close> and the rendering part of \<^verbatim>\<open>services/envoy/xds_server.py\<close>. Resources are
  JSON dictionaries as the code builds them. The parser of URLs and the YAML printer are parameters;
  a URL that the parser rejects, or whose port it rejects, raises.
\<close>

section \<open>Instances and settings\<close>

datatype envoy_mode = envoy_local | envoy_remote

datatype envoy_status = envoy_stopped | envoy_starting | envoy_running | envoy_error

record envoy_instance =
  ei_id :: int
  ei_name :: string
  ei_mode :: envoy_mode
  ei_node_id :: string
  ei_listen_port :: int
  ei_admin_port :: "int option"
  ei_admin_url :: "string option"
  ei_status :: envoy_status
  ei_pid :: "int option"
  ei_config_version :: int
  ei_config_dir :: "string option"
  ei_log_dir :: "string option"
  ei_last_health_at :: "datetime option"
  ei_last_error :: "string option"
  ei_last_seen_at :: "datetime option"
  ei_last_xds_version :: "string option"

record envoy_settings =
  es_api_port :: int
  es_internal_host :: string
  es_internal_port :: int
  es_ext_proc_port :: int
  es_xds_port :: int
  es_als_port :: int
  es_auth_token :: string
  es_public_host :: string
  es_ext_proc_timeout :: string
  es_image :: string

record url_parts =
  up_scheme :: string
  up_hostname :: "string option"
  up_port :: "int option option"
    \<comment> \<open>\<open>None\<close> when reading the port raises\<close>

type_synonym url_parser = "string \<Rightarrow> url_parts option"

definition remote_bind_listen_port :: int where "remote_bind_listen_port = 9000"
definition remote_bind_admin_port :: int where "remote_bind_admin_port = 9001"
definition remote_k8s_listen_nodeport :: int where "remote_k8s_listen_nodeport = 30000"
definition remote_k8s_admin_nodeport :: int where "remote_k8s_admin_nodeport = 30001"

section \<open>Clusters\<close>

definition socket_address :: "string \<Rightarrow> int \<Rightarrow> json" where
  "socket_address host port = JObj [(''socket_address'', JObj [(''address'', JStr host), (''port_value'', JInt port)])]"

definition load_assignment :: "string \<Rightarrow> string \<Rightarrow> int \<Rightarrow> json" where
  "load_assignment name host port =
     JObj [(''cluster_name'', JStr name),
       (''endpoints'', JList [JObj [(''lb_endpoints'', JList [JObj [(''endpoint'', JObj [(''address'', socket_address host port)])]])]])]"

definition http2_options :: json where
  "http2_options = JObj [(''envoy.extensions.upstreams.http.v3.HttpProtocolOptions'', JObj [
     (''@type'', JStr ''type.googleapis.com/envoy.extensions.upstreams.http.v3.HttpProtocolOptions''),
     (''explicit_http_config'', JObj [(''http2_protocol_options'', JObj [])])])]"

definition grpc_cluster :: "string \<Rightarrow> string \<Rightarrow> int \<Rightarrow> dict" where
  "grpc_cluster name host port =
     [(''name'', JStr name), (''type'', JStr ''STRICT_DNS''), (''connect_timeout'', JStr ''5s''), (''lb_policy'', JStr ''ROUND_ROBIN''),
      (''dns_lookup_family'', JStr ''V4_PREFERRED''), (''typed_extension_protocol_options'', http2_options),
      (''load_assignment'', load_assignment name host port)]"

definition translator_cluster :: "envoy_settings \<Rightarrow> dict" where
  "translator_cluster es =
     [(''name'', JStr ''translator''), (''type'', JStr ''STRICT_DNS''), (''connect_timeout'', JStr ''5s''), (''lb_policy'', JStr ''ROUND_ROBIN''),
      (''load_assignment'', load_assignment ''translator'' (es_internal_host es) (es_internal_port es))]"

definition channel_cluster_name :: "int \<Rightarrow> string" where
  "channel_cluster_name channel_id = ''ch_'' @ str_int channel_id"

definition upstream_host_port :: "url_parser \<Rightarrow> string \<Rightarrow> (string \<times> int \<times> bool) option" where
  "upstream_host_port up base_url =
     (case up base_url of
        None \<Rightarrow> None
      | Some u \<Rightarrow>
          let is_tls = (up_scheme u = ''https''); host = or_text (up_hostname u) ''localhost'' in
          case up_port u of
            None \<Rightarrow> None
          | Some p \<Rightarrow> Some (host, (case p of None \<Rightarrow> if is_tls then 443 else 80
                                    | Some n \<Rightarrow> if n = 0 then (if is_tls then 443 else 80) else n), is_tls))"

definition is_direct :: "channel \<Rightarrow> bool" where
  "is_direct c \<longleftrightarrow> channel_connector c = ''openai''"

definition channel_cluster :: "string \<Rightarrow> string \<times> int \<times> bool \<Rightarrow> dict" where
  "channel_cluster name = (\<lambda>(host, port, is_tls).
     [(''name'', JStr name), (''type'', JStr ''STRICT_DNS''), (''connect_timeout'', JStr ''5s''), (''lb_policy'', JStr ''ROUND_ROBIN''),
      (''dns_lookup_family'', JStr ''V4_ONLY''), (''load_assignment'', load_assignment name host port)]
     @ (if is_tls then [(''transport_socket'', JObj [(''name'', JStr ''envoy.transport_sockets.tls''),
          (''typed_config'', JObj [
             (''@type'', JStr ''type.googleapis.com/envoy.extensions.transport_sockets.tls.v3.UpstreamTlsContext''),
             (''sni'', JStr host)])])] else []))"

fun channel_clusters :: "url_parser \<Rightarrow> channel list \<Rightarrow> dict list option" where
  "channel_clusters up [] = Some []"
| "channel_clusters up (c # cs) =
     (if \<not> ch_enabled c \<or> \<not> is_direct c then channel_clusters up cs
      else case upstream_host_port up (ch_base_url c) of
        None \<Rightarrow> None
      | Some hp \<Rightarrow> map_option ((#) (channel_cluster (channel_cluster_name (ch_id c)) hp)) (channel_clusters up cs))"

definition cluster_type :: string where
  "cluster_type = ''type.googleapis.com/envoy.config.cluster.v3.Cluster''"

definition listener_type :: string where
  "listener_type = ''type.googleapis.com/envoy.config.listener.v3.Listener''"

definition route_type :: string where
  "route_type = ''type.googleapis.com/envoy.config.route.v3.RouteConfiguration''"

definition render_cds :: "url_parser \<Rightarrow> envoy_settings \<Rightarrow> channel list \<Rightarrow> dict list option" where
  \<comment> \<open>the value of \<open>resources\<close>\<close>
  "render_cds up es chs =
     map_option (\<lambda>cs. map (\<lambda>c. (''@type'', JStr cluster_type) # c)
         (translator_cluster es # grpc_cluster ''ext_proc'' (es_internal_host es) (es_ext_proc_port es) # cs))
       (channel_clusters up chs)"

section \<open>Routes and listeners\<close>

definition route_opts :: dict where
  "route_opts = [(''timeout'', JStr ''0s''), (''idle_timeout'', JStr ''300s'')]"

definition render_rds :: "dict list" where
  "render_rds =
     [[(''@type'', JStr route_type), (''name'', JStr ''llmxy_routes''),
       (''virtual_hosts'', JList [JObj [(''name'', JStr ''llmxy''), (''domains'', JList [JStr ''*'']),
          (''routes'', JList [
             JObj [(''match'', JObj [(''prefix'', JStr ''/v1/''),
                      (''headers'', JList [JObj [(''name'', JStr ''x-llmxy-cluster''), (''string_match'', JObj [(''exact'', JStr ''translator'')])]])]),
                   (''route'', JObj ([(''cluster'', JStr ''translator''), (''prefix_rewrite'', JStr ''/internal/translate/v1/''),
                      (''auto_host_rewrite'', JBool True)] @ route_opts))],
             JObj [(''match'', JObj [(''prefix'', JStr ''/v1/'')]),
                   (''route'', JObj ([(''cluster_header'', JStr ''x-llmxy-cluster''), (''auto_host_rewrite'', JBool True)] @ route_opts))]])]])]]"

definition initial_metadata :: "string \<Rightarrow> dict" where
  "initial_metadata token =
     (if token = [] then [] else [(''initial_metadata'', JList [JObj [(''key'', JStr ''x-llmxy-token''), (''value'', JStr token)]])])"

definition logged_headers :: "string list" where
  "logged_headers =
     [''x-llmxy-request-id'', ''x-llmxy-user-id'', ''x-llmxy-api-key-id'', ''x-llmxy-model-id'', ''x-llmxy-user-facing-model'',
      ''x-llmxy-upstream-model'', ''x-llmxy-provider-type'', ''x-llmxy-cluster'', ''x-llmxy-resolved-label'',
      ''x-llmxy-client-protocol'', ''x-llmxy-billed-sync'', ''x-llmxy-classifier-model-id'', ''x-llmxy-classifier-upstream-model'',
      ''x-llmxy-classifier-prompt-tokens'', ''x-llmxy-classifier-latency-ms'', ''x-llmxy-classifier-status'']"

definition ads_source :: json where
  "ads_source = JObj [(''ads'', JObj []), (''resource_api_version'', JStr ''V3'')]"

definition access_log_config :: "envoy_settings \<Rightarrow> json" where
  "access_log_config es = JObj [(''name'', JStr ''envoy.access_loggers.http_grpc''),
     (''typed_config'', JObj [
        (''@type'', JStr ''type.googleapis.com/envoy.extensions.access_loggers.grpc.v3.HttpGrpcAccessLogConfig''),
        (''common_config'', JObj [(''log_name'', JStr ''llmxy_relay''),
           (''grpc_service'', JObj ((''envoy_grpc'', JObj [(''cluster_name'', JStr ''als_cluster'')]) # initial_metadata (es_auth_token es))),
           (''transport_api_version'', JStr ''V3'')]),
        (''additional_request_headers_to_log'', JList (map JStr logged_headers))])]"

definition ext_proc_filter :: "envoy_settings \<Rightarrow> json" where
  "ext_proc_filter es = JObj [(''name'', JStr ''envoy.filters.http.ext_proc''),
     (''typed_config'', JObj [
        (''@type'', JStr ''type.googleapis.com/envoy.extensions.filters.http.ext_proc.v3.ExternalProcessor''),
        (''grpc_service'', JObj ([(''envoy_grpc'', JObj [(''cluster_name'', JStr ''ext_proc'')]), (''timeout'', JStr (es_ext_proc_timeout es))]
           @ initial_metadata (es_auth_token es))),
        (''processing_mode'', JObj [(''request_header_mode'', JStr ''SEND''), (''request_body_mode'', JStr ''BUFFERED''),
           (''response_header_mode'', JStr ''SKIP''), (''response_body_mode'', JStr ''NONE'')]),
        (''message_timeout'', JStr (es_ext_proc_timeout es)), (''failure_mode_allow'', JBool False)])]"

definition connection_manager :: "envoy_settings \<Rightarrow> json" where
  "connection_manager es = JObj [
     (''@type'', JStr ''type.googleapis.com/envoy.extensions.filters.network.http_connection_manager.v3.HttpConnectionManager''),
     (''stat_prefix'', JStr ''ingress_http''), (''codec_type'', JStr ''AUTO''), (''use_remote_address'', JBool True),
     (''internal_address_config'', JObj [(''unix_sockets'', JBool False), (''cidr_ranges'', JList [])]),
     (''rds'', JObj [(''route_config_name'', JStr ''llmxy_routes''), (''config_source'', ads_source)]),
     (''access_log'', JList [access_log_config es]),
     (''http_filters'', JList [ext_proc_filter es,
        JObj [(''name'', JStr ''envoy.filters.http.router''),
              (''typed_config'', JObj [(''@type'', JStr ''type.googleapis.com/envoy.extensions.filters.http.router.v3.Router'')])]]),
     (''stream_idle_timeout'', JStr ''0s''), (''request_timeout'', JStr ''0s'')]"

definition render_lds :: "envoy_settings \<Rightarrow> envoy_instance \<Rightarrow> dict list" where
  "render_lds es inst =
     [[(''@type'', JStr listener_type), (''name'', JStr ''llmxy_listener''),
       (''address'', socket_address ''0.0.0.0'' (ei_listen_port inst)),
       (''filter_chains'', JList [JObj [(''filters'', JList [
          JObj [(''name'', JStr ''envoy.filters.network.http_connection_manager''), (''typed_config'', connection_manager es)]])]])]]"

section \<open>Rewriting for one instance\<close>

fun upd_key :: "string \<Rightarrow> (json \<Rightarrow> json) \<Rightarrow> json \<Rightarrow> json" where
  \<comment> \<open>change the value under a key, when there is one\<close>
  "upd_key k f (JObj d) = (case dict_get d k of None \<Rightarrow> JObj d | Some v \<Rightarrow> JObj (dict_set d k (f v)))"
| "upd_key k f v = v"

fun upd_each :: "(json \<Rightarrow> json) \<Rightarrow> json \<Rightarrow> json" where
  "upd_each f (JList xs) = JList (map f xs)"
| "upd_each f v = v"

fun upd_first :: "(json \<Rightarrow> json) \<Rightarrow> json \<Rightarrow> json" where
  "upd_first f (JList (x # xs)) = JList (f x # xs)"
| "upd_first f v = v"

fun put_entry :: "string \<Rightarrow> json \<Rightarrow> json \<Rightarrow> json" where
  "put_entry k v (JObj d) = JObj (dict_set d k v)"
| "put_entry k v w = w"

definition on_dict :: "(json \<Rightarrow> json) \<Rightarrow> dict \<Rightarrow> dict" where
  "on_dict f d = (case f (JObj d) of JObj d' \<Rightarrow> d' | _ \<Rightarrow> d)"

definition target_addr :: "envoy_settings \<Rightarrow> envoy_instance \<Rightarrow> string \<times> int" where
  "target_addr es inst =
     (if ei_mode inst = envoy_local then (''127.0.0.1'', es_api_port es)
      else (or_text (Some (es_public_host es)) ''127.0.0.1'', es_api_port es))"

definition ext_proc_addr :: "envoy_settings \<Rightarrow> envoy_instance \<Rightarrow> string \<times> int" where
  "ext_proc_addr es inst = (fst (target_addr es inst), es_ext_proc_port es)"

definition listen_bind_port :: "envoy_instance \<Rightarrow> int" where
  "listen_bind_port inst = (if ei_mode inst = envoy_local then ei_listen_port inst else remote_bind_listen_port)"

definition rds_over_ads :: "json \<Rightarrow> json" where
  "rds_over_ads = upd_key ''rds'' (put_entry ''config_source'' ads_source)"

definition bind_listener :: "int \<Rightarrow> dict \<Rightarrow> dict" where
  "bind_listener port = on_dict (\<lambda>res.
     upd_key ''filter_chains'' (upd_each (upd_key ''filters'' (upd_each (upd_key ''typed_config'' rds_over_ads))))
       (upd_key ''address'' (upd_key ''socket_address'' (\<lambda>sock. if truthy sock then put_entry ''port_value'' (JInt port) sock else sock)) res))"

definition render_instance_lds :: "envoy_settings \<Rightarrow> envoy_instance \<Rightarrow> dict list" where
  \<comment> \<open>\<open>_render_lds\<close> of the xDS server\<close>
  "render_instance_lds es inst = map (bind_listener (listen_bind_port inst)) (render_lds es inst)"

definition redirect_cluster :: "string \<times> int \<Rightarrow> dict \<Rightarrow> dict" where
  "redirect_cluster addr = on_dict (upd_key ''load_assignment'' (upd_key ''endpoints'' (upd_first (upd_key ''lb_endpoints'' (upd_first
     (upd_key ''endpoint'' (upd_key ''address'' (upd_key ''socket_address''
        (\<lambda>ep. put_entry ''port_value'' (JInt (snd addr)) (put_entry ''address'' (JStr (fst addr)) ep)))))))))) "

definition rewrite_cluster :: "envoy_settings \<Rightarrow> envoy_instance \<Rightarrow> dict \<Rightarrow> dict" where
  "rewrite_cluster es inst res =
     (if dict_get_none res ''name'' = JStr ''translator'' then redirect_cluster (target_addr es inst) res
      else if dict_get_none res ''name'' = JStr ''ext_proc'' then redirect_cluster (ext_proc_addr es inst) res
      else res)"

definition render_instance_cds :: "url_parser \<Rightarrow> envoy_settings \<Rightarrow> envoy_instance \<Rightarrow> channel list \<Rightarrow> dict list option" where
  "render_instance_cds up es inst chs =
     map_option (\<lambda>cds. map (rewrite_cluster es inst) (filter (\<lambda>res. dict_get_none res ''name'' \<noteq> JStr ''als'') cds))
       (render_cds up es chs)"

section \<open>Bootstrap and manifests\<close>

definition control_plane_host :: "envoy_settings \<Rightarrow> envoy_instance \<Rightarrow> string" where
  "control_plane_host es inst =
     (if ei_mode inst = envoy_local then ''127.0.0.1'' else or_text (Some (es_public_host es)) ''127.0.0.1'')"

definition admin_bind_port :: "envoy_instance \<Rightarrow> int" where
  "admin_bind_port inst =
     (if ei_mode inst = envoy_local
      then (case ei_admin_port inst of None \<Rightarrow> remote_bind_admin_port | Some p \<Rightarrow> if p = 0 then remote_bind_admin_port else p)
      else remote_bind_admin_port)"

definition accepted_tokens :: "string \<Rightarrow> string list" where
  "accepted_tokens raw = filter (\<lambda>t. t \<noteq> []) (map py_strip (py_split_chr (CHR '','') raw))"

definition first_token :: "string \<Rightarrow> string" where
  "first_token raw = (case accepted_tokens raw of [] \<Rightarrow> [] | t # _ \<Rightarrow> t)"

definition static_cluster :: "string \<Rightarrow> string \<Rightarrow> int \<Rightarrow> dict" where
  \<comment> \<open>\<open>_grpc_cluster\<close> of \<open>bootstrap.py\<close>, without a balancing policy\<close>
  "static_cluster name host port =
     [(''name'', JStr name), (''type'', JStr ''STRICT_DNS''), (''connect_timeout'', JStr ''5s''),
      (''dns_lookup_family'', JStr ''V4_PREFERRED''), (''typed_extension_protocol_options'', http2_options),
      (''load_assignment'', load_assignment name host port)]"

definition static_clusters :: "envoy_settings \<Rightarrow> envoy_instance \<Rightarrow> dict list" where
  "static_clusters es inst =
     [static_cluster ''xds_cluster'' (control_plane_host es inst) (es_xds_port es),
      static_cluster ''als_cluster'' (control_plane_host es inst) (es_als_port es)]"

definition ads_service :: "envoy_settings \<Rightarrow> dict" where
  "ads_service es = (''envoy_grpc'', JObj [(''cluster_name'', JStr ''xds_cluster'')]) # initial_metadata (first_token (es_auth_token es))"

definition render_bootstrap :: "envoy_settings \<Rightarrow> envoy_instance \<Rightarrow> dict" where
  "render_bootstrap es inst =
     [(''node'', JObj [(''id'', JStr (ei_node_id inst)),
         (''cluster'', JStr (if ei_mode inst = envoy_local then ''llmxy-local'' else ''llmxy-remote''))]),
      (''admin'', JObj [(''address'', socket_address ''0.0.0.0'' (admin_bind_port inst))]),
      (''dynamic_resources'', JObj [
         (''ads_config'', JObj [(''api_type'', JStr ''GRPC''), (''transport_api_version'', JStr ''V3''),
            (''grpc_services'', JList [JObj (ads_service es)]), (''set_node_on_first_message_only'', JBool True)]),
         (''cds_config'', ads_source), (''lds_config'', ads_source)]),
      (''static_resources'', JObj [(''clusters'', JList (map JObj (static_clusters es inst)))])]"

definition render_bootstrap_yaml :: "(json \<Rightarrow> string) \<Rightarrow> envoy_settings \<Rightarrow> envoy_instance \<Rightarrow> string" where
  "render_bootstrap_yaml dump es inst = dump (JObj (render_bootstrap es inst))"

definition manifest_name :: "envoy_instance \<Rightarrow> string" where
  "manifest_name inst = ''llmxy-envoy-'' @ ei_name inst"

definition k8s_config_map :: "string \<Rightarrow> string \<Rightarrow> dict" where
  "k8s_config_map name bootstrap =
     [(''apiVersion'', JStr ''v1''), (''kind'', JStr ''ConfigMap''), (''metadata'', JObj [(''name'', JStr (name @ ''-bootstrap''))]),
      (''data'', JObj [(''bootstrap.yaml'', JStr bootstrap)])]"

definition k8s_container :: "envoy_settings \<Rightarrow> json" where
  "k8s_container es = JObj [(''name'', JStr ''envoy''), (''image'', JStr (es_image es)),
     (''args'', JList (map JStr [''-c'', ''/etc/envoy/bootstrap.yaml'', ''--service-cluster'', ''llmxy-remote''])),
     (''ports'', JList [JObj [(''name'', JStr ''listen''), (''containerPort'', JInt remote_bind_listen_port)],
                        JObj [(''name'', JStr ''admin''), (''containerPort'', JInt remote_bind_admin_port)]]),
     (''volumeMounts'', JList [JObj [(''name'', JStr ''bootstrap''), (''mountPath'', JStr ''/etc/envoy''), (''readOnly'', JBool True)]]),
     (''readinessProbe'', JObj [(''httpGet'', JObj [(''path'', JStr ''/ready''), (''port'', JInt remote_bind_admin_port)]),
        (''initialDelaySeconds'', JInt 3), (''periodSeconds'', JInt 5)])]"

definition k8s_deployment :: "envoy_settings \<Rightarrow> string \<Rightarrow> dict" where
  "k8s_deployment es name =
     [(''apiVersion'', JStr ''apps/v1''), (''kind'', JStr ''Deployment''),
      (''metadata'', JObj [(''name'', JStr name), (''labels'', JObj [(''app'', JStr name)])]),
      (''spec'', JObj [(''replicas'', JInt 1), (''selector'', JObj [(''matchLabels'', JObj [(''app'', JStr name)])]),
         (''template'', JObj [(''metadata'', JObj [(''labels'', JObj [(''app'', JStr name)])]),
            (''spec'', JObj [(''containers'', JList [k8s_container es]),
               (''volumes'', JList [JObj [(''name'', JStr ''bootstrap''),
                  (''configMap'', JObj [(''name'', JStr (name @ ''-bootstrap''))])]])])])])]"

definition k8s_port :: "string \<Rightarrow> int \<Rightarrow> int \<Rightarrow> json" where
  "k8s_port name port node_port =
     JObj [(''name'', JStr name), (''port'', JInt port), (''targetPort'', JInt port), (''nodePort'', JInt node_port)]"

definition k8s_service :: "string \<Rightarrow> dict" where
  "k8s_service name =
     [(''apiVersion'', JStr ''v1''), (''kind'', JStr ''Service''), (''metadata'', JObj [(''name'', JStr name)]),
      (''spec'', JObj [(''type'', JStr ''NodePort''), (''selector'', JObj [(''app'', JStr name)]),
         (''ports'', JList [k8s_port ''listen'' remote_bind_listen_port remote_k8s_listen_nodeport,
                            k8s_port ''admin'' remote_bind_admin_port remote_k8s_admin_nodeport])])]"

definition render_k8s_manifest :: "(json \<Rightarrow> string) \<Rightarrow> envoy_settings \<Rightarrow> envoy_instance \<Rightarrow> string" where
  "render_k8s_manifest dump es inst =
     (let name = manifest_name inst in
      ''---'' @ [char_of (10::nat)] @ py_join ([char_of (10::nat)] @ ''---'' @ [char_of (10::nat)])
        [dump (JObj (k8s_config_map name (render_bootstrap_yaml dump es inst))), dump (JObj (k8s_deployment es name)),
         dump (JObj (k8s_service name))])"

definition render_docker_run :: "(json \<Rightarrow> string) \<Rightarrow> envoy_settings \<Rightarrow> envoy_instance \<Rightarrow> string" where
  "render_docker_run dump es inst =
     (let name = manifest_name inst; nl = [char_of (10::nat)]; bs = [char_of (92::nat)]; q = [char_of (39::nat)] in
      ''# 1) save the bootstrap to /tmp/'' @ name @ ''.yaml'' @ nl
      @ ''cat > /tmp/'' @ name @ ''.yaml <<'' @ q @ ''EOF'' @ q @ nl
      @ render_bootstrap_yaml dump es inst @ ''EOF'' @ nl @ nl
      @ ''# 2) run envoy (replace --network=host with -p mappings if you'' @ q @ ''re on macOS)'' @ nl
      @ ''docker run -d --name '' @ name @ '' '' @ bs @ nl
      @ ''  --network=host '' @ bs @ nl
      @ ''  -v /tmp/'' @ name @ ''.yaml:/etc/envoy/bootstrap.yaml:ro '' @ bs @ nl
      @ ''  '' @ es_image es @ '' '' @ bs @ nl
      @ ''  -c /etc/envoy/bootstrap.yaml --service-cluster llmxy-remote'' @ nl)"

end
