(* ===== verification/Envoy_Laws.thy ===== *)
theory Envoy_Laws
  imports Als_Laws Ext_Laws Envoy_Config
begin

text \<open>
  How the parts of the Envoy data plane work together: what the external processor admits, that
  the translator reads the processor's headers back as the upstreams it decided, that a request
  is billed once (by the translator, not by the access log service, to which Envoy reports only the
  headers that its generated configuration names), and what the access log service charges for the
  requests that are left to it.
\<close>

section \<open>The chain header\<close>

lemma str_int_no_space: "c \<in> set (str_int i) \<Longrightarrow> \<not> is_space c"
  using str_int_chars [of c i] by (auto simp: is_space_def is_digit_def)

lemma str_int_nonempty [simp]: "str_int i \<noteq> []"
  by (simp add: str_int_def str_nat_nonempty)

lemma pair_text_strip: "py_strip (str_int i @ '':'' @ str_int j) = str_int i @ '':'' @ str_int j"
proof (rule strip_fixed)
  have "\<not> is_space (hd (str_int i))" "\<not> is_space (last (str_int j))"
    using str_int_no_space [of "hd (str_int i)" i] str_int_no_space [of "last (str_int j)" j] by simp_all
  then show "\<not> is_space (hd (str_int i @ '':'' @ str_int j))" "\<not> is_space (last (str_int i @ '':'' @ str_int j))"
    by (simp_all add: hd_append)
qed simp

lemma parse_pair_text: "0 \<le> i \<Longrightarrow> 0 \<le> j \<Longrightarrow> parse_pair (str_int i @ '':'' @ str_int j) = Some (i, j)"
  using py_partition_found [OF str_int_no_colon, of i "str_int j"]
  by (simp add: parse_pair_def pair_text_strip [simplified] py_isdigit_str_int digits_val_str_int)

definition pair_text :: "model \<times> channel \<Rightarrow> string" where
  "pair_text p = str_int (md_id (fst p)) @ '':'' @ str_int (ch_id (snd p))"

definition pair_row :: "session \<Rightarrow> model \<times> channel \<Rightarrow> bool" where
  \<comment> \<open>an enabled pair of the catalogue\<close>
  "pair_row db p \<longleftrightarrow> get_model db (md_id (fst p)) = Some (fst p) \<and> get_channel db (ch_id (snd p)) = Some (snd p)
     \<and> md_enabled (fst p) \<and> ch_enabled (snd p) \<and> 0 \<le> md_id (fst p) \<and> 0 \<le> ch_id (snd p)"

definition pair_candidate :: "model \<times> channel \<Rightarrow> candidate" where
  "pair_candidate p = (Some (fst p), snd p, md_upstream_model (fst p))"

lemma chain_text_split: "pairs \<noteq> [] \<Longrightarrow> py_split_chr (CHR '','') (chain_text pairs) = map pair_text pairs"
proof -
  assume "pairs \<noteq> []"
  moreover have "CHR '','' \<notin> set (pair_text p)" for p
    using str_int_chars [of "CHR '',''"] by (auto simp: pair_text_def is_digit_def)
  moreover have "chain_text pairs = py_join [CHR '',''] (map pair_text pairs)"
    by (simp add: chain_text_def pair_text_def [abs_def] case_prod_unfold)
  ultimately show ?thesis by (subst py_split_of_join [symmetric, of "map pair_text pairs" "CHR '',''"]) auto
qed

lemma chain_loop_pairs:
  assumes "\<forall>p \<in> set pairs. pair_row db p" and "distinct (map (md_id \<circ> fst) pairs)"
    and "\<forall>p \<in> set pairs. \<forall>key \<in> seen. fst key \<noteq> md_id (fst p)"
  shows "chain_loop db (map pair_text pairs) seen = map pair_candidate pairs"
  using assms
proof (induction pairs arbitrary: seen)
  case (Cons p pairs)
  let ?key = "(md_id (fst p), ch_id (snd p))"
  have p: "parse_pair (pair_text p) = Some ?key" "?key \<notin> seen" "chain_candidate db ?key = [pair_candidate p]"
    using Cons.prems(1,3) by (auto simp: pair_row_def pair_text_def parse_pair_text [simplified] chain_candidate_def
        pair_candidate_def)
  have "chain_loop db (map pair_text pairs) (insert ?key seen) = map pair_candidate pairs"
    using Cons.prems by (intro Cons.IH) auto
  with p show ?case by simp
qed simp

lemma load_candidates_chain:
  assumes "pairs \<noteq> []" and "\<forall>p \<in> set pairs. pair_row db p" and "distinct (map (md_id \<circ> fst) pairs)"
  shows "load_candidates db (Some (chain_text pairs)) a b c = Inr (map pair_candidate pairs)"
proof -
  have "chain_text pairs \<noteq> []"
    using chain_text_split [OF assms(1)] assms(1) by (auto simp: pair_text_def)
  then have "chain_loop db (py_split_chr (CHR '','') (or_text (Some (chain_text pairs)) [])) {} = map pair_candidate pairs"
    using chain_loop_pairs [OF assms(2,3)] chain_text_split [OF assms(1)] by (simp add: or_text_def)
  with assms(1) show ?thesis by (auto simp: load_candidates_def split: list.splits)
qed

section \<open>From the processor to the translator\<close>

lemma ext_route_allow:
  assumes "ext_route env now db st snap hs body = (st', Some (ext_allow out))"
    and "client_protocol_and_modality (hdr hs '':path'') = (proto, modality)"
    and "py_rstrip_chr (CHR ''/'') (py_before (CHR ''?'') (hdr hs '':path'')) \<noteq> ''/v1/models''"
  obtains name policy ms cs prompt d rid where "ext_load_route env db name = Some (Inr (policy, ms, cs))"
    and "route_exposes policy proto"
    and "select_route (route_env.truncate env) now db st policy ms cs (Some prompt) (header_client_ip hs)
      = (st', Inr (Some d))"
    and "out = route_headers rid snap proto modality name d"
  using assms by (auto simp: ext_route_def Let_def split: option.splits sum.splits prod.splits if_splits)

definition catalog_ids :: "session \<Rightarrow> bool" where
  \<comment> \<open>primary keys: unique, and drawn from a sequence\<close>
  "catalog_ids db \<longleftrightarrow> distinct (map md_id (models db)) \<and> distinct (map ch_id (channels db))
     \<and> (\<forall>m \<in> set (models db). 0 \<le> md_id m) \<and> (\<forall>c \<in> set (channels db). 0 \<le> ch_id c)"

lemma row_get_unique: "distinct (map rid t) \<Longrightarrow> r \<in> set t \<Longrightarrow> row_get rid (rid r) t = Some r"
  by (induction t) (auto simp: row_get_def)

lemma decided_pairs:
  assumes "ext_load_route env db name = Some (Inr (policy, ms, cs))"
    and "select_route renv now db st policy ms cs prompt ip = (st', Inr (Some d))" and "catalog_ids db"
  shows "\<forall>p \<in> set (decision_candidates d). pair_row db p" and "distinct (map (md_id \<circ> fst) (decision_candidates d))"
proof -
  from assms(1) have "load_route_resources db policy = Inr (Some (ms, cs))"
    unfolding ext_load_route_def
    by (simp split: option.splits if_splits sum.splits prod.splits py_error.splits)
  then have rows: "set ms \<subseteq> set (models db)" "set cs \<subseteq> set (channels db)"
    by (auto simp: load_route_resources_def bind_result_eq_Inr Let_def split: if_splits)
  show "\<forall>p \<in> set (decision_candidates d). pair_row db p"
  proof
    fix p assume "p \<in> set (decision_candidates d)"
    then have "usable ms cs p"
      using select_route_usable [OF assms(2)] by (simp add: decision_candidates_def candidates_def)
    with rows have "fst p \<in> set (models db)" "snd p \<in> set (channels db)" "md_enabled (fst p)" "ch_enabled (snd p)"
      by (auto simp: usable_def)
    with assms(3) show "pair_row db p" by (simp add: pair_row_def catalog_ids_def row_get_unique)
  qed
  show "distinct (map (md_id \<circ> fst) (decision_candidates d))"
    using select_route_facts [OF assms(2)] by (simp add: decision_candidates_def candidates_def)
qed

definition forwarded :: "headers \<Rightarrow> translate_headers" where
  \<comment> \<open>the header parameters of the translator's endpoints\<close>
  "forwarded hs =
     \<lparr>th_channel_id = map_of hs ''x-llmxy-channel-id'', th_model_id = map_of hs ''x-llmxy-model-id'',
      th_user_id = map_of hs ''x-llmxy-user-id'', th_api_key_id = map_of hs ''x-llmxy-api-key-id'',
      th_user_facing_model = map_of hs ''x-llmxy-user-facing-model'',
      th_upstream_model = map_of hs ''x-llmxy-upstream-model'',
      th_upstream_protocol = map_of hs ''x-llmxy-upstream-protocol'',
      th_connector_type = map_of hs ''x-llmxy-connector-type'',
      th_chat_chain = map_of hs ''x-llmxy-chat-chain'', th_embedding_chain = map_of hs ''x-llmxy-embedding-chain'',
      th_image_chain = map_of hs ''x-llmxy-image-chain'', th_request_id = map_of hs ''x-llmxy-request-id'',
      th_resolved_label = map_of hs ''x-llmxy-resolved-label'',
      th_classifier_model_id = map_of hs ''x-llmxy-classifier-model-id'',
      th_classifier_upstream_model = map_of hs ''x-llmxy-classifier-upstream-model'',
      th_classifier_prompt_tokens = map_of hs ''x-llmxy-classifier-prompt-tokens'',
      th_classifier_latency_ms = map_of hs ''x-llmxy-classifier-latency-ms'',
      th_classifier_status = map_of hs ''x-llmxy-classifier-status''\<rparr>"

lemma rstrip_chr_split: "\<exists>n. s = py_rstrip_chr c s @ replicate n c"
proof -
  have "takeWhile (\<lambda>x. x = c) (rev s) = replicate (length (takeWhile (\<lambda>x. x = c) (rev s))) c"
    by (rule replicate_eqI) (auto dest: set_takeWhileD)
  moreover have "s = rev (dropWhile (\<lambda>x. x = c) (rev s)) @ rev (takeWhile (\<lambda>x. x = c) (rev s))"
    by (simp flip: rev_append)
  ultimately show ?thesis by (metis py_rstrip_chr_def rev_replicate)
qed

lemma endswith_last: "py_endswith s (q @ [z]) \<Longrightarrow> last s = z"
  by (cases s rule: rev_cases) (auto simp: py_endswith_def py_startswith_def)

lemma chat_path_not_models:
  assumes "client_protocol_and_modality path = (proto, Some md)"
  shows "py_rstrip_chr (CHR ''/'') (py_before (CHR ''?'') path) \<noteq> ''/v1/models''"
proof
  let ?p = "py_before (CHR ''?'') path"
  assume a: "py_rstrip_chr (CHR ''/'') ?p = ''/v1/models''"
  obtain n where p: "?p = ''/v1/models'' @ replicate n (CHR ''/'')"
    using rstrip_chr_split [of ?p "CHR ''/''"] a by auto
  have "\<not> py_endswith ?p (q @ [z])" if "z \<noteq> CHR ''/''" "\<not> py_endswith ''/v1/models'' (q @ [z])" for q z
    using that endswith_last [of ?p q z] unfolding p by (cases n) (auto simp: last_append split: if_splits)
  from this [of "CHR ''s''" "''/v1/message''"] this [of "CHR ''s''" "''/v1/chat/completion''"]
    this [of "CHR ''s''" "''/v1/response''"] this [of "CHR ''s''" "''/v1/embedding''"]
    this [of "CHR ''s''" "''/v1/images/generation''"] assms
  show False by (simp add: client_protocol_and_modality_def py_endswith_def py_startswith_def split: if_splits)
qed

text \<open>
  Claim C18. For an admitted chat request the translator tries exactly the upstreams that the
  external processor decided, in the order of the decision: the chain header, read back against
  the same catalogue, is the list of candidates, whatever other headers the client sends.
\<close>

theorem ext_decision_translated:
  assumes "ext_route env now db st snap hs body = (st', Some (ext_allow out))"
    and "client_protocol_and_modality (hdr hs '':path'') = (proto, Some ''chat'')"
    and "\<forall>k v. map_of out k = Some v \<longrightarrow> map_of sent k = Some v" and "catalog_ids db"
  shows "\<exists>policy ms cs prompt d. select_route (route_env.truncate env) now db st policy ms cs (Some prompt)
        (header_client_ip hs) = (st', Inr (Some d))
    \<and> route_exposes policy proto
    \<and> translate_chat_candidates db (forwarded sent)
      = Inr (map (\<lambda>(m, c). (Some m, c, md_upstream_model m)) (decision_candidates d))"
proof -
  obtain name policy ms cs prompt d rid where l: "ext_load_route env db name = Some (Inr (policy, ms, cs))"
    and x: "route_exposes policy proto"
    and s: "select_route (route_env.truncate env) now db st policy ms cs (Some prompt) (header_client_ip hs)
      = (st', Inr (Some d))"
    and o: "out = route_headers rid snap proto (Some ''chat'') name d"
    using ext_route_allow [OF assms(1,2) chat_path_not_models [OF assms(2)]] by metis
  have "map_of out ''x-llmxy-chat-chain'' = Some (chain_text (decision_candidates d))"
    by (simp add: o route_headers_def classifier_out_def map_add_def Let_def split: option.splits)
  then have "map_of sent ''x-llmxy-chat-chain'' = Some (chain_text (decision_candidates d))"
    using assms(3) by blast
  then have "translate_chat_candidates db (forwarded sent) = Inr (map pair_candidate (decision_candidates d))"
    using load_candidates_chain [OF _ decided_pairs [OF l s assms(4)]]
    by (simp add: translate_chat_candidates_def forwarded_def decision_candidates_def)
  with s x show ?thesis unfolding pair_candidate_def [abs_def] case_prod_unfold by blast
qed

section \<open>Billed once\<close>

lemma kept_headers:
  "map_of xs k = Some v \<Longrightarrow> map_of (if b then xs @ ys else xs) k = Some v"
  "map_of xs k = Some v \<Longrightarrow> map_of (classifier_out u xs) k = Some v"
  by (simp_all add: classifier_out_def map_add_def split: option.splits)

lemma route_headers_base:
  "map_of (route_headers rid snap proto modality name d) ''x-llmxy-billed-sync'' = Some ''true''"
  unfolding route_headers_def Let_def by (intro kept_headers) simp

lemma ext_allow_headers:
  assumes "ext_decide env now s hs body = (s', Some (ext_allow out))"
  shows "map_of out ''x-llmxy-billed-sync'' = Some ''true''"
proof -
  obtain db w st st' snap where r: "ext_route env now db st snap hs body = (st', Some (ext_allow out))"
    using assms by (auto simp: ext_decide_def split: prod.splits option.splits sum.splits)
  obtain rid proto modality name d where o: "out = listing_headers rid snap proto
      \<or> out = route_headers rid snap proto modality name d"
  proof (cases "py_rstrip_chr (CHR ''/'') (py_before (CHR ''?'') (hdr hs '':path'')) = ''/v1/models''")
    case True
    with r have "\<exists>rid proto. out = listing_headers rid snap proto"
      by (auto simp: ext_route_def Let_def split: prod.splits if_splits)
    with that show ?thesis by blast
  next
    case False
    obtain proto modality where "client_protocol_and_modality (hdr hs '':path'') = (proto, modality)" by fastforce
    from ext_route_allow [OF r this False] that show ?thesis by metis
  qed
  then show ?thesis using route_headers_base by (auto simp: listing_headers_def)
qed

lemma billed_sync_skipped:
  assumes "map_of (en_request_headers e) ''x-llmxy-billed-sync'' = Some ''true''"
  shows "ingest_entry env now e s = s"
proof -
  have "billed_sync (en_request_headers e)"
    using assms by (simp add: billed_sync_def hdr_text_def als_hdr_def or_text_def py_lower_def chr_lower_def)
  then show ?thesis by (cases s) (simp add: ingest_entry_def read_entry_def)
qed

fun text_of :: "json \<Rightarrow> string list" where
  "text_of (JStr t) = [t]"
| "text_of v = []"

fun items_of :: "json \<Rightarrow> json list" where
  "items_of (JList xs) = xs"
| "items_of v = []"

definition logged_names :: "json \<Rightarrow> string list" where
  \<comment> \<open>the request headers that the access loggers of an HTTP connection manager are told to log\<close>
  "logged_names hcm = concat (map (\<lambda>logger.
     concat (map text_of (items_of (json_at (json_at logger ''typed_config'') ''additional_request_headers_to_log''))))
     (items_of (json_at hcm ''access_log'')))"

definition logs_request :: "json \<Rightarrow> headers \<Rightarrow> als_entry \<Rightarrow> bool" where
  \<comment> \<open>what Envoy documents of its access logger: an entry holds exactly those headers of the request that
      the configuration names\<close>
  "logs_request hcm sent e \<longleftrightarrow>
     (\<forall>k. map_of (en_request_headers e) k = (if k \<in> set (logged_names hcm) then map_of sent k else None))"

lemma billing_mark_logged: "''x-llmxy-billed-sync'' \<in> set (logged_names (connection_manager es))"
  by (simp add: logged_names_def json_at_def connection_manager_def access_log_config_def dict_get_none_def logged_headers_def)

text \<open>
  Claim C16. A request through Envoy is billed once: the translator, called with the headers that
  the external processor set, takes from the user's funds exactly what it logs, and the access
  log entry of the same request changes neither the database nor Redis. The entry holds only the
  headers that the generated configuration of the listener tells Envoy to log; the prices of the
  models are not negative.
\<close>

theorem envoy_billed_once:
  assumes "ext_decide xenv t0 s hs body = (s', Some (ext_allow out))"
    and "\<forall>k v. map_of out k = Some v \<longrightarrow> map_of sent k = Some v"
    and "map_of out ''x-llmxy-user-id'' = Some (str_int uid)" and "0 \<le> uid"
    and "h \<in> {translate_chat_completions, translate_embeddings, translate_images_generations,
      translate_messages fr mid, translate_responses fr ids}"
    and "h env (forwarded sent) now db st payload = (db1, st1, res)"
    and "distinct (map sb_id (subscriptions db))" and "\<forall>m \<in> set (models db). quotes_nonneg m"
    and "logs_request (connection_manager es) sent e" and "ingest_entry aenv t2 e (db1, r) = (db2, r2)"
  shows "(\<exists>ls. usage_logs db2 = usage_logs db @ ls
      \<and> sub_total now db2 uid + wallet_of db2 uid
        = sub_total now db uid + wallet_of db uid - sum_list (map (\<lambda>l. max 0 (ul_cost_cents l)) ls))
    \<and> db2 = db1 \<and> r2 = r"
proof -
  have "map_of sent ''x-llmxy-billed-sync'' = Some ''true''"
    using ext_allow_headers [OF assms(1)] assms(2) by blast
  then have "map_of (en_request_headers e) ''x-llmxy-billed-sync'' = Some ''true''"
    using assms(9) billing_mark_logged [of es] by (simp add: logs_request_def)
  then have skip: "db2 = db1" "r2 = r" using billed_sync_skipped [of e aenv t2 "(db1, r)"] assms(10) by simp_all
  have "map_of sent ''x-llmxy-user-id'' = Some (str_int uid)" using assms(2,3) by blast
  then have "header_int (th_user_id (forwarded sent)) = Some uid"
    using assms(4) by (simp add: forwarded_def header_int_def py_isdigit_str_int digits_val_str_int)
  from endpoint_logged [OF assms(5,6,7) this assms(8)] skip show ?thesis by (simp add: charges_logged_def)
qed

section \<open>Examples\<close>

definition demo_envoy :: ext_env where
  "demo_envoy = demo_ext_env\<lparr>rl_loads := (\<lambda>t. Some (JObj [(''model'', JStr ''gpt'')]))\<rparr>"

definition demo_http :: headers where
  "demo_http = [('':path'', ''/v1/chat/completions''), (''x-api-key'', ''sk-x'')]"

definition demo_envoy_db :: session where
  "demo_envoy_db = demo_shop\<lparr>api_keys := [(default_api_key 5 4)\<lparr>ak_key_hash := ''h''\<rparr>]\<rparr>"

definition demo_worker :: worker where
  "demo_worker = \<lparr>wk_apikeys = tc_new 4 snapshot_ttl, wk_users = tc_new 4 snapshot_ttl\<rparr>"

definition demo_snapshot :: api_key_snapshot where
  "demo_snapshot = snapshot_from_row ((default_api_key 5 4)\<lparr>ak_key_hash := ''h''\<rparr>)"

lemma demo_allowed:
  "case snd (ext_decide demo_envoy 0 (demo_envoy_db, demo_worker, demo_route_state) demo_http ''b'') of
     Some (ext_allow out) \<Rightarrow> map_of out ''x-llmxy-user-id'' = Some ''4'' | _ \<Rightarrow> False"
  by code_simp

lemma demo_routed:
  "case snd (ext_route demo_envoy 0 demo_envoy_db demo_route_state demo_snapshot demo_http ''b'') of
     Some (ext_allow out) \<Rightarrow> map_of out ''x-llmxy-chat-chain'' = Some ''2:7,3:7'' | _ \<Rightarrow> False"
  by code_simp

theorem ext_decision_translated_witness:
  "\<exists>st' out policy ms cs prompt d. ext_route demo_envoy 0 demo_envoy_db demo_route_state demo_snapshot demo_http ''b''
       = (st', Some (ext_allow out))
     \<and> select_route (route_env.truncate demo_envoy) 0 demo_envoy_db demo_route_state policy ms cs (Some prompt)
         (header_client_ip demo_http) = (st', Inr (Some d))
     \<and> translate_chat_candidates demo_envoy_db (forwarded (out @ [(''x-llmxy-chat-chain'', ''1:7'')]))
       = Inr (map (\<lambda>(m, c). (Some m, c, md_upstream_model m)) (decision_candidates d))"
proof -
  obtain st' out where r: "ext_route demo_envoy 0 demo_envoy_db demo_route_state demo_snapshot demo_http ''b''
      = (st', Some (ext_allow out))"
    using demo_routed by (auto split: option.splits ext_decision.splits simp: prod_eq_iff)
  have p: "client_protocol_and_modality (hdr demo_http '':path'') = (openai_chat, Some ''chat'')" by code_simp
  have s: "\<forall>k v. map_of out k = Some v \<longrightarrow> map_of (out @ [(''x-llmxy-chat-chain'', ''1:7'')]) k = Some v"
    by (simp add: map_add_def)
  have c: "catalog_ids demo_envoy_db" by code_simp
  from ext_decision_translated [OF r p s c] r show ?thesis by blast
qed

theorem envoy_billed_once_witness:
  "\<exists>out. snd (ext_decide demo_envoy 0 (demo_envoy_db, demo_worker, demo_route_state) demo_http ''b'') = Some (ext_allow out)
     \<and> (case translate_chat_completions demo_relay_env (forwarded out) 0 demo_shop demo_route_state (Some (JObj [])) of
          (db1, st1, res) \<Rightarrow>
            sub_total 0 db1 4 + wallet_of db1 4 = 1000 - sum_list (map (\<lambda>l. max 0 (ul_cost_cents l)) (usage_logs db1)))"
proof -
  obtain s' out where x: "ext_decide demo_envoy 0 (demo_envoy_db, demo_worker, demo_route_state) demo_http ''b''
      = (s', Some (ext_allow out))" and u: "map_of out ''x-llmxy-user-id'' = Some (str_int 4)"
  proof -
    have "str_int 4 = ''4''" by code_simp
    with demo_allowed that show ?thesis
      by (auto split: option.splits ext_decision.splits simp: prod_eq_iff)
  qed
  obtain db1 st1 res where t: "translate_chat_completions demo_relay_env (forwarded out) 0 demo_shop demo_route_state
      (Some (JObj [])) = (db1, st1, res)" by (metis prod_cases3)
  let ?es = "\<lparr>es_api_port = 1, es_internal_host = ''i'', es_internal_port = 2, es_ext_proc_port = 3, es_xds_port = 4,
    es_als_port = 6, es_auth_token = ''t'', es_public_host = ''h'', es_ext_proc_timeout = ''5s'', es_image = ''e''\<rparr>"
  define names where "names = logged_names (connection_manager ?es)"
  define e where "e = demo_entry\<lparr>en_request_headers := filter (\<lambda>(k, v). k \<in> set names) out\<rparr>"
  have f: "map_of (filter (\<lambda>(k, v). k \<in> S) xs) k = (if k \<in> S then map_of xs k else None)"
    for S and xs :: headers and k
    by (induction xs) auto
  have eh: "logs_request (connection_manager ?es) out e"
    unfolding logs_request_def names_def [symmetric] e_def using f by simp
  obtain db2 r2 where i: "ingest_entry demo_als_env 0 e (db1, cold_redis) = (db2, r2)" by fastforce
  have q: "\<forall>m \<in> set (models demo_shop). quotes_nonneg m" by (simp add: demo_shop_def demo_quotes)
  have d: "distinct (map sb_id (subscriptions demo_shop))" by code_simp
  have o: "\<forall>k v. map_of out k = Some v \<longrightarrow> map_of out k = Some v" by simp
  have h: "translate_chat_completions \<in> {translate_chat_completions, translate_embeddings, translate_images_generations,
      translate_messages (\<lambda>r. []) [],
      translate_responses (\<lambda>r. []) \<lparr>ri_response = [], ri_item = [], ri_created = 0, ri_completed = 0\<rparr>}" by simp
  from envoy_billed_once [OF x o u _ h t d q eh i] demo_funds x t show ?thesis
    by (auto simp: account_funds_def account_logs_def)
qed

end
