(* ===== verification/Openai_Adapters.thy ===== *)
theory Openai_Adapters
  imports Relay Responses_Protocol
begin

text \<open>
  The adapters of OpenAI-compatible upstreams: \<^verbatim>\<open>services/providers/openai.py\<close> and
  \<^verbatim>\<open>services/providers/azure_openai.py\<close>. The two differ in URL, headers and in the model field of the body;
  both learn which name an upstream accepts for the token limit from its error messages and
  remember it per channel and model.

  Network calls through \<open>httpx\<close> are parameters, numbered like the other upstream calls: a request
  in one piece gives a response or an exception, a streamed one its status, the chunks read and
  whether reading ended without an exception. A generator runs while the relay reads it; here it runs
  when the adapter returns it, and its result is the chunks it yields and whether it ends without
  raising. Keys that \<open>dict\<close> would identify because they are equal numbers are kept apart.
\<close>

section \<open>Printing\<close>

fun spaced_dumps :: "(rat \<Rightarrow> string) \<Rightarrow> json \<Rightarrow> string"
  and spaced_items :: "(rat \<Rightarrow> string) \<Rightarrow> json list \<Rightarrow> string list"
  and spaced_fields :: "(rat \<Rightarrow> string) \<Rightarrow> (string \<times> json) list \<Rightarrow> string list" where
  \<comment> \<open>\<open>json.dumps(v, ensure_ascii=False)\<close>, with the default separators\<close>
  "spaced_dumps fr JNull = ''null''"
| "spaced_dumps fr (JBool b) = (if b then ''true'' else ''false'')"
| "spaced_dumps fr (JInt i) = str_int i"
| "spaced_dumps fr (JFloat r) = fr r"
| "spaced_dumps fr (JStr s) = quote_text s"
| "spaced_dumps fr (JList xs) = ''['' @ py_join '', '' (spaced_items fr xs) @ '']''"
| "spaced_dumps fr (JObj d) = ''{'' @ py_join '', '' (spaced_fields fr d) @ ''}''"
| "spaced_items fr [] = []"
| "spaced_items fr (x # xs) = spaced_dumps fr x # spaced_items fr xs"
| "spaced_fields fr [] = []"
| "spaced_fields fr ((k, v) # d) = (quote_text k @ '': '' @ spaced_dumps fr v) # spaced_fields fr d"

section \<open>Calls\<close>

datatype http_exception = timeout_exception string | http_exception string

definition exception_text :: "http_exception \<Rightarrow> string" where
  "exception_text e = (case e of timeout_exception t \<Rightarrow> t | http_exception t \<Rightarrow> t)"

record http_response =
  hr_status :: int
  hr_text :: string
  hr_json :: "json option"
    \<comment> \<open>\<open>r.json()\<close>, \<open>None\<close> where it raises\<close>

record http_env =
  hx_post :: "nat \<Rightarrow> string \<Rightarrow> (string \<times> string) list \<Rightarrow> dict \<Rightarrow> http_exception + http_response"
  hx_stream :: "nat \<Rightarrow> string \<Rightarrow> (string \<times> string) list \<Rightarrow> dict \<Rightarrow> http_exception + int \<times> string list \<times> bool"
  hx_crypto :: crypto_env
  hx_loads :: "string \<Rightarrow> json option"
  hx_repr :: "json \<Rightarrow> string"
  hx_float :: "rat \<Rightarrow> string"
  hx_error :: "py_error \<Rightarrow> string"
    \<comment> \<open>the text of a Python error\<close>
  hx_id :: string
  hx_time :: int
  hx_azure_version :: string
  hx_azure_responses_version :: string
  hx_azure_image_version :: string

record provider_result =
  pr_status :: int
  pr_body :: json
  pr_stream :: "(string list \<times> bool) option"
  pr_prompt_tokens :: json
  pr_completion_tokens :: json

definition plain_result :: "int \<Rightarrow> json \<Rightarrow> provider_result" where
  \<comment> \<open>\<open>ChatResult(status=..., body=...)\<close>\<close>
  "plain_result status body = \<lparr>pr_status = status, pr_body = body, pr_stream = None, pr_prompt_tokens = JInt 0,
     pr_completion_tokens = JInt 0\<rparr>"

definition stream_result :: "string list \<times> bool \<Rightarrow> provider_result" where
  \<comment> \<open>\<open>ChatResult(status=200, stream=gen())\<close>\<close>
  "stream_result g = \<lparr>pr_status = 200, pr_body = JNull, pr_stream = Some g, pr_prompt_tokens = JInt 0,
     pr_completion_tokens = JInt 0\<rparr>"

text \<open>The call counter, and \<open>_token_limit_fields\<close> of each adapter by channel and upstream model.\<close>

record provider_state =
  ps_calls :: nat
  ps_fields :: "string \<times> int \<times> string \<Rightarrow> string option"

definition count_call :: "provider_state \<Rightarrow> provider_state" where
  "count_call st = st\<lparr>ps_calls := Suc (ps_calls st)\<rparr>"

definition preferred_token_field :: "string \<Rightarrow> channel \<Rightarrow> string \<Rightarrow> provider_state \<Rightarrow> string option" where
  "preferred_token_field adapter c um st = ps_fields st (adapter, ch_id c, um)"

definition remember_token_field :: "string \<Rightarrow> channel \<Rightarrow> string \<Rightarrow> string \<Rightarrow> provider_state \<Rightarrow> provider_state" where
  "remember_token_field adapter c um field st = st\<lparr>ps_fields := (ps_fields st)((adapter, ch_id c, um) := Some field)\<rparr>"

definition error_body :: "string \<Rightarrow> json" where
  "error_body t = JObj [(''error'', JObj [(''message'', JStr t)])]"

definition response_data :: "http_response \<Rightarrow> json" where
  "response_data r = (case hr_json r of Some j \<Rightarrow> j | None \<Rightarrow> error_body (hr_text r))"

definition raw_data :: "http_env \<Rightarrow> string \<Rightarrow> json" where
  \<comment> \<open>of a body read from a stream\<close>
  "raw_data env raw = (case hx_loads env (decode_ignore raw) of Some j \<Rightarrow> j | None \<Rightarrow> error_body (decode_ignore raw))"

definition usage_counts :: "json \<Rightarrow> py_error + json \<times> json" where
  "usage_counts data =
     bind_result (need_obj (py_or data (JObj []))) (\<lambda>d.
     bind_result (need_obj (py_or (dict_get_none d ''usage'') (JObj []))) (\<lambda>us.
       Inr (dict_get_default us ''prompt_tokens'' (JInt 0), dict_get_default us ''completion_tokens'' (JInt 0))))"

definition raised :: "http_env \<Rightarrow> py_error + 'a \<Rightarrow> string + 'a" where
  "raised env r = (case r of Inl e \<Rightarrow> Inl (hx_error env e) | Inr a \<Rightarrow> Inr a)"

section \<open>Bodies\<close>

definition dict_entry :: "(json \<Rightarrow> string) \<Rightarrow> json \<Rightarrow> py_error + string \<times> json" where
  \<comment> \<open>one element of the sequence given to \<open>dict\<close>; a key that is no text is printed by \<open>json.dumps\<close>\<close>
  "dict_entry print x =
     (case x of
        JList [JStr k, v] \<Rightarrow> Inr (k, v)
      | JList [k, v] \<Rightarrow> if hashable k then Inr (print k, v) else Inl TypeError
      | JObj [(a, _), (b, _)] \<Rightarrow> Inr (a, JStr b)
      | JStr s \<Rightarrow> if py_len s = 2 then Inr (py_take 1 s, JStr (drop (length (py_take 1 s)) s)) else Inl ValueError
      | JList _ \<Rightarrow> Inl ValueError
      | JObj _ \<Rightarrow> Inl ValueError
      | _ \<Rightarrow> Inl TypeError)"

fun dict_entries :: "(json \<Rightarrow> string) \<Rightarrow> json list \<Rightarrow> dict \<Rightarrow> py_error + dict" where
  "dict_entries print [] d = Inr d"
| "dict_entries print (x # xs) d = bind_result (dict_entry print x) (\<lambda>(k, v). dict_entries print xs (dict_set d k v))"

definition py_dict :: "(json \<Rightarrow> string) \<Rightarrow> json \<Rightarrow> py_error + dict" where
  \<comment> \<open>\<open>dict(v)\<close>; a text is a sequence of one-character texts\<close>
  "py_dict print v =
     (case v of
        JObj d \<Rightarrow> Inr d
      | JList xs \<Rightarrow> dict_entries print xs []
      | JStr s \<Rightarrow> if s = [] then Inr [] else Inl ValueError
      | _ \<Rightarrow> Inl TypeError)"

definition with_stream :: "(json \<Rightarrow> string) \<Rightarrow> bool \<Rightarrow> dict \<Rightarrow> py_error + dict" where
  \<comment> \<open>\<open>body["stream"]\<close>, and the request for usage in the final chunk of a stream\<close>
  "with_stream print stream body =
     (let body1 = dict_set body ''stream'' (JBool stream) in
      if \<not> stream then Inr body1
      else bind_result (py_dict print (py_or (dict_get_none body1 ''stream_options'') (JObj []))) (\<lambda>opts.
             Inr (dict_set body1 ''stream_options'' (JObj (dict_set opts ''include_usage'' (JBool True))))))"

text \<open>The part of \<open>chat\<close> in which the adapters differ.\<close>

record endpoint =
  ep_adapter :: string
  ep_url :: string
  ep_headers :: "(string \<times> string) list"
  ep_model :: "dict \<Rightarrow> dict"
    \<comment> \<open>sets or drops the model field\<close>

definition chat_body :: "http_env \<Rightarrow> endpoint \<Rightarrow> dict \<Rightarrow> bool \<Rightarrow> string option \<Rightarrow> py_error + dict" where
  "chat_body env ep payload stream preferred =
     with_stream (spaced_dumps (hx_float env)) stream (ep_model ep (normalize_chat_payload_for_protocol payload False preferred))"

definition retry_field :: "http_env \<Rightarrow> dict \<Rightarrow> json \<Rightarrow> string option" where
  \<comment> \<open>the field to send instead, when the error names the other one\<close>
  "retry_field env payload data =
     (if should_retry_with_max_completion_tokens (spaced_dumps (hx_float env)) payload data then Some max_completion_tokens_field
      else if should_retry_with_max_tokens (spaced_dumps (hx_float env)) payload data then Some max_tokens_field
      else None)"

section \<open>Chat\<close>

definition chat_answer_result :: "http_env \<Rightarrow> http_response \<Rightarrow> string + provider_result" where
  "chat_answer_result env r =
     raised env (bind_result (usage_counts (response_data r)) (\<lambda>(pt, ct).
       Inr \<lparr>pr_status = hr_status r, pr_body = response_data r, pr_stream = None, pr_prompt_tokens = pt,
            pr_completion_tokens = ct\<rparr>))"

definition post_chat ::
    "http_env \<Rightarrow> endpoint \<Rightarrow> dict \<Rightarrow> provider_state \<Rightarrow> provider_state \<times> (string + provider_result)" where
  "post_chat env ep body st =
     (count_call st,
      case hx_post env (ps_calls st) (ep_url ep) (ep_headers ep) body of
        Inl e \<Rightarrow> Inl (exception_text e)
      | Inr r \<Rightarrow> chat_answer_result env r)"

definition compat_chat_json ::
    "http_env \<Rightarrow> endpoint \<Rightarrow> channel \<Rightarrow> string \<Rightarrow> dict \<Rightarrow> provider_state \<Rightarrow> provider_state \<times> (string + provider_result)" where
  "compat_chat_json env ep c um payload st =
     (case chat_body env ep payload False (preferred_token_field (ep_adapter ep) c um st) of
        Inl e \<Rightarrow> (st, Inl (hx_error env e))
      | Inr body \<Rightarrow>
          (case hx_post env (ps_calls st) (ep_url ep) (ep_headers ep) body of
             Inl e \<Rightarrow> (count_call st, Inl (exception_text e))
           | Inr r \<Rightarrow>
               (case (hr_status r = 400, retry_field env payload (response_data r)) of
                  (True, Some field) \<Rightarrow>
                    (let st1 = remember_token_field (ep_adapter ep) c um field (count_call st) in
                     case chat_body env ep payload False (Some field) of
                       Inl e \<Rightarrow> (st1, Inl (hx_error env e))
                     | Inr body2 \<Rightarrow> post_chat env ep body2 st1)
                | _ \<Rightarrow> (count_call st, chat_answer_result env r))))"

definition retry_stream ::
    "http_env \<Rightarrow> endpoint \<Rightarrow> dict \<Rightarrow> string \<Rightarrow> provider_state \<Rightarrow> provider_state \<times> string list \<times> bool" where
  "retry_stream env ep payload field st =
     (case chat_body env ep payload True (Some field) of
        Inl e \<Rightarrow> (st, [], False)
      | Inr body \<Rightarrow>
          (count_call st,
           case hx_stream env (ps_calls st) (ep_url ep) (ep_headers ep) body of
             Inl e \<Rightarrow> ([], False)
           | Inr (status, chunks, ends) \<Rightarrow> (chunks, ends)))"

definition compat_chat_gen ::
    "http_env \<Rightarrow> endpoint \<Rightarrow> channel \<Rightarrow> string \<Rightarrow> dict \<Rightarrow> dict \<Rightarrow> provider_state \<Rightarrow> provider_state \<times> string list \<times> bool" where
  \<comment> \<open>\<open>gen()\<close>: the chunks it yields and whether it ends without raising\<close>
  "compat_chat_gen env ep c um payload body st =
     (case hx_stream env (ps_calls st) (ep_url ep) (ep_headers ep) body of
        Inl e \<Rightarrow> (count_call st, [], False)
      | Inr (status, chunks, ends) \<Rightarrow>
          if status \<noteq> 400 then (count_call st, chunks, ends)
          else if \<not> ends then (count_call st, [], False)
          else case retry_field env payload (raw_data env (concat chunks)) of
            None \<Rightarrow> (count_call st, [concat chunks], True)
          | Some field \<Rightarrow> retry_stream env ep payload field (remember_token_field (ep_adapter ep) c um field (count_call st)))"

definition compat_chat ::
    "http_env \<Rightarrow> endpoint \<Rightarrow> channel \<Rightarrow> string \<Rightarrow> dict \<Rightarrow> bool \<Rightarrow> provider_state
       \<Rightarrow> provider_state \<times> (string + provider_result)" where
  "compat_chat env ep c um payload stream st =
     (if \<not> stream then compat_chat_json env ep c um payload st
      else case chat_body env ep payload True (preferred_token_field (ep_adapter ep) c um st) of
        Inl e \<Rightarrow> (st, Inl (hx_error env e))
      | Inr body \<Rightarrow>
          (case compat_chat_gen env ep c um payload body st of (st', g) \<Rightarrow> (st', Inr (stream_result g))))"

section \<open>Responses\<close>

definition should_fallback_responses_to_chat :: "http_env \<Rightarrow> int \<Rightarrow> json \<Rightarrow> bool" where
  "should_fallback_responses_to_chat env status body =
     (if status \<notin> {400, 404, 405} then False
      else if status \<in> {404, 405} then True
      else let txt = py_lower (spaced_dumps (hx_float env) body) in
           list_ex (py_contains txt)
             [''responses'', ''/responses'', ''resource not found'', ''not supported'', ''unsupported'', ''unknown endpoint''])"

definition responses_body :: "http_env \<Rightarrow> string \<Rightarrow> dict \<Rightarrow> bool \<Rightarrow> py_error + dict" where
  "responses_body env um payload stream =
     bind_result (openai_chat_to_responses_payload (hx_repr env) payload) (\<lambda>body.
       Inr (dict_set (dict_set body ''model'' (JStr um)) ''stream'' (JBool stream)))"

definition responses_answer_result :: "http_env \<Rightarrow> string \<Rightarrow> int \<Rightarrow> json \<Rightarrow> string + provider_result" where
  \<comment> \<open>what is made of the upstream's response\<close>
  "responses_answer_result env um status data =
     (if status \<noteq> 200 then Inr (plain_result status data)
      else raised env (
        bind_result (responses_response_to_openai_chat (''chatcmpl-'' @ hx_id env) (hx_time env) data um) (\<lambda>out.
        bind_result (usage_counts out) (\<lambda>(pt, ct).
          Inr \<lparr>pr_status = 200, pr_body = out, pr_stream = None, pr_prompt_tokens = pt, pr_completion_tokens = ct\<rparr>))))"

definition new_completion :: "http_env \<Rightarrow> string \<Rightarrow> completion" where
  "new_completion env um = \<lparr>cp_id = ''chatcmpl-'' @ hx_id env, cp_created = hx_time env, cp_model = um,
     cp_prompt_tokens = 0, cp_completion_tokens = 0\<rparr>"

definition converted_stream :: "http_env \<Rightarrow> string \<Rightarrow> string list \<Rightarrow> bool \<Rightarrow> string list \<times> bool" where
  \<comment> \<open>the \<open>async for\<close> over \<open>responses_sse_to_openai_chat_sse\<close>: when reading raises, what was
      converted before has been sent\<close>
  "converted_stream env um chunks ends =
     (if ends
      then (case responses_sse_to_openai_chat_sse (hx_loads env) chunks (new_completion env um) of
              (ds, Some _) \<Rightarrow> (map (chunk_line (hx_float env)) ds @ [done_line], True)
            | (ds, None) \<Rightarrow> (map (chunk_line (hx_float env)) ds, False))
      else (map (chunk_line (hx_float env))
              (fst (completion_events (iter_sse_events (hx_loads env) [] chunks) (new_completion env um))), False))"

section \<open>OpenAI\<close>

definition openai_headers :: "http_env \<Rightarrow> channel \<Rightarrow> (string \<times> string) list" where
  "openai_headers env c =
     (''Content-Type'', ''application/json'')
     # (let key = or_text (decrypt (hx_crypto env) (ch_api_key_enc c)) [] in
        if key \<noteq> [] then [(''Authorization'', ''Bearer '' @ key)] else [])"

definition openai_url :: "channel \<Rightarrow> string \<Rightarrow> string" where
  "openai_url c path =
     (let base = py_rstrip_chr (CHR ''/'') (ch_base_url c) in
      (if py_endswith base ''/v1'' then base else base @ ''/v1'') @ path)"

definition openai_endpoint :: "http_env \<Rightarrow> channel \<Rightarrow> string \<Rightarrow> endpoint" where
  "openai_endpoint env c um = \<lparr>ep_adapter = ''openai'', ep_url = openai_url c ''/chat/completions'', ep_headers = openai_headers env c,
     ep_model = (\<lambda>body. dict_set body ''model'' (JStr um))\<rparr>"

definition openai_adapter_chat ::
    "http_env \<Rightarrow> channel \<Rightarrow> string \<Rightarrow> dict \<Rightarrow> bool \<Rightarrow> provider_state \<Rightarrow> provider_state \<times> (string + provider_result)" where
  "openai_adapter_chat env c um payload stream st = compat_chat env (openai_endpoint env c um) c um payload stream st"

definition fallback_stream ::
    "http_env \<Rightarrow> channel \<Rightarrow> string \<Rightarrow> dict \<Rightarrow> string \<Rightarrow> provider_state \<Rightarrow> provider_state \<times> string list \<times> bool" where
  \<comment> \<open>\<open>self.chat(..., stream=True)\<close> in \<open>gen()\<close>, relayed chunk by chunk, or the error body\<close>
  "fallback_stream env c um payload raw st =
     (case openai_adapter_chat env c um payload True st of
        (st', Inl e) \<Rightarrow> (st', [], False)
      | (st', Inr r) \<Rightarrow> (case pr_stream r of Some g \<Rightarrow> (st', g) | None \<Rightarrow> (st', [raw], True)))"

definition openai_responses_gen ::
    "http_env \<Rightarrow> channel \<Rightarrow> string \<Rightarrow> dict \<Rightarrow> dict \<Rightarrow> provider_state \<Rightarrow> provider_state \<times> string list \<times> bool" where
  "openai_responses_gen env c um payload body st =
     (case hx_stream env (ps_calls st) (openai_url c ''/responses'') (openai_headers env c) body of
        Inl e \<Rightarrow> (count_call st, [], False)
      | Inr (status, chunks, ends) \<Rightarrow>
          if status < 400 then (count_call st, converted_stream env um chunks ends)
          else if \<not> ends then (count_call st, [], False)
          else if should_fallback_responses_to_chat env status (raw_data env (concat chunks))
          then fallback_stream env c um payload (concat chunks) (count_call st)
          else (count_call st, [concat chunks], True))"

definition openai_adapter_responses ::
    "http_env \<Rightarrow> channel \<Rightarrow> string \<Rightarrow> dict \<Rightarrow> bool \<Rightarrow> provider_state \<Rightarrow> provider_state \<times> (string + provider_result)" where
  "openai_adapter_responses env c um payload stream st =
     (case responses_body env um payload stream of
        Inl e \<Rightarrow> (st, Inl (hx_error env e))
      | Inr body \<Rightarrow>
          if stream
          then (case openai_responses_gen env c um payload body st of (st', g) \<Rightarrow> (st', Inr (stream_result g)))
          else case hx_post env (ps_calls st) (openai_url c ''/responses'') (openai_headers env c) body of
            Inl e \<Rightarrow> (count_call st, Inl (exception_text e))
          | Inr r \<Rightarrow>
              if should_fallback_responses_to_chat env (hr_status r) (response_data r)
              then openai_adapter_chat env c um payload False (count_call st)
              else (count_call st, responses_answer_result env um (hr_status r) (response_data r)))"

section \<open>Embeddings and images\<close>

definition post_json ::
    "http_env \<Rightarrow> string \<Rightarrow> (string \<times> string) list \<Rightarrow> dict \<Rightarrow> provider_state \<Rightarrow> provider_state \<times> (http_exception + int \<times> json)" where
  "post_json env url headers body st =
     (count_call st,
      case hx_post env (ps_calls st) url headers body of
        Inl e \<Rightarrow> Inl e
      | Inr r \<Rightarrow> Inr (hr_status r, response_data r))"

definition image_failure :: "http_exception \<Rightarrow> int \<times> json" where
  "image_failure e =
     (case e of
        timeout_exception t \<Rightarrow>
          (504, JObj [(''error'', JObj [(''message'', JStr ''upstream image generation timed out''), (''type'', JStr ''timeout'')])])
      | http_exception t \<Rightarrow>
          (502, JObj [(''error'', JObj [(''message'', JStr t), (''type'', JStr ''upstream_error'')])]))"

definition embedding_answer :: "provider_state \<times> (http_exception + int \<times> json) \<Rightarrow> provider_state \<times> (string + int \<times> json)" where
  \<comment> \<open>an exception is the caller's\<close>
  "embedding_answer x = (fst x, case snd x of Inl e \<Rightarrow> Inl (exception_text e) | Inr a \<Rightarrow> Inr a)"

definition image_answer :: "provider_state \<times> (http_exception + int \<times> json) \<Rightarrow> provider_state \<times> int \<times> json" where
  \<comment> \<open>an exception is an answer\<close>
  "image_answer x = (fst x, case snd x of Inl e \<Rightarrow> image_failure e | Inr a \<Rightarrow> a)"

definition openai_adapter_embeddings ::
    "http_env \<Rightarrow> channel \<Rightarrow> string \<Rightarrow> dict \<Rightarrow> provider_state \<Rightarrow> provider_state \<times> (string + int \<times> json)" where
  "openai_adapter_embeddings env c um payload st =
     embedding_answer (post_json env (openai_url c ''/embeddings'') (openai_headers env c)
       (dict_set payload ''model'' (JStr um)) st)"

definition openai_adapter_images :: "http_env \<Rightarrow> channel \<Rightarrow> string \<Rightarrow> dict \<Rightarrow> provider_state \<Rightarrow> provider_state \<times> int \<times> json" where
  "openai_adapter_images env c um payload st =
     image_answer (post_json env (openai_url c ''/images/generations'') (openai_headers env c)
       (dict_set payload ''model'' (JStr um)) st)"

section \<open>Azure OpenAI\<close>

definition azure_headers :: "http_env \<Rightarrow> channel \<Rightarrow> (string \<times> string) list" where
  "azure_headers env c =
     (''Content-Type'', ''application/json'')
     # (let key = or_text (decrypt (hx_crypto env) (ch_api_key_enc c)) [] in
        if key \<noteq> [] then [(''api-key'', key)] else [])"

definition azure_url :: "http_env \<Rightarrow> channel \<Rightarrow> string \<Rightarrow> string \<Rightarrow> string option \<Rightarrow> string" where
  "azure_url env c deployment path version =
     (let base = py_rstrip_chr (CHR ''/'') (ch_base_url c);
          base1 = (if py_endswith base ''/openai'' then base else base @ ''/openai'')
      in base1 @ ''/deployments/'' @ deployment @ path @ ''?api-version='' @ or_text version (hx_azure_version env))"

definition azure_responses_url :: "http_env \<Rightarrow> channel \<Rightarrow> string option \<Rightarrow> string" where
  "azure_responses_url env c version =
     (let base = py_rstrip_chr (CHR ''/'') (ch_base_url c);
          root = (if py_endswith base ''/openai/v1'' then base
                  else if py_endswith base ''/openai'' then base @ ''/v1''
                  else base @ ''/openai/v1'')
      in root @ ''/responses?api-version='' @ or_text version (hx_azure_responses_version env))"

definition azure_endpoint :: "http_env \<Rightarrow> channel \<Rightarrow> string \<Rightarrow> endpoint" where
  "azure_endpoint env c um = \<lparr>ep_adapter = ''azure_openai'', ep_url = azure_url env c um ''/chat/completions'' None, ep_headers = azure_headers env c,
     ep_model = (\<lambda>body. dict_pop body ''model'')\<rparr>"

definition azure_adapter_chat ::
    "http_env \<Rightarrow> channel \<Rightarrow> string \<Rightarrow> dict \<Rightarrow> bool \<Rightarrow> provider_state \<Rightarrow> provider_state \<times> (string + provider_result)" where
  "azure_adapter_chat env c um payload stream st = compat_chat env (azure_endpoint env c um) c um payload stream st"

definition azure_responses_gen ::
    "http_env \<Rightarrow> channel \<Rightarrow> string \<Rightarrow> dict \<Rightarrow> provider_state \<Rightarrow> provider_state \<times> string list \<times> bool" where
  "azure_responses_gen env c um body st =
     (count_call st,
      case hx_stream env (ps_calls st) (azure_responses_url env c None) (azure_headers env c) body of
        Inl e \<Rightarrow> ([], False)
      | Inr (status, chunks, ends) \<Rightarrow>
          if status < 400 then converted_stream env um chunks ends
          else if ends then ([concat chunks], True)
          else ([], False))"

definition azure_adapter_responses ::
    "http_env \<Rightarrow> channel \<Rightarrow> string \<Rightarrow> dict \<Rightarrow> bool \<Rightarrow> provider_state \<Rightarrow> provider_state \<times> (string + provider_result)" where
  "azure_adapter_responses env c um payload stream st =
     (case responses_body env um payload stream of
        Inl e \<Rightarrow> (st, Inl (hx_error env e))
      | Inr body \<Rightarrow>
          if stream
          then (case azure_responses_gen env c um body st of (st', g) \<Rightarrow> (st', Inr (stream_result g)))
          else (count_call st,
                case hx_post env (ps_calls st) (azure_responses_url env c None) (azure_headers env c) body of
                  Inl e \<Rightarrow> Inl (exception_text e)
                | Inr r \<Rightarrow> responses_answer_result env um (hr_status r) (response_data r)))"

definition azure_adapter_embeddings ::
    "http_env \<Rightarrow> channel \<Rightarrow> string \<Rightarrow> dict \<Rightarrow> provider_state \<Rightarrow> provider_state \<times> (string + int \<times> json)" where
  "azure_adapter_embeddings env c um payload st =
     embedding_answer (post_json env (azure_url env c um ''/embeddings'' None) (azure_headers env c)
       (dict_pop payload ''model'') st)"

definition azure_adapter_images :: "http_env \<Rightarrow> channel \<Rightarrow> string \<Rightarrow> dict \<Rightarrow> provider_state \<Rightarrow> provider_state \<times> int \<times> json" where
  "azure_adapter_images env c um payload st =
     image_answer (post_json env (azure_url env c um ''/images/generations'' (Some (hx_azure_image_version env)))
       (azure_headers env c) (dict_pop payload ''model'') st)"

end
