(* ===== verification/Foreign_Adapters.thy ===== *)
theory Foreign_Adapters
  imports Openai_Adapters
begin

text \<open>
  The adapters of upstreams with their own protocol: \<^verbatim>\<open>services/providers/anthropic.py\<close> and
  \<^verbatim>\<open>services/providers/gemini.py\<close>. Both translate an OpenAI chat body into the upstream's request and
  its answer, whole or streamed, back into the OpenAI shape. \<open>run_provider\<close> puts the four adapters
  behind the registry's dispatch.

  \<open>hx_stream\<close> gives these adapters the pieces of text that \<open>aiter_text\<close> decodes. Sums of token counts
  that are floats are exact.
\<close>

section \<open>Shared\<close>

fun py_add :: "json \<Rightarrow> json \<Rightarrow> py_error + json" where
  \<comment> \<open>\<open>a + b\<close>\<close>
  "py_add (JStr a) (JStr b) = Inr (JStr (a @ b))"
| "py_add (JList a) (JList b) = Inr (JList (a @ b))"
| "py_add (JFloat a) (JFloat b) = Inr (JFloat (a + b))"
| "py_add (JFloat a) b = (if is_int b then Inr (JFloat (a + of_int (as_int b))) else Inl TypeError)"
| "py_add a (JFloat b) = (if is_int a then Inr (JFloat (of_int (as_int a) + b)) else Inl TypeError)"
| "py_add a b = (if is_int a \<and> is_int b then Inr (JInt (as_int a + as_int b)) else Inl TypeError)"

definition usage_json :: "json \<Rightarrow> json \<Rightarrow> py_error + json" where
  "usage_json pt ct = bind_result (py_add pt ct) (\<lambda>tt.
     Inr (JObj [(''prompt_tokens'', pt), (''completion_tokens'', ct), (''total_tokens'', tt)]))"

definition completion_json :: "json \<Rightarrow> int \<Rightarrow> string \<Rightarrow> string \<Rightarrow> json \<Rightarrow> json \<Rightarrow> json" where
  \<comment> \<open>a \<open>chat.completion\<close> object\<close>
  "completion_json cid created um text reason usage = JObj
     [(''id'', cid), (''object'', JStr ''chat.completion''), (''created'', JInt created), (''model'', JStr um),
      (''choices'', JList [JObj [(''index'', JInt 0), (''message'', chat_message ''assistant'' (JStr text)),
         (''finish_reason'', reason)]]),
      (''usage'', usage)]"

definition copy_present :: "dict \<Rightarrow> (string \<times> string) list \<Rightarrow> dict \<Rightarrow> dict" where
  \<comment> \<open>\<open>if k in payload: body[k'] = payload[k]\<close> for each pair\<close>
  "copy_present payload ks body =
     foldl (\<lambda>b (k, k'). case dict_get payload k of None \<Rightarrow> b | Some v \<Rightarrow> dict_set b k' v) body ks"

definition stop_list :: "json \<Rightarrow> json" where
  "stop_list s = (case s of JList _ \<Rightarrow> s | _ \<Rightarrow> JList [s])"

definition line_event :: "(string \<Rightarrow> json option) \<Rightarrow> string \<Rightarrow> json list" where
  \<comment> \<open>the event on one line, if it has one\<close>
  "line_event loads line =
     (if \<not> py_startswith line ''data:'' then []
      else let data = py_strip (drop 5 line) in
           if data = [] then [] else case loads data of None \<Rightarrow> [] | Some v \<Rightarrow> [v])"

fun text_events :: "(string \<Rightarrow> json option) \<Rightarrow> string \<Rightarrow> string list \<Rightarrow> json list" where
  \<comment> \<open>the events of the pieces read, behind an unfinished buffer\<close>
  "text_events loads buf [] = []"
| "text_events loads buf (ch # chs) =
     (let parts = py_split event_separator (buf @ ch) in
      concat (map (\<lambda>event. concat (map (line_event loads) (py_splitlines event))) (butlast parts))
      @ text_events loads (List.last parts) chs)"

datatype stream_item = chunk_item dict | done_item
  \<comment> \<open>what a generator yields: a chunk, or \<open>data: [DONE]\<close>\<close>

fun run_events :: "(json \<Rightarrow> 's \<Rightarrow> stream_item list \<times> 's option) \<Rightarrow> json list \<Rightarrow> 's \<Rightarrow> stream_item list \<times> 's option" where
  \<comment> \<open>the body of the loop for each event: what it yields, and its state unless it raises\<close>
  "run_events step [] st = ([], Some st)"
| "run_events step (ev # evs) st =
     (case step ev st of
        (ds, None) \<Rightarrow> (ds, None)
      | (ds, Some st') \<Rightarrow> (case run_events step evs st' of (ds', r) \<Rightarrow> (ds @ ds', r)))"

text \<open>The token counts a stream has reported.\<close>

type_synonym counts = "json \<times> json"

definition provider_chunk :: "http_env \<Rightarrow> string \<Rightarrow> json \<Rightarrow> json \<Rightarrow> dict" where
  "provider_chunk env um delta reason = completion_chunk (new_completion env um) delta reason"

definition provider_final :: "http_env \<Rightarrow> string \<Rightarrow> counts \<Rightarrow> py_error + dict" where
  \<comment> \<open>the chunk with the usage\<close>
  "provider_final env um cts = bind_result (usage_json (fst cts) (snd cts)) (\<lambda>us.
     Inr (provider_chunk env um (JObj []) (JStr ''stop'') @ [(''usage'', us)]))"

definition spaced_line :: "(rat \<Rightarrow> string) \<Rightarrow> dict \<Rightarrow> string" where
  \<comment> \<open>\<open>f"data: {json.dumps(out)}\n\n"\<close>\<close>
  "spaced_line fr d = ''data: '' @ ascii_text (spaced_dumps fr (JObj d)) @ event_separator"

definition print_item :: "(rat \<Rightarrow> string) \<Rightarrow> stream_item \<Rightarrow> string" where
  "print_item fr i = (case i of chunk_item d \<Rightarrow> spaced_line fr d | done_item \<Rightarrow> done_line)"

definition yielding :: "'s \<Rightarrow> py_error + stream_item list \<Rightarrow> stream_item list \<times> 's option" where
  \<comment> \<open>what is yielded with the state unchanged\<close>
  "yielding st r = (case r of Inl e \<Rightarrow> ([], None) | Inr ls \<Rightarrow> (ls, Some st))"

definition updating :: "py_error + 's \<Rightarrow> stream_item list \<times> 's option" where
  \<comment> \<open>a changed state and nothing yielded\<close>
  "updating r = (case r of Inl e \<Rightarrow> ([], None) | Inr st \<Rightarrow> ([], Some st))"

definition final_items :: "http_env \<Rightarrow> string \<Rightarrow> counts \<Rightarrow> py_error + stream_item list" where
  "final_items env um cts = bind_result (provider_final env um cts) (\<lambda>d. Inr [chunk_item d, done_item])"

definition translated_answer ::
    "http_env \<Rightarrow> (json \<Rightarrow> py_error + json) \<Rightarrow> string \<Rightarrow> (string \<times> string) list \<Rightarrow> dict \<Rightarrow> provider_state
       \<Rightarrow> provider_state \<times> (string + provider_result)" where
  \<comment> \<open>the request in one piece: an error body is returned as it is, an answer translated\<close>
  "translated_answer env translate url headers body st =
     (count_call st,
      case hx_post env (ps_calls st) url headers body of
        Inl e \<Rightarrow> Inl (exception_text e)
      | Inr r \<Rightarrow>
          (case hr_json r of
             None \<Rightarrow> Inr (plain_result (hr_status r) (error_body (hr_text r)))
           | Some data \<Rightarrow>
               if hr_status r \<noteq> 200 then Inr (plain_result (hr_status r) data)
               else raised env (
                 bind_result (translate data) (\<lambda>out.
                 bind_result (usage_counts out) (\<lambda>(pt, ct).
                   Inr \<lparr>pr_status = 200, pr_body = out, pr_stream = None, pr_prompt_tokens = pt,
                        pr_completion_tokens = ct\<rparr>)))))"

section \<open>Anthropic\<close>

definition image_url_source :: "json \<Rightarrow> json option" where
  "image_url_source url =
     (case url of
        JStr u \<Rightarrow>
          if u = [] then None
          else let header = py_before (CHR '','') u; data = py_after (CHR '','') u;
                   media_type = py_before (CHR '';'') (drop 5 header)
               in if py_startswith u ''data:'' \<and> py_contains u '';base64,'' \<and> media_type \<noteq> [] \<and> data \<noteq> []
                  then Some (JObj [(''type'', JStr ''base64''), (''media_type'', JStr media_type), (''data'', JStr data)])
                  else Some (JObj [(''type'', JStr ''url''), (''url'', JStr u)])
      | _ \<Rightarrow> None)"

definition image_url_of :: "dict \<Rightarrow> json" where
  "image_url_of block =
     (case dict_get_none block ''image_url'' of JObj d \<Rightarrow> dict_get_none d ''url'' | v \<Rightarrow> v)"

fun anthropic_blocks :: "json list \<Rightarrow> json list" where
  "anthropic_blocks [] = []"
| "anthropic_blocks (JObj block # bs) =
     (let typ = dict_get_none block ''type'' in
      if typ = JStr ''text''
      then JObj [(''type'', JStr ''text''), (''text'', py_or (dict_get_none block ''text'') (JStr []))] # anthropic_blocks bs
      else if typ = JStr ''image_url''
      then (case image_url_source (image_url_of block) of
              None \<Rightarrow> anthropic_blocks bs
            | Some source \<Rightarrow> JObj [(''type'', JStr ''image''), (''source'', source)] # anthropic_blocks bs)
      else JObj block # anthropic_blocks bs)"
| "anthropic_blocks (_ # bs) = anthropic_blocks bs"

definition content_to_anthropic :: "json \<Rightarrow> json" where
  \<comment> \<open>\<open>_openai_content_to_anthropic\<close> of the adapter\<close>
  "content_to_anthropic content =
     (case content of
        JStr s \<Rightarrow> JStr s
      | JList xs \<Rightarrow> py_or (JList (anthropic_blocks xs)) (JStr [])
      | _ \<Rightarrow> JStr [])"

fun split_anthropic :: "json list \<Rightarrow> py_error + string list \<times> json list" where
  \<comment> \<open>the system texts and the other messages\<close>
  "split_anthropic [] = Inr ([], [])"
| "split_anthropic (m # ms) =
     bind_result (need_obj m) (\<lambda>d.
     bind_result (split_anthropic ms) (\<lambda>(sys, out).
       let role = dict_get_none d ''role''; content = dict_get_none d ''content'' in
       if role = JStr ''system'' then Inr ((case content of JStr s \<Rightarrow> s # sys | _ \<Rightarrow> sys), out)
       else if role \<noteq> JStr ''user'' \<and> role \<noteq> JStr ''assistant'' then Inr (sys, out)
       else Inr (sys, JObj [(''role'', role), (''content'', content_to_anthropic content)] # out)))"

definition to_anthropic :: "dict \<Rightarrow> py_error + dict" where
  "to_anthropic payload =
     bind_result (iter_json (py_or (dict_get_none payload ''messages'') (JList []))) (\<lambda>msgs.
     bind_result (split_anthropic msgs) (\<lambda>(sys, out).
       let body0 = [(''messages'', JList out), (''max_tokens'', openai_chat_token_limit (JObj payload) (JInt 1024))];
           body1 = (if sys \<noteq> [] then dict_set body0 ''system'' (JStr (py_join event_separator sys)) else body0);
           body2 = copy_present payload (map (\<lambda>k. (k, k)) [''temperature'', ''top_p'', ''top_k'', ''stop_sequences'']) body1
       in Inr (if dict_has payload ''stop'' \<and> \<not> dict_has body2 ''stop_sequences''
               then dict_set body2 ''stop_sequences'' (stop_list (dict_get_none payload ''stop'')) else body2)))"

fun answer_text :: "json list \<Rightarrow> py_error + string" where
  "answer_text [] = Inr []"
| "answer_text (b # bs) =
     bind_result (need_obj b) (\<lambda>block.
     bind_result (if dict_get_none block ''type'' = JStr ''text'' then cat_text (dict_get_default block ''text'' (JStr []))
                  else Inr []) (\<lambda>t.
     bind_result (answer_text bs) (\<lambda>r. Inr (t @ r))))"

definition anthropic_resp_to_openai :: "http_env \<Rightarrow> string \<Rightarrow> json \<Rightarrow> py_error + json" where
  "anthropic_resp_to_openai env um data =
     bind_result (need_obj data) (\<lambda>resp.
     bind_result (iter_json (py_or (dict_get_default resp ''content'' (JList [])) (JList []))) (\<lambda>blocks.
     bind_result (answer_text blocks) (\<lambda>text.
     bind_result (need_obj (py_or (dict_get_none resp ''usage'') (JObj []))) (\<lambda>us.
     bind_result (usage_json (dict_get_default us ''input_tokens'' (JInt 0))
                    (dict_get_default us ''output_tokens'' (JInt 0))) (\<lambda>usage.
       Inr (completion_json (py_or (dict_get_none resp ''id'') (JStr (''chatcmpl-'' @ hx_id env))) (hx_time env) um text
              (py_or (dict_get_none resp ''stop_reason'') (JStr ''stop'')) usage))))))"

definition anthropic_headers :: "http_env \<Rightarrow> channel \<Rightarrow> (string \<times> string) list" where
  "anthropic_headers env c = [(''Content-Type'', ''application/json''),
     (''x-api-key'', or_text (decrypt (hx_crypto env) (ch_api_key_enc c)) []),
     (''anthropic-version'', ''2023-06-01'')]"

definition anthropic_url :: "channel \<Rightarrow> string" where
  "anthropic_url c = openai_url c ''/messages''"

definition anthropic_start :: "dict \<Rightarrow> counts \<Rightarrow> py_error + counts" where
  "anthropic_start ev cts =
     bind_result (need_obj (py_or (dict_get_none ev ''message'') (JObj []))) (\<lambda>msg.
     bind_result (need_obj (py_or (dict_get_none msg ''usage'') (JObj []))) (\<lambda>us.
       Inr (dict_get_default us ''input_tokens'' (JInt 0), snd cts)))"

definition anthropic_delta :: "http_env \<Rightarrow> string \<Rightarrow> dict \<Rightarrow> py_error + stream_item list" where
  "anthropic_delta env um ev =
     bind_result (need_obj (py_or (dict_get_none ev ''delta'') (JObj []))) (\<lambda>delta.
       Inr (if dict_get_none delta ''type'' = JStr ''text_delta''
            then [chunk_item (provider_chunk env um (JObj [(''content'', dict_get_default delta ''text'' (JStr []))]) JNull)]
            else []))"

definition anthropic_usage :: "dict \<Rightarrow> counts \<Rightarrow> py_error + counts" where
  "anthropic_usage ev cts =
     bind_result (need_obj (py_or (dict_get_none ev ''usage'') (JObj []))) (\<lambda>us.
       Inr (fst cts, dict_get_default us ''output_tokens'' (snd cts)))"

definition anthropic_event :: "http_env \<Rightarrow> string \<Rightarrow> json \<Rightarrow> counts \<Rightarrow> stream_item list \<times> counts option" where
  "anthropic_event env um v cts =
     (case v of
        JObj ev \<Rightarrow>
          (let t = dict_get_none ev ''type'' in
           if t = JStr ''message_start'' then updating (anthropic_start ev cts)
           else if t = JStr ''content_block_delta'' then yielding cts (anthropic_delta env um ev)
           else if t = JStr ''message_delta'' then updating (anthropic_usage ev cts)
           else if t = JStr ''message_stop'' then yielding cts (final_items env um cts)
           else ([], Some cts))
      | _ \<Rightarrow> ([], None))"

definition anthropic_gen ::
    "http_env \<Rightarrow> channel \<Rightarrow> string \<Rightarrow> dict \<Rightarrow> provider_state \<Rightarrow> provider_state \<times> string list \<times> bool" where
  \<comment> \<open>the status of the response is not looked at\<close>
  "anthropic_gen env c um body st =
     (count_call st,
      case hx_stream env (ps_calls st) (anthropic_url c) (anthropic_headers env c) body of
        Inl e \<Rightarrow> ([], False)
      | Inr (status, chunks, ends) \<Rightarrow>
          (case run_events (anthropic_event env um) (text_events (hx_loads env) [] chunks) (JInt 0, JInt 0) of
             (is, r) \<Rightarrow> (map (print_item (hx_float env)) is, ends \<and> r \<noteq> None)))"

definition anthropic_adapter_chat ::
    "http_env \<Rightarrow> channel \<Rightarrow> string \<Rightarrow> dict \<Rightarrow> bool \<Rightarrow> provider_state \<Rightarrow> provider_state \<times> (string + provider_result)" where
  "anthropic_adapter_chat env c um payload stream st =
     (case to_anthropic payload of
        Inl e \<Rightarrow> (st, Inl (hx_error env e))
      | Inr body0 \<Rightarrow>
          (let body = dict_set (dict_set body0 ''model'' (JStr um)) ''stream'' (JBool stream) in
           if stream
           then (case anthropic_gen env c um body st of (st', g) \<Rightarrow> (st', Inr (stream_result g)))
           else translated_answer env (anthropic_resp_to_openai env um) (anthropic_url c) (anthropic_headers env c) body st))"

definition anthropic_adapter_embeddings :: "int \<times> json" where
  "anthropic_adapter_embeddings = (501, error_body ''Anthropic does not provide embeddings'')"

definition anthropic_adapter_images :: "int \<times> json" where
  "anthropic_adapter_images = (501, error_body ''Anthropic does not provide image generation'')"

section \<open>Gemini\<close>

fun part_texts :: "json list \<Rightarrow> py_error + string list" where
  \<comment> \<open>\<open>p.get("text", "") for p in content if isinstance(p, dict)\<close>; \<open>join\<close> raises on what is no text\<close>
  "part_texts [] = Inr []"
| "part_texts (JObj p # ps) =
     bind_result (cat_text (dict_get_default p ''text'' (JStr []))) (\<lambda>t.
     bind_result (part_texts ps) (\<lambda>ts. Inr (t # ts)))"
| "part_texts (_ # ps) = part_texts ps"

definition gemini_text :: "json \<Rightarrow> py_error + string" where
  "gemini_text content =
     (case content of
        JStr s \<Rightarrow> Inr s
      | _ \<Rightarrow> bind_result (iter_json content) (\<lambda>ps. bind_result (part_texts ps) (\<lambda>ts. Inr (concat ts))))"

definition text_parts_json :: "string \<Rightarrow> json" where
  "text_parts_json t = JList [JObj [(''text'', JStr t)]]"

fun gemini_contents :: "json list \<Rightarrow> py_error + string list \<times> json list" where
  "gemini_contents [] = Inr ([], [])"
| "gemini_contents (m # ms) =
     bind_result (need_obj m) (\<lambda>d.
     bind_result (gemini_text (dict_get_none d ''content'')) (\<lambda>t.
     bind_result (gemini_contents ms) (\<lambda>(sys, out).
       let role = dict_get_none d ''role'' in
       if role = JStr ''system'' then Inr (t # sys, out)
       else Inr (sys, JObj [(''role'', JStr (if role = JStr ''user'' then ''user'' else ''model'')),
                            (''parts'', text_parts_json t)] # out))))"

definition gemini_config :: "dict \<Rightarrow> dict" where
  "gemini_config payload =
     (let cfg1 = copy_present payload [(''temperature'', ''temperature''), (''top_p'', ''topP'')] [];
          lim = openai_chat_token_limit (JObj payload) JNull;
          cfg2 = (if lim \<noteq> JNull then dict_set cfg1 ''maxOutputTokens'' lim else cfg1)
      in if dict_has payload ''stop'' then dict_set cfg2 ''stopSequences'' (stop_list (dict_get_none payload ''stop''))
         else cfg2)"

definition to_gemini :: "dict \<Rightarrow> py_error + dict" where
  "to_gemini payload =
     bind_result (iter_json (py_or (dict_get_none payload ''messages'') (JList []))) (\<lambda>msgs.
     bind_result (gemini_contents msgs) (\<lambda>(sys, out).
       let body0 = [(''contents'', JList out)];
           body1 = (if sys \<noteq> []
                    then dict_set body0 ''systemInstruction'' (JObj [(''parts'', text_parts_json (py_join event_separator sys))])
                    else body0)
       in Inr (if gemini_config payload \<noteq> [] then dict_set body1 ''generationConfig'' (JObj (gemini_config payload))
               else body1)))"

definition text_in_part :: "json \<Rightarrow> py_error + json option" where
  \<comment> \<open>\<open>part["text"]\<close> if \<open>"text" in part\<close>; a text or list that contains it cannot be indexed by it\<close>
  "text_in_part part =
     (case part of
        JObj d \<Rightarrow> Inr (dict_get d ''text'')
      | JStr s \<Rightarrow> if py_contains s ''text'' then Inl TypeError else Inr None
      | JList xs \<Rightarrow> if JStr ''text'' \<in> set xs then Inl TypeError else Inr None
      | _ \<Rightarrow> Inl TypeError)"

definition candidate_parts :: "dict \<Rightarrow> py_error + json list" where
  "candidate_parts cand =
     bind_result (need_obj (py_or (dict_get_none cand ''content'') (JObj []))) (\<lambda>content.
       iter_json (py_or (dict_get_none content ''parts'') (JList [])))"

fun parts_text :: "json list \<Rightarrow> py_error + string" where
  "parts_text [] = Inr []"
| "parts_text (part # ps) =
     bind_result (text_in_part part) (\<lambda>x.
     bind_result (case x of None \<Rightarrow> Inr [] | Some v \<Rightarrow> cat_text v) (\<lambda>t.
     bind_result (parts_text ps) (\<lambda>r. Inr (t @ r))))"

fun gemini_candidates :: "json list \<Rightarrow> string \<Rightarrow> py_error + string \<times> string" where
  \<comment> \<open>the text of all candidates and the last finish reason\<close>
  "gemini_candidates [] fin = Inr ([], fin)"
| "gemini_candidates (c # cs) fin =
     bind_result (need_obj c) (\<lambda>cand.
     bind_result (candidate_parts cand) (\<lambda>ps.
     bind_result (parts_text ps) (\<lambda>t.
     bind_result (case dict_get_none cand ''finishReason'' of
                    JStr s \<Rightarrow> Inr (if s = [] then fin else py_lower s)
                  | v \<Rightarrow> if truthy v then Inl AttributeError else Inr fin) (\<lambda>fin'.
     bind_result (gemini_candidates cs fin') (\<lambda>(r, fin''). Inr (t @ r, fin''))))))"

definition gemini_resp_to_openai :: "http_env \<Rightarrow> string \<Rightarrow> json \<Rightarrow> py_error + json" where
  "gemini_resp_to_openai env um data =
     bind_result (need_obj data) (\<lambda>resp.
     bind_result (iter_json (py_or (dict_get_none resp ''candidates'') (JList []))) (\<lambda>cands.
     bind_result (gemini_candidates cands ''stop'') (\<lambda>(text, fin).
     bind_result (need_obj (py_or (dict_get_none resp ''usageMetadata'') (JObj []))) (\<lambda>us.
     bind_result (usage_json (dict_get_default us ''promptTokenCount'' (JInt 0))
                    (dict_get_default us ''candidatesTokenCount'' (JInt 0))) (\<lambda>usage.
       Inr (completion_json (JStr (''chatcmpl-'' @ hx_id env)) (hx_time env) um text (JStr fin) usage))))))"

definition gemini_url :: "http_env \<Rightarrow> channel \<Rightarrow> string \<Rightarrow> string \<Rightarrow> string" where
  "gemini_url env c um action =
     (let base = py_rstrip_chr (CHR ''/'') (ch_base_url c);
          base1 = (if py_contains base ''/v1'' then base else base @ ''/v1beta'')
      in base1 @ ''/models/'' @ um @ '':'' @ action @ ''?key='' @ or_text (decrypt (hx_crypto env) (ch_api_key_enc c)) [])"

definition json_header :: "(string \<times> string) list" where
  "json_header = [(''Content-Type'', ''application/json'')]"

fun gemini_part_items :: "http_env \<Rightarrow> string \<Rightarrow> json list \<Rightarrow> stream_item list \<times> unit option" where
  \<comment> \<open>the chunks of the parts of one candidate, up to one that raises\<close>
  "gemini_part_items env um [] = ([], Some ())"
| "gemini_part_items env um (part # ps) =
     (case text_in_part part of
        Inl e \<Rightarrow> ([], None)
      | Inr None \<Rightarrow> gemini_part_items env um ps
      | Inr (Some v) \<Rightarrow>
          (case gemini_part_items env um ps of
             (is, r) \<Rightarrow> (chunk_item (provider_chunk env um (JObj [(''content'', v)]) JNull) # is, r)))"

definition gemini_candidate_items :: "http_env \<Rightarrow> string \<Rightarrow> json \<Rightarrow> unit \<Rightarrow> stream_item list \<times> unit option" where
  "gemini_candidate_items env um c u =
     (case bind_result (need_obj c) candidate_parts of
        Inl e \<Rightarrow> ([], None)
      | Inr ps \<Rightarrow> gemini_part_items env um ps)"

definition gemini_usage :: "dict \<Rightarrow> counts \<Rightarrow> py_error + counts" where
  "gemini_usage ev cts =
     (let u = dict_get_none ev ''usageMetadata'' in
      if \<not> truthy u then Inr cts
      else bind_result (need_obj u) (\<lambda>us.
             Inr (dict_get_default us ''promptTokenCount'' (fst cts), dict_get_default us ''candidatesTokenCount'' (snd cts))))"

definition gemini_event :: "http_env \<Rightarrow> string \<Rightarrow> json \<Rightarrow> counts \<Rightarrow> stream_item list \<times> counts option" where
  "gemini_event env um v cts =
     (case v of
        JObj ev \<Rightarrow>
          (case iter_json (py_or (dict_get_none ev ''candidates'') (JList [])) of
             Inl e \<Rightarrow> ([], None)
           | Inr cands \<Rightarrow>
               (case run_events (gemini_candidate_items env um) cands () of
                  (is, None) \<Rightarrow> (is, None)
                | (is, Some _) \<Rightarrow>
                    (case gemini_usage ev cts of Inl e \<Rightarrow> (is, None) | Inr cts' \<Rightarrow> (is, Some cts'))))
      | _ \<Rightarrow> ([], None))"

definition gemini_items :: "http_env \<Rightarrow> string \<Rightarrow> json list \<Rightarrow> bool \<Rightarrow> stream_item list \<times> bool" where
  \<comment> \<open>the items of the whole stream, the final ones after its end, and whether it ends well\<close>
  "gemini_items env um evs ends =
     (case run_events (gemini_event env um) evs (JInt 0, JInt 0) of
        (is, None) \<Rightarrow> (is, False)
      | (is, Some cts) \<Rightarrow>
          if \<not> ends then (is, False)
          else (case final_items env um cts of Inl e \<Rightarrow> (is, False) | Inr fs \<Rightarrow> (is @ fs, True)))"

definition gemini_gen ::
    "http_env \<Rightarrow> channel \<Rightarrow> string \<Rightarrow> dict \<Rightarrow> provider_state \<Rightarrow> provider_state \<times> string list \<times> bool" where
  "gemini_gen env c um body st =
     (count_call st,
      case hx_stream env (ps_calls st) (gemini_url env c um ''streamGenerateContent'' @ ''&alt=sse'') json_header body of
        Inl e \<Rightarrow> ([], False)
      | Inr (status, chunks, ends) \<Rightarrow>
          (case gemini_items env um (text_events (hx_loads env) [] chunks) ends of
             (is, ok) \<Rightarrow> (map (print_item (hx_float env)) is, ok)))"

definition gemini_adapter_chat ::
    "http_env \<Rightarrow> channel \<Rightarrow> string \<Rightarrow> dict \<Rightarrow> bool \<Rightarrow> provider_state \<Rightarrow> provider_state \<times> (string + provider_result)" where
  "gemini_adapter_chat env c um payload stream st =
     (case to_gemini payload of
        Inl e \<Rightarrow> (st, Inl (hx_error env e))
      | Inr body \<Rightarrow>
          if stream
          then (case gemini_gen env c um body st of (st', g) \<Rightarrow> (st', Inr (stream_result g)))
          else translated_answer env (gemini_resp_to_openai env um) (gemini_url env c um ''generateContent'') json_header
                 body st)"

fun embedding_rows :: "nat \<Rightarrow> json list \<Rightarrow> py_error + json list" where
  "embedding_rows i [] = Inr []"
| "embedding_rows i (e # es) =
     bind_result (need_obj e) (\<lambda>d.
     bind_result (embedding_rows (Suc i) es) (\<lambda>rows.
       Inr (JObj [(''object'', JStr ''embedding''), (''index'', JInt (int i)),
                  (''embedding'', dict_get_default d ''values'' (JList []))] # rows)))"

definition gemini_embedding_answer :: "http_env \<Rightarrow> string \<Rightarrow> http_response \<Rightarrow> string + int \<times> json" where
  "gemini_embedding_answer env um r =
     (case hr_json r of
        None \<Rightarrow> Inr (hr_status r, error_body (hr_text r))
      | Some data \<Rightarrow>
          if hr_status r \<noteq> 200 then Inr (hr_status r, data)
          else raised env (
            bind_result (need_obj data) (\<lambda>d.
            bind_result (iter_json (py_or (dict_get_none d ''embeddings'') (JList []))) (\<lambda>es.
            bind_result (embedding_rows 0 es) (\<lambda>rows.
              Inr (200, JObj [(''object'', JStr ''list''), (''data'', JList rows), (''model'', JStr um),
                     (''usage'', JObj [(''prompt_tokens'', JInt 0), (''total_tokens'', JInt 0)])]))))))"

definition gemini_embedding_body :: "string \<Rightarrow> json list \<Rightarrow> dict" where
  "gemini_embedding_body um inputs = [(''requests'', JList (map (\<lambda>t. JObj
     [(''model'', JStr (''models/'' @ um)),
      (''content'', JObj [(''parts'', JList [JObj [(''text'', t)]])])]) inputs))]"

definition gemini_adapter_embeddings ::
    "http_env \<Rightarrow> channel \<Rightarrow> string \<Rightarrow> dict \<Rightarrow> provider_state \<Rightarrow> provider_state \<times> (string + int \<times> json)" where
  "gemini_adapter_embeddings env c um payload st =
     (let v = dict_get_none payload ''input''; inputs = (case v of JStr s \<Rightarrow> JList [v] | _ \<Rightarrow> v) in
      if \<not> truthy inputs then (st, Inr (400, error_body ''missing input''))
      else case iter_json inputs of
        Inl e \<Rightarrow> (st, Inl (hx_error env e))
      | Inr ts \<Rightarrow>
          (count_call st,
           case hx_post env (ps_calls st) (gemini_url env c um ''batchEmbedContents'') json_header
                  (gemini_embedding_body um ts) of
             Inl e \<Rightarrow> Inl (exception_text e)
           | Inr r \<Rightarrow> gemini_embedding_answer env um r))"

definition gemini_adapter_images :: "int \<times> json" where
  "gemini_adapter_images = (501, error_body ''Gemini image generation not yet supported'')"

section \<open>Dispatch\<close>

definition provider_chat ::
    "http_env \<Rightarrow> string \<Rightarrow> channel \<Rightarrow> string \<Rightarrow> dict \<Rightarrow> bool \<Rightarrow> provider_state \<Rightarrow> provider_state \<times> (string + provider_result)" where
  \<comment> \<open>\<open>adapter.chat\<close> of the adapter a connector has in the registry\<close>
  "provider_chat env adapter c um payload stream st =
     (if adapter = ''azure_openai'' then azure_adapter_chat env c um payload stream st
      else if adapter = ''anthropic'' then anthropic_adapter_chat env c um payload stream st
      else if adapter = ''gemini'' then gemini_adapter_chat env c um payload stream st
      else openai_adapter_chat env c um payload stream st)"

definition run_provider ::
    "http_env \<Rightarrow> string \<Rightarrow> bool \<Rightarrow> channel \<Rightarrow> string \<Rightarrow> dict \<Rightarrow> bool \<Rightarrow> provider_state
       \<Rightarrow> provider_state \<times> (string + provider_result)" where
  \<comment> \<open>\<open>run_chat\<close> of the registry, once it has decided between the two methods\<close>
  "run_provider env adapter via_responses c um payload stream st =
     (if via_responses \<and> adapter = ''openai'' then openai_adapter_responses env c um payload stream st
      else if via_responses \<and> adapter = ''azure_openai'' then azure_adapter_responses env c um payload stream st
      else provider_chat env adapter c um payload stream st)"

definition provider_embeddings ::
    "http_env \<Rightarrow> string \<Rightarrow> channel \<Rightarrow> string \<Rightarrow> dict \<Rightarrow> provider_state \<Rightarrow> provider_state \<times> (string + int \<times> json)" where
  "provider_embeddings env adapter c um payload st =
     (if adapter = ''azure_openai'' then azure_adapter_embeddings env c um payload st
      else if adapter = ''anthropic'' then (st, Inr anthropic_adapter_embeddings)
      else if adapter = ''gemini'' then gemini_adapter_embeddings env c um payload st
      else openai_adapter_embeddings env c um payload st)"

definition provider_images ::
    "http_env \<Rightarrow> string \<Rightarrow> channel \<Rightarrow> string \<Rightarrow> dict \<Rightarrow> provider_state \<Rightarrow> provider_state \<times> int \<times> json" where
  \<comment> \<open>the adapters of the image registry\<close>
  "provider_images env adapter c um payload st =
     (if adapter = ''azure_openai'' then azure_adapter_images env c um payload st
      else if adapter = ''gemini'' then (st, gemini_adapter_images)
      else openai_adapter_images env c um payload st)"

end
