(* ===== verification/Adapter_Laws.thy ===== *)
theory Adapter_Laws
  imports Foreign_Adapters Messages_Laws Catalog_Laws
begin

text \<open>
  What the adapters promise the relay. A streamed call returns before its request is sent, so the
  relay sees a good answer whatever the upstream does; a token limit the upstream refuses under one
  name is sent under the other and remembered; and the counts the relay reads from a translated
  stream are the last ones the upstream reported.
\<close>

section \<open>Streamed calls\<close>

text \<open>
  The contract of a method the relay calls with \<open>stream=True\<close>: on a payload it can convert it
  answers 200 with a stream.
\<close>

definition relay_result :: "provider_result \<Rightarrow> chat_result" where
  "relay_result r = \<lparr>cr_status = pr_status r, cr_body = pr_body r, cr_stream = pr_stream r,
     cr_prompt_tokens = as_int (pr_prompt_tokens r), cr_completion_tokens = as_int (pr_completion_tokens r)\<rparr>"

definition good_stream :: "provider_result \<Rightarrow> bool" where
  "good_stream r \<longleftrightarrow> pr_status r = 200 \<and> pr_stream r \<noteq> None"

lemma stream_result_good [simp]: "good_stream (stream_result g)"
  by (simp add: good_stream_def stream_result_def)

locale streaming_method =
  fixes call :: "channel \<Rightarrow> string \<Rightarrow> dict \<Rightarrow> bool \<Rightarrow> provider_state \<Rightarrow> provider_state \<times> (string + provider_result)"
    and converts :: "dict \<Rightarrow> bool"
  assumes streams: "converts payload \<Longrightarrow> \<exists>r. snd (call c um payload True st) = Inr r \<and> good_stream r"
begin

lemma taken:
  assumes "converts payload"
  shows "\<exists>r. snd (call c um payload True st) = Inr r \<and> chat_ok True (relay_result r)"
  using streams [OF assms, of c um st] by (auto simp: good_stream_def chat_ok_def relay_result_def)

end

definition returns :: "'e + 'a \<Rightarrow> bool" where
  "returns r \<longleftrightarrow> (case r of Inl _ \<Rightarrow> False | Inr _ \<Rightarrow> True)"

lemma returnsE: "returns r \<Longrightarrow> (\<And>a. r = Inr a \<Longrightarrow> P) \<Longrightarrow> P"
  by (cases r) (auto simp: returns_def)

definition options_convert :: "http_env \<Rightarrow> dict \<Rightarrow> bool" where
  "options_convert env payload \<longleftrightarrow>
     returns (py_dict (spaced_dumps (hx_float env)) (py_or (dict_get_none payload ''stream_options'') (JObj [])))"

lemma move_field_other: "k \<noteq> src \<Longrightarrow> k \<noteq> dst \<Longrightarrow> dict_get (move_field src dst body) k = dict_get body k"
  by (simp add: move_field_def Let_def dict_get_set dict_get_pop)

lemma normalized_other:
  "k \<noteq> max_tokens_field \<Longrightarrow> k \<noteq> max_completion_tokens_field
    \<Longrightarrow> dict_get (normalize_chat_payload_for_protocol payload force pref) k = dict_get payload k"
  by (simp add: normalize_chat_payload_for_protocol_def move_field_other Let_def)

definition keeps_options :: "endpoint \<Rightarrow> bool" where
  "keeps_options ep \<longleftrightarrow> (\<forall>body. dict_get (ep_model ep body) ''stream_options'' = dict_get body ''stream_options'')"

lemma endpoints_keep [simp]: "keeps_options (openai_endpoint env c um)" "keeps_options (azure_endpoint env c um)"
  by (simp_all add: keeps_options_def openai_endpoint_def azure_endpoint_def dict_get_set dict_get_pop)

lemma chat_body_streams:
  assumes "options_convert env payload" and "keeps_options ep"
  shows "returns (chat_body env ep payload True pref)"
proof -
  let ?b = "dict_set (ep_model ep (normalize_chat_payload_for_protocol payload False pref)) ''stream'' (JBool True)"
  have "dict_get_none ?b ''stream_options'' = dict_get_none payload ''stream_options''"
    using assms(2) normalized_other [of "''stream_options''" payload False pref]
    by (simp add: dict_get_none_def dict_get_set keeps_options_def)
  with assms(1) show ?thesis
    by (auto simp: options_convert_def returns_def chat_body_def with_stream_def Let_def split: sum.splits)
qed

lemma compat_chat_streams:
  assumes "options_convert env payload" and "keeps_options ep"
  shows "\<exists>r. snd (compat_chat env ep c um payload True st) = Inr r \<and> good_stream r"
  using chat_body_streams [OF assms, of "preferred_token_field (ep_adapter ep) c um st"]
  by (auto elim!: returnsE simp: compat_chat_def split: prod.splits)

interpretation openai: streaming_method "openai_adapter_chat env" "options_convert env"
  by unfold_locales (simp add: openai_adapter_chat_def compat_chat_streams)

interpretation azure: streaming_method "azure_adapter_chat env" "options_convert env"
  by unfold_locales (simp add: azure_adapter_chat_def compat_chat_streams)

interpretation openai_resp: streaming_method "openai_adapter_responses env"
    "\<lambda>payload. returns (openai_chat_to_responses_payload (hx_repr env) payload)"
  by unfold_locales
    (auto elim!: returnsE simp: openai_adapter_responses_def responses_body_def split: prod.splits)

interpretation azure_resp: streaming_method "azure_adapter_responses env"
    "\<lambda>payload. returns (openai_chat_to_responses_payload (hx_repr env) payload)"
  by unfold_locales
    (auto elim!: returnsE simp: azure_adapter_responses_def responses_body_def split: prod.splits)

interpretation anthropic: streaming_method "anthropic_adapter_chat env" "\<lambda>payload. returns (to_anthropic payload)"
  by unfold_locales (auto elim!: returnsE simp: anthropic_adapter_chat_def Let_def split: prod.splits)

interpretation gemini: streaming_method "gemini_adapter_chat env" "\<lambda>payload. returns (to_gemini payload)"
  by unfold_locales (auto elim!: returnsE simp: gemini_adapter_chat_def split: prod.splits)

definition convertible :: "http_env \<Rightarrow> dict \<Rightarrow> bool" where
  \<comment> \<open>every adapter can write its request\<close>
  "convertible env payload \<longleftrightarrow> options_convert env payload
     \<and> returns (openai_chat_to_responses_payload (hx_repr env) payload)
     \<and> returns (to_anthropic payload) \<and> returns (to_gemini payload)"

lemma run_provider_streams:
  assumes "convertible env payload"
  shows "\<exists>r. snd (run_provider env adapter via c um payload True st) = Inr r \<and> chat_ok True (relay_result r)"
  using assms
  by (simp add: run_provider_def provider_chat_def convertible_def openai.taken azure.taken openai_resp.taken
      azure_resp.taken anthropic.taken gemini.taken)

definition streamed_calls :: "http_env \<Rightarrow> (nat \<Rightarrow> provider_state) \<Rightarrow> relay_env \<Rightarrow> relay_env" where
  \<comment> \<open>the relay whose streamed calls are the adapters', each in the state it is made in\<close>
  "streamed_calls henv hist env = env\<lparr>rl_chat := (\<lambda>n adapter via c um payload stream.
     if \<not> stream then rl_chat env n adapter via c um payload stream
     else case snd (run_provider henv adapter via c um payload True (hist n)) of
       Inl e \<Rightarrow> Inl e | Inr r \<Rightarrow> Inr (relay_result r))\<rparr>"

definition via_responses :: "string \<Rightarrow> string \<Rightarrow> bool" where
  "via_responses adapter protocol \<longleftrightarrow> normalize_plain (Some protocol) = openai_responses \<and> has_responses_from_chat adapter"

lemma streamed_first:
  assumes "candidate_adapter m c = Inr (adapter, protocol)"
    and "snd (run_provider henv adapter (via_responses adapter protocol) c (md_upstream_model m) payload True (hist n)) = Inr r"
    and "chat_ok True (relay_result r)"
  shows "chat_loop (streamed_calls henv hist env) n payload True ((m, c) # cands) e = Inr (m, relay_result r)"
  using assms by (simp add: run_chat_def streamed_calls_def via_responses_def)

text \<open>
  Claim C21. A streamed request never reaches its fallback candidates: the first candidate whose
  connector has an adapter is taken, whatever status the upstream answers with and even when it
  cannot be connected to, because the adapters return the stream before they send the request. Only a
  payload that an adapter cannot convert moves the loop on.
\<close>

theorem streamed_never_fails_over:
  assumes "convertible henv payload" and "candidate_adapter m c = Inr (adapter, protocol)"
  shows "\<exists>r. chat_loop (streamed_calls henv hist env) n payload True ((m, c) # cands) e = Inr (m, relay_result r)
    \<and> snd (run_provider henv adapter (via_responses adapter protocol) c (md_upstream_model m) payload True (hist n)) = Inr r"
proof -
  obtain r where "snd (run_provider henv adapter (via_responses adapter protocol) c (md_upstream_model m) payload True (hist n)) = Inr r"
    and "chat_ok True (relay_result r)" using run_provider_streams [OF assms(1)] by blast
  with streamed_first [where hist = hist and n = n, OF assms(2) this] show ?thesis by blast
qed

section \<open>Errors of a streamed Anthropic request\<close>

lemma contains_prefix: "py_contains s p \<Longrightarrow> py_contains (s @ t) p"
proof (induction s)
  case Nil
  then show ?case by (cases t) (auto simp: py_startswith_def)
next
  case (Cons a s)
  have "py_startswith (a # s) p \<Longrightarrow> py_startswith ((a # s) @ t) p"
    unfolding py_startswith_def using append_take_drop_id [of "length p" "a # s"] by (metis length_take min.cobounded1 take_append take_all_iff append_Nil2 diff_is_0_eq take_eq_Nil min_def)
  with Cons show ?case by auto
qed

lemma split_on_no_sep: "\<not> py_contains s sep \<Longrightarrow> split_on sep cur s = [rev cur @ s]"
  by (induction sep cur s rule: split_on.induct) auto

lemma text_events_unfinished:
  "\<not> py_contains (buf @ concat chs) event_separator \<Longrightarrow> text_events loads buf chs = []"
proof (induction chs arbitrary: buf)
  case (Cons ch chs)
  have "\<not> py_contains (buf @ ch) event_separator"
    using Cons.prems contains_prefix [of "buf @ ch" event_separator "concat chs"] by auto
  with Cons show ?case by (simp add: py_split_def split_on_no_sep)
qed simp

text \<open>
  An error of the Anthropic API on a streamed request is lost: the adapter does not look at
  the status, and an error body holds no event, so the relay takes the candidate and sees a stream
  that ends well with no chunks, whatever the status and the body.
\<close>

theorem anthropic_stream_error_lost:
  assumes "to_anthropic payload = Inr body0" and "candidate_adapter m c = Inr (''anthropic'', protocol)"
    and "hx_stream henv (ps_calls (hist n)) (anthropic_url c) (anthropic_headers henv c)
           (dict_set (dict_set body0 ''model'' (JStr (md_upstream_model m))) ''stream'' (JBool True)) = Inr (status, chunks, True)"
    and "\<not> py_contains (concat chunks) event_separator"
  shows "\<exists>r. chat_loop (streamed_calls henv hist env) n payload True ((m, c) # cands) e = Inr (m, r)
    \<and> cr_status r = 200 \<and> cr_stream r = Some ([], True)"
proof -
  have "text_events (hx_loads henv) [] chunks = []" using assms(4) text_events_unfinished [of "[]"] by simp
  then have "snd (run_provider henv ''anthropic'' (via_responses ''anthropic'' protocol) c (md_upstream_model m) payload True (hist n))
      = Inr (stream_result ([], True))"
    using assms(1,3) by (simp add: run_provider_def provider_chat_def anthropic_adapter_chat_def anthropic_gen_def)
  moreover have "chat_ok True (relay_result (stream_result ([], True)))"
    by (simp add: chat_ok_def relay_result_def stream_result_def)
  ultimately have "chat_loop (streamed_calls henv hist env) n payload True ((m, c) # cands) e
      = Inr (m, relay_result (stream_result ([], True)))"
    by (rule streamed_first [where hist = hist and n = n, OF assms(2)])
  then show ?thesis by (simp add: relay_result_def stream_result_def)
qed

section \<open>Token limits\<close>

lemma compat_post:
  assumes "chat_body env ep payload False (preferred_token_field (ep_adapter ep) c um st) = Inr body"
    and "hx_post env (ps_calls st) (ep_url ep) (ep_headers ep) body = Inr r"
    and "hr_status r = 400" and "retry_field env payload (response_data r) = Some field"
    and "chat_body env ep payload False (Some field) = Inr body2"
  shows "compat_chat env ep c um payload False st
    = post_chat env ep body2 (remember_token_field (ep_adapter ep) c um field (count_call st))"
  using assms by (simp add: compat_chat_def compat_chat_json_def)

lemma chat_body_json: "chat_body env ep payload False pref
    = Inr (dict_set (ep_model ep (normalize_chat_payload_for_protocol payload False pref)) ''stream'' (JBool False))"
  by (simp add: chat_body_def with_stream_def)

lemma retry_field_cases:
  "retry_field env payload data = Some field \<Longrightarrow>
     (field = max_completion_tokens_field \<and> dict_has payload max_tokens_field \<and> \<not> dict_has payload max_completion_tokens_field)
   \<or> (field = max_tokens_field \<and> dict_has payload max_completion_tokens_field \<and> \<not> dict_has payload max_tokens_field)"
  by (auto simp: retry_field_def should_retry_with_max_completion_tokens_def should_retry_with_max_tokens_def
      split: if_splits)

lemma normalized_limit:
  assumes "field = max_completion_tokens_field \<and> other = max_tokens_field \<or> field = max_tokens_field \<and> other = max_completion_tokens_field"
    and "dict_has payload other" and "\<not> dict_has payload field"
  shows "dict_get (normalize_chat_payload_for_protocol payload False (Some field)) other = None"
    and "openai_chat_token_limit (JObj (normalize_chat_payload_for_protocol payload False (Some field))) JNull
      = openai_chat_token_limit (JObj payload) JNull"
  using assms
  by (auto simp: normalize_chat_payload_for_protocol_def move_field_def Let_def dict_get_set dict_get_pop dict_has_def
      openai_chat_token_limit_def dict_get_none_def split: option.splits)

lemma limit_frame:
  "(\<And>k. k \<in> {max_tokens_field, max_completion_tokens_field} \<Longrightarrow> dict_get b k = dict_get a k)
    \<Longrightarrow> openai_chat_token_limit (JObj b) d = openai_chat_token_limit (JObj a) d"
  by (simp add: openai_chat_token_limit_def dict_get_none_def)

lemma endpoint_frame:
  assumes "ep \<in> {openai_endpoint env c um, azure_endpoint env c um}" and "k \<noteq> ''model''" and "k \<noteq> ''stream''"
  shows "dict_get (dict_set (ep_model ep body) ''stream'' v) k = dict_get body k"
  using assms by (auto simp: openai_endpoint_def azure_endpoint_def dict_get_set dict_get_pop)

text \<open>
  An OpenAI-compatible upstream that refuses the name of the token limit is asked once more
  with the other name: the second request carries the same limit under that name, not under the
  refused one, and all other fields of the payload; what it answers is the answer. The name is
  remembered for this adapter, channel and model, and for no other.
\<close>

theorem token_limit_learned:
  assumes "ep \<in> {openai_endpoint env c um, azure_endpoint env c um}"
    and "chat_body env ep payload False (preferred_token_field (ep_adapter ep) c um st) = Inr body"
    and "hx_post env (ps_calls st) (ep_url ep) (ep_headers ep) body = Inr r" and "hr_status r = 400"
    and "retry_field env payload (response_data r) = Some field"
  shows "\<exists>body2 other. compat_chat env ep c um payload False st
      = (count_call (remember_token_field (ep_adapter ep) c um field (count_call st)),
         case hx_post env (Suc (ps_calls st)) (ep_url ep) (ep_headers ep) body2 of
           Inl e \<Rightarrow> Inl (exception_text e) | Inr r2 \<Rightarrow> chat_answer_result env r2)
    \<and> {field, other} = {max_tokens_field, max_completion_tokens_field} \<and> dict_get body2 other = None
    \<and> openai_chat_token_limit (JObj body2) JNull = openai_chat_token_limit (JObj payload) JNull
    \<and> (\<forall>k. k \<notin> {max_tokens_field, max_completion_tokens_field, ''model'', ''stream''} \<longrightarrow> dict_get body2 k = dict_get payload k)
    \<and> (\<forall>a c' um'. preferred_token_field a c' um' (fst (compat_chat env ep c um payload False st))
        = (if a = ep_adapter ep \<and> ch_id c' = ch_id c \<and> um' = um then Some field else preferred_token_field a c' um' st))"
proof -
  obtain other where f: "field = max_completion_tokens_field \<and> other = max_tokens_field
      \<or> field = max_tokens_field \<and> other = max_completion_tokens_field"
    and h: "dict_has payload other" "\<not> dict_has payload field"
    using retry_field_cases [OF assms(5)] by blast
  define norm where "norm = normalize_chat_payload_for_protocol payload False (Some field)"
  define body2 where "body2 = dict_set (ep_model ep norm) ''stream'' (JBool False)"
  have b2: "chat_body env ep payload False (Some field) = Inr body2" by (simp add: chat_body_json body2_def norm_def)
  have fr: "dict_get body2 k = dict_get norm k" if "k \<noteq> ''model''" "k \<noteq> ''stream''" for k
    unfolding body2_def by (rule endpoint_frame [OF assms(1) that])
  have c: "compat_chat env ep c um payload False st
      = (count_call (remember_token_field (ep_adapter ep) c um field (count_call st)),
         case hx_post env (Suc (ps_calls st)) (ep_url ep) (ep_headers ep) body2 of
           Inl e \<Rightarrow> Inl (exception_text e) | Inr r2 \<Rightarrow> chat_answer_result env r2)"
    unfolding compat_post [OF assms(2-5) b2]
    by (simp add: post_chat_def remember_token_field_def count_call_def)
  have "dict_get body2 other = None" using fr [of other] normalized_limit(1) [OF f h] f by (auto simp: norm_def)
  moreover have "openai_chat_token_limit (JObj body2) JNull = openai_chat_token_limit (JObj payload) JNull"
    unfolding normalized_limit(2) [OF f h, folded norm_def, symmetric] by (rule limit_frame) (auto intro: fr)
  moreover have "dict_get body2 k = dict_get payload k"
    if "k \<notin> {max_tokens_field, max_completion_tokens_field, ''model'', ''stream''}" for k
    using fr [of k] that normalized_other [of k] by (auto simp: norm_def)
  moreover have "{field, other} = {max_tokens_field, max_completion_tokens_field}" using f by auto
  moreover have "preferred_token_field a c' um' (fst (compat_chat env ep c um payload False st))
        = (if a = ep_adapter ep \<and> ch_id c' = ch_id c \<and> um' = um then Some field else preferred_token_field a c' um' st)" for a c' um'
    by (simp add: c preferred_token_field_def remember_token_field_def count_call_def)
  ultimately show ?thesis using c by blast
qed

section \<open>Examples\<close>

definition demo_refusing :: http_env where
  \<comment> \<open>an upstream that refuses connections\<close>
  "demo_refusing = \<lparr>hx_post = (\<lambda>n u h b. Inl (http_exception ''refused'')), hx_stream = (\<lambda>n u h b. Inl (http_exception ''refused'')),
     hx_crypto = demo_crypto, hx_loads = (\<lambda>t. None), hx_repr = (\<lambda>v. []), hx_float = (\<lambda>r. ''1.5''),
     hx_error = (\<lambda>e. ''error''), hx_id = ''00'', hx_time = 7, hx_azure_version = ''v'', hx_azure_responses_version = ''v'',
     hx_azure_image_version = ''v''\<rparr>"

definition demo_payload :: dict where
  "demo_payload = [(''messages'', JList [chat_message ''user'' (JStr ''hi'')]), (''max_tokens'', JInt 9)]"

definition demo_idle :: provider_state where
  "demo_idle = \<lparr>ps_calls = 0, ps_fields = (\<lambda>k. None)\<rparr>"

theorem streamed_never_fails_over_witness:
  "\<exists>r. chat_loop (streamed_calls demo_refusing (\<lambda>n. demo_idle) demo_relay_env) 0 demo_payload True
      [(demo_priced 2 ''down'', default_channel 7), (demo_priced 3 ''up'', default_channel 8)] JNull
      = Inr (demo_priced 2 ''down'', relay_result r) \<and> pr_status r = 200 \<and> pr_stream r = Some ([], False)"
proof -
  let ?m = "demo_priced 2 ''down''" and ?c = "default_channel 7"
  have a: "candidate_adapter ?m ?c = Inr (''openai'', ''openai.chat'')" by code_simp
  have c: "convertible demo_refusing demo_payload" by code_simp
  have "snd (run_provider demo_refusing ''openai'' (via_responses ''openai'' ''openai.chat'') ?c (md_upstream_model ?m) demo_payload True demo_idle)
      = Inr (stream_result ([], False))" by code_simp
  with streamed_never_fails_over [OF c a, of "\<lambda>n. demo_idle" demo_relay_env 0 "[(demo_priced 3 ''up'', default_channel 8)]" JNull]
  show ?thesis by (auto simp: stream_result_def)
qed

definition demo_overloaded :: http_env where
  \<comment> \<open>an upstream that answers 529\<close>
  "demo_overloaded = demo_refusing\<lparr>hx_stream := (\<lambda>n u h b. Inr (529, [''overloaded''], True))\<rparr>"

definition demo_claude :: channel where
  "demo_claude = (default_channel 9)\<lparr>ch_provider_type := ''anthropic'', ch_connector_type := ''anthropic''\<rparr>"

theorem anthropic_stream_error_lost_witness:
  "\<exists>r. chat_loop (streamed_calls demo_overloaded (\<lambda>n. demo_idle) demo_relay_env) 0 demo_payload True
      [(demo_priced 2 ''down'', demo_claude)] JNull = Inr (demo_priced 2 ''down'', r)
    \<and> cr_status r = 200 \<and> cr_stream r = Some ([], True)"
proof -
  let ?m = "demo_priced 2 ''down''"
  have "returns (to_anthropic demo_payload)" by code_simp
  then obtain body0 where b: "to_anthropic demo_payload = Inr body0" by (rule returnsE)
  have a: "candidate_adapter ?m demo_claude = Inr (''anthropic'', ''anthropic.messages'')" by code_simp
  have h: "hx_stream demo_overloaded (ps_calls demo_idle) (anthropic_url demo_claude) (anthropic_headers demo_overloaded demo_claude)
           (dict_set (dict_set body0 ''model'' (JStr (md_upstream_model ?m))) ''stream'' (JBool True)) = Inr (529, [''overloaded''], True)"
    by (simp add: demo_overloaded_def)
  have n: "\<not> py_contains (concat [''overloaded'']) event_separator" by code_simp
  show ?thesis using anthropic_stream_error_lost [where hist = "\<lambda>n. demo_idle" and n = 0, OF b a h n] by blast
qed

definition demo_strict :: http_env where
  \<comment> \<open>an upstream that refuses \<open>max_tokens\<close> in its first answer\<close>
  "demo_strict = demo_refusing\<lparr>hx_post := (\<lambda>n u h b. Inr (if n = 0
     then \<lparr>hr_status = 400, hr_text = [], hr_json = Some (error_body ''Unsupported max_tokens, use max_completion_tokens'')\<rparr>
     else \<lparr>hr_status = 200, hr_text = [], hr_json = Some (JObj [])\<rparr>))\<rparr>"

theorem token_limit_learned_witness:
  "\<exists>body2. dict_get body2 ''max_tokens'' = None \<and> openai_chat_token_limit (JObj body2) JNull = JInt 9
    \<and> preferred_token_field ''openai'' (default_channel 7) ''gpt''
        (fst (compat_chat demo_strict (openai_endpoint demo_strict (default_channel 7) ''gpt'') (default_channel 7) ''gpt'' demo_payload False demo_idle))
      = Some ''max_completion_tokens''"
proof -
  let ?c = "default_channel 7" let ?ep = "openai_endpoint demo_strict ?c ''gpt''"
  let ?r = "\<lparr>hr_status = 400, hr_text = [], hr_json = Some (error_body ''Unsupported max_tokens, use max_completion_tokens'')\<rparr>"
  have e: "?ep \<in> {openai_endpoint demo_strict ?c ''gpt'', azure_endpoint demo_strict ?c ''gpt''}" by simp
  obtain body where b: "chat_body demo_strict ?ep demo_payload False (preferred_token_field (ep_adapter ?ep) ?c ''gpt'' demo_idle) = Inr body"
    by (simp add: chat_body_json)
  have h: "hx_post demo_strict (ps_calls demo_idle) (ep_url ?ep) (ep_headers ?ep) body = Inr ?r"
    by (simp add: demo_strict_def demo_idle_def)
  have s: "hr_status ?r = 400" by simp
  have f: "retry_field demo_strict demo_payload (response_data ?r) = Some ''max_completion_tokens''" by code_simp
  have l: "openai_chat_token_limit (JObj demo_payload) JNull = JInt 9" by code_simp
  have ad: "ep_adapter ?ep = ''openai''" by (simp add: openai_endpoint_def)
  from token_limit_learned [OF e b h s f] obtain body2 other where
    o: "{''max_completion_tokens'', other} = {max_tokens_field, max_completion_tokens_field}" "dict_get body2 other = None"
      "openai_chat_token_limit (JObj body2) JNull = openai_chat_token_limit (JObj demo_payload) JNull"
    and p: "\<forall>a c' um'. preferred_token_field a c' um' (fst (compat_chat demo_strict ?ep ?c ''gpt'' demo_payload False demo_idle))
        = (if a = ep_adapter ?ep \<and> ch_id c' = ch_id ?c \<and> um' = ''gpt'' then Some ''max_completion_tokens''
           else preferred_token_field a c' um' demo_idle)"
    by (elim exE conjE)
  have other: "other = ''max_tokens''" using o(1) by (auto simp: doubleton_eq_iff)
  have "preferred_token_field ''openai'' ?c ''gpt'' (fst (compat_chat demo_strict ?ep ?c ''gpt'' demo_payload False demo_idle))
      = Some ''max_completion_tokens''" unfolding p [rule_format] ad by simp
  with o(2,3) other show ?thesis unfolding l by blast
qed

end
