(* ===== verification/Stream_Laws.thy ===== *)
theory Stream_Laws
  imports Adapter_Laws
begin

text \<open>
  Metering of translated streams: the chunks that the Anthropic and Gemini adapters print are read
  back by the relay, which charges the counts the upstream reported last.
\<close>

section \<open>Printed chunks are lines of printable ASCII\<close>

definition printable :: "string \<Rightarrow> bool" where
  "printable s \<longleftrightarrow> (\<forall>c \<in> set s. 32 \<le> ord c)"

definition ascii_only :: "string \<Rightarrow> bool" where
  "ascii_only s \<longleftrightarrow> (\<forall>c \<in> set s. 32 \<le> ord c \<and> ord c < 127)"

lemma printable_simps [simp]:
  "printable []" "printable (c # s) = (32 \<le> ord c \<and> printable s)" "printable (s @ t) = (printable s \<and> printable t)"
  by (auto simp: printable_def)

lemma ascii_simps [simp]:
  "ascii_only []" "ascii_only (c # s) = (32 \<le> ord c \<and> ord c < 127 \<and> ascii_only s)" "ascii_only (s @ t) = (ascii_only s \<and> ascii_only t)"
  by (auto simp: ascii_only_def)

lemma hex_digit_ascii: "n < 16 \<Longrightarrow> 32 \<le> ord (hex_digit n) \<and> ord (hex_digit n) < 127"
  by (simp add: hex_digit_def)

lemma hex4_ascii [simp]: "ascii_only (hex4 n)"
  using hex_digit_ascii [of "n div 4096 mod 16"] hex_digit_ascii [of "n div 256 mod 16"]
    hex_digit_ascii [of "n div 16 mod 16"] hex_digit_ascii [of "n mod 16"]
  by (simp add: hex4_def)

lemma escape_ascii [simp]: "ascii_only (escape_point n)"
  by (simp add: escape_point_def)

lemma printable_drop: "printable s \<Longrightarrow> printable (drop k s)"
  by (auto simp: printable_def dest: in_set_dropD)

lemma ascii_text_head: "ord c < 127 \<Longrightarrow> ascii_text (c # s) = c # ascii_text s"
  by simp

declare ascii_text.simps(2) [simp del]

lemma ascii_text_ascii: "printable s \<Longrightarrow> ascii_only (ascii_text s)"
proof (induction s rule: ascii_text.induct)
  case (2 a s)
  define k where "k = max 1 (utf8_len (a # s))"
  define n where "n = code_point (take k (a # s))"
  have e: "ascii_text (a # s) = (if k = 1 \<and> n < 127 then a # ascii_text s else escape_point n @ ascii_text (drop k (a # s)))"
    by (simp only: ascii_text.simps Let_def k_def n_def)
  show ?case
  proof (cases "k = 1 \<and> n < 127")
    case True
    then have "k = 1" and "n < 127" by auto
    then have "ord a < 127" by (simp add: n_def)
    moreover have "ascii_only (ascii_text s)" using "2.IH"(1) [OF k_def n_def] True "2.prems" by simp
    ultimately show ?thesis using e True "2.prems" by simp
  next
    case False
    have "ascii_only (ascii_text (drop k (a # s)))"
      using "2.IH"(2) [OF k_def n_def False] printable_drop [OF "2.prems"] by simp
    moreover have "ascii_text (a # s) = escape_point n @ ascii_text (drop k (a # s))" using e False by argo
    ultimately show ?thesis by simp
  qed
qed simp

lemma escape_chr_printable: "printable (escape_chr c)"
  using hex_digit_ascii [of "ord c div 16"] hex_digit_ascii [of "ord c mod 16"]
  by (auto simp: escape_chr_def Let_def)

lemma quote_printable [simp]: "printable (quote_text s)"
proof -
  have "printable (concat (map escape_chr s))" by (induction s) (simp_all add: escape_chr_printable)
  then show ?thesis by (simp add: quote_text_def)
qed

lemma join_printable: "printable sep \<Longrightarrow> \<forall>x \<in> set xs. printable x \<Longrightarrow> printable (py_join sep xs)"
  by (induction sep xs rule: py_join.induct) auto

lemma str_nat_printable [simp]: "printable (str_nat n)"
proof (induction n rule: str_nat.induct)
  case (1 n)
  then show ?case by (subst str_nat.simps) auto
qed

lemma dumps_printable:
  shows "(\<And>r. printable (fr r)) \<Longrightarrow> printable (spaced_dumps fr v)"
    and "(\<And>r. printable (fr r)) \<Longrightarrow> \<forall>x \<in> set (spaced_items fr xs). printable x"
    and "(\<And>r. printable (fr r)) \<Longrightarrow> \<forall>x \<in> set (spaced_fields fr d). printable x"
  by (induction fr v and fr xs and fr d rule: spaced_dumps_spaced_items_spaced_fields.induct)
    (auto simp: str_int_def intro!: join_printable)

lemma line_ascii: "(\<And>r. printable (fr r)) \<Longrightarrow> ascii_only (ascii_text (spaced_dumps fr (JObj d)))"
  by (intro ascii_text_ascii dumps_printable)

section \<open>What the relay reads in a printed chunk\<close>

lemma decode_ascii: "(\<forall>c \<in> set s. ord c < 128) \<Longrightarrow> decode_ignore s = s"
  by (induction s) simp_all

lemma no_break: "32 \<le> ord a \<Longrightarrow> ord a < 127 \<Longrightarrow> line_break (a # s) = 0"
  by (cases s; cases "tl s") auto

lemma split_lines_ascii: "ascii_only s \<Longrightarrow> split_lines cur (s @ t) = split_lines (rev s @ cur) t"
  by (induction s arbitrary: cur) (simp_all add: no_break del: line_break.simps)

lemma splitlines_event: "ascii_only s \<Longrightarrow> s \<noteq> [] \<Longrightarrow> py_splitlines (s @ event_separator) = [s, []]"
  by (simp add: py_splitlines_def split_lines_ascii event_separator_def)

lemma hex4_last: "\<not> is_space (List.last (hex4 n))"
  using hex_digit_ascii [of "n mod 16"] by (auto simp: hex4_def is_space_def hex_digit_def)

lemma escape_last: "escape_point n \<noteq> [] \<and> \<not> is_space (List.last (escape_point n))"
  using hex4_last by (simp add: escape_point_def) (simp add: hex4_def)

lemma ascii_text_last: "s \<noteq> [] \<Longrightarrow> \<not> is_space (List.last s) \<Longrightarrow> ascii_text s \<noteq> [] \<and> \<not> is_space (List.last (ascii_text s))"
proof (induction s rule: ascii_text.induct)
  case (2 a s)
  define k where "k = max 1 (utf8_len (a # s))"
  define n where "n = code_point (take k (a # s))"
  have e: "ascii_text (a # s) = (if k = 1 \<and> n < 127 then a # ascii_text s else escape_point n @ ascii_text (drop k (a # s)))"
    by (simp only: ascii_text.simps Let_def k_def n_def)
  have nil: "ascii_text [] = []" by simp
  show ?case
  proof (cases "k = 1 \<and> n < 127")
    case True
    then show ?thesis using "2.IH"(1) [OF k_def n_def True] "2.prems" e nil by (cases s) auto
  next
    case False
    have step: "ascii_text (a # s) = escape_point n @ ascii_text (drop k (a # s))" using e False by argo
    have d: "drop k (a # s) \<noteq> [] \<Longrightarrow> List.last (drop k (a # s)) = List.last (a # s)"
      by (metis append_take_drop_id last_appendR)
    show ?thesis
    proof (cases "drop k (a # s) = []")
      case True
      with step escape_last [of n] show ?thesis by simp
    next
      case nonempty: False
      with "2.IH"(2) [OF k_def n_def False nonempty] d "2.prems"(2) step show ?thesis by simp
    qed
  qed
qed simp

lemma strip_line: "a \<noteq> [] \<Longrightarrow> \<not> is_space (hd a) \<Longrightarrow> \<not> is_space (List.last a) \<Longrightarrow> py_strip (CHR '' '' # a) = a"
proof -
  assume a: "a \<noteq> []" "\<not> is_space (hd a)" "\<not> is_space (List.last a)"
  have sp: "is_space (CHR '' '')" by (simp add: is_space_def)
  have "py_lstrip (CHR '' '' # a) = a" using a(1,2) sp by (cases a) (simp_all add: py_lstrip_def)
  moreover have "dropWhile is_space (rev a) = rev a" using a(1,3) by (cases a rule: rev_cases) simp_all
  ultimately show ?thesis by (simp add: py_strip_def py_rstrip_def)
qed

text \<open>
  \<open>reads_back\<close>: \<open>json.loads\<close> gives the object back that \<open>json.dumps\<close> printed.
\<close>

definition reads_back :: "(rat \<Rightarrow> string) \<Rightarrow> (string \<Rightarrow> json option) \<Rightarrow> dict \<Rightarrow> bool" where
  "reads_back fr loads d \<longleftrightarrow> loads (ascii_text (spaced_dumps fr (JObj d))) = Some (JObj d)"

lemma parse_spaced_line:
  assumes "\<And>r. printable (fr r)" and "reads_back fr loads d"
  shows "parse_usage_from_chunk loads (spaced_line fr d)
    = (if truthy (dict_get_none d ''usage'') then Some (dict_get_none d ''usage'') else None)"
proof -
  define x where "x = ascii_text (spaced_dumps fr (JObj d))"
  have ax: "ascii_only x" unfolding x_def by (rule line_ascii) (rule assms(1))
  obtain s where s: "x = CHR ''{'' # s" unfolding x_def by (auto simp: ascii_text_head)
  have l: "\<not> is_space (List.last x)"
    unfolding x_def by (rule ascii_text_last [THEN conjunct2]) (simp_all add: is_space_def)
  have line: "spaced_line fr d = (''data: '' @ x) @ event_separator" by (simp add: spaced_line_def x_def)
  have dec: "decode_ignore (spaced_line fr d) = spaced_line fr d"
    using ax unfolding line by (intro decode_ascii) (auto simp: ascii_only_def event_separator_def)
  have sp: "py_splitlines (spaced_line fr d) = [''data: '' @ x, []]"
    unfolding line by (rule splitlines_event) (use ax in simp_all)
  have st: "py_strip (drop 5 (''data: '' @ x)) = x"
    using strip_line [of x] l s by (simp add: is_space_def)
  have lx: "loads x = Some (JObj d)" using assms(2) by (simp add: reads_back_def x_def)
  have ne: "x \<noteq> []" "x \<noteq> ''[DONE]''" using s by auto
  have tail: "usage_in_lines loads [[]] = None" by (simp add: py_startswith_def)
  have pre: "py_startswith (''data: '' @ x) ''data:''" by (simp add: py_startswith_def)
  show ?thesis
    unfolding parse_usage_from_chunk_def dec sp usage_in_lines.simps(2) [of _ "''data: '' @ x"] st Let_def
    by (simp only: pre lx ne tail) simp
qed

lemma done_line_silent: "parse_usage_from_chunk loads done_line = None"
proof -
  have "decode_ignore done_line = done_line" by (rule decode_ascii) (simp add: done_line_def event_separator_def)
  moreover have "py_splitlines done_line = [''data: [DONE]'', []]"
    unfolding done_line_def by (rule splitlines_event) simp_all
  moreover have "py_strip (drop 5 ''data: [DONE]'') = ''[DONE]''" using strip_line [of "''[DONE]''"] by (simp add: is_space_def)
  ultimately show ?thesis by (simp add: parse_usage_from_chunk_def py_startswith_def)
qed

section \<open>The counts the relay reads\<close>

fun latest :: "(dict \<Rightarrow> json option) \<Rightarrow> json list \<Rightarrow> json \<Rightarrow> json" where
  \<comment> \<open>the last value that an event reports\<close>
  "latest f [] v = v"
| "latest f (JObj ev # evs) v = latest f evs (case f ev of None \<Rightarrow> v | Some w \<Rightarrow> w)"
| "latest f (_ # evs) v = latest f evs v"

definition read_items :: "(rat \<Rightarrow> string) \<Rightarrow> (string \<Rightarrow> json option) \<Rightarrow> stream_item list \<Rightarrow> bool" where
  "read_items fr loads is \<longleftrightarrow> (\<forall>d. chunk_item d \<in> set is \<longrightarrow> reads_back fr loads d)"

fun item_counts :: "stream_item list \<Rightarrow> counts \<Rightarrow> counts" where
  \<comment> \<open>the counts in the usage of the items\<close>
  "item_counts [] cts = cts"
| "item_counts (chunk_item d # is) cts =
     (case dict_get_none d ''usage'' of
        JObj us \<Rightarrow> item_counts is (if us = [] then cts else
          (dict_get_default us ''prompt_tokens'' (fst cts), dict_get_default us ''completion_tokens'' (snd cts)))
      | _ \<Rightarrow> item_counts is cts)"
| "item_counts (done_item # is) cts = item_counts is cts"

definition plain_usage :: "stream_item list \<Rightarrow> bool" where
  \<comment> \<open>a usage is an object or absent\<close>
  "plain_usage is \<longleftrightarrow> (\<forall>d. chunk_item d \<in> set is \<longrightarrow> dict_get d ''usage'' = None \<or> (\<exists>us. dict_get d ''usage'' = Some (JObj us)))"

lemma stream_usage_items:
  assumes "\<And>r. printable (fr r)"
  shows "read_items fr loads is \<Longrightarrow> plain_usage is
    \<Longrightarrow> stream_usage loads (map (print_item fr) is) cts = (map (print_item fr) is, Some (item_counts is cts))"
proof (induction "is" arbitrary: cts)
  case Nil
  then show ?case by simp
next
  case (Cons i "is")
  obtain pt ct where cts: "cts = (pt, ct)" by (cases cts)
  have r: "read_items fr loads is" "plain_usage is" using Cons.prems by (auto simp: read_items_def plain_usage_def)
  show ?case
  proof (cases i)
    case (chunk_item d)
    have p: "parse_usage_from_chunk loads (spaced_line fr d)
        = (if truthy (dict_get_none d ''usage'') then Some (dict_get_none d ''usage'') else None)"
      using Cons.prems(1) chunk_item by (intro parse_spaced_line assms) (simp add: read_items_def)
    have "dict_get_none d ''usage'' = JNull \<or> (\<exists>us. dict_get_none d ''usage'' = JObj us)"
      using Cons.prems(2) chunk_item by (auto simp: plain_usage_def dict_get_none_def)
    then show ?thesis using Cons.IH [OF r] p chunk_item cts by (auto simp: print_item_def)
  next
    case done_item
    then show ?thesis using Cons.IH [OF r] cts by (simp add: print_item_def done_line_silent)
  qed
qed

lemma item_counts_append: "item_counts (a @ b) cts = item_counts b (item_counts a cts)"
  by (induction a cts rule: item_counts.induct) (auto split: json.splits)

lemma plain_usage_append [simp]: "plain_usage (a @ b) \<longleftrightarrow> plain_usage a \<and> plain_usage b"
  by (auto simp: plain_usage_def)

text \<open>Items without a usage.\<close>

definition silent :: "stream_item list \<Rightarrow> bool" where
  "silent is \<longleftrightarrow> (\<forall>d. chunk_item d \<in> set is \<longrightarrow> dict_get d ''usage'' = None)"

lemma silent_plain: "silent is \<Longrightarrow> plain_usage is"
  by (auto simp: silent_def plain_usage_def)

lemma silent_counts: "silent is \<Longrightarrow> item_counts is cts = cts"
  by (induction "is" cts rule: item_counts.induct) (auto simp: silent_def dict_get_none_def split: json.splits)

lemma silent_simps [simp]:
  "silent []" "silent (done_item # is) = silent is" "silent (a @ b) = (silent a \<and> silent b)"
  "silent (chunk_item (provider_chunk env um delta reason) # is) = silent is"
  by (auto simp: silent_def provider_chunk_def completion_chunk_def)

lemma final_items_counts:
  assumes "final_items env um cts = Inr is"
  shows "plain_usage is \<and> item_counts is cts0 = cts"
  using assms
  by (cases cts) (auto simp: final_items_def provider_final_def usage_json_def bind_result_eq_Inr plain_usage_def
      provider_chunk_def completion_chunk_def dict_get_none_def dict_get_default_def)

section \<open>Gemini\<close>

definition gemini_prompt :: "dict \<Rightarrow> json option" where
  "gemini_prompt ev = (case dict_get_none ev ''usageMetadata'' of JObj us \<Rightarrow> dict_get us ''promptTokenCount'' | _ \<Rightarrow> None)"

definition gemini_completion :: "dict \<Rightarrow> json option" where
  "gemini_completion ev = (case dict_get_none ev ''usageMetadata'' of JObj us \<Rightarrow> dict_get us ''candidatesTokenCount'' | _ \<Rightarrow> None)"

lemma part_items_silent: "silent (fst (gemini_part_items env um ps))"
  by (induction env um ps rule: gemini_part_items.induct) (auto split: sum.splits option.splits prod.splits)

lemma candidates_silent: "silent (fst (run_events (gemini_candidate_items env um) cs u))"
proof (induction cs arbitrary: u)
  case (Cons c cs)
  have "silent (fst (gemini_candidate_items env um c u))"
    using part_items_silent by (auto simp: gemini_candidate_items_def split: sum.splits)
  with Cons show ?case by (auto split: prod.splits option.splits)
qed simp

lemma gemini_event_law:
  assumes "gemini_event env um v cts = (is, Some cts')"
  shows "silent is \<and> (\<exists>ev. v = JObj ev \<and> cts' = (case gemini_prompt ev of None \<Rightarrow> fst cts | Some w \<Rightarrow> w,
      case gemini_completion ev of None \<Rightarrow> snd cts | Some w \<Rightarrow> w))"
proof -
  obtain ev cands where v: "v = JObj ev" and i: "run_events (gemini_candidate_items env um) cands () = (is, Some ())"
    and u: "gemini_usage ev cts = Inr cts'"
    using assms by (auto simp: gemini_event_def split: json.splits sum.splits prod.splits option.splits)
  have "silent is" using candidates_silent [of env um cands "()"] i by simp
  with v u show ?thesis
    by (cases cts) (auto simp: gemini_usage_def gemini_prompt_def gemini_completion_def need_obj_def dict_get_default_def Let_def
        bind_result_eq_Inr split: json.splits if_splits option.splits)
qed

lemma gemini_events_law:
  "run_events (gemini_event env um) evs cts = (is, Some cts') \<Longrightarrow> silent is
    \<and> cts' = (latest gemini_prompt evs (fst cts), latest gemini_completion evs (snd cts))"
proof (induction evs arbitrary: cts "is")
  case (Cons v evs)
  then obtain a b cts1 where e: "gemini_event env um v cts = (a, Some cts1)"
    and r: "run_events (gemini_event env um) evs cts1 = (b, Some cts')" and i: "is = a @ b"
    by (auto split: prod.splits option.splits)
  from gemini_event_law [OF e] Cons.IH [OF r] i show ?case by auto
qed simp

text \<open>
  A Gemini stream that ends well is charged what Gemini reported: reading the chunks
  that the adapter prints, the relay sends all of them on and takes as token counts the last
  \<open>promptTokenCount\<close> and \<open>candidatesTokenCount\<close> of the events, zero when there is none. The hypotheses
  say that \<open>json.loads\<close> reads what \<open>json.dumps\<close> printed and that a float prints without control
  characters.
\<close>

theorem gemini_stream_metered:
  assumes "\<forall>r. printable (hx_float env r)" and "gemini_items env um evs True = (is, True)"
    and "read_items (hx_float env) loads is"
  shows "stream_usage loads (map (print_item (hx_float env)) is) (JInt 0, JInt 0)
    = (map (print_item (hx_float env)) is,
       Some (latest gemini_prompt evs (JInt 0), latest gemini_completion evs (JInt 0)))"
proof -
  obtain a cts fs where r: "run_events (gemini_event env um) evs (JInt 0, JInt 0) = (a, Some cts)"
    and f: "final_items env um cts = Inr fs" and i: "is = a @ fs"
    using assms(2) by (auto simp: gemini_items_def split: prod.splits option.splits sum.splits)
  note g = gemini_events_law [OF r] and h = final_items_counts [OF f]
  have "plain_usage is" using g h i silent_plain by simp
  then show ?thesis
    using stream_usage_items [OF spec [OF assms(1)] assms(3)] g h i by (simp add: item_counts_append)
qed

section \<open>Anthropic\<close>

definition anthropic_prompt :: "dict \<Rightarrow> json option" where
  "anthropic_prompt ev =
     (if dict_get_none ev ''type'' \<noteq> JStr ''message_start'' then None
      else case anthropic_start ev (JNull, JNull) of Inl e \<Rightarrow> None | Inr cts \<Rightarrow> Some (fst cts))"

definition anthropic_completion :: "dict \<Rightarrow> json option" where
  "anthropic_completion ev =
     (if dict_get_none ev ''type'' \<noteq> JStr ''message_delta'' then None
      else case dict_get_none ev ''usage'' of JObj us \<Rightarrow> dict_get us ''output_tokens'' | _ \<Rightarrow> None)"

lemma anthropic_delta_silent: "anthropic_delta env um ev = Inr is \<Longrightarrow> silent is"
  by (auto simp: anthropic_delta_def bind_result_eq_Inr split: if_splits)

lemma anthropic_event_law:
  assumes "anthropic_event env um v cts = (is, Some cts')"
  shows "plain_usage is \<and> (\<exists>ev. v = JObj ev \<and> cts' = (case anthropic_prompt ev of None \<Rightarrow> fst cts | Some w \<Rightarrow> w,
      case anthropic_completion ev of None \<Rightarrow> snd cts | Some w \<Rightarrow> w))"
proof -
  obtain ev where v: "v = JObj ev" using assms by (auto simp: anthropic_event_def split: json.splits)
  let ?t = "dict_get_none ev ''type''"
  consider (start) "?t = JStr ''message_start''" | (delta) "?t = JStr ''content_block_delta''"
    | (usage) "?t = JStr ''message_delta''" | (stop) "?t = JStr ''message_stop''"
    | (other) "?t \<notin> {JStr ''message_start'', JStr ''content_block_delta'', JStr ''message_delta'', JStr ''message_stop''}"
    by auto
  then show ?thesis
  proof cases
    case start
    then show ?thesis using assms v
      by (auto simp: anthropic_event_def updating_def anthropic_start_def anthropic_prompt_def anthropic_completion_def
          bind_result_eq_Inr plain_usage_def split: sum.splits)
  next
    case delta
    then have "anthropic_delta env um ev = Inr is" "cts' = cts" using assms v
      by (auto simp: anthropic_event_def yielding_def split: sum.splits)
    with delta v show ?thesis using silent_plain [OF anthropic_delta_silent]
      by (simp add: anthropic_prompt_def anthropic_completion_def)
  next
    case usage
    then show ?thesis using assms v
      by (auto simp: anthropic_event_def updating_def anthropic_usage_def anthropic_prompt_def anthropic_completion_def
          bind_result_eq_Inr plain_usage_def need_obj_def py_or_def dict_get_default_def
          split: sum.splits json.splits if_splits option.splits)
  next
    case stop
    then have "final_items env um cts = Inr is" "cts' = cts" using assms v
      by (auto simp: anthropic_event_def yielding_def split: sum.splits)
    with stop v show ?thesis using final_items_counts
      by (simp add: anthropic_prompt_def anthropic_completion_def)
  next
    case other
    then show ?thesis using assms v
      by (auto simp: anthropic_event_def anthropic_prompt_def anthropic_completion_def plain_usage_def)
  qed
qed

lemma anthropic_events_law:
  "run_events (anthropic_event env um) evs cts = (is, Some cts') \<Longrightarrow> plain_usage is
    \<and> cts' = (latest anthropic_prompt evs (fst cts), latest anthropic_completion evs (snd cts))"
proof (induction evs arbitrary: cts "is")
  case (Cons v evs)
  then obtain a b cts1 where e: "anthropic_event env um v cts = (a, Some cts1)"
    and r: "run_events (anthropic_event env um) evs cts1 = (b, Some cts')" and i: "is = a @ b"
    by (auto split: prod.splits option.splits)
  from anthropic_event_law [OF e] Cons.IH [OF r] i show ?case by auto
qed (simp add: plain_usage_def)

lemma run_events_snoc:
  "run_events step (a @ [e]) st = (is, Some st') \<Longrightarrow>
     \<exists>is1 st1 is2. run_events step a st = (is1, Some st1) \<and> step e st1 = (is2, Some st') \<and> is = is1 @ is2"
proof (induction a arbitrary: st "is")
  case Nil
  then show ?case by (auto split: prod.splits option.splits)
next
  case (Cons x a)
  then obtain i1 st1 i2 where s: "step x st = (i1, Some st1)" and r: "run_events step (a @ [e]) st1 = (i2, Some st')"
    and i: "is = i1 @ i2" by (auto split: prod.splits option.splits)
  from Cons.IH [OF r] s i show ?case by auto
qed

text \<open>
  Claim C22. An Anthropic stream that is read to its \<open>message_stop\<close> is charged what Anthropic reported:
  from the chunks the adapter prints the relay takes the prompt tokens of the last
  \<open>message_start\<close> and the completion tokens of the last \<open>message_delta\<close> that reports them, zero when
  there is none. The hypotheses on \<open>json\<close> are those of the Gemini stream.
\<close>

theorem anthropic_stream_metered:
  assumes "\<forall>r. printable (hx_float env r)"
    and "run_events (anthropic_event env um) (evs @ [JObj stop]) (JInt 0, JInt 0) = (is, Some cts)"
    and "dict_get_none stop ''type'' = JStr ''message_stop''" and "read_items (hx_float env) loads is"
  shows "stream_usage loads (map (print_item (hx_float env)) is) (JInt 0, JInt 0)
    = (map (print_item (hx_float env)) is,
       Some (latest anthropic_prompt evs (JInt 0), latest anthropic_completion evs (JInt 0)))"
proof -
  obtain a cts1 b where r: "run_events (anthropic_event env um) evs (JInt 0, JInt 0) = (a, Some cts1)"
    and e: "anthropic_event env um (JObj stop) cts1 = (b, Some cts)" and i: "is = a @ b"
    using run_events_snoc [OF assms(2)] by blast
  note g = anthropic_events_law [OF r]
  have f: "final_items env um cts1 = Inr b"
    using e assms(3) by (auto simp: anthropic_event_def yielding_def split: sum.splits)
  note h = final_items_counts [OF f]
  have "plain_usage is" using g h i by simp
  then show ?thesis
    using stream_usage_items [OF spec [OF assms(1)] assms(4)] g h i by (simp add: item_counts_append)
qed

section \<open>Examples\<close>

definition demo_start :: dict where
  "demo_start = [(''type'', JStr ''message_start''), (''message'', JObj [(''usage'', JObj [(''input_tokens'', JInt 12)])])]"

definition demo_text :: dict where
  "demo_text = [(''type'', JStr ''content_block_delta''), (''delta'', JObj [(''type'', JStr ''text_delta''), (''text'', JStr ''hi'')])]"

definition demo_usage :: dict where
  "demo_usage = [(''type'', JStr ''message_delta''), (''usage'', JObj [(''output_tokens'', JInt 5)])]"

definition demo_stop :: dict where
  "demo_stop = [(''type'', JStr ''message_stop'')]"

definition demo_chunk :: dict where
  "demo_chunk = provider_chunk demo_refusing ''m'' (JObj [(''content'', JStr ''hi'')]) JNull"

definition demo_last :: dict where
  "demo_last = provider_chunk demo_refusing ''m'' (JObj []) (JStr ''stop'')
     @ [(''usage'', JObj [(''prompt_tokens'', JInt 12), (''completion_tokens'', JInt 5), (''total_tokens'', JInt 17)])]"

definition printed :: "dict \<Rightarrow> string" where
  "printed d = ascii_text (spaced_dumps (hx_float demo_refusing) (JObj d))"

definition demo_reads :: "string \<Rightarrow> json option" where
  "demo_reads t = (if t = printed demo_chunk then Some (JObj demo_chunk)
     else if t = printed demo_last then Some (JObj demo_last) else None)"

lemma demo_reads_back: "read_items (hx_float demo_refusing) demo_reads [chunk_item demo_chunk, chunk_item demo_last, done_item]"
proof -
  have "length (printed demo_chunk) \<noteq> length (printed demo_last)" by code_simp
  then show ?thesis by (auto simp: read_items_def reads_back_def demo_reads_def printed_def)
qed

theorem anthropic_stream_metered_witness:
  "run_events (anthropic_event demo_refusing ''m'') ([JObj demo_start, JObj demo_text, JObj demo_usage] @ [JObj demo_stop])
      (JInt 0, JInt 0) = ([chunk_item demo_chunk, chunk_item demo_last, done_item], Some (JInt 12, JInt 5))
   \<and> snd (stream_usage demo_reads (map (print_item (hx_float demo_refusing)) [chunk_item demo_chunk, chunk_item demo_last, done_item])
      (JInt 0, JInt 0)) = Some (JInt 12, JInt 5)"
proof -
  have p: "\<forall>r. printable (hx_float demo_refusing r)" by (simp add: demo_refusing_def)
  have r: "run_events (anthropic_event demo_refusing ''m'') ([JObj demo_start, JObj demo_text, JObj demo_usage] @ [JObj demo_stop])
      (JInt 0, JInt 0) = ([chunk_item demo_chunk, chunk_item demo_last, done_item], Some (JInt 12, JInt 5))" by code_simp
  have s: "dict_get_none demo_stop ''type'' = JStr ''message_stop''" by code_simp
  have c: "latest anthropic_prompt [JObj demo_start, JObj demo_text, JObj demo_usage] (JInt 0) = JInt 12"
      "latest anthropic_completion [JObj demo_start, JObj demo_text, JObj demo_usage] (JInt 0) = JInt 5"
    by code_simp+
  from anthropic_stream_metered [OF p r s demo_reads_back] r c show ?thesis by simp
qed

definition demo_gemini :: dict where
  "demo_gemini = [(''candidates'', JList [JObj [(''content'', JObj [(''parts'', JList [JObj [(''text'', JStr ''hi'')]])])]]),
     (''usageMetadata'', JObj [(''promptTokenCount'', JInt 12), (''candidatesTokenCount'', JInt 5)])]"

theorem gemini_stream_metered_witness:
  "gemini_items demo_refusing ''m'' [JObj demo_gemini] True = ([chunk_item demo_chunk, chunk_item demo_last, done_item], True)
   \<and> snd (stream_usage demo_reads (map (print_item (hx_float demo_refusing)) [chunk_item demo_chunk, chunk_item demo_last, done_item])
      (JInt 0, JInt 0)) = Some (JInt 12, JInt 5)"
proof -
  have p: "\<forall>r. printable (hx_float demo_refusing r)" by (simp add: demo_refusing_def)
  have r: "gemini_items demo_refusing ''m'' [JObj demo_gemini] True = ([chunk_item demo_chunk, chunk_item demo_last, done_item], True)"
    by code_simp
  have c: "latest gemini_prompt [JObj demo_gemini] (JInt 0) = JInt 12" "latest gemini_completion [JObj demo_gemini] (JInt 0) = JInt 5"
    by code_simp+
  from gemini_stream_metered [OF p r demo_reads_back] r c show ?thesis by simp
qed

end
