(* ===== verification/Passthrough_Laws.thy ===== *)
theory Passthrough_Laws
  imports Foreign_Adapters
begin

text \<open>
  An Anthropic client served by an Anthropic upstream: the request is converted to the OpenAI chat
  contract at the relay and back in the adapter. What both conversions together keep, and what
  they lose.
\<close>

section \<open>Content\<close>

datatype part = part_text string | part_image string string
  \<comment> \<open>a text, or an image with media type and base64 data\<close>

datatype content = plain string | parts "part list"

fun part_json :: "part \<Rightarrow> json" where
  "part_json (part_text t) = text_block (JStr t)"
| "part_json (part_image m d) = JObj [(''type'', JStr ''image''),
     (''source'', JObj [(''type'', JStr ''base64''), (''media_type'', JStr m), (''data'', JStr d)])]"

fun part_ok :: "part \<Rightarrow> bool" where
  "part_ok (part_text t) = True"
| "part_ok (part_image m d) = (m \<noteq> [] \<and> d \<noteq> [] \<and> CHR '','' \<notin> set m \<and> CHR '';'' \<notin> set m)"

fun content_json :: "content \<Rightarrow> json" where
  "content_json (plain t) = JStr t"
| "content_json (parts ps) = JList (map part_json ps)"

fun content_ok :: "content \<Rightarrow> bool" where
  "content_ok (plain t) = True"
| "content_ok (parts ps) = (ps \<noteq> [] \<and> list_all part_ok ps)"

fun openai_part :: "part \<Rightarrow> json" where
  "openai_part (part_text t) = text_block (JStr t)"
| "openai_part (part_image m d) = JObj [(''type'', JStr ''image_url''),
     (''image_url'', JObj [(''url'', JStr (''data:'' @ m @ '';base64,'' @ d))])]"

declare startswith_append [simp]

lemma contains_middle: "py_contains (a @ p @ b) p"
proof (induction a)
  case Nil
  show ?case by (cases "p @ b") (use startswith_append [of p b] in auto)
qed simp

lemma before_append: "c \<notin> set a \<Longrightarrow> py_before c (a @ c # b) = a" "c \<notin> set a \<Longrightarrow> py_after c (a @ c # b) = b"
  by (induction a) (auto simp: py_before_def py_after_def)

lemma data_url_source:
  assumes "part_ok (part_image m d)"
  shows "image_url_source (JStr (''data:'' @ m @ '';base64,'' @ d))
    = Some (JObj [(''type'', JStr ''base64''), (''media_type'', JStr m), (''data'', JStr d)])"
proof -
  let ?u = "''data:'' @ m @ '';base64,'' @ d"
  have u: "?u = (''data:'' @ m @ '';base64'') @ CHR '','' # d" by simp
  have nc: "CHR '','' \<notin> set (''data:'' @ m @ '';base64'')" using assms by simp
  have h: "py_before (CHR '','') ?u = ''data:'' @ m @ '';base64''" "py_after (CHR '','') ?u = d"
    unfolding u by (rule before_append [OF nc])+
  have m: "py_before (CHR '';'') (drop 5 (''data:'' @ m @ '';base64'')) = m"
    using before_append(1) [of "CHR '';''" m "''base64''"] assms by simp
  have c: "py_contains ?u '';base64,''" using contains_middle [of "''data:'' @ m" "'';base64,''" d] by simp
  have s: "py_startswith ?u ''data:''" by (simp add: py_startswith_def)
  have ne: "?u \<noteq> []" "m \<noteq> []" "d \<noteq> []" using assms by simp_all
  show ?thesis unfolding image_url_source_def json.case(5) Let_def h m by (simp only: c s ne) simp
qed

lemma part_to_openai: "part_ok p \<Longrightarrow> content_blocks repr [part_json p] = Inr [openai_part p]"
  by (cases p) (simp_all add: text_block_def image_block_def dict_get_none_def py_or_def py_text_def)

lemma parts_to_openai: "list_all part_ok ps \<Longrightarrow> content_blocks repr (map part_json ps) = Inr (map openai_part ps)"
proof (induction ps)
  case (Cons p ps)
  with part_to_openai [of p repr] show ?case by (cases p) (auto simp: bind_result_eq_Inr)
qed simp

lemma parts_to_anthropic: "list_all part_ok ps \<Longrightarrow> anthropic_blocks (map openai_part ps) = map part_json ps"
proof (induction ps)
  case (Cons p ps)
  then show ?case
    by (cases p) (use data_url_source in \<open>simp_all add: text_block_def dict_get_none_def py_or_def image_url_of_def\<close>)
qed simp

lemma content_roundtrip:
  assumes "content_ok c"
  obtains v where "anthropic_content_to_openai repr (content_json c) = Inr v" and "content_to_anthropic v = content_json c"
  using assms
  by (cases c) (auto simp: anthropic_content_to_openai_def parts_to_openai parts_to_anthropic content_to_anthropic_def py_or_def)

section \<open>Requests\<close>

definition client_message :: "string \<times> content \<Rightarrow> json" where
  "client_message m = chat_message (fst m) (content_json (snd m))"

definition message_ok :: "string \<times> content \<Rightarrow> bool" where
  "message_ok m \<longleftrightarrow> fst m \<in> {''user'', ''assistant''} \<and> content_ok (snd m)"

lemma messages_roundtrip:
  "list_all message_ok ms \<Longrightarrow> \<exists>vs. chat_messages repr (map client_message ms) = Inr vs
    \<and> split_anthropic vs = Inr ([], map client_message ms)"
proof (induction ms)
  case (Cons m ms)
  then obtain vs where v: "chat_messages repr (map client_message ms) = Inr vs"
    "split_anthropic vs = Inr ([], map client_message ms)" by auto
  obtain role c where m: "m = (role, c)" "role = ''user'' \<or> role = ''assistant''" "content_ok c"
    using Cons.prems by (cases m) (auto simp: message_ok_def)
  obtain w where w: "anthropic_content_to_openai repr (content_json c) = Inr w" "content_to_anthropic w = content_json c"
    using content_roundtrip [OF m(3)] by blast
  have cm: "client_message m = JObj [(''role'', JStr role), (''content'', content_json c)]"
    by (simp add: m(1) client_message_def chat_message_def)
  from m(2) show ?case
    by (elim disjE) (simp_all add: cm chat_message_def dict_get_none_def py_or_def v w need_obj_def Let_def)
qed simp

definition client_request :: "dict \<Rightarrow> string option \<Rightarrow> (string \<times> content) list \<Rightarrow> int \<Rightarrow> bool" where
  \<comment> \<open>an Anthropic request with a plain system prompt or none\<close>
  "client_request p sys ms limit \<longleftrightarrow>
     dict_get p ''system'' = map_option JStr sys \<and> sys \<noteq> Some []
     \<and> dict_get p ''messages'' = Some (JList (map client_message ms)) \<and> list_all message_ok ms
     \<and> dict_get p ''max_tokens'' = Some (JInt limit)"

definition openai_request :: "dict \<Rightarrow> json list \<Rightarrow> dict" where
  \<comment> \<open>what the relay makes of it, given the converted messages\<close>
  "openai_request payload msgs =
     (let out1 = copy_field payload ''stop_sequences'' ''stop''
                    (copy_field payload ''top_p'' ''top_p''
                      (copy_field payload ''temperature'' ''temperature''
                        (copy_field payload ''max_tokens'' ''max_tokens''
                          [(''model'', dict_get_none payload ''model''), (''messages'', JList msgs)])));
          out2 = (if dict_has payload ''stream''
                  then dict_set out1 ''stream'' (JBool (truthy (dict_get_none payload ''stream''))) else out1)
      in if truthy (dict_get_none out2 ''stream'')
         then dict_set out2 ''stream_options'' (JObj [(''include_usage'', JBool True)]) else out2)"

lemma to_openai_request:
  assumes "system_messages repr (dict_get_none p ''system'') = Inr sys"
    and "dict_get p ''messages'' = Some (JList xs)" and "chat_messages repr xs = Inr ms"
  shows "anthropic_to_openai_payload repr p = Inr (openai_request p (sys @ ms))"
proof -
  have "iter_json (py_or (dict_get_none p ''messages'') (JList [])) = Inr xs"
    using assms(2) by (simp add: dict_get_none_def py_or_def)
  with assms(1,3) show ?thesis by (simp add: anthropic_to_openai_payload_def openai_request_def Let_def)
qed

lemma copy_field_get: "dict_get (copy_field p a b out) k = (if k = b \<and> dict_has p a then dict_get p a else dict_get out k)"
  by (auto simp: copy_field_def dict_get_set dict_has_def dict_get_none_def)

lemma if_set_get: "dict_get (if c then dict_set d k v else d) j = (if c \<and> j = k then Some v else dict_get d j)"
  by (simp add: dict_get_set)

lemma has_iff: "(if dict_has p a then dict_get p a else None) = dict_get p a"
  by (simp add: dict_has_def)

lemma openai_request_get:
  "dict_get (openai_request p msgs) ''messages'' = Some (JList msgs)"
  "dict_get (openai_request p msgs) ''max_tokens'' = dict_get p ''max_tokens''"
  "dict_get (openai_request p msgs) ''temperature'' = dict_get p ''temperature''"
  "dict_get (openai_request p msgs) ''top_p'' = dict_get p ''top_p''"
  "dict_get (openai_request p msgs) ''stop'' = dict_get p ''stop_sequences''"
  "dict_get (openai_request p msgs) ''top_k'' = None"
  "dict_get (openai_request p msgs) ''stop_sequences'' = None"
  "dict_get (openai_request p msgs) ''max_completion_tokens'' = None"
  unfolding openai_request_def Let_def if_set_get
  by (simp_all add: copy_field_get dict_has_def)

lemma copy_present_get:
  "distinct ks \<Longrightarrow> dict_get (copy_present p (map (\<lambda>k. (k, k)) ks) d) k
    = (if k \<in> set ks \<and> dict_has p k then dict_get p k else dict_get d k)"
  by (induction ks arbitrary: d)
    (auto simp: copy_present_def dict_get_set dict_has_def split: option.splits)

lemma to_anthropic_get:
  assumes "dict_get q ''messages'' = Some (JList vs)" and "split_anthropic vs = Inr (sys, out)"
    and "dict_get q ''stop_sequences'' = None" and "dict_get q ''max_completion_tokens'' = None"
    and "dict_get q ''max_tokens'' = Some (JInt limit)"
  shows "\<exists>body. to_anthropic q = Inr body \<and> dict_get body ''messages'' = Some (JList out)
    \<and> dict_get body ''max_tokens'' = Some (JInt limit)
    \<and> dict_get body ''system'' = (if sys = [] then None else Some (JStr (py_join event_separator sys)))
    \<and> (\<forall>k \<in> {''temperature'', ''top_p'', ''top_k''}. dict_get body k = dict_get q k)
    \<and> dict_get body ''stop_sequences'' = map_option stop_list (dict_get q ''stop'')"
proof -
  let ?ks = "[''temperature'', ''top_p'', ''top_k'', ''stop_sequences'']"
  define b0 where "b0 = [(''messages'', JList out), (''max_tokens'', openai_chat_token_limit (JObj q) (JInt 1024))]"
  define b1 where "b1 = (if sys \<noteq> [] then dict_set b0 ''system'' (JStr (py_join event_separator sys)) else b0)"
  define b2 where "b2 = copy_present q (map (\<lambda>k. (k, k)) ?ks) b1"
  define b3 where "b3 = (if dict_has q ''stop'' \<and> \<not> dict_has b2 ''stop_sequences''
    then dict_set b2 ''stop_sequences'' (stop_list (dict_get_none q ''stop'')) else b2)"
  have lim: "openai_chat_token_limit (JObj q) (JInt 1024) = JInt limit"
    using assms(4,5) by (simp add: openai_chat_token_limit_def dict_get_none_def)
  have g1: "dict_get b1 k = (if sys \<noteq> [] \<and> k = ''system'' then Some (JStr (py_join event_separator sys))
      else dict_get [(''messages'', JList out), (''max_tokens'', JInt limit)] k)" for k
    unfolding b1_def if_set_get b0_def lim by (rule refl)
  have g2: "dict_get b2 k = (if k \<in> set ?ks \<and> dict_has q k then dict_get q k else dict_get b1 k)" for k
    unfolding b2_def by (rule copy_present_get) simp
  have ns: "\<not> dict_has b2 ''stop_sequences''" unfolding dict_has_def g2 g1 using assms(3) by simp
  have g3: "dict_get b3 k = (if dict_has q ''stop'' \<and> k = ''stop_sequences'' then Some (stop_list (dict_get_none q ''stop''))
      else dict_get b2 k)" for k
    unfolding b3_def if_set_get using ns by simp
  have "iter_json (py_or (dict_get_none q ''messages'') (JList [])) = Inr vs"
    using assms(1) by (simp add: dict_get_none_def py_or_def)
  then have "to_anthropic q = Inr b3"
    by (simp only: to_anthropic_def Let_def assms(2) bind_result_simps prod.case b3_def b2_def b1_def b0_def)
  moreover have "dict_get b3 k = (if k = ''messages'' then Some (JList out) else Some (JInt limit))"
    if "k \<in> {''messages'', ''max_tokens''}" for k
    using that unfolding g3 g2 g1 by auto
  moreover have "dict_get b3 ''system'' = (if sys = [] then None else Some (JStr (py_join event_separator sys)))"
    unfolding g3 g2 g1 by simp
  moreover have "dict_get b3 k = dict_get q k" if "k \<in> {''temperature'', ''top_p'', ''top_k''}" for k
    using that unfolding g3 g2 g1 by (auto simp: dict_has_def)
  moreover have "dict_get b3 ''stop_sequences'' = map_option stop_list (dict_get q ''stop'')"
    unfolding g3 g2 g1 using assms(3) by (auto simp: dict_has_def dict_get_none_def)
  ultimately show ?thesis by (intro exI [of _ b3]) simp
qed

text \<open>
  Claim C23. An Anthropic request reaches an Anthropic upstream as the client wrote it: the messages with
  their texts and base64 images, a plain system prompt, the token limit, temperature, nucleus
  and stop sequences come back unchanged from the two conversions. \<open>top_k\<close>, which the upstream
  understands, is lost.
\<close>

theorem anthropic_passthrough:
  assumes "client_request p sys ms limit" and "\<forall>v. dict_get p ''stop_sequences'' = Some v \<longrightarrow> as_list v \<noteq> None"
  shows "\<exists>body. bind_result (anthropic_to_openai_payload repr p) to_anthropic = Inr body
    \<and> (\<forall>k \<in> {''messages'', ''system'', ''max_tokens'', ''temperature'', ''top_p'', ''stop_sequences''}. dict_get body k = dict_get p k)
    \<and> dict_get body ''top_k'' = None"
proof -
  have p: "dict_get p ''system'' = map_option JStr sys" "sys \<noteq> Some []" "list_all message_ok ms"
      "dict_get p ''messages'' = Some (JList (map client_message ms))" "dict_get p ''max_tokens'' = Some (JInt limit)"
    using assms(1) by (simp_all add: client_request_def)
  obtain vs where v: "chat_messages repr (map client_message ms) = Inr vs"
    "split_anthropic vs = Inr ([], map client_message ms)" using messages_roundtrip [OF p(3)] by blast
  define sv where "sv = (case sys of None \<Rightarrow> [] | Some t \<Rightarrow> [chat_message ''system'' (JStr t)])"
  have s: "system_messages repr (dict_get_none p ''system'') = Inr sv"
    using p(1,2) by (cases sys) (simp_all add: sv_def system_messages_def dict_get_none_def)
  define q where "q = openai_request p (sv @ vs)"
  have q: "anthropic_to_openai_payload repr p = Inr q" unfolding q_def by (rule to_openai_request [OF s p(4) v(1)])
  have sp: "split_anthropic (sv @ vs) = Inr (case sys of None \<Rightarrow> [] | Some t \<Rightarrow> [t], map client_message ms)"
    using v(2) by (cases sys) (simp_all add: sv_def chat_message_def need_obj_def dict_get_none_def)
  obtain body where b: "to_anthropic q = Inr body" "dict_get body ''messages'' = Some (JList (map client_message ms))"
    "dict_get body ''max_tokens'' = Some (JInt limit)"
    "dict_get body ''system'' = (if (case sys of None \<Rightarrow> [] | Some t \<Rightarrow> [t]) = [] then None
       else Some (JStr (py_join event_separator (case sys of None \<Rightarrow> [] | Some t \<Rightarrow> [t]))))"
    "\<forall>k \<in> {''temperature'', ''top_p'', ''top_k''}. dict_get body k = dict_get q k"
    "dict_get body ''stop_sequences'' = map_option stop_list (dict_get q ''stop'')"
    using to_anthropic_get [of q "sv @ vs" "case sys of None \<Rightarrow> [] | Some t \<Rightarrow> [t]" "map client_message ms" limit]
    by (auto simp: q_def openai_request_get p(5) sp)
  have "dict_get body ''system'' = dict_get p ''system''" using b(4) p(1) by (cases sys) simp_all
  moreover have "dict_get body ''stop_sequences'' = dict_get p ''stop_sequences''"
  proof (cases "dict_get p ''stop_sequences''")
    case (Some v)
    then have "as_list v \<noteq> None" using assms(2) by blast
    then have "stop_list v = v" by (cases v) (simp_all add: stop_list_def)
    with Some b(6) show ?thesis by (simp add: q_def openai_request_get)
  qed (use b(6) in \<open>simp add: q_def openai_request_get\<close>)
  ultimately show ?thesis
    using b p q by (intro exI [of _ body]) (simp add: q_def openai_request_get)
qed

text \<open>
  A system prompt that the client gives as content blocks is lost on the way to an Anthropic
  upstream: the relay forwards it as a message with block content, and the adapter keeps only
  system messages that are plain text.
\<close>

theorem block_system_dropped:
  assumes "dict_get p ''system'' = Some (JList (map part_json ps))" and "list_all part_ok ps"
    and "dict_get p ''messages'' = Some (JList (map client_message ms))" and "list_all message_ok ms"
    and "dict_get p ''max_tokens'' = Some (JInt limit)"
  shows "\<exists>body. bind_result (anthropic_to_openai_payload repr p) to_anthropic = Inr body
    \<and> dict_get body ''messages'' = dict_get p ''messages'' \<and> dict_get body ''system'' = None"
proof -
  obtain vs where v: "chat_messages repr (map client_message ms) = Inr vs"
    "split_anthropic vs = Inr ([], map client_message ms)" using messages_roundtrip [OF assms(4)] by blast
  define sv where "sv = (if ps = [] then [] else [chat_message ''system'' (JList (map openai_part ps))])"
  have s: "system_messages repr (dict_get_none p ''system'') = Inr sv"
    using assms(1) parts_to_openai [OF assms(2), of repr]
    by (simp add: sv_def system_messages_def dict_get_none_def anthropic_content_to_openai_def)
  define q where "q = openai_request p (sv @ vs)"
  have q: "anthropic_to_openai_payload repr p = Inr q" unfolding q_def by (rule to_openai_request [OF s assms(3) v(1)])
  have sp: "split_anthropic (sv @ vs) = Inr ([], map client_message ms)"
    using v(2) by (simp add: sv_def chat_message_def need_obj_def dict_get_none_def)
  obtain body where "to_anthropic q = Inr body" "dict_get body ''messages'' = Some (JList (map client_message ms))"
    "dict_get body ''system'' = None"
    using to_anthropic_get [of q "sv @ vs" "[]" "map client_message ms" limit]
    by (auto simp: q_def openai_request_get assms(5) sp)
  with q assms(3) show ?thesis by simp
qed

section \<open>Examples\<close>

definition demo_turns :: "(string \<times> content) list" where
  "demo_turns = [(''user'', parts [part_text ''see'', part_image ''image/png'' ''QUJD'']), (''assistant'', plain ''ok'')]"

definition demo_client_body :: "json \<Rightarrow> dict" where
  "demo_client_body sys = [(''model'', JStr ''claude''), (''system'', sys), (''messages'', JList (map client_message demo_turns)),
     (''max_tokens'', JInt 64), (''top_k'', JInt 5), (''stop_sequences'', JList [JStr ''END''])]"

lemma demo_turns_ok: "list_all message_ok demo_turns"
  by (simp add: demo_turns_def message_ok_def)

theorem anthropic_passthrough_witness:
  "\<exists>body. bind_result (anthropic_to_openai_payload (\<lambda>v. []) (demo_client_body (JStr ''be brief''))) to_anthropic = Inr body
    \<and> dict_get body ''system'' = Some (JStr ''be brief'') \<and> dict_get body ''stop_sequences'' = Some (JList [JStr ''END''])
    \<and> dict_get body ''top_k'' = None"
proof -
  have c: "client_request (demo_client_body (JStr ''be brief'')) (Some ''be brief'') demo_turns 64"
    using demo_turns_ok by (simp add: client_request_def demo_client_body_def)
  have s: "\<forall>v. dict_get (demo_client_body (JStr ''be brief'')) ''stop_sequences'' = Some v \<longrightarrow> as_list v \<noteq> None"
    by (simp add: demo_client_body_def)
  have g: "dict_get (demo_client_body (JStr ''be brief'')) ''system'' = Some (JStr ''be brief'')"
      "dict_get (demo_client_body (JStr ''be brief'')) ''stop_sequences'' = Some (JList [JStr ''END''])"
    by (simp_all add: demo_client_body_def)
  from anthropic_passthrough [OF c s, of "\<lambda>v. []"] obtain body where
    "bind_result (anthropic_to_openai_payload (\<lambda>v. []) (demo_client_body (JStr ''be brief''))) to_anthropic = Inr body"
    "dict_get body ''system'' = dict_get (demo_client_body (JStr ''be brief'')) ''system''"
    "dict_get body ''stop_sequences'' = dict_get (demo_client_body (JStr ''be brief'')) ''stop_sequences''"
    "dict_get body ''top_k'' = None" by auto
  then show ?thesis unfolding g by blast
qed

theorem block_system_dropped_witness:
  "\<exists>body. bind_result (anthropic_to_openai_payload (\<lambda>v. []) (demo_client_body (JList [part_json (part_text ''be brief'')]))) to_anthropic
      = Inr body \<and> dict_get body ''system'' = None"
proof -
  let ?p = "demo_client_body (JList (map part_json [part_text ''be brief'']))"
  have "dict_get ?p ''system'' = Some (JList (map part_json [part_text ''be brief'']))"
    "dict_get ?p ''messages'' = Some (JList (map client_message demo_turns))" "dict_get ?p ''max_tokens'' = Some (JInt 64)"
    by (simp_all add: demo_client_body_def)
  with block_system_dropped [of ?p "[part_text ''be brief'']" demo_turns 64 "\<lambda>v. []"] demo_turns_ok
  show ?thesis by auto
qed

end
