(* ===== verification/Accounts.thy ===== *)
theory Accounts
  imports Api_Keys Smart_Embedding
begin

text \<open>
  Registration, login and OAuth: \<^verbatim>\<open>api/v1/auth.py\<close> with the tokens and keys of
  \<^verbatim>\<open>core/security.py\<close>. Password hashing (bcrypt), signing of tokens (JWT), drawn random texts and the
  calls to the identity providers are fields of the environment. The state adds to the session
  the table of linked identities and the sequences that number users and links; a handler that
  raises leaves the state it started from.
\<close>

section \<open>State and environment\<close>

record oauth_account =
  oa_id :: int
  oa_user_id :: int
  oa_provider :: string
  oa_provider_user_id :: string
  oa_email :: string

record accounts =
  ac_session :: session
  ac_oauth :: "oauth_account list"
  ac_seq_users :: int
  ac_seq_oauth :: int

record auth_env =
  ae_hash :: "string \<Rightarrow> string"
  ae_verify :: "string \<Rightarrow> string \<Rightarrow> bool"
    \<comment> \<open>plain text, hash\<close>
  ae_encode :: "dict \<Rightarrow> string"
  ae_decode :: "string \<Rightarrow> string + dict"
    \<comment> \<open>the claims of a valid token, or the text of the \<open>JWTError\<close>\<close>
  ae_expire_minutes :: int
  ae_nonce :: string
  ae_password :: string
    \<comment> \<open>two drawn texts\<close>
  ae_repr :: "json \<Rightarrow> string"
  ae_google :: "string \<times> string"
  ae_github :: "string \<times> string"
    \<comment> \<open>client id and secret\<close>
  ae_callback_base :: string
  ae_api_url :: string
  ae_website_url :: string
  ae_post :: "string \<Rightarrow> (string \<times> string) list \<Rightarrow> (string \<times> string) list \<Rightarrow> (int \<times> json option) option"
  ae_get :: "string \<Rightarrow> (string \<times> string) list \<Rightarrow> (int \<times> json option) option"
    \<comment> \<open>status and decoded body of the response, \<open>None\<close> when the call raises\<close>

section \<open>Tokens and keys\<close>

fun role_value :: "user_role \<Rightarrow> string" where
  "role_value role_user = ''user''"
| "role_value role_admin = ''admin''"

definition timestamp_in :: "datetime \<Rightarrow> int \<Rightarrow> json" where
  \<comment> \<open>the \<open>exp\<close> claim for a number of minutes from now\<close>
  "timestamp_in now minutes = JInt (timestamp_int (now + minutes * 60 * 1000000))"

definition create_access_token :: "auth_env \<Rightarrow> datetime \<Rightarrow> int \<Rightarrow> string \<Rightarrow> int option \<Rightarrow> string" where
  "create_access_token env now subject role expires_minutes =
     ae_encode env [(''sub'', JStr (str_int subject)), (''role'', JStr role),
       (''exp'', timestamp_in now (case expires_minutes of None \<Rightarrow> ae_expire_minutes env
          | Some m \<Rightarrow> if m = 0 then ae_expire_minutes env else m))]"

definition decode_token :: "auth_env \<Rightarrow> string \<Rightarrow> string + dict" where
  \<comment> \<open>the claims, or the text of the \<open>ValueError\<close>\<close>
  "decode_token env token = (case ae_decode env token of Inl e \<Rightarrow> Inl (''invalid token: '' @ e) | Inr p \<Rightarrow> Inr p)"

definition generate_api_key :: "(string \<Rightarrow> string) \<Rightarrow> string \<Rightarrow> string \<times> string \<times> string" where
  \<comment> \<open>from the drawn text: plain key, its first characters, its SHA-256\<close>
  "generate_api_key sha raw = (let plain = ''sk-'' @ raw in (plain, py_take 12 plain, sha plain))"

section \<open>Registration and login\<close>

record token_resp =
  tr_access_token :: string
  tr_role :: string

definition issue_token :: "auth_env \<Rightarrow> datetime \<Rightarrow> user \<Rightarrow> token_resp" where
  "issue_token env now u = \<lparr>tr_access_token = create_access_token env now (us_id u) (role_value (us_role u)) None,
     tr_role = role_value (us_role u)\<rparr>"

definition user_by_email :: "session \<Rightarrow> string \<Rightarrow> user option" where
  "user_by_email db email = find (\<lambda>u. us_email u = email) (users db)"

definition grant_signup_free_plan :: "datetime \<Rightarrow> session \<Rightarrow> user \<Rightarrow> session" where
  "grant_signup_free_plan now db u =
     (case find (\<lambda>p. pl_code p = ''free'' \<and> pl_active p) (plans db) of
        None \<Rightarrow> db
      | Some free \<Rightarrow> if pl_quota_cents free > 0 then fst (grant_subscription now db u free (Some ''signup-free'')) else db)"

definition new_user :: "accounts \<Rightarrow> string \<Rightarrow> string \<Rightarrow> user" where
  "new_user ac email password_hash = \<lparr>us_id = ac_seq_users ac, us_email = email, us_password_hash = password_hash,
     us_role = role_user, us_balance_cents = 0, us_status = user_active, us_oauth_provider = None, us_oauth_uid = None\<rparr>"

definition add_user :: "datetime \<Rightarrow> accounts \<Rightarrow> user \<Rightarrow> accounts" where
  \<comment> \<open>\<open>db.add(user)\<close>, \<open>flush\<close> and the free plan\<close>
  "add_user now ac u =
     (let db = ac_session ac in
      ac\<lparr>ac_session := grant_signup_free_plan now (db\<lparr>users := users db @ [u]\<rparr>) u, ac_seq_users := ac_seq_users ac + 1\<rparr>)"

definition register :: "auth_env \<Rightarrow> datetime \<Rightarrow> accounts \<Rightarrow> string \<Rightarrow> string \<Rightarrow> accounts \<times> token_resp result" where
  "register env now ac email password =
     (case user_by_email (ac_session ac) email of
        Some _ \<Rightarrow> (ac, Inl (http 400 ''email already registered''))
      | None \<Rightarrow>
          (let u = new_user ac email (ae_hash env password) in
           (add_user now ac u, Inr (issue_token env now u))))"

definition login :: "auth_env \<Rightarrow> datetime \<Rightarrow> accounts \<Rightarrow> string \<Rightarrow> string \<Rightarrow> token_resp result" where
  "login env now ac email password =
     (case user_by_email (ac_session ac) email of
        None \<Rightarrow> Inl (http 401 ''invalid credentials'')
      | Some u \<Rightarrow>
          if \<not> ae_verify env password (us_password_hash u) then Inl (http 401 ''invalid credentials'')
          else if us_status u \<noteq> user_active then Inl (http 403 ''account disabled'')
          else Inr (issue_token env now u))"

definition me :: "auth_env \<Rightarrow> session \<Rightarrow> string option \<Rightarrow> user result" where
  "me env db authorization = get_current_user (decode_token env) db authorization"

section \<open>OAuth: configuration and URLs\<close>

datatype oauth_failure = oauth_error string | oauth_http http_error
  \<comment> \<open>\<open>OAuthError\<close>, or an exception that the handler does not catch\<close>

type_synonym 'a oauth = "oauth_failure + 'a"

definition unexpected :: "'a oauth" where
  "unexpected = Inl (oauth_http internal_error)"

record oauth_provider_config =
  op_client_id :: string
  op_client_secret :: string
  op_auth_url :: string
  op_token_url :: string
  op_scope :: string

definition configured :: "string \<Rightarrow> oauth_provider_config \<Rightarrow> oauth_provider_config oauth" where
  "configured provider cfg =
     (if op_client_id cfg = [] \<or> op_client_secret cfg = [] then Inl (oauth_error (provider @ '' oauth is not configured''))
      else Inr cfg)"

definition provider_config :: "auth_env \<Rightarrow> string \<Rightarrow> oauth_provider_config oauth" where
  "provider_config env provider =
     (if provider = ''google''
      then configured provider \<lparr>op_client_id = fst (ae_google env), op_client_secret = snd (ae_google env),
             op_auth_url = ''https://accounts.google.com/o/oauth2/v2/auth'',
             op_token_url = ''https://oauth2.googleapis.com/token'', op_scope = ''openid email profile''\<rparr>
      else if provider = ''github''
      then configured provider \<lparr>op_client_id = fst (ae_github env), op_client_secret = snd (ae_github env),
             op_auth_url = ''https://github.com/login/oauth/authorize'',
             op_token_url = ''https://github.com/login/oauth/access_token'', op_scope = ''read:user user:email''\<rparr>
      else Inl (oauth_http (http 404 ''unsupported oauth provider'')))"

definition url_safe :: "char \<Rightarrow> bool" where
  "url_safe c \<longleftrightarrow> (let n = of_char c :: nat in 48 \<le> n \<and> n \<le> 57 \<or> 65 \<le> n \<and> n \<le> 90 \<or> 97 \<le> n \<and> n \<le> 122)
     \<or> c \<in> {CHR ''_'', CHR ''.'', CHR ''-'', CHR ''~''}"

definition hex_upper :: "nat \<Rightarrow> char" where
  "hex_upper n = (if n < 10 then char_of (48 + n) else char_of (55 + n))"

definition quote_chr :: "char \<Rightarrow> string" where
  "quote_chr c =
     (let n = of_char c :: nat in
      if url_safe c then [c] else if c = CHR '' '' then ''+''
      else [CHR ''%'', hex_upper (n div 16), hex_upper (n mod 16)])"

definition urlencode :: "(string \<times> string) list \<Rightarrow> string" where
  "urlencode params = py_join ''&''
     (map (\<lambda>(k, v). concat (map quote_chr k) @ ''='' @ concat (map quote_chr v)) params)"

definition callback_url :: "auth_env \<Rightarrow> string \<Rightarrow> string" where
  "callback_url env provider =
     py_rstrip_chr (CHR ''/'') (or_text (Some (ae_callback_base env)) (ae_api_url env))
     @ ''/api/v1/auth/oauth/'' @ provider @ ''/callback''"

definition website_oauth_url :: "auth_env \<Rightarrow> (string \<times> string) list \<Rightarrow> string" where
  "website_oauth_url env params = py_rstrip_chr (CHR ''/'') (ae_website_url env) @ ''/login/oauth#'' @ urlencode params"

definition encode_oauth_state :: "auth_env \<Rightarrow> datetime \<Rightarrow> string \<Rightarrow> string" where
  "encode_oauth_state env now provider =
     ae_encode env [(''provider'', JStr provider), (''nonce'', JStr (ae_nonce env)), (''exp'', timestamp_in now 10)]"

definition verify_oauth_state :: "auth_env \<Rightarrow> string \<Rightarrow> string \<Rightarrow> unit oauth" where
  "verify_oauth_state env provider state =
     (case ae_decode env state of
        Inl e \<Rightarrow> Inl (oauth_error ''invalid oauth state'')
      | Inr payload \<Rightarrow>
          if dict_get_none payload ''provider'' \<noteq> JStr provider then Inl (oauth_error ''oauth state provider mismatch'')
          else Inr ())"

definition oauth_login :: "auth_env \<Rightarrow> datetime \<Rightarrow> string \<Rightarrow> string result" where
  \<comment> \<open>the URL of the redirection\<close>
  "oauth_login env now provider0 =
     (let provider = py_lower provider0 in
      case provider_config env provider of
        Inl (oauth_error e) \<Rightarrow> Inr (website_oauth_url env [(''error'', e)])
      | Inl (oauth_http e) \<Rightarrow> Inl e
      | Inr cfg \<Rightarrow>
          Inr (op_auth_url cfg @ ''?'' @ urlencode (
            [(''client_id'', op_client_id cfg), (''redirect_uri'', callback_url env provider),
             (''response_type'', ''code''), (''scope'', op_scope cfg), (''state'', encode_oauth_state env now provider)]
            @ (if provider = ''google'' then [(''access_type'', ''online''), (''prompt'', ''select_account'')] else []))))"

section \<open>OAuth: the identity provider\<close>

record oauth_profile =
  of_provider :: string
  of_provider_user_id :: string
  of_email :: string

definition json_or_error :: "string \<Rightarrow> (int \<times> json option) option \<Rightarrow> json oauth" where
  "json_or_error msg response =
     (case response of
        None \<Rightarrow> unexpected
      | Some (status, body) \<Rightarrow>
          if status \<ge> 400 then Inl (oauth_error msg)
          else case body of None \<Rightarrow> Inl (oauth_error msg) | Some data \<Rightarrow> Inr data)"

definition get_of :: "json \<Rightarrow> dict oauth" where
  \<comment> \<open>\<open>data.get\<close> exists\<close>
  "get_of data = (case data of JObj d \<Rightarrow> Inr d | _ \<Rightarrow> unexpected)"

definition exchange_code :: "auth_env \<Rightarrow> string \<Rightarrow> oauth_provider_config \<Rightarrow> string \<Rightarrow> string oauth" where
  "exchange_code env provider cfg code =
     bind_result (json_or_error ''oauth token exchange failed''
       (ae_post env (op_token_url cfg)
          [(''client_id'', op_client_id cfg), (''client_secret'', op_client_secret cfg), (''code'', code),
           (''grant_type'', ''authorization_code''), (''redirect_uri'', callback_url env provider)]
          [(''Accept'', ''application/json'')])) (\<lambda>data.
     bind_result (get_of data) (\<lambda>d.
       case dict_get_none d ''access_token'' of
         JStr t \<Rightarrow> if t = [] then Inl (oauth_error ''oauth provider did not return an access token'') else Inr t
       | _ \<Rightarrow> Inl (oauth_error ''oauth provider did not return an access token'')))"

definition google_profile :: "dict \<Rightarrow> oauth_profile oauth" where
  "google_profile d =
     (case (dict_get_none d ''sub'', dict_get_none d ''email'') of
        (JStr uid, JStr email) \<Rightarrow>
          if dict_get_none d ''email_verified'' \<in> {JBool True, JStr ''true''}
          then Inr \<lparr>of_provider = ''google'', of_provider_user_id = uid, of_email = py_lower email\<rparr>
          else Inl (oauth_error ''google account must expose a verified email'')
      | _ \<Rightarrow> Inl (oauth_error ''google account must expose a verified email''))"

definition fetch_google_profile :: "auth_env \<Rightarrow> string \<Rightarrow> oauth_profile oauth" where
  "fetch_google_profile env access_token =
     bind_result (json_or_error ''google profile fetch failed''
       (ae_get env ''https://openidconnect.googleapis.com/v1/userinfo'' [(''Authorization'', ''Bearer '' @ access_token)])) (\<lambda>data.
     bind_result (get_of data) google_profile)"

definition verified_items :: "json list \<Rightarrow> dict list" where
  "verified_items items = concat (map (\<lambda>item. case item of
     JObj d \<Rightarrow> if truthy (dict_get_none d ''verified'') \<and> truthy (dict_get_none d ''email'') then [d] else []
   | _ \<Rightarrow> []) items)"

definition pick_github_email :: "json list \<Rightarrow> string option" where
  "pick_github_email items =
     (let verified = verified_items items;
          selected = (case find (\<lambda>d. truthy (dict_get_none d ''primary'')) verified of
                        Some d \<Rightarrow> Some d | None \<Rightarrow> (case verified of [] \<Rightarrow> None | d # _ \<Rightarrow> Some d))
      in case selected of None \<Rightarrow> None | Some d \<Rightarrow> as_str (dict_get_none d ''email''))"

definition github_headers :: "string \<Rightarrow> (string \<times> string) list" where
  "github_headers access_token = [(''Accept'', ''application/vnd.github+json''),
     (''Authorization'', ''Bearer '' @ access_token), (''X-GitHub-Api-Version'', ''2022-11-28'')]"

definition fetch_github_profile :: "auth_env \<Rightarrow> string \<Rightarrow> oauth_profile oauth" where
  "fetch_github_profile env access_token =
     bind_result (json_or_error ''github profile fetch failed''
       (ae_get env ''https://api.github.com/user'' (github_headers access_token))) (\<lambda>user_data.
     bind_result (get_of user_data) (\<lambda>ud.
       let uid = dict_get_none ud ''id'' in
       if uid = JNull then Inl (oauth_error ''github account did not return a user id'')
       else bind_result (json_or_error ''github email fetch failed''
              (ae_get env ''https://api.github.com/user/emails'' (github_headers access_token))) (\<lambda>emails.
            case emails of
              JList items \<Rightarrow>
                (case or_text (pick_github_email items) [] of
                   [] \<Rightarrow> Inl (oauth_error ''github account must expose a verified email'')
                 | email \<Rightarrow> Inr \<lparr>of_provider = ''github'', of_provider_user_id = py_text (ae_repr env) uid,
                     of_email = py_lower email\<rparr>)
            | _ \<Rightarrow> Inl (oauth_error ''github account did not return email addresses''))))"

definition fetch_profile :: "auth_env \<Rightarrow> string \<Rightarrow> string \<Rightarrow> oauth_profile oauth" where
  "fetch_profile env provider access_token =
     (if provider = ''google'' then fetch_google_profile env access_token
      else if provider = ''github'' then fetch_github_profile env access_token
      else Inl (oauth_http (http 404 ''unsupported oauth provider'')))"

section \<open>OAuth: accounts\<close>

definition linked_account :: "accounts \<Rightarrow> oauth_profile \<Rightarrow> oauth_account option" where
  "linked_account ac pr = find (\<lambda>a. oa_provider a = of_provider pr \<and> oa_provider_user_id a = of_provider_user_id pr) (ac_oauth ac)"

definition link_account :: "oauth_profile \<Rightarrow> user \<Rightarrow> accounts \<Rightarrow> accounts" where
  "link_account pr u ac =
     (let ac1 = ac\<lparr>ac_oauth := ac_oauth ac @ [\<lparr>oa_id = ac_seq_oauth ac, oa_user_id = us_id u, oa_provider = of_provider pr,
                     oa_provider_user_id = of_provider_user_id pr, oa_email = of_email pr\<rparr>],
                   ac_seq_oauth := ac_seq_oauth ac + 1\<rparr>
      in if or_text (us_oauth_provider u) [] \<noteq> [] then ac1
         else ac1\<lparr>ac_session := upd_user (us_id u) (\<lambda>r. r\<lparr>us_oauth_provider := Some (of_provider pr),
                us_oauth_uid := Some (of_provider_user_id pr)\<rparr>) (ac_session ac1)\<rparr>)"

definition refreshed :: "accounts \<Rightarrow> user \<Rightarrow> user" where
  \<comment> \<open>\<open>db.refresh(user)\<close>\<close>
  "refreshed ac u = (case get_user (ac_session ac) (us_id u) of None \<Rightarrow> u | Some r \<Rightarrow> r)"

definition login_or_create_oauth_user :: "auth_env \<Rightarrow> datetime \<Rightarrow> accounts \<Rightarrow> oauth_profile \<Rightarrow> (accounts \<times> user) oauth" where
  "login_or_create_oauth_user env now ac pr =
     (case linked_account ac pr of
        Some account \<Rightarrow>
          (case get_user (ac_session ac) (oa_user_id account) of
             None \<Rightarrow> Inl (oauth_error ''account disabled'')
           | Some u \<Rightarrow>
               if us_status u \<noteq> user_active then Inl (oauth_error ''account disabled'')
               else Inr (ac\<lparr>ac_oauth := row_upd oa_id (oa_id account) (\<lambda>a. a\<lparr>oa_email := of_email pr\<rparr>) (ac_oauth ac)\<rparr>, u))
      | None \<Rightarrow>
          (case user_by_email (ac_session ac) (of_email pr) of
             Some u \<Rightarrow>
               if us_status u \<noteq> user_active then Inl (oauth_error ''account disabled'')
               else let ac' = link_account pr u ac in Inr (ac', refreshed ac' u)
           | None \<Rightarrow>
               (let u = new_user ac (of_email pr) (ae_hash env (ae_password env));
                    ac' = link_account pr u (add_user now ac u)
                in Inr (ac', refreshed ac' u))))"

definition oauth_user :: "auth_env \<Rightarrow> datetime \<Rightarrow> accounts \<Rightarrow> string \<Rightarrow> string option \<Rightarrow> string option \<Rightarrow> (accounts \<times> user) oauth" where
  \<comment> \<open>the body of the \<open>try\<close> block up to the token\<close>
  "oauth_user env now ac provider code state =
     (if or_text code [] = [] \<or> or_text state [] = [] then Inl (oauth_error ''missing oauth code or state'')
      else bind_result (verify_oauth_state env provider (or_text state [])) (\<lambda>_.
           bind_result (provider_config env provider) (\<lambda>cfg.
           bind_result (exchange_code env provider cfg (or_text code [])) (\<lambda>access_token.
           bind_result (fetch_profile env provider access_token) (\<lambda>profile.
             login_or_create_oauth_user env now ac profile)))))"

definition oauth_callback ::
    "auth_env \<Rightarrow> datetime \<Rightarrow> accounts \<Rightarrow> string \<Rightarrow> string option \<Rightarrow> string option \<Rightarrow> string option \<Rightarrow> string option
       \<Rightarrow> accounts \<times> string result" where
  "oauth_callback env now ac provider0 code state error error_description =
     (if or_text error [] \<noteq> []
      then (ac, Inr (website_oauth_url env [(''error'', or_text error_description (or_text error []))]))
      else case oauth_user env now ac (py_lower provider0) code state of
        Inl (oauth_error e) \<Rightarrow> (ac, Inr (website_oauth_url env [(''error'', e)]))
      | Inl (oauth_http e) \<Rightarrow> (ac, Inl e)
      | Inr (ac', u) \<Rightarrow>
          (ac', Inr (website_oauth_url env [(''access_token'', tr_access_token (issue_token env now u)),
             (''role'', role_value (us_role u))])))"

end
