(* ===== verification/Account_Laws.thy ===== *)
theory Account_Laws
  imports Accounts Ledger "HOL-Library.Countable"
begin

text \<open>
  Accounts: emails and linked identities stay unique, a new account starts with an empty wallet, the
  user's role and at most one free plan, a sign-in gives a token for exactly the account that
  the credentials, or a profile that the provider has verified, name, and tokens of one kind are not taken for the other.
\<close>

section \<open>Invariant\<close>

definition signup_grants :: "session \<Rightarrow> int \<Rightarrow> balance_tx list" where
  "signup_grants db uid = filter (\<lambda>t. tx_user_id t = uid \<and> tx_ref_id t = Some ''signup-free'') (balance_txs db)"

definition users_ok :: "int \<Rightarrow> session \<Rightarrow> bool" where
  \<comment> \<open>unique ids below the sequence, unique emails, a ledger that matches the wallets, no entry of a user who is
      not there yet, and at most one free plan each\<close>
  "users_ok n db \<longleftrightarrow> distinct (map us_id (users db)) \<and> distinct (map us_email (users db))
     \<and> (\<forall>u \<in> set (users db). us_id u < n) \<and> ledger_ok db
     \<and> (\<forall>t \<in> set (balance_txs db). tx_user_id t < n) \<and> (\<forall>uid. length (signup_grants db uid) \<le> 1)"

definition links_ok :: "accounts \<Rightarrow> bool" where
  \<comment> \<open>one link per identity, each to a user that exists\<close>
  "links_ok ac \<longleftrightarrow> distinct (map (\<lambda>a. (oa_provider a, oa_provider_user_id a)) (ac_oauth ac))
     \<and> distinct (map oa_id (ac_oauth ac)) \<and> (\<forall>a \<in> set (ac_oauth ac). oa_id a < ac_seq_oauth ac)
     \<and> (\<forall>a \<in> set (ac_oauth ac). oa_user_id a \<in> us_id ` set (users (ac_session ac)))"

definition accounts_ok :: "accounts \<Rightarrow> bool" where
  "accounts_ok ac \<longleftrightarrow> users_ok (ac_seq_users ac) (ac_session ac) \<and> links_ok ac"

lemma email_free: "user_by_email db email = None \<Longrightarrow> email \<notin> us_email ` set (users db)"
  by (auto simp: user_by_email_def find_None_iff)

lemma email_found: "user_by_email db email = Some u \<Longrightarrow> u \<in> set (users db) \<and> us_email u = email"
  by (auto simp: user_by_email_def find_Some_iff)

lemma signup_frame:
  "users (grant_signup_free_plan now db u) = users db"
  "\<exists>ts. balance_txs (grant_signup_free_plan now db u) = balance_txs db @ ts \<and> length ts \<le> 1
     \<and> (\<forall>t \<in> set ts. tx_user_id t = us_id u \<and> tx_balance_after t = us_balance_cents u)"
proof -
  have "users (grant_signup_free_plan now db u) = users db
    \<and> (\<exists>ts. balance_txs (grant_signup_free_plan now db u) = balance_txs db @ ts \<and> length ts \<le> 1
     \<and> (\<forall>t \<in> set ts. tx_user_id t = us_id u \<and> tx_balance_after t = us_balance_cents u))"
  proof (cases "grant_signup_free_plan now db u = db")
    case False
    then obtain free where f: "grant_signup_free_plan now db u = fst (grant_subscription now db u free (Some ''signup-free''))"
      by (auto simp: grant_signup_free_plan_def split: option.splits if_splits)
    obtain db' sub where g: "grant_subscription now db u free (Some ''signup-free'') = (db', sub)" by fastforce
    from grant_frame(9) [OF g] obtain nt where t: "balance_txs db' = balance_txs db @ [\<lparr>tx_user_id = us_id u, tx_type = tx_grant,
       tx_amount_cents = pl_quota_cents free, tx_balance_after = us_balance_cents u, tx_ref_id = Some ''signup-free'', tx_note = nt\<rparr>]"
      by blast
    with grant_frame(1) [OF g] show ?thesis unfolding f g fst_conv by simp
  qed simp
  then show "users (grant_signup_free_plan now db u) = users db"
    and "\<exists>ts. balance_txs (grant_signup_free_plan now db u) = balance_txs db @ ts \<and> length ts \<le> 1
     \<and> (\<forall>t \<in> set ts. tx_user_id t = us_id u \<and> tx_balance_after t = us_balance_cents u)" by blast+
qed

lemma add_user_simps [simp]:
  "users (ac_session (add_user now ac u)) = users (ac_session ac) @ [u]"
  "ac_oauth (add_user now ac u) = ac_oauth ac" "ac_seq_oauth (add_user now ac u) = ac_seq_oauth ac"
  "ac_seq_users (add_user now ac u) = ac_seq_users ac + 1"
  by (simp_all add: add_user_def Let_def signup_frame)

lemma new_user_simps [simp]:
  "us_id (new_user ac email h) = ac_seq_users ac" "us_email (new_user ac email h) = email"
  "us_balance_cents (new_user ac email h) = 0" "us_role (new_user ac email h) = role_user"
  "us_status (new_user ac email h) = user_active" "us_oauth_provider (new_user ac email h) = None"
  "us_password_hash (new_user ac email h) = h"
  by (simp_all add: new_user_def)

lemma add_user_txs:
  "\<exists>ts. balance_txs (ac_session (add_user now ac u)) = balance_txs (ac_session ac) @ ts \<and> length ts \<le> 1
     \<and> (\<forall>t \<in> set ts. tx_user_id t = us_id u \<and> tx_balance_after t = us_balance_cents u)"
  using signup_frame(2) [of now "(ac_session ac)\<lparr>users := users (ac_session ac) @ [u]\<rparr>" u]
  by (simp add: add_user_def Let_def)

lemma add_user_ok:
  assumes "accounts_ok ac" and "user_by_email (ac_session ac) email = None"
  shows "accounts_ok (add_user now ac (new_user ac email h))"
proof -
  let ?u = "new_user ac email h" let ?db = "ac_session ac"
  let ?db' = "ac_session (add_user now ac ?u)"
  have ok: "distinct (map us_id (users ?db))" "distinct (map us_email (users ?db))" "\<forall>v \<in> set (users ?db). us_id v < ac_seq_users ac"
      "ledger_ok ?db" "\<forall>t \<in> set (balance_txs ?db). tx_user_id t < ac_seq_users ac" "\<forall>uid. length (signup_grants ?db uid) \<le> 1"
      "links_ok ac"
    using assms(1) by (auto simp: accounts_ok_def users_ok_def)
  obtain ts where ts: "balance_txs ?db' = balance_txs ?db @ ts" "length ts \<le> 1"
      "\<forall>t \<in> set ts. tx_user_id t = ac_seq_users ac \<and> tx_balance_after t = 0"
    using add_user_txs [of now ac ?u] by auto
  have old: "filter (\<lambda>t. tx_user_id t = ac_seq_users ac \<and> P t) (balance_txs ?db) = []" for P
    using ok(5) by (auto simp: filter_empty_conv)
  have new: "uid \<noteq> ac_seq_users ac \<Longrightarrow> filter (\<lambda>t. tx_user_id t = uid \<and> P t) ts = []" for uid P
    using ts(3) by (auto simp: filter_empty_conv)
  have "ledger_ok ?db'"
    unfolding ledger_ok_def
  proof
    fix v assume "v \<in> set (users ?db')"
    then consider "v \<in> set (users ?db)" "us_id v \<noteq> ac_seq_users ac" | "v = ?u" using ok(3) by auto
    then show "txs_of ?db' (us_id v) = [] \<or> tx_balance_after (last (txs_of ?db' (us_id v))) = us_balance_cents v"
    proof cases
      case 1
      then have "txs_of ?db' (us_id v) = txs_of ?db (us_id v)"
        using new [of "us_id v" "\<lambda>_. True"] ts(1) by (simp add: txs_of_def)
      with 1(1) ok(4) show ?thesis by (simp add: ledger_ok_def)
    next
      case 2
      then have "txs_of ?db' (us_id v) = filter (\<lambda>t. tx_user_id t = ac_seq_users ac) ts"
        using old [of "\<lambda>_. True"] ts(1) by (simp add: txs_of_def)
      also have "\<dots> = ts" using ts(3) by simp
      finally show ?thesis using 2 ts(3) by (cases "ts = []") simp_all
    qed
  qed
  moreover have "length (signup_grants ?db' uid) \<le> 1" for uid
  proof (cases "uid = ac_seq_users ac")
    case True
    have "length (signup_grants ?db' uid) \<le> length ts"
      using ts(1) True old [of "\<lambda>t. tx_ref_id t = Some ''signup-free''"] by (simp add: signup_grants_def)
    with ts(2) show ?thesis by simp
  next
    case False
    with ok(6) ts(1) new [OF False] show ?thesis by (simp add: signup_grants_def)
  qed
  moreover have "\<forall>t \<in> set (balance_txs ?db'). tx_user_id t < ac_seq_users ac + 1" using ok(5) ts(1,3) by fastforce
  moreover have "distinct (map us_id (users ?db'))" "\<forall>v \<in> set (users ?db'). us_id v < ac_seq_users ac + 1"
    using ok(1,3) by auto
  moreover have "distinct (map us_email (users ?db'))" using ok(2) email_free [OF assms(2)] by auto
  moreover have "links_ok (add_user now ac ?u)" using ok(7) by (auto simp: links_ok_def)
  ultimately show ?thesis by (simp add: accounts_ok_def users_ok_def)
qed

section \<open>Links\<close>

lemma touched_users_ok:
  assumes "users_ok n db" and "\<And>r. us_id (f r) = us_id r" and "\<And>r. us_email (f r) = us_email r"
    and "\<And>r. us_balance_cents (f r) = us_balance_cents r"
  shows "users_ok n (upd_user i f db)"
proof -
  let ?f = "\<lambda>r. if us_id r = i then f r else r"
  have u: "users (upd_user i f db) = map ?f (users db)" by (simp add: row_upd_def)
  have m: "us_id \<circ> ?f = us_id" "us_email \<circ> ?f = us_email" "us_balance_cents (?f r) = us_balance_cents r" for r
    using assms(2-4) by auto
  have t: "txs_of (upd_user i f db) uid = txs_of db uid" "signup_grants (upd_user i f db) uid = signup_grants db uid" for uid
    by (simp_all add: txs_of_def signup_grants_def)
  show ?thesis
    using assms(1) assms(2-4) unfolding users_ok_def ledger_ok_def t u
    by (auto simp: m)
qed

lemma link_account_simps:
  "ac_oauth (link_account pr u ac) = ac_oauth ac @ [\<lparr>oa_id = ac_seq_oauth ac, oa_user_id = us_id u, oa_provider = of_provider pr,
     oa_provider_user_id = of_provider_user_id pr, oa_email = of_email pr\<rparr>]"
  "ac_seq_oauth (link_account pr u ac) = ac_seq_oauth ac + 1" "ac_seq_users (link_account pr u ac) = ac_seq_users ac"
  "ac_session (link_account pr u ac) = (if or_text (us_oauth_provider u) [] \<noteq> [] then ac_session ac
     else upd_user (us_id u) (\<lambda>r. r\<lparr>us_oauth_provider := Some (of_provider pr), us_oauth_uid := Some (of_provider_user_id pr)\<rparr>) (ac_session ac))"
  by (simp_all add: link_account_def Let_def)

lemma link_account_ok:
  assumes "accounts_ok ac" and "linked_account ac pr = None" and "us_id u \<in> us_id ` set (users (ac_session ac))"
  shows "accounts_ok (link_account pr u ac)"
proof -
  have "users_ok (ac_seq_users ac) (ac_session (link_account pr u ac))"
    using assms(1) unfolding link_account_simps(4) by (auto simp: accounts_ok_def intro!: touched_users_ok)
  moreover have "map us_id (users (ac_session (link_account pr u ac))) = map us_id (users (ac_session ac))"
    unfolding link_account_simps(4) by (simp add: row_upd_ids)
  then have "us_id ` set (users (ac_session (link_account pr u ac))) = us_id ` set (users (ac_session ac))"
    by (metis list.set_map)
  moreover have "\<forall>a \<in> set (ac_oauth ac). (oa_provider a, oa_provider_user_id a) \<noteq> (of_provider pr, of_provider_user_id pr)"
    using assms(2) by (auto simp: linked_account_def find_None_iff)
  ultimately show ?thesis
    using assms(1,3) unfolding accounts_ok_def links_ok_def link_account_simps(1-3) by auto
qed

lemma relabelled_ok:
  assumes "accounts_ok ac"
  shows "accounts_ok (ac\<lparr>ac_oauth := row_upd oa_id i (\<lambda>a. a\<lparr>oa_email := e\<rparr>) (ac_oauth ac)\<rparr>)"
proof -
  have m: "map (\<lambda>a. (oa_provider a, oa_provider_user_id a)) (row_upd oa_id i (\<lambda>a. a\<lparr>oa_email := e\<rparr>) xs)
      = map (\<lambda>a. (oa_provider a, oa_provider_user_id a)) xs"
    "map oa_id (row_upd oa_id i (\<lambda>a. a\<lparr>oa_email := e\<rparr>) xs) = map oa_id xs" for xs
    by (rule row.map_upd, simp)+
  have s: "a \<in> set (row_upd oa_id i (\<lambda>a. a\<lparr>oa_email := e\<rparr>) xs) \<Longrightarrow> \<exists>b \<in> set xs. oa_id a = oa_id b \<and> oa_user_id a = oa_user_id b" for a xs
    by (auto simp: row_upd_def)
  show ?thesis using assms unfolding accounts_ok_def links_ok_def by (auto simp: m dest!: s)
qed

section \<open>Sign-in through an identity provider\<close>

lemma find_unique:
  "distinct (map f xs) \<Longrightarrow> x \<in> set xs \<Longrightarrow> find (\<lambda>y. f y = f x) xs = Some x"
  by (induction xs) auto

lemma linked_unique:
  assumes "links_ok ac" and "a \<in> set (ac_oauth ac)" and "oa_provider a = of_provider pr" "oa_provider_user_id a = of_provider_user_id pr"
  shows "linked_account ac pr = Some a"
  using find_unique [of "\<lambda>a. (oa_provider a, oa_provider_user_id a)" "ac_oauth ac" a] assms
  by (simp add: linked_account_def links_ok_def)

definition signed_in :: "accounts \<Rightarrow> oauth_profile \<Rightarrow> accounts \<Rightarrow> user \<Rightarrow> bool" where
  \<comment> \<open>the user is stored and active, holds the link of the identity, and is the one it was linked to or,
      without a link, the owner of the email; nobody else's row has changed; a new user is no administrator\<close>
  "signed_in ac pr ac' u \<longleftrightarrow>
     get_user (ac_session ac') (us_id u) = Some u \<and> us_status u = user_active
     \<and> map_option oa_user_id (linked_account ac' pr) = Some (us_id u)
     \<and> (case linked_account ac pr of Some a \<Rightarrow> oa_user_id a = us_id u | None \<Rightarrow> us_email u = of_email pr)
     \<and> (\<forall>i. i \<noteq> us_id u \<longrightarrow> get_user (ac_session ac') i = get_user (ac_session ac) i)
     \<and> (case get_user (ac_session ac) (us_id u) of
          Some old \<Rightarrow> us_role u = us_role old \<and> us_balance_cents u = us_balance_cents old \<and> us_password_hash u = us_password_hash old
        | None \<Rightarrow> us_role u = role_user \<and> us_balance_cents u = 0)"

lemma relinked_signed_in:
  assumes "accounts_ok ac" and "linked_account ac pr = Some a" and "get_user (ac_session ac) (oa_user_id a) = Some u"
    and "us_status u = user_active"
  shows "signed_in ac pr (ac\<lparr>ac_oauth := row_upd oa_id (oa_id a) (\<lambda>a. a\<lparr>oa_email := of_email pr\<rparr>) (ac_oauth ac)\<rparr>) u"
proof -
  let ?ac = "ac\<lparr>ac_oauth := row_upd oa_id (oa_id a) (\<lambda>a. a\<lparr>oa_email := of_email pr\<rparr>) (ac_oauth ac)\<rparr>"
  have i: "us_id u = oa_user_id a" using row.get_Some [OF assms(3)] by simp
  have a: "a \<in> set (ac_oauth ac)" "oa_provider a = of_provider pr" "oa_provider_user_id a = of_provider_user_id pr"
    using assms(2) by (auto simp: linked_account_def find_Some_iff)
  have "a\<lparr>oa_email := of_email pr\<rparr> \<in> set (ac_oauth ?ac)" using a(1) by (auto simp: row_upd_def image_iff)
  then have "linked_account ?ac pr = Some (a\<lparr>oa_email := of_email pr\<rparr>)"
    using relabelled_ok [OF assms(1), of "oa_id a" "of_email pr"] a(2,3)
    by (intro linked_unique) (simp_all add: accounts_ok_def)
  then show ?thesis using assms(2-4) i by (simp add: signed_in_def)
qed

lemma linked_signed_in:
  assumes "accounts_ok ac1" and "linked_account ac1 pr = None" and "linked_account ac pr = None"
    and "u \<in> set (users (ac_session ac1))" and "us_status u = user_active" and "us_email u = of_email pr"
    and "\<And>i. i \<noteq> us_id u \<Longrightarrow> get_user (ac_session ac1) i = get_user (ac_session ac) i"
    and "case get_user (ac_session ac) (us_id u) of Some old \<Rightarrow> old = u | None \<Rightarrow> us_role u = role_user \<and> us_balance_cents u = 0"
  shows "signed_in ac pr (link_account pr u ac1) (refreshed (link_account pr u ac1) u)"
proof -
  let ?ac = "link_account pr u ac1"
  have ok: "accounts_ok ?ac" using link_account_ok [OF assms(1,2)] assms(4) by blast
  have d: "distinct (map us_id (users (ac_session ac1)))" using assms(1) by (simp add: accounts_ok_def users_ok_def)
  have g1: "get_user (ac_session ac1) (us_id u) = Some u" by (rule row.get_unique [OF d assms(4)])
  define u' where "u' = (if or_text (us_oauth_provider u) [] \<noteq> [] then u
    else u\<lparr>us_oauth_provider := Some (of_provider pr), us_oauth_uid := Some (of_provider_user_id pr)\<rparr>)"
  have u': "us_id u' = us_id u" "us_email u' = us_email u" "us_status u' = us_status u" "us_role u' = us_role u"
      "us_balance_cents u' = us_balance_cents u" "us_password_hash u' = us_password_hash u"
    by (simp_all add: u'_def)
  have g: "get_user (ac_session ?ac) (us_id u) = Some u'"
    unfolding link_account_simps(4) u'_def using g1 by (simp add: row_get_upd)
  have r: "refreshed ?ac u = u'" using g by (simp add: refreshed_def)
  have o: "i \<noteq> us_id u \<Longrightarrow> get_user (ac_session ?ac) i = get_user (ac_session ac1) i" for i
    unfolding link_account_simps(4) by (simp add: row_get_upd)
  have l: "map_option oa_user_id (linked_account ?ac pr) = Some (us_id u)"
    using ok linked_unique [of ?ac "\<lparr>oa_id = ac_seq_oauth ac1, oa_user_id = us_id u, oa_provider = of_provider pr,
       oa_provider_user_id = of_provider_user_id pr, oa_email = of_email pr\<rparr>" pr]
    by (simp add: accounts_ok_def link_account_simps(1))
  show ?thesis
    unfolding signed_in_def r using g u' o l assms(3,5-8) by (auto split: option.splits)
qed

lemma new_user_fresh:
  assumes "accounts_ok ac"
  shows "get_user (ac_session ac) (ac_seq_users ac) = None"
  using assms by (auto simp: row.get_None accounts_ok_def users_ok_def)

lemma oauth_signed_in:
  assumes "accounts_ok ac" and "login_or_create_oauth_user env now ac pr = Inr (ac', u)"
  shows "accounts_ok ac' \<and> signed_in ac pr ac' u"
proof (cases "linked_account ac pr")
  case (Some a)
  then obtain v where v: "get_user (ac_session ac) (oa_user_id a) = Some v" "us_status v = user_active"
    and e: "ac' = ac\<lparr>ac_oauth := row_upd oa_id (oa_id a) (\<lambda>a. a\<lparr>oa_email := of_email pr\<rparr>) (ac_oauth ac)\<rparr>" "u = v"
    using assms(2) by (auto simp: login_or_create_oauth_user_def split: option.splits if_splits)
  show ?thesis using relinked_signed_in [OF assms(1) Some v] relabelled_ok [OF assms(1)] by (simp add: e)
next
  case none: None
  show ?thesis
  proof (cases "user_by_email (ac_session ac) (of_email pr)")
    case (Some v)
    have m: "v \<in> set (users (ac_session ac))" "us_email v = of_email pr" using email_found [OF Some] by auto
    have a: "us_status v = user_active" and e: "ac' = link_account pr v ac" "u = refreshed ac' v"
      using assms(2) none Some by (auto simp: login_or_create_oauth_user_def Let_def split: if_splits)
    have g: "get_user (ac_session ac) (us_id v) = Some v"
      using assms(1) m(1) by (auto simp: accounts_ok_def users_ok_def intro: row.get_unique)
    have "signed_in ac pr (link_account pr v ac) (refreshed (link_account pr v ac) v)"
      by (rule linked_signed_in [OF assms(1) none none m(1) a m(2)]) (simp_all add: g)
    moreover have "accounts_ok (link_account pr v ac)" by (rule link_account_ok [OF assms(1) none]) (use m in simp)
    ultimately show ?thesis by (simp add: e)
  next
    case None
    let ?v = "new_user ac (of_email pr) (ae_hash env (ae_password env))" let ?ac = "add_user now ac ?v"
    have ok: "accounts_ok ?ac" by (rule add_user_ok [OF assms(1) None])
    have e: "ac' = link_account pr ?v ?ac" "u = refreshed ac' ?v"
      using assms(2) none None by (auto simp: login_or_create_oauth_user_def Let_def)
    have l: "linked_account ?ac pr = None" using none by (simp add: linked_account_def)
    have "signed_in ac pr (link_account pr ?v ?ac) (refreshed (link_account pr ?v ?ac) ?v)"
      by (rule linked_signed_in [OF ok l none])
        (use new_user_fresh [OF assms(1)] in \<open>auto simp: row_get_append row.get_Cons row.get_Nil split: option.splits\<close>)
    moreover have "accounts_ok (link_account pr ?v ?ac)" by (rule link_account_ok [OF ok l]) simp
    ultimately show ?thesis by (simp add: e)
  qed
qed

definition verified_profile :: "auth_env \<Rightarrow> string \<Rightarrow> string \<Rightarrow> oauth_profile \<Rightarrow> bool" where
  \<comment> \<open>the identity provider, asked with the access token, vouches for the identity and for its email\<close>
  "verified_profile env provider token pr \<longleftrightarrow> of_provider pr = provider \<and>
     (if provider = ''google'' then
        \<exists>code d email. ae_get env ''https://openidconnect.googleapis.com/v1/userinfo'' [(''Authorization'', ''Bearer '' @ token)]
            = Some (code, Some (JObj d)) \<and> code < 400
          \<and> dict_get_none d ''sub'' = JStr (of_provider_user_id pr)
          \<and> dict_get_none d ''email_verified'' \<in> {JBool True, JStr ''true''}
          \<and> dict_get_none d ''email'' = JStr email \<and> of_email pr = py_lower email
      else provider = ''github'' \<and>
        (\<exists>code1 ud code2 items d email. ae_get env ''https://api.github.com/user'' (github_headers token) = Some (code1, Some (JObj ud))
          \<and> code1 < 400 \<and> dict_get_none ud ''id'' \<noteq> JNull \<and> of_provider_user_id pr = py_text (ae_repr env) (dict_get_none ud ''id'')
          \<and> ae_get env ''https://api.github.com/user/emails'' (github_headers token) = Some (code2, Some (JList items)) \<and> code2 < 400
          \<and> JObj d \<in> set items \<and> truthy (dict_get_none d ''verified'')
          \<and> dict_get_none d ''email'' = JStr email \<and> email \<noteq> [] \<and> of_email pr = py_lower email))"

lemma json_or_error_Inr: "json_or_error msg r = Inr data \<longleftrightarrow> (\<exists>code. r = Some (code, Some data) \<and> code < 400)"
  by (cases r) (auto simp: json_or_error_def unexpected_def split: option.splits if_splits)

lemma get_of_Inr: "get_of data = Inr d \<longleftrightarrow> data = JObj d"
  by (cases data) (auto simp: get_of_def unexpected_def)

lemma google_verified:
  assumes "fetch_google_profile env token = Inr pr"
  shows "verified_profile env ''google'' token pr"
proof -
  from assms obtain code d where g: "ae_get env ''https://openidconnect.googleapis.com/v1/userinfo'' [(''Authorization'', ''Bearer '' @ token)]
      = Some (code, Some (JObj d))" "code < 400" and p: "google_profile d = Inr pr"
    by (auto simp: fetch_google_profile_def bind_result_eq_Inr json_or_error_Inr get_of_Inr)
  from p obtain uid email where "dict_get_none d ''sub'' = JStr uid" "dict_get_none d ''email'' = JStr email"
      "dict_get_none d ''email_verified'' \<in> {JBool True, JStr ''true''}"
      "pr = \<lparr>of_provider = ''google'', of_provider_user_id = uid, of_email = py_lower email\<rparr>"
    unfolding google_profile_def by (auto split: json.splits if_splits)
  with g show ?thesis by (simp add: verified_profile_def)
qed

lemma picked_verified:
  assumes "pick_github_email items = Some email"
  shows "\<exists>d. JObj d \<in> set items \<and> truthy (dict_get_none d ''verified'') \<and> dict_get_none d ''email'' = JStr email"
proof -
  have v: "JObj d \<in> set items \<and> truthy (dict_get_none d ''verified'')" if "d \<in> set (verified_items items)" for d
    using that by (auto simp: verified_items_def split: json.splits if_splits)
  have f: "find P xs = Some d \<Longrightarrow> d \<in> set xs" for P xs and d :: dict by (auto simp: find_Some_iff)
  from assms obtain d where d: "d \<in> set (verified_items items)" "as_str (dict_get_none d ''email'') = Some email"
    by (auto simp: pick_github_email_def Let_def split: option.splits list.splits dest!: f)
  from d(2) have "dict_get_none d ''email'' = JStr email" by (cases "dict_get_none d ''email''") simp_all
  with v d(1) show ?thesis by blast
qed

lemma github_verified:
  assumes "fetch_github_profile env token = Inr pr"
  shows "verified_profile env ''github'' token pr"
proof -
  from assms obtain code1 ud where g: "ae_get env ''https://api.github.com/user'' (github_headers token) = Some (code1, Some (JObj ud))"
      "code1 < 400" "dict_get_none ud ''id'' \<noteq> JNull"
    and r: "bind_result (json_or_error ''github email fetch failed''
              (ae_get env ''https://api.github.com/user/emails'' (github_headers token))) (\<lambda>emails.
            case emails of
              JList items \<Rightarrow>
                (case or_text (pick_github_email items) [] of
                   [] \<Rightarrow> Inl (oauth_error ''github account must expose a verified email'')
                 | email \<Rightarrow> Inr \<lparr>of_provider = ''github'', of_provider_user_id = py_text (ae_repr env) (dict_get_none ud ''id''),
                     of_email = py_lower email\<rparr>)
            | _ \<Rightarrow> Inl (oauth_error ''github account did not return email addresses'')) = Inr pr"
    unfolding fetch_github_profile_def Let_def
    by (auto simp: bind_result_eq_Inr json_or_error_Inr get_of_Inr split: if_splits)
  from r obtain code2 items where e: "ae_get env ''https://api.github.com/user/emails'' (github_headers token) = Some (code2, Some (JList items))"
      "code2 < 400" and p: "or_text (pick_github_email items) [] \<noteq> []"
      "pr = \<lparr>of_provider = ''github'', of_provider_user_id = py_text (ae_repr env) (dict_get_none ud ''id''),
         of_email = py_lower (or_text (pick_github_email items) [])\<rparr>"
  proof -
    from r obtain code2 emails where e: "ae_get env ''https://api.github.com/user/emails'' (github_headers token) = Some (code2, Some emails)"
        "code2 < 400" unfolding bind_result_eq_Inr json_or_error_Inr by blast
    obtain items where i: "emails = JList items" using r e by (cases emails) (simp_all add: json_or_error_def)
    have "or_text (pick_github_email items) [] \<noteq> []" using r e i by (auto simp: json_or_error_def)
    with r e i that show ?thesis by (cases "or_text (pick_github_email items) []") (simp_all add: json_or_error_def)
  qed
  from p(1) obtain email where m: "pick_github_email items = Some email" "email \<noteq> []"
    by (auto simp: or_text_def split: option.splits if_splits)
  with picked_verified [OF m(1)] g e p(2) show ?thesis by (auto simp: verified_profile_def or_text_def)
qed

lemma fetched_verified: "fetch_profile env provider token = Inr pr \<Longrightarrow> verified_profile env provider token pr"
  using google_verified github_verified by (auto simp: fetch_profile_def split: if_splits)

subsection \<open>What a sign-in leaves alone\<close>

definition touches_only :: "accounts \<Rightarrow> oauth_profile \<Rightarrow> accounts \<Rightarrow> user \<Rightarrow> bool" where
  \<comment> \<open>beside the rows of users: at most one grant of the free plan, to a user who is new; links of other
      identities stay; no other table changes\<close>
  "touches_only ac pr ac' u \<longleftrightarrow>
     (\<exists>ss ts. subscriptions (ac_session ac') = subscriptions (ac_session ac) @ ss \<and> balance_txs (ac_session ac') = balance_txs (ac_session ac) @ ts
        \<and> length ss = length ts \<and> length ts \<le> (if get_user (ac_session ac) (us_id u) = None then 1 else 0)
        \<and> (\<forall>s \<in> set ss. sb_user_id s = us_id u) \<and> (\<forall>t \<in> set ts. tx_user_id t = us_id u \<and> tx_ref_id t = Some ''signup-free''))
     \<and> (\<forall>q. (of_provider q, of_provider_user_id q) \<noteq> (of_provider pr, of_provider_user_id pr)
          \<longrightarrow> linked_account ac' q = linked_account ac q)
     \<and> api_keys (ac_session ac') = api_keys (ac_session ac) \<and> orders (ac_session ac') = orders (ac_session ac)
     \<and> plans (ac_session ac') = plans (ac_session ac) \<and> channels (ac_session ac') = channels (ac_session ac)
     \<and> models (ac_session ac') = models (ac_session ac) \<and> route_policies (ac_session ac') = route_policies (ac_session ac)
     \<and> usage_logs (ac_session ac') = usage_logs (ac_session ac)"

lemma find_row_upd:
  "(\<And>x. x \<in> set xs \<Longrightarrow> rid x = i \<Longrightarrow> \<not> P x \<and> \<not> P (f x)) \<Longrightarrow> find P (row_upd rid i f xs) = find P xs"
  by (induction xs) (auto simp: row_upd_def)

lemma relinked_touches:
  assumes "accounts_ok ac" and "linked_account ac pr = Some a"
  shows "touches_only ac pr (ac\<lparr>ac_oauth := row_upd oa_id (oa_id a) (\<lambda>a. a\<lparr>oa_email := of_email pr\<rparr>) (ac_oauth ac)\<rparr>) u"
proof -
  have a: "a \<in> set (ac_oauth ac)" "oa_provider a = of_provider pr" "oa_provider_user_id a = of_provider_user_id pr"
    using assms(2) by (auto simp: linked_account_def find_Some_iff)
  have "distinct (map oa_id (ac_oauth ac))" using assms(1) by (simp add: accounts_ok_def links_ok_def)
  then have u: "x = a" if "x \<in> set (ac_oauth ac)" "oa_id x = oa_id a" for x
    using that a(1) by (metis distinct_map inj_onD)
  have "find (\<lambda>b. oa_provider b = of_provider q \<and> oa_provider_user_id b = of_provider_user_id q)
      (row_upd oa_id (oa_id a) (\<lambda>a. a\<lparr>oa_email := of_email pr\<rparr>) (ac_oauth ac))
    = find (\<lambda>b. oa_provider b = of_provider q \<and> oa_provider_user_id b = of_provider_user_id q) (ac_oauth ac)"
    if "(of_provider q, of_provider_user_id q) \<noteq> (of_provider pr, of_provider_user_id pr)" for q
  proof (rule find_row_upd)
    fix x assume "x \<in> set (ac_oauth ac)" "oa_id x = oa_id a"
    then have "x = a" by (rule u)
    with that a(2,3) show "\<not> (oa_provider x = of_provider q \<and> oa_provider_user_id x = of_provider_user_id q)
        \<and> \<not> (oa_provider (x\<lparr>oa_email := of_email pr\<rparr>) = of_provider q \<and> oa_provider_user_id (x\<lparr>oa_email := of_email pr\<rparr>) = of_provider_user_id q)"
      by auto
  qed
  then show ?thesis by (auto simp: touches_only_def linked_account_def)
qed

lemma linked_touches:
  assumes "touches_only ac pr ac1 u"
  shows "touches_only ac pr (link_account pr v ac1) u"
proof -
  have f: "\<not> P y \<Longrightarrow> find P (xs @ [y]) = find P xs" for P and xs and y :: oauth_account
    by (induction xs) auto
  have "linked_account (link_account pr v ac1) q = linked_account ac1 q"
    if "(of_provider q, of_provider_user_id q) \<noteq> (of_provider pr, of_provider_user_id pr)" for q
    using that unfolding linked_account_def link_account_simps(1) by (intro f) auto
  moreover have "subscriptions (ac_session (link_account pr v ac1)) = subscriptions (ac_session ac1)"
    "balance_txs (ac_session (link_account pr v ac1)) = balance_txs (ac_session ac1)"
    "api_keys (ac_session (link_account pr v ac1)) = api_keys (ac_session ac1)"
    "orders (ac_session (link_account pr v ac1)) = orders (ac_session ac1)"
    "plans (ac_session (link_account pr v ac1)) = plans (ac_session ac1)"
    "channels (ac_session (link_account pr v ac1)) = channels (ac_session ac1)"
    "models (ac_session (link_account pr v ac1)) = models (ac_session ac1)"
    "route_policies (ac_session (link_account pr v ac1)) = route_policies (ac_session ac1)"
    "usage_logs (ac_session (link_account pr v ac1)) = usage_logs (ac_session ac1)"
    unfolding link_account_simps(4) by simp_all
  ultimately show ?thesis using assms unfolding touches_only_def by simp
qed

lemma same_touches: "touches_only ac pr ac u"
  by (simp add: touches_only_def)

lemma added_touches:
  assumes "get_user (ac_session ac) (us_id v) = None"
  shows "touches_only ac pr (add_user now ac v) v"
proof -
  let ?db = "(ac_session ac)\<lparr>users := users (ac_session ac) @ [v]\<rparr>"
  consider "grant_signup_free_plan now ?db v = ?db"
    | p where "grant_signup_free_plan now ?db v = fst (grant_subscription now ?db v p (Some ''signup-free''))"
  proof (cases "find (\<lambda>p. pl_code p = ''free'' \<and> pl_active p) (plans ?db)")
    case None
    then show ?thesis by (intro that(1)) (simp add: grant_signup_free_plan_def)
  next
    case (Some p)
    then show ?thesis by (cases "0 < pl_quota_cents p"; intro that) (simp_all add: grant_signup_free_plan_def)
  qed
  then show ?thesis
  proof cases
    case 1
    then show ?thesis by (simp add: touches_only_def add_user_def linked_account_def Let_def)
  next
    case (2 p)
    then have "ac_session (add_user now ac v) = fst (grant_subscription now ?db v p (Some ''signup-free''))"
      by (simp add: add_user_def Let_def)
    then show ?thesis using assms
      by (simp add: touches_only_def linked_account_def grant_subscription_def new_subscription_def Let_def)
  qed
qed

lemma oauth_touches:
  assumes "accounts_ok ac" and "login_or_create_oauth_user env now ac pr = Inr (ac', u)"
  shows "touches_only ac pr ac' u"
proof (cases "linked_account ac pr")
  case (Some a)
  then have "ac' = ac\<lparr>ac_oauth := row_upd oa_id (oa_id a) (\<lambda>a. a\<lparr>oa_email := of_email pr\<rparr>) (ac_oauth ac)\<rparr>"
    using assms(2) by (auto simp: login_or_create_oauth_user_def split: option.splits if_splits)
  with relinked_touches [OF assms(1) Some] show ?thesis by simp
next
  case none: None
  have id: "us_id (refreshed ac1 v) = us_id v" for ac1 v
    by (auto simp: refreshed_def split: option.split dest: row.get_Some)
  have cong: "us_id u1 = us_id u2 \<Longrightarrow> touches_only ac pr ac1 u1 \<Longrightarrow> touches_only ac pr ac1 u2" for ac1 u1 u2
    by (simp add: touches_only_def)
  show ?thesis
  proof (cases "user_by_email (ac_session ac) (of_email pr)")
    case (Some v)
    then have "ac' = link_account pr v ac" using assms(2) none
      by (auto simp: login_or_create_oauth_user_def Let_def split: if_splits)
    with linked_touches [OF same_touches] show ?thesis by simp
  next
    case None
    let ?v = "new_user ac (of_email pr) (ae_hash env (ae_password env))" let ?ac = "add_user now ac ?v"
    have e: "ac' = link_account pr ?v ?ac" "u = refreshed ac' ?v"
      using assms(2) none None by (auto simp: login_or_create_oauth_user_def Let_def)
    have "touches_only ac pr ac' ?v" unfolding e(1)
      using new_user_fresh [OF assms(1)] by (intro linked_touches added_touches) simp
    then show ?thesis using id cong unfolding e(2) by metis
  qed
qed

text \<open>
  Claim C31. An OAuth callback either reports an error and changes nothing, or it signs in exactly one
  account. Then its state was decoded and names the provider, the code was exchanged for an access token,
  and with this token the provider answered with an identity and an email it has verified (\<open>email_verified\<close>
  of Google, a \<open>verified\<close> address of GitHub). The account is the one the identity is linked to or, for a new
  identity, the one with this email, which is created with the user's role and an empty wallet when there
  is none. It is active, is linked to the identity afterwards, keeps its role, wallet and password; no other
  user, no link of another identity and no other table changes, but for one free plan of a new user; and
  the redirection carries a token for that account.
\<close>

theorem oauth_callback_sound:
  assumes "accounts_ok ac" and "oauth_callback env now ac provider code state err descr = (ac', res)"
  shows "(ac' = ac \<and> ((\<exists>e. res = Inl e) \<or> (\<exists>e. res = Inr (website_oauth_url env [(''error'', e)]))))
    \<or> (\<exists>claims cfg token pr u. ae_decode env (or_text state []) = Inr claims
          \<and> dict_get_none claims ''provider'' = JStr (py_lower provider)
          \<and> provider_config env (py_lower provider) = Inr cfg
          \<and> exchange_code env (py_lower provider) cfg (or_text code []) = Inr token
          \<and> verified_profile env (py_lower provider) token pr \<and> signed_in ac pr ac' u \<and> touches_only ac pr ac' u
          \<and> res = Inr (website_oauth_url env [(''access_token'', tr_access_token (issue_token env now u)), (''role'', role_value (us_role u))]))"
proof (cases "or_text err [] \<noteq> []")
  case True
  with assms(2) show ?thesis by (auto simp: oauth_callback_def)
next
  case False
  show ?thesis
  proof (cases "oauth_user env now ac (py_lower provider) code state")
    case (Inl e)
    with False assms(2) show ?thesis by (cases e) (auto simp: oauth_callback_def)
  next
    case (Inr r)
    obtain ac1 u where r: "r = (ac1, u)" by (cases r)
    with Inr obtain pr token cfg where l: "login_or_create_oauth_user env now ac pr = Inr (ac1, u)"
        and v: "verify_oauth_state env (py_lower provider) (or_text state []) = Inr ()"
        and x: "provider_config env (py_lower provider) = Inr cfg" "exchange_code env (py_lower provider) cfg (or_text code []) = Inr token"
        and p: "fetch_profile env (py_lower provider) token = Inr pr"
      by (auto simp: oauth_user_def bind_result_eq_Inr split: if_splits)
    from v obtain claims where c: "ae_decode env (or_text state []) = Inr claims"
        "dict_get_none claims ''provider'' = JStr (py_lower provider)"
      by (auto simp: verify_oauth_state_def split: sum.splits if_splits)
    from Inr r False assms(2) have "ac' = ac1" "res = Inr (website_oauth_url env
        [(''access_token'', tr_access_token (issue_token env now u)), (''role'', role_value (us_role u))])"
      by (auto simp: oauth_callback_def)
    with oauth_signed_in [OF assms(1) l] oauth_touches [OF assms(1) l] fetched_verified [OF p] x c show ?thesis by blast
  qed
qed

section \<open>Sequences of requests\<close>

inductive account_step :: "auth_env \<Rightarrow> accounts \<Rightarrow> accounts \<Rightarrow> bool" for env where
  registered: "register env now ac email password = (ac', res) \<Longrightarrow> account_step env ac ac'"
| called_back: "oauth_callback env now ac provider code state err descr = (ac', res) \<Longrightarrow> account_step env ac ac'"

lemma register_ok: "accounts_ok ac \<Longrightarrow> register env now ac email password = (ac', res) \<Longrightarrow> accounts_ok ac'"
  using add_user_ok by (auto simp: register_def Let_def split: option.splits)

lemma callback_ok:
  assumes "accounts_ok ac" and "oauth_callback env now ac provider code state err descr = (ac', res)"
  shows "accounts_ok ac'"
proof (cases "\<exists>ac1 u. oauth_user env now ac (py_lower provider) code state = Inr (ac1, u)")
  case True
  then obtain ac1 u pr where l: "oauth_user env now ac (py_lower provider) code state = Inr (ac1, u)"
    "login_or_create_oauth_user env now ac pr = Inr (ac1, u)"
    by (auto simp: oauth_user_def bind_result_eq_Inr split: if_splits)
  with oauth_signed_in [OF assms(1) l(2)] assms show ?thesis by (auto simp: oauth_callback_def split: if_splits)
next
  case False
  then obtain e where "oauth_user env now ac (py_lower provider) code state = Inl e"
    by (cases "oauth_user env now ac (py_lower provider) code state") auto
  with assms show ?thesis by (cases e) (auto simp: oauth_callback_def split: if_splits)
qed

text \<open>
  Any sequence of registrations and OAuth callbacks keeps the accounts in order: user ids
  and emails stay unique, every external identity is linked to at most one user, who exists, the
  ledger matches the wallets, and no user has received the free plan of the sign-up twice.
\<close>

theorem accounts_stay_ok:
  assumes "(account_step env)\<^sup>*\<^sup>* ac ac'" and "accounts_ok ac"
  shows "accounts_ok ac'"
  using assms
proof (induction rule: rtranclp_induct)
  case (step b c)
  then have "accounts_ok b" by simp
  with step(2) show ?case by (cases rule: account_step.cases) (auto dest: register_ok callback_ok)
qed simp

section \<open>Tokens\<close>

definition jwt_ok :: "auth_env \<Rightarrow> bool" where
  \<comment> \<open>an unexpired token is read back, and holds no white space\<close>
  "jwt_ok env \<longleftrightarrow> (\<forall>p. ae_decode env (ae_encode env p) = Inr p \<and> py_strip (ae_encode env p) = ae_encode env p)"

lemma strip_no_space: "\<forall>c \<in> set s. \<not> is_space c \<Longrightarrow> py_strip s = s"
proof -
  assume a: "\<forall>c \<in> set s. \<not> is_space c"
  have d: "\<forall>c \<in> set t. \<not> is_space c \<Longrightarrow> dropWhile is_space t = t" for t
    by (cases t) simp_all
  show ?thesis using a d [of s] d [of "rev s"] by (simp add: py_strip_def py_lstrip_def py_rstrip_def)
qed

lemma digit_facts: "is_digit c \<Longrightarrow> \<not> is_space c \<and> c \<noteq> CHR ''-'' \<and> c \<noteq> CHR ''+''"
  by (auto simp: is_digit_def is_space_def)

lemma int_of_str_int: "int_of_text (str_int i) = Inr i"
proof -
  let ?n = "nat \<bar>i\<bar>"
  have d: "\<forall>c \<in> set (str_nat ?n). is_digit c" using str_nat_digits [of ?n] by (simp add: list_all_iff)
  have v: "digits_val (str_nat ?n) = \<bar>i\<bar>" by (simp add: digits_val_str_nat)
  obtain c r where cr: "str_nat ?n = c # r" using str_nat_nonempty [of ?n] by (cases "str_nat ?n") auto
  have c: "\<not> is_space c" "c \<noteq> CHR ''-''" "c \<noteq> CHR ''+''" using d cr digit_facts [of c] by auto
  have st: "py_strip (str_int i) = str_int i"
    using d digit_facts by (intro strip_no_space) (auto simp: str_int_def is_space_def)
  show ?thesis
  proof (cases "i < 0")
    case True
    then have "str_int i = CHR ''-'' # str_nat ?n" by (simp add: str_int_def)
    with st v True show ?thesis by (simp add: int_of_text_def py_isdigit_str_nat)
  next
    case False
    then have "str_int i = str_nat ?n" by (simp add: str_int_def)
    with st v False c cr py_isdigit_str_nat [of ?n] show ?thesis by (simp add: int_of_text_def Let_def)
  qed
qed

lemma bearer_read:
  assumes "py_strip t = t"
  shows "bearer_token msg (Some (''Bearer '' @ t)) = Inr t"
proof -
  have "py_lower ''Bearer '' = ''bearer ''" by code_simp
  then have "py_lower (''Bearer '' @ t) = ''bearer '' @ py_lower t" unfolding py_lower_def map_append by simp
  then have "py_startswith (py_lower (''Bearer '' @ t)) ''bearer ''" by (simp only: py_startswith_def) simp
  with assms show ?thesis by (simp add: bearer_token_def py_after_def)
qed

lemma issued_token_read:
  assumes "jwt_ok env" and "get_user db (us_id u) = Some u" and "us_status u = user_active"
  shows "me env db (Some (''Bearer '' @ tr_access_token (issue_token env now u))) = Inr u"
  using assms bearer_read
  by (simp add: me_def get_current_user_def issue_token_def create_access_token_def decode_token_def jwt_ok_def int_of_str_int)

text \<open>
  A token is the key to exactly the account it was issued for: what registration and login
  return is accepted by the authenticated endpoints as the account with that email, active, whose
  password hash matches what the client sent, and the reported role is the stored one. Registration
  creates the account with the user's role.
\<close>

theorem token_authenticates:
  assumes "jwt_ok env" and "accounts_ok ac" and "\<forall>p. ae_verify env p (ae_hash env p)"
    and "register env now ac email password = (ac', Inr tok) \<or> (login env now ac email password = Inr tok \<and> ac' = ac)"
  shows "\<exists>u. me env (ac_session ac') (Some (''Bearer '' @ tr_access_token tok)) = Inr u \<and> us_email u = email
    \<and> us_status u = user_active \<and> ae_verify env password (us_password_hash u) \<and> tr_role tok = role_value (us_role u)
    \<and> (get_user (ac_session ac) (us_id u) = None \<longrightarrow> us_role u = role_user)"
  using assms(4)
proof
  assume "register env now ac email password = (ac', Inr tok)"
  then have n: "user_by_email (ac_session ac) email = None" and t: "tok = issue_token env now (new_user ac email (ae_hash env password))"
    and a: "ac' = add_user now ac (new_user ac email (ae_hash env password))"
    by (auto simp: register_def Let_def split: option.splits)
  let ?u = "new_user ac email (ae_hash env password)"
  have g: "get_user (ac_session ac') (us_id ?u) = Some ?u"
    using new_user_fresh [OF assms(2)] by (simp add: a row_get_append row.get_Cons)
  have "me env (ac_session ac') (Some (''Bearer '' @ tr_access_token tok)) = Inr ?u"
    unfolding t by (rule issued_token_read [OF assms(1) g]) simp
  then show ?thesis using assms(3) t by (intro exI [of _ ?u]) (simp add: issue_token_def)
next
  assume l: "login env now ac email password = Inr tok \<and> ac' = ac"
  then obtain u where u: "user_by_email (ac_session ac) email = Some u" "ae_verify env password (us_password_hash u)"
    "us_status u = user_active" "tok = issue_token env now u"
    by (auto simp: login_def split: option.splits if_splits)
  have m: "u \<in> set (users (ac_session ac))" "us_email u = email" using email_found [OF u(1)] by auto
  have g: "get_user (ac_session ac) (us_id u) = Some u"
    using assms(2) m(1) by (auto simp: accounts_ok_def users_ok_def intro: row.get_unique)
  have "me env (ac_session ac') (Some (''Bearer '' @ tr_access_token tok)) = Inr u"
    unfolding u(4) using issued_token_read [OF assms(1) g u(3)] l by simp
  then show ?thesis using u m g by (intro exI [of _ u]) (simp add: issue_token_def)
qed

text \<open>
  Tokens of one kind are not taken for the other, though both are signed with the same
  secret: an access token is refused as the state of an OAuth callback, and a state token signs
  nobody in; it is answered with 500 instead of 401, because the missing \<open>sub\<close> claim raises.
\<close>

theorem token_kinds_disjoint:
  assumes "jwt_ok env"
  shows "verify_oauth_state env provider (tr_access_token (issue_token env now u)) = Inl (oauth_error ''oauth state provider mismatch'')
    \<and> me env db (Some (''Bearer '' @ encode_oauth_state env now provider)) = Inl internal_error
    \<and> verify_oauth_state env provider (encode_oauth_state env now provider) = Inr ()"
  using assms bearer_read
  by (simp add: verify_oauth_state_def issue_token_def create_access_token_def encode_oauth_state_def me_def
      get_current_user_def decode_token_def jwt_ok_def dict_get_none_def)

section \<open>Examples\<close>

text \<open>
  A signing function that satisfies the law: the claims are numbered, and the token is the number in
  unary.
\<close>

instance json :: countable by countable_datatype

definition demo_auth :: auth_env where
  "demo_auth = \<lparr>ae_hash = (\<lambda>p. ''h:'' @ p), ae_verify = (\<lambda>p h. h = ''h:'' @ p), ae_encode = (\<lambda>p. replicate (to_nat p + 1) (CHR ''t'')),
     ae_decode = (\<lambda>t. Inr (from_nat (length t - 1))),
     ae_expire_minutes = 60, ae_nonce = ''n'', ae_password = ''pw'', ae_repr = (\<lambda>v. []), ae_google = (''id'', ''secret''),
     ae_github = ([], []), ae_callback_base = [], ae_api_url = ''https://api.x'', ae_website_url = ''https://x'',
     ae_post = (\<lambda>u d h. Some (200, Some (JObj [(''access_token'', JStr ''t'')]))),
     ae_get = (\<lambda>u h. Some (200, Some (JObj [(''sub'', JStr ''g1''), (''email'', JStr ''Bob@x.io''), (''email_verified'', JBool True)])))\<rparr>"

lemma demo_jwt_ok: "jwt_ok demo_auth"
  unfolding jwt_ok_def by (auto simp: demo_auth_def is_space_def intro!: strip_no_space)

definition demo_free :: plan where
  "demo_free = \<lparr>pl_id = 1, pl_code = ''free'', pl_name = ''Free'', pl_description = None, pl_plan_type = one_time,
     pl_price_cents = 0, pl_quota_cents = 100, pl_duration_days = 30, pl_models_jsonb = JList [], pl_rate_limit_jsonb = JObj [],
     pl_max_purchases_per_user = Some 1, pl_active = True\<rparr>"

definition demo_accounts :: accounts where
  "demo_accounts = \<lparr>ac_session = empty_session\<lparr>plans := [demo_free]\<rparr>, ac_oauth = [], ac_seq_users = 1, ac_seq_oauth = 1\<rparr>"

lemma demo_accounts_ok: "accounts_ok demo_accounts"
  by (simp add: accounts_ok_def users_ok_def links_ok_def ledger_ok_def signup_grants_def demo_accounts_def empty_session_def)

definition demo_profile :: oauth_profile where
  "demo_profile = \<lparr>of_provider = ''google'', of_provider_user_id = ''g1'', of_email = ''bob@x.io''\<rparr>"

lemma demo_callback:
  "oauth_user demo_auth 0 demo_accounts ''google'' (Some ''code'') (Some (encode_oauth_state demo_auth 0 ''google''))
     = login_or_create_oauth_user demo_auth 0 demo_accounts demo_profile"
proof -
  let ?s = "encode_oauth_state demo_auth 0 ''google''"
  have v: "verify_oauth_state demo_auth ''google'' ?s = Inr ()"
    using demo_jwt_ok by (simp add: verify_oauth_state_def encode_oauth_state_def jwt_ok_def dict_get_none_def)
  moreover have "?s \<noteq> []" by (simp add: demo_auth_def encode_oauth_state_def)
  moreover have "provider_config demo_auth ''google'' \<noteq> Inl e" for e
    by (simp add: provider_config_def configured_def demo_auth_def)
  then obtain cfg where c: "provider_config demo_auth ''google'' = Inr cfg" by (cases "provider_config demo_auth ''google''") auto
  moreover have "exchange_code demo_auth ''google'' cfg ''code'' = Inr ''t''"
    by (simp add: exchange_code_def demo_auth_def json_or_error_def get_of_def dict_get_none_def)
  moreover have "fetch_profile demo_auth ''google'' ''t'' = Inr demo_profile"
    by (simp add: fetch_profile_def fetch_google_profile_def demo_auth_def json_or_error_def get_of_def google_profile_def
        dict_get_none_def demo_profile_def) code_simp
  ultimately show ?thesis by (simp add: oauth_user_def or_text_def)
qed

theorem oauth_callback_sound_witness:
  "\<exists>token pr u. verified_profile demo_auth ''google'' token pr \<and> signed_in demo_accounts pr (fst (oauth_callback demo_auth 0 demo_accounts ''google'' (Some ''code'')
      (Some (encode_oauth_state demo_auth 0 ''google'')) None None)) u"
proof -
  let ?c = "oauth_callback demo_auth 0 demo_accounts ''google'' (Some ''code'')
      (Some (encode_oauth_state demo_auth 0 ''google'')) None None"
  have "py_lower ''google'' = ''google''" by code_simp
  moreover have "\<exists>ac u. oauth_user demo_auth 0 demo_accounts ''google'' (Some ''code'') (Some (encode_oauth_state demo_auth 0 ''google''))
      = Inr (ac, u) \<and> ac \<noteq> demo_accounts"
    unfolding demo_callback
    by (simp add: login_or_create_oauth_user_def linked_account_def user_by_email_def demo_accounts_def empty_session_def
        Let_def link_account_def add_user_def)
  moreover from calculation have "fst ?c \<noteq> demo_accounts" by (auto simp: oauth_callback_def or_text_def)
  ultimately show ?thesis
    using oauth_callback_sound [OF demo_accounts_ok, of demo_auth 0 "''google''" "Some ''code''"
        "Some (encode_oauth_state demo_auth 0 ''google'')" None None "fst ?c" "snd ?c"] by auto
qed

theorem token_authenticates_witness:
  "\<exists>u. me demo_auth (ac_session (fst (register demo_auth 0 demo_accounts ''a@x'' ''pw'')))
      (Some (''Bearer '' @ tr_access_token (issue_token demo_auth 0 (new_user demo_accounts ''a@x'' ''h:pw'')))) = Inr u
    \<and> us_email u = ''a@x''"
proof -
  have "register demo_auth 0 demo_accounts ''a@x'' ''pw''
      = (fst (register demo_auth 0 demo_accounts ''a@x'' ''pw''), Inr (issue_token demo_auth 0 (new_user demo_accounts ''a@x'' ''h:pw'')))"
    by (simp add: register_def user_by_email_def demo_accounts_def empty_session_def demo_auth_def Let_def)
  then show ?thesis
    using token_authenticates [OF demo_jwt_ok demo_accounts_ok, of 0 "''a@x''" "''pw''"] by (fastforce simp: demo_auth_def)
qed

theorem token_kinds_disjoint_witness:
  "verify_oauth_state demo_auth ''google'' (tr_access_token (issue_token demo_auth 0 demo_user)) = Inl (oauth_error ''oauth state provider mismatch'')
    \<and> me demo_auth demo_db (Some (''Bearer '' @ encode_oauth_state demo_auth 0 ''google'')) = Inl internal_error
    \<and> verify_oauth_state demo_auth ''google'' (encode_oauth_state demo_auth 0 ''google'') = Inr ()"
  by (rule token_kinds_disjoint [OF demo_jwt_ok])

theorem accounts_stay_ok_witness:
  "accounts_ok (fst (register demo_auth 0 demo_accounts ''a@x'' ''pw''))"
proof -
  have "account_step demo_auth demo_accounts (fst (register demo_auth 0 demo_accounts ''a@x'' ''pw''))"
    by (rule account_step.registered [of _ 0 _ "''a@x''" "''pw''" _ "snd (register demo_auth 0 demo_accounts ''a@x'' ''pw'')"]) simp
  with accounts_stay_ok [of demo_auth demo_accounts] demo_accounts_ok show ?thesis by blast
qed

end
