(* ===== verification/Plan_Admin.thy ===== *)
theory Plan_Admin
  imports Subscriptions
begin

text \<open>
  Plan administration: \<^verbatim>\<open>api/v1/admin/plans.py\<close>. The database refuses a second plan with the same code
  and the deletion of a plan that a subscription or an order refers to; both reach the client as
  500, with nothing changed.
\<close>

record plan_in =
  pi_code :: string
  pi_name :: string
  pi_description :: "string option"
  pi_plan_type :: string
  pi_price_cents :: int
  pi_quota_cents :: int
  pi_duration_days :: int
  pi_models_jsonb :: json
  pi_rate_limit_jsonb :: json
  pi_max_purchases_per_user :: "int option"
  pi_active :: bool

definition plan_row :: "int \<Rightarrow> plan_in \<Rightarrow> plan" where
  \<comment> \<open>\<open>Plan(**req.model_dump())\<close>, and the row after all its fields were set\<close>
  "plan_row i req = \<lparr>pl_id = i, pl_code = pi_code req, pl_name = pi_name req, pl_description = pi_description req,
     pl_plan_type = pi_plan_type req, pl_price_cents = pi_price_cents req, pl_quota_cents = pi_quota_cents req,
     pl_duration_days = pi_duration_days req, pl_models_jsonb = pi_models_jsonb req,
     pl_rate_limit_jsonb = pi_rate_limit_jsonb req, pl_max_purchases_per_user = pi_max_purchases_per_user req,
     pl_active = pi_active req\<rparr>"

definition list_all_plans :: "session \<Rightarrow> plan list" where
  "list_all_plans db = sort_key pl_id (plans db)"

definition code_taken :: "session \<Rightarrow> int \<Rightarrow> string \<Rightarrow> bool" where
  \<comment> \<open>by another plan\<close>
  "code_taken db i code \<longleftrightarrow> list_ex (\<lambda>p. pl_code p = code \<and> pl_id p \<noteq> i) (plans db)"

definition plan_referenced :: "session \<Rightarrow> int \<Rightarrow> bool" where
  "plan_referenced db i \<longleftrightarrow> list_ex (\<lambda>s. sb_plan_id s = i) (subscriptions db) \<or> list_ex (\<lambda>r. od_plan_id r = Some i) (orders db)"

definition create_plan :: "int \<Rightarrow> session \<Rightarrow> plan_in \<Rightarrow> session \<times> plan result" where
  \<comment> \<open>\<open>i\<close> is the id the sequence gives\<close>
  "create_plan i db req =
     (if code_taken db i (pi_code req) then (db, Inl internal_error)
      else (db\<lparr>plans := plans db @ [plan_row i req]\<rparr>, Inr (plan_row i req)))"

definition update_plan :: "session \<Rightarrow> int \<Rightarrow> plan_in \<Rightarrow> session \<times> plan result" where
  "update_plan db pid req =
     (case get_plan db pid of
        None \<Rightarrow> (db, Inl (http 404 ''Not Found''))
      | Some row \<Rightarrow>
          if code_taken db pid (pi_code req) then (db, Inl internal_error)
          else (db\<lparr>plans := row_upd pl_id pid (\<lambda>_. plan_row pid req) (plans db)\<rparr>, Inr (plan_row pid req)))"

definition delete_plan :: "session \<Rightarrow> int \<Rightarrow> session \<times> unit result" where
  "delete_plan db pid =
     (case get_plan db pid of
        None \<Rightarrow> (db, Inl (http 404 ''Not Found''))
      | Some row \<Rightarrow>
          if plan_referenced db pid then (db, Inl internal_error)
          else (db\<lparr>plans := row_del pl_id pid (plans db)\<rparr>, Inr ()))"

section \<open>References\<close>

definition plan_refs_ok :: "session \<Rightarrow> bool" where
  \<comment> \<open>every plan that a subscription or an order names exists\<close>
  "plan_refs_ok db \<longleftrightarrow> (\<forall>s \<in> set (subscriptions db). get_plan db (sb_plan_id s) \<noteq> None)
     \<and> (\<forall>r \<in> set (orders db). \<forall>i. od_plan_id r = Some i \<longrightarrow> get_plan db i \<noteq> None)"

definition codes_distinct :: "session \<Rightarrow> bool" where
  "codes_distinct db \<longleftrightarrow> distinct (map pl_id (plans db)) \<and> distinct (map pl_code (plans db))"

definition plans_ok :: "int \<Rightarrow> session \<Rightarrow> bool" where
  \<comment> \<open>\<open>n\<close> is the next id of the sequence\<close>
  "plans_ok n db \<longleftrightarrow> codes_distinct db \<and> plan_refs_ok db \<and> (\<forall>p \<in> set (plans db). pl_id p < n)"

lemma plan_row_simps [simp]: "pl_id (plan_row i req) = i" "pl_code (plan_row i req) = pi_code req"
  by (simp_all add: plan_row_def)

lemma create_plan_ok:
  assumes "plans_ok n db"
  shows "plans_ok (n + 1) (fst (create_plan n db req))"
proof (cases "code_taken db n (pi_code req)")
  case True
  with assms show ?thesis by (auto simp: create_plan_def plans_ok_def)
next
  case False
  then have "pi_code req \<notin> pl_code ` set (plans db)"
    using assms by (fastforce simp: code_taken_def list_ex_iff plans_ok_def)
  moreover have "n \<notin> pl_id ` set (plans db)" using assms by (auto simp: plans_ok_def)
  ultimately show ?thesis
    using assms False by (auto simp: create_plan_def plans_ok_def codes_distinct_def plan_refs_ok_def row_get_append split: option.splits)
qed

lemma map_code_upd:
  assumes "distinct (map pl_id ps)" and "distinct (map pl_code ps)" and "\<And>p. p \<in> set ps \<Longrightarrow> pl_id p \<noteq> i \<Longrightarrow> pl_code p \<noteq> c"
    and "pl_code q = c" and "pl_id q = i"
  shows "distinct (map pl_code (row_upd pl_id i (\<lambda>_. q) ps))"
  using assms(1-3)
proof (induction ps)
  case (Cons p ps)
  show ?case
  proof (cases "pl_id p = i")
    case True
    then have "i \<notin> pl_id ` set ps" using Cons.prems(1) by simp
    then have "row_upd pl_id i (\<lambda>_. q) ps = ps" and "c \<notin> pl_code ` set ps"
      using Cons.prems(3) by (auto simp: row.upd_absent)
    with True Cons.prems(2) assms(4) show ?thesis by (simp add: row.upd_Cons)
  next
    case False
    have "x \<in> set (row_upd pl_id i (\<lambda>_. q) ps) \<Longrightarrow> x = q \<or> x \<in> set ps" for x by (auto simp: row_upd_def)
    moreover have "pl_code p \<noteq> c" using False Cons.prems(3) [of p] by simp
    ultimately have "pl_code p \<notin> pl_code ` set (row_upd pl_id i (\<lambda>_. q) ps)"
      using Cons.prems(2) assms(4) by force
    moreover have "distinct (map pl_code (row_upd pl_id i (\<lambda>_. q) ps))" using Cons by simp
    ultimately show ?thesis using False by (simp add: row.upd_Cons)
  qed
qed (simp add: row_upd_def)

lemma update_plan_ok:
  assumes "plans_ok n db"
  shows "plans_ok n (fst (update_plan db pid req))"
proof (cases "get_plan db pid = None \<or> code_taken db pid (pi_code req)")
  case True
  with assms show ?thesis by (auto simp: update_plan_def split: option.splits)
next
  case False
  then obtain row where row: "get_plan db pid = Some row" and free: "\<not> code_taken db pid (pi_code req)" by auto
  let ?ps = "row_upd pl_id pid (\<lambda>_. plan_row pid req) (plans db)"
  have e: "fst (update_plan db pid req) = db\<lparr>plans := ?ps\<rparr>" using row free by (simp add: update_plan_def)
  have "distinct (map pl_code ?ps)"
    using assms free by (intro map_code_upd [where c = "pi_code req"]) (auto simp: plans_ok_def codes_distinct_def code_taken_def list_ex_iff)
  moreover have m: "map pl_id ?ps = map pl_id (plans db)"
    by (auto simp: row_upd_def)
  moreover have "row_get pl_id i ?ps \<noteq> None \<longleftrightarrow> get_plan db i \<noteq> None" for i
    using m row.get_None [of pl_id] by (metis list.set_map)
  moreover have "\<forall>p \<in> set ?ps. pl_id p < n" using assms m by (metis (no_types, lifting) image_iff list.set_map plans_ok_def)
  ultimately show ?thesis
    using assms unfolding e by (auto simp: plans_ok_def codes_distinct_def plan_refs_ok_def)
qed

lemma delete_plan_ok:
  assumes "plans_ok n db"
  shows "plans_ok n (fst (delete_plan db pid))"
proof (cases "get_plan db pid = None \<or> plan_referenced db pid")
  case True
  with assms show ?thesis by (auto simp: delete_plan_def split: option.splits)
next
  case False
  then obtain row where row: "get_plan db pid = Some row" and free: "\<not> plan_referenced db pid" by auto
  have e: "fst (delete_plan db pid) = db\<lparr>plans := row_del pl_id pid (plans db)\<rparr>" using row free by (simp add: delete_plan_def)
  have g: "i \<noteq> pid \<Longrightarrow> row_get pl_id i (row_del pl_id pid (plans db)) = get_plan db i" for i by (rule row_get_del_other)
  have "plan_refs_ok (db\<lparr>plans := row_del pl_id pid (plans db)\<rparr>)"
    using assms free g unfolding plans_ok_def plan_refs_ok_def plan_referenced_def list_ex_iff by simp (metis option.inject)
  moreover have "codes_distinct (db\<lparr>plans := row_del pl_id pid (plans db)\<rparr>)"
    using assms by (simp add: plans_ok_def codes_distinct_def row_del_def distinct_map_filter)
  ultimately show ?thesis using assms unfolding e by (auto simp: plans_ok_def row_del_def)
qed

end
