(* ===== verification/Xds_Server.thy ===== *)
theory Xds_Server
  imports Envoy_Config
begin

text \<open>
  The configuration server: \<^verbatim>\<open>services/envoy/xds_server.py\<close>. One stream per connected node holds what the
  node subscribed to, the types that wait for a push, the version and nonce of the last push of each
  type, its wake-up flag (\<open>asyncio.Event\<close>) and the place in the loop where it is suspended: the code
  between two \<open>await\<close>s or \<open>yield\<close>s is one step, and the reader task, notifications and changes of the
  database come in between. Parsing into protobuf, serialisation and the digest are parameters.
\<close>

section \<open>Resources\<close>

record xds_env =
  xs_settings :: envoy_settings
  xs_urlparse :: url_parser
  xs_pack :: "string \<Rightarrow> dict \<Rightarrow> string option"
    \<comment> \<open>the packed message of a type, \<open>None\<close> when \<open>ParseDict\<close> raises\<close>
  xs_hash :: "string list \<Rightarrow> string"

record xds_db =
  xd_instances :: "envoy_instance list"
  xd_channels :: "channel list"

definition known_types :: "string list" where
  "known_types = [cluster_type, listener_type, route_type]"

definition node_row :: "xds_db \<Rightarrow> string \<Rightarrow> envoy_instance option" where
  "node_row db node = find (\<lambda>i. ei_node_id i = node) (xd_instances db)"

definition pack_all :: "xds_env \<Rightarrow> string \<Rightarrow> dict list \<Rightarrow> string list option" where
  "pack_all env type_url dicts = those (map (\<lambda>d. xs_pack env type_url (filter (\<lambda>kv. fst kv \<noteq> ''@type'') d)) dicts)"

definition build_resources :: "xds_env \<Rightarrow> xds_db \<Rightarrow> string \<Rightarrow> (string \<times> string list) list option" where
  "build_resources env db node =
     (case node_row db node of
        None \<Rightarrow> Some [(cluster_type, []), (listener_type, []), (route_type, [])]
      | Some inst \<Rightarrow>
          (case render_instance_cds (xs_urlparse env) (xs_settings env) inst (sort_key ch_id (xd_channels db)) of
             None \<Rightarrow> None
           | Some cds \<Rightarrow>
               (case (pack_all env cluster_type cds, pack_all env listener_type (render_instance_lds (xs_settings env) inst),
                      pack_all env route_type render_rds) of
                  (Some c, Some l, Some r) \<Rightarrow> Some [(cluster_type, c), (listener_type, l), (route_type, r)]
                | _ \<Rightarrow> None)))"

definition touch_seen :: "datetime \<Rightarrow> string option \<Rightarrow> string \<Rightarrow> xds_db \<Rightarrow> xds_db" where
  "touch_seen now version node db =
     (case node_row db node of
        None \<Rightarrow> db
      | Some inst \<Rightarrow>
          db\<lparr>xd_instances := row_upd ei_id (ei_id inst) (\<lambda>i. i\<lparr>ei_last_seen_at := Some now,
                ei_last_xds_version := (case version of None \<Rightarrow> ei_last_xds_version i | Some v \<Rightarrow> Some v)\<rparr>) (xd_instances db)\<rparr>)"

section \<open>One stream\<close>

record discovery_request =
  dq_node_id :: string
  dq_type_url :: string
  dq_error :: string
    \<comment> \<open>\<open>error_detail.message\<close>, empty without an error\<close>
  dq_response_nonce :: string

record discovery_response =
  dr_version_info :: string
  dr_type_url :: string
  dr_nonce :: string
  dr_resources :: "string list"

datatype ads_phase =
    ads_waiting
  | ads_building "string list"
      \<comment> \<open>suspended in \<open>_build_resources\<close>: the types to push\<close>
  | ads_pushing "(string \<times> string list) list" "string list" "string option"
      \<comment> \<open>suspended at a \<open>yield\<close>: resources, types left, latest version\<close>
  | ads_touching "string option"
      \<comment> \<open>suspended in \<open>_touch_seen\<close>\<close>

record ads_stream =
  as_node :: string
  as_subscribed :: "string list"
  as_pending :: "string list"
  as_sent_version :: "string \<rightharpoonup> string"
  as_sent_nonce :: "string \<rightharpoonup> string"
  as_event :: bool
  as_phase :: ads_phase

definition new_ads_stream :: "discovery_request \<Rightarrow> ads_stream" where
  "new_ads_stream first =
     (let subscribed = (if dq_type_url first \<noteq> [] then [dq_type_url first] else []) in
      \<lparr>as_node = dq_node_id first, as_subscribed = subscribed, as_pending = subscribed, as_sent_version = Map.empty,
       as_sent_nonce = Map.empty, as_event = True, as_phase = ads_waiting\<rparr>)"

definition process_request :: "discovery_request \<Rightarrow> ads_stream \<Rightarrow> ads_stream" where
  "process_request req s =
     (let type_url = dq_type_url req in
      if type_url = [] then s
      else
        let is_new_sub = (type_url \<notin> set (as_subscribed s));
            s1 = s\<lparr>as_subscribed := List.insert type_url (as_subscribed s)\<rparr>
        in if dq_error req \<noteq> []
           then s1\<lparr>as_sent_version := (as_sent_version s1)(type_url := None),
                   as_pending := List.insert type_url (as_pending s1), as_event := True\<rparr>
           else
             let response_nonce = dq_response_nonce req; last_nonce = or_text (as_sent_nonce s1 type_url) [] in
             if response_nonce \<noteq> [] \<and> response_nonce = last_nonce then s1
             else if is_new_sub \<or> response_nonce = []
             then s1\<lparr>as_pending := List.insert type_url (as_pending s1), as_event := True\<rparr>
             else s1)"

definition to_push :: "ads_stream \<Rightarrow> string list" where
  "to_push s = filter (\<lambda>t. t \<in> set (as_subscribed s)) (if as_pending s = [] then as_subscribed s else as_pending s)"

definition wake :: "string list \<Rightarrow> ads_stream \<Rightarrow> ads_stream" where
  \<comment> \<open>\<open>ts\<close> is \<open>list(to_push)\<close>: the set in some order\<close>
  "wake ts s =
     (if as_subscribed s = [] then s\<lparr>as_event := False\<rparr>
      else s\<lparr>as_event := False, as_pending := [],
             as_phase := (if to_push s = [] then ads_touching None else ads_building ts)\<rparr>)"

definition push_one :: "xds_env \<Rightarrow> (string \<times> string list) list \<Rightarrow> string \<Rightarrow> string \<Rightarrow> ads_stream \<Rightarrow> ads_stream \<times> discovery_response option" where
  "push_one env resources nonce type_url s =
     (if type_url \<notin> set known_types then (s, None)
      else let rs = (case map_of resources type_url of None \<Rightarrow> [] | Some rs \<Rightarrow> rs); version = xs_hash env rs in
           if as_sent_version s type_url = Some version then (s, None)
           else (s\<lparr>as_sent_version := (as_sent_version s)(type_url \<mapsto> version), as_sent_nonce := (as_sent_nonce s)(type_url \<mapsto> nonce)\<rparr>,
                 Some \<lparr>dr_version_info = version, dr_type_url = type_url, dr_nonce = nonce, dr_resources = rs\<rparr>))"

section \<open>The server\<close>

text \<open>
  \<open>_node_events\<close> maps a node to the flag of one stream, here the number of the stream.
\<close>

record ads_server =
  av_events :: "string \<rightharpoonup> nat"
  av_streams :: "nat \<rightharpoonup> ads_stream"
  av_db :: xds_db
  av_sent :: "(nat \<times> discovery_response) list"

abbreviation set_stream :: "nat \<Rightarrow> ads_stream \<Rightarrow> ads_server \<Rightarrow> ads_server" where
  "set_stream i s v \<equiv> v\<lparr>av_streams := (av_streams v)(i \<mapsto> s)\<rparr>"

definition local_notify :: "string \<Rightarrow> ads_server \<Rightarrow> ads_server" where
  "local_notify node v =
     (case av_events v node of
        None \<Rightarrow> v
      | Some i \<Rightarrow> (case av_streams v i of None \<Rightarrow> v | Some s \<Rightarrow> set_stream i (s\<lparr>as_event := True\<rparr>) v))"

definition pubsub_message :: "string \<Rightarrow> string \<Rightarrow> ads_server \<Rightarrow> ads_server" where
  \<comment> \<open>type and decoded data of a message of the notification channel\<close>
  "pubsub_message kind data v = (if kind \<noteq> ''message'' \<or> data = [] then v else local_notify data v)"

definition notify_node :: "bool \<Rightarrow> nat \<Rightarrow> string \<Rightarrow> ads_server list \<Rightarrow> ads_server list" where
  \<comment> \<open>called on replica \<open>me\<close>; with Redis every replica, this one too, receives the message\<close>
  "notify_node redis_up me node vs =
     (let vs1 = (if me < length vs then vs[me := local_notify node (vs ! me)] else vs) in
      if redis_up then map (pubsub_message ''message'' node) vs1 else vs1)"

datatype ads_open = ads_abort string string | ads_ended | ads_opened ads_server

definition stream_open ::
    "xds_env \<Rightarrow> (string \<times> string) list \<Rightarrow> discovery_request option \<Rightarrow> nat \<Rightarrow> ads_server \<Rightarrow> ads_open" where
  \<comment> \<open>\<open>StreamAggregatedResources\<close> up to its loop, for the stream with the fresh number \<open>i\<close>\<close>
  "stream_open env md first i v =
     (if \<not> check_token (es_auth_token (xs_settings env)) md then ads_abort ''UNAUTHENTICATED'' ''invalid x-llmxy-token''
      else case first of
        None \<Rightarrow> ads_ended
      | Some req \<Rightarrow>
          if dq_node_id req = [] then ads_abort ''INVALID_ARGUMENT'' ''node.id is required''
          else case node_row (av_db v) (dq_node_id req) of
            None \<Rightarrow> ads_abort ''PERMISSION_DENIED'' (''unknown remote node '' @ dq_node_id req)
          | Some _ \<Rightarrow>
              ads_opened (v\<lparr>av_events := (av_events v)(dq_node_id req \<mapsto> i), av_streams := (av_streams v)(i \<mapsto> new_ads_stream req)\<rparr>))"

definition stream_close :: "nat \<Rightarrow> ads_server \<Rightarrow> ads_server" where
  \<comment> \<open>the \<open>finally\<close> block\<close>
  "stream_close i v =
     (case av_streams v i of
        None \<Rightarrow> v
      | Some s \<Rightarrow> v\<lparr>av_events := (av_events v)(as_node s := None), av_streams := (av_streams v)(i := None)\<rparr>)"

definition ads_connected :: "string \<Rightarrow> ads_server \<Rightarrow> bool" where
  "ads_connected node v \<longleftrightarrow> av_events v node \<noteq> None"

inductive ads_step :: "xds_env \<Rightarrow> ads_server \<Rightarrow> ads_server \<Rightarrow> bool" for env where
  opened: "av_streams v i = None \<Longrightarrow> stream_open env md first i v = ads_opened v' \<Longrightarrow> ads_step env v v'"
| closed: "ads_step env v (stream_close i v)"
| requested: "av_streams v i = Some s \<Longrightarrow> ads_step env v (set_stream i (process_request req s) v)"
| notified: "ads_step env v (local_notify node v)"
| database: "ads_step env v (v\<lparr>av_db := db'\<rparr>)"
| heartbeat: "av_streams v i = Some s \<Longrightarrow> as_phase s = ads_waiting \<Longrightarrow> \<not> as_event s \<Longrightarrow>
    ads_step env v (v\<lparr>av_db := touch_seen now None (as_node s) (av_db v)\<rparr>)"
| woken: "av_streams v i = Some s \<Longrightarrow> as_phase s = ads_waiting \<Longrightarrow> as_event s \<Longrightarrow> set ts = set (to_push s) \<Longrightarrow>
    ads_step env v (set_stream i (wake ts s) v)"
| built: "av_streams v i = Some s \<Longrightarrow> as_phase s = ads_building ts \<Longrightarrow> build_resources env (av_db v) (as_node s) = Some rs \<Longrightarrow>
    ads_step env v (set_stream i (s\<lparr>as_phase := ads_pushing rs ts None\<rparr>) v)"
| build_failed: "av_streams v i = Some s \<Longrightarrow> as_phase s = ads_building ts \<Longrightarrow> build_resources env (av_db v) (as_node s) = None \<Longrightarrow>
    ads_step env v (stream_close i v)"
| skipped: "av_streams v i = Some s \<Longrightarrow> as_phase s = ads_pushing rs (t # ts) latest \<Longrightarrow> push_one env rs nonce t s = (s', None) \<Longrightarrow>
    ads_step env v (set_stream i (s'\<lparr>as_phase := ads_pushing rs ts latest\<rparr>) v)"
| pushed: "av_streams v i = Some s \<Longrightarrow> as_phase s = ads_pushing rs (t # ts) latest \<Longrightarrow> push_one env rs nonce t s = (s', Some r) \<Longrightarrow>
    ads_step env v (set_stream i (s'\<lparr>as_phase := ads_pushing rs ts (Some (dr_version_info r))\<rparr>) (v\<lparr>av_sent := av_sent v @ [(i, r)]\<rparr>))"
| finished: "av_streams v i = Some s \<Longrightarrow> as_phase s = ads_pushing rs [] latest \<Longrightarrow>
    ads_step env v (set_stream i (s\<lparr>as_phase := ads_touching latest\<rparr>) v)"
| touched: "av_streams v i = Some s \<Longrightarrow> as_phase s = ads_touching latest \<Longrightarrow>
    ads_step env v (set_stream i (s\<lparr>as_phase := ads_waiting\<rparr>) (v\<lparr>av_db := touch_seen now latest (as_node s) (av_db v)\<rparr>))"

section \<open>An undisturbed round\<close>

fun push_all :: "xds_env \<Rightarrow> (string \<times> string list) list \<Rightarrow> (string \<Rightarrow> string) \<Rightarrow> string list \<Rightarrow> ads_stream
    \<Rightarrow> ads_stream \<times> discovery_response list" where
  "push_all env resources nonce [] s = (s, [])"
| "push_all env resources nonce (t # ts) s =
     (let (s1, r) = push_one env resources (nonce t) t s; (s2, rs) = push_all env resources nonce ts s1
      in (s2, case r of None \<Rightarrow> rs | Some x \<Rightarrow> x # rs))"

definition ads_round :: "xds_env \<Rightarrow> xds_db \<Rightarrow> (string \<Rightarrow> string) \<Rightarrow> ads_stream \<Rightarrow> (ads_stream \<times> discovery_response list) option" where
  \<comment> \<open>one pass of the loop with the flag set and nothing in between; \<open>None\<close> when it raises\<close>
  "ads_round env db nonce s =
     (let s1 = wake (to_push s) s in
      if as_subscribed s = [] \<or> to_push s = [] then Some (s1\<lparr>as_phase := ads_waiting\<rparr>, [])
      else map_option (\<lambda>rs. let (s2, out) = push_all env rs nonce (to_push s) s1 in (s2\<lparr>as_phase := ads_waiting\<rparr>, out))
             (build_resources env db (as_node s)))"

end
