(* ===== verification/Xds_Laws.thy ===== *)
theory Xds_Laws
  imports Xds_Server
begin

text \<open>
  The configuration stream: every subscription is served, an undisturbed notification brings a node
  up to date, acknowledgements end the exchange, a refused configuration is sent again at once, and
  two ways in which a notification is lost.
\<close>

named_theorems ads_defs \<open>the functions of one stream\<close>

declare process_request_def [ads_defs] wake_def [ads_defs] push_one_def [ads_defs] new_ads_stream_def [ads_defs]

section \<open>Every subscription is served\<close>

fun in_progress :: "ads_phase \<Rightarrow> string list" where
  "in_progress (ads_building ts) = ts"
| "in_progress (ads_pushing rs ts latest) = ts"
| "in_progress _ = []"

definition stream_ok :: "ads_stream \<Rightarrow> bool" where
  \<comment> \<open>only subscribed types wait or are pushed, a waiting type has raised the flag, and a known type that was
      never pushed is waiting or being pushed\<close>
  "stream_ok s \<longleftrightarrow> set (as_pending s) \<subseteq> set (as_subscribed s) \<and> (as_pending s \<noteq> [] \<longrightarrow> as_event s)
     \<and> set (in_progress (as_phase s)) \<subseteq> set (as_subscribed s) \<and> dom (as_sent_nonce s) \<subseteq> set (as_subscribed s)
     \<and> dom (as_sent_version s) \<subseteq> dom (as_sent_nonce s)
     \<and> (\<forall>t. t \<in> set (as_subscribed s) \<longrightarrow> t \<in> set known_types \<longrightarrow> as_sent_version s t = None \<longrightarrow> t \<in> set (as_pending s) \<or> t \<in> set (in_progress (as_phase s)))"

lemma new_ads_stream_ok: "stream_ok (new_ads_stream first)"
  by (simp add: stream_ok_def new_ads_stream_def Let_def)

lemma process_request_ok:
  assumes "stream_ok s"
  shows "stream_ok (process_request req s)"
proof -
  let ?t = "dq_type_url req"
  consider "?t = []" | "?t \<noteq> []" "dq_error req \<noteq> []"
    | "?t \<noteq> []" "dq_error req = []" "dq_response_nonce req \<noteq> []" "dq_response_nonce req = or_text (as_sent_nonce s ?t) []"
    | "?t \<noteq> []" "dq_error req = []" "?t \<notin> set (as_subscribed s) \<or> dq_response_nonce req = []"
        "\<not> (dq_response_nonce req \<noteq> [] \<and> dq_response_nonce req = or_text (as_sent_nonce s ?t) [])"
    | "?t \<noteq> []" "dq_error req = []" "\<not> (?t \<notin> set (as_subscribed s) \<or> dq_response_nonce req = [])"
        "\<not> (dq_response_nonce req \<noteq> [] \<and> dq_response_nonce req = or_text (as_sent_nonce s ?t) [])" by blast
  then show ?thesis
  proof cases
    case 1
    with assms show ?thesis by (simp add: process_request_def)
  next
    case 2
    with assms show ?thesis unfolding process_request_def Let_def stream_ok_def by (auto simp: dom_def)
  next
    case 3
    then have "?t \<in> dom (as_sent_nonce s)" by (auto simp: or_text_def dom_def split: option.splits)
    then have "?t \<in> set (as_subscribed s)" using assms by (auto simp: stream_ok_def)
    then have "process_request req s = s" using 3 by (simp add: process_request_def Let_def)
    with assms show ?thesis by simp
  next
    case 4
    then have "process_request req s = s\<lparr>as_subscribed := List.insert ?t (as_subscribed s),
        as_pending := List.insert ?t (as_pending s), as_event := True\<rparr>"
      by (auto simp: process_request_def Let_def)
    with assms show ?thesis by (auto simp: stream_ok_def)
  next
    case 5
    then have "process_request req s = s" by (auto simp: process_request_def Let_def)
    with assms show ?thesis by simp
  qed
qed

lemma notified_ok: "stream_ok s \<Longrightarrow> stream_ok (s\<lparr>as_event := True\<rparr>)"
  by (simp add: stream_ok_def)

lemma to_push_subset: "set (to_push s) \<subseteq> set (as_subscribed s)"
  by (auto simp: to_push_def)

lemma wake_ok:
  assumes "stream_ok s" and "as_phase s = ads_waiting" and "set ts = set (to_push s)"
  shows "stream_ok (wake ts s)"
proof (cases "as_subscribed s = []")
  case True
  with assms show ?thesis by (auto simp: wake_def stream_ok_def)
next
  case False
  have sub: "set ts \<subseteq> set (as_subscribed s)" using to_push_subset assms(3) by simp
  have w: "as_pending s = [] \<Longrightarrow> set ts = set (as_subscribed s)" "as_pending s \<noteq> [] \<Longrightarrow> set ts = set (as_pending s)"
    using assms(1,3) by (auto simp: to_push_def stream_ok_def)
  have "to_push s \<noteq> []" using False w assms(3) by (metis set_empty)
  then have "as_phase (wake ts s) = ads_building ts" "as_pending (wake ts s) = []" "as_subscribed (wake ts s) = as_subscribed s"
      "as_sent_version (wake ts s) = as_sent_version s" "as_sent_nonce (wake ts s) = as_sent_nonce s"
    using False by (simp_all add: wake_def)
  with sub w assms(1,2) show ?thesis by (cases "as_pending s = []") (auto simp: stream_ok_def)
qed

lemma push_one_ok:
  assumes "stream_ok s" and "as_phase s = ads_pushing rs (t # ts) latest" and "push_one env rs nonce t s = (s', out)"
  shows "stream_ok (s'\<lparr>as_phase := ads_pushing rs ts latest'\<rparr>)"
proof (cases "t \<in> set known_types \<and> out \<noteq> None")
  case True
  then obtain v where "s' = s\<lparr>as_sent_version := (as_sent_version s)(t \<mapsto> v), as_sent_nonce := (as_sent_nonce s)(t \<mapsto> nonce)\<rparr>"
    using assms(3) by (auto simp: push_one_def Let_def split: if_splits)
  with assms(1,2) show ?thesis unfolding stream_ok_def by auto
next
  case False
  then have "s' = s" "t \<in> set known_types \<Longrightarrow> as_sent_version s t \<noteq> None"
    using assms(3) by (auto simp: push_one_def Let_def split: if_splits)
  with assms(1,2) show ?thesis unfolding stream_ok_def by auto
qed

section \<open>All streams\<close>

definition server_ok :: "ads_server \<Rightarrow> bool" where
  \<comment> \<open>every stream is in order, and a version it remembers was sent on it\<close>
  "server_ok v \<longleftrightarrow> (\<forall>i s. av_streams v i = Some s \<longrightarrow> stream_ok s
     \<and> (\<forall>t ver. as_sent_version s t = Some ver \<longrightarrow> (\<exists>r. (i, r) \<in> set (av_sent v) \<and> dr_type_url r = t \<and> dr_version_info r = ver)))"

lemma server_okI:
  assumes "server_ok v" and "set (av_sent v) \<subseteq> set (av_sent v')"
    and "\<And>j. j \<noteq> i \<Longrightarrow> av_streams v' j = av_streams v j"
    and "\<And>s. av_streams v' i = Some s \<Longrightarrow> stream_ok s"
    and "\<And>s t ver. av_streams v' i = Some s \<Longrightarrow> as_sent_version s t = Some ver
           \<Longrightarrow> \<exists>r. (i, r) \<in> set (av_sent v') \<and> dr_type_url r = t \<and> dr_version_info r = ver"
  shows "server_ok v'"
  unfolding server_ok_def
proof (intro allI impI)
  fix j s assume j: "av_streams v' j = Some s"
  show "stream_ok s \<and> (\<forall>t ver. as_sent_version s t = Some ver
      \<longrightarrow> (\<exists>r. (j, r) \<in> set (av_sent v') \<and> dr_type_url r = t \<and> dr_version_info r = ver))"
  proof (cases "j = i")
    case True
    with assms(4,5) j show ?thesis by blast
  next
    case False
    with j assms(1-3) show ?thesis unfolding server_ok_def by (metis subsetD)
  qed
qed

lemma server_ok_stream:
  assumes "server_ok v" and "av_streams v i = Some s" and "stream_ok s'"
    and "\<And>t ver. as_sent_version s' t = Some ver \<Longrightarrow> as_sent_version s t = Some ver"
    and "av_sent v' = av_sent v" and "av_streams v' = (av_streams v)(i \<mapsto> s')"
  shows "server_ok v'"
  using assms by (intro server_okI [OF assms(1), where i = i]) (auto simp: server_ok_def)

lemma server_ok_shrink: "server_ok v \<Longrightarrow> av_streams v' = (av_streams v)(i := None) \<Longrightarrow> av_sent v' = av_sent v \<Longrightarrow> server_ok v'"
  by (auto simp: server_ok_def split: if_splits)

lemma close_ok: "server_ok v \<Longrightarrow> server_ok (stream_close i v)"
  by (auto simp: stream_close_def split: option.splits intro: server_ok_shrink)

lemma notify_ok: "server_ok v \<Longrightarrow> server_ok (local_notify node v)"
  by (auto simp: local_notify_def server_ok_def split: option.splits intro: notified_ok)

lemma open_ok:
  assumes "server_ok v" and "stream_open env md first i v = ads_opened v'"
  shows "server_ok v'"
proof -
  obtain req where "v' = v\<lparr>av_events := (av_events v)(dq_node_id req \<mapsto> i), av_streams := (av_streams v)(i \<mapsto> new_ads_stream req)\<rparr>"
    using assms(2) by (auto simp: stream_open_def split: if_splits option.splits)
  then show ?thesis
    using new_ads_stream_ok [of req] by (intro server_okI [OF assms(1), where i = i]) (auto simp: new_ads_stream_def Let_def)
qed

lemma processed_versions: "as_sent_version (process_request req s) t = Some ver \<Longrightarrow> as_sent_version s t = Some ver"
  by (auto simp: process_request_def Let_def split: if_splits)

lemma moved_ok: "stream_ok s \<Longrightarrow> in_progress p = in_progress (as_phase s) \<Longrightarrow> stream_ok (s\<lparr>as_phase := p\<rparr>)"
  by (simp add: stream_ok_def)

lemma server_okD: "server_ok v \<Longrightarrow> av_streams v i = Some s \<Longrightarrow> stream_ok s"
  by (simp add: server_ok_def)

lemma same_streams_ok: "server_ok v \<Longrightarrow> server_ok (v\<lparr>av_db := db\<rparr>)"
  by (simp add: server_ok_def)

lemma ads_step_ok: "ads_step env v v' \<Longrightarrow> server_ok v \<Longrightarrow> server_ok v'"
proof (induction rule: ads_step.induct)
  case (requested v i s req)
  then show ?case
    by (intro server_ok_stream [OF requested(2,1)]) (auto simp: server_ok_def intro: process_request_ok dest: processed_versions)
next
  case (woken v i s ts)
  moreover have "as_sent_version (wake ts s) = as_sent_version s" by (simp add: wake_def)
  ultimately show ?case
    by (intro server_ok_stream [OF woken(5,1)]) (auto simp: server_ok_def intro: wake_ok)
next
  case (built v i s ts rs)
  then show ?case by (intro server_ok_stream [OF built(4,1)]) (auto intro: moved_ok dest: server_okD)
next
  case (skipped v i s rs t ts latest nonce s')
  then have "as_sent_version s' = as_sent_version s" by (auto simp: push_one_def Let_def split: if_splits)
  moreover have "stream_ok (s'\<lparr>as_phase := ads_pushing rs ts latest\<rparr>)"
    by (rule push_one_ok [OF server_okD [OF skipped(4,1)] skipped(2,3)])
  ultimately show ?case by (intro server_ok_stream [OF skipped(4,1)]) auto
next
  case (pushed v i s rs t ts latest nonce s' r)
  have "stream_ok (s'\<lparr>as_phase := ads_pushing rs ts (Some (dr_version_info r))\<rparr>)"
    by (rule push_one_ok [OF server_okD [OF pushed(4,1)] pushed(2,3)])
  moreover have "as_sent_version s' = (as_sent_version s)(t \<mapsto> dr_version_info r)" "dr_type_url r = t"
    using pushed(3) by (auto simp: push_one_def Let_def split: if_splits)
  ultimately show ?case
    using pushed(1,4) by (intro server_okI [OF pushed(4), where i = i]) (auto simp: server_ok_def split: if_splits, blast+)
next
  case (finished v i s rs latest)
  then show ?case by (intro server_ok_stream [OF finished(3,1)]) (auto intro: moved_ok dest: server_okD)
next
  case (touched v i s latest now)
  then show ?case by (intro server_ok_stream [OF touched(3,1)]) (auto intro: moved_ok dest: server_okD)
qed (auto intro: open_ok close_ok notify_ok same_streams_ok)

definition ads_start :: "xds_db \<Rightarrow> ads_server" where
  "ads_start db = \<lparr>av_events = Map.empty, av_streams = Map.empty, av_db = db, av_sent = []\<rparr>"

text \<open>
  Claim C29. However requests, notifications, database changes, heartbeats and reconnections interleave
  with the pushes of the streams, no subscription is forgotten: when a stream waits with nothing
  signalled, every known type its node has subscribed to was sent to it, and the version it
  remembers for the type is one it sent.
\<close>

theorem subscriptions_served:
  assumes "(ads_step env)\<^sup>*\<^sup>* (ads_start db) v" and "av_streams v i = Some s"
    and "as_phase s = ads_waiting" and "\<not> as_event s" and "t \<in> set (as_subscribed s)" and "t \<in> set known_types"
  shows "\<exists>r. (i, r) \<in> set (av_sent v) \<and> dr_type_url r = t \<and> as_sent_version s t = Some (dr_version_info r)"
proof -
  have "server_ok v"
    using assms(1) by (induction rule: rtranclp_induct) (auto simp: server_ok_def ads_start_def dest: ads_step_ok)
  then have "stream_ok s" and r: "\<forall>ver. as_sent_version s t = Some ver \<longrightarrow> (\<exists>r. (i, r) \<in> set (av_sent v) \<and> dr_type_url r = t \<and> dr_version_info r = ver)"
    using assms(2) by (auto simp: server_ok_def)
  then have "as_sent_version s t \<noteq> None" using assms(3-6) unfolding stream_ok_def by (metis empty_iff in_progress.simps(3) list.set(1))
  with r show ?thesis by auto
qed

section \<open>One round\<close>

definition version_of :: "xds_env \<Rightarrow> (string \<times> string list) list \<Rightarrow> string \<Rightarrow> string" where
  "version_of env resources t = xs_hash env (case map_of resources t of None \<Rightarrow> [] | Some rs \<Rightarrow> rs)"

lemma push_one_simps:
  assumes "push_one env rs nonce t s = (s', out)"
  shows "as_sent_version s' = (if t \<in> set known_types then (as_sent_version s)(t \<mapsto> version_of env rs t) else as_sent_version s)"
    and "as_sent_nonce s' = (if out = None then as_sent_nonce s else (as_sent_nonce s)(t \<mapsto> nonce))"
    and "as_subscribed s' = as_subscribed s" "as_pending s' = as_pending s" "as_event s' = as_event s" "as_node s' = as_node s"
    and "out = (if t \<in> set known_types \<and> as_sent_version s t \<noteq> Some (version_of env rs t)
           then Some \<lparr>dr_version_info = version_of env rs t, dr_type_url = t, dr_nonce = nonce,
                  dr_resources = (case map_of rs t of None \<Rightarrow> [] | Some r \<Rightarrow> r)\<rparr> else None)"
  using assms by (auto simp: push_one_def Let_def version_of_def fun_upd_idem split: if_splits)

lemma push_all_simps:
  assumes "push_all env rs nonce ts s = (s', out)"
  shows "as_subscribed s' = as_subscribed s \<and> as_pending s' = as_pending s \<and> as_event s' = as_event s \<and> as_node s' = as_node s"
  using assms
proof (induction ts arbitrary: s s' out)
  case (Cons u ts)
  obtain s1 r where 1: "push_one env rs (nonce u) u s = (s1, r)" by fastforce
  obtain s2 out2 where 2: "push_all env rs nonce ts s1 = (s2, out2)" by fastforce
  with 1 Cons.prems have "s' = s2" by simp
  with Cons.IH [OF 2] push_one_simps(3-6) [OF 1] show ?case by simp
qed simp

lemma push_all_versions:
  "push_all env rs nonce ts s = (s', out) \<Longrightarrow>
    as_sent_version s' t = (if t \<in> set ts \<inter> set known_types then Some (version_of env rs t) else as_sent_version s t)"
proof (induction ts arbitrary: s s' out)
  case (Cons u ts)
  obtain s1 r where 1: "push_one env rs (nonce u) u s = (s1, r)" by fastforce
  obtain s2 out2 where 2: "push_all env rs nonce ts s1 = (s2, out2)" by fastforce
  with 1 Cons.prems have "s' = s2" by simp
  with Cons.IH [OF 2] push_one_simps(1) [OF 1] show ?case by auto
qed simp

definition pushed_well :: "xds_env \<Rightarrow> (string \<times> string list) list \<Rightarrow> (string \<Rightarrow> string) \<Rightarrow> ads_stream \<Rightarrow> discovery_response \<Rightarrow> bool" where
  "pushed_well env rs nonce s r \<longleftrightarrow> dr_nonce r = nonce (dr_type_url r) \<and> dr_version_info r = version_of env rs (dr_type_url r) \<and> as_sent_nonce s (dr_type_url r) = Some (dr_nonce r)"

lemma push_all_out:
  assumes "push_all env rs nonce ts s = (s', out)" and "distinct ts"
  shows "map dr_type_url out = filter (\<lambda>t. t \<in> set known_types \<and> as_sent_version s t \<noteq> Some (version_of env rs t)) ts
    \<and> (\<forall>r \<in> set out. pushed_well env rs nonce s' r) \<and> (\<forall>t. t \<notin> set ts \<longrightarrow> as_sent_nonce s' t = as_sent_nonce s t)"
  using assms
proof (induction ts arbitrary: s s' out)
  case (Cons u ts)
  obtain s1 r where 1: "push_one env rs (nonce u) u s = (s1, r)" by fastforce
  obtain s2 out2 where 2: "push_all env rs nonce ts s1 = (s2, out2)" by fastforce
  note p = push_one_simps [OF 1]
  have e: "s' = s2" "out = (case r of None \<Rightarrow> out2 | Some x \<Rightarrow> x # out2)" using Cons.prems 1 2 by simp_all
  have d: "distinct ts" "u \<notin> set ts" using Cons.prems by simp_all
  note ih = Cons.IH [OF 2 d(1)]
  have "filter (\<lambda>t. t \<in> set known_types \<and> as_sent_version s1 t \<noteq> Some (version_of env rs t)) ts
      = filter (\<lambda>t. t \<in> set known_types \<and> as_sent_version s t \<noteq> Some (version_of env rs t)) ts"
    using p(1) d(2) by (intro filter_cong) auto
  then have "map dr_type_url out = filter (\<lambda>t. t \<in> set known_types \<and> as_sent_version s t \<noteq> Some (version_of env rs t)) (u # ts)"
    using ih p(7) e(2) by auto
  moreover have "r \<noteq> None \<Longrightarrow> as_sent_nonce s2 u = Some (nonce u)" using ih d(2) p(2) by auto
  then have "\<forall>r \<in> set out. pushed_well env rs nonce s' r"
    using ih p(7) e by (auto simp: pushed_well_def split: option.splits if_splits)
  ultimately show ?case using ih p(2) e(1) by (auto split: if_splits)
qed simp

definition round_versions :: "xds_env \<Rightarrow> xds_db \<Rightarrow> ads_stream \<Rightarrow> string \<Rightarrow> string option" where
  \<comment> \<open>the version that the database gives a type for the node now\<close>
  "round_versions env db s t = map_option (\<lambda>rs. version_of env rs t) (build_resources env db (as_node s))"

lemma round_run:
  assumes "ads_round env db nonce s = Some (s', out)" and "as_subscribed s \<noteq> []" and "to_push s \<noteq> []"
  obtains rs s2 where "build_resources env db (as_node s) = Some rs" and "s' = s2\<lparr>as_phase := ads_waiting\<rparr>"
    and "push_all env rs nonce (to_push s) (wake (to_push s) s) = (s2, out)"
proof -
  obtain rs where b: "build_resources env db (as_node s) = Some rs"
    using assms by (cases "build_resources env db (as_node s)") (auto simp: ads_round_def Let_def)
  obtain s2 out' where p: "push_all env rs nonce (to_push s) (wake (to_push s) s) = (s2, out')" by fastforce
  have "s' = s2\<lparr>as_phase := ads_waiting\<rparr>" "out' = out" using assms b p by (auto simp: ads_round_def Let_def)
  with that b p show thesis by blast
qed

lemma wake_simps [simp]:
  "as_sent_version (wake ts s) = as_sent_version s" "as_sent_nonce (wake ts s) = as_sent_nonce s"
  "as_subscribed (wake ts s) = as_subscribed s" "as_node (wake ts s) = as_node s" "as_event (wake ts s) = False"
  by (simp_all add: wake_def)

lemma round_rest:
  assumes "ads_round env db nonce s = Some (s', out)" and "as_subscribed s \<noteq> []"
  shows "as_phase s' = ads_waiting \<and> \<not> as_event s' \<and> as_pending s' = [] \<and> as_subscribed s' = as_subscribed s"
proof (cases "to_push s = []")
  case True
  with assms show ?thesis by (auto simp: ads_round_def Let_def wake_def)
next
  case False
  from round_run [OF assms False] obtain rs s2 where "s' = s2\<lparr>as_phase := ads_waiting\<rparr>"
    and p: "push_all env rs nonce (to_push s) (wake (to_push s) s) = (s2, out)" by metis
  moreover have "as_pending (wake (to_push s) s) = []" using assms(2) by (simp add: wake_def)
  ultimately show ?thesis using push_all_simps [OF p] by simp
qed

text \<open>
  A notification that finds nothing waiting brings the node up to date: in an undisturbed
  round every known type the node has subscribed to ends at the version of the present database,
  only the types whose version differs from the last one sent are sent, each once, and the stream
  waits again with nothing signalled.
\<close>

theorem notified_up_to_date:
  assumes "stream_ok s" and "as_pending s = []" and "as_subscribed s \<noteq> []" and "distinct (as_subscribed s)"
    and "build_resources env db (as_node s) = Some rs"
  shows "\<exists>s' out. ads_round env db nonce (s\<lparr>as_event := True\<rparr>) = Some (s', out)
    \<and> (\<forall>t \<in> set (as_subscribed s) \<inter> set known_types. as_sent_version s' t = Some (version_of env rs t))
    \<and> map dr_type_url out = filter (\<lambda>t. t \<in> set known_types \<and> as_sent_version s t \<noteq> Some (version_of env rs t)) (as_subscribed s)
    \<and> as_phase s' = ads_waiting \<and> \<not> as_event s' \<and> as_pending s' = []"
proof -
  let ?s = "s\<lparr>as_event := True\<rparr>"
  have t: "to_push ?s = as_subscribed s" using assms(2) by (simp add: to_push_def)
  obtain s2 out where p: "push_all env rs nonce (as_subscribed s) (wake (as_subscribed s) ?s) = (s2, out)" by fastforce
  have r: "ads_round env db nonce ?s = Some (s2\<lparr>as_phase := ads_waiting\<rparr>, out)"
    using assms(3,5) p t by (simp add: ads_round_def Let_def)
  show ?thesis
    using r round_rest [OF r] push_all_versions [OF p] push_all_out [OF p assms(4)] assms(3) by simp
qed

text \<open>
  Claim C35. A notification is lost when it comes while another type waits for its push: the round pushes
  only the waiting types, so a type that was already sent keeps its old version, however the
  database has changed, and the stream waits with nothing signalled until somebody changes
  something again.
\<close>

theorem notification_lost:
  assumes "as_pending s \<noteq> []" and "set (as_pending s) \<subseteq> set (as_subscribed s)" and "t \<notin> set (as_pending s)"
    and "ads_round env db nonce (s\<lparr>as_event := True\<rparr>) = Some (s', out)" and "distinct (as_pending s)"
  shows "as_sent_version s' t = as_sent_version s t \<and> t \<notin> dr_type_url ` set out
    \<and> as_phase s' = ads_waiting \<and> \<not> as_event s' \<and> as_pending s' = []"
proof -
  let ?s = "s\<lparr>as_event := True\<rparr>"
  have tp: "to_push ?s = as_pending s" using assms(1,2) by (auto simp: to_push_def filter_id_conv)
  have sub: "as_subscribed ?s \<noteq> []" using assms(1,2) by auto
  from round_run [OF assms(4) sub] tp assms(1) obtain rs s2 where s': "s' = s2\<lparr>as_phase := ads_waiting\<rparr>"
    and p: "push_all env rs nonce (as_pending s) (wake (as_pending s) ?s) = (s2, out)" by metis
  have "t \<notin> set (map dr_type_url out)" using push_all_out [OF p assms(5)] assms(3) by simp
  then show ?thesis using s' push_all_versions [OF p, of t] round_rest [OF assms(4) sub] assms(3) by simp
qed

section \<open>Acknowledgements and refusals\<close>

definition ack :: "discovery_response \<Rightarrow> discovery_request" where
  "ack r = \<lparr>dq_node_id = [], dq_type_url = dr_type_url r, dq_error = [], dq_response_nonce = dr_nonce r\<rparr>"

definition nack :: "string \<Rightarrow> discovery_response \<Rightarrow> discovery_request" where
  "nack message r = (ack r)\<lparr>dq_error := message\<rparr>"

lemma ack_ignored:
  assumes "dr_type_url r \<in> set (as_subscribed s)" and "as_sent_nonce s (dr_type_url r) = Some (dr_nonce r)" and "dr_nonce r \<noteq> []"
  shows "process_request (ack r) s = s"
  using assms by (simp add: process_request_def ack_def Let_def or_text_def)

lemma round_sent:
  assumes "ads_round env db nonce s = Some (s', out)" and "distinct (to_push s)" and "r \<in> set out"
  shows "dr_type_url r \<in> set (as_subscribed s')" and "as_sent_nonce s' (dr_type_url r) = Some (dr_nonce r)"
    and "dr_type_url r \<in> set known_types" and "as_sent_version s' (dr_type_url r) = Some (dr_version_info r)"
    and "dr_nonce r = nonce (dr_type_url r)"
proof -
  have "as_subscribed s \<noteq> []" "to_push s \<noteq> []" using assms(1,3) by (auto simp: ads_round_def Let_def split: if_splits)
  from round_run [OF assms(1) this] obtain rs s2 where s': "s' = s2\<lparr>as_phase := ads_waiting\<rparr>"
    and p: "push_all env rs nonce (to_push s) (wake (to_push s) s) = (s2, out)" by metis
  have "dr_type_url r \<in> set (map dr_type_url out)" using assms(3) by simp
  then have t: "dr_type_url r \<in> set (to_push s)" "dr_type_url r \<in> set known_types" using push_all_out [OF p assms(2)] by simp_all
  have w: "pushed_well env rs nonce s2 r" using push_all_out [OF p assms(2)] assms(3) by blast
  show "dr_type_url r \<in> set (as_subscribed s')" using t(1) to_push_subset push_all_simps [OF p] s' by auto
  show "as_sent_nonce s' (dr_type_url r) = Some (dr_nonce r)" using w s' by (simp add: pushed_well_def)
  show "dr_type_url r \<in> set known_types" by (rule t(2))
  show "as_sent_version s' (dr_type_url r) = Some (dr_version_info r)"
    using push_all_versions [OF p] t w s' by (simp add: pushed_well_def)
  show "dr_nonce r = nonce (dr_type_url r)" using w by (simp add: pushed_well_def)
qed

lemma fold_fixed: "\<forall>x \<in> set xs. f x s = s \<Longrightarrow> fold f xs s = s"
  by (induction xs) auto

text \<open>
  Claim C36. The exchange ends: when the node acknowledges everything a round has sent, in any order and
  any number of times, the stream does not change, so it waits with nothing signalled and sends
  nothing more.
\<close>

theorem acks_end_exchange:
  assumes "ads_round env db nonce s = Some (s', out)" and "distinct (to_push s)" and "\<forall>t. nonce t \<noteq> []" and "set rs \<subseteq> set out"
  shows "fold process_request (map ack rs) s' = s'"
proof (intro fold_fixed ballI)
  fix x assume "x \<in> set (map ack rs)"
  then obtain r where r: "r \<in> set out" "x = ack r" using assms(4) by auto
  with round_sent [OF assms(1,2) r(1)] assms(3) show "process_request x s' = s'" by (simp add: ack_ignored)
qed

text \<open>
  A refused configuration is sent again at once, although nothing has changed: after a
  refusal of the present version the next round sends the node the same version under a new nonce,
  and the stream is again as before but for the nonce, so a node that goes on refusing is answered
  without end.
\<close>

theorem nack_resends:
  assumes "as_phase s = ads_waiting" and "\<not> as_event s" and "as_pending s = []" and "t \<in> set (as_subscribed s)" and "t \<in> set known_types"
    and "build_resources env db (as_node s) = Some rs" and "as_sent_version s t = Some (version_of env rs t)"
    and "dr_type_url r = t" and "message \<noteq> []"
  shows "\<exists>r'. ads_round env db nonce (process_request (nack message r) s) = Some (s\<lparr>as_sent_nonce := (as_sent_nonce s)(t \<mapsto> nonce t)\<rparr>, [r'])
    \<and> dr_version_info r' = version_of env rs t \<and> dr_type_url r' = t \<and> dr_nonce r' = nonce t"
proof -
  have "t \<noteq> []" using assms(5) by (auto simp: known_types_def cluster_type_def listener_type_def route_type_def)
  then have n: "process_request (nack message r) s = s\<lparr>as_sent_version := (as_sent_version s)(t := None), as_pending := [t], as_event := True\<rparr>"
    using assms(3,4,8,9) by (simp add: process_request_def nack_def ack_def Let_def)
  have tp: "to_push (process_request (nack message r) s) = [t]" unfolding n using assms(4) by (simp add: to_push_def)
  have sub: "as_subscribed s \<noteq> []" using assms(4) by auto
  have "s\<lparr>as_event := False, as_pending := [], as_sent_version := (as_sent_version s)(t \<mapsto> version_of env rs t), as_sent_nonce := f,
      as_phase := ads_waiting\<rparr> = s\<lparr>as_sent_nonce := f\<rparr>" for f
    using assms(1-3,7) by (cases s) (simp add: fun_upd_idem)
  then show ?thesis
    using sub tp assms(5,6) unfolding n ads_round_def Let_def
    by (simp add: wake_def push_one_def Let_def version_of_def)
qed

section \<open>Reconnection, replicas and bad channels\<close>

text \<open>
  A node that reconnects before its old stream has ended is cut off from notifications: when
  the old stream closes it removes the registration of the new one, so a notification changes
  nothing and the node is reported as not connected, although its new stream is open.
\<close>

theorem reconnect_unregistered:
  assumes "av_streams v i = Some s" and "as_node s = node" and "dq_node_id req = node" and "i \<noteq> j"
    and "stream_open env md (Some req) j v = ads_opened v1"
  shows "av_streams (stream_close i v1) j = Some (new_ads_stream req) \<and> local_notify node (stream_close i v1) = stream_close i v1
    \<and> \<not> ads_connected node (stream_close i v1)"
proof -
  have "v1 = v\<lparr>av_events := (av_events v)(node \<mapsto> j), av_streams := (av_streams v)(j \<mapsto> new_ads_stream req)\<rparr>"
    using assms(3,5) by (auto simp: stream_open_def split: if_splits option.splits)
  with assms(1,2,4) show ?thesis by (simp add: stream_close_def local_notify_def ads_connected_def)
qed

lemma local_notify_event:
  assumes "av_events v node = Some i" and "av_streams v i = Some s"
  shows "av_events (local_notify node v) = av_events v \<and> av_streams (local_notify node v) i = Some (s\<lparr>as_event := True\<rparr>)"
  using assms by (simp add: local_notify_def)

text \<open>
  A notification sent on any replica wakes the stream of the node wherever it is registered, when Redis
  delivers the message.
\<close>

lemma notify_reaches_replica:
  assumes "k < length vs" and "node \<noteq> []" and "av_events (vs ! k) node = Some i" and "av_streams (vs ! k) i = Some s"
  shows "\<exists>s'. av_streams (notify_node True me node vs ! k) i = Some s' \<and> as_event s'"
proof -
  let ?v = "(if me < length vs then vs[me := local_notify node (vs ! me)] else vs) ! k"
  have v: "av_events ?v node = Some i \<and> (\<exists>s'. av_streams ?v i = Some s')"
    using assms local_notify_event [OF assms(3,4)] by (auto simp: nth_list_update)
  then obtain s' where "av_streams ?v i = Some s'" by blast
  then have "av_streams (local_notify node ?v) i = Some (s'\<lparr>as_event := True\<rparr>)" using local_notify_event v by blast
  then show ?thesis using assms(1,2) by (auto simp: notify_node_def Let_def pubsub_message_def)
qed

definition bad_channel :: "url_parser \<Rightarrow> channel \<Rightarrow> bool" where
  "bad_channel up c \<longleftrightarrow> ch_enabled c \<and> is_direct c \<and> upstream_host_port up (ch_base_url c) = None"

lemma channel_clusters_None: "channel_clusters up cs = None \<longleftrightarrow> (\<exists>c \<in> set cs. bad_channel up c)"
  by (induction cs) (auto simp: bad_channel_def split: option.splits)

text \<open>
  One bad channel stops the configuration of every node: while an enabled OpenAI channel has a
  base URL whose parsing raises, no resources can be built for any registered node, of whatever type,
  so every round that has something to push raises and its stream ends.
\<close>

theorem bad_channel_stops_all:
  assumes "c \<in> set (xd_channels db)" and "bad_channel (xs_urlparse env) c" and "node_row db node \<noteq> None"
  shows "build_resources env db node = None
    \<and> (as_node s = node \<and> as_subscribed s \<noteq> [] \<and> to_push s \<noteq> [] \<longrightarrow> ads_round env db nonce s = None)"
proof -
  have "channel_clusters (xs_urlparse env) (sort_key ch_id (xd_channels db)) = None"
    using assms(1,2) unfolding channel_clusters_None by auto
  then have "build_resources env db node = None"
    using assms(3) by (auto simp: build_resources_def render_instance_cds_def render_cds_def)
  then show ?thesis by (auto simp: ads_round_def Let_def)
qed

section \<open>A round is a sequence of steps\<close>

lemma push_one_phase:
  "push_one env rs nonce t (s\<lparr>as_phase := p\<rparr>) = (let (s', r) = push_one env rs nonce t s in (s'\<lparr>as_phase := p\<rparr>, r))"
  by (simp add: push_one_def Let_def)

lemma push_steps:
  assumes "push_all env rs nonce ts s = (s', out)"
  shows "\<exists>latest'. (ads_step env)\<^sup>*\<^sup>* (set_stream i (s\<lparr>as_phase := ads_pushing rs ts latest\<rparr>) v)
    (set_stream i (s'\<lparr>as_phase := ads_pushing rs [] latest'\<rparr>) (v\<lparr>av_sent := av_sent v @ map (Pair i) out\<rparr>))"
  using assms
proof (induction ts arbitrary: s out v latest)
  case Nil
  then have "set_stream i (s\<lparr>as_phase := ads_pushing rs [] latest\<rparr>) v
      = set_stream i (s'\<lparr>as_phase := ads_pushing rs [] latest\<rparr>) (v\<lparr>av_sent := av_sent v @ map (Pair i) out\<rparr>)" by simp
  then show ?case by (metis rtranclp.rtrancl_refl)
next
  case (Cons t ts)
  obtain s1 r where 1: "push_one env rs (nonce t) t s = (s1, r)" by fastforce
  obtain out2 where 2: "push_all env rs nonce ts s1 = (s', out2)" and out: "out = (case r of None \<Rightarrow> out2 | Some x \<Rightarrow> x # out2)"
    using Cons.prems 1 by (auto split: prod.splits)
  define w where "w = set_stream i (s\<lparr>as_phase := ads_pushing rs (t # ts) latest\<rparr>) v"
  have w: "av_streams w i = Some (s\<lparr>as_phase := ads_pushing rs (t # ts) latest\<rparr>)" by (simp add: w_def)
  have p: "push_one env rs (nonce t) t (s\<lparr>as_phase := ads_pushing rs (t # ts) latest\<rparr>) = (s1\<lparr>as_phase := ads_pushing rs (t # ts) latest\<rparr>, r)"
    using 1 by (simp add: push_one_phase)
  show ?case
  proof (cases r)
    case None
    have st: "ads_step env w (set_stream i (s1\<lparr>as_phase := ads_pushing rs ts latest\<rparr>) v)"
      using ads_step.skipped [OF w _ p [unfolded None]] by (simp add: w_def)
    obtain l where "(ads_step env)\<^sup>*\<^sup>* (set_stream i (s1\<lparr>as_phase := ads_pushing rs ts latest\<rparr>) v)
        (set_stream i (s'\<lparr>as_phase := ads_pushing rs [] l\<rparr>) (v\<lparr>av_sent := av_sent v @ map (Pair i) out2\<rparr>))"
      using Cons.IH [OF 2] by blast
    then have "(ads_step env)\<^sup>*\<^sup>* w (set_stream i (s'\<lparr>as_phase := ads_pushing rs [] l\<rparr>) (v\<lparr>av_sent := av_sent v @ map (Pair i) out2\<rparr>))"
      by (rule converse_rtranclp_into_rtranclp [where r = "ads_step env", OF st])
    moreover have "out = out2" using None out by simp
    ultimately show ?thesis unfolding w_def by blast
  next
    case (Some x)
    let ?v = "v\<lparr>av_sent := av_sent v @ [(i, x)]\<rparr>"
    have st: "ads_step env w (set_stream i (s1\<lparr>as_phase := ads_pushing rs ts (Some (dr_version_info x))\<rparr>) ?v)"
      using ads_step.pushed [OF w _ p [unfolded Some]] by (simp add: w_def)
    obtain l where "(ads_step env)\<^sup>*\<^sup>* (set_stream i (s1\<lparr>as_phase := ads_pushing rs ts (Some (dr_version_info x))\<rparr>) ?v)
        (set_stream i (s'\<lparr>as_phase := ads_pushing rs [] l\<rparr>) (?v\<lparr>av_sent := av_sent ?v @ map (Pair i) out2\<rparr>))"
      using Cons.IH [OF 2] by blast
    then have "(ads_step env)\<^sup>*\<^sup>* w (set_stream i (s'\<lparr>as_phase := ads_pushing rs [] l\<rparr>) (?v\<lparr>av_sent := av_sent ?v @ map (Pair i) out2\<rparr>))"
      by (rule converse_rtranclp_into_rtranclp [where r = "ads_step env", OF st])
    moreover have "?v\<lparr>av_sent := av_sent ?v @ map (Pair i) out2\<rparr> = v\<lparr>av_sent := av_sent v @ map (Pair i) out\<rparr>" using Some out by simp
    ultimately show ?thesis unfolding w_def by metis
  qed
qed

lemma round_steps:
  assumes "av_streams v i = Some s" and "as_phase s = ads_waiting" and "as_event s" and "as_subscribed s \<noteq> []" and "to_push s \<noteq> []"
    and "ads_round env (av_db v) nonce s = Some (s', out)"
  shows "\<exists>db'. (ads_step env)\<^sup>*\<^sup>* v (set_stream i s' (v\<lparr>av_sent := av_sent v @ map (Pair i) out, av_db := db'\<rparr>))"
proof -
  from round_run [OF assms(6,4,5)] obtain rs s2 where b: "build_resources env (av_db v) (as_node s) = Some rs"
    and s': "s' = s2\<lparr>as_phase := ads_waiting\<rparr>" and p: "push_all env rs nonce (to_push s) (wake (to_push s) s) = (s2, out)" by metis
  let ?w = "wake (to_push s) s"
  have ph: "as_phase ?w = ads_building (to_push s)" using assms(4,5) by (simp add: wake_def)
  have "ads_step env v (set_stream i ?w v)" by (rule ads_step.woken [OF assms(1-3)]) simp
  moreover have "ads_step env (set_stream i ?w v) (set_stream i (?w\<lparr>as_phase := ads_pushing rs (to_push s) None\<rparr>) v)"
    using ads_step.built [of "set_stream i ?w v" i ?w "to_push s" env rs] ph b by simp
  moreover obtain latest where l: "(ads_step env)\<^sup>*\<^sup>* (set_stream i (?w\<lparr>as_phase := ads_pushing rs (to_push s) None\<rparr>) v)
      (set_stream i (s2\<lparr>as_phase := ads_pushing rs [] latest\<rparr>) (v\<lparr>av_sent := av_sent v @ map (Pair i) out\<rparr>))"
    using push_steps [OF p] by blast
  ultimately have "(ads_step env)\<^sup>*\<^sup>* v (set_stream i (s2\<lparr>as_phase := ads_pushing rs [] latest\<rparr>) (v\<lparr>av_sent := av_sent v @ map (Pair i) out\<rparr>))"
    by (meson converse_rtranclp_into_rtranclp)
  moreover let ?u = "set_stream i (s2\<lparr>as_phase := ads_pushing rs [] latest\<rparr>) (v\<lparr>av_sent := av_sent v @ map (Pair i) out\<rparr>)"
  let ?x = "set_stream i (s2\<lparr>as_phase := ads_touching latest\<rparr>) (v\<lparr>av_sent := av_sent v @ map (Pair i) out\<rparr>)"
  have "ads_step env ?u ?x" using ads_step.finished [of ?u i "s2\<lparr>as_phase := ads_pushing rs [] latest\<rparr>" rs latest env] by simp
  moreover have "ads_step env ?x (set_stream i s' (v\<lparr>av_sent := av_sent v @ map (Pair i) out, av_db := touch_seen 0 latest (as_node s2) (av_db v)\<rparr>))"
    using ads_step.touched [of ?x i "s2\<lparr>as_phase := ads_touching latest\<rparr>" latest env 0] s' by simp
  ultimately show ?thesis by (meson rtranclp.rtrancl_into_rtrancl)
qed

section \<open>Examples\<close>

definition demo_xds :: xds_env where
  \<comment> \<open>every message packs to its type, and the version counts the messages\<close>
  "demo_xds = \<lparr>xs_settings = \<lparr>es_api_port = 8000, es_internal_host = ''127.0.0.1'', es_internal_port = 8000, es_ext_proc_port = 8004,
        es_xds_port = 8003, es_als_port = 8002, es_auth_token = [], es_public_host = [], es_ext_proc_timeout = ''15s'', es_image = ''envoy''\<rparr>,
     xs_urlparse = (\<lambda>u. if u = ''bad'' then None else Some \<lparr>up_scheme = ''https'', up_hostname = Some u, up_port = Some None\<rparr>),
     xs_pack = (\<lambda>t d. Some t), xs_hash = (\<lambda>rs. str_nat (length rs))\<rparr>"

definition demo_node :: envoy_instance where
  "demo_node = \<lparr>ei_id = 1, ei_name = ''a'', ei_mode = envoy_local, ei_node_id = ''llmxy-a'', ei_listen_port = 9000,
     ei_admin_port = Some 9001, ei_admin_url = Some ''http://127.0.0.1:9001'', ei_status = envoy_running, ei_pid = None,
     ei_config_version = 0, ei_config_dir = None, ei_log_dir = None, ei_last_health_at = None, ei_last_error = None,
     ei_last_seen_at = None, ei_last_xds_version = None\<rparr>"

definition demo_xds_db :: "channel list \<Rightarrow> xds_db" where
  "demo_xds_db cs = \<lparr>xd_instances = [demo_node], xd_channels = cs\<rparr>"

definition demo_request_for :: "string \<Rightarrow> discovery_request" where
  "demo_request_for t = \<lparr>dq_node_id = ''llmxy-a'', dq_type_url = t, dq_error = [], dq_response_nonce = []\<rparr>"

definition demo_stream :: ads_stream where
  "demo_stream = \<lparr>as_node = ''llmxy-a'', as_subscribed = [cluster_type], as_pending = [cluster_type], as_sent_version = Map.empty,
     as_sent_nonce = Map.empty, as_event = True, as_phase = ads_waiting\<rparr>"

definition demo_served :: ads_stream where
  "demo_served = \<lparr>as_node = ''llmxy-a'', as_subscribed = [cluster_type], as_pending = [], as_sent_version = [cluster_type \<mapsto> ''2''],
     as_sent_nonce = [cluster_type \<mapsto> ''n''], as_event = False, as_phase = ads_waiting\<rparr>"

definition demo_response :: discovery_response where
  "demo_response = \<lparr>dr_version_info = ''2'', dr_type_url = cluster_type, dr_nonce = ''n'', dr_resources = [cluster_type, cluster_type]\<rparr>"

definition demo_nonce :: "string \<Rightarrow> string" where "demo_nonce t = ''n''"

definition demo_direct :: "string \<Rightarrow> channel" where
  "demo_direct url = (default_channel 1)\<lparr>ch_base_url := url\<rparr>"

lemma demo_resources:
  "build_resources demo_xds (demo_xds_db []) ''llmxy-a''
     = Some [(cluster_type, [cluster_type, cluster_type]), (listener_type, [listener_type]), (route_type, [route_type])]"
  "build_resources demo_xds (demo_xds_db [demo_direct ''api.x'']) ''llmxy-a''
     = Some [(cluster_type, [cluster_type, cluster_type, cluster_type]), (listener_type, [listener_type]), (route_type, [route_type])]"
  by code_simp+

lemma demo_known: "cluster_type \<in> set known_types" "cluster_type \<noteq> []" "route_type \<noteq> cluster_type" "route_type \<in> set known_types"
  by (simp_all add: known_types_def cluster_type_def route_type_def listener_type_def)

lemma demo_hash: "xs_hash demo_xds [x, y] = ''2''" "xs_hash demo_xds [x, y, z] = ''3''" "xs_hash demo_xds [x] = ''1''"
  by (simp_all add: demo_xds_def) code_simp+

lemma demo_round: "ads_round demo_xds (demo_xds_db []) demo_nonce demo_stream = Some (demo_served, [demo_response])"
  by (simp add: ads_round_def to_push_def wake_def push_one_def demo_stream_def demo_served_def demo_response_def demo_resources
      demo_known demo_hash demo_nonce_def Let_def)

lemma demo_open: "check_token (es_auth_token (xs_settings demo_xds)) []"
  by code_simp

lemma demo_served_ok: "stream_ok demo_served"
  by (simp add: stream_ok_def demo_served_def)

theorem subscriptions_served_witness:
  "\<exists>v r. (ads_step demo_xds)\<^sup>*\<^sup>* (ads_start (demo_xds_db [])) v \<and> (0, r) \<in> set (av_sent v) \<and> dr_type_url r = cluster_type"
proof -
  let ?v = "(ads_start (demo_xds_db []))\<lparr>av_events := [''llmxy-a'' \<mapsto> 0], av_streams := [0 \<mapsto> demo_stream]\<rparr>"
  have "stream_open demo_xds [] (Some (demo_request_for cluster_type)) 0 (ads_start (demo_xds_db [])) = ads_opened ?v"
    by (simp add: stream_open_def demo_open demo_request_for_def ads_start_def node_row_def demo_xds_db_def
        demo_node_def new_ads_stream_def demo_known demo_stream_def Let_def)
  then have 1: "ads_step demo_xds (ads_start (demo_xds_db [])) ?v" by (rule ads_step.opened [rotated]) (simp add: ads_start_def)
  obtain db' where 2: "(ads_step demo_xds)\<^sup>*\<^sup>* ?v (set_stream 0 demo_served (?v\<lparr>av_sent := av_sent ?v @ map (Pair 0) [demo_response], av_db := db'\<rparr>))"
    using round_steps [of ?v 0 demo_stream demo_xds demo_nonce demo_served "[demo_response]"] demo_round
    by (auto simp: demo_stream_def ads_start_def to_push_def)
  let ?w = "set_stream 0 demo_served (?v\<lparr>av_sent := av_sent ?v @ map (Pair 0) [demo_response], av_db := db'\<rparr>)"
  have 3: "(ads_step demo_xds)\<^sup>*\<^sup>* (ads_start (demo_xds_db [])) ?w"
    by (rule converse_rtranclp_into_rtranclp [where r = "ads_step demo_xds", OF 1 2])
  have "\<exists>r. (0, r) \<in> set (av_sent ?w) \<and> dr_type_url r = cluster_type \<and> as_sent_version demo_served cluster_type = Some (dr_version_info r)"
    by (rule subscriptions_served [OF 3]) (simp_all add: demo_served_def demo_known)
  with 3 show ?thesis by blast
qed

theorem notified_up_to_date_witness:
  "\<exists>s' out. ads_round demo_xds (demo_xds_db [demo_direct ''api.x'']) demo_nonce (demo_served\<lparr>as_event := True\<rparr>) = Some (s', out)
    \<and> as_sent_version demo_served cluster_type = Some ''2'' \<and> as_sent_version s' cluster_type = Some ''3''"
  using notified_up_to_date [OF demo_served_ok, of demo_xds "demo_xds_db [demo_direct ''api.x'']"] demo_resources(2)
  by (fastforce simp: demo_served_def demo_known version_of_def demo_hash)

theorem notification_lost_witness:
  "\<exists>s s' out. as_sent_version s cluster_type = Some ''2''
    \<and> ads_round demo_xds (demo_xds_db [demo_direct ''api.x'']) demo_nonce (s\<lparr>as_event := True\<rparr>) = Some (s', out)
    \<and> as_sent_version s' cluster_type = Some ''2'' \<and> \<not> as_event s'"
proof -
  let ?s = "demo_served\<lparr>as_subscribed := [cluster_type, route_type], as_pending := [route_type]\<rparr>"
  let ?r = "ads_round demo_xds (demo_xds_db [demo_direct ''api.x'']) demo_nonce (?s\<lparr>as_event := True\<rparr>)"
  have "?r \<noteq> None"
    by (simp add: ads_round_def demo_served_def demo_resources(2) Let_def del: split_paired_Ex)
  then obtain s' out where r: "?r = Some (s', out)" by auto
  have "as_sent_version s' cluster_type = as_sent_version ?s cluster_type \<and> cluster_type \<notin> dr_type_url ` set out
    \<and> as_phase s' = ads_waiting \<and> \<not> as_event s' \<and> as_pending s' = []"
    by (rule notification_lost [OF _ _ _ r]) (simp_all add: demo_known demo_known(3) [symmetric])
  then show ?thesis using r by (intro exI [of _ ?s] exI [of _ s'] exI [of _ out]) (simp add: demo_served_def)
qed

theorem acks_end_exchange_witness: "fold process_request (map ack [demo_response, demo_response]) demo_served = demo_served"
  by (rule acks_end_exchange [OF demo_round]) (simp_all add: demo_stream_def to_push_def demo_nonce_def)

theorem nack_resends_witness:
  "\<exists>s' r'. ads_round demo_xds (demo_xds_db []) (\<lambda>t. ''m'') (process_request (nack ''refused'' demo_response) demo_served) = Some (s', [r'])
    \<and> dr_version_info r' = ''2''"
proof -
  have "as_node demo_served = ''llmxy-a''" by (simp add: demo_served_def)
  then have b: "build_resources demo_xds (demo_xds_db []) (as_node demo_served)
     = Some [(cluster_type, [cluster_type, cluster_type]), (listener_type, [listener_type]), (route_type, [route_type])]"
    by (simp only: demo_resources(1))
  show ?thesis
    using nack_resends [OF _ _ _ _ _ b, of cluster_type demo_response "''refused''" "\<lambda>t. ''m''"]
    by (fastforce simp: demo_served_def demo_known version_of_def demo_hash demo_response_def)
qed

theorem reconnect_unregistered_witness:
  "\<exists>v. av_streams v 2 = Some (new_ads_stream (demo_request_for cluster_type)) \<and> \<not> ads_connected ''llmxy-a'' v \<and> local_notify ''llmxy-a'' v = v"
proof -
  let ?v = "(ads_start (demo_xds_db []))\<lparr>av_events := [''llmxy-a'' \<mapsto> 1], av_streams := [1 \<mapsto> demo_served]\<rparr>"
  have "\<exists>v1. stream_open demo_xds [] (Some (demo_request_for cluster_type)) 2 ?v = ads_opened v1"
    by (simp add: stream_open_def demo_open demo_request_for_def ads_start_def node_row_def demo_xds_db_def demo_node_def)
  then obtain v1 where "stream_open demo_xds [] (Some (demo_request_for cluster_type)) 2 ?v = ads_opened v1" by blast
  from reconnect_unregistered [OF _ _ _ _ this, of 1 demo_served "''llmxy-a''"] show ?thesis
    by (auto simp: demo_served_def demo_request_for_def)
qed

theorem bad_channel_stops_all_witness: "build_resources demo_xds (demo_xds_db [demo_direct ''bad'']) ''llmxy-a'' = None"
proof -
  have "bad_channel (xs_urlparse demo_xds) (demo_direct ''bad'')" by code_simp
  then show ?thesis
    using bad_channel_stops_all [of "demo_direct ''bad''" "demo_xds_db [demo_direct ''bad'']" demo_xds "''llmxy-a''"]
    by (simp add: demo_xds_db_def node_row_def demo_node_def)
qed

end
