(* ===== verification/Config_Laws.thy ===== *)
theory Config_Laws
  imports Xds_Server Ext_Laws
begin

text \<open>
  The rendered configuration: every cluster that the listener, the routes and the bootstrap refer to is
  defined, names are unique, each instance binds its own port and dials the right control plane; and
  the tokens that a node presents to the three services.
\<close>

section \<open>References between resources\<close>

fun cluster_refs :: "json \<Rightarrow> string list" where
  \<comment> \<open>all texts under the keys \<open>cluster\<close> and \<open>cluster_name\<close>\<close>
  "cluster_refs (JList xs) = concat (map cluster_refs xs)"
| "cluster_refs (JObj d) = concat (map (\<lambda>kv.
     (case kv of (k, v) \<Rightarrow> (if k \<in> {''cluster'', ''cluster_name''} then (case v of JStr s \<Rightarrow> [s] | _ \<Rightarrow> []) else []) @ cluster_refs v)) d)"
| "cluster_refs v = []"

definition resource_name :: "dict \<Rightarrow> json" where
  "resource_name res = dict_get_none res ''name''"


definition translator_at :: "string \<times> int \<Rightarrow> dict" where
  "translator_at addr =
     [(''@type'', JStr cluster_type), (''name'', JStr ''translator''), (''type'', JStr ''STRICT_DNS''), (''connect_timeout'', JStr ''5s''),
      (''lb_policy'', JStr ''ROUND_ROBIN''), (''load_assignment'', load_assignment ''translator'' (fst addr) (snd addr))]"

definition ext_proc_at :: "string \<times> int \<Rightarrow> dict" where
  "ext_proc_at addr = (''@type'', JStr cluster_type) # grpc_cluster ''ext_proc'' (fst addr) (snd addr)"

definition channel_resource :: "int \<Rightarrow> string \<times> int \<times> bool \<Rightarrow> dict" where
  "channel_resource i hp = (''@type'', JStr cluster_type) # channel_cluster (channel_cluster_name i) hp"

lemma channel_name_other: "channel_cluster_name i \<noteq> ''translator''" "channel_cluster_name i \<noteq> ''ext_proc''" "channel_cluster_name i \<noteq> ''als''"
  by (simp_all add: channel_cluster_name_def)

lemma rewritten:
  "rewrite_cluster es inst ((''@type'', JStr cluster_type) # translator_cluster es) = translator_at (target_addr es inst)"
  "rewrite_cluster es inst ((''@type'', JStr cluster_type) # grpc_cluster ''ext_proc'' h p) = ext_proc_at (ext_proc_addr es inst)"
  "rewrite_cluster es inst (channel_resource i hp) = channel_resource i hp"
  by (simp_all add: rewrite_cluster_def translator_cluster_def translator_at_def ext_proc_at_def grpc_cluster_def redirect_cluster_def
      on_dict_def load_assignment_def socket_address_def dict_get_none_def channel_resource_def channel_cluster_def channel_name_other
      split: prod.splits)

lemma channel_clusters_resources:
  "channel_clusters up cs = Some ds \<Longrightarrow>
    \<exists>ihps. map (\<lambda>c. (''@type'', JStr cluster_type) # c) ds = map (\<lambda>(i, hp). channel_resource i hp) ihps
      \<and> map fst ihps = map ch_id (filter (\<lambda>c. ch_enabled c \<and> is_direct c) cs)"
proof (induction cs arbitrary: ds)
  case (Cons c cs)
  show ?case
  proof (cases "ch_enabled c \<and> is_direct c")
    case True
    with Cons.prems obtain hp ds' where d: "ds = channel_cluster (channel_cluster_name (ch_id c)) hp # ds'" "channel_clusters up cs = Some ds'"
      by (auto split: option.splits)
    from Cons.IH [OF d(2)] obtain ihps where "map (\<lambda>c. (''@type'', JStr cluster_type) # c) ds' = map (\<lambda>(i, hp). channel_resource i hp) ihps"
      "map fst ihps = map ch_id (filter (\<lambda>c. ch_enabled c \<and> is_direct c) cs)" by blast
    with d(1) True show ?thesis by (intro exI [of _ "(ch_id c, hp) # ihps"]) (simp add: channel_resource_def)
  qed (use Cons in auto)
qed simp

lemma instance_cds:
  assumes "render_instance_cds up es inst cs = Some cds"
  obtains ihps where "cds = translator_at (target_addr es inst) # ext_proc_at (ext_proc_addr es inst) # map (\<lambda>(i, hp). channel_resource i hp) ihps"
    and "map fst ihps = map ch_id (filter (\<lambda>c. ch_enabled c \<and> is_direct c) cs)"
proof -
  obtain ds where d: "channel_clusters up cs = Some ds"
    and c: "cds = map (rewrite_cluster es inst) (filter (\<lambda>res. dict_get_none res ''name'' \<noteq> JStr ''als'')
       (map (\<lambda>c. (''@type'', JStr cluster_type) # c)
         (translator_cluster es # grpc_cluster ''ext_proc'' (es_internal_host es) (es_ext_proc_port es) # ds)))"
    using assms by (auto simp: render_instance_cds_def render_cds_def)
  from channel_clusters_resources [OF d] obtain ihps
    where r: "map (\<lambda>c. (''@type'', JStr cluster_type) # c) ds = map (\<lambda>(i, hp). channel_resource i hp) ihps"
      and f: "map fst ihps = map ch_id (filter (\<lambda>c. ch_enabled c \<and> is_direct c) cs)" by blast
  have n: "dict_get_none ((''@type'', JStr cluster_type) # translator_cluster es) ''name'' = JStr ''translator''"
    "dict_get_none ((''@type'', JStr cluster_type) # grpc_cluster ''ext_proc'' h p) ''name'' = JStr ''ext_proc''"
    "dict_get_none (channel_resource i hp) ''name'' = JStr (channel_cluster_name i)" for h p i hp
    by (simp_all add: dict_get_none_def translator_cluster_def grpc_cluster_def channel_resource_def channel_cluster_def split: prod.splits)
  have "filter (\<lambda>res. dict_get_none res ''name'' \<noteq> JStr ''als'') (map (\<lambda>(i, hp). channel_resource i hp) ihps)
      = map (\<lambda>(i, hp). channel_resource i hp) ihps"
    by (auto simp: filter_id_conv n channel_name_other)
  then have "cds = translator_at (target_addr es inst) # ext_proc_at (ext_proc_addr es inst) # map (\<lambda>(i, hp). channel_resource i hp) ihps"
    unfolding c list.map r by (simp add: n rewritten split_def)
  with that f show thesis by blast
qed

lemma resource_names:
  "resource_name (translator_at a) = JStr ''translator''" "resource_name (ext_proc_at a) = JStr ''ext_proc''"
  "resource_name (channel_resource i hp) = JStr (channel_cluster_name i)" "resource_name (static_cluster n h p) = JStr n"
  by (simp_all add: resource_name_def dict_get_none_def translator_at_def ext_proc_at_def grpc_cluster_def channel_resource_def
      channel_cluster_def static_cluster_def split: prod.splits)

lemma metadata_refs: "concat (map (\<lambda>kv. case kv of (k, v) \<Rightarrow> (if k \<in> {''cluster'', ''cluster_name''} then (case v of JStr s \<Rightarrow> [s] | _ \<Rightarrow> []) else [])
     @ cluster_refs v) (initial_metadata t)) = []"
  by (simp add: initial_metadata_def)

lemma assignment_refs: "cluster_refs (load_assignment n h p) = [n]"
  by (simp add: load_assignment_def socket_address_def)

lemma cluster_resource_refs:
  "cluster_refs (JObj (translator_at a)) = [''translator'']" "cluster_refs (JObj (ext_proc_at a)) = [''ext_proc'']"
  "cluster_refs (JObj (channel_resource i hp)) = [channel_cluster_name i]" "cluster_refs (JObj (static_cluster n h p)) = [n]"
  by (simp_all add: translator_at_def ext_proc_at_def grpc_cluster_def channel_resource_def channel_cluster_def static_cluster_def
      assignment_refs http2_options_def split: prod.splits)

lemma bound_listener:
  "render_instance_lds es inst =
     [[(''@type'', JStr listener_type), (''name'', JStr ''llmxy_listener''), (''address'', socket_address ''0.0.0.0'' (listen_bind_port inst)),
       (''filter_chains'', JList [JObj [(''filters'', JList [
          JObj [(''name'', JStr ''envoy.filters.network.http_connection_manager''), (''typed_config'', connection_manager es)]])]])]]"
  by (simp add: render_instance_lds_def render_lds_def bind_listener_def on_dict_def socket_address_def rds_over_ads_def connection_manager_def)

lemma listener_refs:
  "concat (map (\<lambda>d. cluster_refs (JObj d)) (render_instance_lds es inst)) = [''als_cluster'', ''ext_proc'']"
  by (cases "es_auth_token es = []")
    (simp_all add: bound_listener connection_manager_def access_log_config_def ext_proc_filter_def initial_metadata_def ads_source_def
      socket_address_def logged_headers_def)

lemma route_refs: "concat (map (\<lambda>d. cluster_refs (JObj d)) render_rds) = [''translator'']"
  by (simp add: render_rds_def route_opts_def)

lemma service_refs: "cluster_refs (JObj (ads_service es)) = [''xds_cluster'']"
  using metadata_refs by (simp add: ads_service_def)

definition refs_of :: "dict list \<Rightarrow> string list" where
  "refs_of ds = concat (map (\<lambda>d. cluster_refs (JObj d)) ds)"

text \<open>
  Claim C32. The configuration of a node is closed and addressed to it: the names of its clusters are
  unique, every cluster that its listener, its routes, its clusters or its bootstrap refer to is
  either delivered or static in the bootstrap, the listener binds the port of the instance (the fixed
  port on a remote node), and the translator and the external processor are dialled at the
  control plane of the instance.
\<close>

theorem configuration_closed:
  assumes "render_instance_cds up es inst cs = Some cds" and "distinct (map ch_id cs)"
  shows "distinct (map resource_name cds)
    \<and> JStr ` set (refs_of (cds @ render_instance_lds es inst @ render_rds @ static_clusters es inst @ [ads_service es]))
        \<subseteq> set (map resource_name (cds @ static_clusters es inst))
    \<and> map (\<lambda>l. dict_get_none l ''address'') (render_instance_lds es inst) = [socket_address ''0.0.0.0'' (listen_bind_port inst)]
    \<and> translator_at (target_addr es inst) \<in> set cds \<and> ext_proc_at (ext_proc_addr es inst) \<in> set cds"
proof -
  from instance_cds [OF assms(1)] obtain ihps
    where c: "cds = translator_at (target_addr es inst) # ext_proc_at (ext_proc_addr es inst) # map (\<lambda>(i, hp). channel_resource i hp) ihps"
      and f: "map fst ihps = map ch_id (filter (\<lambda>c. ch_enabled c \<and> is_direct c) cs)" by blast
  have names: "map resource_name (map (\<lambda>(i, hp). channel_resource i hp) ihps) = map (\<lambda>i. JStr (channel_cluster_name i)) (map fst ihps)"
    by (simp add: resource_names split_def comp_def)
  have "distinct (map fst ihps)" unfolding f using assms(2) by (simp add: distinct_map_filter)
  moreover have "distinct is \<Longrightarrow> distinct (map (\<lambda>i. JStr (channel_cluster_name i)) is)" for "is"
    by (auto simp: distinct_map inj_on_def channel_cluster_name_def)
  ultimately have "distinct (map (\<lambda>i. JStr (channel_cluster_name i)) (map fst ihps))" by blast
  then have d: "distinct (map resource_name cds)"
    unfolding c list.map names by (auto simp: resource_names channel_name_other channel_name_other [symmetric])
  have r: "refs_of cds = ''translator'' # ''ext_proc'' # map (\<lambda>(i, hp). channel_cluster_name i) ihps"
    unfolding c refs_of_def by (simp add: cluster_resource_refs split_def comp_def concat_map_singleton del: cluster_refs.simps)
  have st: "refs_of (static_clusters es inst) = [''xds_cluster'', ''als_cluster'']"
      "map resource_name (static_clusters es inst) = [JStr ''xds_cluster'', JStr ''als_cluster'']"
    by (simp_all add: refs_of_def static_clusters_def cluster_resource_refs resource_names del: cluster_refs.simps)
  have app: "refs_of (a @ b) = refs_of a @ refs_of b" for a b by (simp add: refs_of_def)
  have l: "refs_of (render_instance_lds es inst) = [''als_cluster'', ''ext_proc'']" "refs_of render_rds = [''translator'']"
      "refs_of [ads_service es] = [''xds_cluster'']"
    using listener_refs route_refs service_refs by (simp_all add: refs_of_def del: cluster_refs.simps)
  have n: "set (map resource_name cds) = {JStr ''translator'', JStr ''ext_proc''} \<union> (\<lambda>(i, hp). JStr (channel_cluster_name i)) ` set ihps"
    unfolding c by (auto simp: resource_names split_def)
  have "JStr ` set (refs_of (cds @ render_instance_lds es inst @ render_rds @ static_clusters es inst @ [ads_service es]))
        \<subseteq> set (map resource_name (cds @ static_clusters es inst))"
    unfolding app r l st map_append set_append n by (auto simp: split_def)
  with d show ?thesis by (simp add: c bound_listener dict_get_none_def)
qed

section \<open>Tokens\<close>

definition metadata_of :: "dict \<Rightarrow> (string \<times> string) list" where
  \<comment> \<open>the metadata Envoy adds to its calls to a gRPC service with this configuration\<close>
  "metadata_of service =
     (case dict_get service ''initial_metadata'' of
        Some (JList ms) \<Rightarrow> concat (map (\<lambda>m. case m of
          JObj d \<Rightarrow> (case (dict_get_none d ''key'', dict_get_none d ''value'') of (JStr k, JStr v) \<Rightarrow> [(k, v)] | _ \<Rightarrow> []) | _ \<Rightarrow> []) ms)
      | _ \<Rightarrow> [])"

definition ext_proc_service :: "envoy_settings \<Rightarrow> dict" where
  "ext_proc_service es = [(''envoy_grpc'', JObj [(''cluster_name'', JStr ''ext_proc'')]), (''timeout'', JStr (es_ext_proc_timeout es))]
     @ initial_metadata (es_auth_token es)"

definition als_service :: "envoy_settings \<Rightarrow> dict" where
  "als_service es = (''envoy_grpc'', JObj [(''cluster_name'', JStr ''als_cluster'')]) # initial_metadata (es_auth_token es)"

lemma services_rendered:
  "\<exists>f. ext_proc_filter es = JObj f \<and> (\<exists>tc. dict_get f ''typed_config'' = Some (JObj tc)
     \<and> dict_get tc ''grpc_service'' = Some (JObj (ext_proc_service es)) \<and> dict_get tc ''failure_mode_allow'' = Some (JBool False))"
  "\<exists>f. access_log_config es = JObj f \<and> (\<exists>tc cc. dict_get f ''typed_config'' = Some (JObj tc)
     \<and> dict_get tc ''common_config'' = Some (JObj cc) \<and> dict_get cc ''grpc_service'' = Some (JObj (als_service es)))"
  by (simp_all add: ext_proc_filter_def access_log_config_def ext_proc_service_def als_service_def)

lemma metadata_simps:
  "metadata_of (ads_service es) = (if first_token (es_auth_token es) = [] then [] else [(''x-llmxy-token'', first_token (es_auth_token es))])"
  "metadata_of (ext_proc_service es) = (if es_auth_token es = [] then [] else [(''x-llmxy-token'', es_auth_token es)])"
  "metadata_of (als_service es) = (if es_auth_token es = [] then [] else [(''x-llmxy-token'', es_auth_token es)])"
  by (simp_all add: metadata_of_def ads_service_def ext_proc_service_def als_service_def initial_metadata_def dict_get_none_def)

lemma check_token_accepted:
  "check_token raw md \<longleftrightarrow> accepted_tokens raw = [] \<or> (case map_of (rev md) ''x-llmxy-token'' of None \<Rightarrow> False | Some t \<Rightarrow> t \<in> set (accepted_tokens raw))"
  unfolding check_token_def accepted_tokens_def Let_def by (rule refl)

lemma strip_chars: "set (py_strip t) \<subseteq> set t"
  by (auto simp: py_strip_def py_lstrip_def py_rstrip_def dest!: set_dropWhileD)

lemma split_no_sep: "p \<in> set (py_split_chr sep s) \<Longrightarrow> sep \<notin> set p"
  by (induction s arbitrary: p) (auto split: if_splits list.splits)

lemma token_no_comma: "t \<in> set (accepted_tokens raw) \<Longrightarrow> CHR '','' \<notin> set t"
  using strip_chars split_no_sep by (fastforce simp: accepted_tokens_def)

lemma token_nonempty: "t \<in> set (accepted_tokens raw) \<Longrightarrow> t \<noteq> []"
  by (auto simp: accepted_tokens_def)

lemma two_tokens_comma:
  assumes "length (accepted_tokens raw) \<ge> 2"
  shows "CHR '','' \<in> set raw"
proof (rule ccontr)
  assume "CHR '','' \<notin> set raw"
  then have "py_split_chr (CHR '','') raw = [raw]" by (rule py_split_none)
  with assms show False by (simp add: accepted_tokens_def split: if_splits)
qed

text \<open>
  Claim C37. While two tokens are accepted, as a rotation needs, a node whose bootstrap carries the
  first one can open its configuration stream, but the configuration it receives makes it present the
  whole comma-separated setting to the external processor and to the access log service, which both
  refuse it: the external processor answers no request, and as its filter does not allow failures every
  request through the node fails; no access entry is taken and none is billed.
\<close>

theorem rotation_refused:
  assumes "length (accepted_tokens (es_auth_token es)) \<ge> 2" and "xe_tokens env = es_auth_token es"
  shows "check_token (es_auth_token es) (metadata_of (ads_service es))
    \<and> \<not> check_token (es_auth_token es) (metadata_of (als_service es))
    \<and> ext_process env (metadata_of (ext_proc_service es)) now ms s = (s, [], False)"
proof -
  obtain t ts where t: "accepted_tokens (es_auth_token es) = t # ts" using assms(1) by (cases "accepted_tokens (es_auth_token es)") auto
  have ne: "t \<noteq> []" using t token_nonempty [of t "es_auth_token es"] by simp
  have c: "CHR '','' \<in> set (es_auth_token es)" by (rule two_tokens_comma [OF assms(1)])
  then have "es_auth_token es \<notin> set (accepted_tokens (es_auth_token es))" using token_no_comma by blast
  then show ?thesis
    using t ne c assms(2) by (auto simp: check_token_accepted metadata_simps first_token_def ext_process_def)
qed

text \<open>
  With one token and no white space around it all three services accept the node.
\<close>

lemma single_token_accepted:
  assumes "accepted_tokens (es_auth_token es) = [es_auth_token es]"
  shows "check_token (es_auth_token es) (metadata_of (ads_service es)) \<and> check_token (es_auth_token es) (metadata_of (als_service es))
    \<and> check_token (es_auth_token es) (metadata_of (ext_proc_service es))"
proof -
  have "es_auth_token es \<noteq> []" using assms token_nonempty [of "es_auth_token es" "es_auth_token es"] by simp
  with assms show ?thesis by (simp add: check_token_accepted metadata_simps first_token_def)
qed

section \<open>Examples\<close>

definition demo_settings :: envoy_settings where
  "demo_settings = \<lparr>es_api_port = 8000, es_internal_host = ''127.0.0.1'', es_internal_port = 8000, es_ext_proc_port = 8004,
     es_xds_port = 8003, es_als_port = 8002, es_auth_token = ''old,new'', es_public_host = ''cp.x'', es_ext_proc_timeout = ''15s'',
     es_image = ''envoy''\<rparr>"

definition demo_remote :: envoy_instance where
  "demo_remote = \<lparr>ei_id = 2, ei_name = ''b'', ei_mode = envoy_remote, ei_node_id = ''llmxy-remote-b'', ei_listen_port = 30000,
     ei_admin_port = Some 30001, ei_admin_url = Some ''http://b:30001'', ei_status = envoy_running, ei_pid = None,
     ei_config_version = 0, ei_config_dir = None, ei_log_dir = None, ei_last_health_at = None, ei_last_error = None,
     ei_last_seen_at = None, ei_last_xds_version = None\<rparr>"

definition demo_parse :: url_parser where
  "demo_parse u = Some \<lparr>up_scheme = ''https'', up_hostname = Some u, up_port = Some None\<rparr>"

theorem configuration_closed_witness:
  "\<exists>cds. render_instance_cds demo_parse demo_settings demo_remote [(default_channel 1)\<lparr>ch_base_url := ''api.x''\<rparr>] = Some cds
    \<and> distinct (map resource_name cds) \<and> translator_at (''cp.x'', 8000) \<in> set cds"
proof -
  have "\<exists>cds. render_instance_cds demo_parse demo_settings demo_remote [(default_channel 1)\<lparr>ch_base_url := ''api.x''\<rparr>] = Some cds"
    by (simp add: render_instance_cds_def render_cds_def upstream_host_port_def demo_parse_def)
  then obtain cds where c: "render_instance_cds demo_parse demo_settings demo_remote [(default_channel 1)\<lparr>ch_base_url := ''api.x''\<rparr>] = Some cds"
    by blast
  have "target_addr demo_settings demo_remote = (''cp.x'', 8000)" by code_simp
  with configuration_closed [OF c] c show ?thesis by simp
qed

theorem rotation_refused_witness:
  "check_token ''old,new'' (metadata_of (ads_service demo_settings))
    \<and> \<not> check_token ''old,new'' (metadata_of (als_service demo_settings))
    \<and> ext_process (demo_ext_env\<lparr>xe_tokens := ''old,new''\<rparr>) (metadata_of (ext_proc_service demo_settings)) 0 [] (demo_key_db, new_worker, demo_route_state) = ((demo_key_db, new_worker, demo_route_state), [], False)"
proof -
  have "length (accepted_tokens (es_auth_token demo_settings)) \<ge> 2" by code_simp
  from rotation_refused [OF this, of "demo_ext_env\<lparr>xe_tokens := ''old,new''\<rparr>" 0 "[]" "(demo_key_db, new_worker, demo_route_state)"] show ?thesis by (simp add: demo_settings_def)
qed

end
