(* ===== verification/Envoy_Runtime.thy ===== *)
theory Envoy_Runtime
  imports Xds_Server Redis_Store Sse_Text
begin

text \<open>
  The life of local Envoy processes: \<^verbatim>\<open>services/envoy/runtime.py\<close> on a POSIX host. The state holds the
  committed rows, the handles of the processes this API process has started, the processes that it
  can signal (a killed child stays visible until it is waited for), the pid and bootstrap files, and
  the counters of failed probes. Ports, spawning, probes and how processes react to signals are
  parameters. The warm-up of smart routes before a start only fills caches and is left out.
\<close>

section \<open>State\<close>

record runtime =
  rt_rows :: "envoy_instance list"
  rt_handles :: "int \<rightharpoonup> int"
    \<comment> \<open>\<open>_procs\<close>: instance id to pid\<close>
  rt_visible :: "int list"
    \<comment> \<open>pids for which \<open>os.kill(pid, 0)\<close> succeeds\<close>
  rt_files :: "string \<rightharpoonup> string"
  rt_failures :: "int \<rightharpoonup> nat"
    \<comment> \<open>\<open>_health_fail_count\<close>\<close>

datatype spawned = spawn_pid int | spawn_not_found | spawn_failed string

record runtime_env =
  re_busy :: "int \<Rightarrow> bool"
    \<comment> \<open>something listens on the port\<close>
  re_dirs_ok :: bool
  re_log_ok :: bool
  re_pid_file_ok :: bool
    \<comment> \<open>the configuration directory, the log file and the pid file can be written\<close>
  re_spawn :: spawned
  re_ready_probes :: "(int \<times> string) option list"
    \<comment> \<open>the probes of \<open>_wait_ready\<close> until its deadline: status and body, \<open>None\<close> when the call raises\<close>
  re_term :: "int \<Rightarrow> bool"
    \<comment> \<open>the process ends within twenty polls of a SIGTERM\<close>
  re_kill :: "int \<Rightarrow> bool"
    \<comment> \<open>a process of another parent is gone right after a SIGKILL\<close>
  re_get :: "string \<Rightarrow> int option"
    \<comment> \<open>status of a GET, \<open>None\<close> when it raises\<close>
  re_bin :: string
  re_dump :: "json \<Rightarrow> string"
  re_settings :: envoy_settings

abbreviation get_row :: "runtime \<Rightarrow> int \<Rightarrow> envoy_instance option" where
  "get_row st i \<equiv> row_get ei_id i (rt_rows st)"

definition put_row :: "envoy_instance \<Rightarrow> runtime \<Rightarrow> runtime" where
  \<comment> \<open>commit of the loaded row\<close>
  "put_row inst st = st\<lparr>rt_rows := row_upd ei_id (ei_id inst) (\<lambda>_. inst) (rt_rows st)\<rparr>"

section \<open>Files and processes\<close>

definition path_join :: "string \<Rightarrow> string \<Rightarrow> string" where
  \<comment> \<open>\<open>os.path.join\<close>\<close>
  "path_join a b = (if py_startswith b ''/'' then b else if a = [] \<or> py_endswith a ''/'' then a @ b else a @ ''/'' @ b)"

definition pid_path :: "envoy_instance \<Rightarrow> string option" where
  "pid_path inst = map_option (\<lambda>d. path_join d ''envoy.pid'') (ei_config_dir inst)"

definition bootstrap_path :: "envoy_instance \<Rightarrow> string option" where
  "bootstrap_path inst = map_option (\<lambda>d. path_join d ''bootstrap.yaml'') (ei_config_dir inst)"

definition write_pid_file :: "runtime_env \<Rightarrow> envoy_instance \<Rightarrow> int \<Rightarrow> runtime \<Rightarrow> runtime" where
  "write_pid_file env inst pid st =
     (case pid_path inst of
        Some p \<Rightarrow> if re_pid_file_ok env then st\<lparr>rt_files := (rt_files st)(p \<mapsto> str_int pid)\<rparr> else st
      | None \<Rightarrow> st)"

definition read_pid_file :: "envoy_instance \<Rightarrow> runtime \<Rightarrow> int option" where
  "read_pid_file inst st =
     (case pid_path inst of
        None \<Rightarrow> None
      | Some p \<Rightarrow> (case rt_files st p of None \<Rightarrow> None
          | Some s \<Rightarrow> (case int_of_text (py_strip s) of Inl _ \<Rightarrow> None | Inr n \<Rightarrow> Some n)))"

definition remove_pid_file :: "envoy_instance \<Rightarrow> runtime \<Rightarrow> runtime" where
  "remove_pid_file inst st =
     (case pid_path inst of None \<Rightarrow> st | Some p \<Rightarrow> st\<lparr>rt_files := (rt_files st)(p := None)\<rparr>)"

definition or_pid :: "int option \<Rightarrow> int option \<Rightarrow> int option" where
  \<comment> \<open>\<open>a or b\<close>\<close>
  "or_pid a b = (case a of None \<Rightarrow> b | Some p \<Rightarrow> if p = 0 then b else a)"

definition pid_alive :: "runtime \<Rightarrow> int option \<Rightarrow> bool" where
  "pid_alive st pid = (case pid of None \<Rightarrow> False | Some p \<Rightarrow> p \<noteq> 0 \<and> p \<in> set (rt_visible st))"

definition gone :: "int \<Rightarrow> runtime \<Rightarrow> runtime" where
  "gone pid st = st\<lparr>rt_visible := removeAll pid (rt_visible st)\<rparr>"

definition wait_ready :: "(int \<times> string) option list \<Rightarrow> bool" where
  "wait_ready probes = list_ex (\<lambda>p. case p of None \<Rightarrow> False
     | Some (code, body) \<Rightarrow> code = 200 \<and> py_contains (py_upper body) ''LIVE'') probes"

section \<open>Start, stop, restart, reload\<close>

definition admin_busy :: "runtime_env \<Rightarrow> envoy_instance \<Rightarrow> int option" where
  \<comment> \<open>the admin port, when there is one and it is in use\<close>
  "admin_busy env inst = (case ei_admin_port inst of None \<Rightarrow> None | Some p \<Rightarrow> if p \<noteq> 0 \<and> re_busy env p then Some p else None)"

definition fail_start :: "envoy_instance \<Rightarrow> string \<Rightarrow> http_error \<Rightarrow> runtime \<Rightarrow> runtime \<times> 'a result" where
  "fail_start inst reason e st = (put_row (inst\<lparr>ei_status := envoy_error, ei_last_error := Some reason\<rparr>) st, Inl e)"

definition launch :: "runtime_env \<Rightarrow> datetime \<Rightarrow> envoy_instance \<Rightarrow> runtime \<Rightarrow> runtime \<times> (string \<times> int option) result" where
  \<comment> \<open>from the spawning of the process on; a child that is terminated is not waited for\<close>
  "launch env now inst st =
     (case re_spawn env of
        spawn_not_found \<Rightarrow>
          (let msg = ''envoy binary not found: '' @ re_bin env in fail_start inst msg (http 500 msg) st)
      | spawn_failed e \<Rightarrow>
          (let msg = ''spawn failed: '' @ e in fail_start inst msg (http 500 msg) st)
      | spawn_pid p \<Rightarrow>
          (let inst1 = inst\<lparr>ei_pid := Some p\<rparr>;
               st1 = put_row inst1 (write_pid_file env inst1 p
                       (st\<lparr>rt_handles := (rt_handles st)(ei_id inst \<mapsto> p), rt_visible := p # rt_visible st\<rparr>))
           in if \<not> wait_ready (re_ready_probes env)
              then let msg = ''envoy failed to become ready within 10s'' in
                   fail_start inst1 msg (http 500 msg) st1
              else (put_row (inst1\<lparr>ei_status := envoy_running, ei_last_health_at := Some now\<rparr>) st1,
                    Inr (''running'', Some p))))"

definition start_instance :: "runtime_env \<Rightarrow> datetime \<Rightarrow> envoy_instance \<Rightarrow> runtime \<Rightarrow> runtime \<times> (string \<times> int option) result" where
  "start_instance env now inst st =
     (if ei_status inst = envoy_running \<and> pid_alive st (ei_pid inst) then (st, Inr (''running'', ei_pid inst))
      else if re_busy env (ei_listen_port inst)
      then fail_start inst (''listen_port '' @ str_int (ei_listen_port inst) @ '' already in use'')
             (http 409 (''listen_port '' @ str_int (ei_listen_port inst) @ '' is already in use by another process'')) st
      else case admin_busy env inst of
        Some p \<Rightarrow> fail_start inst (''admin_port '' @ str_int p @ '' already in use'')
             (http 409 (''admin_port '' @ str_int p @ '' is already in use by another process'')) st
      | None \<Rightarrow>
          (case bootstrap_path inst of
             None \<Rightarrow> (st, Inl internal_error)
           | Some path \<Rightarrow>
               if \<not> re_dirs_ok env then (st, Inl internal_error)
               else let inst1 = inst\<lparr>ei_status := envoy_starting, ei_last_error := None\<rparr>;
                        st1 = put_row inst1 (st\<lparr>rt_files := (rt_files st)(path \<mapsto>
                                render_bootstrap_yaml (re_dump env) (re_settings env) inst)\<rparr>)
                    in if \<not> re_log_ok env \<or> ei_log_dir inst = None then (st1, Inl internal_error)
                       else launch env now inst1 st1))"

definition end_child :: "runtime_env \<Rightarrow> int \<Rightarrow> runtime \<Rightarrow> runtime" where
  \<comment> \<open>\<open>terminate\<close>, twenty polls and \<open>kill\<close>; only the polls wait for the child, so a killed child stays visible\<close>
  "end_child env p st = (if p \<notin> set (rt_visible st) \<or> re_term env p then gone p st else st)"

definition end_other :: "runtime_env \<Rightarrow> int \<Rightarrow> runtime \<Rightarrow> runtime" where
  "end_other env p st = (if p \<notin> set (rt_visible st) then st else if re_term env p \<or> re_kill env p then gone p st else st)"

definition reap :: "int \<Rightarrow> runtime \<Rightarrow> runtime" where
  \<comment> \<open>the handle is dropped, and its finaliser waits for the killed child\<close>
  "reap p st = gone p st"

definition stop_pid :: "envoy_instance \<Rightarrow> runtime \<Rightarrow> int option" where
  "stop_pid inst st = or_pid (rt_handles st (ei_id inst)) (or_pid (ei_pid inst)
     (if or_text (ei_config_dir inst) [] \<noteq> [] then read_pid_file inst st else None))"

definition em_dash :: string where
  "em_dash = [char_of (226::nat), char_of (128::nat), char_of (148::nat)]"

definition stop_instance :: "runtime_env \<Rightarrow> envoy_instance \<Rightarrow> runtime \<Rightarrow> runtime \<times> string result" where
  "stop_instance env inst st =
     (let pid = stop_pid inst st;
          st1 = (case rt_handles st (ei_id inst) of
                   Some p \<Rightarrow> (end_child env p st)\<lparr>rt_handles := (rt_handles st)(ei_id inst := None)\<rparr>
                 | None \<Rightarrow> (case pid of Some p \<Rightarrow> if p = 0 then st else end_other env p st | None \<Rightarrow> st))
      in case pid of
           Some p \<Rightarrow>
             if pid_alive st1 pid
             then (let st2 = put_row (inst\<lparr>ei_last_error := Some (''failed to terminate envoy pid='' @ str_int p)\<rparr>) st1
                   in (if rt_handles st (ei_id inst) = None then st2 else reap p st2,
                       Inl (http 500 (''envoy pid '' @ str_int p @ '' still alive after SIGKILL '' @ em_dash @ '' manual intervention required''))))
             else (put_row (inst\<lparr>ei_status := envoy_stopped, ei_pid := None\<rparr>) (remove_pid_file inst st1), Inr ''stopped'')
         | None \<Rightarrow> (put_row (inst\<lparr>ei_status := envoy_stopped, ei_pid := None\<rparr>) (remove_pid_file inst st1), Inr ''stopped''))"

definition restart_instance :: "runtime_env \<Rightarrow> datetime \<Rightarrow> envoy_instance \<Rightarrow> runtime \<Rightarrow> runtime \<times> (string \<times> int option) result" where
  "restart_instance env now inst st =
     (case stop_instance env inst st of
        (st1, Inl e) \<Rightarrow> (st1, Inl e)
      | (st1, Inr _) \<Rightarrow> start_instance env now (inst\<lparr>ei_status := envoy_stopped, ei_pid := None\<rparr>) st1)"

definition reload_instance :: "envoy_instance \<Rightarrow> runtime \<Rightarrow> ads_server \<Rightarrow> runtime \<times> ads_server \<times> string \<times> int" where
  "reload_instance inst st v =
     (let n = ei_config_version inst + 1 in
      (put_row (inst\<lparr>ei_config_version := n\<rparr>) st, local_notify (ei_node_id inst) v, ''pushed'', n))"

section \<open>Adoption of processes at start-up\<close>

definition loopback :: "int option \<Rightarrow> string" where
  "loopback port = ''http://127.0.0.1:'' @ (case port of None \<Rightarrow> ''None'' | Some p \<Rightarrow> str_int p)"

definition health :: "runtime_env \<Rightarrow> envoy_instance \<Rightarrow> bool" where
  "health env inst \<longleftrightarrow> re_get env (loopback (ei_admin_port inst) @ ''/ready'') = Some 200"

definition has_port :: "envoy_instance \<Rightarrow> bool" where
  "has_port inst \<longleftrightarrow> ei_admin_port inst \<noteq> None \<and> ei_admin_port inst \<noteq> Some 0"

definition adopt_one :: "runtime_env \<Rightarrow> envoy_instance \<Rightarrow> runtime \<Rightarrow> runtime" where
  "adopt_one env inst st =
     (let pid = or_pid (if or_text (ei_config_dir inst) [] \<noteq> [] then read_pid_file inst st else None) (ei_pid inst);
          alive = pid_alive st pid;
          ready = (alive \<and> has_port inst \<and> health env inst)
      in if ei_status inst = envoy_stopped \<and> alive
         then remove_pid_file inst (put_row (inst\<lparr>ei_pid := None\<rparr>) (case pid of None \<Rightarrow> st | Some p \<Rightarrow> end_other env p st))
         else if alive \<and> ready
         then put_row (inst\<lparr>ei_pid := pid, ei_status := envoy_running, ei_last_error := None\<rparr>) st
         else (if or_text (ei_config_dir inst) [] \<noteq> [] then remove_pid_file inst else (\<lambda>s. s))
                (put_row (inst\<lparr>ei_pid := None, ei_status := envoy_stopped\<rparr>) st))"

definition adopt_orphans :: "runtime_env \<Rightarrow> runtime \<Rightarrow> runtime" where
  "adopt_orphans env st = fold (adopt_one env) (filter (\<lambda>i. ei_mode i = envoy_local) (rt_rows st)) st"

section \<open>Health monitor\<close>

definition leader_key :: string where "leader_key = ''llmxy:envoy:health-leader''"

definition acquire_leader_lock :: "datetime \<Rightarrow> string \<Rightarrow> int \<Rightarrow> redis \<Rightarrow> redis \<times> bool" where
  "acquire_leader_lock now me ttl_seconds r =
     (if \<not> r_up r then (r, True)
      else if rd_live now r leader_key = None then (rd_set_json now leader_key (JStr me) ttl_seconds r, True)
      else if rd_get_json now r leader_key = Some (JStr me) then (rd_expire now leader_key ttl_seconds r, True)
      else (r, False))"

definition probe_one :: "runtime_env \<Rightarrow> envoy_instance \<Rightarrow> bool" where
  "probe_one env inst =
     (if ei_mode inst = envoy_local
      then has_port inst \<and> re_get env (loopback (ei_admin_port inst) @ ''/ready'') = Some 200
      else case or_text (ei_admin_url inst) [] of
        [] \<Rightarrow> False
      | url \<Rightarrow> re_get env (py_rstrip_chr (CHR ''/'') url @ ''/ready'') = Some 200)"

definition health_one :: "runtime_env \<Rightarrow> nat \<Rightarrow> datetime \<Rightarrow> envoy_instance \<Rightarrow> (int \<rightharpoonup> nat) \<Rightarrow> (int \<rightharpoonup> nat) \<times> envoy_instance \<times> bool" where
  \<comment> \<open>the counters, the loaded row, and whether \<open>changed\<close> was set\<close>
  "health_one env threshold now inst fails =
     (if probe_one env inst
      then (fails(ei_id inst := None),
            (if ei_status inst = envoy_error
             then inst\<lparr>ei_last_health_at := Some now, ei_status := envoy_running, ei_last_error := None\<rparr>
             else inst\<lparr>ei_last_health_at := Some now\<rparr>), ei_status inst = envoy_error)
      else let n = (case fails (ei_id inst) of None \<Rightarrow> 0 | Some k \<Rightarrow> k) + 1 in
           (fails(ei_id inst \<mapsto> n),
            (if n \<ge> threshold \<and> ei_status inst \<noteq> envoy_error
             then inst\<lparr>ei_status := envoy_error, ei_last_error := Some (str_nat n @ '' consecutive health probe failures'')\<rparr>
             else inst), n \<ge> threshold \<and> ei_status inst \<noteq> envoy_error))"

fun health_rows :: "runtime_env \<Rightarrow> nat \<Rightarrow> datetime \<Rightarrow> envoy_instance list \<Rightarrow> (int \<rightharpoonup> nat) \<Rightarrow> (int \<rightharpoonup> nat) \<times> envoy_instance list \<times> bool" where
  "health_rows env threshold now [] fails = (fails, [], False)"
| "health_rows env threshold now (inst # rest) fails =
     (let (f1, i1, c1) = health_one env threshold now inst fails; (f2, is, c2) = health_rows env threshold now rest f1
      in (f2, i1 # is, c1 \<or> c2))"

definition monitored :: "envoy_instance \<Rightarrow> bool" where
  "monitored i \<longleftrightarrow> ei_status i = envoy_running \<or> ei_status i = envoy_error"

definition health_tick :: "runtime_env \<Rightarrow> int \<Rightarrow> datetime \<Rightarrow> runtime \<Rightarrow> runtime" where
  \<comment> \<open>one pass of the leader; the session is committed only when \<open>changed\<close> was set\<close>
  "health_tick env threshold now st =
     (let (fails, rows, changed) = health_rows env (nat (max 1 threshold)) now (filter monitored (rt_rows st)) (rt_failures st);
          st1 = st\<lparr>rt_failures := fails\<rparr>
      in if changed then fold put_row rows st1 else st1)"

definition health_round :: "runtime_env \<Rightarrow> int \<Rightarrow> int \<Rightarrow> datetime \<Rightarrow> string \<Rightarrow> runtime \<Rightarrow> redis \<Rightarrow> runtime \<times> redis" where
  \<comment> \<open>one pass of the loop with the setting of the interval\<close>
  "health_round env interval0 threshold now me st r =
     (let (r1, acquired) = acquire_leader_lock now me (max 5 interval0 * 2) r
      in (if acquired then health_tick env threshold now st else st, r1))"

section \<open>Statistics and logs\<close>

definition wanted_suffixes :: "string list" where
  "wanted_suffixes = [''upstream_rq_total'', ''upstream_rq_2xx'', ''upstream_rq_4xx'', ''upstream_rq_5xx'', ''upstream_cx_active'',
     ''downstream_rq_total'', ''downstream_rq_2xx'', ''downstream_rq_4xx'', ''downstream_rq_5xx'']"

fun counters_of :: "json list \<Rightarrow> dict \<Rightarrow> dict option" where
  \<comment> \<open>\<open>None\<close> when an item has no \<open>get\<close> or its name no \<open>endswith\<close>\<close>
  "counters_of [] out = Some out"
| "counters_of (JObj s # rest) out =
     (case dict_get_default s ''name'' (JStr []) of
        JStr name \<Rightarrow>
          counters_of rest (if list_ex (py_endswith name) wanted_suffixes
            then (case dict_get_none s ''value'' of
                    JInt i \<Rightarrow> dict_set out name (JInt i) | JBool b \<Rightarrow> dict_set out name (JInt (if b then 1 else 0))
                  | JFloat q \<Rightarrow> dict_set out name (JInt (trunc_rat q)) | _ \<Rightarrow> out) else out)
      | _ \<Rightarrow> None)"
| "counters_of (_ # rest) out = None"

definition stats_answer :: "string + json \<Rightarrow> dict result" where
  \<comment> \<open>from the answer of the admin endpoint or the text of the exception\<close>
  "stats_answer r =
     (case r of
        Inl e \<Rightarrow> Inl (http 502 (''stats fetch failed: '' @ e))
      | Inr data \<Rightarrow>
          (case data of
             JObj d \<Rightarrow>
               (case py_or (dict_get_default d ''stats'' (JList [])) (JList []) of
                  JList items \<Rightarrow> (case counters_of items [] of None \<Rightarrow> Inl internal_error | Some c \<Rightarrow> Inr [(''counters'', JObj c)])
                | _ \<Rightarrow> Inl internal_error)
           | _ \<Rightarrow> Inl internal_error))"

definition local_stats :: "(string \<Rightarrow> string + json) \<Rightarrow> envoy_instance \<Rightarrow> dict result" where
  "local_stats get_json inst =
     (if ei_status inst \<noteq> envoy_running then Inl (http 409 ''instance not running'')
      else stats_answer (get_json (loopback (ei_admin_port inst)
             @ ''/stats?format=json&filter=(cluster'' @ [char_of (92::nat)] @ ''.|http'' @ [char_of (92::nat)] @ ''.ingress_http''
             @ [char_of (92::nat)] @ ''.downstream)'')))"

definition newlines :: "string \<Rightarrow> nat" where
  "newlines s = length (filter (\<lambda>c. ord c = 10) s)"

function tail_read :: "nat \<Rightarrow> string \<Rightarrow> nat \<Rightarrow> string \<Rightarrow> string" where
  \<comment> \<open>\<open>size\<close> bytes of the file are not read yet\<close>
  "tail_read n content left data =
     (if left > 0 \<and> newlines data \<le> n
      then let read = min 8192 left in tail_read n content (left - read) (take read (drop (left - read) content) @ data)
      else data)"
  by pat_completeness auto

termination by (relation "measure (\<lambda>(n, content, left, data). left)") auto

definition last_lines :: "nat \<Rightarrow> string list \<Rightarrow> string list" where
  \<comment> \<open>\<open>lines[-n:]\<close>\<close>
  "last_lines n lines = (if n = 0 then lines else drop (length lines - n) lines)"

definition tail_logs :: "string option \<Rightarrow> nat \<Rightarrow> string list" where
  \<comment> \<open>of the bytes of the log file, when it exists\<close>
  "tail_logs file n =
     (case file of None \<Rightarrow> []
      | Some content \<Rightarrow> last_lines n (py_splitlines (decode_replace (tail_read n content (length content) []))))"

end
