(* ===== verification/Envoy_Admin.thy ===== *)
theory Envoy_Admin
  imports Envoy_Runtime Als
begin

text \<open>
  Administration of Envoy instances: \<^verbatim>\<open>api/v1/admin/envoy.py\<close> and the public endpoint of
  \<^verbatim>\<open>api/v1/transport.py\<close>. The platform, the file system, \<open>repr\<close>, \<open>urlparse\<close> and HTTP calls are
  parameters. The handlers work on the rows of the runtime state; a handler that raises before its
  commit leaves them.
\<close>

section \<open>Environment\<close>

record admin_env =
  ad_runtime :: runtime_env
  ad_config_root :: string
  ad_log_root :: string
  ad_local_enabled :: bool
  ad_system :: string
  ad_machine :: string
    \<comment> \<open>\<open>platform.system()\<close> and \<open>platform.machine()\<close>\<close>
  ad_resolve_bin :: "string option"
  ad_bin_version :: "string \<Rightarrow> string option"
  ad_abspath :: "string \<Rightarrow> string"
  ad_makedirs :: "string \<Rightarrow> string option"
  ad_write_probe :: "string \<Rightarrow> string option"
    \<comment> \<open>the text of the error that creating or writing raises\<close>
  ad_repr :: "string \<Rightarrow> string"
  ad_urlparse :: url_parser
  ad_json :: "string \<Rightarrow> string + json"
    \<comment> \<open>a GET with its status check and decoding, or the text of the exception\<close>
  ad_server_info :: "string \<Rightarrow> json option"
    \<comment> \<open>the decoded body of an answer with status 200\<close>

record admin_state =
  am_runtime :: runtime
  am_versions :: "int \<rightharpoonup> datetime \<times> string option"

abbreviation am_rows :: "admin_state \<Rightarrow> envoy_instance list" where
  "am_rows s \<equiv> rt_rows (am_runtime s)"

definition set_rows :: "envoy_instance list \<Rightarrow> admin_state \<Rightarrow> admin_state" where
  "set_rows rows s = s\<lparr>am_runtime := (am_runtime s)\<lparr>rt_rows := rows\<rparr>\<rparr>"

section \<open>Versions of running instances\<close>

fun span_digits :: "string \<Rightarrow> string \<times> string" where
  "span_digits [] = ([], [])"
| "span_digits (c # s) = (if is_digit c then (let (d, r) = span_digits s in (c # d, r)) else ([], c # s))"

definition is_word :: "char \<Rightarrow> bool" where
  "is_word c \<longleftrightarrow> is_digit c \<or> 65 \<le> ord c \<and> ord c \<le> 90 \<or> 97 \<le> ord c \<and> ord c \<le> 122 \<or> c = CHR ''_'' \<or> 128 \<le> ord c"

definition match_semver :: "string \<Rightarrow> string option" where
  \<comment> \<open>three groups of digits at the head, ending at a word boundary\<close>
  "match_semver s =
     (let (a, r1) = span_digits s in
      case r1 of [] \<Rightarrow> None
      | c1 # s2 \<Rightarrow>
          (let (b, r2) = span_digits s2 in
           case r2 of [] \<Rightarrow> None
           | c2 # s3 \<Rightarrow>
               (let (c, r3) = span_digits s3 in
                if a \<noteq> [] \<and> c1 = CHR ''.'' \<and> b \<noteq> [] \<and> c2 = CHR ''.'' \<and> c \<noteq> [] \<and> (r3 = [] \<or> \<not> is_word (hd r3))
                then Some (a @ ''.'' @ b @ ''.'' @ c) else None)))"

fun search_semver :: "bool \<Rightarrow> string \<Rightarrow> string option" where
  \<comment> \<open>the first match; the flag tells whether the character before is a word character\<close>
  "search_semver word [] = None"
| "search_semver word (c # s) =
     (case (if word then None else match_semver (c # s)) of
        Some v \<Rightarrow> Some v | None \<Rightarrow> search_semver (is_word c) s)"

definition int_field :: "dict \<Rightarrow> string \<Rightarrow> int option" where
  \<comment> \<open>\<open>int(v[k])\<close>\<close>
  "int_field d k = (case dict_get d k of None \<Rightarrow> None | Some v \<Rightarrow> (case py_int v of Inl _ \<Rightarrow> None | Inr i \<Rightarrow> Some i))"

definition parse_server_info_version :: "dict \<Rightarrow> string option" where
  "parse_server_info_version payload =
     (case dict_get_none payload ''version'' of
        JObj v \<Rightarrow>
          (case (int_field v ''major_number'', int_field v ''minor_number'', int_field v ''patch'') of
             (Some a, Some b, Some c) \<Rightarrow> Some (str_int a @ ''.'' @ str_int b @ ''.'' @ str_int c)
           | _ \<Rightarrow> None)
      | JStr v \<Rightarrow> search_semver False v
      | _ \<Rightarrow> None)"

definition probe_envoy_version :: "admin_env \<Rightarrow> envoy_instance \<Rightarrow> string option" where
  "probe_envoy_version env inst =
     (let answer = (\<lambda>url. case ad_server_info env url of Some (JObj d) \<Rightarrow> parse_server_info_version d | _ \<Rightarrow> None) in
      if ei_mode inst = envoy_local
      then (if has_port inst then answer (loopback (ei_admin_port inst) @ ''/server_info'') else None)
      else case or_text (ei_admin_url inst) [] of
        [] \<Rightarrow> None
      | url \<Rightarrow> answer (py_rstrip_chr (CHR ''/'') url @ ''/server_info''))"

definition version_fresh :: "datetime \<Rightarrow> (int \<rightharpoonup> datetime \<times> string option) \<Rightarrow> int \<Rightarrow> string option option" where
  "version_fresh now cache i = (case cache i of Some (t, v) \<Rightarrow> if now - t < secs 30 then Some v else None | None \<Rightarrow> None)"

definition resolve_versions :: "admin_env \<Rightarrow> datetime \<Rightarrow> envoy_instance list \<Rightarrow> admin_state \<Rightarrow> admin_state \<times> (int \<times> string option) list" where
  "resolve_versions env now insts s =
     (let to_probe = filter (\<lambda>i. version_fresh now (am_versions s) (ei_id i) = None) insts in
      (s\<lparr>am_versions := fold (\<lambda>i c. c(ei_id i \<mapsto> (now, probe_envoy_version env i))) to_probe (am_versions s)\<rparr>,
       map (\<lambda>i. (ei_id i, case version_fresh now (am_versions s) (ei_id i) of Some v \<Rightarrow> v | None \<Rightarrow> probe_envoy_version env i)) insts))"

section \<open>Precheck of the host\<close>

type_synonym install_step = "string \<times> string"
  \<comment> \<open>label and command\<close>

definition dq :: string where "dq = [char_of (34::nat)]"

definition install_steps_for :: "admin_env \<Rightarrow> string \<Rightarrow> string \<times> install_step list" where
  "install_steps_for env os_name =
     (if os_name = ''darwin'' then
        (''Install envoy via Homebrew, then retry.'',
         [(''Install envoy (Homebrew)'', ''brew install envoy''), (''Verify'', ''envoy --version'')])
      else if os_name = ''linux'' then
        (''Install envoy via func-e (works on any glibc Linux), then retry.'',
         [(''Install func-e launcher'', ''curl -L https://func-e.io/install.sh | sudo bash -s -- -b /usr/local/bin''),
          (''Download envoy 1.37.2 (cached under ~/.local/share/func-e)'', ''func-e use 1.37.2''),
          (''Symlink the actual binary into PATH (func-e which prints the real path)'',
           ''sudo ln -sf '' @ dq @ ''$(func-e which)'' @ dq @ '' /usr/local/bin/envoy''),
          (''Verify'', ''envoy --version'')])
      else if os_name = ''windows'' then
        (''Windows is not supported for local-mode envoy. Use remote mode (deploy envoy via Docker / Kubernetes / WSL) instead.'', [])
      else (''No automated install recipe for OS '' @ ad_repr env os_name @ ''. Install envoy manually ''
            @ ''(see https://www.envoyproxy.io/docs/envoy/latest/start/install) and ''
            @ ''either put it on PATH or set ENVOY_BIN to its absolute path.'', []))"

definition check_dir_writable :: "admin_env \<Rightarrow> string \<Rightarrow> string option" where
  \<comment> \<open>the reason, \<open>None\<close> when the directory can be written\<close>
  "check_dir_writable env path =
     (let p = ad_abspath env path in
      case ad_makedirs env p of
        Some e \<Rightarrow> Some (''cannot create '' @ ad_repr env p @ '': '' @ e)
      | None \<Rightarrow>
          (case ad_write_probe env (path_join p ''.llmxy-write-probe'') of
             Some e \<Rightarrow> Some (''directory exists but is not writable: '' @ ad_repr env p @ '' ('' @ e @ '')'')
           | None \<Rightarrow> None))"

record precheck =
  lp_ok :: bool
  lp_mode_enabled :: bool
  lp_os :: string
  lp_arch :: string
  lp_supported_os :: bool
  lp_installed :: bool
  lp_envoy_bin :: string
  lp_resolved_path :: "string option"
  lp_version :: "string option"
  lp_reason :: "string option"
  lp_install_hint :: string
  lp_install_steps :: "install_step list"

definition unwritable :: "admin_env \<Rightarrow> (string \<times> string \<times> string) option" where
  \<comment> \<open>label, base and reason of the first directory that cannot be written\<close>
  "unwritable env =
     (case check_dir_writable env (ad_config_root env) of
        Some r \<Rightarrow> Some (''ENVOY_CONFIG_ROOT'', ad_config_root env, r)
      | None \<Rightarrow> (case check_dir_writable env (ad_log_root env) of
                  Some r \<Rightarrow> Some (''ENVOY_LOG_ROOT'', ad_log_root env, r) | None \<Rightarrow> None))"

definition mkdir_command :: "admin_env \<Rightarrow> string \<Rightarrow> string" where
  "mkdir_command env base = ''sudo mkdir -p '' @ ad_abspath env base @ '' && sudo chown -R $USER '' @ ad_abspath env base"

definition local_precheck :: "admin_env \<Rightarrow> precheck" where
  "local_precheck env =
     (let os_name = py_lower (ad_system env); supported_os = (os_name = ''linux'' \<or> os_name = ''darwin'');
          resolved = ad_resolve_bin env; (hint, steps) = install_steps_for env os_name;
          answer = (\<lambda>ok reason hint steps. \<lparr>lp_ok = ok, lp_mode_enabled = ad_local_enabled env, lp_os = os_name,
             lp_arch = py_lower (ad_machine env), lp_supported_os = supported_os, lp_installed = (resolved \<noteq> None),
             lp_envoy_bin = re_bin (ad_runtime env), lp_resolved_path = resolved,
             lp_version = (case or_text resolved [] of [] \<Rightarrow> None | p \<Rightarrow> ad_bin_version env p),
             lp_reason = reason, lp_install_hint = hint, lp_install_steps = steps\<rparr>)
      in if \<not> ad_local_enabled env
         then let reason = ''local-mode envoy is disabled on this api (ENVOY_LOCAL_MODE_ENABLED=false). ''
                @ ''Set ENVOY_LOCAL_MODE_ENABLED=true in .env and restart, or use remote mode.''
              in answer False (Some reason) reason []
         else if \<not> supported_os
         then answer False (Some (''local-mode envoy is not supported on '' @ ad_repr env os_name @ '' (the api host).'')) hint steps
         else if resolved = None
         then answer False (Some (''envoy binary not found (ENVOY_BIN='' @ ad_repr env (re_bin (ad_runtime env)) @ ''). ''
                @ ''Install envoy on the api host, then retry.'')) hint steps
         else case unwritable env of
           None \<Rightarrow> answer True None hint steps
         | Some (label, base, r) \<Rightarrow>
             answer False (Some (label @ ''='' @ ad_repr env base @ '' is not writable by the api process. '' @ r))
               (''Create the directory and grant the api user write access, e.g.'' @ [char_of (10::nat)] @ ''    '' @ mkdir_command env base
                  @ [char_of (10::nat)] @ ''Or point the env var at a path the api process owns and restart.'')
               [(''Create + chown '' @ label, mkdir_command env base)])"

definition precheck_error_detail :: "precheck \<Rightarrow> string" where
  "precheck_error_detail pc =
     (let reason = or_text (lp_reason pc) []; hint = lp_install_hint pc;
          parts = (if reason \<noteq> [] then [reason] else []) @ (if hint \<noteq> [] \<and> Some hint \<noteq> lp_reason pc then [hint] else [])
            @ (if lp_install_steps pc \<noteq> [] then ''Install steps:'' # map (\<lambda>(l, c). ''  - '' @ l @ '': '' @ c) (lp_install_steps pc) else [])
      in if parts = [] then ''local-mode envoy precheck failed'' else py_join [char_of (10::nat)] parts)"

section \<open>Ports and addresses\<close>

definition uses_port :: "int \<Rightarrow> envoy_instance \<Rightarrow> bool" where
  "uses_port port i \<longleftrightarrow> ei_mode i = envoy_local \<and> (ei_listen_port i = port \<or> ei_admin_port i = Some port)"

definition port_used_by_local_instance :: "envoy_instance list \<Rightarrow> int \<Rightarrow> int option \<Rightarrow> envoy_instance option" where
  "port_used_by_local_instance rows port exclude_id = find (\<lambda>i. uses_port port i \<and> Some (ei_id i) \<noteq> exclude_id) rows"

definition port_problem :: "runtime_env \<Rightarrow> envoy_instance list \<Rightarrow> int option \<Rightarrow> string \<Rightarrow> int \<Rightarrow> http_error option" where
  "port_problem env rows exclude_id label port =
     (case port_used_by_local_instance rows port exclude_id of
        Some clash \<Rightarrow> Some (http 409 (label @ '' '' @ str_int port @ '' already used as ''
          @ (if ei_listen_port clash = port then ''listen_port'' else ''admin_port'')
          @ '' by local instance id='' @ str_int (ei_id clash) @ '' ('' @ ei_name clash @ '')''))
      | None \<Rightarrow> if re_busy env port
                then Some (http 409 (label @ '' '' @ str_int port @ '' is already in use by another process on this host'')) else None)"

definition ports_problem :: "runtime_env \<Rightarrow> envoy_instance list \<Rightarrow> int \<Rightarrow> int \<Rightarrow> int option \<Rightarrow> http_error option" where
  \<comment> \<open>\<open>_ensure_local_ports_available\<close>: what it raises\<close>
  "ports_problem env rows listen_port admin_port exclude_id =
     (if listen_port = admin_port then Some (http 400 ''listen_port and admin_port must differ'')
      else case port_problem env rows exclude_id ''listen_port'' listen_port of
        Some e \<Rightarrow> Some e
      | None \<Rightarrow> port_problem env rows exclude_id ''admin_port'' admin_port)"

fun free_pair_from :: "runtime_env \<Rightarrow> envoy_instance list \<Rightarrow> int option \<Rightarrow> int \<Rightarrow> int \<Rightarrow> nat \<Rightarrow> (int \<times> int) option" where
  \<comment> \<open>with this many offsets left\<close>
  "free_pair_from env rows exclude_id lp ap 0 = None"
| "free_pair_from env rows exclude_id lp ap (Suc n) =
     (if ap > 65535 then None
      else if lp = ap \<or> port_used_by_local_instance rows lp exclude_id \<noteq> None \<or> port_used_by_local_instance rows ap exclude_id \<noteq> None
              \<or> re_busy env lp \<or> re_busy env ap
      then free_pair_from env rows exclude_id (lp + 2) (ap + 2) n
      else Some (lp, ap))"

definition find_free_local_pair :: "runtime_env \<Rightarrow> envoy_instance list \<Rightarrow> int \<Rightarrow> int \<Rightarrow> int option \<Rightarrow> (int \<times> int) result" where
  "find_free_local_pair env rows start_listen start_admin exclude_id =
     (case free_pair_from env rows exclude_id (max 1024 (min 65535 start_listen)) (max 1024 (min 65535 start_admin)) 200 of
        Some p \<Rightarrow> Inr p
      | None \<Rightarrow> Inl (http 409 ''no free local envoy port pair found near 9000/9001''))"

definition suggest_local_ports :: "runtime_env \<Rightarrow> envoy_instance list \<Rightarrow> (int \<times> int) result" where
  "suggest_local_ports env rows = find_free_local_pair env rows 9000 9001 None"

definition normalize_host :: "url_parser \<Rightarrow> string \<Rightarrow> string option" where
  \<comment> \<open>\<open>None\<close> when \<open>urlparse\<close> raises\<close>
  "normalize_host up raw =
     (let s = py_strip raw in
      if py_contains s ''://'' then map_option (\<lambda>u. or_text (up_hostname u) s) (up s)
      else if length (filter (\<lambda>c. c = CHR '':'') s) = 1 \<and> \<not> py_startswith s ''['' then Some (py_before (CHR '':'') s)
      else Some s)"

definition build_remote_admin_url :: "url_parser \<Rightarrow> string option \<Rightarrow> int option \<Rightarrow> string option \<Rightarrow> string option result" where
  "build_remote_admin_url up host admin_port fallback =
     (case or_text fallback [] of
        (c # cs) \<Rightarrow> Inr (Some (py_strip (c # cs)))
      | [] \<Rightarrow>
          (case (or_text host [], admin_port) of
             (h # hs, Some p) \<Rightarrow>
               if p = 0 then Inr None
               else (case normalize_host up (h # hs) of
                  None \<Rightarrow> Inl internal_error | Some x \<Rightarrow> Inr (Some (''http://'' @ x @ '':'' @ str_int p)))
           | _ \<Rightarrow> Inr None))"

definition proxy_url :: "url_parser \<Rightarrow> envoy_instance \<Rightarrow> string option" where
  "proxy_url up inst =
     (let placeholder = ''http://<envoy-host>:'' @ str_int (ei_listen_port inst) in
      if ei_mode inst = envoy_local then Some (''http://127.0.0.1:'' @ str_int (ei_listen_port inst))
      else case or_text (ei_admin_url inst) [] of
        [] \<Rightarrow> Some placeholder
      | url \<Rightarrow> map_option (\<lambda>u. case or_text (up_hostname u) [] of
            [] \<Rightarrow> placeholder
          | host \<Rightarrow> or_text (Some (up_scheme u)) ''http'' @ ''://'' @ host @ '':'' @ str_int (ei_listen_port inst)) (up url))"

section \<open>Instances\<close>

record envoy_instance_in =
  en_name :: string
  en_mode :: envoy_mode
  en_listen_port :: int
  en_admin_port :: "int option"
  en_host :: "string option"
  en_admin_url :: "string option"

record envoy_instance_update =
  eu_name :: "string option"
  eu_listen_port :: "int option"
  eu_admin_port :: "int option"
  eu_host :: "string option"
  eu_admin_url :: "string option"

definition instance_paths :: "admin_env \<Rightarrow> string \<Rightarrow> string \<times> string" where
  "instance_paths env name = (ad_abspath env (path_join (ad_config_root env) name), ad_abspath env (path_join (ad_log_root env) name))"

definition new_instance :: "int \<Rightarrow> envoy_instance_in \<Rightarrow> string \<Rightarrow> string option \<Rightarrow> (string \<times> string) option \<Rightarrow> envoy_instance" where
  "new_instance i req node_id admin_url dirs =
     \<lparr>ei_id = i, ei_name = en_name req, ei_mode = en_mode req, ei_node_id = node_id, ei_listen_port = en_listen_port req,
      ei_admin_port = en_admin_port req, ei_admin_url = admin_url, ei_status = envoy_stopped, ei_pid = None,
      ei_config_version = 0, ei_config_dir = map_option fst dirs, ei_log_dir = map_option snd dirs, ei_last_health_at = None,
      ei_last_error = None, ei_last_seen_at = None, ei_last_xds_version = None\<rparr>"

definition probed :: "runtime_env \<Rightarrow> datetime \<Rightarrow> string \<Rightarrow> envoy_instance \<Rightarrow> envoy_instance" where
  "probed env now message inst =
     (if probe_one env inst
      then inst\<lparr>ei_last_health_at := Some now, ei_status := envoy_running, ei_last_error := None\<rparr>
      else inst\<lparr>ei_last_health_at := Some now, ei_status := envoy_error, ei_last_error := Some message\<rparr>)"

definition store_instance :: "envoy_instance \<Rightarrow> envoy_instance list \<Rightarrow> (envoy_instance list \<times> envoy_instance) result" where
  \<comment> \<open>the unique constraints on name and node id\<close>
  "store_instance inst rows =
     (if list_ex (\<lambda>r. ei_name r = ei_name inst \<or> ei_node_id r = ei_node_id inst) rows
      then Inl (http 409 ''unique constraint violated'') else Inr (rows @ [inst], inst))"

definition name_clash :: "envoy_instance list \<Rightarrow> string \<Rightarrow> int option \<Rightarrow> envoy_instance option" where
  "name_clash rows name exclude_id = find (\<lambda>r. ei_name r = name \<and> Some (ei_id r) \<noteq> exclude_id) rows"

definition create_local :: "admin_env \<Rightarrow> int \<Rightarrow> envoy_instance list \<Rightarrow> envoy_instance_in \<Rightarrow> (envoy_instance list \<times> envoy_instance) result" where
  "create_local env i rows req =
     (let pc = local_precheck env in
      if \<not> lp_ok pc then Inl (http 400 (precheck_error_detail pc))
      else case en_admin_port req of
        None \<Rightarrow> Inl (http 400 ''admin_port required for local mode'')
      | Some admin_port \<Rightarrow>
          (case ports_problem (ad_runtime env) rows (en_listen_port req) admin_port None of
             Some e \<Rightarrow> Inl e
           | None \<Rightarrow>
               (case name_clash rows (en_name req) None of
                  Some c \<Rightarrow> Inl (http 409 (''name already in use by instance id='' @ str_int (ei_id c) @ '' ('' @ ei_name c @ '')''))
                | None \<Rightarrow>
                    (let dirs = instance_paths env (en_name req) in
                     case (case ad_makedirs env (fst dirs) of Some e \<Rightarrow> Some e | None \<Rightarrow> ad_makedirs env (snd dirs)) of
                       Some e \<Rightarrow> Inl (http 400 (''cannot create envoy directories ('' @ e @ ''). Ensure ENVOY_CONFIG_ROOT=''
                         @ ad_repr env (ad_config_root env) @ '' and ENVOY_LOG_ROOT='' @ ad_repr env (ad_log_root env)
                         @ '' are writable by the api process.''))
                     | None \<Rightarrow>
                         store_instance (new_instance i req (''llmxy-'' @ en_name req)
                           (Some (''http://127.0.0.1:'' @ str_int admin_port)) (Some dirs)) rows))))"

definition create_remote :: "admin_env \<Rightarrow> datetime \<Rightarrow> int \<Rightarrow> envoy_instance list \<Rightarrow> envoy_instance_in \<Rightarrow> (envoy_instance list \<times> envoy_instance) result" where
  "create_remote env now i rows req =
     (if en_admin_port req = None then Inl (http 400 ''admin_port required for remote mode (envoy's admin /ready port)'')
      else if or_text (en_host req) [] = [] \<and> or_text (en_admin_url req) [] = []
      then Inl (http 400 (''host required for remote mode '' @ em_dash @ '' deploy envoy first, then submit with its reachable host''))
      else bind_result (build_remote_admin_url (ad_urlparse env) (en_host req) (en_admin_port req) (en_admin_url req)) (\<lambda>admin_url.
           case name_clash rows (en_name req) None of
             Some c \<Rightarrow> Inl (http 409 (''name already in use by instance id='' @ str_int (ei_id c) @ '' ('' @ ei_name c @ '')''))
           | None \<Rightarrow>
               (let inst = new_instance i req (''llmxy-remote-'' @ en_name req) admin_url None in
                store_instance (if or_text admin_url [] \<noteq> [] then probed (ad_runtime env) now ''initial /ready probe failed'' inst else inst) rows)))"

definition create_instance :: "admin_env \<Rightarrow> datetime \<Rightarrow> int \<Rightarrow> envoy_instance list \<Rightarrow> envoy_instance_in \<Rightarrow> (envoy_instance list \<times> envoy_instance) result" where
  "create_instance env now i rows req =
     (if en_mode req = envoy_local then create_local env i rows req else create_remote env now i rows req)"

definition apply_listen :: "envoy_instance list \<Rightarrow> int option \<Rightarrow> envoy_instance \<Rightarrow> envoy_instance result" where
  "apply_listen rows port inst =
     (case port of
        None \<Rightarrow> Inr inst
      | Some p \<Rightarrow>
          if p = ei_listen_port inst then Inr inst
          else case find (\<lambda>r. ei_mode r = envoy_local \<and> ei_listen_port r = p \<and> ei_id r \<noteq> ei_id inst) rows of
            Some c \<Rightarrow> Inl (http 409 (''listen_port in use by local instance id='' @ str_int (ei_id c)))
          | None \<Rightarrow> Inr (inst\<lparr>ei_listen_port := p\<rparr>))"

definition apply_admin :: "envoy_instance list \<Rightarrow> int option \<Rightarrow> envoy_instance \<Rightarrow> envoy_instance result" where
  "apply_admin rows port inst =
     (case port of
        None \<Rightarrow> Inr inst
      | Some p \<Rightarrow>
          if Some p = ei_admin_port inst then Inr inst
          else case find (\<lambda>r. ei_mode r = envoy_local \<and> ei_admin_port r = Some p \<and> ei_id r \<noteq> ei_id inst) rows of
            Some c \<Rightarrow> Inl (http 409 (''admin_port in use by local instance id='' @ str_int (ei_id c)))
          | None \<Rightarrow> Inr (inst\<lparr>ei_admin_port := Some p, ei_admin_url := Some (''http://127.0.0.1:'' @ str_int p)\<rparr>))"

definition update_local :: "runtime_env \<Rightarrow> envoy_instance list \<Rightarrow> envoy_instance_update \<Rightarrow> envoy_instance \<Rightarrow> envoy_instance result" where
  "update_local env rows req inst =
     (let new_listen = (case eu_listen_port req of Some p \<Rightarrow> p | None \<Rightarrow> ei_listen_port inst);
          new_admin = (case eu_admin_port req of Some p \<Rightarrow> Some p | None \<Rightarrow> ei_admin_port inst);
          changed = (new_listen \<noteq> ei_listen_port inst \<or> new_admin \<noteq> ei_admin_port inst)
      in case new_admin of
           None \<Rightarrow> Inl (http 400 ''admin_port required for local mode'')
         | Some a \<Rightarrow>
             if a = 0 then Inl (http 400 ''admin_port required for local mode'')
             else if ei_status inst = envoy_running \<and> changed then Inl (http 409 ''stop the local envoy before changing ports'')
             else case (if changed then ports_problem env rows new_listen a (Some (ei_id inst)) else None) of
               Some e \<Rightarrow> Inl e
             | None \<Rightarrow>
                 if new_listen = a then Inl (http 400 ''listen_port and admin_port must differ'')
                 else bind_result (apply_listen rows (eu_listen_port req) inst) (apply_admin rows (eu_admin_port req)))"

definition update_remote :: "admin_env \<Rightarrow> datetime \<Rightarrow> envoy_instance_update \<Rightarrow> envoy_instance \<Rightarrow> envoy_instance result" where
  "update_remote env now req inst0 =
     (let inst = (case eu_listen_port req of Some p \<Rightarrow> inst0\<lparr>ei_listen_port := p\<rparr> | None \<Rightarrow> inst0) in
      if eu_host req = None \<and> eu_admin_port req = None \<and> eu_admin_url req = None then Inr inst
      else
        let new_port = (case eu_admin_port req of Some p \<Rightarrow> Some p | None \<Rightarrow> ei_admin_port inst);
            stored = (case or_text (ei_admin_url inst) [] of [] \<Rightarrow> Inr None
                      | url \<Rightarrow> (case ad_urlparse env url of None \<Rightarrow> Inl internal_error | Some u \<Rightarrow> Inr (up_hostname u)));
            new_host = (if eu_admin_port req \<noteq> None \<and> eu_host req = None
                        then (case stored of Inl e \<Rightarrow> Inl e | Inr h \<Rightarrow> Inr (if or_text h [] = [] then None else h))
                        else Inr (eu_host req))
        in bind_result new_host (\<lambda>host.
           bind_result (build_remote_admin_url (ad_urlparse env) host new_port (eu_admin_url req)) (\<lambda>derived.
             if or_text derived [] = []
             then Inl (http 400 ''remote mode requires `host` + `admin_port` to update connection info'')
             else let inst1 = inst\<lparr>ei_admin_url := derived\<rparr>;
                      inst2 = (case eu_admin_port req of Some p \<Rightarrow> inst1\<lparr>ei_admin_port := Some p\<rparr> | None \<Rightarrow> inst1)
                  in Inr (probed (ad_runtime env) now ''post-update /ready probe failed'' inst2))))"

definition renamed :: "envoy_instance list \<Rightarrow> envoy_instance_update \<Rightarrow> envoy_instance \<Rightarrow> envoy_instance result" where
  "renamed rows req inst =
     (case eu_name req of
        None \<Rightarrow> Inr inst
      | Some n \<Rightarrow>
          if n = ei_name inst then Inr inst
          else case name_clash rows n (Some (ei_id inst)) of
            Some c \<Rightarrow> Inl (http 409 (''name already in use by instance id='' @ str_int (ei_id c)))
          | None \<Rightarrow> Inr (inst\<lparr>ei_name := n\<rparr>))"

definition update_instance ::
    "admin_env \<Rightarrow> datetime \<Rightarrow> envoy_instance list \<Rightarrow> int \<Rightarrow> envoy_instance_update \<Rightarrow> (envoy_instance list \<times> envoy_instance) result" where
  "update_instance env now rows inst_id req =
     (case row_get ei_id inst_id rows of
        None \<Rightarrow> Inl (http 404 ''Not Found'')
      | Some inst \<Rightarrow>
          bind_result (renamed rows req inst) (\<lambda>inst1.
          bind_result (if ei_mode inst1 = envoy_local then update_local (ad_runtime env) rows req inst1
                       else update_remote env now req inst1) (\<lambda>inst2.
            Inr (row_upd ei_id inst_id (\<lambda>_. inst2) rows, inst2))))"

definition delete_instance :: "envoy_instance list \<Rightarrow> int \<Rightarrow> (envoy_instance list \<times> string list) result" where
  \<comment> \<open>the rows left and the directories that are removed\<close>
  "delete_instance rows inst_id =
     (case row_get ei_id inst_id rows of
        None \<Rightarrow> Inl (http 404 ''Not Found'')
      | Some inst \<Rightarrow>
          if ei_mode inst = envoy_local \<and> ei_status inst = envoy_running
          then Inl (http 409 ''stop the instance before deleting'')
          else Inr (row_del ei_id inst_id rows,
                 if ei_mode inst = envoy_local
                 then filter (\<lambda>d. d \<noteq> []) [or_text (ei_config_dir inst) [], or_text (ei_log_dir inst) []] else []))"

section \<open>Endpoints of one instance\<close>

definition with_instance :: "admin_state \<Rightarrow> int \<Rightarrow> (envoy_instance \<Rightarrow> 'a result) \<Rightarrow> 'a result" where
  "with_instance s inst_id f = (case row_get ei_id inst_id (am_rows s) of None \<Rightarrow> Inl (http 404 ''Not Found'') | Some inst \<Rightarrow> f inst)"

definition ensure_local :: "envoy_instance \<Rightarrow> unit result" where
  "ensure_local inst =
     (if ei_mode inst = envoy_remote then Inl (http 409 ''operation not applicable to remote envoy nodes'') else Inr ())"

definition on_local :: "(envoy_instance \<Rightarrow> runtime \<Rightarrow> runtime \<times> 'a result) \<Rightarrow> admin_state \<Rightarrow> int \<Rightarrow> admin_state \<times> 'a result" where
  "on_local f s inst_id =
     (case with_instance s inst_id (\<lambda>inst. bind_result (ensure_local inst) (\<lambda>_. Inr inst)) of
        Inl e \<Rightarrow> (s, Inl e)
      | Inr inst \<Rightarrow>
          (case f inst (am_runtime s) of
             (rt, r) \<Rightarrow> (s\<lparr>am_runtime := rt, am_versions := (am_versions s)(inst_id := None)\<rparr>, r)))"

definition start_endpoint :: "admin_env \<Rightarrow> datetime \<Rightarrow> admin_state \<Rightarrow> int \<Rightarrow> admin_state \<times> (string \<times> int option) result" where
  "start_endpoint env now = on_local (start_instance (ad_runtime env) now)"

definition stop_endpoint :: "admin_env \<Rightarrow> admin_state \<Rightarrow> int \<Rightarrow> admin_state \<times> string result" where
  "stop_endpoint env = on_local (stop_instance (ad_runtime env))"

definition restart_endpoint :: "admin_env \<Rightarrow> datetime \<Rightarrow> admin_state \<Rightarrow> int \<Rightarrow> admin_state \<times> (string \<times> int option) result" where
  "restart_endpoint env now = on_local (restart_instance (ad_runtime env) now)"

definition reload_endpoint :: "admin_state \<Rightarrow> ads_server \<Rightarrow> int \<Rightarrow> (admin_state \<times> ads_server \<times> string \<times> int) result" where
  "reload_endpoint s v inst_id =
     with_instance s inst_id (\<lambda>inst. case reload_instance inst (am_runtime s) v of
       (rt, v', text, n) \<Rightarrow> Inr (s\<lparr>am_runtime := rt\<rparr>, v', text, n))"

definition admin_base :: "envoy_instance \<Rightarrow> string result" where
  "admin_base inst =
     (case or_text (ei_admin_url inst) [] of [] \<Rightarrow> Inl (http 409 ''admin_url not set'') | url \<Rightarrow> Inr (py_rstrip_chr (CHR ''/'') url))"

definition instance_stats :: "admin_env \<Rightarrow> admin_state \<Rightarrow> int \<Rightarrow> dict result" where
  "instance_stats env s inst_id =
     with_instance s inst_id (\<lambda>inst. bind_result (admin_base inst) (\<lambda>base.
       stats_answer (ad_json env (base @ ''/stats?format=json&filter=(cluster'' @ [char_of (92::nat)] @ ''.|http'' @ [char_of (92::nat)]
         @ ''.ingress_http'' @ [char_of (92::nat)] @ ''.downstream)''))))"

definition instance_metrics :: "(string \<Rightarrow> string + string) \<Rightarrow> admin_state \<Rightarrow> int \<Rightarrow> string result" where
  "instance_metrics get_text s inst_id =
     with_instance s inst_id (\<lambda>inst. bind_result (admin_base inst) (\<lambda>base.
       case get_text (base @ ''/stats/prometheus'') of Inl e \<Rightarrow> Inl (http 502 (''metrics fetch failed: '' @ e)) | Inr t \<Rightarrow> Inr t))"

definition instance_logs :: "admin_state \<Rightarrow> int \<Rightarrow> nat \<Rightarrow> string list result" where
  "instance_logs s inst_id tail =
     with_instance s inst_id (\<lambda>inst. bind_result (ensure_local inst) (\<lambda>_.
       case ei_log_dir inst of
         None \<Rightarrow> Inl internal_error
       | Some d \<Rightarrow> Inr (tail_logs (rt_files (am_runtime s) (path_join d ''envoy.log'')) tail)))"

definition instance_access_logs :: "admin_state \<Rightarrow> buffers \<Rightarrow> int \<Rightarrow> int \<Rightarrow> string list result" where
  "instance_access_logs s bufs inst_id tail = with_instance s inst_id (\<lambda>inst. Inr (buffer_tail (ei_node_id inst) tail bufs))"

record test_answer =
  ta_ok :: bool
  ta_status_code :: "int option"
  ta_error :: "string option"

definition test_connection :: "(string \<Rightarrow> string + int \<times> string) \<Rightarrow> string \<Rightarrow> test_answer" where
  \<comment> \<open>without the measured latency\<close>
  "test_connection get_text admin_url =
     (case get_text (py_rstrip_chr (CHR ''/'') admin_url @ ''/ready'') of
        Inl e \<Rightarrow> \<lparr>ta_ok = False, ta_status_code = None, ta_error = Some e\<rparr>
      | Inr (code, text) \<Rightarrow> \<lparr>ta_ok = (code = 200), ta_status_code = Some code,
          ta_error = (if code = 200 then None else Some (''HTTP '' @ str_int code @ '': '' @ py_take 120 text))\<rparr>)"

definition list_instances :: "admin_env \<Rightarrow> datetime \<Rightarrow> admin_state \<Rightarrow> admin_state \<times> (envoy_instance \<times> string option) list" where
  "list_instances env now s =
     (let rows = sort_key ei_id (am_rows s); (s', versions) = resolve_versions env now rows s
      in (s', map (\<lambda>r. (r, case map_of versions (ei_id r) of Some v \<Rightarrow> v | None \<Rightarrow> None)) rows))"

record connection_out =
  cn_node_id :: string
  cn_ads_connected :: bool
  cn_last_seen_at :: "datetime option"
  cn_last_xds_version :: "string option"

definition get_connection :: "admin_state \<Rightarrow> ads_server \<Rightarrow> int \<Rightarrow> connection_out result" where
  "get_connection s v inst_id =
     with_instance s inst_id (\<lambda>inst. Inr \<lparr>cn_node_id = ei_node_id inst, cn_ads_connected = ads_connected (ei_node_id inst) v,
        cn_last_seen_at = ei_last_seen_at inst, cn_last_xds_version = ei_last_xds_version inst\<rparr>)"

definition bootstrap_template :: "admin_env \<Rightarrow> admin_state \<Rightarrow> int \<Rightarrow> string result" where
  "bootstrap_template env s inst_id =
     with_instance s inst_id (\<lambda>inst.
       if ei_mode inst \<noteq> envoy_remote then Inl (http 409 ''bootstrap templates are remote-only'')
       else Inr (render_bootstrap_yaml (re_dump (ad_runtime env)) (re_settings (ad_runtime env)) inst))"

record manifests_out =
  mo_bootstrap_yaml :: string
  mo_k8s_yaml :: string
  mo_docker_run :: string
  mo_node_id :: string
  mo_control_plane_host :: string
  mo_xds_port :: int
  mo_als_port :: int
  mo_k8s_listen_nodeport :: int
  mo_k8s_admin_nodeport :: int

definition manifests_for :: "admin_env \<Rightarrow> envoy_instance \<Rightarrow> manifests_out" where
  "manifests_for env inst =
     (let dump = re_dump (ad_runtime env); es = re_settings (ad_runtime env) in
      \<lparr>mo_bootstrap_yaml = render_bootstrap_yaml dump es inst, mo_k8s_yaml = render_k8s_manifest dump es inst,
       mo_docker_run = render_docker_run dump es inst, mo_node_id = ei_node_id inst, mo_control_plane_host = es_public_host es,
       mo_xds_port = es_xds_port es, mo_als_port = es_als_port es, mo_k8s_listen_nodeport = remote_k8s_listen_nodeport,
       mo_k8s_admin_nodeport = remote_k8s_admin_nodeport\<rparr>)"

definition transient_instance :: "string \<Rightarrow> envoy_instance" where
  "transient_instance name =
     \<lparr>ei_id = 0, ei_name = name, ei_mode = envoy_remote, ei_node_id = ''llmxy-remote-'' @ name, ei_listen_port = remote_bind_listen_port,
      ei_admin_port = Some remote_bind_admin_port, ei_admin_url = None, ei_status = envoy_stopped, ei_pid = None, ei_config_version = 0,
      ei_config_dir = None, ei_log_dir = None, ei_last_health_at = None, ei_last_error = None, ei_last_seen_at = None,
      ei_last_xds_version = None\<rparr>"

definition manifests_preview :: "admin_env \<Rightarrow> string \<Rightarrow> manifests_out" where
  "manifests_preview env name = manifests_for env (transient_instance name)"

definition manifests :: "admin_env \<Rightarrow> admin_state \<Rightarrow> int \<Rightarrow> manifests_out result" where
  "manifests env s inst_id =
     with_instance s inst_id (\<lambda>inst.
       if ei_mode inst \<noteq> envoy_remote then Inl (http 409 ''manifests are remote-only'') else Inr (manifests_for env inst))"

section \<open>Transports for clients\<close>

definition transport :: "url_parser \<Rightarrow> envoy_instance list \<Rightarrow> (envoy_instance \<times> string) list option" where
  \<comment> \<open>the running instances by listen port with their URLs; \<open>None\<close> when parsing a URL raises. Envoy is the active
      transport when there is one\<close>
  "transport up rows =
     those (map (\<lambda>r. map_option (\<lambda>u. (r, u)) (proxy_url up r)) (sort_key ei_listen_port (filter (\<lambda>r. ei_status r = envoy_running) rows)))"

end
