(* ===== verification/Runtime_Laws.thy ===== *)
theory Runtime_Laws
  imports Envoy_Runtime
begin

text \<open>
  Local processes: what a start and a stop leave behind, the election of the health monitor, what a pass
  of the monitor stores, after how many failed passes an instance is in error, and the reading of logs from the end of the file.
\<close>

section \<open>Reading logs from the end\<close>

lemma no_cont_newline [simp]: "10 < lo \<Longrightarrow> is_cont_from lo hi (CHR 0x0A) = False"
  by (simp add: is_cont_from_def)

lemma utf8_len_cut: "utf8_len ((a # s) @ CHR 0x0A # b) = utf8_len (a # s)"
proof -
  consider "s = []" | x where "s = [x]" | x y where "s = [x, y]" | x y z r where "s = x # y # z # r"
    by (metis list.exhaust)
  then show ?thesis by cases (auto simp: Let_def)
qed

lemma bad_len_cut: "bad_len ((a # s) @ CHR 0x0A # b) = bad_len (a # s)"
proof -
  consider "s = []" | x where "s = [x]" | x y r where "s = x # y # r"
    by (metis list.exhaust)
  then show ?thesis by cases (simp_all only: bad_len_def append.simps list.case Let_def, simp_all)
qed

lemma utf8_len_le: "utf8_len s \<le> length s"
proof (cases s)
  case (Cons a r)
  consider "r = []" | x where "r = [x]" | x y where "r = [x, y]" | x y z t where "r = x # y # z # t"
    by (metis list.exhaust)
  then show ?thesis unfolding Cons by cases (simp_all only: utf8_len.simps Let_def, simp_all)
qed simp

lemma bad_len_le: "bad_len (a # s) \<le> length (a # s)"
proof -
  consider "s = []" | x where "s = [x]" | x y r where "s = x # y # r"
    by (metis list.exhaust)
  then show ?thesis by cases (simp_all only: bad_len_def list.case Let_def, simp_all)
qed

lemma bad_len_pos: "0 < bad_len (a # s)"
  by (cases s) (simp_all add: bad_len_def Let_def)

lemma decode_newline: "decode_replace (a @ CHR 0x0A # b) = decode_replace a @ CHR 0x0A # decode_replace b"
proof (induction a rule: length_induct)
  case (1 a)
  show ?case
  proof (cases a)
    case Nil
    then show ?thesis by (simp add: Let_def)
  next
    case (Cons x s)
    let ?k = "utf8_len (x # s)"
    show ?thesis
    proof (cases "?k = 0")
      case True
      let ?n = "bad_len (x # s)"
      have n: "?n \<le> length (x # s)" "0 < ?n" by (rule bad_len_le bad_len_pos)+
      then have m: "max 1 ?n = ?n" by simp
      then have l: "length (drop ?n (x # s)) < length a" using Cons by simp
      have "decode_replace ((x # s) @ CHR 0x0A # b)
          = [CHR 0xEF, CHR 0xBF, CHR 0xBD] @ decode_replace (drop ?n ((x # s) @ CHR 0x0A # b))"
        using True utf8_len_cut [of x s b] bad_len_cut [of x s b] m by (simp add: Let_def del: utf8_len.simps)
      also have "drop ?n ((x # s) @ CHR 0x0A # b) = drop ?n (x # s) @ CHR 0x0A # b"
        using n drop_append [of ?n "x # s" "CHR 0x0A # b"] by simp
      finally show ?thesis using 1 l True Cons by (simp add: Let_def del: utf8_len.simps)
    next
      case False
      have n: "?k \<le> length (x # s)" by (rule utf8_len_le)
      with False have l: "length (drop ?k (x # s)) < length a" using Cons by simp
      have "decode_replace ((x # s) @ CHR 0x0A # b)
          = take ?k ((x # s) @ CHR 0x0A # b) @ decode_replace (drop ?k ((x # s) @ CHR 0x0A # b))"
        using False utf8_len_cut [of x s b] by (simp add: Let_def del: utf8_len.simps take_append drop_append)
      also have "drop ?k ((x # s) @ CHR 0x0A # b) = drop ?k (x # s) @ CHR 0x0A # b"
        using n drop_append [of ?k "x # s" "CHR 0x0A # b"] by (simp del: utf8_len.simps)
      also have "take ?k ((x # s) @ CHR 0x0A # b) = take ?k (x # s)"
        using n take_append [of ?k "x # s" "CHR 0x0A # b"] by (simp del: utf8_len.simps)
      finally show ?thesis using 1 l False Cons by (simp add: Let_def del: utf8_len.simps)
    qed
  qed
qed

lemma line_break_zero: "line_break (x # t) = 0 \<Longrightarrow> ord x \<noteq> 10"
  by (cases "x # t" rule: line_break.cases) (auto split: if_splits)

lemma line_break_newlines: "newlines (take (line_break t) t) \<le> 1"
  by (cases t rule: line_break.cases) (auto simp: newlines_def)

lemma line_break_over:
  assumes "length (x # s) < line_break ((x # s) @ CHR 0x0A # b)"
  shows "s = [] \<and> ord x = 13 \<and> line_break ((x # s) @ CHR 0x0A # b) = 2"
proof -
  consider "s = []" "b = []" | c r where "s = []" "b = c # r" | y where "s = [y]" | y z r where "s = y # z # r" by (metis list.exhaust)
  then show ?thesis using assms by cases (auto split: if_splits)
qed

lemma newlines_append: "newlines (a @ b) = newlines a + newlines b"
  by (simp add: newlines_def)

lemma split_lines_after:
  "\<exists>before. split_lines cur (a @ CHR 0x0A # b) = before @ split_lines [] b \<and> newlines a < length before"
proof (induction a arbitrary: cur rule: length_induct)
  case (1 a)
  show ?case
  proof (cases a)
    case Nil
    have "line_break (CHR 0x0A # b) = 1" by (cases "(CHR 0x0A # b)" rule: line_break.cases) auto
    then have "split_lines cur (CHR 0x0A # b) = [rev cur] @ split_lines [] b" by (simp add: Let_def del: line_break.simps)
    with Nil show ?thesis by (intro exI [of _ "[rev cur]"]) (simp add: newlines_def)
  next
    case (Cons x s)
    define t where "t = s @ CHR 0x0A # b"
    let ?k = "line_break (x # t)"
    have a: "a @ CHR 0x0A # b = x # t" using Cons by (simp add: t_def)
    have sp: "split_lines cur (x # t) = (if ?k = 0 then split_lines (x # cur) t else rev cur # split_lines [] (drop ?k (x # t)))"
      by (simp add: Let_def)
    consider "?k = 0" | "0 < ?k" "?k \<le> length (x # s)" | "length (x # s) < ?k" by linarith
    then show ?thesis
    proof cases
      case 1
      obtain before where "split_lines (x # cur) t = before @ split_lines [] b" "newlines s < length before"
        using \<open>\<forall>ys. length ys < length a \<longrightarrow> _\<close> Cons unfolding t_def by fastforce
      moreover have "newlines a = newlines s" using line_break_zero [OF 1] Cons by (simp add: newlines_def)
      ultimately show ?thesis using 1 a sp by auto
    next
      case 2
      have d: "drop ?k (x # t) = drop ?k (x # s) @ CHR 0x0A # b"
        using 2 drop_append [of ?k "x # s" "CHR 0x0A # b"] by (simp add: t_def)
      have "length (drop ?k (x # s)) < length a" using 2 Cons by simp
      then obtain before where b: "split_lines [] (drop ?k (x # t)) = before @ split_lines [] b" "newlines (drop ?k (x # s)) < length before"
        using \<open>\<forall>ys. length ys < length a \<longrightarrow> _\<close> unfolding d by fastforce
      have "take ?k (x # t) = take ?k (x # s)" using 2 take_append [of ?k "x # s" "CHR 0x0A # b"] by (simp add: t_def)
      then have "newlines (take ?k (x # s)) \<le> 1" using line_break_newlines [of "x # t"] by simp
      moreover have "newlines a = newlines (take ?k (x # s)) + newlines (drop ?k (x # s))"
        unfolding Cons newlines_append [symmetric] by simp
      ultimately have "newlines a < length (rev cur # before)" using b(2) by simp
      then show ?thesis using b(1) 2(1) a sp by (intro exI [of _ "rev cur # before"]) simp
    next
      case 3
      then have o: "s = [] \<and> ord x = 13 \<and> line_break ((x # s) @ CHR 0x0A # b) = 2"
        by (intro line_break_over) (simp add: t_def)
      then have "s = []" "ord x = 13" "?k = 2" by (auto simp: t_def)
      then have "split_lines cur (x # t) = [rev cur] @ split_lines [] b" "newlines a = 0"
        using sp Cons by (auto simp: t_def newlines_def)
      then show ?thesis using a by (intro exI [of _ "[rev cur]"]) simp
    qed
  qed
qed

lemma newline_char: "ord c = 10 \<longleftrightarrow> c = CHR 0x0A"
proof
  assume "ord c = 10"
  then have "ord c = ord (CHR 0x0A)" by simp
  then show "c = CHR 0x0A" by (simp only: of_char_eq_iff)
qed simp

lemma newlines_zero: "newlines s = 0 \<longleftrightarrow> CHR 0x0A \<notin> set s"
  by (auto simp: newlines_def newline_char filter_empty_conv)

lemma split_lines_count: "newlines s \<le> length (split_lines cur s)"
proof (cases "CHR 0x0A \<in> set s")
  case True
  then obtain a b where s: "s = a @ CHR 0x0A # b" "CHR 0x0A \<notin> set b" by (meson split_list_last)
  obtain before where "split_lines cur s = before @ split_lines [] b" "newlines a < length before"
    using split_lines_after [of cur a b] s(1) by blast
  then show ?thesis using s newlines_append [of a "CHR 0x0A # b"] newlines_append [of "[CHR 0x0A]" b] newlines_zero [of b]
    by (simp add: newlines_def)
qed (simp add: newlines_zero [symmetric])

lemma decode_newlines: "newlines (decode_replace s) \<ge> newlines s"
proof (induction "newlines s" arbitrary: s)
  case (Suc n)
  then have "CHR 0x0A \<in> set s" using newlines_zero [of s] by auto
  then obtain a b where s: "s = a @ CHR 0x0A # b" "CHR 0x0A \<notin> set a" by (meson split_list_first)
  have n: "newlines s = Suc (newlines b)"
    using s newlines_append [of a "CHR 0x0A # b"] newlines_zero [of a] by (simp add: newlines_def)
  then have "newlines b \<le> newlines (decode_replace b)" using Suc by simp
  then show ?case using n s(1) by (simp add: decode_newline newlines_append) (simp add: newlines_def)
qed simp

lemma last_lines_suffix:
  assumes "0 < n" and "n \<le> length b"
  shows "last_lines n (a @ b) = last_lines n b"
  using assms by (simp add: last_lines_def)

lemma tail_suffix:
  assumes "data = drop left content" and "left \<le> length content"
  shows "\<exists>k. tail_read n content left data = drop k content \<and> (k = 0 \<or> n < newlines (drop k content))"
  using assms
proof (induction left arbitrary: data rule: less_induct)
  case (less left)
  show ?case
  proof (cases "left > 0 \<and> newlines data \<le> n")
    case True
    let ?r = "min 8192 left"
    have "take ?r (drop (left - ?r) content) @ data = drop (left - ?r) content"
    proof -
      have "data = drop ?r (drop (left - ?r) content)" using less.prems(1) by (simp add: min_def)
      then show ?thesis by (metis append_take_drop_id)
    qed
    then have "\<exists>k. tail_read n content (left - ?r) (take ?r (drop (left - ?r) content) @ data) = drop k content
        \<and> (k = 0 \<or> n < newlines (drop k content))"
      using True less.prems by (intro less.IH) auto
    then show ?thesis using True by (subst tail_read.simps) (simp add: Let_def)
  next
    case False
    then show ?thesis using less.prems by (subst tail_read.simps) (auto intro!: exI [of _ left])
  qed
qed

text \<open>
  Claim C33. Reading the log from its end, block by block, gives exactly the last lines of the whole file,
  whatever its bytes are and however the blocks cut lines, characters and line ends.
\<close>

theorem tail_logs_exact:
  assumes "0 < n"
  shows "tail_logs (Some content) n = last_lines n (py_splitlines (decode_replace content))"
proof -
  obtain k where k: "tail_read n content (length content) [] = drop k content" "k = 0 \<or> n < newlines (drop k content)"
    using tail_suffix [of "[]" "length content" content n] by auto
  show ?thesis
  proof (cases "k = 0")
    case True
    with k(1) show ?thesis by (simp add: tail_logs_def)
  next
    case False
    define d where "d = drop k content"
    have nl: "n < newlines d" using k(2) False by (simp add: d_def)
    then have "CHR 0x0A \<in> set d" using newlines_zero [of d] by auto
    then obtain a b where d: "d = a @ CHR 0x0A # b" "CHR 0x0A \<notin> set a" by (meson split_list_first)
    have c: "content = (take k content @ a) @ CHR 0x0A # b" using d(1) d_def by (metis append.assoc append_take_drop_id)
    have "newlines d = Suc (newlines b)"
      using d newlines_append [of a "CHR 0x0A # b"] newlines_zero [of a] by (simp add: newlines_def)
    then have "n \<le> length (split_lines [] (decode_replace b))"
      using nl decode_newlines [of b] split_lines_count [of "decode_replace b" "[]"] by linarith
    then have "last_lines n (split_lines [] (decode_replace (u @ CHR 0x0A # b))) = last_lines n (split_lines [] (decode_replace b))" for u
    proof -
      assume l: "n \<le> length (split_lines [] (decode_replace b))"
      obtain p where "split_lines [] (decode_replace (u @ CHR 0x0A # b)) = p @ split_lines [] (decode_replace b)"
        using split_lines_after [of "[]" "decode_replace u" "decode_replace b"] by (auto simp: decode_newline)
      then show ?thesis using last_lines_suffix [OF assms l] by simp
    qed
    from this [of a] this [of "take k content @ a"] show ?thesis
      using k(1) c d(1) by (simp add: tail_logs_def py_splitlines_def d_def)
  qed
qed

section \<open>Start and stop\<close>

lemma put_row_simps [simp]:
  "rt_handles (put_row i st) = rt_handles st" "rt_visible (put_row i st) = rt_visible st" "rt_files (put_row i st) = rt_files st"
  "rt_failures (put_row i st) = rt_failures st"
  by (simp_all add: put_row_def)

lemma get_put_row: "get_row (put_row i st) j = (if j = ei_id i then map_option (\<lambda>_. i) (get_row st j) else get_row st j)"
proof -
  have "row_get ei_id j (row_upd ei_id (ei_id i) (\<lambda>_. i) t) = (if j = ei_id i then map_option (\<lambda>_. i) (row_get ei_id j t) else row_get ei_id j t)" for t
    by (induction t) (auto simp: row_upd_def row_get_def)
  then show ?thesis by (simp add: put_row_def)
qed

lemma frame_simps [simp]:
  "rt_rows (write_pid_file env i p st) = rt_rows st" "rt_handles (write_pid_file env i p st) = rt_handles st"
  "rt_visible (write_pid_file env i p st) = rt_visible st" "rt_rows (remove_pid_file i st) = rt_rows st"
  "rt_handles (remove_pid_file i st) = rt_handles st" "rt_visible (remove_pid_file i st) = rt_visible st"
  "rt_rows (gone p st) = rt_rows st" "rt_handles (gone p st) = rt_handles st" "rt_visible (gone p st) = removeAll p (rt_visible st)"
  "rt_rows (end_child env p st) = rt_rows st" "rt_rows (end_other env p st) = rt_rows st" "rt_handles (end_other env p st) = rt_handles st"
  by (auto simp: write_pid_file_def remove_pid_file_def gone_def end_child_def end_other_def split: option.splits)

lemma alive_frame [simp]:
  "pid_alive (put_row i st) pid = pid_alive st pid" "pid_alive (remove_pid_file i st) pid = pid_alive st pid"
  by (cases pid; simp add: pid_alive_def)+

lemma pid_alive_None [simp]: "\<not> pid_alive st None"
  by (simp add: pid_alive_def)

text \<open>
  A start that succeeds leaves a row that is running with the pid of a process that is
  visible; unless the process was already running, both ports were free, the process answered the
  readiness probe, and its handle is kept. A start that fails changes nothing or leaves the row in error, or
  starting when only the log file could not be opened; it never leaves the row running.
\<close>

theorem start_sound:
  assumes "get_row st (ei_id inst) = Some inst" and "start_instance env now inst st = (st', res)"
    and "\<forall>p. re_spawn env = spawn_pid p \<longrightarrow> p \<noteq> 0"
  shows "\<exists>row. get_row st' (ei_id inst) = Some row
    \<and> (case res of
         Inr (text, pid) \<Rightarrow> text = ''running'' \<and> ei_status row = envoy_running \<and> ei_pid row = pid \<and> pid_alive st' pid
           \<and> (st' = st \<or> \<not> re_busy env (ei_listen_port inst) \<and> admin_busy env inst = None \<and> wait_ready (re_ready_probes env)
                \<and> rt_handles st' (ei_id inst) = pid \<and> ei_last_health_at row = Some now)
       | Inl e \<Rightarrow> st' = st \<or> ei_status row = envoy_error \<or> ei_status row = envoy_starting \<and> (\<not> re_log_ok env \<or> ei_log_dir inst = None))"
proof (cases "ei_status inst = envoy_running \<and> pid_alive st (ei_pid inst)")
  case True
  then show ?thesis using assms(1,2) by (auto simp: start_instance_def)
next
  case False
  note start = assms(2) [unfolded start_instance_def if_not_P [OF False]]
  consider "re_busy env (ei_listen_port inst) \<or> admin_busy env inst \<noteq> None"
    | "\<not> re_busy env (ei_listen_port inst)" "admin_busy env inst = None" "bootstrap_path inst = None \<or> \<not> re_dirs_ok env"
    | path where "\<not> re_busy env (ei_listen_port inst)" "admin_busy env inst = None" "bootstrap_path inst = Some path" "re_dirs_ok env"
    by (cases "bootstrap_path inst") auto
  then show ?thesis
  proof cases
    case 1
    then show ?thesis using start assms(1) by (auto simp: fail_start_def get_put_row split: if_splits option.splits)
  next
    case 2
    then show ?thesis using start assms(1) by (auto split: option.splits)
  next
    case (3 path)
    define inst1 where "inst1 = inst\<lparr>ei_status := envoy_starting, ei_last_error := None\<rparr>"
    define st1 where "st1 = put_row inst1 (st\<lparr>rt_files := (rt_files st)(path \<mapsto> render_bootstrap_yaml (re_dump env) (re_settings env) inst)\<rparr>)"
    have i: "ei_id inst1 = ei_id inst" "ei_status inst1 = envoy_starting" by (simp_all add: inst1_def)
    have r: "get_row st1 (ei_id inst) = Some inst1" using assms(1) i by (simp add: st1_def get_put_row)
    have s: "(if \<not> re_log_ok env \<or> ei_log_dir inst = None then (st1, Inl internal_error) else launch env now inst1 st1) = (st', res)"
      using start 3 by (auto simp: inst1_def st1_def Let_def split: if_splits)
    show ?thesis
    proof (cases "\<not> re_log_ok env \<or> ei_log_dir inst = None")
      case True
      with s r i show ?thesis by auto
    next
      case False
      have "launch env now inst1 st1 = (st', res)" by (rule s [unfolded if_not_P [OF False]])
      then show ?thesis
        using r i assms(3) 3 by (auto simp: launch_def fail_start_def get_put_row pid_alive_def Let_def split: spawned.splits if_splits)
    qed
  qed
qed

text \<open>
  Claim C34. A stop that succeeds leaves the row stopped and without pid, no handle, and no process under the
  pid that the handle, the row or the pid file named. A stop that fails keeps status and pid of the
  row, so that it can be repeated.
\<close>

theorem stop_sound:
  assumes "get_row st (ei_id inst) = Some inst" and "stop_instance env inst st = (st', res)"
  shows "\<exists>row. get_row st' (ei_id inst) = Some row \<and> rt_handles st' (ei_id inst) = None
    \<and> (case res of
         Inr _ \<Rightarrow> ei_status row = envoy_stopped \<and> ei_pid row = None \<and> \<not> pid_alive st' (stop_pid inst st)
       | Inl _ \<Rightarrow> ei_status row = ei_status inst \<and> ei_pid row = ei_pid inst \<and> ei_last_error row \<noteq> None)"
proof -
  show ?thesis
  proof (cases "rt_handles st (ei_id inst)")
    case None
    with assms show ?thesis
      by (auto simp: stop_instance_def get_put_row Let_def split: option.splits if_splits)
  next
    case (Some p)
    have "get_row (end_child env p st \<lparr>rt_handles := h\<rparr>) j = get_row st j" for h j by simp
    with Some assms show ?thesis
      by (auto simp: stop_instance_def get_put_row Let_def reap_def split: option.splits if_splits)
  qed
qed

text \<open>
  Stopping an Envoy that does not react to SIGTERM reports a failure although it succeeds: the
  process is killed, but a killed child stays visible until it is waited for, which happens only
  after the check. The row stays as it was, and stopping again succeeds.
\<close>

theorem killed_child_reported:
  assumes "get_row st (ei_id inst) = Some inst" and "rt_handles st (ei_id inst) = Some p" and "ei_pid inst = Some p"
    and "p \<noteq> 0" and "p \<in> set (rt_visible st)" and "\<not> re_term env p"
  shows "\<exists>st' e row. stop_instance env inst st = (st', Inl e) \<and> status_code e = 500 \<and> p \<notin> set (rt_visible st')
    \<and> get_row st' (ei_id inst) = Some row \<and> ei_status row = ei_status inst
    \<and> snd (stop_instance env row st') = Inr ''stopped''"
proof -
  define row where "row = inst\<lparr>ei_last_error := Some (''failed to terminate envoy pid='' @ str_int p)\<rparr>"
  define st' where "st' = reap p (put_row row (st\<lparr>rt_handles := (rt_handles st)(ei_id inst := None)\<rparr>))"
  have i: "ei_id row = ei_id inst" "ei_pid row = Some p" "ei_status row = ei_status inst" using assms(3) by (simp_all add: row_def)
  have "stop_pid inst st = Some p" using assms(2,4) by (simp add: stop_pid_def or_pid_def)
  then have 1: "fst (stop_instance env inst st) = st'" "\<exists>e. snd (stop_instance env inst st) = Inl e \<and> status_code e = 500"
    using assms by (simp_all add: stop_instance_def end_child_def pid_alive_def st'_def row_def Let_def)
  have v: "p \<notin> set (rt_visible st')" "rt_handles st' (ei_id inst) = None" "get_row st' (ei_id inst) = Some row"
    using assms(1) i by (simp_all add: st'_def reap_def get_put_row)
  then have "stop_pid row st' = Some p" using i assms(4) by (simp add: stop_pid_def or_pid_def)
  then have "snd (stop_instance env row st') = Inr ''stopped''"
    using v i assms(4) by (simp add: stop_instance_def end_other_def pid_alive_def Let_def)
  with 1 v i show ?thesis by (metis prod.collapse)
qed

text \<open>
  Adoption forgets a process that is alive but not ready: the row becomes stopped and loses its pid, the pid file is
  removed, the process runs on, and a later stop reports success without touching it.
\<close>
theorem orphan_forgotten:
  assumes "get_row st (ei_id inst) = Some inst" and "ei_status inst \<noteq> envoy_stopped" and "rt_handles st (ei_id inst) = None"
    and "or_pid (if or_text (ei_config_dir inst) [] \<noteq> [] then read_pid_file inst st else None) (ei_pid inst) = Some p"
    and "p \<noteq> 0" and "p \<in> set (rt_visible st)" and "\<not> (has_port inst \<and> health env inst)"
  defines "st1 \<equiv> adopt_one env inst st"
  shows "\<exists>row. get_row st1 (ei_id inst) = Some row \<and> ei_status row = envoy_stopped \<and> ei_pid row = None
    \<and> snd (stop_instance env2 row st1) = Inr ''stopped'' \<and> p \<in> set (rt_visible (fst (stop_instance env2 row st1)))"
proof -
  define row where "row = inst\<lparr>ei_pid := None, ei_status := envoy_stopped\<rparr>"
  have st1: "st1 = (if or_text (ei_config_dir inst) [] \<noteq> [] then remove_pid_file inst else (\<lambda>s. s)) (put_row row st)"
    using assms(2,4-7) by (auto simp: st1_def adopt_one_def row_def Let_def pid_alive_def)
  have g: "get_row st1 (ei_id inst) = Some row"
    using assms(1) get_put_row [where i = row and st = st] by (simp add: st1 row_def)
  have h: "rt_handles st1 (ei_id row) = None" and v: "rt_visible st1 = rt_visible st"
    using assms(3) by (simp_all add: st1 row_def)
  have "or_text (ei_config_dir row) [] \<noteq> [] \<Longrightarrow> read_pid_file row st1 = None"
    by (simp add: st1 row_def read_pid_file_def remove_pid_file_def pid_path_def split: option.split)
  then have s: "stop_pid row st1 = None" using h by (simp add: stop_pid_def or_pid_def row_def)
  show ?thesis using g h v s assms(6)
    by (intro exI [of _ row]) (simp add: row_def stop_instance_def Let_def)
qed

section \<open>The health monitor\<close>

text \<open>
  While Redis answers, at most one replica monitors: after a replica has become the leader for a
  number of seconds, no other replica becomes the leader within them, and the leader can renew.
\<close>

theorem leader_exclusive:
  assumes "r_up r" and "acquire_leader_lock t0 me ttl r = (r1, True)" and "t0 \<le> t" and "t < t0 + secs ttl" and "other \<noteq> me"
  shows "acquire_leader_lock t other ttl' r1 = (r1, False) \<and> snd (acquire_leader_lock t me ttl' r1)"
proof -
  have k: "r_data r1 leader_key = Some (RJson (JStr me), Some (t0 + secs ttl)) \<and> r_up r1"
    using assms(1,2) by (auto simp: acquire_leader_lock_def rd_set_json_def rd_put_def rd_expire_def rd_get_json_def split: if_splits option.splits redis_value.splits)
  then have "rd_live t r1 leader_key = Some (RJson (JStr me), Some (t0 + secs ttl))" using assms(4) by (simp add: rd_live_def)
  with k assms(5) show ?thesis by (simp add: acquire_leader_lock_def rd_get_json_def)
qed

lemma health_rows_spec:
  assumes "health_rows env threshold now rows fails = (fails', rows', changed)" and "distinct (map ei_id rows)"
  shows "rows' = map (\<lambda>i. fst (snd (health_one env threshold now i fails))) rows
    \<and> (changed \<longleftrightarrow> (\<exists>i \<in> set rows. snd (snd (health_one env threshold now i fails))))
    \<and> (\<forall>i \<in> set rows. fails' (ei_id i) = fst (health_one env threshold now i fails) (ei_id i))
    \<and> (\<forall>j. j \<notin> ei_id ` set rows \<longrightarrow> fails' j = fails j)"
  using assms
proof (induction rows arbitrary: fails fails' rows' changed)
  case (Cons x rows)
  obtain f1 i1 c1 where 1: "health_one env threshold now x fails = (f1, i1, c1)" by (metis prod_cases3)
  obtain f2 is2 c2 where 2: "health_rows env threshold now rows f1 = (f2, is2, c2)" by (metis prod_cases3)
  have e: "fails' = f2" "rows' = i1 # is2" "changed = (c1 \<or> c2)" using Cons.prems(1) 1 2 by auto
  have o: "j \<noteq> ei_id x \<Longrightarrow> f1 j = fails j" for j using 1 by (auto simp: health_one_def Let_def split: if_splits)
  have x: "ei_id x \<notin> ei_id ` set rows" using Cons.prems(2) by auto
  have same: "i \<in> set rows \<Longrightarrow> snd (health_one env threshold now i f1) = snd (health_one env threshold now i fails)
      \<and> fst (health_one env threshold now i f1) (ei_id i) = fst (health_one env threshold now i fails) (ei_id i)" for i
  proof -
    assume "i \<in> set rows"
    then have "f1 (ei_id i) = fails (ei_id i)" using x by (intro o) (metis imageI)
    then show ?thesis by (simp add: health_one_def Let_def)
  qed
  have ih: "is2 = map (\<lambda>i. fst (snd (health_one env threshold now i f1))) rows
    \<and> (c2 \<longleftrightarrow> (\<exists>i \<in> set rows. snd (snd (health_one env threshold now i f1))))
    \<and> (\<forall>i \<in> set rows. f2 (ei_id i) = fst (health_one env threshold now i f1) (ei_id i))
    \<and> (\<forall>j. j \<notin> ei_id ` set rows \<longrightarrow> f2 j = f1 j)"
    using Cons.IH [OF 2] Cons.prems(2) by simp
  show ?case
  proof (intro conjI ballI allI impI)
    show "rows' = map (\<lambda>i. fst (snd (health_one env threshold now i fails))) (x # rows)"
      using ih same 1 e(2) by simp
    show "changed \<longleftrightarrow> (\<exists>i \<in> set (x # rows). snd (snd (health_one env threshold now i fails)))"
      using ih same 1 e(3) by simp
    show "fails' j = fails j" if "j \<notin> ei_id ` set (x # rows)" for j
      using ih o e(1) that by simp
    show "fails' (ei_id i) = fst (health_one env threshold now i fails) (ei_id i)" if "i \<in> set (x # rows)" for i
      using that
    proof (cases "i = x")
      case True
      with ih 1 e(1) x show ?thesis by simp
    next
      case False
      with that ih same e(1) show ?thesis by simp
    qed
  qed
qed simp

text \<open>
  The time of the last successful probe is lost: a pass that finds every monitored instance
  healthy, and none that was in error, stores nothing, because the session is committed only
  after a change of status.
\<close>

theorem healthy_stamp_lost:
  assumes "\<forall>i \<in> set (rt_rows st). monitored i \<longrightarrow> probe_one env i \<and> ei_status i = envoy_running" and "distinct (map ei_id (rt_rows st))"
  shows "rt_rows (health_tick env threshold now st) = rt_rows st"
proof -
  obtain f rows c where h: "health_rows env (nat (max 1 threshold)) now (filter monitored (rt_rows st)) (rt_failures st) = (f, rows, c)"
    by (metis prod_cases3)
  have "distinct (map ei_id (filter monitored (rt_rows st)))" using assms(2) by (simp add: distinct_map_filter)
  from health_rows_spec [OF h this] assms(1) have "\<not> c" by (auto simp: health_one_def)
  then show ?thesis using h by (simp add: health_tick_def)
qed

lemma tick_rows:
  assumes "distinct (map ei_id (rt_rows st))" and "inst \<in> set (rt_rows st)" and "monitored inst" and "\<not> probe_one env inst"
    and "health_one env (nat (max 1 threshold)) now inst (rt_failures st) = (f, inst', c)"
  shows "get_row (health_tick env threshold now st) (ei_id inst) = Some (if c then inst' else inst)
    \<and> rt_failures (health_tick env threshold now st) (ei_id inst) = f (ei_id inst)
    \<and> map ei_id (rt_rows (health_tick env threshold now st)) = map ei_id (rt_rows st)"
proof -
  let ?rows = "filter monitored (rt_rows st)" and ?h = "\<lambda>i. health_one env (nat (max 1 threshold)) now i (rt_failures st)"
  obtain fs rows ch where h: "health_rows env (nat (max 1 threshold)) now ?rows (rt_failures st) = (fs, rows, ch)" by (metis prod_cases3)
  have d: "distinct (map ei_id ?rows)" using assms(1) by (simp add: distinct_map_filter)
  note sp = health_rows_spec [OF h d]
  have m: "inst \<in> set ?rows" using assms(2,3) by simp
  have f: "fs (ei_id inst) = f (ei_id inst)" using sp m assms(5) by auto
  have ids: "ei_id (fst (snd (?h i))) = ei_id i" for i by (simp add: health_one_def Let_def)
  have unchanged: "\<not> c \<Longrightarrow> inst' = inst" using assms(4,5) by (auto simp: health_one_def Let_def split: if_splits)
  have fold_ids: "map ei_id (rt_rows (fold put_row is st1)) = map ei_id (rt_rows st1)" for "is" st1
  proof (induction "is" arbitrary: st1)
    case (Cons i "is")
    have "map ei_id (rt_rows (put_row i st1)) = map ei_id (rt_rows st1)" by (simp add: put_row_def row_upd_def comp_def if_distrib cong: if_cong)
    with Cons show ?case by simp
  qed simp
  have fold_get: "distinct (map ei_id is) \<Longrightarrow> i \<in> set is \<Longrightarrow> get_row st1 (ei_id i) \<noteq> None \<Longrightarrow> get_row (fold put_row is st1) (ei_id i) = Some i" for i "is" st1
  proof (induction "is" arbitrary: st1)
    case (Cons y ys)
    have keep: "j \<notin> ei_id ` set zs \<Longrightarrow> get_row (fold put_row zs st2) j = get_row st2 j" for j zs st2
      by (induction zs arbitrary: st2) (auto simp: get_put_row)
    show ?case
    proof (cases "i = y")
      case True
      with Cons.prems keep [of "ei_id i" ys] show ?thesis by (auto simp: get_put_row)
    next
      case False
      have "get_row (put_row y st1) (ei_id i) \<noteq> None" using Cons.prems(3) by (auto simp: get_put_row)
      with False Cons.prems Cons.IH [of "put_row y st1"] show ?thesis by simp
    qed
  qed simp
  have g: "get_row st (ei_id inst) = Some inst" by (rule row.get_unique [OF assms(1,2)])
  have fl: "rt_failures (fold put_row is st1) = rt_failures st1" for "is" st1 by (induction "is" arbitrary: st1) simp_all
  show ?thesis
  proof (cases ch)
    case True
    have t: "health_tick env threshold now st = fold put_row rows (st\<lparr>rt_failures := fs\<rparr>)" using h True by (simp add: health_tick_def)
    have "inst' \<in> set rows" "ei_id inst' = ei_id inst" using sp m assms(5) ids [of inst] by (force, simp)
    moreover have "distinct (map ei_id rows)" using sp d ids by (simp add: comp_def)
    ultimately have "get_row (fold put_row rows (st\<lparr>rt_failures := fs\<rparr>)) (ei_id inst) = Some inst'"
      using fold_get [of rows inst' "st\<lparr>rt_failures := fs\<rparr>"] g by simp
    then show ?thesis using unchanged f fold_ids [of rows "st\<lparr>rt_failures := fs\<rparr>"] unfolding t by (simp add: fl)
  next
    case False
    then have "\<not> c" using sp m assms(5) by auto
    moreover have "health_tick env threshold now st = st\<lparr>rt_failures := fs\<rparr>" using h False by (simp add: health_tick_def)
    ultimately show ?thesis using g f by simp
  qed
qed

definition failures_of :: "runtime \<Rightarrow> int \<Rightarrow> nat" where
  \<comment> \<open>the failed probes in a row that the monitor has counted\<close>
  "failures_of st i = (case rt_failures st i of None \<Rightarrow> 0 | Some n \<Rightarrow> n)"

definition health_passes :: "int \<Rightarrow> (runtime_env \<times> datetime) list \<Rightarrow> runtime \<Rightarrow> runtime" where
  \<comment> \<open>passes of the monitor, each at its own time and on the hosts as they are then\<close>
  "health_passes threshold = fold (\<lambda>(env, now). health_tick env threshold now)"

lemma failed_pass:
  fixes threshold :: int
  assumes "distinct (map ei_id (rt_rows st))" and "get_row st i = Some row" and "monitored row" and "\<not> probe_one env row"
  defines "late \<equiv> int (failures_of st i + 1) \<ge> threshold \<and> ei_status row \<noteq> envoy_error"
  shows "get_row (health_tick env threshold now st) i = Some (if late
      then row\<lparr>ei_status := envoy_error, ei_last_error := Some (str_nat (failures_of st i + 1) @ '' consecutive health probe failures'')\<rparr>
      else row)"
    and "failures_of (health_tick env threshold now st) i = failures_of st i + 1"
    and "distinct (map ei_id (rt_rows (health_tick env threshold now st)))"
proof -
  have r: "row \<in> set (rt_rows st)" "ei_id row = i" using row.get_Some [OF assms(2)] by simp_all
  define n where "n = failures_of st i + 1"
  define row' where "row' = (if late then row\<lparr>ei_status := envoy_error,
       ei_last_error := Some (str_nat n @ '' consecutive health probe failures'')\<rparr> else row)"
  have "nat (max 1 threshold) \<le> n \<longleftrightarrow> int n \<ge> threshold" unfolding n_def by linarith
  then have o: "health_one env (nat (max 1 threshold)) now row (rt_failures st) = ((rt_failures st)(i \<mapsto> n), row', late)"
    using assms(4) r(2) by (simp add: health_one_def Let_def row'_def late_def n_def failures_of_def)
  from tick_rows [OF assms(1) r(1) assms(3,4) o] r(2)
  have t: "get_row (health_tick env threshold now st) i = Some (if late then row' else row)"
      "rt_failures (health_tick env threshold now st) i = Some n"
      "map ei_id (rt_rows (health_tick env threshold now st)) = map ei_id (rt_rows st)"
    by simp_all
  then show "get_row (health_tick env threshold now st) i = Some (if late
      then row\<lparr>ei_status := envoy_error, ei_last_error := Some (str_nat (failures_of st i + 1) @ '' consecutive health probe failures'')\<rparr>
      else row)"
    and "failures_of (health_tick env threshold now st) i = failures_of st i + 1"
    and "distinct (map ei_id (rt_rows (health_tick env threshold now st)))"
    using assms(1) by (simp_all add: row'_def n_def failures_of_def)
qed

text \<open>
  Claim C38. A running instance of which the monitor has counted \<open>c\<close> failed probes in a row is in error
  after \<open>k\<close> further passes that all fail to reach it exactly when \<open>k\<close> is positive and \<open>c + k\<close> reaches the
  threshold, however the other instances fare; until then it stays running, and from then on in error. The
  counter is the one the monitor has, also for an instance that was stopped and started again: what an
  earlier run left in it counts.
\<close>

theorem error_after_threshold:
  assumes "distinct (map ei_id (rt_rows st))" and "get_row st i = Some inst" and "ei_status inst = envoy_running"
    and "\<forall>(env, now) \<in> set passes. \<forall>s e. \<not> probe_one env (inst\<lparr>ei_status := s, ei_last_error := e\<rparr>)"
  shows "\<exists>row. get_row (health_passes threshold passes st) i = Some row
    \<and> ei_status row = (if passes \<noteq> [] \<and> int (failures_of st i + length passes) \<ge> threshold then envoy_error else envoy_running)
    \<and> failures_of (health_passes threshold passes st) i = failures_of st i + length passes"
proof -
  have "\<exists>s e. get_row (health_passes threshold passes st) i = Some (inst\<lparr>ei_status := s, ei_last_error := e\<rparr>)
    \<and> s = (if passes \<noteq> [] \<and> int (failures_of st i + length passes) \<ge> threshold then envoy_error else envoy_running)
    \<and> failures_of (health_passes threshold passes st) i = failures_of st i + length passes
    \<and> distinct (map ei_id (rt_rows (health_passes threshold passes st)))"
    using assms(4)
  proof (induction passes rule: rev_induct)
    case Nil
    have "inst\<lparr>ei_status := envoy_running, ei_last_error := ei_last_error inst\<rparr> = inst" using assms(3) by (cases inst) simp
    then show ?case using assms(1,2)
      by (intro exI [of _ envoy_running] exI [of _ "ei_last_error inst"]) (simp add: health_passes_def)
  next
    case (snoc p passes)
    obtain env now where p: "p = (env, now)" by (cases p)
    let ?t = "health_passes threshold passes st" and ?k = "failures_of st i + length passes"
    have step: "health_passes threshold (passes @ [p]) st = health_tick env threshold now ?t" by (simp add: health_passes_def p)
    obtain s e where k: "get_row ?t i = Some (inst\<lparr>ei_status := s, ei_last_error := e\<rparr>)"
        "s = (if passes \<noteq> [] \<and> int ?k \<ge> threshold then envoy_error else envoy_running)"
        "failures_of ?t i = ?k" "distinct (map ei_id (rt_rows ?t))"
      using snoc by auto
    have m: "monitored (inst\<lparr>ei_status := s, ei_last_error := e\<rparr>)" using k(2) by (simp add: monitored_def)
    have np: "\<not> probe_one env (inst\<lparr>ei_status := s, ei_last_error := e\<rparr>)" using snoc.prems p by auto
    note f = failed_pass [OF k(4,1) m np, of threshold now, unfolded k(3)]
    obtain e' where e': "get_row (health_tick env threshold now ?t) i
        = Some (inst\<lparr>ei_status := (if int (?k + 1) \<ge> threshold then envoy_error else envoy_running), ei_last_error := e'\<rparr>)"
    proof (cases "int (?k + 1) \<ge> threshold \<and> s \<noteq> envoy_error")
      case True
      with f(1) have "get_row (health_tick env threshold now ?t) i = Some (inst\<lparr>ei_status := envoy_error,
          ei_last_error := Some (str_nat (?k + 1) @ '' consecutive health probe failures'')\<rparr>)" by simp
      with True that show ?thesis by simp
    next
      case False
      then have "s = (if int (?k + 1) \<ge> threshold then envoy_error else envoy_running)"
        using k(2) by (cases "passes \<noteq> [] \<and> int ?k \<ge> threshold") auto
      moreover have "ei_status (inst\<lparr>ei_status := s, ei_last_error := e\<rparr>) = s" by simp
      with False f(1) have "get_row (health_tick env threshold now ?t) i = Some (inst\<lparr>ei_status := s, ei_last_error := e\<rparr>)"
        by (simp only: if_False)
      ultimately show ?thesis using that by simp
    qed
    have "passes @ [p] \<noteq> [] \<and> int (failures_of st i + length (passes @ [p])) \<ge> threshold \<longleftrightarrow> int (?k + 1) \<ge> threshold" by simp
    then show ?case unfolding step using e' f(2,3)
      by (intro exI [of _ "if int (?k + 1) \<ge> threshold then envoy_error else envoy_running"] exI [of _ e'])
        (simp only: length_append list.size add.assoc simp_thms)
  qed
  then show ?thesis by auto
qed

section \<open>Examples\<close>

definition demo_local :: envoy_instance where
  "demo_local = \<lparr>ei_id = 1, ei_name = ''a'', ei_mode = envoy_local, ei_node_id = ''llmxy-a'', ei_listen_port = 9000,
     ei_admin_port = Some 9001, ei_admin_url = Some ''http://127.0.0.1:9001'', ei_status = envoy_stopped, ei_pid = None,
     ei_config_version = 0, ei_config_dir = Some ''/cfg/a'', ei_log_dir = Some ''/log/a'', ei_last_health_at = None, ei_last_error = None,
     ei_last_seen_at = None, ei_last_xds_version = None\<rparr>"

definition demo_running :: envoy_instance where
  "demo_running = demo_local\<lparr>ei_status := envoy_running, ei_pid := Some 41\<rparr>"

definition demo_runtime :: "envoy_instance \<Rightarrow> runtime" where
  "demo_runtime inst = \<lparr>rt_rows = [inst], rt_handles = (case ei_pid inst of None \<Rightarrow> Map.empty | Some p \<Rightarrow> [1 \<mapsto> p]),
     rt_visible = [41], rt_files = Map.empty, rt_failures = Map.empty\<rparr>"

definition demo_host :: "bool \<Rightarrow> runtime_env" where
  \<comment> \<open>whether Envoy answers its probes\<close>
  "demo_host up = \<lparr>re_busy = (\<lambda>p. False), re_dirs_ok = True, re_log_ok = True, re_pid_file_ok = True, re_spawn = spawn_pid 42,
     re_ready_probes = [None, Some (200, ''live'')], re_term = (\<lambda>p. False), re_kill = (\<lambda>p. True),
     re_get = (\<lambda>u. if up then Some 200 else None), re_bin = ''envoy'', re_dump = (\<lambda>v. []),
     re_settings = \<lparr>es_api_port = 8000, es_internal_host = ''127.0.0.1'', es_internal_port = 8000, es_ext_proc_port = 8004,
        es_xds_port = 8003, es_als_port = 8002, es_auth_token = [], es_public_host = [], es_ext_proc_timeout = ''15s'', es_image = ''envoy''\<rparr>\<rparr>"

lemma demo_runtime_row: "get_row (demo_runtime inst) (ei_id inst) = Some inst"
  by (simp add: demo_runtime_def row.get_Cons)

lemma demo_ids: "distinct (map ei_id (rt_rows (demo_runtime inst)))"
  by (simp add: demo_runtime_def)

theorem tail_logs_exact_witness: "tail_logs (Some (''a'' @ [CHR 0x0A] @ ''b'' @ [CHR 0x0A] @ ''c'')) 2 = [''b'', ''c'']"
proof -
  have "last_lines 2 (py_splitlines (decode_replace (''a'' @ [CHR 0x0A] @ ''b'' @ [CHR 0x0A] @ ''c''))) = [''b'', ''c'']" by code_simp
  then show ?thesis using tail_logs_exact [of 2 "''a'' @ [CHR 0x0A] @ ''b'' @ [CHR 0x0A] @ ''c''"] by simp
qed

theorem start_sound_witness:
  "\<exists>st' row. start_instance (demo_host True) 7 demo_local (demo_runtime demo_local) = (st', Inr (''running'', Some 42))
    \<and> get_row st' 1 = Some row \<and> ei_status row = envoy_running \<and> pid_alive st' (Some 42)"
proof -
  have "snd (start_instance (demo_host True) 7 demo_local (demo_runtime demo_local)) = Inr (''running'', Some 42)" by code_simp
  then obtain st' where s: "start_instance (demo_host True) 7 demo_local (demo_runtime demo_local) = (st', Inr (''running'', Some 42))"
    by (metis prod.collapse)
  from start_sound [OF demo_runtime_row s] show ?thesis using s by (auto simp: demo_host_def demo_local_def)
qed

theorem stop_sound_witness:
  "\<exists>st' row. stop_instance (demo_host True) demo_local (demo_runtime demo_local) = (st', Inr ''stopped'')
    \<and> get_row st' 1 = Some row \<and> ei_status row = envoy_stopped"
proof -
  have "snd (stop_instance (demo_host True) demo_local (demo_runtime demo_local)) = Inr ''stopped''" by code_simp
  then obtain st' where s: "stop_instance (demo_host True) demo_local (demo_runtime demo_local) = (st', Inr ''stopped'')"
    by (metis prod.collapse)
  from stop_sound [OF demo_runtime_row s] show ?thesis using s by (auto simp: demo_local_def)
qed

theorem killed_child_reported_witness:
  "\<exists>st' e. stop_instance (demo_host True) demo_running (demo_runtime demo_running) = (st', Inl e) \<and> status_code e = 500 \<and> 41 \<notin> set (rt_visible st')"
  using killed_child_reported [OF demo_runtime_row, of demo_running 41 "demo_host True"]
  by (fastforce simp: demo_runtime_def demo_running_def demo_local_def demo_host_def)

theorem leader_exclusive_witness:
  "\<exists>r1. acquire_leader_lock 0 ''a'' 60 \<lparr>r_up = True, r_data = Map.empty\<rparr> = (r1, True) \<and> acquire_leader_lock 1 ''b'' 60 r1 = (r1, False)"
proof -
  have "snd (acquire_leader_lock 0 ''a'' 60 \<lparr>r_up = True, r_data = Map.empty\<rparr>)" by (simp add: acquire_leader_lock_def rd_live_def)
  then obtain r1 where "acquire_leader_lock 0 ''a'' 60 \<lparr>r_up = True, r_data = Map.empty\<rparr> = (r1, True)" by (metis prod.collapse)
  from this leader_exclusive [OF _ this, of 1 "''b''" 60] show ?thesis by (auto simp: secs_def)
qed

theorem healthy_stamp_lost_witness:
  "rt_rows (health_tick (demo_host True) 3 7 (demo_runtime demo_running)) = rt_rows (demo_runtime demo_running)
    \<and> probe_one (demo_host True) demo_running"
proof -
  have p: "probe_one (demo_host True) demo_running" by (simp add: probe_one_def demo_host_def demo_running_def demo_local_def has_port_def)
  have "rt_rows (demo_runtime demo_running) = [demo_running]" by (simp add: demo_runtime_def)
  moreover have "ei_status demo_running = envoy_running" by (simp add: demo_running_def)
  ultimately have "\<forall>i \<in> set (rt_rows (demo_runtime demo_running)). monitored i \<longrightarrow> probe_one (demo_host True) i \<and> ei_status i = envoy_running"
    using p by simp
  from healthy_stamp_lost [OF this demo_ids] p show ?thesis by blast
qed

theorem error_after_threshold_witness:
  "(\<exists>row. get_row (health_passes 3 [(demo_host False, 7), (demo_host False, 8)] (demo_runtime demo_running)) 1 = Some row
      \<and> ei_status row = envoy_running)
   \<and> (\<exists>row. get_row (health_passes 3 [(demo_host False, 9)] ((demo_runtime demo_running)\<lparr>rt_failures := [1 \<mapsto> 2]\<rparr>)) 1 = Some row
      \<and> ei_status row = envoy_error)"
proof -
  let ?st = "demo_runtime demo_running" and ?left = "(demo_runtime demo_running)\<lparr>rt_failures := [1 \<mapsto> 2]\<rparr>"
  have g: "get_row ?st 1 = Some demo_running" "get_row ?left 1 = Some demo_running"
    using demo_runtime_row [of demo_running] by (simp_all add: demo_running_def demo_local_def)
  have r: "ei_status demo_running = envoy_running" by (simp add: demo_running_def)
  have f: "failures_of ?st 1 = 0" "failures_of ?left 1 = 2" by (simp_all add: failures_of_def demo_runtime_def)
  have d: "distinct (map ei_id (rt_rows ?left))" using demo_ids [of demo_running] by simp
  have np: "\<not> probe_one (demo_host False) (demo_running\<lparr>ei_status := s, ei_last_error := e\<rparr>)" for s e
    by (simp add: probe_one_def demo_running_def demo_local_def demo_host_def)
  show ?thesis
    using error_after_threshold [OF demo_ids g(1) r, of "[(demo_host False, 7), (demo_host False, 8)]" 3]
      error_after_threshold [OF d g(2) r, of "[(demo_host False, 9)]" 3] np f by auto
qed

end
