(* ===== verification/Envoy_Admin_Laws.thy ===== *)
theory Envoy_Admin_Laws
  imports Envoy_Admin Runtime_Laws
begin

text \<open>
  The fleet of Envoy instances under the requests of administrators and the work of the process manager:
  identities stay unique and no two local instances bind a port of the host twice; the suggested ports are
  the first pair that the creation of an instance accepts.
\<close>

section \<open>Free ports\<close>

definition pair_free :: "runtime_env \<Rightarrow> envoy_instance list \<Rightarrow> nat \<Rightarrow> bool" where
  "pair_free env rows k \<longleftrightarrow> ports_problem env rows (9000 + 2 * int k) (9001 + 2 * int k) None = None"

lemma port_problem_None:
  "port_problem env rows ex label p = None \<longleftrightarrow> port_used_by_local_instance rows p ex = None \<and> \<not> re_busy env p"
  by (auto simp: port_problem_def split: option.splits)

lemma ports_problem_None:
  "ports_problem env rows l a ex = None \<longleftrightarrow>
     l \<noteq> a \<and> port_used_by_local_instance rows l ex = None \<and> \<not> re_busy env l
       \<and> port_used_by_local_instance rows a ex = None \<and> \<not> re_busy env a"
proof -
  have "ports_problem env rows l a ex = None \<longleftrightarrow> l \<noteq> a \<and> port_problem env rows ex ''listen_port'' l = None
      \<and> port_problem env rows ex ''admin_port'' a = None"
    by (simp add: ports_problem_def split: option.split)
  then show ?thesis by (simp only: port_problem_None conj_assoc)
qed

lemma free_pair_find:
  assumes "ap + 2 * int n \<le> 65537"
  shows "free_pair_from env rows ex lp ap n =
     map_option (\<lambda>k. (lp + 2 * int k, ap + 2 * int k))
       (find (\<lambda>k. ports_problem env rows (lp + 2 * int k) (ap + 2 * int k) ex = None) [0..<n])"
  using assms
proof (induction n arbitrary: lp ap)
  case (Suc n)
  have up: "[0..<Suc n] = 0 # map Suc [0..<n]" by (simp add: map_Suc_upt upt_conv_Cons del: upt_Suc)
  have shift: "find P (map Suc ks) = map_option Suc (find (\<lambda>k. P (Suc k)) ks)" for P ks
    by (induction ks) auto
  have IH: "free_pair_from env rows ex (lp + 2) (ap + 2) n =
     map_option (\<lambda>k. (lp + 2 * int (Suc k), ap + 2 * int (Suc k)))
       (find (\<lambda>k. ports_problem env rows (lp + 2 * int (Suc k)) (ap + 2 * int (Suc k)) ex = None) [0..<n])"
    using Suc.IH [of "ap + 2" "lp + 2"] Suc.prems by (simp add: algebra_simps)
  show ?case
  proof (cases "ports_problem env rows lp ap ex = None")
    case True
    with Suc.prems show ?thesis by (auto simp: up ports_problem_None simp del: upt_Suc)
  next
    case False
    then have "free_pair_from env rows ex lp ap (Suc n) = free_pair_from env rows ex (lp + 2) (ap + 2) n"
      using Suc.prems by (auto simp: ports_problem_None)
    with False show ?thesis
      by (simp only: IH up find.simps shift) (simp add: option.map_comp o_def)
  qed
qed simp

text \<open>
  Claim C39. The suggested ports for a new local instance are the first of the 200 pairs 9000/9001, 9002/9003, ...
  that the check of the creation accepts, with no row and no process on either port; the answer is 409 exactly when
  the check refuses all of them.
\<close>
theorem suggested_ports_accepted:
  "suggest_local_ports env rows =
     (case find (pair_free env rows) [0..<200] of
        Some k \<Rightarrow> Inr (9000 + 2 * int k, 9001 + 2 * int k)
      | None \<Rightarrow> Inl (http 409 ''no free local envoy port pair found near 9000/9001''))"
proof -
  have f: "free_pair_from env rows None 9000 9001 200 =
      map_option (\<lambda>k. (9000 + 2 * int k, 9001 + 2 * int k)) (find (pair_free env rows) [0..<200])"
    using free_pair_find [of 9001 200 env rows None 9000] by (simp add: pair_free_def [abs_def])
  have m: "max 1024 (min 65535 9000) = (9000::int)" "max 1024 (min 65535 9001) = (9001::int)" by simp_all
  show ?thesis
    unfolding suggest_local_ports_def find_free_local_pair_def m f by (auto split: option.splits)
qed

section \<open>The fleet\<close>

definition local_ports :: "envoy_instance \<Rightarrow> int list" where
  "local_ports r = (if ei_mode r = envoy_local then ei_listen_port r # (case ei_admin_port r of None \<Rightarrow> [] | Some a \<Rightarrow> [a]) else [])"

definition fleet_ok :: "envoy_instance list \<Rightarrow> bool" where
  \<comment> \<open>keys, names and node ids are unique, every local instance has an admin port, and no port of the host is bound twice\<close>
  "fleet_ok rows \<longleftrightarrow> distinct (map ei_id rows) \<and> distinct (map ei_name rows) \<and> distinct (map ei_node_id rows)
     \<and> (\<forall>r \<in> set rows. ei_mode r = envoy_local \<longrightarrow> ei_admin_port r \<noteq> None) \<and> distinct (concat (map local_ports rows))"

type_synonym ident = "int \<times> string \<times> string \<times> envoy_mode \<times> int \<times> int option"

definition ident :: "envoy_instance \<Rightarrow> ident" where
  "ident r = (ei_id r, ei_name r, ei_node_id r, ei_mode r, ei_listen_port r, ei_admin_port r)"

abbreviation idents :: "runtime \<Rightarrow> ident list" where
  "idents st \<equiv> map ident (rt_rows st)"

definition agrees :: "ident \<Rightarrow> ident list \<Rightarrow> bool" where
  "agrees k ks \<longleftrightarrow> (\<forall>j \<in> set ks. fst j = fst k \<longrightarrow> j = k)"

lemma ident_upd [simp]:
  "ident (r\<lparr>ei_status := x1\<rparr>) = ident r" "ident (r\<lparr>ei_pid := x2\<rparr>) = ident r"
  "ident (r\<lparr>ei_config_version := x3\<rparr>) = ident r" "ident (r\<lparr>ei_last_health_at := x4\<rparr>) = ident r"
  "ident (r\<lparr>ei_last_error := x5\<rparr>) = ident r" "ident (r\<lparr>ei_last_seen_at := x6\<rparr>) = ident r"
  "ident (r\<lparr>ei_last_xds_version := x7\<rparr>) = ident r"
  by (simp_all add: ident_def)

lemma fleet_ok_ident:
  assumes "map ident rows' = map ident rows"
  shows "fleet_ok rows' = fleet_ok rows"
proof -
  let ?p = "\<lambda>(i, n, d, m, l, a). if m = envoy_local then l # (case a of None \<Rightarrow> [] | Some a \<Rightarrow> [a]) else [] :: int list"
  let ?q = "\<lambda>(i, n, d, m, l, a). m = envoy_local \<longrightarrow> a \<noteq> None"
  have e: "fleet_ok rs \<longleftrightarrow> distinct (map fst (map ident rs)) \<and> distinct (map (fst \<circ> snd) (map ident rs))
      \<and> distinct (map (fst \<circ> snd \<circ> snd) (map ident rs)) \<and> (\<forall>k \<in> set (map ident rs). ?q k)
      \<and> distinct (concat (map ?p (map ident rs)))" for rs
    by (simp add: fleet_ok_def ident_def local_ports_def [abs_def] o_def)
  show ?thesis unfolding e assms by (rule refl)
qed

lemma agrees_row:
  assumes "distinct (map ei_id rows)" and "row_get ei_id i rows = Some inst"
  shows "agrees (ident inst) (map ident rows)"
proof -
  from assms(2) have "inst \<in> set rows" by (auto dest: row.get_Some)
  moreover from assms(1) have "inj_on ei_id (set rows)" by (simp add: distinct_map)
  ultimately show ?thesis by (auto simp: agrees_def ident_def dest: inj_onD)
qed

lemma idents_put: "agrees (ident inst) (idents st) \<Longrightarrow> idents (put_row inst st) = idents st"
  by (auto simp: put_row_def row_upd_def agrees_def) (simp add: ident_def)

lemma start_idents: "agrees (ident inst) (idents st) \<Longrightarrow> idents (fst (start_instance env now inst st)) = idents st"
  by (auto simp: start_instance_def launch_def fail_start_def Let_def idents_put split: option.splits spawned.splits)

lemma stop_idents: "agrees (ident inst) (idents st) \<Longrightarrow> idents (fst (stop_instance env inst st)) = idents st"
  by (auto simp: stop_instance_def reap_def Let_def idents_put split: option.splits)

lemma restart_idents: "agrees (ident inst) (idents st) \<Longrightarrow> idents (fst (restart_instance env now inst st)) = idents st"
  using stop_idents [of inst st env]
  by (auto simp: restart_instance_def start_idents split: prod.splits sum.splits)

lemma reload_idents: "agrees (ident inst) (idents st) \<Longrightarrow> idents (fst (reload_instance inst st v)) = idents st"
  by (simp add: reload_instance_def Let_def idents_put)

lemma fold_idents:
  assumes "\<And>i s. i \<in> set is \<Longrightarrow> agrees (ident i) (idents s) \<Longrightarrow> idents (f i s) = idents s"
    and "\<forall>i \<in> set is. agrees (ident i) (idents st)"
  shows "idents (fold f is st) = idents st"
  using assms by (induction "is" arbitrary: st) simp_all

lemma adopt_idents: "agrees (ident inst) (idents st) \<Longrightarrow> idents (adopt_one env inst st) = idents st"
  by (auto simp: adopt_one_def Let_def idents_put split: option.splits)

lemma health_rows_idents: "map ident (fst (snd (health_rows env th now is fails))) = map ident is"
  by (induction "is" arbitrary: fails) (simp_all add: health_one_def Let_def split_def)

lemma agrees_member:
  assumes "distinct (map ei_id rows)" and "k \<in> set (map ident rows)"
  shows "agrees k (map ident rows)"
proof -
  from assms(1) have "inj_on ei_id (set rows)" by (simp add: distinct_map)
  with assms(2) show ?thesis by (auto simp: agrees_def ident_def dest: inj_onD)
qed

lemma tick_idents:
  assumes "distinct (map ei_id (rt_rows st))"
  shows "idents (health_tick env th now st) = idents st"
proof -
  obtain fails rows changed where h: "health_rows env (nat (max 1 th)) now (filter monitored (rt_rows st)) (rt_failures st) = (fails, rows, changed)"
    by (metis prod_cases3)
  then have "map ident rows = map ident (filter monitored (rt_rows st))"
    using health_rows_idents [of env "nat (max 1 th)" now "filter monitored (rt_rows st)" "rt_failures st"] by simp
  then have "ident ` set rows \<subseteq> set (idents st)" by (metis filter_is_subset image_mono list.set_map)
  then have "\<forall>i \<in> set rows. agrees (ident i) (idents st)" using agrees_member [OF assms] by blast
  then show ?thesis by (simp add: health_tick_def h Let_def fold_idents idents_put)
qed

lemma adopt_all_idents:
  assumes "distinct (map ei_id (rt_rows st))"
  shows "idents (adopt_orphans env st) = idents st"
proof -
  have "\<forall>i \<in> set (filter (\<lambda>i. ei_mode i = envoy_local) (rt_rows st)). agrees (ident i) (idents st)"
    using agrees_member [OF assms] by simp
  then show ?thesis unfolding adopt_orphans_def by (intro fold_idents adopt_idents)
qed

section \<open>Creation, update and deletion\<close>

lemma used_None:
  "port_used_by_local_instance rows p ex = None \<longleftrightarrow> (\<forall>r \<in> set rows. Some (ei_id r) \<noteq> ex \<longrightarrow> p \<notin> set (local_ports r))"
  by (auto simp: port_used_by_local_instance_def find_None_iff uses_port_def local_ports_def split: option.splits if_splits)

lemma probed_ident [simp]: "ident (probed env now m r) = ident r"
  by (simp add: probed_def)

lemma ident_eqD:
  "ident r = ident r' \<Longrightarrow> ei_id r = ei_id r' \<and> ei_name r = ei_name r' \<and> ei_node_id r = ei_node_id r' \<and> ei_mode r = ei_mode r'
     \<and> ei_listen_port r = ei_listen_port r' \<and> ei_admin_port r = ei_admin_port r' \<and> local_ports r = local_ports r'"
  by (simp add: ident_def local_ports_def)

lemma store_ok:
  assumes "fleet_ok rows" and "store_instance inst rows = Inr (rows', inst')" and "ei_id inst \<notin> ei_id ` set rows"
    and "ei_mode inst = envoy_local \<longrightarrow> ei_admin_port inst \<noteq> None"
    and "distinct (local_ports inst)" and "\<forall>p \<in> set (local_ports inst). \<forall>r \<in> set rows. p \<notin> set (local_ports r)"
  shows "fleet_ok rows' \<and> rows' = rows @ [inst]"
proof -
  from assms(2) have r: "rows' = rows @ [inst]" "\<not> list_ex (\<lambda>r. ei_name r = ei_name inst \<or> ei_node_id r = ei_node_id inst) rows"
    by (auto simp: store_instance_def split: if_splits)
  with assms show ?thesis by (auto simp: fleet_ok_def list_ex_iff)
qed

lemma create_remote_stores:
  assumes "create_remote env now i rows req = Inr (rows', inst)"
  shows "\<exists>inst0. store_instance inst0 rows = Inr (rows', inst) \<and> ei_id inst0 = i \<and> ei_mode inst0 = en_mode req"
proof -
  have new: "ei_id (new_instance i req d u p) = i" "ei_mode (new_instance i req d u p) = en_mode req"
    "ei_id (probed e now m r) = ei_id r" "ei_mode (probed e now m r) = ei_mode r" for d u p e m r
    by (simp_all add: new_instance_def probed_def)
  from assms show ?thesis
    by (auto simp: create_remote_def Let_def bind_result_eq_Inr split: if_splits option.splits)
      (rule exI, rule conjI, assumption, simp add: new)+
qed

lemma create_ok:
  assumes "fleet_ok rows" and "create_instance env now i rows req = Inr (rows', inst)" and "i \<notin> ei_id ` set rows"
  shows "fleet_ok rows' \<and> (\<exists>inst'. rows' = rows @ [inst'] \<and> ei_id inst' = i)"
proof (cases "en_mode req")
  case envoy_local
  from assms(2) envoy_local obtain a dirs where a: "en_admin_port req = Some a"
    and p: "ports_problem (ad_runtime env) rows (en_listen_port req) a None = None"
    and s: "store_instance (new_instance i req (''llmxy-'' @ en_name req) (Some (''http://127.0.0.1:'' @ str_int a)) (Some dirs)) rows = Inr (rows', inst)"
    by (auto simp: create_instance_def create_local_def Let_def split: if_splits option.splits)
  show ?thesis using store_ok [OF assms(1) s] assms(3) a p envoy_local
    by (auto simp: new_instance_def local_ports_def ports_problem_None used_None)
next
  case envoy_remote
  with assms(2) have "create_remote env now i rows req = Inr (rows', inst)" by (simp add: create_instance_def)
  from create_remote_stores [OF this] envoy_remote obtain inst0
    where m: "ei_id inst0 = i" "ei_mode inst0 = envoy_remote" and s: "store_instance inst0 rows = Inr (rows', inst)" by auto
  show ?thesis using store_ok [OF assms(1) s] assms(3) m by (auto simp: local_ports_def)
qed

lemma replace_ok:
  assumes "fleet_ok rows" and "row_get ei_id i rows = Some old" and "ei_id new = i" and "ei_node_id new = ei_node_id old"
    and "\<And>r. r \<in> set rows \<Longrightarrow> ei_id r \<noteq> i \<Longrightarrow> ei_name r \<noteq> ei_name new \<and> set (local_ports r) \<inter> set (local_ports new) = {}"
    and "distinct (local_ports new)" and "ei_mode new = envoy_local \<longrightarrow> ei_admin_port new \<noteq> None"
  shows "fleet_ok (row_upd ei_id i (\<lambda>_. new) rows) \<and> map ei_id (row_upd ei_id i (\<lambda>_. new) rows) = map ei_id rows"
proof -
  from assms(2) have old: "old \<in> set rows" "ei_id old = i" by (auto dest: row.get_Some)
  then obtain xs ys where rows: "rows = xs @ old # ys" by (meson split_list)
  have others: "i \<notin> ei_id ` set xs" "i \<notin> ei_id ` set ys"
    using assms(1) old(2) unfolding rows fleet_ok_def by auto
  have upd: "row_upd ei_id i (\<lambda>_. new) rows = xs @ new # ys"
    using row.upd_absent [OF others(1)] row.upd_absent [OF others(2)] old(2) by (simp add: rows row_upd_def)
  have apart: "ei_name r \<noteq> ei_name new \<and> set (local_ports r) \<inter> set (local_ports new) = {}" if "r \<in> set xs \<union> set ys" for r
    using assms(5) [of r] that others by (auto simp: rows)
  from apart have n: "ei_name new \<notin> ei_name ` set xs" "ei_name new \<notin> ei_name ` set ys" by (metis Un_iff imageE)+
  from apart have q: "set (local_ports new) \<inter> \<Union> (set ` local_ports ` (set xs \<union> set ys)) = {}" by blast
  have d: "distinct (map ei_id (xs @ old # ys))" "distinct (map ei_name (xs @ old # ys))" "distinct (map ei_node_id (xs @ old # ys))"
      "\<forall>r \<in> set (xs @ ys). ei_mode r = envoy_local \<longrightarrow> ei_admin_port r \<noteq> None"
      "distinct (concat (map local_ports xs))" "distinct (concat (map local_ports ys))"
      "set (concat (map local_ports xs)) \<inter> set (concat (map local_ports ys)) = {}"
    using assms(1) unfolding rows fleet_ok_def by auto
  have ids: "map ei_id (xs @ new # ys) = map ei_id (xs @ old # ys)" "map ei_node_id (xs @ new # ys) = map ei_node_id (xs @ old # ys)"
    using assms(3,4) old(2) by simp_all
  have "distinct (map ei_name (xs @ new # ys))" using d(2) n by auto
  moreover have "distinct (concat (map local_ports (xs @ new # ys)))" using d(5-7) q assms(6) by auto
  moreover have "\<forall>r \<in> set (xs @ new # ys). ei_mode r = envoy_local \<longrightarrow> ei_admin_port r \<noteq> None" using d(4) assms(7) by auto
  ultimately show ?thesis using d(1,3) unfolding upd fleet_ok_def ids by (intro conjI) (simp_all only: rows)
qed

lemma renamed_spec:
  assumes "renamed rows req inst = Inr inst'"
  shows "\<exists>n. inst' = inst\<lparr>ei_name := n\<rparr> \<and> (n = ei_name inst \<or> (\<forall>r \<in> set rows. ei_id r \<noteq> ei_id inst \<longrightarrow> ei_name r \<noteq> n))"
proof (cases "inst' = inst")
  case False
  with assms show ?thesis by (auto simp: renamed_def name_clash_def find_None_iff split: option.splits if_splits)
qed (auto intro!: exI [of _ "ei_name inst"])

lemma apply_listen_spec:
  assumes "apply_listen rows l inst = Inr m"
  shows "m = inst\<lparr>ei_listen_port := (case l of Some p \<Rightarrow> p | None \<Rightarrow> ei_listen_port inst)\<rparr>"
  using assms by (cases l) (auto simp: apply_listen_def split: option.splits if_splits)

lemma apply_admin_spec:
  assumes "apply_admin rows a inst = Inr m"
  shows "ei_admin_port m = (case a of Some p \<Rightarrow> Some p | None \<Rightarrow> ei_admin_port inst)"
    and "ei_listen_port m = ei_listen_port inst" "ei_id m = ei_id inst" "ei_name m = ei_name inst"
    and "ei_node_id m = ei_node_id inst" "ei_mode m = ei_mode inst"
  using assms by (cases a; auto simp: apply_admin_def split: option.splits if_splits)+

lemma apply_ports:
  assumes "bind_result (apply_listen rows l inst) (apply_admin rows a) = Inr inst'"
  shows "ei_listen_port inst' = (case l of Some p \<Rightarrow> p | None \<Rightarrow> ei_listen_port inst)"
    and "ei_admin_port inst' = (case a of Some p \<Rightarrow> Some p | None \<Rightarrow> ei_admin_port inst)"
    and "ei_id inst' = ei_id inst" "ei_name inst' = ei_name inst" "ei_node_id inst' = ei_node_id inst" "ei_mode inst' = ei_mode inst"
proof -
  from assms obtain m where m: "apply_listen rows l inst = Inr m" "apply_admin rows a m = Inr inst'" by (auto simp: bind_result_eq_Inr)
  from apply_listen_spec [OF m(1)] apply_admin_spec [OF m(2)]
  show "ei_listen_port inst' = (case l of Some p \<Rightarrow> p | None \<Rightarrow> ei_listen_port inst)"
    "ei_admin_port inst' = (case a of Some p \<Rightarrow> Some p | None \<Rightarrow> ei_admin_port inst)"
    "ei_id inst' = ei_id inst" "ei_name inst' = ei_name inst" "ei_node_id inst' = ei_node_id inst" "ei_mode inst' = ei_mode inst"
    by (simp_all split: option.split)
qed

lemma guards:
  assumes "(if p then Inl e1 else if q then Inl e2 else case (if c then x else None) of
     Some e \<Rightarrow> Inl e | None \<Rightarrow> if r then Inl e3 else y) = Inr z"
  shows "(c \<longrightarrow> x = None) \<and> y = Inr z"
  using assms by (cases p; cases q; cases r; cases c; cases x) auto

lemma update_local_spec:
  assumes "update_local env rows req inst = Inr inst'"
  shows "(ei_listen_port inst' = ei_listen_port inst \<and> ei_admin_port inst' = ei_admin_port inst
           \<or> (\<exists>a. ei_admin_port inst' = Some a \<and> ports_problem env rows (ei_listen_port inst') a (Some (ei_id inst)) = None))"
    and "ei_admin_port inst' \<noteq> None"
    and "ei_id inst' = ei_id inst" "ei_name inst' = ei_name inst" "ei_node_id inst' = ei_node_id inst" "ei_mode inst' = ei_mode inst"
proof -
  define l where "l = (case eu_listen_port req of Some p \<Rightarrow> p | None \<Rightarrow> ei_listen_port inst)"
  define n where "n = (case eu_admin_port req of Some p \<Rightarrow> Some p | None \<Rightarrow> ei_admin_port inst)"
  from assms obtain a where a: "n = Some a"
    and p: "(l \<noteq> ei_listen_port inst \<or> n \<noteq> ei_admin_port inst) \<longrightarrow> ports_problem env rows l a (Some (ei_id inst)) = None"
    and b: "bind_result (apply_listen rows (eu_listen_port req) inst) (apply_admin rows (eu_admin_port req)) = Inr inst'"
  proof -
    note u = assms [unfolded update_local_def Let_def, folded l_def n_def]
    from u obtain a where a: "n = Some a" by (cases n) auto
    from guards [OF u [unfolded a option.case]] show ?thesis using that [OF a] a by auto
  qed
  from apply_ports [OF b] a p show
    "(ei_listen_port inst' = ei_listen_port inst \<and> ei_admin_port inst' = ei_admin_port inst
           \<or> (\<exists>a. ei_admin_port inst' = Some a \<and> ports_problem env rows (ei_listen_port inst') a (Some (ei_id inst)) = None))"
    "ei_admin_port inst' \<noteq> None" "ei_id inst' = ei_id inst" "ei_name inst' = ei_name inst" "ei_node_id inst' = ei_node_id inst"
    "ei_mode inst' = ei_mode inst"
    unfolding l_def n_def by auto
qed

lemma update_remote_frame:
  assumes "update_remote env now req inst = Inr inst'"
  shows "ei_id inst' = ei_id inst" "ei_name inst' = ei_name inst" "ei_node_id inst' = ei_node_id inst" "ei_mode inst' = ei_mode inst"
  using assms by (auto simp: update_remote_def Let_def bind_result_eq_Inr probed_def split: option.splits if_splits)

lemma local_ports_ident: "ei_mode r = ei_mode r' \<Longrightarrow> ei_listen_port r = ei_listen_port r' \<Longrightarrow> ei_admin_port r = ei_admin_port r'
    \<Longrightarrow> local_ports r = local_ports r'"
  by (simp add: local_ports_def)

lemma fleet_row:
  assumes "fleet_ok rows" and "r \<in> set rows"
  shows "distinct (local_ports r)" and "ei_mode r = envoy_local \<longrightarrow> ei_admin_port r \<noteq> None"
    and "\<And>r'. r' \<in> set rows \<Longrightarrow> ei_id r' \<noteq> ei_id r \<Longrightarrow> ei_name r' \<noteq> ei_name r \<and> set (local_ports r') \<inter> set (local_ports r) = {}"
proof -
  from assms(2) obtain xs ys where rows: "rows = xs @ r # ys" by (meson split_list)
  show "distinct (local_ports r)" and "ei_mode r = envoy_local \<longrightarrow> ei_admin_port r \<noteq> None"
    using assms(1) unfolding rows fleet_ok_def by auto
  show "ei_name r' \<noteq> ei_name r \<and> set (local_ports r') \<inter> set (local_ports r) = {}" if "r' \<in> set rows" "ei_id r' \<noteq> ei_id r" for r'
  proof -
    have "r' \<in> set xs \<union> set ys" using that by (auto simp: rows)
    moreover have "distinct (map ei_name (xs @ r # ys))" "distinct (concat (map local_ports (xs @ r # ys)))"
      using assms(1) unfolding rows fleet_ok_def by auto
    ultimately show ?thesis by (auto simp: image_iff)
  qed
qed

lemma update_ok:
  assumes ok: "fleet_ok rows" and "update_instance env now rows i req = Inr (rows', inst)"
  shows "fleet_ok rows' \<and> map ei_id rows' = map ei_id rows"
proof -
  from assms(2) obtain old mid where old: "row_get ei_id i rows = Some old" and mid: "renamed rows req old = Inr mid"
    and new: "(if ei_mode mid = envoy_local then update_local (ad_runtime env) rows req mid else update_remote env now req mid) = Inr inst"
    and rows': "rows' = row_upd ei_id i (\<lambda>_. inst) rows"
    by (auto simp: update_instance_def bind_result_eq_Inr split: option.splits)
  from old have o: "old \<in> set rows" "ei_id old = i" by (auto dest: row.get_Some)
  from renamed_spec [OF mid] obtain n where m: "mid = old\<lparr>ei_name := n\<rparr>"
    and n: "n = ei_name old \<or> (\<forall>r \<in> set rows. ei_id r \<noteq> ei_id old \<longrightarrow> ei_name r \<noteq> n)" by blast
  note row = fleet_row [OF ok o(1)]
  have frame: "ei_id inst = i" "ei_name inst = n" "ei_node_id inst = ei_node_id old" "ei_mode inst = ei_mode old"
    using new update_local_spec(3-6) [of "ad_runtime env" rows req mid inst] update_remote_frame [of env now req mid inst] m o(2)
    by (auto split: if_splits)
  have ports: "(local_ports inst = local_ports old \<or> distinct (local_ports inst)
      \<and> (\<forall>r \<in> set rows. ei_id r \<noteq> i \<longrightarrow> set (local_ports r) \<inter> set (local_ports inst) = {}))
      \<and> (ei_mode inst = envoy_local \<longrightarrow> ei_admin_port inst \<noteq> None)"
  proof (cases "ei_mode old")
    case envoy_local
    with new m have u: "update_local (ad_runtime env) rows req mid = Inr inst" by simp
    from update_local_spec(1) [OF u] m o(2) envoy_local frame show ?thesis
      using update_local_spec(2) [OF u]
      by (auto simp: ports_problem_None used_None local_ports_def)
  next
    case envoy_remote
    with frame show ?thesis by (simp add: local_ports_def)
  qed
  have "fleet_ok (row_upd ei_id i (\<lambda>_. inst) rows) \<and> map ei_id (row_upd ei_id i (\<lambda>_. inst) rows) = map ei_id rows"
  proof (rule replace_ok [OF ok old])
    show "ei_name r \<noteq> ei_name inst \<and> set (local_ports r) \<inter> set (local_ports inst) = {}" if "r \<in> set rows" "ei_id r \<noteq> i" for r
      using row(3) [of r] that ports n frame(2) o(2) by auto
    show "distinct (local_ports inst)" using ports row(1) by auto
  qed (use frame ports in auto)
  then show ?thesis by (simp add: rows')
qed

lemma delete_ok: "fleet_ok rows \<Longrightarrow> fleet_ok (row_del ei_id i rows)"
proof -
  have d: "distinct (map f rows) \<Longrightarrow> distinct (map f (row_del ei_id i rows))" for f :: "envoy_instance \<Rightarrow> 'a"
    unfolding row_del_def by (rule distinct_map_filter)
  have c: "distinct (concat (map local_ports rs)) \<Longrightarrow> distinct (concat (map local_ports (row_del ei_id i rs)))" for rs
    by (induction rs) (auto simp: row_del_def)
  show "fleet_ok rows \<Longrightarrow> fleet_ok (row_del ei_id i rows)"
    unfolding fleet_ok_def using c d by (auto simp: row_del_def distinct_map_filter)
qed

section \<open>Requests and the process manager\<close>

definition on_runtime :: "(runtime \<Rightarrow> runtime) \<Rightarrow> admin_state \<Rightarrow> admin_state" where
  "on_runtime f s = s\<lparr>am_runtime := f (am_runtime s)\<rparr>"

text \<open>
  One request of an administrator or one action of a background task; the environment (busy ports, file system, answers
  of the nodes) differs from step to step. The number is the sequence of primary keys, which a failed insertion also advances.
\<close>

inductive fleet_step :: "int \<times> admin_state \<Rightarrow> int \<times> admin_state \<Rightarrow> bool" where
  created: "create_instance env now i (am_rows s) req = Inr (rows, inst) \<Longrightarrow> n \<le> i \<Longrightarrow> fleet_step (n, s) (i + 1, set_rows rows s)"
| updated: "update_instance env now (am_rows s) i upd = Inr (rows, inst) \<Longrightarrow> fleet_step (n, s) (n, set_rows rows s)"
| deleted: "delete_instance (am_rows s) i = Inr (rows, dirs) \<Longrightarrow> fleet_step (n, s) (n, set_rows rows s)"
| started: "fleet_step (n, s) (n, fst (start_endpoint env now s i))"
| stopped: "fleet_step (n, s) (n, fst (stop_endpoint env s i))"
| restarted: "fleet_step (n, s) (n, fst (restart_endpoint env now s i))"
| reloaded: "reload_endpoint s v i = Inr (s', answer) \<Longrightarrow> fleet_step (n, s) (n, s')"
| listed: "fleet_step (n, s) (n, fst (list_instances env now s))"
| monitored_pass: "fleet_step (n, s) (n, on_runtime (health_tick renv threshold now) s)"
| adopted: "fleet_step (n, s) (n, on_runtime (adopt_orphans renv) s)"

inductive_cases fleet_stepE: "fleet_step c c'"

definition fleet_inv :: "int \<times> admin_state \<Rightarrow> bool" where
  "fleet_inv c \<longleftrightarrow> fleet_ok (am_rows (snd c)) \<and> (\<forall>r \<in> set (am_rows (snd c)). ei_id r < fst c)"

lemma set_rows_rows [simp]: "am_rows (set_rows rows s) = rows"
  by (simp add: set_rows_def)

lemma fleet_inv_ids:
  assumes "fleet_inv (n, s)" and "fleet_ok (am_rows s')" and "map ei_id (am_rows s') = map ei_id (am_rows s)"
  shows "fleet_inv (n, s')"
proof -
  from assms(3) have "ei_id ` set (am_rows s') = ei_id ` set (am_rows s)" by (metis list.set_map)
  moreover from assms(1) have "\<forall>i \<in> ei_id ` set (am_rows s). i < n" by (simp add: fleet_inv_def)
  ultimately have "\<forall>i \<in> ei_id ` set (am_rows s'). i < n" by (simp only:)
  then show ?thesis using assms(2) by (simp add: fleet_inv_def)
qed

lemma fleet_inv_idents:
  assumes "fleet_inv (n, s)" and e: "idents (am_runtime s') = idents (am_runtime s)"
  shows "fleet_inv (n, s')"
proof (rule fleet_inv_ids [OF assms(1)])
  show "fleet_ok (am_rows s')" using assms(1) fleet_ok_ident [OF e] by (simp add: fleet_inv_def)
  have "map fst (idents (am_runtime s')) = map fst (idents (am_runtime s))" by (simp only: e)
  then show "map ei_id (am_rows s') = map ei_id (am_rows s)" by (simp add: ident_def o_def)
qed

lemma on_local_idents:
  assumes "fleet_inv (n, s)" and "\<And>inst. agrees (ident inst) (idents (am_runtime s)) \<Longrightarrow> idents (fst (f inst (am_runtime s))) = idents (am_runtime s)"
  shows "fleet_inv (n, fst (on_local f s i))"
proof (rule fleet_inv_idents [OF assms(1)])
  have "distinct (map ei_id (am_rows s))" using assms(1) by (simp add: fleet_inv_def fleet_ok_def)
  then show "idents (am_runtime (fst (on_local f s i))) = idents (am_runtime s)"
    using assms(2) agrees_row [of "am_rows s" i]
    by (force simp: on_local_def with_instance_def ensure_local_def split: option.splits sum.splits prod.splits)
qed

interpretation fleet: step_invariant fleet_step fleet_inv
proof
  fix c c' assume step: "fleet_step c c'" and inv: "fleet_inv c"
  obtain n s where c: "c = (n, s)" by force
  have ok: "fleet_ok (am_rows s)" and ids: "distinct (map ei_id (am_rows s))" and below: "\<forall>r \<in> set (am_rows s). ei_id r < n"
    using inv by (simp_all add: c fleet_inv_def fleet_ok_def)
  from step [unfolded c] inv [unfolded c] show "fleet_inv c'"
  proof cases
    case (created env now i req rows inst)
    then have "i \<notin> ei_id ` set (am_rows s)" using below by fastforce
    from create_ok [OF ok created(2) this] below created(3) show ?thesis by (fastforce simp: created(1) fleet_inv_def)
  next
    case (updated env now i upd rows inst)
    from update_ok [OF ok updated(2)] show ?thesis
      using fleet_inv_ids [OF inv [unfolded c], of "set_rows rows s"] by (simp add: updated(1))
  next
    case (deleted i rows dirs)
    then have "rows = row_del ei_id i (am_rows s)" by (auto simp: delete_instance_def split: option.splits if_splits)
    with delete_ok [OF ok] below show ?thesis by (auto simp: deleted(1) fleet_inv_def row_del_def)
  next
    case (started env now i)
    show ?thesis unfolding started(1) start_endpoint_def by (rule on_local_idents [OF inv [unfolded c]]) (rule start_idents)
  next
    case (stopped env i)
    show ?thesis unfolding stopped(1) stop_endpoint_def by (rule on_local_idents [OF inv [unfolded c]]) (rule stop_idents)
  next
    case (restarted env now i)
    show ?thesis unfolding restarted(1) restart_endpoint_def by (rule on_local_idents [OF inv [unfolded c]]) (rule restart_idents)
  next
    case (reloaded v i s' answer)
    then obtain inst where i: "row_get ei_id i (am_rows s) = Some inst"
      and s': "am_runtime s' = fst (reload_instance inst (am_runtime s) v)"
      by (auto simp: reload_endpoint_def with_instance_def split: option.splits prod.splits)
    from reload_idents [OF agrees_row [OF ids i]] fleet_inv_idents [OF inv [unfolded c]] show ?thesis by (simp add: reloaded(1) s')
  next
    case (listed env now)
    show ?thesis unfolding listed(1)
      by (rule fleet_inv_idents [OF inv [unfolded c]]) (simp add: list_instances_def resolve_versions_def Let_def)
  next
    case (monitored_pass renv threshold now)
    show ?thesis unfolding monitored_pass(1)
      by (rule fleet_inv_idents [OF inv [unfolded c]]) (simp add: on_runtime_def tick_idents [OF ids])
  next
    case (adopted renv)
    show ?thesis unfolding adopted(1)
      by (rule fleet_inv_idents [OF inv [unfolded c]]) (simp add: on_runtime_def adopt_all_idents [OF ids])
  qed
qed

text \<open>
  Claim C30. Through any sequence of creations, updates, deletions, starts, stops, restarts, reloads, listings, passes of the
  health monitor and adoptions at start-up, in any environment, keys, names and node ids of the instances stay unique, every local instance has
  an admin port, and no two ports of local instances are equal, within an instance or across instances.
\<close>
theorem fleet_stays_ok:
  assumes "fleet_step\<^sup>*\<^sup>* (n, s) (n', s')" and "fleet_ok (am_rows s)" and "\<forall>r \<in> set (am_rows s). ei_id r < n"
  shows "fleet_ok (am_rows s') \<and> (\<forall>r \<in> set (am_rows s'). ei_id r < n')"
  using fleet.reach_inv [OF assms(1)] assms(2,3) by (simp add: fleet_inv_def)

text \<open>
  The node id of an instance is derived from the name it is created with and never changes, so after a
  renaming the old name is free, yet no instance of the same mode can be created under it.
\<close>
theorem renamed_name_stays_taken:
  assumes "update_instance env now rows i req = Inr (rows', inst)" and "row_get ei_id i rows = Some old"
    and "ei_node_id old = (if ei_mode old = envoy_local then ''llmxy-'' else ''llmxy-remote-'') @ ei_name old"
    and "en_name req' = ei_name old" and "en_mode req' = ei_mode old"
  shows "\<exists>e. create_instance env' now' j rows' req' = Inl e"
proof (rule ccontr)
  assume "\<nexists>e. create_instance env' now' j rows' req' = Inl e"
  then obtain rows2 inst2 where c: "create_instance env' now' j rows' req' = Inr (rows2, inst2)"
    by (metis obj_sumE surj_pair)
  have "ei_node_id inst = ei_node_id old \<and> ei_id inst = i \<and> rows' = row_upd ei_id i (\<lambda>_. inst) rows"
  proof -
    from assms(1,2) obtain mid where "renamed rows req old = Inr mid"
      and "(if ei_mode mid = envoy_local then update_local (ad_runtime env) rows req mid else update_remote env now req mid) = Inr inst"
      and "rows' = row_upd ei_id i (\<lambda>_. inst) rows"
      by (auto simp: update_instance_def bind_result_eq_Inr)
    then show ?thesis using renamed_spec [of rows req old mid] update_local_spec(3,5) [of "ad_runtime env" rows req mid inst]
        update_remote_frame(1,3) [of env now req mid inst] row.get_Some [OF assms(2)] by (auto split: if_splits)
  qed
  moreover from assms(2) have "old \<in> set rows" "ei_id old = i" by (auto dest: row.get_Some)
  ultimately have there: "inst \<in> set rows'" "ei_node_id inst = ei_node_id old" by (auto simp: row_upd_def image_iff)
  have "\<exists>inst0. store_instance inst0 rows' = Inr (rows2, inst2) \<and> ei_node_id inst0 = ei_node_id old"
    using c assms(3-5) by (cases "ei_mode old")
      (fastforce simp: create_instance_def create_local_def create_remote_def Let_def bind_result_eq_Inr new_instance_def probed_def
        split: if_splits option.splits)+
  with there show False by (auto simp: store_instance_def list_ex_iff split: if_splits)
qed

section \<open>Examples\<close>

definition demo_admin :: admin_env where
  "demo_admin = \<lparr>ad_runtime = demo_host True, ad_config_root = ''/etc/e'', ad_log_root = ''/var/e'', ad_local_enabled = True,
     ad_system = ''Linux'', ad_machine = ''x86_64'', ad_resolve_bin = Some ''/bin/envoy'', ad_bin_version = (\<lambda>p. Some ''1.37.2''),
     ad_abspath = (\<lambda>p. p), ad_makedirs = (\<lambda>p. None), ad_write_probe = (\<lambda>p. None), ad_repr = (\<lambda>p. p), ad_urlparse = (\<lambda>u. None),
     ad_json = (\<lambda>u. Inl ''refused''), ad_server_info = (\<lambda>u. None)\<rparr>"

definition demo_admin_state :: admin_state where
  "demo_admin_state = \<lparr>am_runtime = \<lparr>rt_rows = [], rt_handles = Map.empty, rt_visible = [], rt_files = Map.empty, rt_failures = Map.empty\<rparr>,
     am_versions = Map.empty\<rparr>"

definition demo_instance_in :: envoy_instance_in where
  "demo_instance_in = \<lparr>en_name = ''a'', en_mode = envoy_local, en_listen_port = 9000, en_admin_port = Some 9001, en_host = None,
     en_admin_url = None\<rparr>"

definition demo_rename :: envoy_instance_update where
  "demo_rename = \<lparr>eu_name = Some ''b'', eu_listen_port = None, eu_admin_port = None, eu_host = None, eu_admin_url = None\<rparr>"

lemma case_pairE: "(case x of Inl e \<Rightarrow> False | Inr (a, b) \<Rightarrow> P a b) \<Longrightarrow> \<exists>a b. x = Inr (a, b) \<and> P a b"
  by (cases x) auto

lemma demo_precheck: "lp_ok (local_precheck demo_admin)"
proof -
  have l: "py_lower ''Linux'' = ''linux''" by code_simp
  show ?thesis unfolding local_precheck_def Let_def
    by (simp add: demo_admin_def l unwritable_def check_dir_writable_def split: prod.split)
qed

lemma demo_created: "\<exists>rows inst. create_instance demo_admin 7 1 [] demo_instance_in = Inr (rows, inst) \<and> map ei_name rows = [''a'']"
proof -
  have p: "ports_problem (ad_runtime demo_admin) [] 9000 9001 None = None"
    by (simp add: ports_problem_None used_None demo_admin_def demo_host_def)
  have m: "ad_makedirs demo_admin d = None" for d by (simp add: demo_admin_def)
  show ?thesis
    by (simp add: create_instance_def create_local_def Let_def demo_precheck p m name_clash_def store_instance_def new_instance_def
      demo_instance_in_def)
qed

theorem fleet_stays_ok_witness:
  "\<exists>s'. fleet_step\<^sup>*\<^sup>* (1, demo_admin_state) (2, s') \<and> map ei_name (am_rows s') = [''a''] \<and> fleet_ok (am_rows s')"
proof -
  obtain rows inst where c: "create_instance demo_admin 7 1 [] demo_instance_in = Inr (rows, inst)" and n: "map ei_name rows = [''a'']"
    using demo_created by metis
  have e: "am_rows demo_admin_state = []" by (simp add: demo_admin_state_def)
  have "fleet_step (1, demo_admin_state) (1 + 1, set_rows rows demo_admin_state)" using created [OF c [folded e], of 1] by simp
  then have "fleet_step\<^sup>*\<^sup>* (1, demo_admin_state) (2, set_rows rows demo_admin_state)" by simp
  from fleet_stays_ok [OF this] this n e show ?thesis by (auto simp: fleet_ok_def intro!: exI [of _ "set_rows rows demo_admin_state"])
qed

theorem renamed_name_stays_taken_witness:
  "\<exists>rows inst e. update_instance demo_admin 7 [demo_local] 1 demo_rename = Inr (rows, inst) \<and> map ei_name rows = [''b'']
     \<and> create_instance demo_admin 8 2 rows demo_instance_in = Inl e"
proof -
  have "(case update_instance demo_admin 7 [demo_local] 1 demo_rename of Inl e \<Rightarrow> False | Inr (rows, inst) \<Rightarrow> map ei_name rows = [''b''])"
    by code_simp
  then have "\<exists>rows inst. update_instance demo_admin 7 [demo_local] 1 demo_rename = Inr (rows, inst) \<and> map ei_name rows = [''b'']"
    by (rule case_pairE)
  then obtain rows inst where u: "update_instance demo_admin 7 [demo_local] 1 demo_rename = Inr (rows, inst)" "map ei_name rows = [''b'']"
    by metis
  have "row_get ei_id 1 [demo_local] = Some demo_local" by (simp add: demo_local_def row.get_Cons)
  from renamed_name_stays_taken [OF u(1) this, of demo_instance_in demo_admin 8 2] u show ?thesis
    by (simp add: demo_local_def demo_instance_in_def)
qed

end
