(* ===== verification/Reports.thy ===== *)
theory Reports
  imports Catalog
begin

text \<open>
  The reports: \<^verbatim>\<open>api/v1/usage.py\<close>, \<^verbatim>\<open>api/v1/models.py\<close>, \<^verbatim>\<open>api/v1/admin/usage.py\<close> and
  \<^verbatim>\<open>api/v1/admin/stats.py\<close>. A row of a log is stored with the key and the time that the database
  gives it; the order of strings is that of the database's collation, a parameter.
\<close>

section \<open>Rows and answers\<close>

record 'r stored =
  lr_id :: int
  lr_created_at :: datetime
  lr_row :: 'r

record 'r paginated =
  pg_items :: "'r list"
  pg_total :: int
  pg_page :: int
  pg_page_size :: int

record usage_log_out =
  uo_id :: int
  uo_user_id :: int
  uo_api_key_id :: "int option"
  uo_model_id :: "int option"
  uo_user_facing_model :: "string option"
  uo_upstream_model :: "string option"
  uo_prompt_tokens :: int
  uo_completion_tokens :: int
  uo_cost_cents :: int
  uo_latency_ms :: int
  uo_status :: string
  uo_created_at :: datetime
  uo_kind :: string
  uo_resolved_label :: "string option"

definition to_usage_log_out :: "usage_log stored \<Rightarrow> usage_log_out" where
  "to_usage_log_out r =
     (let l = lr_row r in
      \<lparr>uo_id = lr_id r, uo_user_id = ul_user_id l, uo_api_key_id = ul_api_key_id l, uo_model_id = ul_model_id l,
       uo_user_facing_model = ul_user_facing_model l, uo_upstream_model = ul_upstream_model l, uo_prompt_tokens = ul_prompt_tokens l,
       uo_completion_tokens = ul_completion_tokens l, uo_cost_cents = ul_cost_cents l, uo_latency_ms = ul_latency_ms l,
       uo_status = ul_status l, uo_created_at = lr_created_at r, uo_kind = ul_kind l, uo_resolved_label = ul_resolved_label l\<rparr>)"

fun tx_type_text :: "balance_tx_type \<Rightarrow> string" where
  "tx_type_text tx_topup = ''topup''"
| "tx_type_text tx_consume = ''consume''"
| "tx_type_text tx_refund = ''refund''"
| "tx_type_text tx_grant = ''grant''"

record balance_tx_out =
  bo_id :: int
  bo_user_id :: int
  bo_type :: string
  bo_amount_cents :: int
  bo_balance_after :: int
  bo_ref_id :: "string option"
  bo_remark :: "string option"
  bo_created_at :: datetime

definition to_balance_tx_out :: "balance_tx stored \<Rightarrow> balance_tx_out" where
  "to_balance_tx_out r =
     (let t = lr_row r in
      \<lparr>bo_id = lr_id r, bo_user_id = tx_user_id t, bo_type = tx_type_text (tx_type t), bo_amount_cents = tx_amount_cents t,
       bo_balance_after = tx_balance_after t, bo_ref_id = tx_ref_id t, bo_remark = tx_note t, bo_created_at = lr_created_at r\<rparr>)"

section \<open>Pages\<close>

definition check_page :: "int \<Rightarrow> int \<Rightarrow> int \<Rightarrow> unit result" where
  \<comment> \<open>the bounds declared for the query parameters\<close>
  "check_page limit page page_size =
     (if page < 1 \<or> page_size < 1 \<or> page_size > limit then Inl (http 422 ''page out of range'') else Inr ())"

definition newest_first :: "'r stored list \<Rightarrow> 'r stored list" where
  "newest_first rows = rev (sort_key lr_id rows)"

definition paginate :: "('r stored \<Rightarrow> 'o) \<Rightarrow> int \<Rightarrow> int \<Rightarrow> 'r stored list \<Rightarrow> 'o paginated" where
  "paginate out page page_size base =
     \<lparr>pg_items = map out (take (nat page_size) (drop (nat ((page - 1) * page_size)) (newest_first base))),
      pg_total = int (length base), pg_page = page, pg_page_size = page_size\<rparr>"

section \<open>Reports of a user\<close>

definition my_logs :: "usage_log stored list \<Rightarrow> int \<Rightarrow> int \<Rightarrow> int \<Rightarrow> usage_log_out paginated result" where
  "my_logs rows uid page page_size =
     bind_result (check_page 100 page page_size) (\<lambda>_.
       Inr (paginate to_usage_log_out page page_size (filter (\<lambda>r. ul_user_id (lr_row r) = uid) rows)))"

definition my_balance_tx :: "balance_tx stored list \<Rightarrow> int \<Rightarrow> int \<Rightarrow> int \<Rightarrow> balance_tx_out paginated result" where
  "my_balance_tx rows uid page page_size =
     bind_result (check_page 100 page page_size) (\<lambda>_.
       Inr (paginate to_balance_tx_out page page_size (filter (\<lambda>r. tx_user_id (lr_row r) = uid) rows)))"

record subscription_out =
  so_sub :: subscription
  so_plan_code :: string
  so_plan_name :: string
  so_plan_type :: string
  so_depleted :: bool

definition depleted :: "subscription \<Rightarrow> bool" where
  "depleted s \<longleftrightarrow> sb_status s = sub_active \<and> sb_remaining_cents s \<le> 0"

definition my_subscriptions :: "session \<Rightarrow> int \<Rightarrow> subscription_out list" where
  \<comment> \<open>an inner join: a subscription without its plan is not listed\<close>
  "my_subscriptions db uid =
     concat (map (\<lambda>s. case get_plan db (sb_plan_id s) of
         None \<Rightarrow> []
       | Some p \<Rightarrow> [\<lparr>so_sub = s, so_plan_code = pl_code p, so_plan_name = pl_name p, so_plan_type = pl_plan_type p,
                    so_depleted = depleted s\<rparr>])
       (rev (sort_key sb_id (filter (\<lambda>s. sb_user_id s = uid) (subscriptions db)))))"

record catalog_entry =
  ce_id :: string
  ce_modality :: string
  ce_exposed_protocols :: "string list"
  ce_strategy :: route_strategy
  ce_target_count :: nat
  ce_has_fallback :: bool

definition public_models :: "(string \<Rightarrow> int) \<Rightarrow> session \<Rightarrow> catalog_entry list" where
  "public_models collation db =
     map (\<lambda>r. \<lparr>ce_id = rp_user_facing_model r, ce_modality = or_text (Some (rp_modality r)) ''chat'',
            ce_exposed_protocols = route_protocols r, ce_strategy = rp_strategy r, ce_target_count = length (rp_targets_jsonb r),
            ce_has_fallback = (rp_fallback_model_id r \<noteq> None)\<rparr>)
       (sort_key (\<lambda>r. collation (rp_user_facing_model r)) (filter (\<lambda>r. rp_enabled r \<and> rp_scope r = scope_public) (route_policies db)))"

section \<open>Reports of an administrator\<close>

record log_filter =
  lf_user_id :: "int option"
  lf_api_key_id :: "int option"
  lf_model_id :: "int option"
  lf_status :: "string option"
  lf_user_facing_model :: "string option"
  lf_upstream_model :: "string option"
  lf_kind :: "string option"
  lf_resolved_label :: "string option"
  lf_start :: "datetime option"
  lf_end :: "datetime option"

definition if_given :: "'a option \<Rightarrow> ('a \<Rightarrow> bool) \<Rightarrow> bool" where
  \<comment> \<open>a filter applied when its parameter \<open>is not None\<close>\<close>
  "if_given p f = (case p of None \<Rightarrow> True | Some x \<Rightarrow> f x)"

definition if_text :: "string option \<Rightarrow> (string \<Rightarrow> bool) \<Rightarrow> bool" where
  \<comment> \<open>a filter applied when its parameter is a non-empty text\<close>
  "if_text p f = (case or_text p [] of [] \<Rightarrow> True | s \<Rightarrow> f s)"

definition log_matches :: "log_filter \<Rightarrow> usage_log stored \<Rightarrow> bool" where
  "log_matches f r \<longleftrightarrow>
     (let l = lr_row r in
      if_given (lf_user_id f) (\<lambda>x. ul_user_id l = x) \<and> if_given (lf_api_key_id f) (\<lambda>x. ul_api_key_id l = Some x)
      \<and> if_given (lf_model_id f) (\<lambda>x. ul_model_id l = Some x) \<and> if_text (lf_status f) (\<lambda>x. ul_status l = x)
      \<and> if_text (lf_user_facing_model f) (\<lambda>x. ul_user_facing_model l = Some x)
      \<and> if_text (lf_upstream_model f) (\<lambda>x. ul_upstream_model l = Some x) \<and> if_text (lf_kind f) (\<lambda>x. ul_kind l = x)
      \<and> if_text (lf_resolved_label f) (\<lambda>x. ul_resolved_label l = Some x)
      \<and> if_given (lf_start f) (\<lambda>t. t \<le> lr_created_at r) \<and> if_given (lf_end f) (\<lambda>t. lr_created_at r < t))"

definition admin_logs :: "usage_log stored list \<Rightarrow> log_filter \<Rightarrow> int \<Rightarrow> int \<Rightarrow> usage_log_out paginated result" where
  "admin_logs rows f page page_size =
     bind_result (check_page 200 page page_size) (\<lambda>_. Inr (paginate to_usage_log_out page page_size (filter (log_matches f) rows)))"

record tx_filter =
  tf_user_id :: "int option"
  tf_type :: "string option"
  tf_ref_id :: "string option"
  tf_start :: "datetime option"
  tf_end :: "datetime option"

definition tx_matches :: "tx_filter \<Rightarrow> balance_tx stored \<Rightarrow> bool" where
  "tx_matches f r \<longleftrightarrow>
     (let t = lr_row r in
      if_given (tf_user_id f) (\<lambda>x. tx_user_id t = x) \<and> if_text (tf_type f) (\<lambda>x. tx_type_text (tx_type t) = x)
      \<and> if_text (tf_ref_id f) (\<lambda>x. tx_ref_id t = Some x)
      \<and> if_given (tf_start f) (\<lambda>x. x \<le> lr_created_at r) \<and> if_given (tf_end f) (\<lambda>x. lr_created_at r < x))"

definition admin_balance_tx :: "balance_tx stored list \<Rightarrow> tx_filter \<Rightarrow> int \<Rightarrow> int \<Rightarrow> balance_tx_out paginated result" where
  \<comment> \<open>the database rejects a text that is no value of the type of the column\<close>
  "admin_balance_tx rows f page page_size =
     bind_result (check_page 200 page page_size) (\<lambda>_.
       if if_text (tf_type f) (\<lambda>x. x \<in> set (map tx_type_text [tx_topup, tx_consume, tx_refund, tx_grant]))
       then Inr (paginate to_balance_tx_out page page_size (filter (tx_matches f) rows)) else Inl internal_error)"

record stats_out =
  sx_users_total :: int
  sx_api_keys_total :: int
  sx_requests_today :: int
  sx_cost_today_cents :: int
  sx_cost_total_cents :: int

definition stats :: "datetime \<Rightarrow> session \<Rightarrow> usage_log stored list \<Rightarrow> stats_out" where
  "stats now db rows =
     (let today = filter (\<lambda>r. now - secs (24 * 3600) \<le> lr_created_at r) rows; cost = (\<lambda>r. ul_cost_cents (lr_row r)) in
      \<lparr>sx_users_total = int (length (users db)), sx_api_keys_total = int (length (api_keys db)),
       sx_requests_today = int (length today), sx_cost_today_cents = sum_list (map cost today),
       sx_cost_total_cents = sum_list (map cost rows)\<rparr>)"

section \<open>Reports on users\<close>

text \<open>\<^verbatim>\<open>api/v1/admin/users.py\<close>: the list, searched by a part of the address (\<open>ILIKE\<close>, a parameter), and the detail of one user.\<close>

definition list_users :: "(string \<Rightarrow> string \<Rightarrow> bool) \<Rightarrow> user list \<Rightarrow> string option \<Rightarrow> int \<Rightarrow> int \<Rightarrow> user paginated result" where
  "list_users ilike rows q page page_size =
     bind_result (check_page 200 page page_size) (\<lambda>_.
       let base = filter (\<lambda>u. if_text q (\<lambda>s. ilike (us_email u) (''%'' @ s @ ''%''))) rows in
       Inr \<lparr>pg_items = take (nat page_size) (drop (nat ((page - 1) * page_size)) (rev (sort_key us_id base))),
            pg_total = int (length base), pg_page = page, pg_page_size = page_size\<rparr>)"

record user_detail_out =
  ud_user :: user
  ud_subscriptions :: "subscription_out list"
  ud_spent_total_cents :: int
  ud_spent_30d_cents :: int
  ud_requests_total :: int
  ud_requests_30d :: int

definition user_detail :: "datetime \<Rightarrow> session \<Rightarrow> usage_log stored list \<Rightarrow> int \<Rightarrow> user_detail_out result" where
  "user_detail now db rows uid =
     (case get_user db uid of
        None \<Rightarrow> Inl (http 404 ''Not Found'')
      | Some u \<Rightarrow>
          (let mine = filter (\<lambda>r. ul_user_id (lr_row r) = uid) rows;
               recent = filter (\<lambda>r. now - secs (30 * 24 * 3600) \<le> lr_created_at r) mine; cost = (\<lambda>r. ul_cost_cents (lr_row r))
           in Inr \<lparr>ud_user = u, ud_subscriptions = my_subscriptions db uid, ud_spent_total_cents = sum_list (map cost mine),
                  ud_spent_30d_cents = sum_list (map cost recent), ud_requests_total = int (length mine),
                  ud_requests_30d = int (length recent)\<rparr>))"

section \<open>Laws\<close>

lemma take_drop_chunks:
  assumes "0 < k"
  shows "concat (map (\<lambda>i. take k (drop (i * k) xs)) [0..<n]) = take (n * k) xs"
proof (induction n)
  case (Suc n)
  have "take (Suc n * k) xs = take (n * k) xs @ take k (drop (n * k) xs)"
    using take_add [of "n * k" k xs] by (simp add: add.commute)
  with Suc show ?case by simp
qed simp

lemma length_newest_first [simp]: "length (newest_first rows) = length rows"
  by (simp add: newest_first_def)

lemma mset_newest_first: "mset (newest_first rows) = mset rows"
  by (simp add: newest_first_def)

lemma newest_first_sorted: "sorted_wrt (\<lambda>a b. lr_id b \<le> lr_id a) (newest_first rows)"
proof -
  have "sorted_wrt (\<le>) (map lr_id (sort_key lr_id rows))" by simp
  then show ?thesis by (simp add: newest_first_def sorted_wrt_rev sorted_wrt_map)
qed

lemma page_items:
  assumes "1 \<le> ps"
  shows "pg_items (paginate out (int i + 1) ps base) = take (nat ps) (drop (i * nat ps) (map out (newest_first base)))"
  using assms by (simp add: paginate_def take_map drop_map nat_mult_distrib)

text \<open>
  The pages of a report are a partition of the rows it selects: the first \<open>n\<close> pages together are the first
  \<open>n * page_size\<close> of the selected rows, newest first, each once; with enough pages that is every row, and
  the total of every page is their number.
\<close>
theorem pages_partition:
  fixes rows :: "usage_log stored list" and f :: log_filter
  assumes "1 \<le> ps" and "ps \<le> 200"
  defines "page \<equiv> \<lambda>i. admin_logs rows f (int i + 1) ps"
  shows "\<exists>chosen. mset chosen = mset (filter (log_matches f) rows) \<and> sorted_wrt (\<lambda>a b. lr_id b \<le> lr_id a) chosen
     \<and> (\<forall>i. \<exists>p. page i = Inr p \<and> pg_total p = int (length chosen))
     \<and> (\<forall>n. concat (map (\<lambda>i. pg_items (projr (page i))) [0..<n]) = take (n * nat ps) (map to_usage_log_out chosen))"
proof -
  let ?c = "newest_first (filter (log_matches f) rows)"
  have page: "page i = Inr (paginate to_usage_log_out (int i + 1) ps (filter (log_matches f) rows))" for i
    using assms(1,2) by (simp add: page_def admin_logs_def check_page_def)
  have "concat (map (\<lambda>i. pg_items (projr (page i))) [0..<n]) = take (n * nat ps) (map to_usage_log_out ?c)" for n
    unfolding page sum.sel page_items [OF assms(1)] by (rule take_drop_chunks) (use assms(1) in simp)
  moreover have "\<exists>p. page i = Inr p \<and> pg_total p = int (length ?c)" for i by (simp add: page paginate_def)
  ultimately show ?thesis using mset_newest_first newest_first_sorted by blast
qed

text \<open>What a user sees of the log is what an administrator sees who filters by that user.\<close>

theorem my_logs_admin_logs:
  assumes "ps \<le> 100"
  shows "my_logs rows uid page ps = admin_logs rows
     \<lparr>lf_user_id = Some uid, lf_api_key_id = None, lf_model_id = None, lf_status = None, lf_user_facing_model = None,
      lf_upstream_model = None, lf_kind = None, lf_resolved_label = None, lf_start = None, lf_end = None\<rparr> page ps"
  using assms by (auto simp: my_logs_def admin_logs_def check_page_def log_matches_def [abs_def] if_given_def if_text_def or_text_def)

lemma stats_today_bound:
  assumes "\<forall>r \<in> set rows. 0 \<le> ul_cost_cents (lr_row r)"
  shows "sx_cost_today_cents (stats now db rows) \<le> sx_cost_total_cents (stats now db rows)"
  using assms by (induction rows) (auto simp: stats_def Let_def)

definition demo_log :: "int \<Rightarrow> usage_log stored" where
  "demo_log i = \<lparr>lr_id = i, lr_created_at = i, lr_row = default_usage_log 1\<rparr>"

definition demo_filter :: log_filter where
  "demo_filter = \<lparr>lf_user_id = Some 1, lf_api_key_id = None, lf_model_id = None, lf_status = Some ''ok'', lf_user_facing_model = None,
     lf_upstream_model = None, lf_kind = None, lf_resolved_label = None, lf_start = None, lf_end = Some 3\<rparr>"

theorem pages_partition_witness:
  "concat (map (\<lambda>i. pg_items (projr (admin_logs [demo_log 1, demo_log 2, demo_log 3] demo_filter (int i + 1) 1))) [0..<2])
     = [to_usage_log_out (demo_log 2), to_usage_log_out (demo_log 1)]"
proof -
  let ?rows = "[demo_log 1, demo_log 2, demo_log 3]"
  have m: "filter (log_matches demo_filter) ?rows = [demo_log 1, demo_log 2]"
    by (simp add: log_matches_def demo_filter_def demo_log_def if_given_def if_text_def or_text_def default_usage_log_def)
  from pages_partition [where ps = 1 and rows = ?rows and f = demo_filter] obtain chosen where c: "mset chosen = mset [demo_log 1, demo_log 2]"
    and s: "sorted_wrt (\<lambda>a b. lr_id b \<le> lr_id a) chosen"
    and p: "\<forall>n. concat (map (\<lambda>i. pg_items (projr (admin_logs ?rows demo_filter (int i + 1) 1))) [0..<n]) = take (n * 1) (map to_usage_log_out chosen)"
    unfolding m by auto
  have "length chosen = 2" using c by (metis length_Cons list.size(3) mset_eq_length numeral_2_eq_2)
  then obtain a b where ab: "chosen = [a, b]" by (auto simp: numeral_2_eq_2 length_Suc_conv)
  have "chosen = [demo_log 2, demo_log 1]" using c s unfolding ab by (auto simp: demo_log_def add_eq_conv_ex)
  with spec [OF p, of 2] show ?thesis by simp
qed

end
