(* ===== verification/Seed.thy ===== *)
theory Seed
  imports Subscriptions
begin

text \<open>
  Seed data at start-up: \<^verbatim>\<open>scripts/seed.py\<close>. Password hashing and the keys that the sequences give are
  parameters. A query by a column without unique constraint raises when it finds two rows; then nothing is
  committed, the start-up logs a warning and goes on. The laws say what any start adds to any database, and
  what a start right after another does.
\<close>

record seed_env =
  sd_admin_email :: string
  sd_admin_password_hash :: string
  sd_user_id :: int
  sd_plan_id :: int
  sd_channel_id :: int
  sd_model_id :: int
  sd_route_id :: int

definition one_or_none :: "('a \<Rightarrow> bool) \<Rightarrow> 'a list \<Rightarrow> 'a option option" where
  \<comment> \<open>\<open>scalar_one_or_none\<close>; \<open>None\<close> when it raises\<close>
  "one_or_none f xs = (case filter f xs of [] \<Rightarrow> Some None | [x] \<Rightarrow> Some (Some x) | _ \<Rightarrow> None)"

section \<open>Rows\<close>

definition seed_admin :: "seed_env \<Rightarrow> session \<Rightarrow> session option" where
  "seed_admin env db =
     map_option (\<lambda>found. if found \<noteq> None then db
         else db\<lparr>users := users db @ [(default_user (sd_user_id env) 1000000)\<lparr>us_email := sd_admin_email env,
                us_password_hash := sd_admin_password_hash env, us_role := role_admin\<rparr>]\<rparr>)
       (one_or_none (\<lambda>u. us_email u = sd_admin_email env) (users db))"

definition free_plan :: "int \<Rightarrow> plan" where
  "free_plan i = (default_plan i)\<lparr>pl_code := ''free'', pl_name := ''Free trial'', pl_plan_type := one_time, pl_quota_cents := 100,
     pl_max_purchases_per_user := Some 1\<rparr>"

definition repaired_plan :: "plan \<Rightarrow> plan" where
  "repaired_plan p = p\<lparr>pl_plan_type := one_time,
     pl_max_purchases_per_user := (case pl_max_purchases_per_user p of None \<Rightarrow> Some 1 | Some n \<Rightarrow> Some n)\<rparr>"

definition seed_plan :: "seed_env \<Rightarrow> session \<Rightarrow> session option" where
  "seed_plan env db =
     map_option (\<lambda>found. case found of
           None \<Rightarrow> db\<lparr>plans := plans db @ [free_plan (sd_plan_id env)]\<rparr>
         | Some p \<Rightarrow> db\<lparr>plans := row_upd pl_id (pl_id p) repaired_plan (plans db)\<rparr>)
       (one_or_none (\<lambda>p. pl_code p = ''free'') (plans db))"

definition openai_channel :: "int \<Rightarrow> channel" where
  "openai_channel i = \<lparr>ch_id = i, ch_name = ''default-openai'', ch_provider_type = ''openai.chat'', ch_connector_type = ''openai'',
     ch_base_url = ''https://api.openai.com/v1'', ch_api_key_enc = None, ch_enabled = True\<rparr>"

definition seed_channel :: "seed_env \<Rightarrow> session \<Rightarrow> (session \<times> channel) option" where
  "seed_channel env db =
     map_option (\<lambda>found. case found of
           None \<Rightarrow> (db\<lparr>channels := channels db @ [openai_channel (sd_channel_id env)]\<rparr>, openai_channel (sd_channel_id env))
         | Some c \<Rightarrow> (db, c))
       (one_or_none (\<lambda>c. ch_name c = ''default-openai'') (channels db))"

definition mini_model :: "int \<Rightarrow> int \<Rightarrow> model" where
  "mini_model i cid = (default_model i cid)\<lparr>md_code := ''gpt-4o-mini'', md_display_name := ''GPT-4o mini'',
     md_upstream_model := ''gpt-4o-mini'', md_prompt_rate := 1500, md_completion_rate := 6000\<rparr>"

definition seed_model :: "seed_env \<Rightarrow> session \<Rightarrow> channel \<Rightarrow> (session \<times> model) option" where
  "seed_model env db ch =
     map_option (\<lambda>found. case found of
           None \<Rightarrow> (db\<lparr>models := models db @ [mini_model (sd_model_id env) (ch_id ch)]\<rparr>, mini_model (sd_model_id env) (ch_id ch))
         | Some m \<Rightarrow> (db, m))
       (one_or_none (\<lambda>m. md_code m = ''gpt-4o-mini'') (models db))"

definition seed_route :: "seed_env \<Rightarrow> session \<Rightarrow> model \<Rightarrow> session option" where
  "seed_route env db m =
     map_option (\<lambda>found. if found \<noteq> None then db
         else db\<lparr>route_policies := route_policies db @ [(default_route (sd_route_id env) ''gpt-4o-mini'')
                \<lparr>rp_targets_jsonb := [[(''model_id'', JInt (md_id m)), (''weight'', JInt 1)]]\<rparr>]\<rparr>)
       (one_or_none (\<lambda>r. rp_user_facing_model r = ''gpt-4o-mini'') (route_policies db))"

definition seed_rows :: "seed_env \<Rightarrow> session \<Rightarrow> session option" where
  "seed_rows env db =
     Option.bind (seed_admin env db) (\<lambda>db1.
     Option.bind (seed_plan env db1) (\<lambda>db2.
     Option.bind (seed_channel env db2) (\<lambda>(db3, ch).
     Option.bind (seed_model env db3 ch) (\<lambda>(db4, m). seed_route env db4 m))))"

section \<open>Grants of the free plan\<close>

definition grant_due :: "session \<Rightarrow> plan \<Rightarrow> user \<Rightarrow> bool" where
  "grant_due db free u \<longleftrightarrow> (case pl_max_purchases_per_user free of None \<Rightarrow> True | Some l \<Rightarrow> purchases db u free < l)"

definition backfill_user :: "datetime \<Rightarrow> plan \<Rightarrow> user \<Rightarrow> session \<Rightarrow> session" where
  "backfill_user now free u db = (if grant_due db free u then fst (grant_subscription now db u free (Some ''seed-backfill'')) else db)"

definition seed_backfill :: "datetime \<Rightarrow> session \<Rightarrow> session option" where
  "seed_backfill now db =
     map_option (\<lambda>found. case found of
           None \<Rightarrow> db
         | Some free \<Rightarrow> if pl_quota_cents free > 0 then fold (backfill_user now free) (users db) db else db)
       (one_or_none (\<lambda>p. pl_code p = ''free'' \<and> pl_active p) (plans db))"

definition seed :: "datetime \<Rightarrow> seed_env \<Rightarrow> session \<Rightarrow> session \<times> bool" where
  \<comment> \<open>what is committed, and whether the function returned\<close>
  "seed now env db =
     (case seed_rows env db of
        None \<Rightarrow> (db, False)
      | Some db1 \<Rightarrow> (case seed_backfill now db1 of None \<Rightarrow> (db1, False) | Some db2 \<Rightarrow> (db2, True)))"

section \<open>Seeding again\<close>

lemma one_or_none_Some: "one_or_none f xs = Some (Some x) \<longleftrightarrow> filter f xs = [x]"
  by (auto simp: one_or_none_def split: list.splits)

lemma one_or_none_None: "one_or_none f xs = Some None \<longleftrightarrow> filter f xs = []"
  by (auto simp: one_or_none_def split: list.splits)

lemma one_or_none_cases:
  assumes "map_option g (one_or_none f xs) = Some y"
  obtains "filter f xs = []" "y = g None" | x where "filter f xs = [x]" "y = g (Some x)"
  using assms by (cases "one_or_none f xs") (auto simp: one_or_none_def split: list.splits)

lemma granted_frame [simp]:
  "users (fst (grant_subscription now db u p ref)) = users db" "plans (fst (grant_subscription now db u p ref)) = plans db"
  "channels (fst (grant_subscription now db u p ref)) = channels db" "models (fst (grant_subscription now db u p ref)) = models db"
  "route_policies (fst (grant_subscription now db u p ref)) = route_policies db"
  "subscriptions (fst (grant_subscription now db u p ref)) = subscriptions db @ [new_subscription now db u p]"
  by (simp_all add: grant_subscription_def Let_def)

lemma backfill_frame [simp]:
  "users (backfill_user now free u db) = users db" "plans (backfill_user now free u db) = plans db"
  "channels (backfill_user now free u db) = channels db" "models (backfill_user now free u db) = models db"
  "route_policies (backfill_user now free u db) = route_policies db"
  by (simp_all add: backfill_user_def)

lemma fold_backfill_frame [simp]:
  "users (fold (backfill_user now free) us db) = users db" "plans (fold (backfill_user now free) us db) = plans db"
  "channels (fold (backfill_user now free) us db) = channels db" "models (fold (backfill_user now free) us db) = models db"
  "route_policies (fold (backfill_user now free) us db) = route_policies db"
  by (induction us arbitrary: db) simp_all

lemma purchases_backfill:
  "purchases (backfill_user now free v db) u free = purchases db u free + (if us_id v = us_id u \<and> grant_due db free v then 1 else 0)"
  by (simp add: backfill_user_def purchases_def new_subscription_def)

lemma grant_due_user: "us_id u = us_id v \<Longrightarrow> grant_due db free u = grant_due db free v"
  by (simp add: grant_due_def purchases_def split: option.split)

lemma fold_backfill_other:
  "us_id u \<notin> us_id ` set us \<Longrightarrow> purchases (fold (backfill_user now free) us db) u free = purchases db u free"
  by (induction us arbitrary: db) (simp_all add: purchases_backfill)

lemma fold_backfill_counts:
  assumes "distinct (map us_id us)" and "u \<in> set us"
  shows "purchases (fold (backfill_user now free) us db) u free = purchases db u free + (if grant_due db free u then 1 else 0)"
  using assms
proof (induction us arbitrary: db)
  case (Cons v us)
  show ?case
  proof (cases "v = u")
    case True
    with Cons.prems have "us_id u \<notin> us_id ` set us" by auto
    with True show ?thesis by (simp add: fold_backfill_other purchases_backfill)
  next
    case False
    with Cons.prems have "u \<in> set us" "us_id v \<noteq> us_id u" by auto
    then have q: "purchases (backfill_user now free v db) u free = purchases db u free" by (simp add: purchases_backfill)
    then have "grant_due (backfill_user now free v db) free u = grant_due db free u" by (simp add: grant_due_def split: option.split)
    with q Cons.IH [of "backfill_user now free v db"] Cons.prems \<open>u \<in> set us\<close> show ?thesis by simp
  qed
qed simp

lemma fold_backfill_id:
  assumes "\<forall>u \<in> set us. \<not> grant_due db free u"
  shows "fold (backfill_user now free) us db = db"
  using assms by (induction us) (simp_all add: backfill_user_def)

lemma repaired_twice [simp]: "repaired_plan (repaired_plan p) = repaired_plan p" "repaired_plan (free_plan i) = free_plan i"
  by (simp_all add: repaired_plan_def free_plan_def default_plan_def split: option.split)

lemma repaired_simps [simp]: "pl_id (repaired_plan p) = pl_id p" "pl_code (repaired_plan p) = pl_code p"
  "\<exists>y. pl_max_purchases_per_user (repaired_plan p) = Some y" "pl_code (free_plan i) = ''free''"
  by (simp_all add: repaired_plan_def free_plan_def split: option.split)

lemma one_Some: "filter f xs = [x] \<Longrightarrow> one_or_none f xs = Some (Some x)"
  by (simp add: one_or_none_def)

lemma admin_again:
  assumes "seed_admin env db = Some db1"
  shows "plans db1 = plans db" "channels db1 = channels db" "models db1 = models db" "route_policies db1 = route_policies db"
    and "users db2 = users db1 \<Longrightarrow> sd_admin_email env2 = sd_admin_email env \<Longrightarrow> seed_admin env2 db2 = Some db2"
proof -
  from assms [unfolded seed_admin_def] have r: "plans db1 = plans db \<and> channels db1 = channels db \<and> models db1 = models db
    \<and> route_policies db1 = route_policies db \<and> (\<exists>x. filter (\<lambda>u. us_email u = sd_admin_email env) (users db1) = [x])"
    by (cases rule: one_or_none_cases) simp_all
  then show "plans db1 = plans db" "channels db1 = channels db" "models db1 = models db" "route_policies db1 = route_policies db" by simp_all
  from r obtain x where "filter (\<lambda>u. us_email u = sd_admin_email env) (users db1) = [x]" by blast
  then show "users db2 = users db1 \<Longrightarrow> sd_admin_email env2 = sd_admin_email env \<Longrightarrow> seed_admin env2 db2 = Some db2"
    by (simp add: seed_admin_def one_Some)
qed

lemma plan_again:
  assumes "seed_plan env db = Some db1" and "distinct (map pl_id (plans db))" and "sd_plan_id env \<notin> pl_id ` set (plans db)"
  shows "users db1 = users db" "channels db1 = channels db" "models db1 = models db" "route_policies db1 = route_policies db"
    and "plans db2 = plans db1 \<Longrightarrow> seed_plan env2 db2 = Some db2"
    and "\<exists>p. filter (\<lambda>p. pl_code p = ''free'') (plans db1) = [p] \<and> pl_max_purchases_per_user p \<noteq> None"
proof -
  let ?f = "\<lambda>p. pl_code p = ''free''"
  have again: "seed_plan env2 db2 = Some db2"
    if "filter ?f (plans db2) = [p]" "row_upd pl_id (pl_id p) repaired_plan (plans db2) = plans db2" for db2 env2 p
    using that by (simp add: seed_plan_def one_or_none_def)
  from assms(1) [unfolded seed_plan_def] have r: "(users db1 = users db \<and> channels db1 = channels db \<and> models db1 = models db
      \<and> route_policies db1 = route_policies db) \<and> (\<exists>p. filter ?f (plans db1) = [p] \<and> pl_max_purchases_per_user p \<noteq> None
      \<and> row_upd pl_id (pl_id p) repaired_plan (plans db1) = plans db1)"
  proof (cases rule: one_or_none_cases)
    case 1
    have "row_upd pl_id (sd_plan_id env) repaired_plan (plans db) = plans db" by (rule row.upd_absent [OF assms(3)])
    with 1 show ?thesis
      by (auto simp: row_upd_def free_plan_def default_plan_def repaired_plan_def)
  next
    case (2 p)
    have f: "filter ?f (row_upd pl_id i repaired_plan ps) = row_upd pl_id i repaired_plan (filter ?f ps)" for i ps
      by (induction ps) (auto simp: row_upd_def)
    define ps where "ps = row_upd pl_id (pl_id p) repaired_plan (plans db)"
    have "filter ?f ps = [repaired_plan p]" using 2(1) by (simp add: ps_def f) (simp add: row_upd_def)
    moreover have "row_upd pl_id (pl_id p) repaired_plan ps = ps" unfolding ps_def by (simp add: row.upd_upd)
    moreover have "db1 = db\<lparr>plans := ps\<rparr>" using 2(2) by (simp add: ps_def)
    ultimately show ?thesis by simp
  qed
  then show "users db1 = users db" "channels db1 = channels db" "models db1 = models db" "route_policies db1 = route_policies db"
    by simp_all
  from r obtain p where p: "filter ?f (plans db1) = [p]" "pl_max_purchases_per_user p \<noteq> None"
    and u: "row_upd pl_id (pl_id p) repaired_plan (plans db1) = plans db1" by blast
  show "plans db2 = plans db1 \<Longrightarrow> seed_plan env2 db2 = Some db2" using again [of db2 p env2] p(1) u by simp
  show "\<exists>p. filter ?f (plans db1) = [p] \<and> pl_max_purchases_per_user p \<noteq> None" using p by blast
qed

lemma channel_again:
  assumes "seed_channel env db = Some (db1, ch)"
  shows "users db1 = users db" "plans db1 = plans db" "models db1 = models db" "route_policies db1 = route_policies db"
    and "channels db2 = channels db1 \<Longrightarrow> seed_channel env2 db2 = Some (db2, ch)"
proof -
  have n: "ch_name (openai_channel i) = ''default-openai''" for i by (simp add: openai_channel_def)
  from assms [unfolded seed_channel_def] have r: "users db1 = users db \<and> plans db1 = plans db \<and> models db1 = models db
    \<and> route_policies db1 = route_policies db \<and> filter (\<lambda>c. ch_name c = ''default-openai'') (channels db1) = [ch]"
    by (cases rule: one_or_none_cases) (simp_all add: n)
  then show "users db1 = users db" "plans db1 = plans db" "models db1 = models db" "route_policies db1 = route_policies db" by simp_all
  from r have "one_or_none (\<lambda>c. ch_name c = ''default-openai'') (channels db1) = Some (Some ch)" by (simp add: one_Some)
  then show "channels db2 = channels db1 \<Longrightarrow> seed_channel env2 db2 = Some (db2, ch)"
    unfolding seed_channel_def by (simp only: option.map option.case)
qed

lemma model_again:
  assumes "seed_model env db ch = Some (db1, m)"
  shows "users db1 = users db" "plans db1 = plans db" "channels db1 = channels db" "route_policies db1 = route_policies db"
    and "models db2 = models db1 \<Longrightarrow> seed_model env2 db2 ch2 = Some (db2, m)"
proof -
  have n: "md_code (mini_model i j) = ''gpt-4o-mini''" for i j by (simp add: mini_model_def)
  from assms [unfolded seed_model_def] have r: "users db1 = users db \<and> plans db1 = plans db \<and> channels db1 = channels db
    \<and> route_policies db1 = route_policies db \<and> filter (\<lambda>m. md_code m = ''gpt-4o-mini'') (models db1) = [m]"
    by (cases rule: one_or_none_cases) (simp_all add: n)
  then show "users db1 = users db" "plans db1 = plans db" "channels db1 = channels db" "route_policies db1 = route_policies db" by simp_all
  from r have "one_or_none (\<lambda>m. md_code m = ''gpt-4o-mini'') (models db1) = Some (Some m)" by (simp add: one_Some)
  then show "models db2 = models db1 \<Longrightarrow> seed_model env2 db2 ch2 = Some (db2, m)"
    unfolding seed_model_def by (simp only: option.map option.case)
qed

lemma route_again:
  assumes "seed_route env db m = Some db1"
  shows "users db1 = users db" "plans db1 = plans db" "channels db1 = channels db" "models db1 = models db"
    and "route_policies db2 = route_policies db1 \<Longrightarrow> seed_route env2 db2 m2 = Some db2"
proof -
  have n: "rp_user_facing_model (default_route i n\<lparr>rp_targets_jsonb := t\<rparr>) = n" for i n t by (simp add: default_route_def)
  from assms [unfolded seed_route_def] have r: "users db1 = users db \<and> plans db1 = plans db \<and> channels db1 = channels db
    \<and> models db1 = models db \<and> (\<exists>x. filter (\<lambda>r. rp_user_facing_model r = ''gpt-4o-mini'') (route_policies db1) = [x])"
    by (cases rule: one_or_none_cases) (simp_all add: n)
  then show "users db1 = users db" "plans db1 = plans db" "channels db1 = channels db" "models db1 = models db" by simp_all
  from r obtain x where "filter (\<lambda>r. rp_user_facing_model r = ''gpt-4o-mini'') (route_policies db1) = [x]" by blast
  then have "one_or_none (\<lambda>r. rp_user_facing_model r = ''gpt-4o-mini'') (route_policies db1) = Some (Some x)" by (rule one_Some)
  then show "route_policies db2 = route_policies db1 \<Longrightarrow> seed_route env2 db2 m2 = Some db2"
    unfolding seed_route_def by simp
qed

lemma rows_again:
  assumes "seed_rows env db = Some db1" and "distinct (map pl_id (plans db))" and "sd_plan_id env \<notin> pl_id ` set (plans db)"
    and "sd_admin_email env2 = sd_admin_email env"
    and "users db2 = users db1" "plans db2 = plans db1" "channels db2 = channels db1" "models db2 = models db1"
      "route_policies db2 = route_policies db1"
  shows "seed_rows env2 db2 = Some db2"
    and "\<exists>p. filter (\<lambda>p. pl_code p = ''free'') (plans db1) = [p] \<and> pl_max_purchases_per_user p \<noteq> None"
proof -
  from assms(1) obtain a b c ch d m where s: "seed_admin env db = Some a" "seed_plan env a = Some b" "seed_channel env b = Some (c, ch)"
    "seed_model env c ch = Some (d, m)" "seed_route env d m = Some db1"
    by (auto simp: seed_rows_def bind_eq_Some_conv)
  note A = admin_again [OF s(1)] and C = channel_again [OF s(3)] and M = model_again [OF s(4)] and R = route_again [OF s(5)]
  have ids: "distinct (map pl_id (plans a))" "sd_plan_id env \<notin> pl_id ` set (plans a)" using assms(2,3) A(1) by simp_all
  note P = plan_again [OF s(2) ids]
  have "seed_admin env2 db2 = Some db2" using A(5) assms(4,5) P C M R by simp
  moreover have "seed_plan env2 db2 = Some db2" using P(5) assms(6) C M R by simp
  moreover have "seed_channel env2 db2 = Some (db2, ch)" using C(5) assms(7) M R by simp
  moreover have "seed_model env2 db2 ch = Some (db2, m)" using M(5) assms(8) R by simp
  moreover have "seed_route env2 db2 m = Some db2" using R(5) assms(9) by simp
  ultimately show "seed_rows env2 db2 = Some db2" by (simp add: seed_rows_def)
  show "\<exists>p. filter (\<lambda>p. pl_code p = ''free'') (plans db1) = [p] \<and> pl_max_purchases_per_user p \<noteq> None"
    using P(6) C(2) M(2) R(2) by simp
qed

text \<open>
  A start right after a successful one adds no row but grants of the free plan: each user gets one more until the
  cap of the plan, also users who have had one. With the seeded cap of one it changes nothing.
\<close>

theorem seeding_again:
  assumes "seed now env db = (db1, True)" and "distinct (map pl_id (plans db))" and "sd_plan_id env \<notin> pl_id ` set (plans db)"
    and "sd_admin_email env2 = sd_admin_email env" and "distinct (map us_id (users db1))"
  shows "\<exists>p l db2. filter (\<lambda>p. pl_code p = ''free'') (plans db1) = [p] \<and> pl_max_purchases_per_user p = Some l
     \<and> seed now2 env2 db1 = (db2, True) \<and> users db2 = users db1 \<and> plans db2 = plans db1 \<and> channels db2 = channels db1
     \<and> models db2 = models db1 \<and> route_policies db2 = route_policies db1
     \<and> (\<forall>u \<in> set (users db1). purchases db2 u p = purchases db1 u p
           + (if pl_active p \<and> pl_quota_cents p > 0 \<and> purchases db1 u p < l then 1 else 0))
     \<and> (l \<le> 1 \<longrightarrow> db2 = db1)"
proof -
  from assms(1) obtain db0 where r: "seed_rows env db = Some db0" and b: "seed_backfill now db0 = Some db1"
    by (auto simp: seed_def split: option.splits)
  obtain p l where p: "filter (\<lambda>p. pl_code p = ''free'') (plans db0) = [p]" and l: "pl_max_purchases_per_user p = Some l"
    using rows_again(2) [OF r assms(2-4), of db0] by auto
  have act: "filter (\<lambda>p. pl_code p = ''free'' \<and> pl_active p) (plans d) = (if pl_active p then [p] else [])" if "plans d = plans db0" for d
  proof -
    have "filter (\<lambda>p. pl_code p = ''free'' \<and> pl_active p) (plans d) = filter pl_active (filter (\<lambda>p. pl_code p = ''free'') (plans db0))"
      by (simp only: filter_filter that)
    then show ?thesis unfolding p by simp
  qed
  define step where "step t d = (if pl_active p \<and> pl_quota_cents p > 0 then fold (backfill_user t p) (users d) d else d)" for t d
  have bf: "seed_backfill t d = Some (step t d)" if "plans d = plans db0" for t d
    using act [OF that] by (simp add: seed_backfill_def one_or_none_def step_def)
  have db1: "db1 = step now db0" using b bf by simp
  have frame: "users (step t d) = users d" "plans (step t d) = plans d" "channels (step t d) = channels d"
    "models (step t d) = models d" "route_policies (step t d) = route_policies d" for t d
    by (simp_all add: step_def)
  have "seed_rows env2 db1 = Some db1"
    by (rule rows_again(1) [OF r assms(2-4)]) (simp_all add: db1 frame)
  then have s2: "seed now2 env2 db1 = (step now2 db1, True)" using bf [of db1 now2] by (simp add: seed_def db1 frame)
  have counts: "purchases (step t d) u p = purchases d u p + (if pl_active p \<and> pl_quota_cents p > 0 \<and> purchases d u p < l then 1 else 0)"
    if "users d = users db1" "u \<in> set (users db1)" for t d u
    using fold_backfill_counts [of "users d" u t p d] assms(5) that l by (simp add: step_def grant_due_def)
  have "step now2 db1 = db1" if "l \<le> 1"
  proof -
    have "\<not> grant_due db1 p u" if "u \<in> set (users db1)" "pl_active p" "pl_quota_cents p > 0" for u
      using counts [of db0 u now] that \<open>l \<le> 1\<close> l by (auto simp: db1 frame grant_due_def purchases_def split: if_splits)
    then show ?thesis using fold_backfill_id [of "users db1" db1 p now2] by (simp add: step_def)
  qed
  then show ?thesis using p l s2 counts [of db1] frame by (intro exI [of _ p] exI [of _ l] exI [of _ "step now2 db1"]) (simp add: db1 frame)
qed

section \<open>Any start\<close>

definition one_added :: "('a \<Rightarrow> bool) \<Rightarrow> 'a list \<Rightarrow> 'a list \<Rightarrow> bool" where
  \<comment> \<open>a row of this kind is added when there is none\<close>
  "one_added f xs ys \<longleftrightarrow> (if list_ex f xs then ys = xs else \<exists>y. f y \<and> ys = xs @ [y])"

definition plan_seeded :: "plan list \<Rightarrow> plan list \<Rightarrow> plan \<Rightarrow> int \<Rightarrow> bool" where
  \<comment> \<open>the free plan afterwards is \<open>p\<close>, a one-time plan with cap \<open>l\<close>; the other plans are as before\<close>
  "plan_seeded ps0 ps p l \<longleftrightarrow>
     filter (\<lambda>p. pl_code p = ''free'') ps = [p]
     \<and> filter (\<lambda>p. pl_code p \<noteq> ''free'') ps = filter (\<lambda>p. pl_code p \<noteq> ''free'') ps0
     \<and> pl_plan_type p = one_time \<and> pl_max_purchases_per_user p = Some l
     \<and> (case filter (\<lambda>p. pl_code p = ''free'') ps0 of
          [] \<Rightarrow> l = 1 \<and> pl_quota_cents p = 100 \<and> pl_active p
        | p0 # _ \<Rightarrow> p = p0\<lparr>pl_plan_type := one_time, pl_max_purchases_per_user := Some l\<rparr>
            \<and> l = (case pl_max_purchases_per_user p0 of None \<Rightarrow> 1 | Some n \<Rightarrow> n))"

definition rows_seeded :: "seed_env \<Rightarrow> session \<Rightarrow> session \<Rightarrow> bool" where
  \<comment> \<open>the rows added: the administrator, the channel, the model on that channel, the route to that model\<close>
  "rows_seeded env db db2 \<longleftrightarrow>
     one_added (\<lambda>u. us_email u = sd_admin_email env) (users db) (users db2)
     \<and> (\<forall>u \<in> set (users db2) - set (users db). us_role u = role_admin)
     \<and> one_added (\<lambda>c. ch_name c = ''default-openai'') (channels db) (channels db2)
     \<and> one_added (\<lambda>m. md_code m = ''gpt-4o-mini'') (models db) (models db2)
     \<and> (\<forall>m \<in> set (models db2) - set (models db). \<exists>c \<in> set (channels db2). ch_name c = ''default-openai'' \<and> md_channel_id m = ch_id c)
     \<and> one_added (\<lambda>r. rp_user_facing_model r = ''gpt-4o-mini'') (route_policies db) (route_policies db2)
     \<and> (\<forall>r \<in> set (route_policies db2) - set (route_policies db). \<exists>m \<in> set (models db2). md_code m = ''gpt-4o-mini''
          \<and> rp_targets_jsonb r = [[(''model_id'', JInt (md_id m)), (''weight'', JInt 1)]])"

lemma none_found: "filter f xs = [] \<Longrightarrow> \<not> list_ex f xs"
  by (induction xs) (auto split: if_splits)

lemma one_found: "filter f xs = [x] \<Longrightarrow> list_ex f xs \<and> x \<in> set xs \<and> f x"
  by (auto simp: filter_eq_Cons_iff list_ex_iff)

lemma admin_step:
  assumes "seed_admin env db = Some db1"
  shows "\<exists>us. db1 = db\<lparr>users := us\<rparr> \<and> one_added (\<lambda>u. us_email u = sd_admin_email env) (users db) us
     \<and> (\<forall>u \<in> set us - set (users db). us_role u = role_admin)"
  using assms unfolding seed_admin_def
proof (cases rule: one_or_none_cases)
  case 1
  then show ?thesis using none_found [OF 1(1)]
    by (intro exI [of _ "users db1"]) (auto simp: one_added_def)
next
  case (2 x)
  then show ?thesis using one_found [OF 2(1)] by (intro exI [of _ "users db"]) (simp add: one_added_def)
qed

lemma plan_step:
  assumes "seed_plan env db = Some db1" and "distinct (map pl_id (plans db))"
  shows "\<exists>ps p l. db1 = db\<lparr>plans := ps\<rparr> \<and> plan_seeded (plans db) ps p l"
  using assms(1) unfolding seed_plan_def
proof (cases rule: one_or_none_cases)
  case 1
  then show ?thesis unfolding plan_seeded_def
    by (intro exI [of _ "plans db1"] exI [of _ "free_plan (sd_plan_id env)"] exI [of _ 1])
      (auto simp: free_plan_def default_plan_def)
next
  case (2 p0)
  let ?f = "\<lambda>p. pl_code p = ''free''" let ?ps = "row_upd pl_id (pl_id p0) repaired_plan (plans db)"
  have m: "p0 \<in> set (plans db)" "?f p0" using one_found [OF 2(1)] by auto
  have f: "filter ?f (row_upd pl_id i repaired_plan ps) = row_upd pl_id i repaired_plan (filter ?f ps)" for i ps
    by (induction ps) (auto simp: row_upd_def)
  have u: "p = p0" if "p \<in> set (plans db)" "pl_id p = pl_id p0" for p
    using that m(1) assms(2) by (metis distinct_map inj_onD)
  have g: "\<forall>p \<in> set ps. pl_id p = pl_id p0 \<longrightarrow> p = p0 \<Longrightarrow>
      filter (\<lambda>p. \<not> ?f p) (row_upd pl_id (pl_id p0) repaired_plan ps) = filter (\<lambda>p. \<not> ?f p) ps" for ps
    using m(2) by (induction ps) (auto simp: row_upd_def)
  have "filter ?f ?ps = [repaired_plan p0]" using 2(1) by (simp add: f) (simp add: row_upd_def)
  moreover have "filter (\<lambda>p. \<not> ?f p) ?ps = filter (\<lambda>p. \<not> ?f p) (plans db)" by (rule g) (use u in blast)
  moreover have "db1 = db\<lparr>plans := ?ps\<rparr>" using 2(2) by simp
  ultimately show ?thesis unfolding plan_seeded_def 2(1)
    by (intro exI [of _ ?ps] exI [of _ "repaired_plan p0"]
        exI [of _ "case pl_max_purchases_per_user p0 of None \<Rightarrow> 1 | Some n \<Rightarrow> n"])
      (auto simp: repaired_plan_def split: option.split)
qed

lemma channel_step:
  assumes "seed_channel env db = Some (db1, ch)"
  shows "\<exists>cs. db1 = db\<lparr>channels := cs\<rparr> \<and> one_added (\<lambda>c. ch_name c = ''default-openai'') (channels db) cs
     \<and> ch \<in> set cs \<and> ch_name ch = ''default-openai''"
  using assms unfolding seed_channel_def
proof (cases rule: one_or_none_cases)
  case 1
  then show ?thesis using none_found [OF 1(1)]
    by (intro exI [of _ "channels db1"]) (auto simp: one_added_def openai_channel_def)
next
  case (2 x)
  then show ?thesis using one_found [OF 2(1)] by (intro exI [of _ "channels db"]) (auto simp: one_added_def)
qed

lemma model_step:
  assumes "seed_model env db ch = Some (db1, m)"
  shows "\<exists>ms. db1 = db\<lparr>models := ms\<rparr> \<and> one_added (\<lambda>m. md_code m = ''gpt-4o-mini'') (models db) ms
     \<and> (\<forall>x \<in> set ms - set (models db). md_channel_id x = ch_id ch) \<and> m \<in> set ms \<and> md_code m = ''gpt-4o-mini''"
  using assms unfolding seed_model_def
proof (cases rule: one_or_none_cases)
  case 1
  then show ?thesis using none_found [OF 1(1)]
    by (intro exI [of _ "models db1"]) (auto simp: one_added_def mini_model_def default_model_def)
next
  case (2 x)
  then show ?thesis using one_found [OF 2(1)] by (intro exI [of _ "models db"]) (auto simp: one_added_def)
qed

lemma route_step:
  assumes "seed_route env db m = Some db1"
  shows "\<exists>rs. db1 = db\<lparr>route_policies := rs\<rparr> \<and> one_added (\<lambda>r. rp_user_facing_model r = ''gpt-4o-mini'') (route_policies db) rs
     \<and> (\<forall>r \<in> set rs - set (route_policies db). rp_targets_jsonb r = [[(''model_id'', JInt (md_id m)), (''weight'', JInt 1)]])"
  using assms unfolding seed_route_def
proof (cases rule: one_or_none_cases)
  case 1
  then show ?thesis using none_found [OF 1(1)]
    by (intro exI [of _ "route_policies db1"]) (auto simp: one_added_def default_route_def)
next
  case (2 x)
  then show ?thesis using one_found [OF 2(1)] by (intro exI [of _ "route_policies db"]) (simp add: one_added_def)
qed

lemma fold_backfill_grants:
  assumes "distinct (map us_id us)"
  shows "\<exists>new. subscriptions (fold (backfill_user now free) us db) = subscriptions db @ new
    \<and> map sb_user_id new = map us_id (filter (grant_due db free) us)
    \<and> (\<forall>s \<in> set new. sb_plan_id s = pl_id free \<and> sb_remaining_cents s = pl_quota_cents free \<and> sb_status s = sub_active)"
  using assms
proof (induction us arbitrary: db)
  case (Cons v us)
  let ?db = "backfill_user now free v db"
  obtain new where n: "subscriptions (fold (backfill_user now free) us ?db) = subscriptions ?db @ new"
      "map sb_user_id new = map us_id (filter (grant_due ?db free) us)"
      "\<forall>s \<in> set new. sb_plan_id s = pl_id free \<and> sb_remaining_cents s = pl_quota_cents free \<and> sb_status s = sub_active"
    using Cons.IH [of ?db] Cons.prems by auto
  have same: "grant_due ?db free u = grant_due db free u" if "u \<in> set us" for u
  proof -
    have "us_id v \<noteq> us_id u" using Cons.prems that by auto
    then show ?thesis by (simp add: grant_due_def purchases_backfill split: option.split)
  qed
  have f: "filter (grant_due ?db free) us = filter (grant_due db free) us" using same by (intro filter_cong) simp_all
  show ?case
  proof (cases "grant_due db free v")
    case True
    then have "subscriptions ?db = subscriptions db @ [new_subscription now db v free]" by (simp add: backfill_user_def)
    then show ?thesis using n True unfolding f
      by (intro exI [of _ "new_subscription now db v free # new"]) (simp add: new_subscription_def)
  next
    case False
    then have "?db = db" by (simp add: backfill_user_def)
    then show ?thesis using n False unfolding f by (intro exI [of _ new]) simp
  qed
qed simp

lemma rows_step:
  assumes "seed_rows env db = Some db0" and "distinct (map pl_id (plans db))"
  shows "\<exists>us ps cs ms rs p l. db0 = db\<lparr>users := us, plans := ps, channels := cs, models := ms, route_policies := rs\<rparr>
    \<and> rows_seeded env db db0 \<and> plan_seeded (plans db) ps p l"
proof -
  from assms(1) obtain a b c ch d m where st: "seed_admin env db = Some a" "seed_plan env a = Some b" "seed_channel env b = Some (c, ch)"
      "seed_model env c ch = Some (d, m)" "seed_route env d m = Some db0"
    by (auto simp: seed_rows_def bind_eq_Some_conv)
  obtain us where us: "a = db\<lparr>users := us\<rparr>" "one_added (\<lambda>u. us_email u = sd_admin_email env) (users db) us"
      "\<forall>u \<in> set us - set (users db). us_role u = role_admin" using admin_step [OF st(1)] by blast
  have a: "distinct (map pl_id (plans a))" "plans a = plans db" using assms(2) us(1) by simp_all
  obtain ps p l where b: "b = a\<lparr>plans := ps\<rparr>" "plan_seeded (plans db) ps p l"
    using plan_step [OF st(2) a(1)] unfolding a(2) by blast
  obtain cs where cs: "c = b\<lparr>channels := cs\<rparr>" "one_added (\<lambda>c. ch_name c = ''default-openai'') (channels b) cs"
      "ch \<in> set cs" "ch_name ch = ''default-openai''" using channel_step [OF st(3)] by blast
  obtain ms where ms: "d = c\<lparr>models := ms\<rparr>" "one_added (\<lambda>m. md_code m = ''gpt-4o-mini'') (models c) ms"
      "\<forall>x \<in> set ms - set (models c). md_channel_id x = ch_id ch" "m \<in> set ms" "md_code m = ''gpt-4o-mini''"
    using model_step [OF st(4)] by blast
  obtain rs where rs: "db0 = d\<lparr>route_policies := rs\<rparr>"
      "one_added (\<lambda>r. rp_user_facing_model r = ''gpt-4o-mini'') (route_policies d) rs"
      "\<forall>r \<in> set rs - set (route_policies d). rp_targets_jsonb r = [[(''model_id'', JInt (md_id m)), (''weight'', JInt 1)]]"
    using route_step [OF st(5)] by blast
  have db0: "db0 = db\<lparr>users := us, plans := ps, channels := cs, models := ms, route_policies := rs\<rparr>"
    by (simp add: us(1) b cs(1) ms(1) rs(1))
  have old: "channels b = channels db" "models c = models db" "route_policies d = route_policies db"
    by (simp_all add: us(1) b cs(1) ms(1))
  have "rows_seeded env db db0"
    using us(2,3) cs(2-4) ms(2-5) rs(2,3) unfolding old rows_seeded_def by (auto simp: db0)
  then show ?thesis using db0 b(2) by blast
qed

lemma fold_backfill_more:
  "api_keys (fold (backfill_user now p) us db) = api_keys db" "orders (fold (backfill_user now p) us db) = orders db"
  "usage_logs (fold (backfill_user now p) us db) = usage_logs db"
  by (induction us arbitrary: db) (simp_all add: backfill_user_def grant_subscription_def Let_def)

lemma backfill_keeps:
  assumes "seed_backfill now db0 = Some db2"
  shows "users db2 = users db0 \<and> plans db2 = plans db0 \<and> channels db2 = channels db0 \<and> models db2 = models db0
      \<and> route_policies db2 = route_policies db0 \<and> api_keys db2 = api_keys db0 \<and> orders db2 = orders db0
      \<and> usage_logs db2 = usage_logs db0"
  using assms unfolding seed_backfill_def
  by (cases rule: one_or_none_cases) (auto simp: fold_backfill_more)

lemma backfill_step:
  assumes "seed_backfill now db0 = Some db2" and "plan_seeded ps (plans db0) p l" and "distinct (map us_id (users db0))"
  shows "\<exists>new. subscriptions db2 = subscriptions db0 @ new
    \<and> map sb_user_id new = map us_id (filter (\<lambda>u. pl_active p \<and> pl_quota_cents p > 0 \<and> purchases db0 u p < l) (users db0))
    \<and> (\<forall>s \<in> set new. sb_plan_id s = pl_id p \<and> sb_remaining_cents s = pl_quota_cents p \<and> sb_status s = sub_active)
    \<and> (new = [] \<longrightarrow> db2 = db0)"
proof -
  let ?go = "pl_active p \<and> pl_quota_cents p > 0"
  have f: "filter (\<lambda>p. pl_code p = ''free'') (plans db0) = [p]" using assms(2) unfolding plan_seeded_def by blast
  have "filter (\<lambda>p. pl_code p = ''free'' \<and> pl_active p) (plans db0) = filter pl_active (filter (\<lambda>p. pl_code p = ''free'') (plans db0))"
    by (simp only: filter_filter)
  then have "filter (\<lambda>p. pl_code p = ''free'' \<and> pl_active p) (plans db0) = (if pl_active p then [p] else [])"
    unfolding f by simp
  then have db2: "db2 = (if ?go then fold (backfill_user now p) (users db0) db0 else db0)"
    using assms(1) by (auto simp: seed_backfill_def one_or_none_def split: if_splits)
  have due: "grant_due db0 p = (\<lambda>u. purchases db0 u p < l)"
    using assms(2) by (auto simp: grant_due_def plan_seeded_def fun_eq_iff)
  show ?thesis
  proof (cases ?go)
    case True
    then obtain new where n: "subscriptions db2 = subscriptions db0 @ new"
      "map sb_user_id new = map us_id (filter (\<lambda>u. purchases db0 u p < l) (users db0))"
      "\<forall>s \<in> set new. sb_plan_id s = pl_id p \<and> sb_remaining_cents s = pl_quota_cents p \<and> sb_status s = sub_active"
      using fold_backfill_grants [of "users db0" now p db0] assms(3) unfolding due by (auto simp: db2)
    then have "new = [] \<longrightarrow> db2 = db0"
      using fold_backfill_id [of "users db0" db0 p now] by (auto simp: db2 due filter_empty_conv)
    with n True show ?thesis by (intro exI [of _ new]) simp
  next
    case False
    then show ?thesis by (intro exI [of _ "[]"]) (auto simp: db2)
  qed
qed

text \<open>
  Claim C40. What a start does that returns, on any database with unique plan and user ids: each of the five
  kinds of rows is added when there is none of it and left alone otherwise, but for the free plan, which becomes
  a one-time plan and gets a cap if it has none; an added route leads to the model, and an added model to the channel.
  Then each user, also one who is new, gets one running subscription with the quota of the free plan if the plan
  is active and has quota and the user's purchases of it, past ones included, are below its cap. Keys, orders
  and usage do not change. A start that adds no row, finds the free plan as it should be and nobody below the cap
  changes nothing.
\<close>

theorem seed_adds_missing:
  assumes "seed now env db = (db2, True)" and "distinct (map pl_id (plans db))" and "distinct (map us_id (users db2))"
  shows "rows_seeded env db db2 \<and> api_keys db2 = api_keys db \<and> orders db2 = orders db \<and> usage_logs db2 = usage_logs db
    \<and> (\<exists>p l new. plan_seeded (plans db) (plans db2) p l
         \<and> subscriptions db2 = subscriptions db @ new
         \<and> map sb_user_id new = map us_id (filter (\<lambda>u. pl_active p \<and> pl_quota_cents p > 0 \<and> purchases db u p < l) (users db2))
         \<and> (\<forall>s \<in> set new. sb_plan_id s = pl_id p \<and> sb_remaining_cents s = pl_quota_cents p \<and> sb_status s = sub_active)
         \<and> (users db2 = users db \<and> plans db2 = plans db \<and> channels db2 = channels db \<and> models db2 = models db
            \<and> route_policies db2 = route_policies db \<and> new = [] \<longrightarrow> db2 = db))"
proof -
  from assms(1) obtain db0 where rows: "seed_rows env db = Some db0" and bf: "seed_backfill now db0 = Some db2"
    by (auto simp: seed_def split: option.splits)
  from rows_step [OF rows assms(2)] obtain us ps cs ms rs p l where
    db0: "db0 = db\<lparr>users := us, plans := ps, channels := cs, models := ms, route_policies := rs\<rparr>"
    and R: "rows_seeded env db db0" and P: "plan_seeded (plans db) ps p l" by blast
  have P0: "plan_seeded (plans db) (plans db0) p l" using P by (simp add: db0)
  note F = backfill_keeps [OF bf]
  have ids: "distinct (map us_id (users db0))" using assms(3) F by simp
  from backfill_step [OF bf P0 ids] F ids obtain new where new: "subscriptions db2 = subscriptions db0 @ new"
      "map sb_user_id new = map us_id (filter (\<lambda>u. pl_active p \<and> pl_quota_cents p > 0 \<and> purchases db0 u p < l) (users db0))"
      "\<forall>s \<in> set new. sb_plan_id s = pl_id p \<and> sb_remaining_cents s = pl_quota_cents p \<and> sb_status s = sub_active"
      "new = [] \<longrightarrow> db2 = db0" by blast
  have q: "purchases db0 = purchases db" by (simp add: purchases_def fun_eq_iff db0)
  have "rows_seeded env db db2" using R F by (simp add: rows_seeded_def)
  moreover have "api_keys db2 = api_keys db \<and> orders db2 = orders db \<and> usage_logs db2 = usage_logs db" using F by (simp add: db0)
  moreover have "plan_seeded (plans db) (plans db2) p l" using P0 F by simp
  moreover have "db2 = db" if "users db2 = users db \<and> plans db2 = plans db \<and> channels db2 = channels db \<and> models db2 = models db
            \<and> route_policies db2 = route_policies db \<and> new = []"
    using that F new(4) by (simp add: db0)
  ultimately show ?thesis using new(1-3) F unfolding q by (intro conjI exI [of _ p] exI [of _ l] exI [of _ new]) (auto simp: db0)
qed

section \<open>Example\<close>

definition demo_seed :: seed_env where
  "demo_seed = \<lparr>sd_admin_email = ''root'', sd_admin_password_hash = ''h'', sd_user_id = 1, sd_plan_id = 1, sd_channel_id = 1,
     sd_model_id = 1, sd_route_id = 1\<rparr>"

theorem seeding_again_witness:
  "\<exists>db1. seed 0 demo_seed empty_session = (db1, True) \<and> length (subscriptions db1) = 1 \<and> seed 5 demo_seed db1 = (db1, True)"
proof -
  define db1 where "db1 = fst (seed 0 demo_seed empty_session)"
  have "snd (seed 0 demo_seed empty_session)" by code_simp
  then have s: "seed 0 demo_seed empty_session = (db1, True)" by (simp add: db1_def prod_eq_iff)
  have u: "map us_id (users db1) = [1]" unfolding db1_def by code_simp
  have n: "length (subscriptions db1) = 1" unfolding db1_def by code_simp
  have f: "map pl_max_purchases_per_user (filter (\<lambda>p. pl_code p = ''free'') (plans db1)) = [Some 1]" unfolding db1_def by code_simp
  have e: "plans empty_session = []" by (simp add: empty_session_def)
  from seeding_again [OF s, of demo_seed 5] u e obtain p l db2 where "filter (\<lambda>p. pl_code p = ''free'') (plans db1) = [p]"
    "pl_max_purchases_per_user p = Some l" "seed 5 demo_seed db1 = (db2, True)" "l \<le> 1 \<longrightarrow> db2 = db1"
    by (auto simp: distinct_map)
  with f have "seed 5 demo_seed db1 = (db1, True)" by simp
  with s n show ?thesis by blast
qed

text \<open>The first start on the empty database, and a start after a second user has signed up and the route has been deleted.\<close>

definition demo_joined :: session where
  "demo_joined = (let db = fst (seed 0 demo_seed empty_session) in
     db\<lparr>users := users db @ [(default_user 2 0)\<lparr>us_email := ''ada''\<rparr>], route_policies := []\<rparr>)"

theorem seed_adds_missing_witness:
  "rows_seeded demo_seed demo_joined (fst (seed 5 demo_seed demo_joined))
   \<and> users (fst (seed 5 demo_seed demo_joined)) = users demo_joined
   \<and> length (route_policies (fst (seed 5 demo_seed demo_joined))) = 1
   \<and> map sb_user_id (subscriptions (fst (seed 5 demo_seed demo_joined))) = [1, 2]"
proof -
  have "snd (seed 5 demo_seed demo_joined)" by code_simp
  then have s: "seed 5 demo_seed demo_joined = (fst (seed 5 demo_seed demo_joined), True)" by (simp add: prod_eq_iff)
  have "distinct (map pl_id (plans demo_joined))" "distinct (map us_id (users (fst (seed 5 demo_seed demo_joined))))"
    by code_simp+
  note r = seed_adds_missing [OF s this]
  have "list_ex (\<lambda>u. us_email u = sd_admin_email demo_seed) (users demo_joined)" by code_simp
  then have "users (fst (seed 5 demo_seed demo_joined)) = users demo_joined"
    using r by (simp add: rows_seeded_def one_added_def)
  moreover have "length (route_policies (fst (seed 5 demo_seed demo_joined))) = 1" by code_simp
  moreover have "map sb_user_id (subscriptions (fst (seed 5 demo_seed demo_joined))) = [1, 2]" by code_simp
  ultimately show ?thesis using r by blast
qed

end
