(* ===== verification/Spec2Isabelle.thy ===== *)
theory Spec2Isabelle
  imports Key_Laws Protocol_Laws Catalog_Laws Route_Admin_Laws Messages_Laws Envoy_Laws Stream_Laws Passthrough_Laws Account_Laws Plan_Admin
    Xds_Laws Config_Laws Envoy_Admin_Laws Reports Seed
begin

text \<open>
  A verification library of the llmxy gateway: the Python service under \<^verbatim>\<open>src/api/app\<close> that sells access
  to language models. Users buy plans or top up a wallet, create API keys, and call relay endpoints;
  a request is authenticated, admitted by quota and rate limit, routed to an upstream model,
  answered, charged and logged. Administrators maintain channels, models and routes.

  \<^bold>\<open>How the program is modelled.\<close> The database is the record \<open>session\<close>, one list of rows per table,
  with the primary key sequences and the \<open>info\<close> dictionary of the SQLAlchemy session. A handler is a
  function from the database (and the loaded user and key objects, which the code mutates beside
  their rows) to the new database and a result \<open>http_error + 'a\<close>; an exception that a handler does
  not catch is the 500 response. A handler that raises leaves the database of its caller, as the
  transaction is rolled back. Redis is a map from keys to values with expiry times and a flag that
  tells whether it answers. Time is an argument, in microseconds of UTC. Strings are UTF-8 byte
  lists; JSON values and the dynamic operations of Python on them are in \<open>Py_Json\<close>. Integers are
  Python's unbounded \<open>int\<close>; the float divisions of the price functions are computed exactly as IEEE
  doubles in \<open>Py_Numbers\<close>.

  \<^bold>\<open>Theories and sources.\<close>
  \<^item> \<open>Llmxy_Prelude\<close>: results, rows of tables, the locale of step invariants, shared lemmas.
  \<^item> \<open>Py_Numbers\<close>, \<open>Py_Calendar\<close>, \<open>Py_Text\<close>, \<open>Py_Json\<close>, \<open>Sse_Text\<close>: what the sources use of Python
    (true division and \<open>ceil\<close>, dates, strings, JSON, decoding and splitting of byte streams).
  \<^item> \<open>Data_Model\<close>: \<^verbatim>\<open>models/__init__.py\<close>.
  \<^item> \<open>Billing\<close>, \<open>Billing_Laws\<close>, \<open>Refund_Laws\<close>: \<^verbatim>\<open>services/billing.py\<close>. Charges conserve money, drain
    subscriptions by expiry, never overdraw within the available funds; refunds are exact; prices are
    exact below a stated bound (and differ from what \<^verbatim>\<open>tests/test_billing.py\<close> expects).
  \<^item> \<open>Subscriptions\<close>, \<open>Renewal_Laws\<close>, \<open>Worker_Laws\<close>: \<^verbatim>\<open>api/v1/plans.py\<close>, \<^verbatim>\<open>subscriptions.py\<close>,
    \<^verbatim>\<open>orders.py\<close>, \<^verbatim>\<open>admin/users.py\<close>, \<^verbatim>\<open>services/subscriptions_renewal.py\<close> and the payment providers.
  \<^item> \<open>Ledger\<close>: accounting transactions as a step relation; the ledger agrees with the wallets in every
    reachable state, and a payment is credited once, exactly what was bought.
  \<^item> \<open>Redis_Store\<close>, \<open>Quota_Cache\<close>, \<open>Quota_Laws\<close>, \<open>Commit_Laws\<close>: \<^verbatim>\<open>services/quota_cache.py\<close>, \<^verbatim>\<open>quota.py\<close>,
    \<^verbatim>\<open>db/session.py\<close>. The fast quota check agrees with the database on a cold cache, but admits
    users in debt, mirrored charges keep
    cached balances equal, the rate limit admits exactly its number.
  \<^item> \<open>Ttl_Cache\<close>, \<open>Key_Cache\<close>, \<open>Api_Keys\<close>, \<open>Key_Laws\<close>: \<^verbatim>\<open>core/ttl_cache.py\<close>, \<^verbatim>\<open>services/api_key_cache.py\<close>,
    \<^verbatim>\<open>core/cache_invalidate.py\<close>, \<^verbatim>\<open>services/api_key.py\<close>, \<^verbatim>\<open>api_key_expiry.py\<close>, \<^verbatim>\<open>api/v1/api_keys.py\<close>,
    \<^verbatim>\<open>core/deps.py\<close>. Authentication admits only live keys of active users; windows roll to the present; the
    staleness of snapshots is bounded.
  \<^item> \<open>Protocol_Ids\<close>, \<open>Protocol_Laws\<close>: \<^verbatim>\<open>services/protocols/ids.py\<close>, \<^verbatim>\<open>services/providers/registry.py\<close>,
    \<^verbatim>\<open>image_registry.py\<close>, \<^verbatim>\<open>openai_compat.py\<close>.
  \<^item> \<open>Smart_Embedding\<close>, \<open>Smart_Laws\<close>: \<^verbatim>\<open>services/providers/smart_embedding.py\<close>. The classifier returns the
    most similar allowed label, and its caches do not change the answer.
  \<^item> \<open>Routing\<close>, \<open>Routing_Laws\<close>: \<^verbatim>\<open>services/providers/router.py\<close>, \<^verbatim>\<open>services/geo.py\<close>. Decisions are sound;
    round robin is fair.
  \<^item> \<open>Catalog\<close>, \<open>Catalog_Laws\<close>, \<open>Route_Admin_Laws\<close>: \<^verbatim>\<open>api/v1/admin/channels.py\<close>, \<^verbatim>\<open>models.py\<close>,
    \<^verbatim>\<open>routes.py\<close>, \<^verbatim>\<open>core/crypto.py\<close>. Every model of a reachable catalogue can be served; a route written by
    the endpoints is served when it has a usable target, with the exceptions of the smart strategy stated there.
  \<^item> \<open>Relay\<close>, \<open>Relay_Laws\<close>: \<^verbatim>\<open>api/relay/chat.py\<close>, \<^verbatim>\<open>embeddings.py\<close>, \<^verbatim>\<open>images.py\<close>, \<^verbatim>\<open>models_list.py\<close>, \<^verbatim>\<open>services/embedding_relay.py\<close>, \<^verbatim>\<open>services/image_relay.py\<close>. Image holds are reconciled to the
    actual cost, failover reaches the first candidate that answers and bills its model.
  \<^item> \<open>Chat_Protocols\<close>, \<open>Messages_Relay\<close>, \<open>Messages_Laws\<close>: \<^verbatim>\<open>services/protocols/chat.py\<close>, \<^verbatim>\<open>api/relay/anthropic.py\<close>. A converted stream is one well-formed message and does not
    depend on how its bytes are cut; every relay endpoint charges what it logs.
  \<^item> \<open>Responses_Protocol\<close>, \<open>Responses_Relay\<close>, \<open>Responses_Laws\<close>: \<^verbatim>\<open>services/protocols/openai_responses.py\<close>, \<^verbatim>\<open>api/relay/responses.py\<close>. The responses protocol:
    a chat stream survives the conversion and back, with its pieces, closing text and token counts.
  \<^item> \<open>Openai_Adapters\<close>, \<open>Foreign_Adapters\<close>, \<open>Adapter_Laws\<close>, \<open>Stream_Laws\<close>, \<open>Passthrough_Laws\<close>: \<^verbatim>\<open>services/providers/openai.py\<close>, \<^verbatim>\<open>azure_openai.py\<close>, \<^verbatim>\<open>anthropic.py\<close>, \<^verbatim>\<open>gemini.py\<close>. The adapters over
    parametric HTTP calls: retries on a refused token limit, metering of streams, requests that pass unchanged.
  \<^item> \<open>Ext_Proc\<close>, \<open>Ext_Laws\<close>: \<^verbatim>\<open>services/envoy/ext_proc_server.py\<close>. Admission and route decision for Envoy agree with the relay
    endpoints but for two exceptions, keys that have just expired and users in debt.
  \<^item> \<open>Translate\<close>, \<open>Translate_Laws\<close>: \<^verbatim>\<open>api/internal/translate.py\<close>. The translator charges what it logs, on loaded and on detached accounts.
  \<^item> \<open>Als\<close>, \<open>Als_Laws\<close>, \<open>Envoy_Laws\<close>: \<^verbatim>\<open>services/envoy/als_server.py\<close>, \<^verbatim>\<open>access_log_buffer.py\<close>. Billing of access log entries; a request through Envoy is
    decided by the external processor, served by the translator and billed once, given the headers that \<open>Envoy_Config\<close> lets Envoy log.
  \<^item> \<open>Accounts\<close>, \<open>Account_Laws\<close>: \<^verbatim>\<open>api/v1/auth.py\<close>, \<^verbatim>\<open>core/security.py\<close>. Registration, login, tokens and OAuth; a callback signs in exactly one account, that of a
    profile the provider has verified.
  \<^item> \<open>Plan_Admin\<close>: \<^verbatim>\<open>api/v1/admin/plans.py\<close>. Codes stay unique and no subscription or order loses its plan.
  \<^item> \<open>Envoy_Config\<close>, \<open>Config_Laws\<close>: \<^verbatim>\<open>services/envoy/config.py\<close>, \<^verbatim>\<open>bootstrap.py\<close>. The resources rendered for a node, closed under their references.
  \<^item> \<open>Xds_Server\<close>, \<open>Xds_Laws\<close>: \<^verbatim>\<open>services/envoy/xds_server.py\<close>. The configuration streams as a step relation between suspension points: no subscription
    is forgotten, acknowledgements end the exchange, and when notifications are lost.
  \<^item> \<open>Envoy_Runtime\<close>, \<open>Runtime_Laws\<close>: \<^verbatim>\<open>services/envoy/runtime.py\<close>. Local processes, adoption, the health monitor with its leader lock and its
    counters of failed probes, and the tail of logs.
  \<^item> \<open>Envoy_Admin\<close>, \<open>Envoy_Admin_Laws\<close>: \<^verbatim>\<open>api/v1/admin/envoy.py\<close>, \<^verbatim>\<open>api/v1/transport.py\<close>. Administration of instances; identities and ports stay unique.
  \<^item> \<open>Reports\<close>: \<^verbatim>\<open>api/v1/usage.py\<close>, \<^verbatim>\<open>models.py\<close>, \<^verbatim>\<open>admin/usage.py\<close>, \<^verbatim>\<open>admin/stats.py\<close>, \<^verbatim>\<open>admin/users.py\<close>. Pages of a report partition the rows it selects.
  \<^item> \<open>Seed\<close>: \<^verbatim>\<open>scripts/seed.py\<close>. Seed data: what any start adds to any database.

  \<^bold>\<open>Interfaces.\<close> Where a part relies on the contract of another, the contract is a locale that is
  interpreted on the model's own definitions: \<open>row_table\<close> (tables of rows with unique keys),
  \<open>step_invariant\<close> (reachable states of ledger, keys, catalogue and Envoy fleet), \<open>int_store\<close> (the counters
  of Redis), \<open>snapshot_cache\<close> (the cache a lookup may trust), \<open>payments\<close> (the charges and refunds of the
  hold and reconcile flow of images), \<open>streaming_method\<close> (what every adapter does with a streamed request)
  and \<open>account_charging\<close> (the charge of the translator on loaded and on detached accounts).

  \<^bold>\<open>Parameters.\<close> Code outside the repository is an argument: upstream calls (numbered, so that each call
  may answer differently), the random draw, regular expressions of keyword rules, the GeoIP reader,
  Fernet, SHA-256, \<open>sqrt\<close>, \<open>json.loads\<close>, password hashing and JWT signing, \<open>urlparse\<close>, the YAML printer, protobuf
  packing, the host of a process (ports, files, signals, HTTP probes), the text Python prints for a container or a float, drawn
  identifiers, and whether SQLAlchemy synchronises loaded objects with a bulk update
  (\<open>sync\<close>). No theorem fixes one of them beyond the named hypothesis in its statement.

  \<^bold>\<open>Termination.\<close> No definition uses fuel: the loops over rows, candidates, chunks and lines are
  structural, and those that are not (rolling a key's window forward, decoding and splitting of
  text) have a measure.

  \<^bold>\<open>Not modelled.\<close> Process wiring in \<^verbatim>\<open>main.py\<close> (logging, middleware, the order of start-up tasks), the
  settings class, connections, the start and stop of the gRPC servers, the reconnection loop of the Redis
  listeners and the asyncio loops that repeat the workers' passes: they only call what is modelled.
  Migrations, generated stubs, the front ends and deployment files are data or glue.
\<close>

end
